(* ===== verification/Prelude.thy ===== *)
theory Prelude
  imports Complex_Main "HOL-Library.Word" "HOL-Library.Multiset" "HOL-Library.List_Lexorder"
    "HOL-Library.Char_ord"
begin

text \<open>
  Shared vocabulary of the development: the Go types that every package of the backend uses
  (UUIDs, instants, maps, slices, 64-bit integers), how a range loop over a Go map and a call
  of sort.Slice are modelled, and the generic lemmas on them.
\<close>

section \<open>Lemma collections\<close>

named_theorems guard_simps \<open>definitions of guards and validators\<close>
named_theorems store_simps \<open>equations of the store operations\<close>

section \<open>Identifiers and instants\<close>

text \<open>
  uuid.UUID is a 16-byte array; bytes.Compare on it is the unsigned comparison of the 128-bit
  number, and String() is injective, so a map keyed by id.String() is keyed by the number.
  time.Time is the number of nanoseconds since the zero instant, which IsZero tests.
\<close>

type_synonym uuid = "128 word"

abbreviation (input) uuid_nil :: uuid where
  "uuid_nil \<equiv> 0"

type_synonym go_time = int

abbreviation (input) zero_time :: go_time where
  "zero_time \<equiv> 0"

section \<open>Go maps\<close>

text \<open>
  A Go map is a partial function. The order in which range visits its keys is not determined
  by the language: an operation that iterates takes the visiting order as an argument
  \<open>ks\<close>, and \<open>iterates m ks\<close> says that \<open>ks\<close> is one of the possible orders.
\<close>

definition iterates :: "('k \<rightharpoonup> 'v) \<Rightarrow> 'k list \<Rightarrow> bool" where
  "iterates m ks \<longleftrightarrow> distinct ks \<and> set ks = dom m"

definition range_values :: "('k \<rightharpoonup> 'v) \<Rightarrow> 'k list \<Rightarrow> 'v list" where
  "range_values m ks = List.map_filter m ks"

lemma range_values_Nil [simp]: "range_values m [] = []"
  by (simp add: range_values_def List.map_filter_def)

lemma range_values_Cons [simp]:
  "range_values m (k # ks) =
     (case m k of None \<Rightarrow> range_values m ks | Some v \<Rightarrow> v # range_values m ks)"
  by (simp add: range_values_def List.map_filter_def split: option.split)

lemma set_range_values: "set (range_values m ks) = {v. \<exists>k \<in> set ks. m k = Some v}"
  by (induction ks) (auto split: option.splits)

lemma set_range_values_iterates: "iterates m ks \<Longrightarrow> set (range_values m ks) = ran m"
  by (auto simp: set_range_values iterates_def ran_def)

lemma mset_range_values:
  "distinct ks \<Longrightarrow> set ks \<subseteq> dom m \<Longrightarrow>
     mset (range_values m ks) = image_mset (\<lambda>k. the (m k)) (mset_set (set ks))"
  by (induction ks) (auto split: option.splits)

lemma range_values_perm:
  "iterates m ks \<Longrightarrow> iterates m ks' \<Longrightarrow> mset (range_values m ks) = mset (range_values m ks')"
  by (simp add: iterates_def mset_range_values)

lemma range_values_cong:
  "(\<And>k. k \<in> set ks \<Longrightarrow> m k = m' k) \<Longrightarrow> range_values m ks = range_values m' ks"
  by (induction ks) (auto split: option.split)

lemma range_values_append [simp]:
  "range_values m (ks @ ls) = range_values m ks @ range_values m ls"
  by (induction ks) (auto split: option.split)

text \<open>Values keyed by a field of their own: the stores key every row by its id.\<close>

definition keyed_by :: "('v \<Rightarrow> 'k) \<Rightarrow> ('k \<rightharpoonup> 'v) \<Rightarrow> bool" where
  "keyed_by f m \<longleftrightarrow> (\<forall>k v. m k = Some v \<longrightarrow> f v = k)"

lemma keyed_byD: "keyed_by f m \<Longrightarrow> m k = Some v \<Longrightarrow> f v = k"
  by (auto simp: keyed_by_def)

lemma keyed_by_empty [simp]: "keyed_by f Map.empty"
  by (simp add: keyed_by_def)

lemma keyed_by_upd [simp]: "keyed_by f m \<Longrightarrow> f v = k \<Longrightarrow> keyed_by f (m(k \<mapsto> v))"
  by (auto simp: keyed_by_def)

lemma keyed_by_del [simp]: "keyed_by f m \<Longrightarrow> keyed_by f (m(k := None))"
  by (auto simp: keyed_by_def)

lemma distinct_map_range_values:
  assumes "keyed_by f m" "distinct ks"
  shows "distinct (map f (range_values m ks))"
  using assms(2)
proof (induction ks)
  case Nil
  then show ?case by simp
next
  case (Cons k ks)
  then show ?case
    using assms(1) by (auto simp: set_range_values keyed_by_def split: option.splits)
qed

section \<open>sort.Slice\<close>

text \<open>
  sort.Slice sorts in place by a comparison function and promises a sorted permutation; it is
  not stable. The model is a stable insertion sort. Applied to every possible visiting order of
  a map it yields every permutation sort.Slice may produce, and where the comparison is a strict
  total order on the elements the result is unique.
\<close>

fun insert_by :: "('a \<Rightarrow> 'a \<Rightarrow> bool) \<Rightarrow> 'a \<Rightarrow> 'a list \<Rightarrow> 'a list" where
  "insert_by lt x [] = [x]"
| "insert_by lt x (y # ys) = (if lt y x then y # insert_by lt x ys else x # y # ys)"

definition sort_slice :: "('a \<Rightarrow> 'a \<Rightarrow> bool) \<Rightarrow> 'a list \<Rightarrow> 'a list" where
  "sort_slice lt xs = foldr (insert_by lt) xs []"

lemma sort_slice_Nil [simp]: "sort_slice lt [] = []"
  by (simp add: sort_slice_def)

lemma sort_slice_Cons [simp]: "sort_slice lt (x # xs) = insert_by lt x (sort_slice lt xs)"
  by (simp add: sort_slice_def)

lemma mset_insert_by [simp]: "mset (insert_by lt x xs) = add_mset x (mset xs)"
  by (induction xs) auto

lemma mset_sort_slice [simp]: "mset (sort_slice lt xs) = mset xs"
  by (induction xs) auto

lemma set_insert_by [simp]: "set (insert_by lt x xs) = insert x (set xs)"
  by (induction xs) auto

lemma set_sort_slice [simp]: "set (sort_slice lt xs) = set xs"
  by (induction xs) auto

lemma length_sort_slice [simp]: "length (sort_slice lt xs) = length xs"
  by (metis mset_sort_slice size_mset)

lemma distinct_map_sort_slice:
  "distinct (map f (sort_slice lt xs)) \<longleftrightarrow> distinct (map f xs)"
  by (metis mset_sort_slice mset_map mset_eq_imp_distinct_iff)

lemma distinct_sort_slice [simp]: "distinct (sort_slice lt xs) \<longleftrightarrow> distinct xs"
  using distinct_map_sort_slice [of id] by simp

text \<open>The contract of the comparison functions passed to sort.Slice: a strict weak order.\<close>

locale weak_order =
  fixes lt :: "'a \<Rightarrow> 'a \<Rightarrow> bool"
  assumes lt_asym: "lt x y \<Longrightarrow> \<not> lt y x"
    and lt_neg_trans: "lt x z \<Longrightarrow> lt x y \<or> lt y z"
begin

lemma lt_irrefl: "\<not> lt x x"
  using lt_asym by blast

lemma lt_trans: "lt x y \<Longrightarrow> lt y z \<Longrightarrow> lt x z"
  using lt_asym lt_neg_trans by blast

lemma sorted_insert_by:
  "sorted_wrt (\<lambda>x y. \<not> lt y x) xs \<Longrightarrow> sorted_wrt (\<lambda>x y. \<not> lt y x) (insert_by lt x xs)"
proof (induction xs)
  case Nil
  then show ?case by simp
next
  case (Cons y ys)
  show ?case
  proof (cases "lt y x")
    case True
    with Cons show ?thesis by (auto dest: lt_asym)
  next
    case False
    moreover have "\<not> lt z x" if "z \<in> set ys" for z
      using that False Cons.prems lt_neg_trans by fastforce
    ultimately show ?thesis using Cons.prems by simp
  qed
qed

lemma sorted_sort_slice: "sorted_wrt (\<lambda>x y. \<not> lt y x) (sort_slice lt xs)"
  by (induction xs) (auto intro: sorted_insert_by)

lemma sort_unique:
  assumes "mset xs = mset ys"
    and "sorted_wrt (\<lambda>x y. \<not> lt y x) xs" "sorted_wrt (\<lambda>x y. \<not> lt y x) ys"
    and "\<And>x y. x \<in> set xs \<Longrightarrow> y \<in> set xs \<Longrightarrow> \<not> lt x y \<Longrightarrow> \<not> lt y x \<Longrightarrow> x = y"
  shows "xs = ys"
  using assms
proof (induction xs arbitrary: ys)
  case Nil
  then show ?case by simp
next
  case (Cons x xs)
  then obtain y ys' where ys: "ys = y # ys'" by (cases ys) auto
  have sets: "set (x # xs) = set (y # ys')"
    using Cons.prems(1) ys by (metis mset_eq_setD)
  have "x = y"
  proof (rule ccontr)
    assume "x \<noteq> y"
    with sets have "x \<in> set ys'" "y \<in> set xs" by auto
    with Cons.prems(2,3) ys have "\<not> lt x y" "\<not> lt y x" by auto
    with Cons.prems(4) sets \<open>x \<noteq> y\<close> show False by (metis list.set_intros(1))
  qed
  moreover have "xs = ys'"
    using Cons ys \<open>x = y\<close> by (intro Cons.IH) auto
  ultimately show ?case using ys by simp
qed

text \<open>A total comparison makes the result independent of the order of the input.\<close>

lemma sort_slice_cong_mset:
  assumes "mset xs = mset ys"
    and "\<And>x y. x \<in> set xs \<Longrightarrow> y \<in> set xs \<Longrightarrow> \<not> lt x y \<Longrightarrow> \<not> lt y x \<Longrightarrow> x = y"
  shows "sort_slice lt xs = sort_slice lt ys"
  using assms by (intro sort_unique) (auto intro: sorted_sort_slice)

end

section \<open>Guards\<close>

text \<open>A chain of guards that each return an error: what a successful run has passed.\<close>

lemma guard_Inr [guard_simps]: "(if b then Inl e else r) = Inr x \<longleftrightarrow> \<not> b \<and> r = Inr x"
  by simp

lemma guard_Some [guard_simps]: "(if b then None else r) = Some x \<longleftrightarrow> \<not> b \<and> r = Some x"
  by simp

section \<open>64-bit integers and slice expressions\<close>

text \<open>
  Go's int is 64 bits wide and wraps. \<open>wrap64\<close> is written where the code computes with
  numbers a caller controls. A slice expression panics unless 0 <= lo <= hi <= len: \<open>None\<close>.
\<close>

definition wrap64 :: "int \<Rightarrow> int" where
  "wrap64 x = (x + 2 ^ 63) mod 2 ^ 64 - 2 ^ 63"

abbreviation min_int64 :: int where
  "min_int64 \<equiv> - (2 ^ 63)"

abbreviation max_int64 :: int where
  "max_int64 \<equiv> 2 ^ 63 - 1"

definition is_int64 :: "int \<Rightarrow> bool" where
  "is_int64 x \<longleftrightarrow> min_int64 \<le> x \<and> x \<le> max_int64"

lemma wrap64_id [simp]: "is_int64 x \<Longrightarrow> wrap64 x = x"
  by (simp add: wrap64_def is_int64_def)

lemma is_int64_wrap64 [simp]: "is_int64 (wrap64 x)"
proof -
  have "0 \<le> (x + 2 ^ 63) mod 2 ^ 64" "(x + 2 ^ 63) mod 2 ^ 64 < (2 ^ 64 :: int)"
    by (rule pos_mod_sign pos_mod_bound; simp)+
  then show ?thesis by (simp add: is_int64_def wrap64_def)
qed

definition slice_range :: "'a list \<Rightarrow> int \<Rightarrow> int \<Rightarrow> 'a list option" where
  "slice_range xs lo hi =
     (if 0 \<le> lo \<and> lo \<le> hi \<and> hi \<le> int (length xs)
      then Some (take (nat (hi - lo)) (drop (nat lo) xs)) else None)"

section \<open>Strings\<close>

text \<open>
  A string is a byte string; Go's order on strings is the lexicographic order of their bytes,
  which List\_Lexorder and Char\_ord define. Below: strings.Join, HasPrefix and HasSuffix.
\<close>

fun strings_join :: "string list \<Rightarrow> string \<Rightarrow> string" where
  "strings_join [] sep = []"
| "strings_join (p # ps) sep = p @ concat (map ((@) sep) ps)"

definition has_prefix :: "string \<Rightarrow> string \<Rightarrow> bool" where
  "has_prefix s p \<longleftrightarrow> take (length p) s = p"

definition has_suffix :: "string \<Rightarrow> string \<Rightarrow> bool" where
  "has_suffix s p \<longleftrightarrow> length p \<le> length s \<and> drop (length s - length p) s = p"

lemma has_prefix_iff: "has_prefix s p \<longleftrightarrow> (\<exists>t. s = p @ t)"
  by (metis append_take_drop_id append_eq_conv_conj has_prefix_def)

end
