(* ===== verification/Model.thy ===== *)
theory Model
  imports Prelude
begin

text \<open>
  The data model of src/src/internal/model. A Go enumeration is a string type with declared
  constants: its datatype has one constructor per constant and a last constructor for any other
  string the type can hold (never used for the text of a declared constant). Pointers that may
  be nil are options; a record keeps the fields in the order of the struct.
\<close>

section \<open>Executions (model/execution.go)\<close>

datatype execution_status =
    ExQueued | ExAssigned | ExRunning | ExReview | ExCompleted | ExFailed | ExOther string

definition AllExecutionStatuses :: "execution_status list" where
  "AllExecutionStatuses = [ExQueued, ExAssigned, ExRunning, ExReview, ExCompleted, ExFailed]"

fun IsValidExecutionStatus :: "execution_status \<Rightarrow> bool" where
  "IsValidExecutionStatus (ExOther _) = False"
| "IsValidExecutionStatus _ = True"

record execution =
  ex_id :: uuid
  ex_task :: uuid
  ex_agent :: uuid
  ex_status :: execution_status
  ex_started :: go_time
  ex_completed :: "go_time option"
  ex_error :: "string option"
  ex_instance :: "uuid option"
  ex_created :: go_time
  ex_updated :: go_time

record execution_filter =
  ef_task :: uuid
  ef_agent :: uuid
  ef_status :: execution_status
  ef_cursor :: uuid
  ef_limit :: int

record execution_page =
  ep_items :: "execution list"
  ep_next :: uuid

definition DefaultExecutionLimit :: int where
  "DefaultExecutionLimit = 50"

definition MaxExecutionLimit :: int where
  "MaxExecutionLimit = 200"

lemma valid_execution_status_iff:
  "IsValidExecutionStatus s \<longleftrightarrow> s \<in> set AllExecutionStatuses"
  by (cases s) (auto simp: AllExecutionStatuses_def)

section \<open>Assignments (model/assignment.go)\<close>

definition MaxAssignmentNotesBytes :: int where
  "MaxAssignmentNotesBytes = 1024"

datatype assignment_status = AsActive | AsSuperseded | AsCompleted | AsCancelled | AsOther string

definition AllAssignmentStatuses :: "assignment_status list" where
  "AllAssignmentStatuses = [AsActive, AsSuperseded, AsCompleted, AsCancelled]"

definition IsValidAssignmentStatus :: "assignment_status \<Rightarrow> bool" where
  "IsValidAssignmentStatus s \<longleftrightarrow> s \<in> set AllAssignmentStatuses"

record assignment =
  as_id :: uuid
  as_task :: uuid
  as_agent :: uuid
  as_assigned :: go_time
  as_completed :: "go_time option"
  as_status :: assignment_status

datatype assignment_action = ActAssign | ActReassign | ActUnassign | ActOther string

definition AllAssignmentActions :: "assignment_action list" where
  "AllAssignmentActions = [ActAssign, ActReassign, ActUnassign]"

definition IsValidAssignmentAction :: "assignment_action \<Rightarrow> bool" where
  "IsValidAssignmentAction a \<longleftrightarrow> a \<in> set AllAssignmentActions"

record assignment_event =
  ev_id :: uuid
  ev_assignment :: uuid
  ev_task :: uuid
  ev_agent :: "uuid option"
  ev_by :: "uuid option"
  ev_at :: go_time
  ev_action :: assignment_action
  ev_notes :: string

lemmas assignment_validators [guard_simps] =
  IsValidAssignmentStatus_def AllAssignmentStatuses_def
  IsValidAssignmentAction_def AllAssignmentActions_def

section \<open>Tasks (model/task.go)\<close>

datatype task_status =
    TaskBacklog | TaskTodo | TaskReady | TaskInProgress | TaskReview | TaskDone | TaskBlocked
  | TaskOpen | TaskOther string

fun task_status_str :: "task_status \<Rightarrow> string" where
  "task_status_str TaskBacklog = ''backlog''"
| "task_status_str TaskTodo = ''todo''"
| "task_status_str TaskReady = ''ready''"
| "task_status_str TaskInProgress = ''in_progress''"
| "task_status_str TaskReview = ''review''"
| "task_status_str TaskDone = ''done''"
| "task_status_str TaskBlocked = ''blocked''"
| "task_status_str TaskOpen = ''open''"
| "task_status_str (TaskOther s) = s"

datatype task_priority =
    PriorityLow | PriorityMedium | PriorityHigh | PriorityCritical | PriorityOther string

record task =
  t_id :: uuid
  t_project :: uuid
  t_title :: string
  t_description :: string
  t_status :: task_status
  t_priority :: task_priority
  t_assignee :: uuid
  t_assignee_agent :: string
  t_required :: "string list"
  t_position :: int
  t_created :: go_time
  t_updated :: go_time

section \<open>Projects (model/project.go)\<close>

datatype project_status =
    ProjectInitializing | ProjectInProgress | ProjectCompleted | ProjectArchived
  | ProjectOther string

record project =
  pr_id :: uuid
  pr_name :: string
  pr_description :: string
  pr_owner :: uuid
  pr_status :: project_status
  pr_template :: string
  pr_progress :: int
  pr_active_agents :: int
  pr_created :: go_time
  pr_updated :: go_time

section \<open>Users (model/user.go)\<close>

datatype user_role = RoleAdmin | RoleMember | RoleViewer | RoleOther string

fun role_str :: "user_role \<Rightarrow> string" where
  "role_str RoleAdmin = ''admin''"
| "role_str RoleMember = ''member''"
| "role_str RoleViewer = ''viewer''"
| "role_str (RoleOther s) = s"

record user =
  u_id :: uuid
  u_email :: string
  u_password_hash :: string
  u_name :: string
  u_role :: user_role
  u_teams :: "string list"
  u_projects :: "string list"
  u_created :: go_time
  u_updated :: go_time

section \<open>Agents (model/agent.go)\<close>

datatype agent_status =
    AgentInitializing | AgentIdle | AgentBusy | AgentPaused | AgentError | AgentRetired
  | AgentSpawning | AgentWorking | AgentCompleted | AgentFailed | AgentOther string

definition AllAgentStatuses :: "agent_status list" where
  "AllAgentStatuses =
     [AgentInitializing, AgentIdle, AgentBusy, AgentPaused, AgentError, AgentRetired]"

definition IsValidAgentStatus :: "agent_status \<Rightarrow> bool" where
  "IsValidAgentStatus s \<longleftrightarrow> s \<in> set AllAgentStatuses"

record agent =
  ag_id :: uuid
  ag_project :: uuid
  ag_name :: string
  ag_role :: string
  ag_status :: agent_status
  ag_capabilities :: "string list"
  ag_last_active :: "go_time option"
  ag_metadata :: string
  ag_runtime :: string
  ag_version :: int
  ag_retired_at :: "go_time option"
  ag_created :: go_time
  ag_updated :: go_time

record agent_filter =
  af_project :: uuid
  af_status :: agent_status
  af_capability :: string
  af_include_retired :: bool
  af_cursor :: string
  af_limit :: int

record agent_page =
  ap_data :: "agent list"
  ap_next :: string
  ap_more :: bool

record agent_capability_view =
  acv_name :: string
  acv_display_name :: string
  acv_category :: string
  acv_proficiency :: "int option"
  acv_granted_at :: go_time
  acv_granted_by :: "uuid option"

record capability_row =
  cr_id :: uuid
  cr_name :: string
  cr_display_name :: string
  cr_category :: string
  cr_description :: string
  cr_version :: int

record capability_filter =
  cf_category :: string
  cf_cursor :: string
  cf_limit :: int

record capability_page =
  cp_data :: "capability_row list"
  cp_next :: string
  cp_more :: bool

lemmas agent_validators [guard_simps] = IsValidAgentStatus_def AllAgentStatuses_def

section \<open>Deliverables (model/deliverable.go)\<close>

record deliverable =
  d_id :: uuid
  d_task :: uuid
  d_agent :: uuid
  d_title :: string
  d_content :: string
  d_version :: int
  d_created :: go_time
  d_updated :: go_time

record deliverable_version =
  dv_id :: uuid
  dv_deliverable :: uuid
  dv_version :: int
  dv_title :: string
  dv_content :: string
  dv_created :: go_time
  dv_by :: "uuid option"

record deliverable_filter =
  df_task :: uuid
  df_agent :: uuid
  df_cursor :: uuid
  df_limit :: int

record deliverable_page =
  dp_items :: "deliverable list"
  dp_next :: uuid

definition DefaultDeliverableLimit :: int where
  "DefaultDeliverableLimit = 50"

definition MaxDeliverableLimit :: int where
  "MaxDeliverableLimit = 200"

definition MaxDeliverableContentBytes :: int where
  "MaxDeliverableContentBytes = 1048576"

section \<open>Workers (model/worker.go)\<close>

datatype model_worker_status =
    MWPending | MWRunning | MWCompleted | MWFailed | MWCancelled | MWOther string

fun IsTerminalWorkerStatus :: "model_worker_status \<Rightarrow> bool" where
  "IsTerminalWorkerStatus MWCompleted = True"
| "IsTerminalWorkerStatus MWFailed = True"
| "IsTerminalWorkerStatus MWCancelled = True"
| "IsTerminalWorkerStatus _ = False"

fun IsValidWorkerStatus :: "model_worker_status \<Rightarrow> bool" where
  "IsValidWorkerStatus (MWOther _) = False"
| "IsValidWorkerStatus _ = True"

record worker =
  w_id :: uuid
  w_execution :: uuid
  w_agent :: uuid
  w_project :: uuid
  w_handle :: string
  w_pid :: "int option"
  w_status :: model_worker_status
  w_attempt :: int
  w_started :: "go_time option"
  w_completed :: "go_time option"
  w_result :: string
  w_error :: string
  w_instance :: "uuid option"

section \<open>Code generation, deployments, webhooks, audit log\<close>

datatype codegen_status =
  CodeGenQueued | CodeGenGenerating | CodeGenCompleted | CodeGenFailed | CodeGenOther string

record codegen_request =
  cg_id :: uuid
  cg_project :: uuid
  cg_task :: uuid
  cg_specification :: string
  cg_files :: "string list"
  cg_status :: codegen_status
  cg_execution :: uuid
  cg_output :: string
  cg_estimated :: int
  cg_created :: go_time
  cg_updated :: go_time

record project_file =
  pf_project :: uuid
  pf_path :: string
  pf_content :: string
  pf_language :: string
  pf_size :: int
  pf_modified :: go_time
  pf_modified_by :: string

record commit_file =
  cmf_path :: string
  cmf_content :: string

record commit =
  cm_sha :: string
  cm_project :: uuid
  cm_branch :: string
  cm_message :: string
  cm_author :: string
  cm_files :: "commit_file list"
  cm_created :: go_time

datatype deploy_env = EnvDevelopment | EnvStaging | EnvProduction | EnvOther string

datatype deploy_status =
    DeployQueued | DeployBuilding | DeployTesting | DeployDeploying | DeployCompleted
  | DeployFailed | DeployRollingBack | DeployOther string

record deploy_step =
  ds_name :: string
  ds_status :: string
  ds_duration :: int

record deployment =
  dep_id :: uuid
  dep_project :: uuid
  dep_env :: deploy_env
  dep_branch :: string
  dep_status :: deploy_status
  dep_url :: string
  dep_estimated :: int
  dep_steps :: "deploy_step list"
  dep_rollback_from :: string
  dep_rollback_to :: string
  dep_started :: "go_time option"
  dep_completed :: "go_time option"
  dep_created :: go_time
  dep_updated :: go_time

record webhook =
  wh_id :: uuid
  wh_url :: string
  wh_events :: "string list"
  wh_secret :: string
  wh_active :: bool
  wh_created :: go_time
  wh_updated :: go_time

record audit_log =
  al_id :: uuid
  al_entity_type :: string
  al_entity :: uuid
  al_action :: string
  al_user :: "uuid option"
  al_changes :: string
  al_created :: go_time

section \<open>Reviews (model/review.go)\<close>

text \<open>The scores are floating-point numbers in the code; only sums and quotients of the
  numbers 100 and 3 occur, which are exact, so they are rationals here.\<close>

datatype review_status = ReviewInProgress | ReviewCompleted | ReviewFailed | ReviewStatusOther string

datatype review_result =
  ReviewApproved | ReviewChangesReq | ReviewRejected | ReviewResultNone | ReviewResultOther string

record review_issue =
  ri_id :: uuid
  ri_review :: uuid
  ri_severity :: string
  ri_file :: string
  ri_line :: int
  ri_message :: string
  ri_suggestion :: string

record review_metrics =
  rm_complexity :: int
  rm_max_complexity :: int
  rm_test_coverage :: rat
  rm_duplications :: int
  rm_lint_errors :: int
  rm_sast_findings :: int

record review =
  rv_id :: uuid
  rv_project :: uuid
  rv_commit :: string
  rv_target_agent :: uuid
  rv_reviewer_type :: string
  rv_reviewer_id :: "uuid option"
  rv_agent :: "uuid option"
  rv_reviewer :: string
  rv_status :: review_status
  rv_result :: review_result
  rv_score :: rat
  rv_issues :: "review_issue list"
  rv_metrics :: "review_metrics option"
  rv_created :: go_time
  rv_updated :: go_time

record review_comment =
  rc_id :: uuid
  rc_review :: uuid
  rc_file :: string
  rc_line :: int
  rc_author :: uuid
  rc_content :: string
  rc_created :: go_time

section \<open>API keys (model/api\_key.go)\<close>

record api_key =
  ak_hash :: string
  ak_user :: uuid
  ak_role :: string
  ak_name :: string
  ak_created :: go_time
  ak_expires :: "go_time option"
  ak_revoked :: "go_time option"
  ak_last_used :: "go_time option"

end
