(* ===== verification/Event_State.thy ===== *)
theory Event_State
  imports Model
begin

text \<open>
  The six-state execution machine of src/src/internal/events/state.go: the table of edges,
  StateManager.Valid / Allowed and the package-level Validate.
\<close>

section \<open>The machine\<close>

datatype ev_status =
    StatusQueued | StatusAssigned | StatusRunning | StatusReview | StatusCompleted
  | StatusFailed | StatusOther string

definition AllStatuses :: "ev_status list" where
  "AllStatuses =
     [StatusQueued, StatusAssigned, StatusRunning, StatusReview, StatusCompleted, StatusFailed]"

text \<open>A key with an empty map of targets is present in the table; other strings are not.\<close>

fun validTransitions :: "ev_status \<Rightarrow> ev_status list option" where
  "validTransitions StatusQueued = Some [StatusAssigned]"
| "validTransitions StatusAssigned = Some [StatusRunning]"
| "validTransitions StatusRunning = Some [StatusReview, StatusFailed]"
| "validTransitions StatusReview = Some [StatusCompleted, StatusFailed]"
| "validTransitions StatusCompleted = Some []"
| "validTransitions StatusFailed = Some []"
| "validTransitions (StatusOther _) = None"

definition Valid :: "ev_status \<Rightarrow> ev_status \<Rightarrow> bool" where
  "Valid src dst =
     (if src = dst then True
      else case validTransitions src of None \<Rightarrow> False | Some outs \<Rightarrow> dst \<in> set outs)"

definition Allowed :: "ev_status \<Rightarrow> ev_status list" where
  "Allowed src =
     (let outs = (case validTransitions src of None \<Rightarrow> [] | Some outs \<Rightarrow> outs)
      in if outs = [] then [] else filter (\<lambda>st. st \<in> set outs) AllStatuses)"

datatype transition_error = ErrInvalidTransition

definition Validate :: "ev_status \<Rightarrow> ev_status \<Rightarrow> transition_error + unit" where
  "Validate src dst = (if Valid src dst then Inr () else Inl ErrInvalidTransition)"

section \<open>The canonical order of the statuses\<close>

text \<open>Every edge of the table increases the rank, so the machine has no cycle.\<close>

fun ev_rank :: "ev_status \<Rightarrow> nat" where
  "ev_rank StatusQueued = 0"
| "ev_rank StatusAssigned = 1"
| "ev_rank StatusRunning = 2"
| "ev_rank StatusReview = 3"
| "ev_rank StatusCompleted = 4"
| "ev_rank StatusFailed = 5"
| "ev_rank (StatusOther _) = 6"

instantiation ev_status :: linorder
begin

definition less_ev_status :: "ev_status \<Rightarrow> ev_status \<Rightarrow> bool" where
  "less_ev_status a b \<longleftrightarrow>
     ev_rank a < ev_rank b
     \<or> (case (a, b) of (StatusOther x, StatusOther y) \<Rightarrow> x < y | _ \<Rightarrow> False)"

definition less_eq_ev_status :: "ev_status \<Rightarrow> ev_status \<Rightarrow> bool" where
  "less_eq_ev_status a b \<longleftrightarrow> a = b \<or> a < b"

instance
proof
  fix x y z :: ev_status
  show "(x < y) = (x \<le> y \<and> \<not> y \<le> x)"
    by (cases x; cases y) (auto simp: less_eq_ev_status_def less_ev_status_def)
  show "x \<le> x" by (simp add: less_eq_ev_status_def)
  show "x \<le> y \<Longrightarrow> y \<le> z \<Longrightarrow> x \<le> z"
    by (cases x; cases y; cases z) (auto simp: less_eq_ev_status_def less_ev_status_def)
  show "x \<le> y \<Longrightarrow> y \<le> x \<Longrightarrow> x = y"
    by (cases x; cases y) (auto simp: less_eq_ev_status_def less_ev_status_def)
  show "x \<le> y \<or> y \<le> x"
    by (cases x; cases y) (auto simp: less_eq_ev_status_def less_ev_status_def)
qed

end

text \<open>The two terminal statuses are on one level, the fourth.\<close>

definition ev_level :: "ev_status \<Rightarrow> nat" where
  "ev_level s = min 4 (ev_rank s)"

lemma Valid_level: "Valid src dst \<Longrightarrow> src \<noteq> dst \<Longrightarrow> ev_level src < ev_level dst"
  by (cases src) (auto simp: Valid_def ev_level_def)

lemma Valid_target: "Valid src dst \<Longrightarrow> src \<noteq> dst \<Longrightarrow> dst \<in> set AllStatuses"
  by (cases src) (auto simp: Valid_def AllStatuses_def)

lemma Allowed_iff: "dst \<in> set (Allowed src) \<longleftrightarrow> Valid src dst \<and> src \<noteq> dst"
  by (cases src) (auto simp: Allowed_def Valid_def AllStatuses_def)

inductive ev_run :: "ev_status \<Rightarrow> ev_status list \<Rightarrow> ev_status \<Rightarrow> bool" where
  ev_run_Nil: "ev_run s [] s"
| ev_run_Cons: "s' \<in> set (Allowed s) \<Longrightarrow> ev_run s' ss t \<Longrightarrow> ev_run s (s' # ss) t"

inductive_cases ev_run_ConsE: "ev_run s (s' # ss) t"

lemma ev_run_level: "ev_run s ss t \<Longrightarrow> ev_level s + length ss \<le> ev_level t"
proof (induction rule: ev_run.induct)
  case (ev_run_Nil s)
  then show ?case by simp
next
  case (ev_run_Cons s' s ss t)
  then have "ev_level s < ev_level s'" by (auto simp: Allowed_iff Valid_level)
  with ev_run_Cons show ?case by simp
qed

lemma ev_run_last: "ev_run s ss t \<Longrightarrow> t = (if ss = [] then s else last ss)"
  by (induction rule: ev_run.induct) auto

lemma ev_run_states: "ev_run s ss t \<Longrightarrow> set ss \<subseteq> set AllStatuses"
  by (induction rule: ev_run.induct) (auto simp: Allowed_iff dest: Valid_target)

text \<open>
  Allowed lists exactly the proper successors that Valid and Validate accept, each once and
  in the canonical order of AllStatuses.
\<close>

theorem Allowed_correct:
  "set (Allowed src) = {dst. Validate src dst = Inr () \<and> dst \<noteq> src}
   \<and> sorted_wrt (<) (Allowed src)"
proof -
  have "sorted_wrt (<) (Allowed src)"
    by (cases src) (simp_all add: Allowed_def AllStatuses_def less_ev_status_def)
  then show ?thesis by (auto simp: Allowed_iff Validate_def split: if_splits)
qed

text \<open>
  A run of accepted transitions has at most four steps, never visits a state twice, and
  reaches COMPLETED only as the step out of REVIEW.
\<close>

theorem ev_run_bounded:
  assumes "ev_run s ss t"
  shows "length ss \<le> 4 \<and> (ss \<noteq> [] \<longrightarrow> t \<noteq> s)
    \<and> (s \<in> {StatusQueued, StatusAssigned, StatusRunning, StatusReview} \<and> t = StatusCompleted
        \<longrightarrow> s = StatusReview \<or> StatusReview \<in> set ss)"
proof -
  have "StatusReview \<in> set (s # ss)" if "t = StatusCompleted" "s \<noteq> StatusCompleted"
    using assms that
  proof (induction rule: ev_run.induct)
    case (ev_run_Nil s)
    then show ?case by simp
  next
    case (ev_run_Cons s' s ss t)
    then show ?case
      by (cases s) (auto simp: Allowed_iff Valid_def)
  qed
  moreover have "ev_level t \<le> 4" by (simp add: ev_level_def)
  ultimately show ?thesis using ev_run_level [OF assms] by (cases ss) auto
qed

theorem ev_run_bounded_witness:
  "ev_run StatusQueued [StatusAssigned, StatusRunning, StatusReview, StatusCompleted] StatusCompleted
   \<and> StatusReview \<in> set [StatusAssigned, StatusRunning, StatusReview, StatusCompleted]"
proof -
  have "ev_run StatusQueued [StatusAssigned, StatusRunning, StatusReview, StatusCompleted]
          StatusCompleted"
    by (intro ev_run.intros) (simp_all add: Allowed_def AllStatuses_def)
  from this ev_run_bounded [OF this] show ?thesis by simp
qed

end
