(* ===== verification/Event_Bus.thy ===== *)
theory Event_Bus
  imports Model
begin

text \<open>
  The in-process event bus of src/src/internal/events/bus.go: ring buffers for replay, buffered
  subscriber channels, and Publish split where the code releases the mutex. A channel is named
  by the address of its subscription; its once-guard has run exactly when it is closed.
\<close>

section \<open>Ring buffers\<close>

record event =
  e_id :: "64 word"
  e_execution :: uuid
  e_project :: uuid
  e_task :: uuid
  e_agent :: uuid
  e_from :: execution_status
  e_to :: execution_status
  e_error :: "string option"
  e_at :: go_time

record ring =
  rb_buf :: "event list"
  rb_head :: nat
  rb_full :: bool

definition zero_event :: event where
  "zero_event = \<lparr>e_id = 0, e_execution = 0, e_project = 0, e_task = 0, e_agent = 0,
     e_from = ExOther '''', e_to = ExOther '''', e_error = None, e_at = 0\<rparr>"

definition newRingBuffer :: "nat \<Rightarrow> ring" where
  "newRingBuffer n = \<lparr>rb_buf = replicate n zero_event, rb_head = 0, rb_full = False\<rparr>"

definition ring_push :: "event \<Rightarrow> ring \<Rightarrow> ring" where
  "ring_push e r =
     (let hd' = (rb_head r + 1) mod length (rb_buf r)
      in r\<lparr>rb_buf := (rb_buf r)[rb_head r := e], rb_head := hd',
           rb_full := (if hd' = 0 then True else rb_full r)\<rparr>)"

text \<open>
  The index arithmetic of the loop is on integers, as in the code: walk back from the write
  slot and wrap around the end of the slice.
\<close>

definition ring_index :: "ring \<Rightarrow> nat \<Rightarrow> nat" where
  "ring_index r i =
     (let idx = int (rb_head r) - 1 - int i
      in nat (if idx < 0 then idx + int (length (rb_buf r)) else idx))"

definition ring_last :: "nat \<Rightarrow> nat \<Rightarrow> ring \<Rightarrow> event list" where
  "ring_last n bufferSize r =
     (let available = (if rb_full r then bufferSize else rb_head r);
          n' = (if n > available then available else n)
      in if n' = 0 then []
         else map (\<lambda>j. rb_buf r ! ring_index r (n' - 1 - j)) [0..<n'])"

text \<open>
  The abstract view: the ring of size N after the events \<open>hist\<close> were pushed. The slot of the
  k-th event is k mod N.
\<close>

definition ring_of :: "nat \<Rightarrow> event list \<Rightarrow> ring \<Rightarrow> bool" where
  "ring_of N hist r \<longleftrightarrow>
     0 < N \<and> length (rb_buf r) = N \<and> rb_head r = length hist mod N
     \<and> rb_full r = (N \<le> length hist)
     \<and> (\<forall>k < length hist. length hist \<le> k + N \<longrightarrow> rb_buf r ! (k mod N) = hist ! k)"

lemma ring_of_new: "0 < N \<Longrightarrow> ring_of N [] (newRingBuffer N)"
  by (simp add: ring_of_def newRingBuffer_def)

lemma mod_window_distinct:
  fixes k m N :: nat
  assumes "k < m" "m < k + N"
  shows "k mod N \<noteq> m mod N"
proof
  assume "k mod N = m mod N"
  then have "N dvd m - k" using assms(1) by (metis mod_eq_dvd_iff_nat less_imp_le)
  with assms show False by (auto dest: dvd_imp_le)
qed

lemma ring_of_push:
  assumes "ring_of N hist r"
  shows "ring_of N (hist @ [e]) (ring_push e r)"
proof -
  let ?L = "length hist"
  from assms have N: "0 < N" and len: "length (rb_buf r) = N" and hd: "rb_head r = ?L mod N"
    and full: "rb_full r = (N \<le> ?L)"
    and slots: "\<And>k. k < ?L \<Longrightarrow> ?L \<le> k + N \<Longrightarrow> rb_buf r ! (k mod N) = hist ! k"
    by (auto simp: ring_of_def)
  have hd': "(rb_head r + 1) mod N = Suc ?L mod N"
    using hd by (simp add: mod_Suc_eq)
  have full': "(if Suc ?L mod N = 0 then True else rb_full r) = (N \<le> Suc ?L)"
  proof (cases "Suc ?L mod N = 0")
    case True
    then have "N dvd Suc ?L" by auto
    then have "N \<le> Suc ?L" by (rule dvd_imp_le) simp
    with True show ?thesis by simp
  next
    case False
    then have "Suc ?L \<noteq> N" by auto
    with False full show ?thesis by auto
  qed
  have "rb_buf (ring_push e r) ! (k mod N) = (hist @ [e]) ! k"
    if "k < Suc ?L" "Suc ?L \<le> k + N" for k
  proof (cases "k = ?L")
    case True
    then show ?thesis using N len hd by (simp add: ring_push_def Let_def)
  next
    case False
    with that have "k < ?L" "?L < k + N" by auto
    then have "k mod N \<noteq> ?L mod N" by (rule mod_window_distinct)
    with \<open>k < ?L\<close> that slots [of k] hd show ?thesis
      by (simp add: ring_push_def Let_def nth_append)
  qed
  then show ?thesis
    using N len hd' full' by (simp add: ring_of_def ring_push_def Let_def)
qed

lemma ring_index_of:
  assumes "ring_of N hist r" "i < length hist" "i < N"
  shows "ring_index r i = (length hist - 1 - i) mod N"
proof -
  let ?L = "length hist"
  from assms have N: "0 < N" and len: "length (rb_buf r) = N" and hd: "rb_head r = ?L mod N"
    by (auto simp: ring_of_def)
  have hN: "?L mod N < N" using N by simp
  have L: "?L = N * (?L div N) + ?L mod N" by simp
  show ?thesis
  proof (cases "i < ?L mod N")
    case True
    have "?L - 1 - i = ?L mod N - 1 - i + N * (?L div N)" using True L by linarith
    then have "(?L - 1 - i) mod N = (?L mod N - 1 - i) mod N" by simp
    also have "\<dots> = ?L mod N - 1 - i" using hN by (intro mod_less) linarith
    finally show ?thesis using True hd by (simp add: ring_index_def Let_def nat_diff_distrib)
  next
    case False
    then have q: "0 < ?L div N" using assms(2) hN L
      by (metis gr0I mult_0_right add_0)
    then obtain q' where q': "?L div N = Suc q'" by (cases "?L div N") auto
    have "?L - 1 - i = (N + ?L mod N - 1 - i) + N * q'"
      using L q' False assms(3) by (simp add: algebra_simps)
    then have "(?L - 1 - i) mod N = (N + ?L mod N - 1 - i) mod N" by simp
    also have "\<dots> = N + ?L mod N - 1 - i" using False assms(3) hN by (intro mod_less) linarith
    finally show ?thesis using False hd len assms(3) by (simp add: ring_index_def Let_def)
  qed
qed

lemma ring_last_of:
  assumes "ring_of N hist r"
  shows "ring_last n N r = drop (length hist - min n (min N (length hist))) hist"
proof -
  let ?L = "length hist"
  define m where "m = min n (min N ?L)"
  from assms have N: "0 < N" and hd: "rb_head r = ?L mod N" and full: "rb_full r = (N \<le> ?L)"
    by (auto simp: ring_of_def)
  have avail: "(if rb_full r then N else rb_head r) = min N ?L"
    using full hd N by (auto simp: min_def)
  have m: "(if n > min N ?L then min N ?L else n) = m" by (auto simp: m_def)
  have "rb_buf r ! ring_index r (m - 1 - j) = hist ! (?L - m + j)" if "j < m" for j
  proof -
    have i: "m - 1 - j < ?L" "m - 1 - j < N" using that by (auto simp: m_def)
    have k: "?L - 1 - (m - 1 - j) = ?L - m + j" using that by (auto simp: m_def)
    have "?L - m + j < ?L" "?L \<le> ?L - m + j + N" using that by (auto simp: m_def)
    then have "rb_buf r ! ((?L - m + j) mod N) = hist ! (?L - m + j)"
      using assms by (auto simp: ring_of_def)
    then show ?thesis using ring_index_of [OF assms i] k by simp
  qed
  then have "map (\<lambda>j. rb_buf r ! ring_index r (m - 1 - j)) [0..<m] = drop (?L - m) hist"
    by (intro nth_equalityI) (auto simp: m_def)
  then show ?thesis
    by (auto simp: ring_last_def Let_def avail m m_def [symmetric])
qed

section \<open>The bus\<close>

record chan =
  ch_buf :: "event list"
  ch_closed :: bool

record bus =
  b_size :: nat
  b_subs :: "uuid \<Rightarrow> nat list"
  b_rings :: "uuid \<rightharpoonup> ring"
  b_next :: "64 word"
  b_chans :: "nat \<rightharpoonup> chan"

definition subscriberBufferSize :: nat where
  "subscriberBufferSize = 64"

definition NewMemoryBus :: bus where
  "NewMemoryBus = \<lparr>b_size = 200, b_subs = (\<lambda>_. []), b_rings = Map.empty, b_next = 1,
     b_chans = Map.empty\<rparr>"

text \<open>The critical section of Publish: number and stamp the event, take a copy of the
  subscriber list, push to the ring of the project.\<close>

definition publish_locked :: "go_time \<Rightarrow> event \<Rightarrow> bus \<Rightarrow> event \<times> nat list \<times> bus" where
  "publish_locked now ev b =
     (let fresh = (e_id ev = 0);
          ev1 = (if fresh then ev\<lparr>e_id := b_next b\<rparr> else ev);
          nxt = (if fresh then b_next b + 1 else b_next b);
          ev2 = (if e_at ev1 = zero_time then ev1\<lparr>e_at := now\<rparr> else ev1);
          p = e_project ev2;
          rb = (case b_rings b p of None \<Rightarrow> newRingBuffer (b_size b) | Some rb \<Rightarrow> rb)
      in (ev2, b_subs b p, b\<lparr>b_next := nxt, b_rings := (b_rings b)(p \<mapsto> ring_push ev2 rb)\<rparr>))"

text \<open>One non-blocking send outside the lock: \<open>None\<close> is the panic of a send on a closed
  channel.\<close>

definition chan_send :: "event \<Rightarrow> nat \<Rightarrow> bus \<Rightarrow> (bool \<times> bus) option" where
  "chan_send ev c b =
     (case b_chans b c of
        None \<Rightarrow> None
      | Some ch \<Rightarrow>
          if ch_closed ch then None
          else if length (ch_buf ch) < subscriberBufferSize
            then Some (True, b\<lparr>b_chans := (b_chans b)(c \<mapsto> ch\<lparr>ch_buf := ch_buf ch @ [ev]\<rparr>)\<rparr>)
            else Some (False, b))"

fun publish_sends :: "event \<Rightarrow> nat list \<Rightarrow> bool \<Rightarrow> bus \<Rightarrow> (bool \<times> bus) option" where
  "publish_sends ev [] allDelivered b = Some (allDelivered, b)"
| "publish_sends ev (c # cs) allDelivered b =
     (case chan_send ev c b of
        None \<Rightarrow> None
      | Some (ok, b') \<Rightarrow> publish_sends ev cs (if ok then allDelivered else False) b')"

definition Publish :: "go_time \<Rightarrow> event \<Rightarrow> bus \<Rightarrow> (bool \<times> bus) option" where
  "Publish now ev b =
     (let (ev', subs, b') = publish_locked now ev b
      in publish_sends ev' subs (subs \<noteq> []) b')"

text \<open>\<open>c\<close> is the address of the new subscription.\<close>

definition Subscribe :: "uuid \<Rightarrow> nat \<Rightarrow> bus \<Rightarrow> bus" where
  "Subscribe p c b =
     b\<lparr>b_chans := (b_chans b)(c \<mapsto> \<lparr>ch_buf = [], ch_closed = False\<rparr>),
       b_subs := (b_subs b)(p := b_subs b p @ [c])\<rparr>"

definition Unsubscribe :: "uuid \<Rightarrow> nat \<Rightarrow> bus \<Rightarrow> bus" where
  "Unsubscribe p c b =
     (case b_chans b c of
        None \<Rightarrow> b
      | Some ch \<Rightarrow>
          if ch_closed ch then b
          else b\<lparr>b_subs := (b_subs b)(p := remove1 c (b_subs b p)),
                 b_chans := (b_chans b)(c \<mapsto> ch\<lparr>ch_closed := True\<rparr>)\<rparr>)"

text \<open>The consumer's receive.\<close>

definition chan_recv :: "nat \<Rightarrow> bus \<Rightarrow> event option \<times> bus" where
  "chan_recv c b =
     (case b_chans b c of
        None \<Rightarrow> (None, b)
      | Some ch \<Rightarrow>
          (case ch_buf ch of
             [] \<Rightarrow> (None, b)
           | e # es \<Rightarrow> (Some e, b\<lparr>b_chans := (b_chans b)(c \<mapsto> ch\<lparr>ch_buf := es\<rparr>)\<rparr>)))"

definition Last :: "uuid \<Rightarrow> int \<Rightarrow> bus \<Rightarrow> event list" where
  "Last p n b =
     (if n \<le> 0 then []
      else case b_rings b p of None \<Rightarrow> [] | Some rb \<Rightarrow> ring_last (nat n) (b_size b) rb)"

section \<open>The invariant of the bus\<close>

text \<open>
  Every listed subscription is an open channel that is listed once and in one project, no
  channel holds more than its capacity, every ring has the configured size.
\<close>

definition bus_inv :: "bus \<Rightarrow> bool" where
  "bus_inv b \<longleftrightarrow>
     0 < b_size b
     \<and> (\<forall>p. distinct (b_subs b p))
     \<and> (\<forall>p q c. c \<in> set (b_subs b p) \<and> c \<in> set (b_subs b q) \<longrightarrow> p = q)
     \<and> (\<forall>p. \<forall>c \<in> set (b_subs b p). \<exists>ch. b_chans b c = Some ch \<and> \<not> ch_closed ch)
     \<and> (\<forall>c ch. b_chans b c = Some ch \<longrightarrow> length (ch_buf ch) \<le> subscriberBufferSize)
     \<and> (\<forall>p rb. b_rings b p = Some rb \<longrightarrow> (\<exists>hist. ring_of (b_size b) hist rb))"

lemma bus_invI:
  assumes "0 < b_size b" "\<And>p. distinct (b_subs b p)"
    and "\<And>p q c. c \<in> set (b_subs b p) \<Longrightarrow> c \<in> set (b_subs b q) \<Longrightarrow> p = q"
    and "\<And>p c. c \<in> set (b_subs b p) \<Longrightarrow> \<exists>ch. b_chans b c = Some ch \<and> \<not> ch_closed ch"
    and "\<And>c ch. b_chans b c = Some ch \<Longrightarrow> length (ch_buf ch) \<le> subscriberBufferSize"
    and "\<And>p rb. b_rings b p = Some rb \<Longrightarrow> \<exists>hist. ring_of (b_size b) hist rb"
  shows "bus_inv b"
  using assms unfolding bus_inv_def by blast

lemma bus_invD:
  assumes "bus_inv b"
  shows "0 < b_size b" "distinct (b_subs b p)"
    "c \<in> set (b_subs b p) \<Longrightarrow> c \<in> set (b_subs b q) \<Longrightarrow> p = q"
    "c \<in> set (b_subs b p) \<Longrightarrow> \<exists>ch. b_chans b c = Some ch \<and> \<not> ch_closed ch"
    "b_chans b c = Some ch \<Longrightarrow> length (ch_buf ch) \<le> subscriberBufferSize"
    "b_rings b p = Some rb \<Longrightarrow> \<exists>hist. ring_of (b_size b) hist rb"
  using assms unfolding bus_inv_def by blast+

lemma bus_inv_new: "bus_inv NewMemoryBus"
  by (simp add: bus_inv_def NewMemoryBus_def)

lemma bus_inv_Subscribe:
  assumes inv: "bus_inv b" and fresh: "b_chans b c = None"
  shows "bus_inv (Subscribe p c b)"
proof -
  have new: "c \<notin> set (b_subs b q)" for q using bus_invD(4) [OF inv, of c q] fresh by auto
  show ?thesis
  proof (rule bus_invI)
    fix q r d assume "d \<in> set (b_subs (Subscribe p c b) q)" "d \<in> set (b_subs (Subscribe p c b) r)"
    then show "q = r" using bus_invD(3) [OF inv, of d] new
      by (auto simp: Subscribe_def split: if_splits)
  next
    fix q d assume "d \<in> set (b_subs (Subscribe p c b) q)"
    then show "\<exists>ch. b_chans (Subscribe p c b) d = Some ch \<and> \<not> ch_closed ch"
      using bus_invD(4) [OF inv, of d] by (auto simp: Subscribe_def split: if_splits)
  qed (use bus_invD [OF inv] new in \<open>auto simp: Subscribe_def split: if_splits\<close>)
qed

lemma bus_inv_Unsubscribe:
  assumes inv: "bus_inv b" and sub: "c \<in> set (b_subs b p)"
  shows "bus_inv (Unsubscribe p c b)"
proof -
  obtain ch where ch: "b_chans b c = Some ch" "\<not> ch_closed ch"
    using bus_invD(4) [OF inv sub] by blast
  have subs: "set (b_subs (Unsubscribe p c b) q) = set (b_subs b q) - {c}" for q
    using bus_invD(2) [OF inv, of p] bus_invD(3) [OF inv sub, of q] ch
    by (auto simp: Unsubscribe_def)
  show ?thesis
  proof (rule bus_invI)
    fix q r d assume "d \<in> set (b_subs (Unsubscribe p c b) q)"
      "d \<in> set (b_subs (Unsubscribe p c b) r)"
    then show "q = r" using bus_invD(3) [OF inv, of d] subs by auto
  next
    fix q d assume "d \<in> set (b_subs (Unsubscribe p c b) q)"
    then show "\<exists>ch. b_chans (Unsubscribe p c b) d = Some ch \<and> \<not> ch_closed ch"
      using bus_invD(4) [OF inv, of d q] ch unfolding subs by (auto simp: Unsubscribe_def)
  qed (use bus_invD [OF inv] ch in \<open>auto simp: Unsubscribe_def split: if_splits\<close>)
qed

lemma publish_locked_rest:
  assumes "publish_locked now ev b = (ev', subs, b')"
  shows "b_subs b' = b_subs b" "b_chans b' = b_chans b" "subs = b_subs b (e_project ev)"
    "b_size b' = b_size b" "e_project ev' = e_project ev"
    "b_rings b' = (b_rings b)(e_project ev \<mapsto> ring_push ev'
       (case b_rings b (e_project ev) of None \<Rightarrow> newRingBuffer (b_size b) | Some rb \<Rightarrow> rb))"
  using assms by (auto simp: publish_locked_def Let_def split: if_splits)

lemma bus_inv_locked:
  assumes inv: "bus_inv b" and l: "publish_locked now ev b = (ev', subs, b')"
  shows "bus_inv b'" "b_subs b' = b_subs b" "b_chans b' = b_chans b" "subs = b_subs b (e_project ev)"
    "b_size b' = b_size b" "e_project ev' = e_project ev"
proof -
  note rest = publish_locked_rest [OF l]
  have "\<exists>hist. ring_of (b_size b) hist
      (ring_push ev' (case b_rings b (e_project ev) of None \<Rightarrow> newRingBuffer (b_size b) | Some rb \<Rightarrow> rb))"
    using bus_invD(1) [OF inv] bus_invD(6) [OF inv, of "e_project ev"]
    by (auto split: option.split intro: ring_of_push ring_of_new)
  then show "bus_inv b'"
    using bus_invD [OF inv] by (intro bus_invI) (auto simp: rest split: if_splits)
qed (use publish_locked_rest [OF l] in auto)

lemma chan_send_ok:
  assumes "bus_inv b" "c \<in> set (b_subs b p)"
  shows "\<exists>ok b'. chan_send ev c b = Some (ok, b') \<and> bus_inv b' \<and> b_subs b' = b_subs b
           \<and> b_rings b' = b_rings b \<and> b_size b' = b_size b
           \<and> (\<forall>d. d \<noteq> c \<longrightarrow> b_chans b' d = b_chans b d)
           \<and> ok = (length (ch_buf (the (b_chans b c))) < subscriberBufferSize)"
proof -
  from assms have "\<exists>ch. b_chans b c = Some ch \<and> \<not> ch_closed ch"
    by (simp add: bus_inv_def)
  then obtain ch where ch: "b_chans b c = Some ch" "\<not> ch_closed ch" by blast
  show ?thesis
  proof (cases "length (ch_buf ch) < subscriberBufferSize")
    case True
    let ?b = "b\<lparr>b_chans := (b_chans b)(c \<mapsto> ch\<lparr>ch_buf := ch_buf ch @ [ev]\<rparr>)\<rparr>"
    have "bus_inv ?b"
    proof (rule bus_invI)
      fix q d assume "d \<in> set (b_subs ?b q)"
      then show "\<exists>ch. b_chans ?b d = Some ch \<and> \<not> ch_closed ch"
        using bus_invD(4) [OF assms(1), of d q] ch by auto
    next
      fix q r d assume "d \<in> set (b_subs ?b q)" "d \<in> set (b_subs ?b r)"
      then show "q = r" using bus_invD(3) [OF assms(1), of d q r] by simp
    qed (use bus_invD [OF assms(1)] True in \<open>auto split: if_splits\<close>)
    moreover have "chan_send ev c b = Some (True, ?b)" using ch True by (simp add: chan_send_def)
    ultimately show ?thesis using ch True by auto
  next
    case False
    then have "chan_send ev c b = Some (False, b)" using ch by (simp add: chan_send_def)
    with assms(1) ch False show ?thesis by auto
  qed
qed

lemma publish_sends_ok:
  assumes "bus_inv b" "set cs \<subseteq> set (b_subs b p)" "distinct cs"
  shows "\<exists>b'. publish_sends ev cs d b =
            Some (d \<and> (\<forall>c \<in> set cs. length (ch_buf (the (b_chans b c))) < subscriberBufferSize), b')
          \<and> bus_inv b' \<and> b_rings b' = b_rings b \<and> b_size b' = b_size b \<and> b_subs b' = b_subs b"
  using assms
proof (induction cs arbitrary: b d)
  case Nil
  then show ?case by simp
next
  case (Cons c cs)
  then obtain ok b1 where b1: "chan_send ev c b = Some (ok, b1)" "bus_inv b1" "b_subs b1 = b_subs b"
    "b_rings b1 = b_rings b" "b_size b1 = b_size b" "\<And>e. e \<noteq> c \<Longrightarrow> b_chans b1 e = b_chans b e"
    "ok = (length (ch_buf (the (b_chans b c))) < subscriberBufferSize)"
    using chan_send_ok [of b c p ev] by auto
  have eq: "b_chans b1 e = b_chans b e" if "e \<in> set cs" for e
    using that Cons.prems(3) by (intro b1(6)) auto
  from Cons.IH [of b1 "if ok then d else False"] Cons.prems b1(2,3)
  obtain b2 where b2: "publish_sends ev cs (if ok then d else False) b1 =
      Some ((if ok then d else False)
        \<and> (\<forall>e \<in> set cs. length (ch_buf (the (b_chans b1 e))) < subscriberBufferSize), b2)"
    "bus_inv b2" "b_rings b2 = b_rings b1" "b_size b2 = b_size b1" "b_subs b2 = b_subs b1"
    by auto
  have "(\<forall>e \<in> set cs. length (ch_buf (the (b_chans b1 e))) < subscriberBufferSize)
      = (\<forall>e \<in> set cs. length (ch_buf (the (b_chans b e))) < subscriberBufferSize)"
    using eq by auto
  with b1 b2 show ?case by (cases ok) auto
qed

text \<open>
  Run without interruption, Publish never panics, keeps the invariant, and reports True
  exactly when the project has a subscriber and every subscriber's channel has room.
\<close>

theorem Publish_correct:
  assumes "bus_inv b"
  shows "\<exists>b'. Publish now ev b =
      Some (b_subs b (e_project ev) \<noteq> []
        \<and> (\<forall>c \<in> set (b_subs b (e_project ev)).
             length (ch_buf (the (b_chans b c))) < subscriberBufferSize), b') \<and> bus_inv b'"
proof -
  obtain ev' subs b1 where l: "publish_locked now ev b = (ev', subs, b1)"
    by (cases "publish_locked now ev b") auto
  note lk = bus_inv_locked [OF assms l]
  have "distinct subs" using assms lk(4) by (simp add: bus_inv_def)
  with publish_sends_ok [OF lk(1), of subs "e_project ev" ev' "subs \<noteq> []"] lk l
  show ?thesis by (auto simp: Publish_def)
qed

theorem Publish_correct_witness:
  "\<exists>b'. Publish 7 zero_event (Subscribe 0 1 NewMemoryBus) = Some (True, b') \<and> bus_inv b'"
proof -
  have "bus_inv (Subscribe 0 1 NewMemoryBus)"
    by (rule bus_inv_Subscribe [OF bus_inv_new]) (simp add: NewMemoryBus_def)
  from Publish_correct [OF this, of 7 zero_event] show ?thesis
    by (simp add: Subscribe_def NewMemoryBus_def zero_event_def subscriberBufferSize_def)
qed

section \<open>Replay\<close>

text \<open>The events of a sequence of calls of Publish, as numbered and stamped, per project.\<close>

fun publish_all :: "go_time \<Rightarrow> event list \<Rightarrow> bus \<Rightarrow> (event list \<times> bus) option" where
  "publish_all now [] b = Some ([], b)"
| "publish_all now (ev # evs) b =
     (case Publish now ev b of
        None \<Rightarrow> None
      | Some (_, b') \<Rightarrow>
          map_option (\<lambda>(sent, b''). (fst (publish_locked now ev b) # sent, b''))
            (publish_all now evs b'))"

definition rings_hold :: "(uuid \<Rightarrow> event list) \<Rightarrow> bus \<Rightarrow> bool" where
  "rings_hold hist b \<longleftrightarrow>
     (\<forall>p. case b_rings b p of None \<Rightarrow> hist p = [] | Some rb \<Rightarrow> ring_of (b_size b) (hist p) rb)"

lemma rings_hold_Publish:
  assumes "bus_inv b" "rings_hold hist b" "Publish now ev b = Some (ok, b')"
  defines "ev' \<equiv> fst (publish_locked now ev b)"
  shows "rings_hold (hist(e_project ev := hist (e_project ev) @ [ev'])) b'" "bus_inv b'"
    "b_size b' = b_size b" "e_project ev' = e_project ev"
proof -
  obtain subs b1 where l: "publish_locked now ev b = (ev', subs, b1)"
    by (cases "publish_locked now ev b") (auto simp: ev'_def)
  note lk = bus_inv_locked [OF assms(1) l]
  have "distinct subs" using assms(1) lk(4) by (simp add: bus_inv_def)
  with publish_sends_ok [OF lk(1), of subs "e_project ev" ev' "subs \<noteq> []"] lk l assms(3)
  have b': "bus_inv b'" "b_rings b' = b_rings b1" "b_size b' = b_size b1"
    by (auto simp: Publish_def)
  let ?p = "e_project ev"
  let ?rb = "case b_rings b ?p of None \<Rightarrow> newRingBuffer (b_size b) | Some rb \<Rightarrow> rb"
  have h: "case b_rings b q of None \<Rightarrow> hist q = [] | Some rb \<Rightarrow> ring_of (b_size b) (hist q) rb" for q
    using assms(2) by (simp add: rings_hold_def)
  have "ring_of (b_size b) (hist ?p) ?rb"
    using h [of ?p] bus_invD(1) [OF assms(1)] ring_of_new by (auto split: option.splits)
  then have "ring_of (b_size b) (hist ?p @ [ev']) (ring_push ev' ?rb)" by (rule ring_of_push)
  moreover have "case b_rings b q of None \<Rightarrow> (hist(?p := hist ?p @ [ev'])) q = []
      | Some rb \<Rightarrow> ring_of (b_size b') ((hist(?p := hist ?p @ [ev'])) q) rb" if "q \<noteq> ?p" for q
    using h [of q] that b'(3) lk(5) by (cases "b_rings b q") simp_all
  ultimately show "rings_hold (hist(?p := hist ?p @ [ev'])) b'"
    unfolding rings_hold_def using b' publish_locked_rest [OF l] by auto
  show "bus_inv b'" "b_size b' = b_size b" "e_project ev' = e_project ev"
    using b' lk by auto
qed

lemma publish_all_rings:
  assumes "bus_inv b" "rings_hold hist b"
  shows "\<exists>sent b'. publish_all now evs b = Some (sent, b') \<and> bus_inv b' \<and> b_size b' = b_size b
      \<and> rings_hold (\<lambda>p. hist p @ filter (\<lambda>e. e_project e = p) sent) b'
      \<and> map e_project sent = map e_project evs"
  using assms
proof (induction evs arbitrary: b hist)
  case Nil
  then show ?case by simp
next
  case (Cons ev evs)
  obtain ok b1 where p: "Publish now ev b = Some (ok, b1)"
    using Publish_correct [OF Cons.prems(1), of now ev] by blast
  note st = rings_hold_Publish [OF Cons.prems p]
  from Cons.IH [OF st(2,1)] obtain sent b2 where b2: "publish_all now evs b1 = Some (sent, b2)"
    "bus_inv b2" "b_size b2 = b_size b1" "map e_project sent = map e_project evs"
    "rings_hold (\<lambda>p. (hist(e_project ev := hist (e_project ev) @ [fst (publish_locked now ev b)])) p
       @ filter (\<lambda>e. e_project e = p) sent) b2"
    by blast
  have "(\<lambda>p. (hist(e_project ev := hist (e_project ev) @ [fst (publish_locked now ev b)])) p
       @ filter (\<lambda>e. e_project e = p) sent)
     = (\<lambda>p. hist p @ filter (\<lambda>e. e_project e = p) (fst (publish_locked now ev b) # sent))"
    using st(4) by (auto simp: fun_eq_iff)
  with p b2 st show ?case by auto
qed

text \<open>
  C39: after any sequence of events published on a fresh bus, Last(p, n) returns the most recent
  min(n, 200) events of project p, oldest first, and nothing of another project.
\<close>

theorem Last_replays:
  assumes "publish_all now evs NewMemoryBus = Some (sent, b)" "0 < n"
  shows "Last p n b = (let mine = filter (\<lambda>e. e_project e = p) sent
                       in drop (length mine - min (nat n) 200) mine)"
proof -
  have "rings_hold (\<lambda>_. []) NewMemoryBus" by (simp add: rings_hold_def NewMemoryBus_def)
  from publish_all_rings [OF bus_inv_new this, of now evs] assms(1)
  have h: "rings_hold (\<lambda>p. filter (\<lambda>e. e_project e = p) sent) b" "b_size b = 200"
    by (auto simp: NewMemoryBus_def)
  let ?mine = "filter (\<lambda>e. e_project e = p) sent"
  show ?thesis
  proof (cases "b_rings b p")
    case None
    with h have "?mine = []" by (auto simp: rings_hold_def dest: spec [of _ p])
    with None show ?thesis by (simp add: Last_def)
  next
    case (Some rb)
    with h have "ring_of 200 ?mine rb" by (auto simp: rings_hold_def dest: spec [of _ p])
    from ring_last_of [OF this, of "nat n"] Some h assms(2) show ?thesis
      by (simp add: Last_def Let_def min_def)
  qed
qed

theorem Last_replays_witness:
  "\<exists>sent b. publish_all 7 [zero_event, zero_event] NewMemoryBus = Some (sent, b)
     \<and> length sent = 2 \<and> Last 0 1 b = drop 1 sent"
proof -
  have "rings_hold (\<lambda>_. []) NewMemoryBus" by (simp add: rings_hold_def NewMemoryBus_def)
  from publish_all_rings [OF bus_inv_new this, of 7 "[zero_event, zero_event]"]
  obtain sent b where l: "publish_all 7 [zero_event, zero_event] NewMemoryBus = Some (sent, b)"
    "map e_project sent = map e_project [zero_event, zero_event]" by blast
  then have "length sent = 2" "filter (\<lambda>e. e_project e = 0) sent = sent"
    by (auto simp: zero_event_def map_eq_Cons_conv)
  with l Last_replays [OF l(1), of 1 0] show ?thesis by auto
qed

text \<open>Events without an id get consecutive ids.\<close>

lemma publish_locked_id:
  "publish_locked now ev b = (ev', subs, b') \<Longrightarrow>
     (if e_id ev = 0 then e_id ev' = b_next b \<and> b_next b' = b_next b + 1
      else e_id ev' = e_id ev \<and> b_next b' = b_next b)"
  by (auto simp: publish_locked_def Let_def split: if_splits)

section \<open>The gap between the lock and the sends\<close>

text \<open>
  Publish sends outside the lock. If a consumer unsubscribes between the critical section
  and the send to its channel, the send meets a closed channel: the publisher panics. This
  happens for every bus that satisfies the invariant and every project with a subscriber.
\<close>

theorem unsubscribe_race_panics:
  assumes "bus_inv b" "publish_locked now ev b = (ev', c # cs, b1)"
  shows "publish_sends ev' (c # cs) True (Unsubscribe (e_project ev) c b1) = None"
proof -
  note lk = bus_inv_locked [OF assms]
  then have "c \<in> set (b_subs b1 (e_project ev))" by (metis list.set_intros(1))
  with bus_invD(4) [OF lk(1)] obtain ch where "b_chans b1 c = Some ch" "\<not> ch_closed ch"
    by blast
  then show ?thesis by (simp add: chan_send_def Unsubscribe_def)
qed

theorem unsubscribe_race_panics_witness:
  "\<exists>ev' b1. publish_locked 7 zero_event (Subscribe 0 1 NewMemoryBus) = (ev', [1], b1)
     \<and> publish_sends ev' [1] True (Unsubscribe 0 1 b1) = None"
proof -
  have inv: "bus_inv (Subscribe 0 1 NewMemoryBus)"
    by (rule bus_inv_Subscribe [OF bus_inv_new]) (simp add: NewMemoryBus_def)
  obtain ev' subs b1 where
    l: "publish_locked 7 zero_event (Subscribe 0 1 NewMemoryBus) = (ev', subs, b1)"
    by (cases "publish_locked 7 zero_event (Subscribe 0 1 NewMemoryBus)") auto
  have "subs = [1]" using bus_inv_locked(4) [OF inv l]
    by (simp add: Subscribe_def NewMemoryBus_def zero_event_def)
  with l unsubscribe_race_panics [OF inv, of 7 zero_event ev' 1 "[]" b1] show ?thesis
    by (auto simp: zero_event_def)
qed

end
