(* ===== verification/Store.thy ===== *)
theory Store
  imports Model
begin

text \<open>
  The in-memory store of src/src/internal/store/memory.go: the state of memoryStore and the
  operations of its row tables. Every operation runs under the one mutex of the store, so it is
  one step. A write returns the new state, or the error with the state unchanged. A read of a
  task, project, execution or deliverable returns the pointer of the row, so a caller that
  assigns to a field of the result changes the row: the services model that as a row update.
\<close>

section \<open>Errors and state (store/store.go, memory.go)\<close>

datatype store_error = ErrNotFound | ErrAlreadyExists | ErrConflict | ErrInvalidInput

text \<open>
  Keys of the form id.String() are the ids; the composite string keys "id:version", "id:path"
  and "id:sha" are pairs (the text of an id has a fixed length). An index that maps an id to a
  slice is a total function with the empty slice for absent keys.
\<close>

record mem_store =
  ms_users :: "uuid \<rightharpoonup> user"
  ms_users_email :: "string \<rightharpoonup> user"
  ms_projects :: "uuid \<rightharpoonup> project"
  ms_agents :: "uuid \<rightharpoonup> agent"
  ms_executions :: "uuid \<rightharpoonup> execution"
  ms_deliverables :: "uuid \<rightharpoonup> deliverable"
  ms_dversions :: "uuid \<times> int \<rightharpoonup> deliverable_version"
  ms_dversion_ids :: "uuid \<Rightarrow> uuid list"
  ms_tasks :: "uuid \<rightharpoonup> task"
  ms_codegens :: "uuid \<rightharpoonup> codegen_request"
  ms_files :: "uuid \<times> string \<rightharpoonup> project_file"
  ms_commits :: "uuid \<times> string \<rightharpoonup> commit"
  ms_reviews :: "uuid \<rightharpoonup> review"
  ms_review_comments :: "uuid \<rightharpoonup> review_comment"
  ms_deployments :: "uuid \<rightharpoonup> deployment"
  ms_webhooks :: "uuid \<rightharpoonup> webhook"
  ms_audit :: "uuid \<rightharpoonup> audit_log"
  ms_tokens :: "string \<rightharpoonup> uuid"
  ms_capabilities :: "string \<rightharpoonup> capability_row"
  ms_events :: "uuid \<rightharpoonup> assignment_event"
  ms_event_ids :: "uuid \<Rightarrow> uuid list"
  ms_assignments :: "uuid \<rightharpoonup> assignment"
  ms_active :: "uuid \<rightharpoonup> uuid"
  ms_workers :: "uuid \<rightharpoonup> worker"
  ms_worker_by_agent :: "uuid \<Rightarrow> uuid list"
  ms_worker_by_execution :: "uuid \<Rightarrow> uuid list"

definition capability_seed_row :: "string \<Rightarrow> string \<Rightarrow> string \<Rightarrow> string \<Rightarrow> capability_row" where
  "capability_seed_row n dn cat desc = \<lparr>cr_id = uuid_nil, cr_name = n, cr_display_name = dn,
     cr_category = cat, cr_description = desc, cr_version = 0\<rparr>"

definition canonicalCapabilitySeed :: "capability_row list" where
  "canonicalCapabilitySeed =
     [capability_seed_row ''architecture'' ''Architecture'' ''architecture''
        ''System design, ADRs, dependency choices.'',
      capability_seed_row ''coding'' ''Coding'' ''coding''
        ''Source code and unit tests in the source tree.'',
      capability_seed_row ''testing'' ''Testing'' ''testing''
        ''Test execution, coverage, bug reports.'',
      capability_seed_row ''security'' ''Security'' ''security''
        ''Threat modeling, code audit, secret scanning.'',
      capability_seed_row ''devops'' ''Devops'' ''devops''
        ''Build, deploy, infra-as-code, monitoring.'',
      capability_seed_row ''leadership'' ''Leader'' ''leadership''
        ''Planning, decomposition, dispatch, conflict resolution.'']"

definition NewMemoryStore :: mem_store where
  "NewMemoryStore = \<lparr>
     ms_users = Map.empty, ms_users_email = Map.empty, ms_projects = Map.empty,
     ms_agents = Map.empty, ms_executions = Map.empty, ms_deliverables = Map.empty,
     ms_dversions = Map.empty, ms_dversion_ids = (\<lambda>_. []), ms_tasks = Map.empty,
     ms_codegens = Map.empty, ms_files = Map.empty, ms_commits = Map.empty,
     ms_reviews = Map.empty, ms_review_comments = Map.empty, ms_deployments = Map.empty,
     ms_webhooks = Map.empty, ms_audit = Map.empty, ms_tokens = Map.empty,
     ms_capabilities =
       foldl (\<lambda>mp c. mp(cr_name c \<mapsto> c)) Map.empty canonicalCapabilitySeed,
     ms_events = Map.empty, ms_event_ids = (\<lambda>_. []), ms_assignments = Map.empty,
     ms_active = Map.empty, ms_workers = Map.empty, ms_worker_by_agent = (\<lambda>_. []),
     ms_worker_by_execution = (\<lambda>_. [])\<rparr>"

section \<open>The contract of a row table\<close>

text \<open>
  What the services rely on: a table behaves as a map from ids to rows. \<open>view\<close> is that map.
\<close>

locale crud_table =
  fixes key :: "'v \<Rightarrow> uuid"
    and view :: "'s \<Rightarrow> (uuid \<rightharpoonup> 'v)"
    and create :: "'v \<Rightarrow> 's \<Rightarrow> store_error + 's"
    and get :: "uuid \<Rightarrow> 's \<Rightarrow> store_error + 'v"
  assumes get_view: "get k s = (case view s k of None \<Rightarrow> Inl ErrNotFound | Some v \<Rightarrow> Inr v)"
    and create_dup: "view s (key v) \<noteq> None \<Longrightarrow> create v s = Inl ErrAlreadyExists"
    and create_new: "view s (key v) = None \<Longrightarrow>
          \<exists>s'. create v s = Inr s' \<and> view s' = (view s)(key v \<mapsto> v)"
begin

lemma create_iff: "(\<exists>s'. create v s = Inr s') \<longleftrightarrow> view s (key v) = None"
  using create_dup create_new by (metis Inl_Inr_False)

lemma create_view: "create v s = Inr s' \<Longrightarrow> view s' = (view s)(key v \<mapsto> v)"
  using create_dup create_new by (metis Inl_Inr_False sum.inject(2))

lemma get_after_create:
  "create v s = Inr s' \<Longrightarrow> get k s' = (if k = key v then Inr v else get k s)"
  by (simp add: get_view create_view)

lemma create_twice: "create v s = Inr s' \<Longrightarrow> key w = key v \<Longrightarrow> create w s' = Inl ErrAlreadyExists"
  by (rule create_dup) (simp add: create_view)

lemma create_keyed: "create v s = Inr s' \<Longrightarrow> keyed_by key (view s) \<Longrightarrow> keyed_by key (view s')"
  by (simp add: create_view)

end

locale crud_update = crud_table key view create get
  for key :: "'v \<Rightarrow> uuid" and view :: "'s \<Rightarrow> (uuid \<rightharpoonup> 'v)"
    and create :: "'v \<Rightarrow> 's \<Rightarrow> store_error + 's" and get :: "uuid \<Rightarrow> 's \<Rightarrow> store_error + 'v" +
  fixes update :: "'v \<Rightarrow> 's \<Rightarrow> store_error + 's"
  assumes update_missing: "view s (key v) = None \<Longrightarrow> update v s = Inl ErrNotFound"
    and update_present: "view s (key v) \<noteq> None \<Longrightarrow>
          \<exists>s'. update v s = Inr s' \<and> view s' = (view s)(key v \<mapsto> v)"
begin

lemma update_view: "update v s = Inr s' \<Longrightarrow> view s' = (view s)(key v \<mapsto> v)"
  using update_missing update_present by (metis Inl_Inr_False sum.inject(2))

lemma update_dom: "update v s = Inr s' \<Longrightarrow> dom (view s') = dom (view s)"
  using update_missing [of s v] by (auto simp: update_view)

lemma get_after_update:
  "update v s = Inr s' \<Longrightarrow> get k s' = (if k = key v then Inr v else get k s)"
  by (simp add: get_view update_view)

lemma update_keyed: "update v s = Inr s' \<Longrightarrow> keyed_by key (view s) \<Longrightarrow> keyed_by key (view s')"
  by (simp add: update_view)

text \<open>Between create and update exactly one is refused.\<close>

lemma create_xor_update: "isl (create v s) \<noteq> isl (update v s)"
  by (cases "view s (key v)")
    (use create_dup [of s v] create_new [of s v] update_missing [of s v] update_present [of s v]
      in auto)

end

locale crud_delete = crud_update key view create get update
  for key :: "'v \<Rightarrow> uuid" and view :: "'s \<Rightarrow> (uuid \<rightharpoonup> 'v)"
    and create :: "'v \<Rightarrow> 's \<Rightarrow> store_error + 's" and get :: "uuid \<Rightarrow> 's \<Rightarrow> store_error + 'v"
    and update :: "'v \<Rightarrow> 's \<Rightarrow> store_error + 's" +
  fixes delete :: "uuid \<Rightarrow> 's \<Rightarrow> store_error + 's"
  assumes delete_missing: "view s k = None \<Longrightarrow> delete k s = Inl ErrNotFound"
    and delete_present: "view s k \<noteq> None \<Longrightarrow>
          \<exists>s'. delete k s = Inr s' \<and> view s' = (view s)(k := None)"
begin

lemma delete_view: "delete k s = Inr s' \<Longrightarrow> view s' = (view s)(k := None)"
  using delete_missing delete_present by (metis Inl_Inr_False sum.inject(2))

lemma get_after_delete:
  "delete k s = Inr s' \<Longrightarrow> get j s' = (if j = k then Inl ErrNotFound else get j s)"
  by (simp add: get_view delete_view)

lemma delete_then_create:
  "delete (key v) s = Inr s' \<Longrightarrow> \<exists>s''. create v s' = Inr s''"
  by (simp add: create_iff delete_view)

lemma create_then_delete:
  "create v s = Inr s' \<Longrightarrow> \<exists>s''. delete (key v) s' = Inr s'' \<and> view s'' = view s"
  using create_iff [of v s] delete_present [of s' "key v"] by (auto simp: create_view fun_upd_idem)

lemma delete_keyed: "delete k s = Inr s' \<Longrightarrow> keyed_by key (view s) \<Longrightarrow> keyed_by key (view s')"
  by (simp add: delete_view)

end

section \<open>Projects\<close>

definition Project_Create :: "project \<Rightarrow> mem_store \<Rightarrow> store_error + mem_store" where
  "Project_Create p m =
     (if ms_projects m (pr_id p) \<noteq> None then Inl ErrAlreadyExists
      else Inr (m\<lparr>ms_projects := (ms_projects m)(pr_id p \<mapsto> p)\<rparr>))"

definition Project_GetByID :: "uuid \<Rightarrow> mem_store \<Rightarrow> store_error + project" where
  "Project_GetByID k m = (case ms_projects m k of None \<Rightarrow> Inl ErrNotFound | Some p \<Rightarrow> Inr p)"

definition Project_Update :: "project \<Rightarrow> mem_store \<Rightarrow> store_error + mem_store" where
  "Project_Update p m =
     (if ms_projects m (pr_id p) = None then Inl ErrNotFound
      else Inr (m\<lparr>ms_projects := (ms_projects m)(pr_id p \<mapsto> p)\<rparr>))"

definition Project_Delete :: "uuid \<Rightarrow> mem_store \<Rightarrow> store_error + mem_store" where
  "Project_Delete k m =
     (if ms_projects m k = None then Inl ErrNotFound
      else Inr (m\<lparr>ms_projects := (ms_projects m)(k := None)\<rparr>))"

interpretation projects: crud_delete pr_id ms_projects Project_Create Project_GetByID Project_Update Project_Delete
  by unfold_locales (auto simp: Project_Create_def Project_GetByID_def Project_Update_def Project_Delete_def split: option.splits)

section \<open>Tasks\<close>

definition Task_Create :: "task \<Rightarrow> mem_store \<Rightarrow> store_error + mem_store" where
  "Task_Create t m =
     (if ms_tasks m (t_id t) \<noteq> None then Inl ErrAlreadyExists
      else Inr (m\<lparr>ms_tasks := (ms_tasks m)(t_id t \<mapsto> t)\<rparr>))"

definition Task_GetByID :: "uuid \<Rightarrow> mem_store \<Rightarrow> store_error + task" where
  "Task_GetByID k m = (case ms_tasks m k of None \<Rightarrow> Inl ErrNotFound | Some t \<Rightarrow> Inr t)"

definition Task_Update :: "task \<Rightarrow> mem_store \<Rightarrow> store_error + mem_store" where
  "Task_Update t m =
     (if ms_tasks m (t_id t) = None then Inl ErrNotFound
      else Inr (m\<lparr>ms_tasks := (ms_tasks m)(t_id t \<mapsto> t)\<rparr>))"

definition Task_Delete :: "uuid \<Rightarrow> mem_store \<Rightarrow> store_error + mem_store" where
  "Task_Delete k m =
     (if ms_tasks m k = None then Inl ErrNotFound
      else Inr (m\<lparr>ms_tasks := (ms_tasks m)(k := None)\<rparr>))"

interpretation tasks: crud_delete t_id ms_tasks Task_Create Task_GetByID Task_Update Task_Delete
  by unfold_locales (auto simp: Task_Create_def Task_GetByID_def Task_Update_def Task_Delete_def split: option.splits)

section \<open>Webhooks\<close>

definition Webhook_Create :: "webhook \<Rightarrow> mem_store \<Rightarrow> store_error + mem_store" where
  "Webhook_Create w m =
     (if ms_webhooks m (wh_id w) \<noteq> None then Inl ErrAlreadyExists
      else Inr (m\<lparr>ms_webhooks := (ms_webhooks m)(wh_id w \<mapsto> w)\<rparr>))"

definition Webhook_GetByID :: "uuid \<Rightarrow> mem_store \<Rightarrow> store_error + webhook" where
  "Webhook_GetByID k m = (case ms_webhooks m k of None \<Rightarrow> Inl ErrNotFound | Some w \<Rightarrow> Inr w)"

definition Webhook_Update :: "webhook \<Rightarrow> mem_store \<Rightarrow> store_error + mem_store" where
  "Webhook_Update w m =
     (if ms_webhooks m (wh_id w) = None then Inl ErrNotFound
      else Inr (m\<lparr>ms_webhooks := (ms_webhooks m)(wh_id w \<mapsto> w)\<rparr>))"

definition Webhook_Delete :: "uuid \<Rightarrow> mem_store \<Rightarrow> store_error + mem_store" where
  "Webhook_Delete k m =
     (if ms_webhooks m k = None then Inl ErrNotFound
      else Inr (m\<lparr>ms_webhooks := (ms_webhooks m)(k := None)\<rparr>))"

interpretation webhooks: crud_delete wh_id ms_webhooks Webhook_Create Webhook_GetByID Webhook_Update Webhook_Delete
  by unfold_locales (auto simp: Webhook_Create_def Webhook_GetByID_def Webhook_Update_def Webhook_Delete_def split: option.splits)

definition Webhook_List :: "uuid list \<Rightarrow> mem_store \<Rightarrow> webhook list" where
  "Webhook_List ks m =
     sort_slice (\<lambda>a b. wh_created a < wh_created b) (range_values (ms_webhooks m) ks)"

section \<open>Deployments\<close>

definition Deployment_Create :: "deployment \<Rightarrow> mem_store \<Rightarrow> store_error + mem_store" where
  "Deployment_Create d m =
     (if ms_deployments m (dep_id d) \<noteq> None then Inl ErrAlreadyExists
      else Inr (m\<lparr>ms_deployments := (ms_deployments m)(dep_id d \<mapsto> d)\<rparr>))"

definition Deployment_GetByID :: "uuid \<Rightarrow> mem_store \<Rightarrow> store_error + deployment" where
  "Deployment_GetByID k m = (case ms_deployments m k of None \<Rightarrow> Inl ErrNotFound | Some d \<Rightarrow> Inr d)"

definition Deployment_Update :: "deployment \<Rightarrow> mem_store \<Rightarrow> store_error + mem_store" where
  "Deployment_Update d m =
     (if ms_deployments m (dep_id d) = None then Inl ErrNotFound
      else Inr (m\<lparr>ms_deployments := (ms_deployments m)(dep_id d \<mapsto> d)\<rparr>))"

interpretation deployments: crud_update dep_id ms_deployments Deployment_Create Deployment_GetByID Deployment_Update
  by unfold_locales (auto simp: Deployment_Create_def Deployment_GetByID_def Deployment_Update_def split: option.splits)

definition Deployment_ListByProject :: "uuid \<Rightarrow> uuid list \<Rightarrow> mem_store \<Rightarrow> deployment list" where
  "Deployment_ListByProject p ks m =
     sort_slice (\<lambda>a b. dep_created a < dep_created b)
       (filter (\<lambda>d. dep_project d = p) (range_values (ms_deployments m) ks))"

section \<open>Reviews and review comments\<close>

definition Review_Create :: "review \<Rightarrow> mem_store \<Rightarrow> store_error + mem_store" where
  "Review_Create r m =
     (if ms_reviews m (rv_id r) \<noteq> None then Inl ErrAlreadyExists
      else Inr (m\<lparr>ms_reviews := (ms_reviews m)(rv_id r \<mapsto> r)\<rparr>))"

definition Review_GetByID :: "uuid \<Rightarrow> mem_store \<Rightarrow> store_error + review" where
  "Review_GetByID k m = (case ms_reviews m k of None \<Rightarrow> Inl ErrNotFound | Some r \<Rightarrow> Inr r)"

definition Review_Update :: "review \<Rightarrow> mem_store \<Rightarrow> store_error + mem_store" where
  "Review_Update r m =
     (if ms_reviews m (rv_id r) = None then Inl ErrNotFound
      else Inr (m\<lparr>ms_reviews := (ms_reviews m)(rv_id r \<mapsto> r)\<rparr>))"

interpretation reviews: crud_update rv_id ms_reviews Review_Create Review_GetByID Review_Update
  by unfold_locales (auto simp: Review_Create_def Review_GetByID_def Review_Update_def split: option.splits)

definition Review_ListByProject :: "uuid \<Rightarrow> uuid list \<Rightarrow> mem_store \<Rightarrow> review list" where
  "Review_ListByProject p ks m =
     sort_slice (\<lambda>a b. rv_created a < rv_created b)
       (filter (\<lambda>r. rv_project r = p) (range_values (ms_reviews m) ks))"

definition Review_CreateComment :: "review_comment \<Rightarrow> mem_store \<Rightarrow> store_error + mem_store" where
  "Review_CreateComment c m =
     (if ms_review_comments m (rc_id c) \<noteq> None then Inl ErrAlreadyExists
      else Inr (m\<lparr>ms_review_comments := (ms_review_comments m)(rc_id c \<mapsto> c)\<rparr>))"

definition Review_ListComments :: "uuid \<Rightarrow> uuid list \<Rightarrow> mem_store \<Rightarrow> review_comment list" where
  "Review_ListComments p ks m =
     sort_slice (\<lambda>a b. rc_created a < rc_created b)
       (filter (\<lambda>c. rc_review c = p) (range_values (ms_review_comments m) ks))"

section \<open>Code generation requests, files and commits\<close>

definition CodeGen_Create :: "codegen_request \<Rightarrow> mem_store \<Rightarrow> store_error + mem_store" where
  "CodeGen_Create r m =
     (if ms_codegens m (cg_id r) \<noteq> None then Inl ErrAlreadyExists
      else Inr (m\<lparr>ms_codegens := (ms_codegens m)(cg_id r \<mapsto> r)\<rparr>))"

definition CodeGen_GetByID :: "uuid \<Rightarrow> mem_store \<Rightarrow> store_error + codegen_request" where
  "CodeGen_GetByID k m = (case ms_codegens m k of None \<Rightarrow> Inl ErrNotFound | Some r \<Rightarrow> Inr r)"

definition CodeGen_Update :: "codegen_request \<Rightarrow> mem_store \<Rightarrow> store_error + mem_store" where
  "CodeGen_Update r m =
     (if ms_codegens m (cg_id r) = None then Inl ErrNotFound
      else Inr (m\<lparr>ms_codegens := (ms_codegens m)(cg_id r \<mapsto> r)\<rparr>))"

interpretation codegens: crud_update cg_id ms_codegens CodeGen_Create CodeGen_GetByID CodeGen_Update
  by unfold_locales (auto simp: CodeGen_Create_def CodeGen_GetByID_def CodeGen_Update_def split: option.splits)

definition CodeGen_ListByProject :: "uuid \<Rightarrow> uuid list \<Rightarrow> mem_store \<Rightarrow> codegen_request list" where
  "CodeGen_ListByProject p ks m =
     sort_slice (\<lambda>a b. cg_created a < cg_created b)
       (filter (\<lambda>r. cg_project r = p) (range_values (ms_codegens m) ks))"

definition SaveFile :: "project_file \<Rightarrow> mem_store \<Rightarrow> mem_store" where
  "SaveFile f m = m\<lparr>ms_files := (ms_files m)((pf_project f, pf_path f) \<mapsto> f)\<rparr>"

definition GetFile :: "uuid \<Rightarrow> string \<Rightarrow> mem_store \<Rightarrow> store_error + project_file" where
  "GetFile p path m =
     (case ms_files m (p, path) of None \<Rightarrow> Inl ErrNotFound | Some f \<Rightarrow> Inr f)"

definition ListFiles :: "uuid \<Rightarrow> (uuid \<times> string) list \<Rightarrow> mem_store \<Rightarrow> project_file list" where
  "ListFiles p ks m = filter (\<lambda>f. pf_project f = p) (range_values (ms_files m) ks)"

definition CreateCommit :: "commit \<Rightarrow> mem_store \<Rightarrow> store_error + mem_store" where
  "CreateCommit c m =
     (let key = (cm_project c, cm_sha c)
      in if ms_commits m key \<noteq> None then Inl ErrAlreadyExists
         else Inr (m\<lparr>ms_commits := (ms_commits m)(key \<mapsto> c)\<rparr>))"

definition GetCommit :: "uuid \<Rightarrow> string \<Rightarrow> mem_store \<Rightarrow> store_error + commit" where
  "GetCommit p sha m =
     (case ms_commits m (p, sha) of None \<Rightarrow> Inl ErrNotFound | Some c \<Rightarrow> Inr c)"

text \<open>The prefix test of ListCommits on the key string is equality of its first component.\<close>

definition ListCommits :: "uuid \<Rightarrow> (uuid \<times> string) list \<Rightarrow> mem_store \<Rightarrow> commit list" where
  "ListCommits p ks m =
     sort_slice (\<lambda>a b. cm_created a < cm_created b)
       (range_values (ms_commits m) (filter (\<lambda>k. fst k = p) ks))"

section \<open>Users\<close>

text \<open>
  The rows of the two user maps share their pointers, and no caller changes a user after
  Create, so both maps hold the row itself. Update is given a row of its own.
\<close>

definition User_Create :: "user \<Rightarrow> mem_store \<Rightarrow> store_error + mem_store" where
  "User_Create u m =
     (if ms_users m (u_id u) \<noteq> None then Inl ErrAlreadyExists
      else if ms_users_email m (u_email u) \<noteq> None then Inl ErrAlreadyExists
      else Inr (m\<lparr>ms_users := (ms_users m)(u_id u \<mapsto> u),
                 ms_users_email := (ms_users_email m)(u_email u \<mapsto> u)\<rparr>))"

definition User_GetByID :: "uuid \<Rightarrow> mem_store \<Rightarrow> store_error + user" where
  "User_GetByID k m = (case ms_users m k of None \<Rightarrow> Inl ErrNotFound | Some u \<Rightarrow> Inr u)"

definition User_GetByEmail :: "string \<Rightarrow> mem_store \<Rightarrow> store_error + user" where
  "User_GetByEmail email m =
     (case ms_users_email m email of None \<Rightarrow> Inl ErrNotFound | Some u \<Rightarrow> Inr u)"

definition User_List :: "uuid list \<Rightarrow> mem_store \<Rightarrow> user list" where
  "User_List ks m =
     sort_slice (\<lambda>a b. u_created a < u_created b) (range_values (ms_users m) ks)"

definition User_Update :: "user \<Rightarrow> mem_store \<Rightarrow> store_error + mem_store" where
  "User_Update u m =
     (case ms_users m (u_id u) of
        None \<Rightarrow> Inl ErrNotFound
      | Some old \<Rightarrow>
          let m1 = (if u_email old \<noteq> u_email u
                    then m\<lparr>ms_users_email :=
                           ((ms_users_email m)(u_email old := None))(u_email u \<mapsto> u)\<rparr>
                    else m)
          in Inr (m1\<lparr>ms_users := (ms_users m1)(u_id u \<mapsto> u)\<rparr>))"

text \<open>The project list of a user holds the texts of ids; \<open>ustr\<close> stands for String().\<close>

definition CheckProjectAccess :: "(uuid \<Rightarrow> string) \<Rightarrow> uuid \<Rightarrow> uuid \<Rightarrow> mem_store \<Rightarrow> bool" where
  "CheckProjectAccess ustr uid pid m =
     (case ms_users m uid of
        None \<Rightarrow> False
      | Some u \<Rightarrow> if u_role u = RoleAdmin then True else ustr pid \<in> set (u_projects u))"

section \<open>Tokens\<close>

text \<open>The ttl argument of Set is not used: a token never expires.\<close>

definition Token_Set :: "string \<Rightarrow> uuid \<Rightarrow> int \<Rightarrow> mem_store \<Rightarrow> mem_store" where
  "Token_Set k uid ttl m = m\<lparr>ms_tokens := (ms_tokens m)(k \<mapsto> uid)\<rparr>"

definition Token_Get :: "string \<Rightarrow> mem_store \<Rightarrow> store_error + uuid" where
  "Token_Get k m = (case ms_tokens m k of None \<Rightarrow> Inl ErrNotFound | Some uid \<Rightarrow> Inr uid)"

definition Token_Delete :: "string \<Rightarrow> mem_store \<Rightarrow> mem_store" where
  "Token_Delete k m = m\<lparr>ms_tokens := (ms_tokens m)(k := None)\<rparr>"

end
