(* ===== verification/Store_Paging.thy ===== *)
theory Store_Paging
  imports Store
begin

text \<open>
  The List operations of src/src/internal/store/memory.go that page by number: projects, tasks
  and the audit log. The offset is computed in 64-bit arithmetic that may wrap, and the slice
  expression at the end panics on a negative offset: the result None.
\<close>

section \<open>The window of a page\<close>

text \<open>The common tail of the three functions: the items of the page and the total.\<close>

definition page_window :: "int \<Rightarrow> int \<Rightarrow> 'a list \<Rightarrow> ('a list \<times> int) option" where
  "page_window pg lim0 filtered =
     (let total = int (length filtered);
          page = (if pg \<le> 0 then 1 else pg);
          limit = (if lim0 \<le> 0 then 20 else lim0);
          start = wrap64 (wrap64 (page - 1) * limit)
      in if start \<ge> int (length filtered) then Some ([], total)
         else let end0 = wrap64 (start + limit);
                  end1 = (if end0 > int (length filtered) then int (length filtered) else end0)
              in map_option (\<lambda>items. (items, total)) (slice_range filtered start end1))"

section \<open>Tasks\<close>

record task_filter =
  tf_project :: uuid
  tf_status :: task_status
  tf_assignee :: uuid
  tf_page :: int
  tf_limit :: int

definition task_matches :: "task_filter \<Rightarrow> task \<Rightarrow> bool" where
  "task_matches f t =
     (if tf_project f \<noteq> uuid_nil \<and> t_project t \<noteq> tf_project f then False
      else if tf_status f \<noteq> TaskOther '''' \<and> t_status t \<noteq> tf_status f then False
      else if tf_assignee f \<noteq> uuid_nil \<and> t_assignee t \<noteq> tf_assignee f then False
      else True)"

definition Task_List ::
  "task_filter \<Rightarrow> uuid list \<Rightarrow> mem_store \<Rightarrow> (task list \<times> int) option" where
  "Task_List f ks m =
     (let filtered = filter (task_matches f) (range_values (ms_tasks m) ks);
          filtered = sort_slice (\<lambda>a b. t_created a < t_created b) filtered
      in page_window (tf_page f) (tf_limit f) filtered)"

section \<open>Projects\<close>

record project_filter =
  pjf_status :: project_status
  pjf_owner :: uuid
  pjf_search :: string
  pjf_page :: int
  pjf_limit :: int

definition strings_contains :: "string \<Rightarrow> string \<Rightarrow> bool" where
  "strings_contains s sub = (\<exists>i \<in> set [0..<Suc (length s)]. take (length sub) (drop i s) = sub)"

definition project_matches :: "(string \<Rightarrow> string) \<Rightarrow> project_filter \<Rightarrow> project \<Rightarrow> bool" where
  "project_matches to_lower f p =
     (if pjf_status f \<noteq> ProjectOther '''' \<and> pr_status p \<noteq> pjf_status f then False
      else if pjf_owner f \<noteq> uuid_nil \<and> pr_owner p \<noteq> pjf_owner f then False
      else if pjf_search f \<noteq> ''''
              \<and> \<not> strings_contains (to_lower (pr_name p)) (to_lower (pjf_search f))
              \<and> \<not> strings_contains (to_lower (pr_description p)) (to_lower (pjf_search f)) then False
      else True)"

definition active_agents :: "uuid \<Rightarrow> uuid list \<Rightarrow> mem_store \<Rightarrow> int" where
  "active_agents p aks m =
     int (length (filter (\<lambda>a. ag_project a = p \<and> ag_status a = AgentBusy)
                    (range_values (ms_agents m) aks)))"

text \<open>
  List writes the count of busy agents into the rows it returns, which are the rows of the
  store; \<open>aks\<close> is the order of visiting the agents and \<open>to_lower\<close> stands for
  strings.ToLower.
\<close>

definition Project_count_rows ::
  "(string \<Rightarrow> string) \<Rightarrow> project_filter \<Rightarrow> uuid list \<Rightarrow> mem_store \<Rightarrow> (uuid \<rightharpoonup> project)" where
  "Project_count_rows to_lower f aks m =
     (\<lambda>k. case ms_projects m k of
            None \<Rightarrow> None
          | Some p \<Rightarrow>
              if project_matches to_lower f p
              then Some (p\<lparr>pr_active_agents := active_agents (pr_id p) aks m\<rparr>) else Some p)"

definition Project_List ::
  "(string \<Rightarrow> string) \<Rightarrow> project_filter \<Rightarrow> uuid list \<Rightarrow> uuid list \<Rightarrow> mem_store
   \<Rightarrow> (project list \<times> int) option \<times> mem_store" where
  "Project_List to_lower f ks aks m =
     (let m' = m\<lparr>ms_projects := Project_count_rows to_lower f aks m\<rparr>;
          filtered = filter (project_matches to_lower f) (range_values (ms_projects m') ks);
          filtered = sort_slice (\<lambda>a b. pr_created a < pr_created b) filtered
      in (page_window (pjf_page f) (pjf_limit f) filtered, m'))"

section \<open>The audit log\<close>

record audit_filter =
  alf_entity_type :: string
  alf_entity :: uuid
  alf_user :: uuid
  alf_page :: int
  alf_limit :: int

definition AuditLog_Create :: "uuid \<Rightarrow> audit_log \<Rightarrow> mem_store \<Rightarrow> mem_store" where
  "AuditLog_Create fresh l m =
     (let l' = (if al_id l = uuid_nil then l\<lparr>al_id := fresh\<rparr> else l)
      in m\<lparr>ms_audit := (ms_audit m)(al_id l' \<mapsto> l')\<rparr>)"

definition audit_matches :: "audit_filter \<Rightarrow> audit_log \<Rightarrow> bool" where
  "audit_matches f l =
     (if alf_entity_type f \<noteq> '''' \<and> al_entity_type l \<noteq> alf_entity_type f then False
      else if alf_entity f \<noteq> uuid_nil \<and> al_entity l \<noteq> alf_entity f then False
      else if alf_user f \<noteq> uuid_nil \<and> al_user l \<noteq> Some (alf_user f) then False
      else True)"

definition AuditLog_List ::
  "audit_filter \<Rightarrow> uuid list \<Rightarrow> mem_store \<Rightarrow> (audit_log list \<times> int) option" where
  "AuditLog_List f ks m =
     (let logs = filter (audit_matches f) (range_values (ms_audit m) ks);
          logs = sort_slice (\<lambda>a b. al_created b < al_created a) logs;
          total = int (length logs);
          page = (if alf_page f < 1 then 1 else alf_page f);
          limit = (if alf_limit f < 1 then 20 else alf_limit f);
          start = wrap64 (wrap64 (page - 1) * limit);
          end0 = wrap64 (start + limit)
      in if start \<ge> total then Some ([], total)
         else let end1 = (if end0 > total then total else end0)
              in map_option (\<lambda>items. (items, total)) (slice_range logs start end1))"

lemma AuditLog_List_window:
  "AuditLog_List f ks m =
     page_window (alf_page f) (alf_limit f)
       (sort_slice (\<lambda>a b. al_created b < al_created a)
          (filter (audit_matches f) (range_values (ms_audit m) ks)))"
  by (simp add: AuditLog_List_def page_window_def Let_def int_one_le_iff_zero_less not_le not_less)

section \<open>What a page holds\<close>

lemma page_window_in_range:
  assumes "1 \<le> pg" "1 \<le> lim0" "(pg - 1) * lim0 + lim0 \<le> max_int64"
    and "int (length xs) \<le> max_int64"
  shows "page_window pg lim0 xs
       = Some (take (nat lim0) (drop (nat ((pg - 1) * lim0)) xs), int (length xs))"
proof -
  let ?s = "(pg - 1) * lim0"
  have s: "0 \<le> ?s" using assms(1,2) by simp
  have pl: "pg - 1 \<le> ?s" using assms(1,2) mult_left_mono [of 1 lim0 "pg - 1"] by simp
  have w: "wrap64 (pg - 1) = pg - 1" "wrap64 ?s = ?s" "wrap64 (?s + lim0) = ?s + lim0"
    using assms s pl by (simp_all add: is_int64_def)
  show ?thesis
  proof (cases "?s \<ge> int (length xs)")
    case True
    then have "drop (nat ?s) xs = []" by simp
    then show ?thesis using assms w True by (simp add: page_window_def Let_def)
  next
    case False
    let ?e = "if ?s + lim0 > int (length xs) then int (length xs) else ?s + lim0"
    have "slice_range xs ?s ?e = Some (take (nat (?e - ?s)) (drop (nat ?s) xs))"
      using s False assms(2) by (simp add: slice_range_def)
    moreover have "take (nat (?e - ?s)) (drop (nat ?s) xs) = take (nat lim0) (drop (nat ?s) xs)"
      using s False by (auto simp: nat_diff_distrib nat_le_iff)
    ultimately show ?thesis using assms(1,2) w False by (simp add: page_window_def Let_def)
  qed
qed

section \<open>Properties\<close>

text \<open>The list a filter selects, in the order the visit and the sort give it.\<close>

definition task_rows :: "task_filter \<Rightarrow> uuid list \<Rightarrow> mem_store \<Rightarrow> task list" where
  "task_rows f ks m = sort_slice (\<lambda>a b. t_created a < t_created b)
     (filter (task_matches f) (range_values (ms_tasks m) ks))"

interpretation task_order: weak_order "\<lambda>a b. t_created a < t_created b"
  by unfold_locales auto

text \<open>
  For a page number whose window fits 64-bit arithmetic, the task list returns rows
  (page-1)*limit .. page*limit-1 of the tasks that match, oldest first, with their number as the
  total, whatever order the map is visited in.
\<close>

theorem Task_List_page:
  assumes "iterates (ms_tasks m) ks" "1 \<le> tf_page f" "1 \<le> tf_limit f"
    and "tf_page f * tf_limit f \<le> max_int64" "int (length ks) \<le> max_int64"
  shows "Task_List f ks m = Some
      (take (nat (tf_limit f)) (drop (nat ((tf_page f - 1) * tf_limit f)) (task_rows f ks m)),
       int (length (task_rows f ks m)))
    \<and> set (task_rows f ks m) = {t. \<exists>k. ms_tasks m k = Some t \<and> task_matches f t}
    \<and> sorted_wrt (\<lambda>a b. t_created a \<le> t_created b) (task_rows f ks m)"
proof -
  have "length (range_values (ms_tasks m) ks) \<le> length ks"
    by (induction ks) (auto split: option.splits)
  then have "length (task_rows f ks m) \<le> length ks"
    using length_filter_le [of "task_matches f" "range_values (ms_tasks m) ks"]
    by (simp add: task_rows_def del: length_filter_le)
  moreover have "(tf_page f - 1) * tf_limit f + tf_limit f \<le> max_int64"
    using assms(4) by (simp add: left_diff_distrib)
  ultimately have "page_window (tf_page f) (tf_limit f) (task_rows f ks m) = Some
      (take (nat (tf_limit f)) (drop (nat ((tf_page f - 1) * tf_limit f)) (task_rows f ks m)),
       int (length (task_rows f ks m)))"
    using assms(2,3,5) by (intro page_window_in_range) simp_all
  moreover have "set (task_rows f ks m) = {t. \<exists>k. ms_tasks m k = Some t \<and> task_matches f t}"
    using set_range_values_iterates [OF assms(1)] by (auto simp: task_rows_def ran_def)
  moreover have "sorted_wrt (\<lambda>a b. t_created a \<le> t_created b) (task_rows f ks m)"
    using task_order.sorted_sort_slice
      [of "filter (task_matches f) (range_values (ms_tasks m) ks)"]
    by (simp add: task_rows_def not_less)
  ultimately show ?thesis by (simp add: Task_List_def task_rows_def Let_def)
qed

definition sample_task :: "uuid \<Rightarrow> go_time \<Rightarrow> task" where
  "sample_task k t = \<lparr>t_id = k, t_project = 3, t_title = ''t'', t_description = '''',
     t_status = TaskBacklog, t_priority = PriorityMedium, t_assignee = 0,
     t_assignee_agent = '''', t_required = [], t_position = 0, t_created = t, t_updated = t\<rparr>"

definition sample_tasks :: mem_store where
  "sample_tasks = NewMemoryStore\<lparr>ms_tasks := [1 \<mapsto> sample_task 1 10, 2 \<mapsto> sample_task 2 5]\<rparr>"

theorem Task_List_page_witness:
  "Task_List \<lparr>tf_project = 3, tf_status = TaskOther '''', tf_assignee = 0, tf_page = 2, tf_limit = 1\<rparr>
     [1, 2] sample_tasks = Some ([sample_task 1 10], 2)"
proof -
  let ?f = "\<lparr>tf_project = 3, tf_status = TaskOther '''', tf_assignee = 0, tf_page = 2, tf_limit = 1\<rparr>"
  have it: "iterates (ms_tasks sample_tasks) [1, 2]"
    by (auto simp: iterates_def sample_tasks_def)
  have "task_rows ?f [1, 2] sample_tasks = [sample_task 2 5, sample_task 1 10]"
    by (simp add: task_rows_def sample_tasks_def sample_task_def task_matches_def)
  with Task_List_page [OF it, of ?f] show ?thesis by simp
qed

text \<open>
  For every row count below 2^62 and a limit of 1 to 100, the window panics exactly when the
  wrapped offset (page-1)*limit is negative; the page number comes from the client unchecked.
\<close>

theorem page_window_panics:
  assumes "1 \<le> pg" "is_int64 pg" "1 \<le> lim0" "lim0 \<le> 100" "length xs < 2 ^ 62"
  shows "page_window pg lim0 xs = None \<longleftrightarrow> wrap64 ((pg - 1) * lim0) < 0"
proof -
  have p: "wrap64 (pg - 1) = pg - 1" using assms(1,2) by (simp add: is_int64_def)
  define s where "s = wrap64 ((pg - 1) * lim0)"
  have len: "int (length xs) < 2 ^ 62" using assms(5) by (simp flip: of_nat_less_iff)
  show ?thesis
  proof (cases "s \<ge> int (length xs)")
    case True
    then show ?thesis using assms p by (simp add: page_window_def Let_def s_def [symmetric])
  next
    case False
    have s64: "is_int64 s" by (simp add: s_def)
    have "wrap64 (s + lim0) = s + lim0"
      using s64 False len assms(3,4) by (simp add: is_int64_def)
    then show ?thesis
      using assms p False
      by (simp add: page_window_def Let_def s_def [symmetric] slice_range_def)
  qed
qed

theorem page_window_panics_witness:
  "page_window max_int64 20 [sample_task 1 10] = None"
proof -
  have "wrap64 ((max_int64 - 1) * 20) < 0" by (simp add: wrap64_def)
  with page_window_panics [of max_int64 20 "[sample_task 1 10]"] show ?thesis
    by (simp add: is_int64_def)
qed

end
