(* ===== verification/Store_Assign.thy ===== *)
theory Store_Assign
  imports Store
begin

text \<open>
  Assignments and their history in src/src/internal/store/memory.go: the current-state table with
  its index of active rows, and the append-only event log with its index by task. The nil guards
  of the code have no counterpart, since a row is never nil here.
\<close>

section \<open>The event log\<close>

text \<open>\<open>fresh\<close> is the result of uuid.New().\<close>

definition Event_Append ::
  "uuid \<Rightarrow> go_time \<Rightarrow> assignment_event \<Rightarrow> mem_store
   \<Rightarrow> store_error + assignment_event \<times> mem_store" where
  "Event_Append fresh now ev m =
     (if ev_task ev = uuid_nil then Inl ErrInvalidInput
      else if \<not> IsValidAssignmentAction (ev_action ev) then Inl ErrInvalidInput
      else let ev1 = (if ev_id ev = uuid_nil then ev\<lparr>ev_id := fresh\<rparr> else ev);
               stored = (if ev_at ev1 = zero_time then ev1\<lparr>ev_at := now\<rparr> else ev1)
           in Inr (stored, m\<lparr>ms_events := (ms_events m)(ev_id stored \<mapsto> stored),
                             ms_event_ids := (ms_event_ids m)
                               (ev_task stored := ms_event_ids m (ev_task stored) @ [ev_id stored])\<rparr>))"

definition event_before :: "assignment_event \<Rightarrow> assignment_event \<Rightarrow> bool" where
  "event_before a b = (if ev_at a = ev_at b then ev_id b < ev_id a else ev_at b < ev_at a)"

definition Event_ListByTask :: "uuid \<Rightarrow> mem_store \<Rightarrow> assignment_event list" where
  "Event_ListByTask t m =
     (let ids = ms_event_ids m t
      in if ids = [] then []
         else sort_slice event_before (range_values (ms_events m) ids))"

interpretation event_order: weak_order event_before
  by unfold_locales (auto simp: event_before_def split: if_splits)

section \<open>The table of assignments\<close>

definition Assignment_Create ::
  "uuid \<Rightarrow> go_time \<Rightarrow> assignment \<Rightarrow> mem_store \<Rightarrow> store_error + assignment \<times> mem_store" where
  "Assignment_Create fresh now a m =
     (if as_task a = uuid_nil then Inl ErrInvalidInput
      else if as_agent a = uuid_nil then Inl ErrInvalidInput
      else let a1 = (if as_status a = AsOther '''' then a\<lparr>as_status := AsActive\<rparr> else a)
           in if as_status a1 \<noteq> AsActive then Inl ErrInvalidInput
              else let a2 = (if as_id a1 = uuid_nil then a1\<lparr>as_id := fresh\<rparr> else a1);
                       stored = (if as_assigned a2 = zero_time then a2\<lparr>as_assigned := now\<rparr> else a2)
                   in if ms_active m (as_task stored) \<noteq> None then Inl ErrAlreadyExists
                      else Inr (stored,
                             m\<lparr>ms_assignments := (ms_assignments m)(as_id stored \<mapsto> stored),
                               ms_active := (ms_active m)(as_task stored \<mapsto> as_id stored)\<rparr>))"

definition Assignment_Update :: "assignment \<Rightarrow> mem_store \<Rightarrow> store_error + mem_store" where
  "Assignment_Update a m =
     (if as_id a = uuid_nil then Inl ErrInvalidInput
      else if \<not> IsValidAssignmentStatus (as_status a) then Inl ErrInvalidInput
      else if ms_assignments m (as_id a) = None then Inl ErrNotFound
      else if as_status a = AsActive
              \<and> (case ms_active m (as_task a) of None \<Rightarrow> False | Some current \<Rightarrow> current \<noteq> as_id a)
        then Inl ErrAlreadyExists
      else
        let m1 = m\<lparr>ms_assignments := (ms_assignments m)(as_id a \<mapsto> a)\<rparr>
        in Inr (if as_status a = AsActive
                then m1\<lparr>ms_active := (ms_active m1)(as_task a \<mapsto> as_id a)\<rparr>
                else if ms_active m1 (as_task a) = Some (as_id a)
                     then m1\<lparr>ms_active := (ms_active m1)(as_task a := None)\<rparr>
                     else m1))"

definition Assignment_GetByID :: "uuid \<Rightarrow> mem_store \<Rightarrow> store_error + assignment" where
  "Assignment_GetByID k m =
     (case ms_assignments m k of None \<Rightarrow> Inl ErrNotFound | Some a \<Rightarrow> Inr a)"

definition Assignment_GetActiveByTask :: "uuid \<Rightarrow> mem_store \<Rightarrow> store_error + assignment" where
  "Assignment_GetActiveByTask t m =
     (case ms_active m t of
        None \<Rightarrow> Inl ErrNotFound
      | Some k \<Rightarrow>
          (case ms_assignments m k of None \<Rightarrow> Inl ErrNotFound | Some a \<Rightarrow> Inr a))"

section \<open>The invariant: the index is exact\<close>

text \<open>
  The index names, for every task, exactly the row that is active; so at most one row of a task
  is active, which in the database is a partial unique index.
\<close>

definition assign_inv :: "mem_store \<Rightarrow> bool" where
  "assign_inv m \<longleftrightarrow>
     keyed_by as_id (ms_assignments m)
     \<and> (\<forall>t k. ms_active m t = Some k \<longleftrightarrow>
            (\<exists>a. ms_assignments m k = Some a \<and> as_task a = t \<and> as_status a = AsActive))"

lemma assign_invI:
  assumes "keyed_by as_id (ms_assignments m)"
    and "\<And>t k. ms_active m t = Some k \<longleftrightarrow>
           (\<exists>a. ms_assignments m k = Some a \<and> as_task a = t \<and> as_status a = AsActive)"
  shows "assign_inv m"
  using assms by (simp add: assign_inv_def)

lemma assign_inv_index:
  "assign_inv m \<Longrightarrow> ms_active m t = Some k \<longleftrightarrow>
     (\<exists>a. ms_assignments m k = Some a \<and> as_task a = t \<and> as_status a = AsActive)"
  by (simp add: assign_inv_def)

lemma assign_inv_new: "assign_inv NewMemoryStore"
  by (simp add: assign_inv_def NewMemoryStore_def)

lemma one_active:
  assumes "assign_inv m" "ms_assignments m j = Some a" "ms_assignments m k = Some b"
    and "as_status a = AsActive" "as_status b = AsActive" "as_task a = as_task b"
  shows "j = k"
proof -
  have "ms_active m (as_task a) = Some j" "ms_active m (as_task a) = Some k"
    using assms by (auto simp: assign_inv_index)
  then show ?thesis by simp
qed

lemma GetActiveByTask_iff:
  assumes "assign_inv m"
  shows "Assignment_GetActiveByTask t m = Inr a \<longleftrightarrow>
    ms_assignments m (as_id a) = Some a \<and> as_task a = t \<and> as_status a = AsActive"
proof (cases "ms_active m t")
  case None
  then have "\<not> (ms_assignments m (as_id a) = Some a \<and> as_task a = t \<and> as_status a = AsActive)"
    using assign_inv_index [OF assms, of t "as_id a"] by auto
  with None show ?thesis by (simp add: Assignment_GetActiveByTask_def)
next
  case (Some k)
  then obtain b where b: "ms_assignments m k = Some b" "as_task b = t" "as_status b = AsActive"
    using assms by (auto simp: assign_inv_index)
  have kb: "as_id b = k" using assms b(1) by (auto simp: assign_inv_def dest: keyed_byD)
  have "as_id a = k"
    if "ms_assignments m (as_id a) = Some a" "as_task a = t" "as_status a = AsActive"
    using one_active [OF assms that(1) b(1)] that b by simp
  with Some b kb show ?thesis by (auto simp: Assignment_GetActiveByTask_def)
qed

lemma GetActiveByTask_cong:
  assumes "assign_inv m" "assign_inv m'"
    and same: "\<And>a. as_task a = t \<Longrightarrow> as_status a = AsActive \<Longrightarrow>
      ms_assignments m (as_id a) = Some a \<longleftrightarrow> ms_assignments m' (as_id a) = Some a"
  shows "Assignment_GetActiveByTask t m = Assignment_GetActiveByTask t m'"
proof -
  have eq: "Assignment_GetActiveByTask t m = Inr a \<longleftrightarrow> Assignment_GetActiveByTask t m' = Inr a" for a
    using GetActiveByTask_iff [OF assms(1)] GetActiveByTask_iff [OF assms(2)] same by blast
  have err: "Assignment_GetActiveByTask t n = Inl e \<Longrightarrow> e = ErrNotFound" for e n
    by (auto simp: Assignment_GetActiveByTask_def split: option.splits)
  show ?thesis
  proof (cases "Assignment_GetActiveByTask t m")
    case (Inr a)
    with eq [of a] show ?thesis by simp
  next
    case (Inl e)
    then have "Assignment_GetActiveByTask t m' \<noteq> Inr a" for a using eq [of a] by simp
    then obtain e' where "Assignment_GetActiveByTask t m' = Inl e'" by (metis sum.exhaust)
    with Inl show ?thesis using err by metis
  qed
qed

text \<open>Create and Update keep the invariant, given a fresh id and a task that does not change.\<close>

lemma Assignment_Create_stored:
  assumes "Assignment_Create fresh now a m = Inr (s, m')"
  shows "m' = m\<lparr>ms_assignments := (ms_assignments m)(as_id s \<mapsto> s),
               ms_active := (ms_active m)(as_task s \<mapsto> as_id s)\<rparr>"
    "as_status s = AsActive" "ms_active m (as_task s) = None" "as_task s = as_task a"
    "as_agent s = as_agent a" "as_id s = (if as_id a = uuid_nil then fresh else as_id a)"
    "as_task a \<noteq> uuid_nil" "as_agent a \<noteq> uuid_nil" "as_completed s = as_completed a"
  using assms by (auto simp: Assignment_Create_def Let_def split: if_splits)

lemma assign_inv_Create:
  assumes inv: "assign_inv m" and c: "Assignment_Create fresh now a m = Inr (s, m')"
    and new: "ms_assignments m (as_id s) = None"
  shows "assign_inv m'"
proof (rule assign_invI)
  note st = Assignment_Create_stored [OF c]
  show "keyed_by as_id (ms_assignments m')" using inv by (simp add: st(1) assign_inv_def)
  fix t k
  show "ms_active m' t = Some k \<longleftrightarrow>
      (\<exists>b. ms_assignments m' k = Some b \<and> as_task b = t \<and> as_status b = AsActive)"
  proof (cases "k = as_id s")
    case True
    have "ms_active m t \<noteq> Some k" using assign_inv_index [OF inv, of t k] new True by simp
    then show ?thesis using st(1,2) True by auto
  next
    case False
    then show ?thesis
      using st(1,3) assign_inv_index [OF inv, of t k] by auto
  qed
qed

lemma assign_inv_Update:
  assumes inv: "assign_inv m" and u: "Assignment_Update a m = Inr m'"
    and old: "ms_assignments m (as_id a) = Some old" "as_task old = as_task a"
  shows "assign_inv m'" "ms_assignments m' = (ms_assignments m)(as_id a \<mapsto> a)"
proof -
  let ?k = "as_id a" and ?t = "as_task a"
  have act: "as_status a = AsActive \<Longrightarrow> ms_active m ?t = None \<or> ms_active m ?t = Some ?k"
    using u by (auto simp: Assignment_Update_def split: if_splits option.splits)
  have m': "m' = (let m1 = m\<lparr>ms_assignments := (ms_assignments m)(?k \<mapsto> a)\<rparr> in
      if as_status a = AsActive then m1\<lparr>ms_active := (ms_active m1)(?t \<mapsto> ?k)\<rparr>
      else if ms_active m1 ?t = Some ?k then m1\<lparr>ms_active := (ms_active m1)(?t := None)\<rparr>
      else m1)"
    using u by (simp only: Assignment_Update_def guard_Inr sum.inject Let_def)
  then show rows: "ms_assignments m' = (ms_assignments m)(?k \<mapsto> a)" by (simp add: Let_def)
  have active: "ms_active m' = (if as_status a = AsActive then (ms_active m)(?t \<mapsto> ?k)
      else if ms_active m ?t = Some ?k then (ms_active m)(?t := None) else ms_active m)"
    by (simp add: m' Let_def)
  show "assign_inv m'"
  proof (rule assign_invI)
    show "keyed_by as_id (ms_assignments m')" using inv by (simp add: rows assign_inv_def)
    fix t j
    have here: "t \<noteq> ?t \<Longrightarrow> ms_active m t \<noteq> Some ?k"
      using assign_inv_index [OF inv, of t ?k] old by auto
    show "ms_active m' t = Some j \<longleftrightarrow>
        (\<exists>b. ms_assignments m' j = Some b \<and> as_task b = t \<and> as_status b = AsActive)"
    proof (cases "j = ?k")
      case True
      have "ms_active m' t = Some ?k \<longleftrightarrow> t = ?t \<and> as_status a = AsActive"
        using here by (cases "t = ?t") (auto simp: active)
      then show ?thesis by (auto simp: rows True)
    next
      case False
      have "ms_active m' t = Some j \<longleftrightarrow> ms_active m t = Some j"
        using act False
        by (cases "as_status a = AsActive"; cases "ms_active m ?t = Some ?k"; cases "t = ?t")
          (auto simp: active)
      moreover have "ms_assignments m' j = ms_assignments m j" using False by (simp add: rows)
      ultimately show ?thesis by (simp add: assign_inv_index [OF inv])
    qed
  qed
qed

section \<open>The invariant of the log\<close>

text \<open>Every listed id is a stored event of that task, listed once.\<close>

definition events_inv :: "mem_store \<Rightarrow> bool" where
  "events_inv m \<longleftrightarrow>
     keyed_by ev_id (ms_events m)
     \<and> (\<forall>t. distinct (ms_event_ids m t))
     \<and> (\<forall>t k. k \<in> set (ms_event_ids m t) \<longleftrightarrow> (\<exists>e. ms_events m k = Some e \<and> ev_task e = t))"

lemma events_inv_new: "events_inv NewMemoryStore"
  by (simp add: events_inv_def NewMemoryStore_def)

lemma Event_Append_stored:
  assumes "Event_Append fresh now ev m = Inr (s, m')"
  shows "m' = m\<lparr>ms_events := (ms_events m)(ev_id s \<mapsto> s),
                ms_event_ids := (ms_event_ids m)(ev_task s := ms_event_ids m (ev_task s) @ [ev_id s])\<rparr>"
    "ev_task s = ev_task ev" "ev_action s = ev_action ev" "ev_agent s = ev_agent ev"
    "ev_id s = (if ev_id ev = uuid_nil then fresh else ev_id ev)"
  using assms by (auto simp: Event_Append_def Let_def split: if_splits)

lemma events_inv_Append:
  assumes inv: "events_inv m" and c: "Event_Append fresh now ev m = Inr (s, m')"
    and new: "ms_events m (ev_id s) = None"
  shows "events_inv m'"
proof -
  note m' = Event_Append_stored(1) [OF c]
  have nin: "ev_id s \<notin> set (ms_event_ids m t)" for t
    using inv new by (auto simp: events_inv_def)
  show ?thesis
    using inv nin unfolding events_inv_def m' by auto
qed

lemma Event_ListByTask_mset:
  "mset (Event_ListByTask t m) = mset (range_values (ms_events m) (ms_event_ids m t))"
  by (auto simp: Event_ListByTask_def Let_def)

lemma Event_ListByTask_Append:
  assumes inv: "events_inv m" and c: "Event_Append fresh now ev m = Inr (s, m')"
    and new: "ms_events m (ev_id s) = None"
  shows "mset (Event_ListByTask t m') =
    (if t = ev_task s then add_mset s (mset (Event_ListByTask t m)) else mset (Event_ListByTask t m))"
proof -
  note m' = Event_Append_stored(1) [OF c]
  have nin: "ev_id s \<notin> set (ms_event_ids m t)"
    using inv new by (auto simp: events_inv_def)
  then have "range_values (ms_events m') (ms_event_ids m t)
      = range_values (ms_events m) (ms_event_ids m t)"
    by (intro range_values_cong) (auto simp: m')
  then show ?thesis by (auto simp: Event_ListByTask_mset m')
qed

end
