(* ===== verification/Paging.thy ===== *)
theory Paging
  imports Prelude
begin

text \<open>
  Lists in pages: the contract of a List operation that pages by cursor, the walk of a client
  that follows the cursors, and the two ways the stores find the first row after a cursor (by
  the key of the cursor row, by its position).
\<close>

section \<open>Paging by key\<close>

text \<open>
  The page at offset \<open>i\<close> of a list, with the id of its last row as the cursor when more
  rows follow, and the walk of a client that follows the cursors. Each call of the store may
  visit the map in another order, so the walk takes one order per call; it gives None when the
  orders run out before the pages do.
\<close>

definition page_at :: "'c \<Rightarrow> ('a \<Rightarrow> 'c) \<Rightarrow> nat \<Rightarrow> 'a list \<Rightarrow> nat \<Rightarrow> 'a list \<times> 'c" where
  "page_at nil ident L S i =
     (take L (drop i S), if i + L < length S then ident (S ! (i + L - 1)) else nil)"

fun walk_pages :: "'c \<Rightarrow> ('o \<Rightarrow> 'c \<Rightarrow> 'a list \<times> 'c) \<Rightarrow> 'o list \<Rightarrow> 'c \<Rightarrow> 'a list option"
  where
  "walk_pages nil pg [] c = None"
| "walk_pages nil pg (ord # ords) c =
     (let (items, nxt) = pg ord c
      in if nxt = nil then Some items
         else map_option ((@) items) (walk_pages nil pg ords nxt))"

locale keyset_list =
  fixes nil :: 'c
    and ident :: "'a \<Rightarrow> 'c"
    and valid :: "'s \<Rightarrow> 'o \<Rightarrow> bool"
    and rows :: "'f \<Rightarrow> 's \<Rightarrow> 'a list"
    and lim :: "'f \<Rightarrow> nat"
    and pg :: "'f \<Rightarrow> 's \<Rightarrow> 'o \<Rightarrow> 'c \<Rightarrow> 'a list \<times> 'c"
  assumes lim_pos: "0 < lim f"
    and ident_nonnil: "valid s ord \<Longrightarrow> x \<in> set (rows f s) \<Longrightarrow> ident x \<noteq> nil"
    and first_page: "valid s ord \<Longrightarrow> pg f s ord nil = page_at nil ident (lim f) (rows f s) 0"
    and next_page: "valid s ord \<Longrightarrow> i < length (rows f s) \<Longrightarrow>
          pg f s ord (ident (rows f s ! i)) = page_at nil ident (lim f) (rows f s) (Suc i)"
begin

lemma walk_from:
  assumes "\<And>ord. ord \<in> set ords \<Longrightarrow> valid s ord"
    and "i \<le> length (rows f s)" "length (rows f s) - i < length ords"
    and "\<And>ord. ord \<in> set ords \<Longrightarrow> pg f s ord c = page_at nil ident (lim f) (rows f s) i"
  shows "walk_pages nil (pg f s) ords c = Some (drop i (rows f s))"
  using assms
proof (induction ords arbitrary: i c)
  case Nil
  then show ?case by simp
next
  case (Cons ord ords)
  let ?S = "rows f s" and ?L = "lim f"
  have pg: "pg f s ord c = page_at nil ident ?L ?S i" using Cons.prems by simp
  show ?case
  proof (cases "i + ?L < length ?S")
    case True
    let ?j = "i + ?L - 1"
    have j: "?j < length ?S" "Suc ?j = i + ?L" using True lim_pos [of f] by auto
    have nz: "ident (?S ! ?j) \<noteq> nil" using ident_nonnil [of s ord] Cons.prems(1) nth_mem [OF j(1)] by simp
    have "walk_pages nil (pg f s) ords (ident (?S ! ?j)) = Some (drop (i + ?L) ?S)"
    proof (rule Cons.IH)
      show "length ?S - (i + ?L) < length ords" using Cons.prems(3) True lim_pos [of f] by simp
      show "pg f s ord' (ident (?S ! ?j)) = page_at nil ident ?L ?S (i + ?L)"
        if "ord' \<in> set ords" for ord'
        using next_page [of s ord' ?j f] Cons.prems(1) that j by simp
    qed (use Cons.prems True in auto)
    moreover have "drop i ?S = take ?L (drop i ?S) @ drop (i + ?L) ?S"
      by (metis append_take_drop_id drop_drop add.commute)
    ultimately show ?thesis using pg True nz by (simp add: page_at_def)
  next
    case False
    then show ?thesis using pg by (simp add: page_at_def)
  qed
qed

lemma walk_all:
  assumes "\<And>ord. ord \<in> set ords \<Longrightarrow> valid s ord" "length (rows f s) < length ords"
  shows "walk_pages nil (pg f s) ords nil = Some (rows f s)"
  using walk_from [of ords s 0 f nil] assms first_page by simp

end

text \<open>Rows strictly ordered by the comparison: those after the i-th are its suffix.\<close>

lemma filter_after_nth:
  assumes "sorted_wrt lt xs" "\<And>x y. lt x y \<Longrightarrow> \<not> lt y x" "i < length xs"
  shows "filter (lt (xs ! i)) xs = drop (Suc i) xs"
  using assms(1,3)
proof (induction xs arbitrary: i)
  case Nil
  then show ?case by simp
next
  case (Cons x xs)
  show ?case
  proof (cases i)
    case 0
    with Cons.prems assms(2) [of x x] show ?thesis by (auto intro!: filter_True)
  next
    case (Suc j)
    then have "xs ! j \<in> set xs" using Cons.prems by simp
    with Cons.prems assms(2) have "\<not> lt (xs ! j) x" by auto
    with Suc Cons show ?thesis by simp
  qed
qed

lemma filter_sort_slice:
  assumes "weak_order lt"
    and "\<And>x y. x \<in> set xs \<Longrightarrow> y \<in> set xs \<Longrightarrow> \<not> lt x y \<Longrightarrow> \<not> lt y x \<Longrightarrow> x = y"
  shows "sort_slice lt (filter P xs) = filter P (sort_slice lt xs)"
proof (rule weak_order.sort_unique [OF assms(1)])
  have "sorted_wrt (\<lambda>x y. \<not> lt y x) (sort_slice lt xs)"
    by (rule weak_order.sorted_sort_slice [OF assms(1)])
  then show "sorted_wrt (\<lambda>x y. \<not> lt y x) (filter P (sort_slice lt xs))"
    by (rule sorted_wrt_filter)
qed (use assms in \<open>auto simp: weak_order.sorted_sort_slice\<close>)

lemma strict_sort_slice:
  assumes "weak_order lt" "distinct xs"
    and tot: "\<And>x y. x \<in> set xs \<Longrightarrow> y \<in> set xs \<Longrightarrow> \<not> lt x y \<Longrightarrow> \<not> lt y x \<Longrightarrow> x = y"
  shows "sorted_wrt lt (sort_slice lt xs)"
proof -
  let ?S = "sort_slice lt xs"
  have s: "sorted_wrt (\<lambda>x y. \<not> lt y x) ?S" by (rule weak_order.sorted_sort_slice [OF assms(1)])
  have d: "distinct ?S" using assms(2) by simp
  show ?thesis
    unfolding sorted_wrt_iff_nth_less
  proof (intro allI impI)
    fix i j assume ij: "i < j" "j < length ?S"
    then have "\<not> lt (?S ! j) (?S ! i)" using s by (simp add: sorted_wrt_iff_nth_less)
    moreover have "?S ! i \<noteq> ?S ! j" using d ij by (simp add: nth_eq_iff_index_eq)
    moreover have "?S ! i \<in> set xs" "?S ! j \<in> set xs"
      using nth_mem [of i ?S] nth_mem [of j ?S] ij by auto
    ultimately show "lt (?S ! i) (?S ! j)" using tot by blast
  qed
qed

text \<open>The page of a list and the offset of the cursor row.\<close>

lemma page_at_drop: "0 < L \<Longrightarrow> page_at nil ident L (drop i S) 0 = page_at nil ident L S i"
  by (cases L) (auto simp: page_at_def less_diff_conv add.commute)

lemma page_at_end:
  assumes "0 < limit" "e = (if limit > int (length T) then int (length T) else limit)"
  shows "take (nat e) T = fst (page_at nil ident (nat limit) T 0)"
    "(if e < int (length T) \<and> e > 0 then ident (take (nat e) T ! nat (e - 1)) else nil)
     = snd (page_at nil ident (nat limit) T 0)"
  using assms by (auto simp: page_at_def nat_diff_distrib)

lemma sort_after_row:
  assumes "weak_order lt" "distinct xs"
    and tot: "\<And>x y. x \<in> set xs \<Longrightarrow> y \<in> set xs \<Longrightarrow> \<not> lt x y \<Longrightarrow> \<not> lt y x \<Longrightarrow> x = y"
    and "i < length xs"
  shows "sort_slice lt (filter (lt (sort_slice lt xs ! i)) xs) = drop (Suc i) (sort_slice lt xs)"
proof -
  let ?S = "sort_slice lt xs"
  have "sort_slice lt (filter (lt (?S ! i)) xs) = filter (lt (?S ! i)) ?S"
    by (rule filter_sort_slice [OF assms(1) tot])
  also have "\<dots> = drop (Suc i) ?S"
    by (rule filter_after_nth [OF strict_sort_slice [OF assms(1,2) tot]])
      (use assms(1,4) in \<open>simp_all add: weak_order.lt_asym\<close>)
  finally show ?thesis .
qed

section \<open>Cursors by position\<close>

text \<open>The loop that looks for the cursor row: the index after it, 0 when there is none.\<close>

fun cursor_index :: "('a \<Rightarrow> 'c) \<Rightarrow> 'c \<Rightarrow> 'a list \<Rightarrow> nat \<Rightarrow> nat" where
  "cursor_index ident c [] i = 0"
| "cursor_index ident c (x # xs) i = (if ident x = c then i + 1 else cursor_index ident c xs (i + 1))"

lemma cursor_index_nth:
  "distinct (map ident xs) \<Longrightarrow> i < length xs \<Longrightarrow>
     cursor_index ident (ident (xs ! i)) xs k = k + i + 1"
proof (induction xs arbitrary: i k)
  case Nil
  then show ?case by simp
next
  case (Cons x xs)
  then show ?case by (cases i) (auto simp: nth_mem image_iff)
qed

section \<open>Tables listed newest first\<close>

text \<open>What the services keep of the tables: rows keyed by a proper id, with a proper instant.\<close>

definition table_ok :: "('a \<Rightarrow> uuid) \<Rightarrow> ('a \<Rightarrow> go_time) \<Rightarrow> (uuid \<rightharpoonup> 'a) \<Rightarrow> bool" where
  "table_ok ident ts m \<longleftrightarrow>
     keyed_by ident m \<and> (\<forall>v \<in> ran m. ident v \<noteq> uuid_nil \<and> ts v \<noteq> zero_time)"

lemma table_ok_empty: "table_ok ident ts Map.empty"
  by (simp add: table_ok_def)

lemma table_ok_upd:
  "table_ok ident ts m \<Longrightarrow> ident v = k \<Longrightarrow> k \<noteq> uuid_nil \<Longrightarrow> ts v \<noteq> zero_time
   \<Longrightarrow> table_ok ident ts (m(k \<mapsto> v))"
  by (auto simp: table_ok_def ran_def split: if_splits)

lemma table_okD:
  "table_ok ident ts m \<Longrightarrow> m k = Some v \<Longrightarrow> ident v = k \<and> k \<noteq> uuid_nil \<and> ts v \<noteq> zero_time"
  by (auto simp: table_ok_def dest: keyed_byD ranI)

definition map_order :: "('k::linorder \<rightharpoonup> 'v) \<Rightarrow> 'k list" where
  "map_order m = sorted_list_of_set (dom m)"

lemma map_order_iterates: "iterates m ks \<Longrightarrow> iterates m (map_order m)"
proof -
  assume "iterates m ks"
  then have "finite (dom m)" by (metis iterates_def List.finite_set)
  then show ?thesis by (simp add: iterates_def map_order_def)
qed

locale newest_first =
  fixes ident :: "'a \<Rightarrow> uuid" and ts :: "'a \<Rightarrow> go_time" and lt :: "'a \<Rightarrow> 'a \<Rightarrow> bool"
  assumes lt_iff: "lt a b = (if ts a \<noteq> ts b then ts b < ts a else ident b < ident a)"

sublocale newest_first \<subseteq> weak_order lt
  by unfold_locales (auto simp: lt_iff split: if_splits)

context newest_first
begin

lemma lt_total: "\<not> lt x y \<Longrightarrow> \<not> lt y x \<Longrightarrow> ident x = ident y"
  by (cases "ts x" "ts y" rule: linorder_cases) (simp_all add: lt_iff not_less antisym)

text \<open>The rows that pass a filter, in any order of visiting the table.\<close>

lemma visited_rows:
  assumes ok: "table_ok ident ts m" and it: "iterates m ks"
  shows "distinct (filter P (range_values m ks))"
    "x \<in> set (filter P (range_values m ks)) \<Longrightarrow>
       m (ident x) = Some x \<and> ident x \<noteq> uuid_nil \<and> ts x \<noteq> zero_time"
    "x \<in> set (filter P (range_values m ks)) \<Longrightarrow> y \<in> set (filter P (range_values m ks)) \<Longrightarrow>
       \<not> lt x y \<Longrightarrow> \<not> lt y x \<Longrightarrow> x = y"
proof -
  have "distinct (map ident (range_values m ks))"
    using distinct_map_range_values [of ident m ks] ok it by (simp add: table_ok_def iterates_def)
  then show "distinct (filter P (range_values m ks))" by (simp add: distinct_map)
  show row: "m (ident x) = Some x \<and> ident x \<noteq> uuid_nil \<and> ts x \<noteq> zero_time"
    if x: "x \<in> set (filter P (range_values m ks))" for x
  proof -
    obtain k where "m k = Some x"
      using x set_range_values_iterates [OF it] by (auto simp: ran_def)
    with table_okD [OF ok this] show ?thesis by auto
  qed
  assume "x \<in> set (filter P (range_values m ks))" "y \<in> set (filter P (range_values m ks))"
    "\<not> lt x y" "\<not> lt y x"
  then show "x = y" using row [of x] row [of y] lt_total [of x y] by (metis option.inject)
qed

lemma sorted_rows_any_order:
  assumes ok: "table_ok ident ts m" and it: "iterates m ks"
  shows "sort_slice lt (filter P (range_values m (map_order m)))
       = sort_slice lt (filter P (range_values m ks))"
proof (rule sort_slice_cong_mset)
  note it' = map_order_iterates [OF it]
  show "mset (filter P (range_values m (map_order m))) = mset (filter P (range_values m ks))"
    using range_values_perm [OF it' it] by simp
qed (rule visited_rows(3) [OF ok map_order_iterates [OF it]])

text \<open>The cut at the cursor row.\<close>

lemma rows_after:
  assumes ok: "table_ok ident ts m" and it: "iterates m ks"
    and r: "r = sort_slice lt (filter P (range_values m ks)) ! i"
    and i: "i < length (filter P (range_values m ks))"
  shows "sort_slice lt (filter (\<lambda>e. ts e < ts r \<or> ts e = ts r \<and> ident e < ident r)
           (filter P (range_values m ks)))
       = drop (Suc i) (sort_slice lt (filter P (range_values m ks)))"
proof -
  have "(\<lambda>e. ts e < ts r \<or> ts e = ts r \<and> ident e < ident r) = lt r"
    by (auto simp: lt_iff fun_eq_iff)
  then show ?thesis
    using sort_after_row [OF weak_order_axioms visited_rows(1) [OF ok it]
        visited_rows(3) [OF ok it] i] r by simp
qed

end

text \<open>The rows that a cursor leaves.\<close>

definition cursor_cut ::
  "('a \<Rightarrow> uuid) \<Rightarrow> ('a \<Rightarrow> go_time) \<Rightarrow> (uuid \<rightharpoonup> 'a) \<Rightarrow> uuid \<Rightarrow> 'a list \<Rightarrow> 'a list" where
  "cursor_cut ident ts m c xs =
     (let t = (if c \<noteq> uuid_nil then (case m c of Some e \<Rightarrow> ts e | None \<Rightarrow> zero_time) else zero_time)
      in if c \<noteq> uuid_nil \<and> t \<noteq> zero_time
         then filter (\<lambda>e. ts e < t \<or> (ts e = t \<and> ident e < c)) xs else xs)"

context newest_first
begin

text \<open>The two laws of the paging contract for a table that is listed newest first.\<close>

lemma cut_pages:
  fixes P :: "'a \<Rightarrow> bool"
  assumes ok: "table_ok ident ts m" and it: "iterates m ks" and L: "0 < L"
  defines "S \<equiv> sort_slice lt (filter P (range_values m (map_order m)))"
    and "cutc \<equiv> \<lambda>c. sort_slice lt (cursor_cut ident ts m c (filter P (range_values m ks)))"
  shows "x \<in> set S \<Longrightarrow> ident x \<noteq> uuid_nil"
    "page_at uuid_nil ident L (cutc uuid_nil) 0 = page_at uuid_nil ident L S 0"
    "i < length S \<Longrightarrow> page_at uuid_nil ident L (cutc (ident (S ! i))) 0 = page_at uuid_nil ident L S (Suc i)"
proof -
  have S: "S = sort_slice lt (filter P (range_values m ks))"
    using sorted_rows_any_order [OF ok it] by (simp add: S_def)
  show "ident x \<noteq> uuid_nil" if "x \<in> set S"
    using that visited_rows(2) [OF ok it, of x P] by (simp add: S)
  show "page_at uuid_nil ident L (cutc uuid_nil) 0 = page_at uuid_nil ident L S 0"
    by (simp add: cutc_def cursor_cut_def S)
  assume i: "i < length S"
  then have "S ! i \<in> set (filter P (range_values m ks))" by (metis S nth_mem set_sort_slice)
  from visited_rows(2) [OF ok it this] have "cutc (ident (S ! i)) = drop (Suc i) S"
    using rows_after [OF ok it, of "S ! i" P i] i by (simp add: cutc_def cursor_cut_def S Let_def)
  then show "page_at uuid_nil ident L (cutc (ident (S ! i))) 0 = page_at uuid_nil ident L S (Suc i)"
    using L by (simp add: page_at_drop)
qed

end

end
