(* ===== verification/Store_Keyset.thy ===== *)
theory Store_Keyset
  imports Store Paging
begin

text \<open>
  Executions, deliverables and deliverable versions in src/src/internal/store/memory.go. The two
  List operations page by key: newest first, ties broken by the id, each page starting strictly
  after the row that the cursor names. A client that follows the cursors gets every row once.
\<close>

section \<open>Executions\<close>

definition Execution_Create :: "execution \<Rightarrow> mem_store \<Rightarrow> store_error + mem_store" where
  "Execution_Create e m =
     (if ms_executions m (ex_id e) \<noteq> None then Inl ErrAlreadyExists
      else Inr (m\<lparr>ms_executions := (ms_executions m)(ex_id e \<mapsto> e)\<rparr>))"

definition Execution_GetByID :: "uuid \<Rightarrow> mem_store \<Rightarrow> store_error + execution" where
  "Execution_GetByID k m =
     (case ms_executions m k of None \<Rightarrow> Inl ErrNotFound | Some e \<Rightarrow> Inr e)"

interpretation executions: crud_table ex_id ms_executions Execution_Create Execution_GetByID
  by unfold_locales (auto simp: Execution_Create_def Execution_GetByID_def)

definition set_status ::
  "go_time \<Rightarrow> execution_status \<Rightarrow> string option \<Rightarrow> execution \<Rightarrow> execution" where
  "set_status now newStatus errorMessage e =
     (let e1 = e\<lparr>ex_status := newStatus\<rparr>;
          e2 = (if newStatus = ExCompleted \<or> newStatus = ExFailed
                then e1\<lparr>ex_completed := Some now\<rparr> else e1);
          e3 = (if errorMessage \<noteq> None then e2\<lparr>ex_error := errorMessage\<rparr>
                else if newStatus \<noteq> ExFailed then e2\<lparr>ex_error := None\<rparr>
                else e2)
      in e3\<lparr>ex_updated := now\<rparr>)"

definition Execution_UpdateStatus ::
  "go_time \<Rightarrow> uuid \<Rightarrow> execution_status \<Rightarrow> string option \<Rightarrow> mem_store
   \<Rightarrow> store_error + execution \<times> mem_store" where
  "Execution_UpdateStatus now k newStatus errorMessage m =
     (case ms_executions m k of
        None \<Rightarrow> Inl ErrNotFound
      | Some e \<Rightarrow>
          let e' = set_status now newStatus errorMessage e
          in Inr (e', m\<lparr>ms_executions := (ms_executions m)(k \<mapsto> e')\<rparr>))"

definition exec_before :: "execution \<Rightarrow> execution \<Rightarrow> bool" where
  "exec_before a b =
     (if ex_started a \<noteq> ex_started b then ex_started b < ex_started a else ex_id b < ex_id a)"

definition exec_matches :: "execution_filter \<Rightarrow> execution \<Rightarrow> bool" where
  "exec_matches f e =
     (if ef_agent f \<noteq> uuid_nil \<and> ex_agent e \<noteq> ef_agent f then False
      else if ef_task f \<noteq> uuid_nil \<and> ex_task e \<noteq> ef_task f then False
      else if ef_status f \<noteq> ExOther '''' \<and> ex_status e \<noteq> ef_status f then False
      else True)"

definition Execution_List ::
  "execution_filter \<Rightarrow> uuid list \<Rightarrow> mem_store \<Rightarrow> execution_page" where
  "Execution_List f ks m =
     (let cursor = ef_cursor f;
          startedAt = (if cursor \<noteq> uuid_nil
                       then (case ms_executions m cursor of
                               Some prev \<Rightarrow> ex_started prev | None \<Rightarrow> zero_time)
                       else zero_time);
          filtered = filter (exec_matches f) (range_values (ms_executions m) ks);
          filtered = (if cursor \<noteq> uuid_nil \<and> startedAt \<noteq> zero_time
                      then filter (\<lambda>e. ex_started e < startedAt
                                       \<or> (ex_started e = startedAt \<and> ex_id e < cursor)) filtered
                      else filtered);
          filtered = sort_slice exec_before filtered;
          limit = (if ef_limit f \<le> 0 then DefaultExecutionLimit else ef_limit f);
          limit = (if limit > MaxExecutionLimit then MaxExecutionLimit else limit);
          end = (if limit > int (length filtered) then int (length filtered) else limit);
          page = take (nat end) filtered;
          nextCursor = (if end < int (length filtered) \<and> end > 0
                        then ex_id (page ! nat (end - 1)) else uuid_nil)
      in \<lparr>ep_items = page, ep_next = nextCursor\<rparr>)"

section \<open>Deliverables\<close>

definition Deliverable_Create :: "deliverable \<Rightarrow> mem_store \<Rightarrow> store_error + mem_store" where
  "Deliverable_Create d m =
     (if ms_deliverables m (d_id d) \<noteq> None then Inl ErrAlreadyExists
      else Inr (m\<lparr>ms_deliverables := (ms_deliverables m)(d_id d \<mapsto> d)\<rparr>))"

definition Deliverable_GetByID :: "uuid \<Rightarrow> mem_store \<Rightarrow> store_error + deliverable" where
  "Deliverable_GetByID k m =
     (case ms_deliverables m k of None \<Rightarrow> Inl ErrNotFound | Some d \<Rightarrow> Inr d)"

definition Deliverable_Update :: "deliverable \<Rightarrow> mem_store \<Rightarrow> store_error + mem_store" where
  "Deliverable_Update d m =
     (if ms_deliverables m (d_id d) = None then Inl ErrNotFound
      else Inr (m\<lparr>ms_deliverables := (ms_deliverables m)(d_id d \<mapsto> d)\<rparr>))"

interpretation deliverables:
  crud_update d_id ms_deliverables Deliverable_Create Deliverable_GetByID Deliverable_Update
  by unfold_locales (auto simp: Deliverable_Create_def Deliverable_GetByID_def Deliverable_Update_def)

definition deliv_before :: "deliverable \<Rightarrow> deliverable \<Rightarrow> bool" where
  "deliv_before a b =
     (if d_created a \<noteq> d_created b then d_created b < d_created a else d_id b < d_id a)"

definition deliv_matches :: "deliverable_filter \<Rightarrow> deliverable \<Rightarrow> bool" where
  "deliv_matches f d =
     (if df_task f \<noteq> uuid_nil \<and> d_task d \<noteq> df_task f then False
      else if df_agent f \<noteq> uuid_nil \<and> d_agent d \<noteq> df_agent f then False
      else True)"

definition Deliverable_List ::
  "deliverable_filter \<Rightarrow> uuid list \<Rightarrow> mem_store \<Rightarrow> deliverable_page" where
  "Deliverable_List f ks m =
     (let cursor = df_cursor f;
          createdAt = (if cursor \<noteq> uuid_nil
                       then (case ms_deliverables m cursor of
                               Some prev \<Rightarrow> d_created prev | None \<Rightarrow> zero_time)
                       else zero_time);
          filtered = filter (deliv_matches f) (range_values (ms_deliverables m) ks);
          filtered = (if cursor \<noteq> uuid_nil \<and> createdAt \<noteq> zero_time
                      then filter (\<lambda>d. d_created d < createdAt
                                       \<or> (d_created d = createdAt \<and> d_id d < cursor)) filtered
                      else filtered);
          filtered = sort_slice deliv_before filtered;
          limit = (if df_limit f \<le> 0 then DefaultDeliverableLimit else df_limit f);
          limit = (if limit > MaxDeliverableLimit then MaxDeliverableLimit else limit);
          end = (if limit > int (length filtered) then int (length filtered) else limit);
          page = take (nat end) filtered;
          nextCursor = (if end < int (length filtered) \<and> end > 0
                        then d_id (page ! nat (end - 1)) else uuid_nil)
      in \<lparr>dp_items = page, dp_next = nextCursor\<rparr>)"

section \<open>Deliverable versions\<close>

text \<open>\<open>fresh\<close> is the result of uuid.New().\<close>

definition DeliverableVersion_Insert ::
  "uuid \<Rightarrow> go_time \<Rightarrow> deliverable_version \<Rightarrow> mem_store \<Rightarrow> store_error + mem_store" where
  "DeliverableVersion_Insert fresh now v m =
     (let key = (dv_deliverable v, dv_version v)
      in if ms_dversions m key \<noteq> None then Inl ErrAlreadyExists
         else let v1 = (if dv_id v = uuid_nil then v\<lparr>dv_id := fresh\<rparr> else v);
                  v2 = (if dv_created v1 = zero_time then v1\<lparr>dv_created := now\<rparr> else v1);
                  ids = ms_dversion_ids m (dv_deliverable v2)
              in Inr (m\<lparr>ms_dversions := (ms_dversions m)(key \<mapsto> v2),
                        ms_dversion_ids :=
                          (ms_dversion_ids m)(dv_deliverable v2 := ids @ [dv_id v2])\<rparr>))"

text \<open>\<open>kss vid\<close> is the order in which the scan for the id \<open>vid\<close> visits the map.\<close>

definition DeliverableVersion_ListVersions ::
  "uuid \<Rightarrow> (uuid \<Rightarrow> (uuid \<times> int) list) \<Rightarrow> mem_store \<Rightarrow> deliverable_version list" where
  "DeliverableVersion_ListVersions did kss m =
     (let ids = ms_dversion_ids m did
      in if ids = [] then []
         else sort_slice (\<lambda>a b. dv_version b < dv_version a)
                (List.map_filter
                   (\<lambda>vid. List.find (\<lambda>v. dv_id v = vid) (range_values (ms_dversions m) (kss vid)))
                   ids))"

section \<open>Order\<close>

interpretation exec_order: newest_first ex_id ex_started exec_before
  by unfold_locales (simp add: exec_before_def)

interpretation deliv_order: newest_first d_id d_created deliv_before
  by unfold_locales (simp add: deliv_before_def)

section \<open>The result sets and their pages\<close>

abbreviation exec_table_ok :: "mem_store \<Rightarrow> bool" where
  "exec_table_ok m \<equiv> table_ok ex_id ex_started (ms_executions m)"

abbreviation deliv_table_ok :: "mem_store \<Rightarrow> bool" where
  "deliv_table_ok m \<equiv> table_ok d_id d_created (ms_deliverables m)"

definition exec_rows :: "execution_filter \<Rightarrow> mem_store \<Rightarrow> execution list" where
  "exec_rows f m = sort_slice exec_before
     (filter (exec_matches f) (range_values (ms_executions m) (map_order (ms_executions m))))"

definition deliv_rows :: "deliverable_filter \<Rightarrow> mem_store \<Rightarrow> deliverable list" where
  "deliv_rows f m = sort_slice deliv_before
     (filter (deliv_matches f) (range_values (ms_deliverables m) (map_order (ms_deliverables m))))"

definition exec_limit :: "execution_filter \<Rightarrow> nat" where
  "exec_limit f = nat (min MaxExecutionLimit
     (if ef_limit f \<le> 0 then DefaultExecutionLimit else ef_limit f))"

definition deliv_limit :: "deliverable_filter \<Rightarrow> nat" where
  "deliv_limit f = nat (min MaxDeliverableLimit
     (if df_limit f \<le> 0 then DefaultDeliverableLimit else df_limit f))"

definition exec_pg ::
  "execution_filter \<Rightarrow> mem_store \<Rightarrow> uuid list \<Rightarrow> uuid \<Rightarrow> execution list \<times> uuid" where
  "exec_pg f m ks c = (let p = Execution_List (f\<lparr>ef_cursor := c\<rparr>) ks m in (ep_items p, ep_next p))"

definition deliv_pg ::
  "deliverable_filter \<Rightarrow> mem_store \<Rightarrow> uuid list \<Rightarrow> uuid \<Rightarrow> deliverable list \<times> uuid" where
  "deliv_pg f m ks c =
     (let p = Deliverable_List (f\<lparr>df_cursor := c\<rparr>) ks m in (dp_items p, dp_next p))"

lemma cursor_change:
  "exec_matches (f\<lparr>ef_cursor := c\<rparr>) = exec_matches f"
  "ef_cursor (f\<lparr>ef_cursor := c\<rparr>) = c" "ef_limit (f\<lparr>ef_cursor := c\<rparr>) = ef_limit f"
  "deliv_matches (g\<lparr>df_cursor := c\<rparr>) = deliv_matches g"
  "df_cursor (g\<lparr>df_cursor := c\<rparr>) = c" "df_limit (g\<lparr>df_cursor := c\<rparr>) = df_limit g"
  by (simp_all add: exec_matches_def deliv_matches_def fun_eq_iff)

text \<open>Each List operation as a page of the rows that the cursor leaves.\<close>

lemma exec_pg_sorted:
  "exec_pg f m ks c = page_at uuid_nil ex_id (exec_limit f)
     (sort_slice exec_before (cursor_cut ex_id ex_started (ms_executions m) c
        (filter (exec_matches f) (range_values (ms_executions m) ks)))) 0"
  (is "_ = page_at _ _ _ ?T 0")
proof -
  let ?l = "if ef_limit f \<le> 0 then DefaultExecutionLimit else ef_limit f"
  let ?l' = "if ?l > MaxExecutionLimit then MaxExecutionLimit else ?l"
  let ?e = "if ?l' > int (length ?T) then int (length ?T) else ?l'"
  have l: "0 < ?l'" "nat ?l' = exec_limit f"
    by (auto simp: exec_limit_def DefaultExecutionLimit_def MaxExecutionLimit_def)
  have "exec_pg f m ks c = (take (nat ?e) ?T,
      if ?e < int (length ?T) \<and> ?e > 0 then ex_id (take (nat ?e) ?T ! nat (?e - 1)) else uuid_nil)"
    by (simp only: exec_pg_def Execution_List_def cursor_cut_def Let_def cursor_change
        execution_page.simps)
  also have "\<dots> = page_at uuid_nil ex_id (nat ?l') ?T 0"
    using page_at_end [OF l(1) refl, where T = ?T and ident = ex_id and nil = uuid_nil] by (simp only: prod.collapse)
  finally show ?thesis using l(2) by simp
qed

lemma deliv_pg_sorted:
  "deliv_pg f m ks c = page_at uuid_nil d_id (deliv_limit f)
     (sort_slice deliv_before (cursor_cut d_id d_created (ms_deliverables m) c
        (filter (deliv_matches f) (range_values (ms_deliverables m) ks)))) 0"
  (is "_ = page_at _ _ _ ?T 0")
proof -
  let ?l = "if df_limit f \<le> 0 then DefaultDeliverableLimit else df_limit f"
  let ?l' = "if ?l > MaxDeliverableLimit then MaxDeliverableLimit else ?l"
  let ?e = "if ?l' > int (length ?T) then int (length ?T) else ?l'"
  have l: "0 < ?l'" "nat ?l' = deliv_limit f"
    by (auto simp: deliv_limit_def DefaultDeliverableLimit_def MaxDeliverableLimit_def)
  have "deliv_pg f m ks c = (take (nat ?e) ?T,
      if ?e < int (length ?T) \<and> ?e > 0 then d_id (take (nat ?e) ?T ! nat (?e - 1)) else uuid_nil)"
    by (simp only: deliv_pg_def Deliverable_List_def cursor_cut_def Let_def cursor_change
        deliverable_page.simps)
  also have "\<dots> = page_at uuid_nil d_id (nat ?l') ?T 0"
    using page_at_end [OF l(1) refl, where T = ?T and ident = d_id and nil = uuid_nil] by (simp only: prod.collapse)
  finally show ?thesis using l(2) by simp
qed

lemma exec_limit_pos: "0 < exec_limit f"
  by (simp add: exec_limit_def DefaultExecutionLimit_def MaxExecutionLimit_def)

lemma deliv_limit_pos: "0 < deliv_limit f"
  by (simp add: deliv_limit_def DefaultDeliverableLimit_def MaxDeliverableLimit_def)

interpretation exec_pages: keyset_list uuid_nil ex_id
  "\<lambda>m ks. exec_table_ok m \<and> iterates (ms_executions m) ks" exec_rows exec_limit exec_pg
  by unfold_locales
    (auto simp: exec_limit_pos exec_pg_sorted exec_rows_def intro: exec_order.cut_pages(2,3)
      dest: exec_order.cut_pages(1) [OF _ _ exec_limit_pos])

interpretation deliv_pages: keyset_list uuid_nil d_id
  "\<lambda>m ks. deliv_table_ok m \<and> iterates (ms_deliverables m) ks" deliv_rows deliv_limit deliv_pg
  by unfold_locales
    (auto simp: deliv_limit_pos deliv_pg_sorted deliv_rows_def intro: deliv_order.cut_pages(2,3)
      dest: deliv_order.cut_pages(1) [OF _ _ deliv_limit_pos])

section \<open>Properties\<close>

text \<open>
  C36: a client that follows the cursors of GET /executions collects the whole result set of the
  filter: every execution that matches exactly once, ordered newest first with ties by id,
  whatever order each call visits the map in; one call more than rows is always enough. The
  same holds of the deliverables.
\<close>

theorem paging_complete:
  assumes "\<forall>ks \<in> set ords. iterates (ms_executions m) ks" "exec_table_ok m"
    and "length (exec_rows f m) < length ords"
  shows "walk_pages uuid_nil (exec_pg f m) ords uuid_nil = Some (exec_rows f m)
    \<and> set (exec_rows f m) = {e. \<exists>k. ms_executions m k = Some e \<and> exec_matches f e}
    \<and> distinct (exec_rows f m) \<and> sorted_wrt exec_before (exec_rows f m)"
proof -
  obtain ks where ks: "ks \<in> set ords" using assms(3) by (cases ords) auto
  with assms(1) have it: "iterates (ms_executions m) ks" by blast
  note it' = map_order_iterates [OF it]
  have "set (exec_rows f m) = {e. \<exists>k. ms_executions m k = Some e \<and> exec_matches f e}"
    using set_range_values_iterates [OF it'] by (auto simp: exec_rows_def ran_def)
  moreover have "sorted_wrt exec_before (exec_rows f m)"
    unfolding exec_rows_def
    by (rule strict_sort_slice [OF exec_order.weak_order_axioms
          exec_order.visited_rows(1,3) [OF assms(2) it']])
  moreover have "distinct (exec_rows f m)"
    unfolding exec_rows_def distinct_sort_slice
    by (rule exec_order.visited_rows(1) [OF assms(2) it'])
  ultimately show ?thesis using exec_pages.walk_all [of ords m f] assms by simp
qed

definition sample_execution :: "uuid \<Rightarrow> go_time \<Rightarrow> execution" where
  "sample_execution k t = \<lparr>ex_id = k, ex_task = 5, ex_agent = 6, ex_status = ExAssigned,
     ex_started = t, ex_completed = None, ex_error = None, ex_instance = None,
     ex_created = t, ex_updated = t\<rparr>"

definition sample_store :: mem_store where
  "sample_store = NewMemoryStore
     \<lparr>ms_executions := [1 \<mapsto> sample_execution 1 10, 2 \<mapsto> sample_execution 2 20]\<rparr>"

text \<open>Two rows and a page size of one: the newer execution is on the first page.\<close>

theorem paging_complete_witness:
  "walk_pages uuid_nil
     (exec_pg \<lparr>ef_task = 5, ef_agent = 0, ef_status = ExOther '''', ef_cursor = 0, ef_limit = 1\<rparr>
        sample_store) [[1, 2], [2, 1], [1, 2]] 0
   = Some [sample_execution 2 20, sample_execution 1 10]"
proof -
  let ?f = "\<lparr>ef_task = 5, ef_agent = 0, ef_status = ExOther '''', ef_cursor = 0, ef_limit = 1\<rparr>"
  have ok: "exec_table_ok sample_store"
    by (auto simp: sample_store_def sample_execution_def intro!: table_ok_upd table_ok_empty)
  have it: "\<forall>ks \<in> set [[1, 2], [2, 1], [1, 2]]. iterates (ms_executions sample_store) ks"
    by (auto simp: sample_store_def iterates_def)
  then have it1: "iterates (ms_executions sample_store) [1, 2]" by simp
  have rows: "exec_rows ?f sample_store = [sample_execution 2 20, sample_execution 1 10]"
    unfolding exec_rows_def exec_order.sorted_rows_any_order [OF ok it1]
    by (simp add: sample_store_def sample_execution_def exec_matches_def exec_before_def)
  from paging_complete [OF it ok, of ?f] rows show ?thesis by simp
qed

end
