(* ===== verification/Store_Agents.thy ===== *)
theory Store_Agents
  imports Store Paging
begin

text \<open>
  Agents, the capability catalog and worker rows in src/src/internal/store/memory.go. Agents and
  workers are copied on the way in and out, so a caller never shares a row of these tables. The
  argument \<open>ustr\<close> stands for the text of an id, uuid.UUID.String().
\<close>

section \<open>Agents\<close>

definition Agent_Create :: "uuid list \<Rightarrow> agent \<Rightarrow> mem_store \<Rightarrow> store_error + mem_store" where
  "Agent_Create ks a m =
     (if list_ex (\<lambda>x. ag_project x = ag_project a \<and> ag_name x = ag_name a \<and> ag_retired_at x = None)
           (range_values (ms_agents m) ks)
      then Inl ErrAlreadyExists
      else Inr (m\<lparr>ms_agents := (ms_agents m)(ag_id a \<mapsto> a)\<rparr>))"

definition Agent_GetByID :: "uuid \<Rightarrow> mem_store \<Rightarrow> store_error + agent" where
  "Agent_GetByID k m = (case ms_agents m k of None \<Rightarrow> Inl ErrNotFound | Some a \<Rightarrow> Inr a)"

definition capabilityMatches :: "string list \<Rightarrow> string \<Rightarrow> bool" where
  "capabilityMatches caps want = list_ex (\<lambda>c. c = want) caps"

definition agent_matches :: "agent_filter \<Rightarrow> agent \<Rightarrow> bool" where
  "agent_matches f a =
     (if ag_project a \<noteq> af_project f then False
      else if \<not> af_include_retired f \<and> ag_retired_at a \<noteq> None then False
      else if af_status f \<noteq> AgentOther '''' \<and> ag_status a \<noteq> af_status f then False
      else if af_capability f \<noteq> '''' \<and> \<not> capabilityMatches (ag_capabilities a) (af_capability f)
        then False
      else True)"

definition agent_before :: "(uuid \<Rightarrow> string) \<Rightarrow> agent \<Rightarrow> agent \<Rightarrow> bool" where
  "agent_before ustr a b =
     (if ag_created a \<noteq> ag_created b then ag_created a < ag_created b
      else ustr (ag_id a) < ustr (ag_id b))"

definition Agent_List ::
  "(uuid \<Rightarrow> string) \<Rightarrow> agent_filter \<Rightarrow> uuid list \<Rightarrow> mem_store \<Rightarrow> agent_page" where
  "Agent_List ustr f ks m =
     (let limit = (if af_limit f \<le> 0 then 50 else af_limit f);
          limit = (if limit > 200 then 200 else limit)
      in if af_project f = uuid_nil then \<lparr>ap_data = [], ap_next = '''', ap_more = False\<rparr>
         else
           let matches = filter (agent_matches f) (range_values (ms_agents m) ks);
               matches = sort_slice (agent_before ustr) matches;
               startIdx = (if af_cursor f \<noteq> ''''
                           then cursor_index (\<lambda>a. ustr (ag_id a)) (af_cursor f) matches 0 else 0);
               endIdx = int startIdx + limit;
               hasMore = (endIdx < int (length matches));
               endIdx = (if endIdx > int (length matches) then int (length matches) else endIdx);
               out = take (nat (endIdx - int startIdx)) (drop startIdx matches);
               nextCursor = (if hasMore \<and> out \<noteq> [] then ustr (ag_id (last out)) else '''')
           in \<lparr>ap_data = out, ap_next = nextCursor, ap_more = hasMore\<rparr>)"

text \<open>Update gives back the row as stored: the caller's struct carries the new version.\<close>

definition Agent_Update :: "agent \<Rightarrow> mem_store \<Rightarrow> store_error + agent \<times> mem_store" where
  "Agent_Update a m =
     (case ms_agents m (ag_id a) of
        None \<Rightarrow> Inl ErrNotFound
      | Some ext \<Rightarrow>
          if ag_version ext \<noteq> ag_version a then Inl ErrConflict
          else let a1 = a\<lparr>ag_version := ag_version a + 1\<rparr>;
                   a2 = (if ag_created a1 = zero_time
                         then a1\<lparr>ag_created := ag_created ext\<rparr> else a1)
               in Inr (a2, m\<lparr>ms_agents := (ms_agents m)(ag_id a2 \<mapsto> a2)\<rparr>))"

definition Agent_SoftDelete :: "go_time \<Rightarrow> uuid \<Rightarrow> mem_store \<Rightarrow> store_error + mem_store" where
  "Agent_SoftDelete now k m =
     (case ms_agents m k of
        None \<Rightarrow> Inl ErrNotFound
      | Some a \<Rightarrow>
          Inr (m\<lparr>ms_agents := (ms_agents m)(k \<mapsto>
                 a\<lparr>ag_status := AgentRetired, ag_retired_at := Some now,
                   ag_version := ag_version a + 1\<rparr>)\<rparr>))"

definition Agent_SetCapabilities ::
  "uuid \<Rightarrow> string list \<Rightarrow> mem_store \<Rightarrow> store_error + mem_store" where
  "Agent_SetCapabilities k names m =
     (case ms_agents m k of
        None \<Rightarrow> Inl ErrNotFound
      | Some a \<Rightarrow>
          Inr (m\<lparr>ms_agents := (ms_agents m)(k \<mapsto>
                 a\<lparr>ag_capabilities := names, ag_version := ag_version a + 1\<rparr>)\<rparr>))"

definition Agent_ListCapabilities ::
  "uuid \<Rightarrow> mem_store \<Rightarrow> store_error + agent_capability_view list" where
  "Agent_ListCapabilities k m =
     (case ms_agents m k of
        None \<Rightarrow> Inl ErrNotFound
      | Some a \<Rightarrow>
          Inr (map (\<lambda>name. \<lparr>acv_name = name, acv_display_name = name, acv_category = '''',
                      acv_proficiency = Some 0, acv_granted_at = ag_created a,
                      acv_granted_by = None\<rparr>)
                 (ag_capabilities a)))"

section \<open>Capabilities\<close>

definition Capability_GetByName :: "string \<Rightarrow> mem_store \<Rightarrow> store_error + capability_row" where
  "Capability_GetByName n m =
     (case ms_capabilities m n of None \<Rightarrow> Inl ErrNotFound | Some c \<Rightarrow> Inr c)"

definition Capability_Exists :: "string \<Rightarrow> mem_store \<Rightarrow> bool" where
  "Capability_Exists n m = (ms_capabilities m n \<noteq> None)"

definition Capability_List ::
  "capability_filter \<Rightarrow> string list \<Rightarrow> mem_store \<Rightarrow> capability_page" where
  "Capability_List f ks m =
     (let limit = (if cf_limit f \<le> 0 then 50 else cf_limit f);
          limit = (if limit > 200 then 200 else limit);
          matches = filter (\<lambda>c. \<not> (cf_category f \<noteq> '''' \<and> cr_category c \<noteq> cf_category f))
                      (range_values (ms_capabilities m) ks);
          matches = sort_slice (\<lambda>a b. cr_name a < cr_name b) matches;
          startIdx = (if cf_cursor f \<noteq> '''' then cursor_index cr_name (cf_cursor f) matches 0 else 0);
          endIdx = int startIdx + limit;
          hasMore = (endIdx < int (length matches));
          endIdx = (if endIdx > int (length matches) then int (length matches) else endIdx);
          page = take (nat (endIdx - int startIdx)) (drop startIdx matches);
          nextCursor = (if hasMore \<and> page \<noteq> [] then cr_name (last page) else '''')
      in \<lparr>cp_data = page, cp_next = nextCursor, cp_more = hasMore\<rparr>)"

section \<open>Workers\<close>

text \<open>
  Create asks the started instant of its argument before anything else can return: a row without
  one is a nil dereference, the result None. The outer option is the panic.
\<close>

definition Worker_Create ::
  "uuid \<Rightarrow> go_time \<Rightarrow> worker \<Rightarrow> mem_store \<Rightarrow> (store_error + worker \<times> mem_store) option" where
  "Worker_Create fresh now w m =
     (let w1 = (if w_id w = uuid_nil then w\<lparr>w_id := fresh\<rparr> else w)
      in case w_started w1 of
           None \<Rightarrow> None
         | Some started \<Rightarrow>
             let w2 = (if started = zero_time then w1\<lparr>w_started := Some now\<rparr> else w1);
                 w3 = (if w_status w2 = MWOther '''' then w2\<lparr>w_status := MWPending\<rparr> else w2)
             in Some
                  (if \<not> IsValidWorkerStatus (w_status w3) then Inl ErrInvalidInput
                   else if w_execution w3 = uuid_nil then Inl ErrInvalidInput
                   else if w_agent w3 = uuid_nil then Inl ErrInvalidInput
                   else if w_project w3 = uuid_nil then Inl ErrInvalidInput
                   else Inr (w3, m\<lparr>ms_workers := (ms_workers m)(w_id w3 \<mapsto> w3),
                                 ms_worker_by_agent := (ms_worker_by_agent m)
                                   (w_agent w3 := ms_worker_by_agent m (w_agent w3) @ [w_id w3]),
                                 ms_worker_by_execution := (ms_worker_by_execution m)
                                   (w_execution w3 :=
                                      ms_worker_by_execution m (w_execution w3) @ [w_id w3])\<rparr>)))"

definition Worker_GetByID :: "uuid \<Rightarrow> mem_store \<Rightarrow> store_error + worker" where
  "Worker_GetByID k m = (case ms_workers m k of None \<Rightarrow> Inl ErrNotFound | Some w \<Rightarrow> Inr w)"

definition Worker_ListByExecution :: "uuid \<Rightarrow> mem_store \<Rightarrow> worker list" where
  "Worker_ListByExecution e m = range_values (ms_workers m) (ms_worker_by_execution m e)"

definition Worker_ListByAgent :: "uuid \<Rightarrow> mem_store \<Rightarrow> worker list" where
  "Worker_ListByAgent a m = range_values (ms_workers m) (ms_worker_by_agent m a)"

definition Worker_Update :: "worker \<Rightarrow> mem_store \<Rightarrow> store_error + mem_store" where
  "Worker_Update w m =
     (if w_id w = uuid_nil then Inl ErrInvalidInput
      else if \<not> IsValidWorkerStatus (w_status w) then Inl ErrInvalidInput
      else if ms_workers m (w_id w) = None then Inl ErrNotFound
      else Inr (m\<lparr>ms_workers := (ms_workers m)(w_id w \<mapsto> w)\<rparr>))"

definition Worker_Delete :: "uuid \<Rightarrow> mem_store \<Rightarrow> store_error + mem_store" where
  "Worker_Delete k m =
     (case ms_workers m k of
        None \<Rightarrow> Inl ErrNotFound
      | Some w \<Rightarrow>
          let m1 = m\<lparr>ms_workers := (ms_workers m)(k := None)\<rparr>;
              m2 = m1\<lparr>ms_worker_by_execution := (ms_worker_by_execution m1)
                     (w_execution w := filter (\<lambda>x. x \<noteq> k) (ms_worker_by_execution m1 (w_execution w)))\<rparr>;
              m3 = m2\<lparr>ms_worker_by_agent := (ms_worker_by_agent m2)
                     (w_agent w := filter (\<lambda>x. x \<noteq> k) (ms_worker_by_agent m2 (w_agent w)))\<rparr>
          in Inr m3)"

section \<open>The invariant of the agent table\<close>

text \<open>Rows are keyed by id, and no project has two agents in service with one name.\<close>

definition agents_inv :: "mem_store \<Rightarrow> bool" where
  "agents_inv m \<longleftrightarrow>
     keyed_by ag_id (ms_agents m)
     \<and> (\<forall>j k a b. ms_agents m j = Some a \<and> ms_agents m k = Some b
          \<and> ag_retired_at a = None \<and> ag_retired_at b = None
          \<and> ag_project a = ag_project b \<and> ag_name a = ag_name b \<longrightarrow> j = k)"

lemma agents_invD:
  assumes "agents_inv m"
  shows "ms_agents m k = Some a \<Longrightarrow> ag_id a = k"
    "ms_agents m j = Some a \<Longrightarrow> ms_agents m k = Some b \<Longrightarrow> ag_retired_at a = None \<Longrightarrow>
       ag_retired_at b = None \<Longrightarrow> ag_project a = ag_project b \<Longrightarrow> ag_name a = ag_name b \<Longrightarrow> j = k"
  using assms by (auto simp: agents_inv_def dest: keyed_byD)

lemma agents_inv_upd:
  assumes inv: "agents_inv m" and id: "ag_id a' = k"
    and names: "ag_retired_at a' = None \<Longrightarrow>
       (\<forall>j b. j \<noteq> k \<and> ms_agents m j = Some b \<and> ag_retired_at b = None \<and> ag_project b = ag_project a'
          \<longrightarrow> ag_name b \<noteq> ag_name a')"
    and other: "ms_agents m' = (ms_agents m)(k \<mapsto> a')"
  shows "agents_inv m'"
proof -
  have "i = j" if h: "ms_agents m' i = Some x" "ms_agents m' j = Some y" "ag_retired_at x = None"
    "ag_retired_at y = None" "ag_project x = ag_project y" "ag_name x = ag_name y" for i j x y
  proof (cases "i = k"; cases "j = k")
    assume "i = k" "j \<noteq> k"
    with h other have "x = a'" "ms_agents m j = Some y" by auto
    with names h \<open>j \<noteq> k\<close> show ?thesis by metis
  next
    assume "i \<noteq> k" "j = k"
    with h other have "y = a'" "ms_agents m i = Some x" by auto
    with names h \<open>i \<noteq> k\<close> show ?thesis by metis
  next
    assume "i \<noteq> k" "j \<noteq> k"
    with h other have "ms_agents m i = Some x" "ms_agents m j = Some y" by auto
    with agents_invD(2) [OF inv] h show ?thesis by blast
  qed auto
  moreover have "keyed_by ag_id (ms_agents m')"
    using inv id by (simp add: agents_inv_def other)
  ultimately show ?thesis unfolding agents_inv_def by blast
qed

lemma agents_inv_Create:
  assumes "agents_inv m" "iterates (ms_agents m) ks" "Agent_Create ks a m = Inr m'"
  shows "agents_inv m'"
proof (rule agents_inv_upd [OF assms(1) refl])
  have n: "\<not> list_ex (\<lambda>x. ag_project x = ag_project a \<and> ag_name x = ag_name a \<and> ag_retired_at x = None)
      (range_values (ms_agents m) ks)"
    and m': "m' = m\<lparr>ms_agents := (ms_agents m)(ag_id a \<mapsto> a)\<rparr>"
    using assms(3) by (auto simp: Agent_Create_def split: if_splits)
  show "ms_agents m' = (ms_agents m)(ag_id a \<mapsto> a)" by (simp add: m')
  show "\<forall>j b. j \<noteq> ag_id a \<and> ms_agents m j = Some b \<and> ag_retired_at b = None
      \<and> ag_project b = ag_project a \<longrightarrow> ag_name b \<noteq> ag_name a"
    using n set_range_values_iterates [OF assms(2)] by (auto simp: list_ex_iff ran_def)
qed

text \<open>A write that keeps project and name, and does not undo a retirement.\<close>

lemma agents_inv_same:
  assumes inv: "agents_inv m" and old: "ms_agents m k = Some old" and "ag_id a' = k"
    and "ag_project a' = ag_project old" "ag_name a' = ag_name old"
    and "ag_retired_at a' = None \<Longrightarrow> ag_retired_at old = None"
    and "ms_agents m' = (ms_agents m)(k \<mapsto> a')"
  shows "agents_inv m'"
proof (rule agents_inv_upd [OF inv])
  assume "ag_retired_at a' = None"
  with assms have r: "ag_retired_at old = None" by simp
  show "\<forall>j b. j \<noteq> k \<and> ms_agents m j = Some b \<and> ag_retired_at b = None \<and> ag_project b = ag_project a'
      \<longrightarrow> ag_name b \<noteq> ag_name a'"
    using agents_invD(2) [OF inv _ old _ r] assms(4,5) by metis
qed (use assms in simp_all)

lemma agents_inv_SoftDelete:
  assumes "agents_inv m" "Agent_SoftDelete now k m = Inr m'"
  shows "agents_inv m'"
proof -
  obtain a where a: "ms_agents m k = Some a"
    using assms(2) by (auto simp: Agent_SoftDelete_def split: option.splits)
  show ?thesis
    by (rule agents_inv_same [OF assms(1) a, where
          a' = "a\<lparr>ag_status := AgentRetired, ag_retired_at := Some now, ag_version := ag_version a + 1\<rparr>"])
      (use agents_invD(1) [OF assms(1) a] a assms(2) in \<open>auto simp: Agent_SoftDelete_def\<close>)
qed

lemma agents_inv_SetCapabilities:
  assumes "agents_inv m" "Agent_SetCapabilities k names m = Inr m'"
  shows "agents_inv m'"
proof -
  obtain a where a: "ms_agents m k = Some a"
    using assms(2) by (auto simp: Agent_SetCapabilities_def split: option.splits)
  show ?thesis
    by (rule agents_inv_same [OF assms(1) a, where
          a' = "a\<lparr>ag_capabilities := names, ag_version := ag_version a + 1\<rparr>"])
      (use agents_invD(1) [OF assms(1) a] a assms(2) in \<open>auto simp: Agent_SetCapabilities_def\<close>)
qed

lemma Agent_Update_rows:
  assumes "Agent_Update a m = Inr (a', m')"
  obtains old where "ms_agents m (ag_id a) = Some old" "ag_version old = ag_version a"
    "m' = m\<lparr>ms_agents := (ms_agents m)(ag_id a \<mapsto> a')\<rparr>"
    "a' = a\<lparr>ag_version := ag_version a + 1,
            ag_created := (if ag_created a = zero_time then ag_created old else ag_created a)\<rparr>"
proof (cases "ms_agents m (ag_id a)")
  case None
  with assms show ?thesis by (simp add: Agent_Update_def)
next
  case (Some old)
  have v: "ag_version old = ag_version a"
    using assms by (rule contrapos_pp) (simp add: Agent_Update_def Some)
  show ?thesis
  proof (cases "ag_created a = zero_time")
    case True
    with assms Some v have "a' = a\<lparr>ag_version := ag_version a + 1, ag_created := ag_created old\<rparr>"
      "m' = m\<lparr>ms_agents := (ms_agents m)(ag_id a \<mapsto> a')\<rparr>"
      by (auto simp: Agent_Update_def Let_def)
    with that Some v True show ?thesis by simp
  next
    case False
    with assms Some v have "a' = a\<lparr>ag_version := ag_version a + 1\<rparr>"
      "m' = m\<lparr>ms_agents := (ms_agents m)(ag_id a \<mapsto> a')\<rparr>"
      by (auto simp: Agent_Update_def Let_def)
    with that Some v False show ?thesis by simp
  qed
qed

lemma agents_inv_Update:
  assumes "agents_inv m" "Agent_Update a m = Inr (a', m')" "ms_agents m (ag_id a) = Some old"
    and "ag_project a = ag_project old" "ag_name a = ag_name old"
    and "ag_retired_at a = None \<Longrightarrow> ag_retired_at old = None"
  shows "agents_inv m'"
  by (rule Agent_Update_rows [OF assms(2)], rule agents_inv_same [OF assms(1,3), where a' = a'])
    (use assms(4-6) in simp_all)

section \<open>Paging by cursor position\<close>

lemma page_by_position:
  assumes "i \<le> length S" "0 < L" "e0 = int i + L"
    and "e = (if e0 > int (length S) then int (length S) else e0)"
    and "out = take (nat (e - int i)) (drop i S)"
  shows "(out, if e0 < int (length S) \<and> out \<noteq> [] then ident (last out) else nl)
       = page_at nl ident (nat L) S i"
proof (cases "e0 < int (length S)")
  case True
  define n where "n = nat L"
  have n: "0 < n" "i + n < length S" using True assms(2,3) by (auto simp: n_def)
  have out: "out = take n (drop i S)" using assms(3-5) True by (simp add: n_def)
  have ne: "out \<noteq> []" and len: "length out = n" using out n by auto
  have "last out = S ! (i + n - 1)"
    using n unfolding last_conv_nth [OF ne] len by (simp add: out)
  then show ?thesis using True ne n out by (simp add: page_at_def n_def [symmetric])
next
  case False
  then have "out = take (nat L) (drop i S)" using assms by (auto simp: nat_le_iff min_def)
  then show ?thesis using False assms(2,3) by (auto simp: page_at_def)
qed

text \<open>
  Both cursor loops stop at the row the cursor names, provided its key is its own: agents by the
  text of their ids, catalog rows by name.
\<close>

definition agent_rows :: "(uuid \<Rightarrow> string) \<Rightarrow> agent_filter \<Rightarrow> mem_store \<Rightarrow> agent list" where
  "agent_rows ustr f m =
     (if af_project f = uuid_nil then []
      else sort_slice (agent_before ustr)
             (filter (agent_matches f) (range_values (ms_agents m) (map_order (ms_agents m)))))"

definition agent_limit :: "agent_filter \<Rightarrow> nat" where
  "agent_limit f = nat (min 200 (if af_limit f \<le> 0 then 50 else af_limit f))"

definition agent_pg ::
  "(uuid \<Rightarrow> string) \<Rightarrow> agent_filter \<Rightarrow> mem_store \<Rightarrow> uuid list \<Rightarrow> string \<Rightarrow> agent list \<times> string" where
  "agent_pg ustr f m ks c =
     (let p = Agent_List ustr (f\<lparr>af_cursor := c\<rparr>) ks m in (ap_data p, ap_next p))"

definition agent_pages_ok :: "(uuid \<Rightarrow> string) \<Rightarrow> mem_store \<Rightarrow> uuid list \<Rightarrow> bool" where
  "agent_pages_ok ustr m ks \<longleftrightarrow>
     inj ustr \<and> (\<forall>k. ustr k \<noteq> '''') \<and> keyed_by ag_id (ms_agents m) \<and> iterates (ms_agents m) ks"

interpretation agent_order: weak_order "agent_before ustr" for ustr
  by unfold_locales (auto simp: agent_before_def split: if_splits)

lemma agent_rows_visited:
  assumes "agent_pages_ok ustr m ks" "af_project f \<noteq> uuid_nil"
  shows "agent_rows ustr f m
       = sort_slice (agent_before ustr) (filter (agent_matches f) (range_values (ms_agents m) ks))"
    "distinct (map (\<lambda>a. ustr (ag_id a)) (agent_rows ustr f m))"
proof -
  have inj: "inj ustr" and key: "keyed_by ag_id (ms_agents m)" and it: "iterates (ms_agents m) ks"
    using assms(1) by (auto simp: agent_pages_ok_def)
  let ?xs = "\<lambda>ks. filter (agent_matches f) (range_values (ms_agents m) ks)"
  note it' = map_order_iterates [OF it]
  have tot: "x = y" if "x \<in> set (?xs (map_order (ms_agents m)))"
    "y \<in> set (?xs (map_order (ms_agents m)))" "\<not> agent_before ustr x y" "\<not> agent_before ustr y x" for x y
  proof -
    have "ustr (ag_id x) = ustr (ag_id y)"
      using that(3,4)
      by (cases "ag_created x" "ag_created y" rule: linorder_cases)
        (simp_all add: agent_before_def not_less antisym)
    then have "ag_id x = ag_id y" using inj by (rule injD [rotated])
    moreover have "ms_agents m (ag_id z) = Some z" if "z \<in> set (?xs (map_order (ms_agents m)))" for z
      using that key by (auto simp: set_range_values dest: keyed_byD)
    ultimately show ?thesis using that(1,2) by (metis option.inject)
  qed
  have "mset (?xs (map_order (ms_agents m))) = mset (?xs ks)"
    using range_values_perm [OF it' it] by simp
  from agent_order.sort_slice_cong_mset [OF this tot] assms(2)
  show rows: "agent_rows ustr f m = sort_slice (agent_before ustr) (?xs ks)"
    by (simp add: agent_rows_def)
  have "distinct (map ag_id (range_values (ms_agents m) ks))"
    using distinct_map_range_values [OF key] it by (simp add: iterates_def)
  then have "distinct (map ag_id (?xs ks))" by (rule distinct_map_filter)
  then have "distinct (map (\<lambda>a. ustr (ag_id a)) (?xs ks))"
    using inj by (auto simp: distinct_map inj_on_def dest: injD)
  then show "distinct (map (\<lambda>a. ustr (ag_id a)) (agent_rows ustr f m))"
    by (simp add: rows distinct_map_sort_slice)
qed

lemma agent_pg_at:
  assumes "agent_pages_ok ustr m ks"
    and "i = (if c = '''' then 0 else cursor_index (\<lambda>a. ustr (ag_id a)) c (agent_rows ustr f m) 0)"
    and "i \<le> length (agent_rows ustr f m)"
  shows "agent_pg ustr f m ks c
       = page_at '''' (\<lambda>a. ustr (ag_id a)) (agent_limit f) (agent_rows ustr f m) i"
proof (cases "af_project f = uuid_nil")
  case True
  then show ?thesis by (simp add: agent_pg_def Agent_List_def agent_rows_def page_at_def Let_def)
next
  case False
  let ?l = "if af_limit f \<le> 0 then 50 else af_limit f"
  let ?l' = "if ?l > 200 then 200 else ?l"
  have l: "0 < ?l'" "nat ?l' = agent_limit f" by (auto simp: agent_limit_def)
  have sel: "agent_matches (f\<lparr>af_cursor := c\<rparr>) = agent_matches f"
    "af_cursor (f\<lparr>af_cursor := c\<rparr>) = c" "af_limit (f\<lparr>af_cursor := c\<rparr>) = af_limit f"
    "af_project (f\<lparr>af_cursor := c\<rparr>) = af_project f"
    by (simp_all add: agent_matches_def fun_eq_iff)
  have i: "(if c \<noteq> '''' then cursor_index (\<lambda>a. ustr (ag_id a)) c (agent_rows ustr f m) 0 else 0) = i"
    using assms(2) by simp
  note pg = page_by_position [OF assms(3) l(1) refl refl refl,
      where ident = "\<lambda>a. ustr (ag_id a)" and nl = "''''"]
  show ?thesis
    unfolding agent_pg_def Agent_List_def Let_def sel if_not_P [OF False]
      agent_rows_visited(1) [OF assms(1) False, symmetric] i agent_page.simps l(2) [symmetric]
    by (rule pg)
qed

interpretation agent_pages: keyset_list "''''" "\<lambda>a. ustr (ag_id a)" "agent_pages_ok ustr"
  "agent_rows ustr" agent_limit "agent_pg ustr" for ustr
proof
  fix f show "0 < agent_limit f" by (simp add: agent_limit_def)
next
  fix m ks x f assume "agent_pages_ok ustr m ks" "x \<in> set (agent_rows ustr f m)"
  then show "ustr (ag_id x) \<noteq> ''''" by (simp add: agent_pages_ok_def)
next
  fix m ks f assume "agent_pages_ok ustr m ks"
  then show "agent_pg ustr f m ks '''' =
      page_at '''' (\<lambda>a. ustr (ag_id a)) (agent_limit f) (agent_rows ustr f m) 0"
    by (intro agent_pg_at) simp_all
next
  fix m ks f i assume ok: "agent_pages_ok ustr m ks" and i: "i < length (agent_rows ustr f m)"
  then have "af_project f \<noteq> uuid_nil" by (auto simp: agent_rows_def)
  from cursor_index_nth [OF agent_rows_visited(2) [OF ok this] i]
  show "agent_pg ustr f m ks (ustr (ag_id (agent_rows ustr f m ! i))) =
      page_at '''' (\<lambda>a. ustr (ag_id a)) (agent_limit f) (agent_rows ustr f m) (Suc i)"
    using ok i by (intro agent_pg_at) (simp_all add: agent_pages_ok_def)
qed

text \<open>An idle agent, for the witnesses.\<close>

definition sample_agent :: "uuid \<Rightarrow> string list \<Rightarrow> agent" where
  "sample_agent k caps = \<lparr>ag_id = k, ag_project = 3, ag_name = ''a'', ag_role = ''developer'',
     ag_status = AgentIdle, ag_capabilities = caps, ag_last_active = None, ag_metadata = '''',
     ag_runtime = '''', ag_version = 1, ag_retired_at = None, ag_created = 1, ag_updated = 1\<rparr>"

end
