(* ===== verification/Errors.thy ===== *)
theory Errors
  imports Prelude
begin

text \<open>
  The error values of the service layer (src/src/internal/service/errors.go) with their number
  formatting helpers, and the field validators (src/src/internal/validation/validate.go).
  Strings are byte strings, as in Go.
\<close>

section \<open>Validation errors (validation/validate.go)\<close>

record field_error =
  fe_field :: string
  fe_message :: string

type_synonym field_errors = "field_error list"

definition add_field_error :: "string \<Rightarrow> string \<Rightarrow> field_errors \<Rightarrow> field_errors" where
  "add_field_error fld msg errs = errs @ [\<lparr>fe_field = fld, fe_message = msg\<rparr>]"

definition HasErrors :: "field_errors \<Rightarrow> bool" where
  "HasErrors errs \<longleftrightarrow> errs \<noteq> []"

text \<open>
  strings.TrimSpace removes the Unicode white space at both ends. Below are the UTF-8 byte
  sequences of the code points with that property; no sequence is the tail of another code
  point's encoding, so matching bytes is decoding runes.
\<close>

definition white_space :: "string list" where
  "white_space =
     [[CHR 0x09], [CHR 0x0A], [CHR 0x0B], [CHR 0x0C], [CHR 0x0D], [CHR 0x20],
      [CHR 0xC2, CHR 0x85], [CHR 0xC2, CHR 0xA0], [CHR 0xE1, CHR 0x9A, CHR 0x80]]
     @ map (\<lambda>c. [CHR 0xE2, CHR 0x80, c])
         [CHR 0x80, CHR 0x81, CHR 0x82, CHR 0x83, CHR 0x84, CHR 0x85, CHR 0x86, CHR 0x87,
          CHR 0x88, CHR 0x89, CHR 0x8A, CHR 0xA8, CHR 0xA9, CHR 0xAF]
     @ [[CHR 0xE2, CHR 0x81, CHR 0x9F], [CHR 0xE3, CHR 0x80, CHR 0x80]]"

fun strip_one :: "string list \<Rightarrow> string \<Rightarrow> string option" where
  "strip_one [] s = None"
| "strip_one (w # ws) s =
     (if w \<noteq> [] \<and> take (length w) s = w then Some (drop (length w) s) else strip_one ws s)"

lemma strip_one_shorter: "strip_one ws s = Some s' \<Longrightarrow> length s' < length s"
proof (induction ws)
  case Nil
  then show ?case by simp
next
  case (Cons w ws)
  then show ?case by (cases "s = []") (auto split: if_splits)
qed

function trim_left :: "string list \<Rightarrow> string \<Rightarrow> string" where
  "trim_left ws s = (case strip_one ws s of None \<Rightarrow> s | Some s' \<Rightarrow> trim_left ws s')"
  by pat_completeness auto
termination
  by (relation "measure (\<lambda>(ws, s). length s)") (auto simp: strip_one_shorter)

declare trim_left.simps [simp del]

definition TrimSpace :: "string \<Rightarrow> string" where
  "TrimSpace s =
     rev (trim_left (map rev white_space) (rev (trim_left white_space s)))"

lemma trim_left_stops: "strip_one ws (trim_left ws s) = None"
proof (induction ws s rule: trim_left.induct)
  case (1 ws s)
  show ?case
    by (subst trim_left.simps) (use 1 in \<open>auto split: option.split\<close>)
qed

lemma trim_left_idem [simp]: "trim_left ws (trim_left ws s) = trim_left ws s"
  by (subst trim_left.simps) (simp add: trim_left_stops)

lemma trim_left_Nil [simp]: "trim_left ws [] = []"
proof -
  have "strip_one ws [] = None" by (induction ws) auto
  then show ?thesis by (subst trim_left.simps) simp
qed

definition NotEmpty :: "string \<Rightarrow> string \<Rightarrow> string \<Rightarrow> field_errors \<Rightarrow> field_errors" where
  "NotEmpty value fld label errs =
     (if TrimSpace value = [] then add_field_error fld (label @ '' is required'') errs else errs)"

definition AllowedStrings ::
  "string \<Rightarrow> string list \<Rightarrow> string \<Rightarrow> string \<Rightarrow> field_errors \<Rightarrow> field_errors" where
  "AllowedStrings value allowed fld label errs =
     (if value = [] then errs
      else if value \<in> set allowed then errs
      else add_field_error fld
             (label @ '' must be one of: '' @ strings_join allowed '', '') errs)"

definition MinValue :: "int \<Rightarrow> int \<Rightarrow> string \<Rightarrow> string \<Rightarrow> (int \<Rightarrow> string) \<Rightarrow> field_errors \<Rightarrow> field_errors"
  where
  "MinValue value mn fld label itoa errs =
     (if value < mn then add_field_error fld (label @ '' must be at least '' @ itoa mn) errs
      else errs)"

definition PositiveInt :: "int \<Rightarrow> string \<Rightarrow> string \<Rightarrow> field_errors \<Rightarrow> field_errors" where
  "PositiveInt value fld label errs =
     (if value \<le> 0 then add_field_error fld (label @ '' must be a positive integer'') errs
      else errs)"

lemma HasErrors_NotEmpty [simp]:
  "HasErrors (NotEmpty v f l errs) \<longleftrightarrow> TrimSpace v = [] \<or> HasErrors errs"
  by (simp add: NotEmpty_def HasErrors_def add_field_error_def)

lemma HasErrors_AllowedStrings [simp]:
  "HasErrors (AllowedStrings v as f l errs) \<longleftrightarrow> (v \<noteq> [] \<and> v \<notin> set as) \<or> HasErrors errs"
  by (auto simp: AllowedStrings_def HasErrors_def add_field_error_def)

lemma HasErrors_Nil [simp]: "\<not> HasErrors []"
  by (simp add: HasErrors_def)

lemma TrimSpace_empty [simp]: "TrimSpace [] = []"
  by (simp add: TrimSpace_def)

text \<open>The validName pattern: a letter or digit, then one or more letters, digits or
  punctuation of a fixed set, up to the end of the text.\<close>

definition is_alnum :: "char \<Rightarrow> bool" where
  "is_alnum c \<longleftrightarrow> (let n = of_char c :: nat in
     (97 \<le> n \<and> n \<le> 122) \<or> (65 \<le> n \<and> n \<le> 90) \<or> (48 \<le> n \<and> n \<le> 57))"

definition is_name_char :: "char \<Rightarrow> bool" where
  "is_name_char c \<longleftrightarrow> is_alnum c \<or> c \<in> set '' _-.()'' \<or> c = CHR 0x27"

fun validName :: "string \<Rightarrow> bool" where
  "validName [] = False"
| "validName (c # cs) = (is_alnum c \<and> cs \<noteq> [] \<and> list_all is_name_char cs)"

definition Name :: "string \<Rightarrow> string \<Rightarrow> field_errors \<Rightarrow> field_errors" where
  "Name value fld errs =
     (if value = [] then errs
      else if \<not> validName value then add_field_error fld ''Name contains invalid characters'' errs
      else errs)"

text \<open>mail.ParseAddress is a parameter: whether it returns an error.\<close>

definition Email :: "(string \<Rightarrow> bool) \<Rightarrow> string \<Rightarrow> string \<Rightarrow> field_errors \<Rightarrow> field_errors" where
  "Email parse_ok value fld errs =
     (if value = [] then errs
      else if \<not> parse_ok value then add_field_error fld ''Invalid email address'' errs
      else errs)"

section \<open>Number formatting (service/errors.go)\<close>

text \<open>The loop of intToString writes the decimal digits from the right.\<close>

function digits_loop :: "int \<Rightarrow> string \<Rightarrow> string" where
  "digits_loop n buf =
     (if n > 0 then digits_loop (n div 10) (char_of (48 + nat (n mod 10)) # buf) else buf)"
  by pat_completeness auto
termination
  by (relation "measure (\<lambda>(n, buf). nat n)") auto

declare digits_loop.simps [simp del]

definition intToString :: "int \<Rightarrow> string" where
  "intToString n =
     (if n = 0 then ''0''
      else let neg = n < 0; n' = (if neg then wrap64 (- n) else n); buf = digits_loop n' []
           in if neg then CHR ''-'' # buf else buf)"

definition padTwo :: "int \<Rightarrow> string" where
  "padTwo n = (if n < 10 then ''0'' @ intToString n else intToString n)"

definition formatBytes :: "int \<Rightarrow> string" where
  "formatBytes n =
     (let KiB = 1024; MiB = 1024 * KiB in
      if n \<ge> MiB \<and> n mod MiB = 0 then intToString (n div MiB) @ ''.00 MiB''
      else if n \<ge> MiB then
        (let whole = n div MiB; frac = (n mod MiB) * 100 div MiB
         in intToString whole @ ''.'' @ padTwo frac @ '' MiB'')
      else if n \<ge> KiB \<and> n mod KiB = 0 then intToString (n div KiB) @ '' KiB''
      else if n \<ge> KiB then
        (let whole = n div KiB; frac = (n mod KiB) * 100 div KiB
         in intToString whole @ ''.'' @ padTwo frac @ '' KiB'')
      else intToString n @ '' B'')"

definition joinStrings :: "string list \<Rightarrow> string \<Rightarrow> string" where
  "joinStrings parts sep =
     (case parts of [] \<Rightarrow> [] | p # ps \<Rightarrow> foldl (\<lambda>out q. out @ sep @ q) p ps)"

text \<open>joinStrings is strings.Join.\<close>

lemma joinStrings_eq: "joinStrings parts sep = strings_join parts sep"
proof -
  have "foldl (\<lambda>out q. out @ sep @ q) p ps = p @ concat (map ((@) sep) ps)" for p ps
    by (induction ps arbitrary: p) auto
  then show ?thesis by (cases parts) (auto simp: joinStrings_def)
qed

subsection \<open>Reading the digits back\<close>

definition digit_value :: "char \<Rightarrow> int" where
  "digit_value c = int (of_char c) - 48"

definition read_digits :: "string \<Rightarrow> int" where
  "read_digits s = foldl (\<lambda>acc c. 10 * acc + digit_value c) 0 s"

fun read_int :: "string \<Rightarrow> int" where
  "read_int [] = 0"
| "read_int (c # cs) = (if c = CHR ''-'' then - read_digits cs else read_digits (c # cs))"

lemma digit_value_char_of: "0 \<le> d \<Longrightarrow> d < 10 \<Longrightarrow> digit_value (char_of (48 + nat d)) = d"
  by (simp add: digit_value_def)

lemma digit_not_minus: "0 \<le> d \<Longrightarrow> d < 10 \<Longrightarrow> char_of (48 + nat d) \<noteq> CHR ''-''"
proof
  assume "0 \<le> d" "d < 10" "char_of (48 + nat d) = CHR ''-''"
  then have "digit_value (CHR ''-'') = d" using digit_value_char_of by metis
  with \<open>0 \<le> d\<close> show False by (simp add: digit_value_def)
qed

lemma foldl_digits_shift:
  "foldl (\<lambda>acc c. 10 * acc + digit_value c) a s
   = a * 10 ^ length s + foldl (\<lambda>acc c. 10 * acc + digit_value c) 0 s"
proof (induction s arbitrary: a)
  case Nil
  then show ?case by simp
next
  case (Cons c s)
  from Cons [of "10 * a + digit_value c"] Cons [of "digit_value c"]
  show ?case by (simp add: algebra_simps)
qed

lemma read_digits_Cons:
  "read_digits (c # s) = digit_value c * 10 ^ length s + read_digits s"
  using foldl_digits_shift [of "digit_value c" s] by (simp add: read_digits_def)

lemma read_digits_loop: "0 \<le> n \<Longrightarrow> read_digits (digits_loop n buf) = n * 10 ^ length buf + read_digits buf"
proof (induction n buf rule: digits_loop.induct)
  case (1 n buf)
  show ?case
  proof (cases "n > 0")
    case True
    have "read_digits (digits_loop n buf)
        = n div 10 * 10 ^ Suc (length buf) + (n mod 10 * 10 ^ length buf + read_digits buf)"
      using 1 True
      by (subst digits_loop.simps) (simp add: read_digits_Cons digit_value_char_of)
    also have "\<dots> = (10 * (n div 10) + n mod 10) * 10 ^ length buf + read_digits buf"
      by (simp only: power_Suc) (simp only: algebra_simps)
    finally show ?thesis by simp
  next
    case False
    with 1(2) show ?thesis by (simp add: digits_loop.simps)
  qed
qed

lemma digits_loop_hd:
  "0 < n \<Longrightarrow> \<exists>d s. 0 \<le> d \<and> d < 10 \<and> digits_loop n buf = char_of (48 + nat d) # s"
proof (induction n buf rule: digits_loop.induct)
  case (1 n buf)
  show ?case
  proof (cases "n div 10 > 0")
    case True
    with 1 show ?thesis by (subst digits_loop.simps) simp
  next
    case False
    with 1(2) show ?thesis
      by (subst digits_loop.simps, subst digits_loop.simps)
        (auto intro!: exI [of _ "n mod 10"])
  qed
qed

lemma length_digits_loop:
  "n < 10 ^ k \<Longrightarrow> length (digits_loop n buf) \<le> k + length buf"
proof (induction k arbitrary: n buf)
  case 0
  then show ?case by (subst digits_loop.simps) simp
next
  case (Suc k)
  have "n div 10 < 10 ^ k" using Suc.prems by simp
  from Suc.IH [OF this, of "char_of (48 + nat (n mod 10)) # buf"]
  show ?case by (subst digits_loop.simps) auto
qed

section \<open>Service errors (service/errors.go)\<close>

record service_error =
  err_status :: int
  err_code :: string
  err_message :: string
  err_details :: field_errors

definition validationError :: "field_errors \<Rightarrow> service_error" where
  "validationError errs = \<lparr>err_status = 400, err_code = ''VALIDATION_ERROR'',
     err_message = ''Validation failed'', err_details = errs\<rparr>"

definition validationSingle :: "string \<Rightarrow> string \<Rightarrow> service_error" where
  "validationSingle fld message = \<lparr>err_status = 400, err_code = ''VALIDATION_ERROR'',
     err_message = message, err_details = [\<lparr>fe_field = fld, fe_message = message\<rparr>]\<rparr>"

definition unauthorized :: "string \<Rightarrow> service_error" where
  "unauthorized message = \<lparr>err_status = 401, err_code = ''UNAUTHORIZED'',
     err_message = message, err_details = []\<rparr>"

definition notFound :: "string \<Rightarrow> service_error" where
  "notFound message = \<lparr>err_status = 404, err_code = ''NOT_FOUND'',
     err_message = message, err_details = []\<rparr>"

definition forbidden :: "string \<Rightarrow> service_error" where
  "forbidden message = \<lparr>err_status = 403, err_code = ''FORBIDDEN'',
     err_message = message, err_details = []\<rparr>"

definition crossTenantBlocked :: service_error where
  "crossTenantBlocked = \<lparr>err_status = 404, err_code = ''CROSS_TENANT_BLOCKED'',
     err_message = ''resource not found in caller's project'', err_details = []\<rparr>"

definition missingProjectHeader :: service_error where
  "missingProjectHeader = \<lparr>err_status = 400, err_code = ''MISSING_PROJECT_HEADER'',
     err_message = ''X-Project-ID header is required for this request'', err_details = []\<rparr>"

definition conflict :: "string \<Rightarrow> service_error" where
  "conflict message = \<lparr>err_status = 409, err_code = ''CONFLICT'',
     err_message = message, err_details = []\<rparr>"

definition internalError :: "string \<Rightarrow> service_error" where
  "internalError message = \<lparr>err_status = 500, err_code = ''INTERNAL_ERROR'',
     err_message = message, err_details = []\<rparr>"

definition unprocessableEntity :: "string \<Rightarrow> string \<Rightarrow> service_error" where
  "unprocessableEntity code message = \<lparr>err_status = 422, err_code = code,
     err_message = message, err_details = []\<rparr>"

definition capabilityMismatch :: "string list \<Rightarrow> service_error" where
  "capabilityMismatch missing = \<lparr>err_status = 409, err_code = ''CAPABILITY_MISMATCH'',
     err_message = ''agent does not hold all required capabilities'',
     err_details = [\<lparr>fe_field = ''required_capabilities'',
       fe_message = ''missing capabilities: '' @ joinStrings missing '', ''\<rparr>]\<rparr>"

definition payloadTooLarge :: "string \<Rightarrow> int \<Rightarrow> service_error" where
  "payloadTooLarge message maxBytes = \<lparr>err_status = 413, err_code = ''PAYLOAD_TOO_LARGE'',
     err_message = message,
     err_details = [\<lparr>fe_field = ''content'',
       fe_message = ''exceeds maximum allowed size of '' @ formatBytes maxBytes @ '' bytes''\<rparr>]\<rparr>"

lemmas error_defs =
  validationError_def validationSingle_def unauthorized_def notFound_def forbidden_def
  crossTenantBlocked_def missingProjectHeader_def conflict_def internalError_def
  unprocessableEntity_def capabilityMismatch_def payloadTooLarge_def

text \<open>The codes a client sees, one equation per constructor.\<close>

lemma err_codes [simp]:
  "err_code (validationError errs) = ''VALIDATION_ERROR''"
  "err_code (validationSingle f m) = ''VALIDATION_ERROR''"
  "err_code (unauthorized m) = ''UNAUTHORIZED''"
  "err_code (notFound m) = ''NOT_FOUND''"
  "err_code (forbidden m) = ''FORBIDDEN''"
  "err_code crossTenantBlocked = ''CROSS_TENANT_BLOCKED''"
  "err_code missingProjectHeader = ''MISSING_PROJECT_HEADER''"
  "err_code (conflict m) = ''CONFLICT''"
  "err_code (internalError m) = ''INTERNAL_ERROR''"
  "err_code (unprocessableEntity c m) = c"
  "err_code (capabilityMismatch ms) = ''CAPABILITY_MISMATCH''"
  "err_code (payloadTooLarge m b) = ''PAYLOAD_TOO_LARGE''"
  by (simp_all add: error_defs)

section \<open>Properties\<close>

text \<open>
  C40: intToString prints every 64-bit integer so that it reads back, except the least one:
  there the negation wraps to itself, the loop writes no digit and the result is a lone minus
  sign. The buffer of 20 bytes is never overrun.
\<close>

theorem intToString_roundtrip:
  assumes "is_int64 n" "n \<noteq> min_int64"
  shows "read_int (intToString n) = n \<and> length (intToString n) \<le> 20"
proof (cases "n = 0")
  case True
  then show ?thesis by (simp add: intToString_def read_digits_def digit_value_def)
next
  case False
  define m where "m = \<bar>n\<bar>"
  have m: "0 < m" "m < 10 ^ 19" using assms False by (auto simp: m_def is_int64_def)
  have neg: "wrap64 (- n) = - n" using assms by (simp add: is_int64_def)
  have "length (digits_loop m []) \<le> 19"
    using length_digits_loop [OF m(2), of "[]"] by simp
  moreover have "read_digits (digits_loop m []) = m"
    using read_digits_loop [of m "[]"] m by (simp add: read_digits_def)
  moreover obtain d s where "0 \<le> d" "d < 10" "digits_loop m [] = char_of (48 + nat d) # s"
    using digits_loop_hd [OF m(1)] by blast
  ultimately show ?thesis
    using False neg digit_not_minus
    by (cases "n < 0") (auto simp: intToString_def Let_def m_def abs_if)
qed

theorem intToString_roundtrip_witness:
  "read_int (intToString (- 4096)) = - 4096 \<and> length (intToString (- 4096)) \<le> 20"
  using intToString_roundtrip [of "- 4096"] by (simp add: is_int64_def)

lemma intToString_min: "intToString min_int64 = ''-''"
proof -
  have "wrap64 (- min_int64) = min_int64" by (simp add: wrap64_def)
  then show ?thesis by (simp add: intToString_def Let_def digits_loop.simps)
qed

end
