(* ===== verification/Aion.thy ===== *)
theory Aion
  imports Model Errors
begin

text \<open>
  The worker runtime of src/src/internal/aion: the contract types and WorkerSpec.Validate
  (runtime.go), the scripted MockRuntime as a state machine (mock.go), and how ProcessRuntime
  turns the output of a child process into a result (process.go).
\<close>

section \<open>Contract types (aion/runtime.go)\<close>

datatype aion_error =
    ErrWorkerNotFound | ErrWorkerTimeout | ErrRuntimeClosed | ErrInvalidSpec string

datatype worker_status =
  WorkerPending | WorkerRunning | WorkerCompleted | WorkerFailed | WorkerCancelled
| WorkerOther string

fun IsTerminal :: "worker_status \<Rightarrow> bool" where
  "IsTerminal WorkerCompleted = True"
| "IsTerminal WorkerFailed = True"
| "IsTerminal WorkerCancelled = True"
| "IsTerminal _ = False"

fun worker_status_str :: "worker_status \<Rightarrow> string" where
  "worker_status_str WorkerPending = ''pending''"
| "worker_status_str WorkerRunning = ''running''"
| "worker_status_str WorkerCompleted = ''completed''"
| "worker_status_str WorkerFailed = ''failed''"
| "worker_status_str WorkerCancelled = ''cancelled''"
| "worker_status_str (WorkerOther s) = s"

record worker_spec =
  ws_execution :: uuid
  ws_task :: uuid
  ws_agent :: uuid
  ws_project :: uuid
  ws_model :: string
  ws_provider :: string
  ws_permission :: string
  ws_input :: string
  ws_attempt :: int

definition spec_Validate :: "worker_spec \<Rightarrow> aion_error + unit" where
  "spec_Validate s =
     (if ws_execution s = uuid_nil then Inl (ErrInvalidSpec ''execution_id required'')
      else if ws_task s = uuid_nil then Inl (ErrInvalidSpec ''task_id required'')
      else if ws_agent s = uuid_nil then Inl (ErrInvalidSpec ''agent_id required'')
      else if ws_project s = uuid_nil then Inl (ErrInvalidSpec ''project_id required'')
      else if ws_model s = '''' then Inl (ErrInvalidSpec ''model required'')
      else if ws_provider s = '''' then Inl (ErrInvalidSpec ''provider required'')
      else if ws_permission s = '''' then Inl (ErrInvalidSpec ''permission_mode required'')
      else if ws_attempt s < 1 then Inl (ErrInvalidSpec ''attempt must be >= 1'')
      else Inr ())"

type_synonym worker_handle = string

record worker_result =
  wr_handle :: worker_handle
  wr_execution :: uuid
  wr_status :: worker_status
  wr_result :: string
  wr_error :: string
  wr_started :: go_time
  wr_completed :: go_time

text \<open>The zero value, which Wait returns beside an error.\<close>

definition zero_result :: worker_result where
  "zero_result = \<lparr>wr_handle = '''', wr_execution = uuid_nil, wr_status = WorkerOther '''',
     wr_result = '''', wr_error = '''', wr_started = zero_time, wr_completed = zero_time\<rparr>"

record message =
  msg_type :: string
  msg_execution :: uuid
  msg_body :: string
  msg_error :: string
  msg_at :: go_time

definition NewMessage :: "go_time \<Rightarrow> string \<Rightarrow> uuid \<Rightarrow> string \<Rightarrow> string \<Rightarrow> message" where
  "NewMessage now typ ex body err =
     \<lparr>msg_type = typ, msg_execution = ex, msg_body = body, msg_error = err, msg_at = now\<rparr>"

lemma spec_Validate_Inr:
  "spec_Validate s = Inr () \<longleftrightarrow>
     ws_execution s \<noteq> uuid_nil \<and> ws_task s \<noteq> uuid_nil \<and> ws_agent s \<noteq> uuid_nil
     \<and> ws_project s \<noteq> uuid_nil \<and> ws_model s \<noteq> '''' \<and> ws_provider s \<noteq> ''''
     \<and> ws_permission s \<noteq> '''' \<and> 1 \<le> ws_attempt s"
  by (simp add: spec_Validate_def)

section \<open>The scripted runtime (aion/mock.go)\<close>

record fake_script =
  fs_delay :: int
  fs_outcome :: worker_status
  fs_result :: string
  fs_error :: string

definition zero_script :: fake_script where
  "zero_script = \<lparr>fs_delay = 0, fs_outcome = WorkerOther '''', fs_result = '''', fs_error = ''''\<rparr>"

text \<open>
  \<open>mw_result\<close> is the content of the result channel, which holds one element;
  \<open>mw_cancelled\<close> says that the cancel channel is closed.
\<close>

record mock_worker =
  mw_spec :: worker_spec
  mw_script :: fake_script
  mw_result :: "worker_result option"
  mw_cancelled :: bool
  mw_done :: bool

record mock_runtime =
  mk_workers :: "worker_handle \<rightharpoonup> mock_worker"
  mk_closed :: bool
  mk_scripts :: "string \<rightharpoonup> fake_script"
  mk_default :: fake_script
  mk_counter :: "64 word"

definition NewMockRuntime :: mock_runtime where
  "NewMockRuntime = \<lparr>mk_workers = Map.empty, mk_closed = False, mk_scripts = Map.empty,
     mk_default = zero_script, mk_counter = 0\<rparr>"

definition RegisterScript :: "string \<Rightarrow> fake_script \<Rightarrow> mock_runtime \<Rightarrow> mock_runtime" where
  "RegisterScript key script r = r\<lparr>mk_scripts := (mk_scripts r)(key \<mapsto> script)\<rparr>"

definition SetDefaultScript :: "fake_script \<Rightarrow> mock_runtime \<Rightarrow> mock_runtime" where
  "SetDefaultScript script r = r\<lparr>mk_default := script\<rparr>"

text \<open>\<open>ustr\<close> stands for uuid.UUID.String().\<close>

definition scriptFor :: "(uuid \<Rightarrow> string) \<Rightarrow> worker_spec \<Rightarrow> mock_runtime \<Rightarrow> fake_script" where
  "scriptFor ustr spec r =
     (case mk_scripts r (ustr (ws_execution spec)) of
        Some script \<Rightarrow> script | None \<Rightarrow> mk_default r)"

definition mock_handle :: "(uuid \<Rightarrow> string) \<Rightarrow> 64 word \<Rightarrow> uuid \<Rightarrow> worker_handle" where
  "mock_handle ustr n ex = ''mock-'' @ intToString (uint n) @ ''-'' @ ustr ex"

definition mock_Spawn ::
  "(uuid \<Rightarrow> string) \<Rightarrow> worker_spec \<Rightarrow> mock_runtime
   \<Rightarrow> (aion_error + worker_handle) \<times> mock_runtime" where
  "mock_Spawn ustr spec r =
     (if mk_closed r then (Inl ErrRuntimeClosed, r)
      else case spec_Validate spec of
             Inl e \<Rightarrow> (Inl e, r)
           | Inr _ \<Rightarrow>
               let n = mk_counter r + 1;
                   handle = mock_handle ustr n (ws_execution spec);
                   w = \<lparr>mw_spec = spec, mw_script = scriptFor ustr spec r, mw_result = None,
                         mw_cancelled = False, mw_done = False\<rparr>
               in (Inr handle, r\<lparr>mk_counter := n, mk_workers := (mk_workers r)(handle \<mapsto> w)\<rparr>))"

text \<open>Delivered once: the flag guards the send on the one-element channel.\<close>

definition pushResult :: "worker_result \<Rightarrow> mock_worker \<Rightarrow> mock_worker" where
  "pushResult res w =
     (if mw_done w then w else w\<lparr>mw_done := True, mw_result := Some res\<rparr>)"

definition mock_terminal_result ::
  "go_time \<Rightarrow> go_time \<Rightarrow> worker_handle \<Rightarrow> mock_worker \<Rightarrow> worker_result" where
  "mock_terminal_result startedAt now handle w =
     (let script = mw_script w;
          outcome = (if fs_outcome script = WorkerOther '''' then WorkerCompleted else fs_outcome script);
          result = \<lparr>wr_handle = handle, wr_execution = ws_execution (mw_spec w), wr_status = outcome,
                     wr_result = fs_result script, wr_error = fs_error script,
                     wr_started = startedAt, wr_completed = now\<rparr>
      in if \<not> IsTerminal outcome
         then result\<lparr>wr_status := WorkerFailed,
                wr_error := ''mock: script specified non-terminal outcome \"''
                  @ worker_status_str outcome @ ''\"; coerced to failed''\<rparr>
         else result)"

definition cancel_result ::
  "go_time \<Rightarrow> go_time \<Rightarrow> worker_handle \<Rightarrow> string \<Rightarrow> mock_worker \<Rightarrow> worker_result" where
  "cancel_result startedAt now handle why w =
     \<lparr>wr_handle = handle, wr_execution = ws_execution (mw_spec w), wr_status = WorkerCancelled,
      wr_result = '''', wr_error = why, wr_started = startedAt, wr_completed = now\<rparr>"

text \<open>
  The end of the goroutine of a worker: which of its events it sees. With no delay it does not
  look at the channels; otherwise any ready case of the select may be taken.
\<close>

datatype run_event = TimerFired | CancelSeen | CloseSeen

definition mock_run_end ::
  "run_event \<Rightarrow> go_time \<Rightarrow> go_time \<Rightarrow> worker_handle \<Rightarrow> mock_runtime \<Rightarrow> mock_worker
   \<Rightarrow> mock_worker option" where
  "mock_run_end e startedAt now handle r w =
     (if fs_delay (mw_script w) \<le> 0
      then Some (pushResult (mock_terminal_result startedAt now handle w) w)
      else case e of
             TimerFired \<Rightarrow> Some (pushResult (mock_terminal_result startedAt now handle w) w)
           | CancelSeen \<Rightarrow>
               if mw_cancelled w
               then Some (pushResult (cancel_result startedAt now handle ''cancelled by runtime'' w) w)
               else None
           | CloseSeen \<Rightarrow>
               if mk_closed r
               then Some (pushResult (cancel_result startedAt now handle ''runtime closed'' w) w)
               else None)"

definition mock_Cancel ::
  "go_time \<Rightarrow> worker_handle \<Rightarrow> mock_runtime \<Rightarrow> aion_error + mock_runtime" where
  "mock_Cancel now handle r =
     (case mk_workers r handle of
        None \<Rightarrow> Inl ErrWorkerNotFound
      | Some w \<Rightarrow>
          Inr (r\<lparr>mk_workers := (mk_workers r)(handle \<mapsto>
                 pushResult (cancel_result now now handle ''cancelled by runtime'' w)
                   (w\<lparr>mw_cancelled := True\<rparr>))\<rparr>))"

text \<open>
  Wait in two steps: the checks at its start, and a return of its select. \<open>None\<close> means
  that the case is not ready, so that Wait still blocks; a wrapped context error is
  \<open>ErrWorkerTimeout\<close>.
\<close>

datatype wait_event = ResultReady | ContextDone | RuntimeClosed

definition mock_Wait_enter :: "worker_handle \<Rightarrow> mock_runtime \<Rightarrow> aion_error + mock_worker" where
  "mock_Wait_enter handle r =
     (if mk_closed r then Inl ErrRuntimeClosed
      else case mk_workers r handle of None \<Rightarrow> Inl ErrWorkerNotFound | Some w \<Rightarrow> Inr w)"

definition take_result ::
  "worker_handle \<Rightarrow> mock_runtime \<Rightarrow> (worker_result \<times> mock_runtime) option" where
  "take_result handle r =
     (case mk_workers r handle of
        None \<Rightarrow> None
      | Some w \<Rightarrow>
          (case mw_result w of
             None \<Rightarrow> None
           | Some res \<Rightarrow>
               Some (res, r\<lparr>mk_workers := (mk_workers r)(handle \<mapsto> w\<lparr>mw_result := None\<rparr>)\<rparr>)))"

definition mock_Wait_select ::
  "wait_event \<Rightarrow> worker_handle \<Rightarrow> mock_runtime
   \<Rightarrow> ((aion_error + worker_result) \<times> mock_runtime) option" where
  "mock_Wait_select e handle r =
     (case e of
        ResultReady \<Rightarrow> map_option (\<lambda>(res, r'). (Inr res, r')) (take_result handle r)
      | ContextDone \<Rightarrow> Some (Inl ErrWorkerTimeout, r)
      | RuntimeClosed \<Rightarrow>
          if mk_closed r
          then Some (case take_result handle r of
                       Some (res, r') \<Rightarrow> (Inr res, r') | None \<Rightarrow> (Inl ErrRuntimeClosed, r))
          else None)"

definition mock_Close :: "mock_runtime \<Rightarrow> mock_runtime" where
  "mock_Close r =
     (if mk_closed r then r
      else r\<lparr>mk_closed := True,
             mk_workers := (\<lambda>h. map_option (\<lambda>w. w\<lparr>mw_cancelled := True\<rparr>) (mk_workers r h))\<rparr>)"

definition mock_Forget :: "worker_handle \<Rightarrow> mock_runtime \<Rightarrow> mock_runtime" where
  "mock_Forget handle r = r\<lparr>mk_workers := (mk_workers r)(handle := None)\<rparr>"

section \<open>The child process (aion/process.go)\<close>

record process_config =
  pc_binary :: string
  pc_extra :: "string list"
  pc_wait_timeout :: int
  pc_env :: "string list"
  pc_stdout_buffer :: int
  pc_stderr_buffer :: int

definition config_defaults :: "process_config \<Rightarrow> process_config" where
  "config_defaults c =
     (let c1 = (if pc_binary c = '''' then c\<lparr>pc_binary := ''aion''\<rparr> else c);
          c2 = (if pc_wait_timeout c1 = 0 then c1\<lparr>pc_wait_timeout := 30 * 60 * 1000000000\<rparr> else c1);
          c3 = (if pc_stdout_buffer c2 = 0 then c2\<lparr>pc_stdout_buffer := 64 * 1024\<rparr> else c2)
      in if pc_stderr_buffer c3 = 0 then c3\<lparr>pc_stderr_buffer := 64 * 1024\<rparr> else c3)"

definition spawn_args ::
  "(uuid \<Rightarrow> string) \<Rightarrow> process_config \<Rightarrow> worker_spec \<Rightarrow> string list" where
  "spawn_args ustr cfg spec =
     pc_extra cfg @
       [''--execution-id='' @ ustr (ws_execution spec),
        ''--task-id='' @ ustr (ws_task spec),
        ''--agent-id='' @ ustr (ws_agent spec),
        ''--project-id='' @ ustr (ws_project spec),
        ''--model='' @ ws_model spec,
        ''--provider='' @ ws_provider spec,
        ''--permission-mode='' @ ws_permission spec,
        ''--attempt='' @ intToString (ws_attempt spec)]"

text \<open>
  bufio.Scanner with a buffer of \<open>bufSize\<close> bytes on the lines of the output (without their
  line feeds): it gives up at the first line that does not fit the buffer with its line feed, and
  drops one trailing carriage return of each line.
\<close>

definition drop_cr :: "string \<Rightarrow> string" where
  "drop_cr l = (if l \<noteq> [] \<and> last l = CHR 0x0D then butlast l else l)"

definition scan_lines :: "int \<Rightarrow> string list \<Rightarrow> string list" where
  "scan_lines bufSize ls = map drop_cr (takeWhile (\<lambda>l. int (length l) < bufSize) ls)"

text \<open>The loop of pumpStdout: the last line that parses. \<open>parse\<close> stands for json.Unmarshal
  into a Message; an empty line is skipped.\<close>

fun last_frame :: "(string \<Rightarrow> message option) \<Rightarrow> string list \<Rightarrow> message option \<Rightarrow> message option" where
  "last_frame parse [] acc = acc"
| "last_frame parse (l # ls) acc =
     (if l = [] then last_frame parse ls acc
      else case parse l of
             None \<Rightarrow> last_frame parse ls acc
           | Some msg \<Rightarrow> last_frame parse ls (Some msg))"

definition frame_result ::
  "go_time \<Rightarrow> worker_handle \<Rightarrow> worker_spec \<Rightarrow> message option \<Rightarrow> worker_result" where
  "frame_result completedAt handle spec lastMsg =
     (let base = \<lparr>wr_handle = handle, wr_execution = ws_execution spec, wr_status = WorkerFailed,
                   wr_result = '''', wr_error = '''', wr_started = completedAt,
                   wr_completed = completedAt\<rparr>
      in case lastMsg of
           None \<Rightarrow> base\<lparr>wr_error := ''aion worker produced no output before exit''\<rparr>
         | Some msg \<Rightarrow>
             if msg_type msg = ''result''
             then base\<lparr>wr_status := WorkerCompleted, wr_result := msg_body msg, wr_started := msg_at msg\<rparr>
             else if msg_type msg = ''error''
             then base\<lparr>wr_error := msg_error msg, wr_started := msg_at msg\<rparr>
             else if msg_type msg = ''cancelled''
             then base\<lparr>wr_status := WorkerCancelled, wr_started := msg_at msg\<rparr>
             else base\<lparr>wr_started := msg_at msg,
                    wr_error := ''aion worker exited after non-terminal frame \"'' @ msg_type msg @ ''\"''\<rparr>)"

definition pumpStdout ::
  "(string \<Rightarrow> message option) \<Rightarrow> int \<Rightarrow> go_time \<Rightarrow> worker_handle \<Rightarrow> worker_spec \<Rightarrow> string list
   \<Rightarrow> worker_result" where
  "pumpStdout parse bufSize completedAt handle spec out =
     frame_result completedAt handle spec (last_frame parse (scan_lines bufSize out) None)"

end
