(* ===== verification/Execution_Service.thy ===== *)
theory Execution_Service
  imports Store_Keyset Store_Agents Aion
begin

text \<open>
  The execution lifecycle of src/src/internal/service/execution.go: create and spawn, read, list,
  the guarded status change, the reviewer and operator actions, and the two background jobs (the
  driver of a runtime worker, the mock). A service function takes the store and gives back its
  result with the new store; what it gets from outside (clock, fresh ids, the answer of the
  runtime) is an argument. One call reads the clock once here.
\<close>

section \<open>Errors and the state machine\<close>

text \<open>The sentinels; \<open>ErrInternal\<close> is any error without one, with its text.\<close>

datatype exec_error =
    ErrExecutionNotFound | ErrInvalidStateTransition | ErrTaskNotFound | ErrAgentNotFound
  | ErrCrossTenantBlocked | ErrInternal string

fun validExecutionTransitions :: "execution_status \<Rightarrow> execution_status list option" where
  "validExecutionTransitions ExQueued = Some [ExAssigned, ExFailed]"
| "validExecutionTransitions ExAssigned = Some [ExRunning, ExFailed, ExQueued]"
| "validExecutionTransitions ExRunning = Some [ExReview, ExFailed]"
| "validExecutionTransitions ExReview = Some [ExCompleted, ExFailed]"
| "validExecutionTransitions ExCompleted = Some []"
| "validExecutionTransitions ExFailed = Some []"
| "validExecutionTransitions (ExOther _) = None"

definition isValidExecutionTransition :: "execution_status \<Rightarrow> execution_status \<Rightarrow> bool" where
  "isValidExecutionTransition src dst =
     (if src = dst then True
      else case validExecutionTransitions src of
             None \<Rightarrow> False | Some allowed \<Rightarrow> dst \<in> set allowed)"

definition ex_terminal :: "execution_status \<Rightarrow> bool" where
  "ex_terminal s \<longleftrightarrow> s = ExCompleted \<or> s = ExFailed"

lemma transition_terminal:
  "isValidExecutionTransition s s' \<Longrightarrow> ex_terminal s \<Longrightarrow> s' = s"
  by (auto simp: isValidExecutionTransition_def ex_terminal_def split: if_splits)

lemma transition_completed:
  "isValidExecutionTransition s ExCompleted \<Longrightarrow> s = ExReview \<or> s = ExCompleted"
  by (cases s) (auto simp: isValidExecutionTransition_def split: if_splits)

lemma transition_valid:
  "isValidExecutionTransition s s' \<Longrightarrow> IsValidExecutionStatus s \<Longrightarrow> IsValidExecutionStatus s'"
  by (cases s) (auto simp: isValidExecutionTransition_def split: if_splits)

section \<open>Reading\<close>

definition GetExecution :: "uuid \<Rightarrow> uuid \<Rightarrow> mem_store \<Rightarrow> exec_error + execution" where
  "GetExecution k caller m =
     (case Execution_GetByID k m of
        Inl ErrNotFound \<Rightarrow> Inl ErrExecutionNotFound
      | Inl _ \<Rightarrow> Inl (ErrInternal ''get execution'')
      | Inr e \<Rightarrow>
          (case Task_GetByID (ex_task e) m of
             Inl _ \<Rightarrow> Inl ErrCrossTenantBlocked
           | Inr t \<Rightarrow> if t_project t \<noteq> caller then Inl ErrCrossTenantBlocked else Inr e))"

definition ListExecutions ::
  "execution_filter \<Rightarrow> uuid \<Rightarrow> uuid list \<Rightarrow> mem_store \<Rightarrow> exec_error + execution_page" where
  "ListExecutions f caller ks m =
     (let task_check =
            (if ef_task f \<noteq> uuid_nil
             then (case Task_GetByID (ef_task f) m of
                     Inl _ \<Rightarrow> False | Inr t \<Rightarrow> t_project t = caller)
             else True);
          agent_check =
            (if ef_agent f \<noteq> uuid_nil
             then (case Agent_GetByID (ef_agent f) m of
                     Inl _ \<Rightarrow> False | Inr a \<Rightarrow> ag_project a = caller)
             else True)
      in if \<not> task_check then Inl ErrCrossTenantBlocked
         else if \<not> agent_check then Inl ErrCrossTenantBlocked
         else Inr (Execution_List f ks m))"

section \<open>Changing the status\<close>

text \<open>
  The change reads the row and checks it, then writes, without a lock over the two: \<open>check\<close> and
  \<open>commit\<close> are the two halves, between which other requests can run.
\<close>

datatype update_check = Refused exec_error | Unchanged execution | Proceed

definition UpdateExecutionStatus_check ::
  "uuid \<Rightarrow> execution_status \<Rightarrow> uuid \<Rightarrow> mem_store \<Rightarrow> update_check" where
  "UpdateExecutionStatus_check k newStatus caller m =
     (case GetExecution k caller m of
        Inl e \<Rightarrow> Refused e
      | Inr current \<Rightarrow>
          if ex_status current = newStatus then Unchanged current
          else if \<not> isValidExecutionTransition (ex_status current) newStatus
            then Refused ErrInvalidStateTransition
          else Proceed)"

definition UpdateExecutionStatus_commit ::
  "go_time \<Rightarrow> uuid \<Rightarrow> execution_status \<Rightarrow> string option \<Rightarrow> mem_store
   \<Rightarrow> (exec_error + execution) \<times> mem_store" where
  "UpdateExecutionStatus_commit now k newStatus errorMessage m =
     (case Execution_UpdateStatus now k newStatus errorMessage m of
        Inl ErrNotFound \<Rightarrow> (Inl ErrExecutionNotFound, m)
      | Inl _ \<Rightarrow> (Inl (ErrInternal ''update execution status''), m)
      | Inr (e, m') \<Rightarrow> (Inr e, m'))"

definition UpdateExecutionStatus ::
  "go_time \<Rightarrow> uuid \<Rightarrow> execution_status \<Rightarrow> string option \<Rightarrow> uuid \<Rightarrow> mem_store
   \<Rightarrow> (exec_error + execution) \<times> mem_store" where
  "UpdateExecutionStatus now k newStatus errorMessage caller m =
     (case UpdateExecutionStatus_check k newStatus caller m of
        Refused e \<Rightarrow> (Inl e, m)
      | Unchanged current \<Rightarrow> (Inr current, m)
      | Proceed \<Rightarrow> UpdateExecutionStatus_commit now k newStatus errorMessage m)"

definition TransitionTo ::
  "go_time \<Rightarrow> uuid \<Rightarrow> execution_status \<Rightarrow> string option \<Rightarrow> uuid \<Rightarrow> mem_store
   \<Rightarrow> (exec_error + execution) \<times> mem_store" where
  "TransitionTo = UpdateExecutionStatus"

section \<open>Reviewer and operator\<close>

record review_action =
  ra_id :: uuid
  ra_from :: execution_status
  ra_to :: execution_status
  ra_at :: go_time

definition ReviewExecution ::
  "go_time \<Rightarrow> uuid \<Rightarrow> bool \<Rightarrow> string \<Rightarrow> uuid \<Rightarrow> mem_store
   \<Rightarrow> (exec_error + review_action) \<times> mem_store" where
  "ReviewExecution now k accepted reason caller m =
     (case GetExecution k caller m of
        Inl e \<Rightarrow> (Inl e, m)
      | Inr current \<Rightarrow>
          let src = ex_status current
          in if src \<noteq> ExReview then (Inl ErrInvalidStateTransition, m)
             else if \<not> accepted \<and> reason = ''''
               then (Inl (ErrInternal ''rejection reason is required when accepted=false''), m)
             else
               let target = (if accepted then ExCompleted else ExFailed);
                   errMsg = (if accepted then None else Some reason)
               in case UpdateExecutionStatus now k target errMsg caller m of
                    (Inl e, m') \<Rightarrow> (Inl e, m')
                  | (Inr updated, m') \<Rightarrow>
                      (Inr \<lparr>ra_id = ex_id updated, ra_from = src, ra_to = ex_status updated,
                             ra_at = now\<rparr>, m'))"

definition CancelExecution ::
  "go_time \<Rightarrow> uuid \<Rightarrow> uuid \<Rightarrow> mem_store \<Rightarrow> (exec_error + unit) \<times> mem_store" where
  "CancelExecution now k caller m =
     (case GetExecution k caller m of
        Inl e \<Rightarrow> (Inl e, m)
      | Inr current \<Rightarrow>
          if ex_status current = ExCompleted \<or> ex_status current = ExFailed
          then (Inl ErrInvalidStateTransition, m)
          else case UpdateExecutionStatus now k ExFailed (Some ''cancelled by operator'') caller m of
                 (Inl e, m') \<Rightarrow> (Inl e, m')
               | (Inr _, m') \<Rightarrow> (Inr (), m'))"

section \<open>Creating\<close>

text \<open>
  \<open>decode\<close> stands for json.Unmarshal of the agent's runtime blob: the text of its field "model"
  and that of "runtime.model", when it parses.
\<close>

definition modelOrDefault :: "(string \<Rightarrow> (string \<times> string option) option) \<Rightarrow> string \<Rightarrow> string" where
  "modelOrDefault decode raw =
     (if raw = '''' then ''sonnet''
      else case decode raw of
             None \<Rightarrow> ''sonnet''
           | Some (mdl, rt) \<Rightarrow>
               if mdl \<noteq> '''' then mdl
               else (case rt of Some mdl' \<Rightarrow> if mdl' \<noteq> '''' then mdl' else ''sonnet'' | None \<Rightarrow> ''sonnet''))"

text \<open>The goroutine a call starts.\<close>

datatype job =
    DriveJob (job_worker: uuid) (job_handle: worker_handle) (job_exec: uuid) (job_project: uuid)
  | MockJob (job_exec: uuid)

text \<open>
  What a call gets from outside: the instant, the ids of the execution, the instance and the
  worker, and the runtime as the function that answers its Spawn, None when none is wired.
\<close>

record create_env =
  ce_now :: go_time
  ce_exec :: uuid
  ce_instance :: uuid
  ce_worker :: uuid
  ce_decode :: "string \<Rightarrow> (string \<times> string option) option"
  ce_spawn :: "(worker_spec \<Rightarrow> string + worker_handle) option"

definition new_execution :: "create_env \<Rightarrow> uuid \<Rightarrow> uuid \<Rightarrow> execution" where
  "new_execution env taskID agentID =
     \<lparr>ex_id = ce_exec env, ex_task = taskID, ex_agent = agentID, ex_status = ExAssigned,
      ex_started = ce_now env, ex_completed = None, ex_error = None, ex_instance = None,
      ex_created = ce_now env, ex_updated = ce_now env\<rparr>"

text \<open>The part of CreateExecution after the row is stored, with a runtime.\<close>

definition start_worker ::
  "create_env \<Rightarrow> (worker_spec \<Rightarrow> string + worker_handle) \<Rightarrow> uuid \<Rightarrow> uuid \<Rightarrow> uuid \<Rightarrow> execution
   \<Rightarrow> mem_store \<Rightarrow> (exec_error + execution) \<times> job option \<times> mem_store" where
  "start_worker env spawn taskID agentID caller exec m =
     (case Agent_GetByID agentID m of
        Inl _ \<Rightarrow> (Inl (ErrInternal ''get agent for runtime spawn''), None, m)
      | Inr agent \<Rightarrow>
          let spec = \<lparr>ws_execution = ex_id exec, ws_task = taskID, ws_agent = agentID,
                ws_project = caller, ws_model = modelOrDefault (ce_decode env) (ag_runtime agent),
                ws_provider = ''anthropic'', ws_permission = ''default'', ws_input = '''',
                ws_attempt = 1\<rparr>
          in case spawn spec of
               Inl err \<Rightarrow> (Inl (ErrInternal (''aion runtime spawn: '' @ err)), None, m)
             | Inr handle \<Rightarrow>
                 let exec1 = exec\<lparr>ex_instance := Some (ce_instance env)\<rparr>;
                     m1 = m\<lparr>ms_executions := (ms_executions m)(ex_id exec \<mapsto> exec1)\<rparr>
                 in case Execution_UpdateStatus (ce_now env) (ex_id exec) (ex_status exec1)
                           (ex_error exec1) m1 of
                      Inl _ \<Rightarrow> (Inl (ErrInternal ''update execution aion instance id''), None, m1)
                    | Inr (exec2, m2) \<Rightarrow>
                        let worker = \<lparr>w_id = ce_worker env, w_execution = ex_id exec,
                              w_agent = agentID, w_project = caller, w_handle = handle,
                              w_pid = None, w_status = MWPending, w_attempt = 1,
                              w_started = Some (ce_now env), w_completed = None, w_result = '''',
                              w_error = '''', w_instance = Some (ce_instance env)\<rparr>
                        in case Worker_Create (ce_worker env) (ce_now env) worker m2 of
                             Some (Inr (_, m3)) \<Rightarrow>
                               (Inr exec2,
                                Some (DriveJob (ce_worker env) handle (ex_id exec) caller), m3)
                           | _ \<Rightarrow> (Inl (ErrInternal ''create worker row''), None, m2))"

definition CreateExecution ::
  "create_env \<Rightarrow> uuid \<Rightarrow> uuid \<Rightarrow> uuid \<Rightarrow> mem_store
   \<Rightarrow> (exec_error + execution) \<times> job option \<times> mem_store" where
  "CreateExecution env taskID agentID caller m =
     (case Task_GetByID taskID m of
        Inl ErrNotFound \<Rightarrow> (Inl ErrTaskNotFound, None, m)
      | Inl _ \<Rightarrow> (Inl (ErrInternal ''lookup task''), None, m)
      | Inr task \<Rightarrow>
          if t_project task \<noteq> caller then (Inl ErrCrossTenantBlocked, None, m)
          else case Agent_GetByID agentID m of
                 Inl ErrNotFound \<Rightarrow> (Inl ErrAgentNotFound, None, m)
               | Inl _ \<Rightarrow> (Inl (ErrInternal ''lookup agent''), None, m)
               | Inr agent \<Rightarrow>
                   if ag_project agent \<noteq> caller then (Inl ErrCrossTenantBlocked, None, m)
                   else if t_project task \<noteq> ag_project agent
                     then (Inl ErrCrossTenantBlocked, None, m)
                   else
                     let exec = new_execution env taskID agentID
                     in case Execution_Create exec m of
                          Inl _ \<Rightarrow> (Inl (ErrInternal ''create execution''), None, m)
                        | Inr m1 \<Rightarrow>
                            (case ce_spawn env of
                               Some spawn \<Rightarrow> start_worker env spawn taskID agentID caller exec m1
                             | None \<Rightarrow> (Inr exec, Some (MockJob (ex_id exec)), m1)))"

section \<open>Background jobs\<close>

text \<open>The mock: stopped at shutdown, else a failure with its message or the hand-over to
  review. It writes through the store, past the state machine.\<close>

definition transitionFromMock ::
  "go_time \<Rightarrow> uuid \<Rightarrow> execution_status \<Rightarrow> string option \<Rightarrow> mem_store \<Rightarrow> mem_store" where
  "transitionFromMock now k st errMsg m =
     (case Execution_UpdateStatus now k st errMsg m of Inl _ \<Rightarrow> m | Inr (_, m') \<Rightarrow> m')"

definition mockExecution :: "go_time \<Rightarrow> bool \<Rightarrow> string option \<Rightarrow> uuid \<Rightarrow> mem_store \<Rightarrow> mem_store" where
  "mockExecution now stopped failure k m =
     (if stopped then m
      else case failure of
             Some errMsg \<Rightarrow> transitionFromMock now k ExFailed (Some errMsg) m
           | None \<Rightarrow> transitionFromMock now k ExReview None m)"

fun workerStatusFromExecutionStatus :: "execution_status \<Rightarrow> model_worker_status" where
  "workerStatusFromExecutionStatus ExCompleted = MWCompleted"
| "workerStatusFromExecutionStatus ExReview = MWCompleted"
| "workerStatusFromExecutionStatus ExFailed = MWFailed"
| "workerStatusFromExecutionStatus _ = MWFailed"

definition update_worker :: "uuid \<Rightarrow> (worker \<Rightarrow> worker) \<Rightarrow> mem_store \<Rightarrow> mem_store" where
  "update_worker k f m =
     (case Worker_GetByID k m of
        Inl _ \<Rightarrow> m
      | Inr w \<Rightarrow> (case Worker_Update (f w) m of Inl _ \<Rightarrow> m | Inr m' \<Rightarrow> m'))"

text \<open>Before the wait: the worker row is set to running.\<close>

definition driveWorker_begin :: "uuid \<Rightarrow> mem_store \<Rightarrow> mem_store" where
  "driveWorker_begin workerID m = update_worker workerID (\<lambda>w. w\<lparr>w_status := MWRunning\<rparr>) m"

text \<open>The translation of the answer of Wait, an error text or a result.\<close>

definition drive_target :: "string + worker_result \<Rightarrow> execution_status \<times> string option" where
  "drive_target wait =
     (case wait of
        Inl err \<Rightarrow> (ExFailed, Some (''runtime wait: '' @ err))
      | Inr result \<Rightarrow>
          if wr_status result = WorkerCompleted then (ExReview, None)
          else if wr_status result = WorkerFailed
            then (ExFailed, if wr_error result \<noteq> '''' then Some (wr_error result) else None)
          else if wr_status result = WorkerCancelled
            then (ExFailed, Some (''worker cancelled: '' @ wr_error result))
          else (ExFailed, Some (''worker returned unknown status: ''
                  @ worker_status_str (wr_status result))))"

definition driveWorker_finish ::
  "go_time \<Rightarrow> uuid \<Rightarrow> uuid \<Rightarrow> uuid \<Rightarrow> string + worker_result \<Rightarrow> mem_store \<Rightarrow> mem_store" where
  "driveWorker_finish now workerID execID caller wait m =
     (let (target, errMsg) = drive_target wait;
          result = (case wait of Inl _ \<Rightarrow> zero_result | Inr r \<Rightarrow> r);
          m1 = update_worker workerID
                 (\<lambda>w. let w1 = w\<lparr>w_status := workerStatusFromExecutionStatus target,
                                 w_completed := Some now\<rparr>;
                          w2 = (case errMsg of None \<Rightarrow> w1 | Some msg \<Rightarrow> w1\<lparr>w_error := msg\<rparr>)
                      in if wr_status result = WorkerCompleted \<and> wr_result result \<noteq> ''''
                         then w2\<lparr>w_result := wr_result result\<rparr> else w2) m
      in snd (TransitionTo now execID target errMsg caller m1))"

end
