(* ===== verification/Execution_Lifecycle.thy ===== *)
theory Execution_Lifecycle
  imports Execution_Service
begin

text \<open>
  What the execution service keeps: every operation is one write of a closed relation on the
  table of executions, except for the mock job of a service without a runtime, which writes past
  the state machine. The runs keep the jobs that calls have started. From this the lifecycle
  properties follow, and the tenant isolation of the guarded operations.
\<close>

section \<open>The writes of the service\<close>

inductive exec_write :: "(uuid \<rightharpoonup> execution) \<Rightarrow> (uuid \<rightharpoonup> execution) \<Rightarrow> bool" where
  write_none: "exec_write T T"
| write_status: "T k = Some e \<Longrightarrow> ex_status e \<noteq> st \<Longrightarrow> isValidExecutionTransition (ex_status e) st
    \<Longrightarrow> exec_write T (T(k \<mapsto> set_status now st msg e))"
| write_new: "T (ex_id e) = None \<Longrightarrow> ex_status e = ExAssigned \<Longrightarrow> ex_completed e = None
    \<Longrightarrow> exec_write T (T(ex_id e \<mapsto> e))"

inductive_cases exec_writeE: "exec_write T T'"

lemma set_status_simps [simp]:
  "ex_id (set_status now st msg e) = ex_id e"
  "ex_task (set_status now st msg e) = ex_task e"
  "ex_agent (set_status now st msg e) = ex_agent e"
  "ex_status (set_status now st msg e) = st"
  "ex_started (set_status now st msg e) = ex_started e"
  "ex_created (set_status now st msg e) = ex_created e"
  "ex_instance (set_status now st msg e) = ex_instance e"
  "ex_updated (set_status now st msg e) = now"
  "ex_completed (set_status now st msg e) = (if ex_terminal st then Some now else ex_completed e)"
  by (simp_all add: set_status_def Let_def ex_terminal_def)

text \<open>What one write does to a row that exists.\<close>

lemma exec_write_row:
  assumes "exec_write T T'" "T k = Some e"
  shows "T' k = Some e \<or> (\<exists>now st msg. T' k = Some (set_status now st msg e)
    \<and> ex_status e \<noteq> st \<and> isValidExecutionTransition (ex_status e) st)"
  using assms(1)
proof cases
  case write_none
  with assms(2) show ?thesis by simp
next
  case (write_status j x st now msg)
  with assms(2) show ?thesis by (cases "j = k") auto
next
  case (write_new x)
  with assms(2) show ?thesis by (cases "ex_id x = k") auto
qed

lemma exec_write_terminal:
  "exec_write T T' \<Longrightarrow> T k = Some e \<Longrightarrow> ex_terminal (ex_status e) \<Longrightarrow> T' k = Some e"
  by (drule (1) exec_write_row) (auto dest: transition_terminal)

lemma exec_write_fresh:
  assumes "exec_write T T'" "T k = None" "T' k = Some e"
  shows "ex_id e = k \<and> ex_status e = ExAssigned \<and> ex_completed e = None"
  using assms by (cases rule: exec_write.cases) (auto split: if_splits)

section \<open>The operations are such writes\<close>

lemma GetExecution_Inr:
  "GetExecution k caller m = Inr e \<longleftrightarrow>
     ms_executions m k = Some e \<and> (\<exists>t. ms_tasks m (ex_task e) = Some t \<and> t_project t = caller)"
  by (auto simp: GetExecution_def Execution_GetByID_def Task_GetByID_def split: option.splits)

lemma UpdateExecutionStatus_cases:
  obtains r where "UpdateExecutionStatus now k st msg caller m = (r, m)"
      "isl r \<or> (\<exists>e. r = Inr e \<and> GetExecution k caller m = Inr e \<and> ex_status e = st)"
  | e where "UpdateExecutionStatus now k st msg caller m
        = (Inr (set_status now st msg e),
           m\<lparr>ms_executions := (ms_executions m)(k \<mapsto> set_status now st msg e)\<rparr>)"
      "GetExecution k caller m = Inr e" "ex_status e \<noteq> st"
      "isValidExecutionTransition (ex_status e) st"
proof (cases "GetExecution k caller m")
  case (Inl x)
  then show ?thesis
    using that(1) by (simp add: UpdateExecutionStatus_def UpdateExecutionStatus_check_def)
next
  case (Inr e)
  show ?thesis
  proof (cases "ex_status e = st")
    case True
    with Inr that(1) [of "Inr e"] show ?thesis
      by (simp add: UpdateExecutionStatus_def UpdateExecutionStatus_check_def)
  next
    case st: False
    show ?thesis
    proof (cases "isValidExecutionTransition (ex_status e) st")
      case True
      have "ms_executions m k = Some e" using Inr by (simp add: GetExecution_Inr)
      with Inr st True that(2) show ?thesis
        by (simp add: UpdateExecutionStatus_def UpdateExecutionStatus_check_def
            UpdateExecutionStatus_commit_def Execution_UpdateStatus_def Let_def)
    next
      case False
      with Inr st that(1) [of "Inl ErrInvalidStateTransition"] show ?thesis
        by (simp add: UpdateExecutionStatus_def UpdateExecutionStatus_check_def)
    qed
  qed
qed

lemma exec_write_Update:
  "exec_write (ms_executions m) (ms_executions (snd (UpdateExecutionStatus now k st msg caller m)))"
  by (rule UpdateExecutionStatus_cases [of now k st msg caller m])
    (auto simp: GetExecution_Inr intro: exec_write.intros)

lemma snd_ReviewExecution:
  "snd (ReviewExecution now k accepted reason caller m) = m
   \<or> (\<exists>st msg. snd (ReviewExecution now k accepted reason caller m)
                = snd (UpdateExecutionStatus now k st msg caller m))"
proof (cases "GetExecution k caller m")
  case (Inl x)
  then show ?thesis by (simp add: ReviewExecution_def)
next
  case (Inr e)
  let ?st = "if accepted then ExCompleted else ExFailed"
  let ?msg = "if accepted then None else Some reason"
  have "snd (ReviewExecution now k accepted reason caller m) = m
      \<or> snd (ReviewExecution now k accepted reason caller m)
        = snd (UpdateExecutionStatus now k ?st ?msg caller m)"
    using Inr
    by (cases "UpdateExecutionStatus now k ?st ?msg caller m")
      (simp add: ReviewExecution_def Let_def split: sum.split)
  then show ?thesis by blast
qed

lemma snd_CancelExecution:
  "snd (CancelExecution now k caller m) = m
   \<or> snd (CancelExecution now k caller m)
     = snd (UpdateExecutionStatus now k ExFailed (Some ''cancelled by operator'') caller m)"
  by (simp add: CancelExecution_def split: sum.split prod.split)

lemma update_worker_executions [simp]:
  "ms_executions (update_worker k f m) = ms_executions m"
  "ms_tasks (update_worker k f m) = ms_tasks m"
  by (simp_all add: update_worker_def Worker_Update_def split: sum.split)

lemma Worker_Create_executions:
  "Worker_Create fresh now w m = Some (Inr (w', m')) \<Longrightarrow> ms_executions m' = ms_executions m"
  by (auto simp: Worker_Create_def Let_def split: option.splits if_splits)

text \<open>With a runtime the new row is written once more, with the instance.\<close>

lemma start_worker_table:
  assumes row: "ms_executions m (ex_id exec) = Some exec" and st: "ex_status exec = ExAssigned"
    and co: "ex_completed exec = None"
  shows "\<exists>e. ms_executions (snd (snd (start_worker env spawn tid aid caller exec m)))
      = (ms_executions m)(ex_id exec \<mapsto> e)
    \<and> ex_id e = ex_id exec \<and> ex_status e = ExAssigned \<and> ex_completed e = None
    \<and> ex_task e = ex_task exec \<and> ex_agent e = ex_agent exec \<and> ex_started e = ex_started exec"
    (is "\<exists>e. ?T (start_worker env spawn tid aid caller exec m) e")
proof -
  let ?e1 = "exec\<lparr>ex_instance := Some (ce_instance env)\<rparr>"
  let ?e2 = "set_status (ce_now env) (ex_status exec) (ex_error exec) ?e1"
  have same: "(ms_executions m)(ex_id exec \<mapsto> exec) = ms_executions m" using row by auto
  show ?thesis
  proof (cases "Agent_GetByID aid m")
    case (Inl x)
    with same st co show ?thesis by (auto simp: start_worker_def intro!: exI [of _ exec])
  next
    case (Inr ag)
    define spec where "spec = \<lparr>ws_execution = ex_id exec, ws_task = tid, ws_agent = aid,
      ws_project = caller, ws_model = modelOrDefault (ce_decode env) (ag_runtime ag),
      ws_provider = ''anthropic'', ws_permission = ''default'', ws_input = '''', ws_attempt = 1\<rparr>"
    show ?thesis
    proof (cases "spawn spec")
      case (Inl x)
      with \<open>Agent_GetByID aid m = Inr ag\<close> same st co show ?thesis
        by (auto simp: start_worker_def Let_def spec_def intro!: exI [of _ exec])
    next
      case (Inr h)
      define w where "w = \<lparr>w_id = ce_worker env, w_execution = ex_id exec, w_agent = aid,
        w_project = caller, w_handle = h, w_pid = None, w_status = MWPending, w_attempt = 1,
        w_started = Some (ce_now env), w_completed = None, w_result = '''', w_error = '''',
        w_instance = Some (ce_instance env)\<rparr>"
      define m2 where "m2 = m\<lparr>ms_executions := (ms_executions m)(ex_id exec \<mapsto> ?e2)\<rparr>"
      have "start_worker env spawn tid aid caller exec m =
          (case Worker_Create (ce_worker env) (ce_now env) w m2 of
             Some (Inr (_, m3)) \<Rightarrow>
               (Inr ?e2, Some (DriveJob (ce_worker env) h (ex_id exec) caller), m3)
           | _ \<Rightarrow> (Inl (ErrInternal ''create worker row''), None, m2))"
        using \<open>Agent_GetByID aid m = Inr ag\<close> Inr
        by (simp add: start_worker_def Let_def spec_def w_def m2_def Execution_UpdateStatus_def
            split: option.split sum.split)
      moreover have "ms_executions m3 = ms_executions m2"
        if "Worker_Create (ce_worker env) (ce_now env) w m2 = Some (Inr (x, m3))" for x m3
        using that by (rule Worker_Create_executions)
      ultimately have "ms_executions (snd (snd (start_worker env spawn tid aid caller exec m)))
          = ms_executions m2"
        by (auto split: option.split sum.split)
      then show ?thesis using st co
        by (auto simp: m2_def ex_terminal_def intro!: exI [of _ ?e2])
    qed
  qed
qed

lemma new_execution_id [simp]: "ex_id (new_execution env tid aid) = ce_exec env"
  by (simp add: new_execution_def)

lemma CreateExecution_cases:
  obtains (refused) err where "CreateExecution env tid aid caller m = (Inl err, None, m)"
  | (created) t a m1 where "ms_tasks m tid = Some t" "t_project t = caller"
      "ms_agents m aid = Some a" "ag_project a = caller"
      "Execution_Create (new_execution env tid aid) m = Inr m1"
      "CreateExecution env tid aid caller m =
         (case ce_spawn env of
            Some spawn \<Rightarrow> start_worker env spawn tid aid caller (new_execution env tid aid) m1
          | None \<Rightarrow> (Inr (new_execution env tid aid), Some (MockJob (ce_exec env)), m1))"
proof (cases "ms_tasks m tid")
  case None
  then show ?thesis by (intro refused) (simp add: CreateExecution_def Task_GetByID_def)
next
  case t: (Some t)
  show ?thesis
  proof (cases "ms_agents m aid")
    case None
    show ?thesis
      by (cases "t_project t = caller"; rule refused)
        (simp_all add: CreateExecution_def Task_GetByID_def Agent_GetByID_def t None)
  next
    case a: (Some a)
    show ?thesis
    proof (cases "t_project t = caller \<and> ag_project a = caller")
      case False
      show ?thesis
        by (cases "t_project t = caller"; rule refused)
          (use False in \<open>simp_all add: CreateExecution_def Task_GetByID_def Agent_GetByID_def t a\<close>)
    next
      case p: True
      show ?thesis
      proof (cases "Execution_Create (new_execution env tid aid) m")
        case (Inl x)
        with p t a show ?thesis
          by (intro refused) (simp add: CreateExecution_def Task_GetByID_def Agent_GetByID_def Let_def)
      next
        case (Inr m1)
        with p t a show ?thesis
          by (intro created [of t a m1])
            (simp_all add: CreateExecution_def Task_GetByID_def Agent_GetByID_def Let_def
              split: option.split)
      qed
    qed
  qed
qed

text \<open>The table after a create: one new row, assigned and not complete.\<close>

lemma CreateExecution_table:
  assumes "ms_executions m (ce_exec env) = None" "ms_tasks m tid = Some t" "t_project t = caller"
    "ms_agents m aid = Some a" "ag_project a = caller"
  shows "\<exists>e. ms_executions (snd (snd (CreateExecution env tid aid caller m)))
      = (ms_executions m)(ce_exec env \<mapsto> e)
    \<and> ex_id e = ce_exec env \<and> ex_status e = ExAssigned \<and> ex_completed e = None
    \<and> ex_task e = tid \<and> ex_agent e = aid \<and> ex_started e = ce_now env"
proof -
  let ?e = "new_execution env tid aid" and ?r = "CreateExecution env tid aid caller m"
  have e: "ex_status ?e = ExAssigned" "ex_completed ?e = None" "ex_id ?e = ce_exec env"
    "ex_task ?e = tid" "ex_agent ?e = aid" "ex_started ?e = ce_now env"
    by (simp_all add: new_execution_def)
  define m1 where "m1 = m\<lparr>ms_executions := (ms_executions m)(ce_exec env \<mapsto> ?e)\<rparr>"
  have c: "Execution_Create ?e m = Inr m1" using assms(1) e by (simp add: Execution_Create_def m1_def)
  have r: "?r = (case ce_spawn env of
      Some spawn \<Rightarrow> start_worker env spawn tid aid caller ?e m1
    | None \<Rightarrow> (Inr ?e, Some (MockJob (ce_exec env)), m1))"
    using c assms e(3)
    by (simp add: CreateExecution_def Task_GetByID_def Agent_GetByID_def Let_def split: option.split)
  show ?thesis
  proof (cases "ce_spawn env")
    case None
    with r e show ?thesis by (auto simp: m1_def)
  next
    case (Some spawn)
    have "ms_executions m1 (ex_id ?e) = Some ?e" using e by (simp add: m1_def)
    from start_worker_table [OF this e(1,2), of env spawn tid aid caller] Some r e show ?thesis
      by (simp add: m1_def)
  qed
qed

lemma exec_write_Create:
  "exec_write (ms_executions m)
     (ms_executions (snd (snd (CreateExecution env tid aid caller m))))"
proof (cases env tid aid caller m rule: CreateExecution_cases)
  case (refused err)
  then show ?thesis by (simp add: write_none)
next
  case (created t a m1)
  have "ms_executions m (ce_exec env) = None"
    using created(5) by (auto simp: Execution_Create_def new_execution_def split: if_splits)
  from CreateExecution_table [OF this created(1-4)] this show ?thesis by (metis write_new)
qed

section \<open>Runs of the service\<close>

text \<open>
  The store and the goroutines that calls have started. A service has a runtime or has none for all
  of its calls; \<open>with_runtime\<close> says that a call is one of a service that has.
\<close>

record exec_sys =
  sy_store :: mem_store
  sy_jobs :: "job list"

definition idle_sys :: "mem_store \<Rightarrow> exec_sys" where
  "idle_sys m = \<lparr>sy_store = m, sy_jobs = []\<rparr>"

datatype exec_op =
    OpCreate create_env uuid uuid uuid
  | OpPatch go_time uuid execution_status "string option" uuid
  | OpReview go_time uuid bool string uuid
  | OpCancel go_time uuid uuid
  | OpDriveBegin uuid
  | OpDriveEnd go_time uuid uuid uuid "string + worker_result"
  | OpMock go_time bool "string option" uuid

fun with_runtime :: "exec_op \<Rightarrow> bool" where
  "with_runtime (OpCreate env _ _ _) = (ce_spawn env \<noteq> None)"
| "with_runtime _ = True"

text \<open>
  A create adds the job it starts. A driver may come with any arguments; the mock runs only as a job
  that is there.
\<close>

fun exec_apply :: "exec_op \<Rightarrow> exec_sys \<Rightarrow> exec_sys" where
  "exec_apply (OpCreate env tid aid caller) s =
     (case CreateExecution env tid aid caller (sy_store s) of
        (_, job, m) \<Rightarrow> \<lparr>sy_store = m, sy_jobs = (case job of None \<Rightarrow> [] | Some j \<Rightarrow> [j]) @ sy_jobs s\<rparr>)"
| "exec_apply (OpPatch now k st msg caller) s =
     s\<lparr>sy_store := snd (UpdateExecutionStatus now k st msg caller (sy_store s))\<rparr>"
| "exec_apply (OpReview now k acc reason caller) s =
     s\<lparr>sy_store := snd (ReviewExecution now k acc reason caller (sy_store s))\<rparr>"
| "exec_apply (OpCancel now k caller) s = s\<lparr>sy_store := snd (CancelExecution now k caller (sy_store s))\<rparr>"
| "exec_apply (OpDriveBegin wid) s = s\<lparr>sy_store := driveWorker_begin wid (sy_store s)\<rparr>"
| "exec_apply (OpDriveEnd now wid eid caller wait) s =
     s\<lparr>sy_store := driveWorker_finish now wid eid caller wait (sy_store s)\<rparr>"
| "exec_apply (OpMock now stopped failure k) s =
     (if MockJob k \<in> set (sy_jobs s)
      then \<lparr>sy_store = mockExecution now stopped failure k (sy_store s),
            sy_jobs = remove1 (MockJob k) (sy_jobs s)\<rparr>
      else s)"

definition exec_run :: "exec_op list \<Rightarrow> exec_sys \<Rightarrow> exec_sys" where
  "exec_run ops s = fold exec_apply ops s"

definition run_store :: "exec_op list \<Rightarrow> mem_store \<Rightarrow> mem_store" where
  "run_store ops m = sy_store (exec_run ops (idle_sys m))"

abbreviation rows :: "exec_sys \<Rightarrow> uuid \<rightharpoonup> execution" where
  "rows s \<equiv> ms_executions (sy_store s)"

lemma exec_write_Finish:
  "exec_write (ms_executions m) (ms_executions (driveWorker_finish now wid eid caller wait m))"
proof -
  obtain st msg where "drive_target wait = (st, msg)" by (cases "drive_target wait")
  then obtain m1 where "ms_executions m1 = ms_executions m"
    "driveWorker_finish now wid eid caller wait m = snd (UpdateExecutionStatus now eid st msg caller m1)"
    by (simp add: driveWorker_finish_def Let_def TransitionTo_def) (metis update_worker_executions(1))
  then show ?thesis using exec_write_Update [of m1] by simp
qed

lemma exec_write_Review:
  "exec_write (ms_executions m) (ms_executions (snd (ReviewExecution now k acc reason caller m)))"
  using snd_ReviewExecution [of now k acc reason caller m] exec_write_Update [of m]
  by (auto simp: write_none)

lemma exec_write_Cancel:
  "exec_write (ms_executions m) (ms_executions (snd (CancelExecution now k caller m)))"
  using snd_CancelExecution [of now k caller m] exec_write_Update [of m] by (auto simp: write_none)

text \<open>The write of the mock takes no regard to the status the row has.\<close>

definition mock_write :: "uuid \<Rightarrow> (uuid \<rightharpoonup> execution) \<Rightarrow> (uuid \<rightharpoonup> execution) \<Rightarrow> bool" where
  "mock_write k T T' \<longleftrightarrow> T' = T \<or> (\<exists>e now st msg. T k = Some e \<and> st \<in> {ExReview, ExFailed}
     \<and> T' = T(k \<mapsto> set_status now st msg e))"

lemma mock_write_mock: "mock_write k (ms_executions m) (ms_executions (mockExecution now stopped failure k m))"
  by (auto simp: mock_write_def mockExecution_def transitionFromMock_def Execution_UpdateStatus_def Let_def
      split: option.splits)

lemma CreateExecution_mock_job:
  assumes "CreateExecution env tid aid caller m = (r, Some (MockJob k), m')"
  shows "ce_spawn env = None" "ms_executions m k = None"
proof -
  have "ce_spawn env = None \<and> ms_executions m k = None"
  proof (cases env tid aid caller m rule: CreateExecution_cases)
    case (refused err)
    with assms show ?thesis by simp
  next
    case (created t a m1)
    have "ms_executions m (ce_exec env) = None"
      using created(5) by (auto simp: Execution_Create_def split: if_splits)
    moreover have "start_worker env spawn tid aid caller e m1 \<noteq> (r, Some (MockJob k), m')" for spawn e
      by (auto simp: start_worker_def Let_def split: sum.split option.split)
    ultimately show ?thesis using assms created(6) by (cases "ce_spawn env") auto
  qed
  then show "ce_spawn env = None" "ms_executions m k = None" by simp_all
qed

text \<open>What one operation does to the rows and to the mock jobs.\<close>

lemma exec_apply_cases:
  obtains (machine) "exec_write (rows s) (rows (exec_apply op s))"
      "\<And>k. MockJob k \<in> set (sy_jobs (exec_apply op s)) \<Longrightarrow>
         MockJob k \<in> set (sy_jobs s) \<or> rows s k = None \<and> \<not> with_runtime op"
  | (mock) k where "MockJob k \<in> set (sy_jobs s)" "mock_write k (rows s) (rows (exec_apply op s))"
      "set (sy_jobs (exec_apply op s)) \<subseteq> set (sy_jobs s)"
proof (cases op)
  case (OpCreate env tid aid caller)
  obtain r job m where c: "CreateExecution env tid aid caller (sy_store s) = (r, job, m)"
    by (cases "CreateExecution env tid aid caller (sy_store s)")
  then have "exec_write (rows s) (rows (exec_apply op s))"
    using exec_write_Create [of "sy_store s" env tid aid caller] by (simp add: OpCreate)
  moreover have "MockJob k \<in> set (sy_jobs s) \<or> rows s k = None \<and> \<not> with_runtime op"
    if "MockJob k \<in> set (sy_jobs (exec_apply op s))" for k
    using that c CreateExecution_mock_job [of env tid aid caller "sy_store s" r k m]
    by (auto simp: OpCreate split: option.splits)
  ultimately show thesis by (rule machine)
next
  case (OpMock now stopped failure k)
  then show thesis
    using mock [of k] machine mock_write_mock [of k "sy_store s" now stopped failure]
      set_remove1_subset [of "MockJob k" "sy_jobs s"]
    by (cases "MockJob k \<in> set (sy_jobs s)") (auto simp: write_none)
qed (use machine in \<open>simp_all add: exec_write_Update exec_write_Review exec_write_Cancel
    exec_write_Finish driveWorker_begin_def write_none\<close>)

lemma exec_run_Nil [simp]: "exec_run [] s = s"
  by (simp add: exec_run_def)

lemma exec_run_snoc: "exec_run (ops @ [op]) s = exec_apply op (exec_run ops s)"
  by (simp add: exec_run_def)

text \<open>With a runtime no mock ever starts.\<close>

lemma no_mock_jobs:
  "list_all with_runtime ops \<Longrightarrow> (\<And>k. MockJob k \<notin> set (sy_jobs s)) \<Longrightarrow> MockJob k \<notin> set (sy_jobs (exec_run ops s))"
proof (induction ops arbitrary: k rule: rev_induct)
  case (snoc op ops)
  then show ?case
    by (cases "exec_run ops s" op rule: exec_apply_cases) (auto simp: exec_run_snoc)
qed simp

lemma idle_sys_simps [simp]: "sy_store (idle_sys m) = m" "sy_jobs (idle_sys m) = []"
  by (simp_all add: idle_sys_def)

section \<open>Properties of the lifecycle\<close>

definition exec_rows_inv :: "(uuid \<rightharpoonup> execution) \<Rightarrow> bool" where
  "exec_rows_inv T \<longleftrightarrow>
     keyed_by ex_id T
     \<and> (\<forall>k e. T k = Some e \<longrightarrow>
          IsValidExecutionStatus (ex_status e)
          \<and> (ex_completed e \<noteq> None \<longleftrightarrow> ex_terminal (ex_status e)))"

lemma exec_write_inv:
  assumes "exec_write T T'" "exec_rows_inv T"
  shows "exec_rows_inv T'"
  using assms(1)
proof cases
  case write_none
  with assms(2) show ?thesis by simp
next
  case (write_status k e st now msg)
  have e: "ex_id e = k" "IsValidExecutionStatus (ex_status e)"
    "ex_completed e \<noteq> None \<longleftrightarrow> ex_terminal (ex_status e)"
    using assms(2) write_status(2) by (auto simp: exec_rows_inv_def dest: keyed_byD)
  have "\<not> ex_terminal (ex_status e)"
    using transition_terminal [OF write_status(4)] write_status(3) by auto
  with e have "ex_completed e = None" by simp
  with e transition_valid [OF write_status(4)] assms(2) show ?thesis
    by (auto simp: exec_rows_inv_def write_status(1) split: if_splits)
next
  case (write_new e)
  with assms(2) show ?thesis by (auto simp: exec_rows_inv_def ex_terminal_def split: if_splits)
qed

lemma exec_run_inv_from:
  assumes "list_all with_runtime ops" "\<And>k. MockJob k \<notin> set (sy_jobs s)" "exec_rows_inv (rows s)"
  shows "exec_rows_inv (rows (exec_run ops s))"
  using assms(1)
proof (induction ops rule: rev_induct)
  case (snoc op ops)
  then have "list_all with_runtime ops" by simp
  note none = no_mock_jobs [OF this assms(2)] and IH = snoc.IH [OF this]
  show ?case
    by (cases "exec_run ops s" op rule: exec_apply_cases)
      (use none IH in \<open>auto simp: exec_run_snoc intro: exec_write_inv\<close>)
qed (use assms(3) in simp)

lemma run_store_inv:
  "list_all with_runtime ops \<Longrightarrow> exec_rows_inv (ms_executions m) \<Longrightarrow> exec_rows_inv (ms_executions (run_store ops m))"
  unfolding run_store_def by (rule exec_run_inv_from) simp_all

text \<open>Without a runtime a row in review may have a completion instant from before.\<close>

definition exec_row_ok :: "execution \<Rightarrow> bool" where
  "exec_row_ok e \<longleftrightarrow> IsValidExecutionStatus (ex_status e)
     \<and> (ex_terminal (ex_status e) \<longrightarrow> ex_completed e \<noteq> None)
     \<and> (ex_completed e \<noteq> None \<longrightarrow> ex_terminal (ex_status e) \<or> ex_status e = ExReview)"

definition exec_rows_ok :: "(uuid \<rightharpoonup> execution) \<Rightarrow> bool" where
  "exec_rows_ok T \<longleftrightarrow> keyed_by ex_id T \<and> (\<forall>k e. T k = Some e \<longrightarrow> exec_row_ok e)"

lemma review_edges:
  "isValidExecutionTransition ExReview st \<Longrightarrow> st \<noteq> ExReview \<Longrightarrow> ex_terminal st"
  by (auto simp: isValidExecutionTransition_def ex_terminal_def)

lemma exec_row_ok_set:
  assumes "exec_row_ok e" "isValidExecutionTransition (ex_status e) st \<and> ex_status e \<noteq> st \<or> st \<in> {ExReview, ExFailed}"
  shows "exec_row_ok (set_status now st msg e)"
proof -
  have v: "IsValidExecutionStatus st"
    using assms transition_valid [of "ex_status e" st] by (auto simp: exec_row_ok_def)
  show ?thesis
  proof (cases "ex_terminal st \<or> st = ExReview")
    case False
    then have "isValidExecutionTransition (ex_status e) st" "ex_status e \<noteq> st"
      using assms(2) by (auto simp: ex_terminal_def)
    with False have "\<not> ex_terminal (ex_status e)" "ex_status e \<noteq> ExReview"
      using transition_terminal [of "ex_status e" st] review_edges [of st] by auto
    with assms(1) have "ex_completed e = None" by (auto simp: exec_row_ok_def)
    with v False show ?thesis by (simp add: exec_row_ok_def)
  qed (use v in \<open>auto simp: exec_row_ok_def ex_terminal_def\<close>)
qed

lemma exec_rows_ok_apply: "exec_rows_ok (rows s) \<Longrightarrow> exec_rows_ok (rows (exec_apply op s))"
proof (cases s op rule: exec_apply_cases)
  case machine
  assume ok: "exec_rows_ok (rows s)"
  from machine(1) show ?thesis
  proof cases
    case write_none
    with ok show ?thesis by simp
  next
    case (write_status k e st now msg)
    with ok have "exec_row_ok (set_status now st msg e)" "ex_id e = k"
      by (auto simp: exec_rows_ok_def dest: keyed_byD intro!: exec_row_ok_set)
    with ok show ?thesis by (auto simp: write_status(1) exec_rows_ok_def)
  next
    case (write_new e)
    with ok show ?thesis
      by (auto simp: exec_rows_ok_def exec_row_ok_def ex_terminal_def)
  qed
next
  case (mock k)
  assume ok: "exec_rows_ok (rows s)"
  show ?thesis
  proof (cases "rows (exec_apply op s) = rows s")
    case False
    with mock(2) obtain e now st msg where w: "rows s k = Some e" "st \<in> {ExReview, ExFailed}"
        "rows (exec_apply op s) = (rows s)(k \<mapsto> set_status now st msg e)"
      by (auto simp: mock_write_def)
    with ok have "exec_row_ok (set_status now st msg e)" "ex_id e = k"
      by (auto simp: exec_rows_ok_def dest: keyed_byD intro!: exec_row_ok_set)
    with ok show ?thesis by (auto simp: w(3) exec_rows_ok_def)
  qed (use ok in simp)
qed

text \<open>
  C3: in every state that the service reaches by whole operations, its background jobs included,
  from a store without executions, each execution has its own id, one of the six statuses, a
  completion instant if it is completed or failed, and none otherwise, except in review. In a
  service with a runtime that exception is none: then the instant is there exactly if the status is
  completed or failed.
\<close>

theorem execution_rows_invariant:
  assumes "ms_executions m = Map.empty" "ms_executions (run_store ops m) k = Some e"
  shows "ex_id e = k \<and> IsValidExecutionStatus (ex_status e)
    \<and> (ex_terminal (ex_status e) \<longrightarrow> ex_completed e \<noteq> None)
    \<and> (ex_completed e \<noteq> None \<longrightarrow> ex_terminal (ex_status e) \<or> ex_status e = ExReview)
    \<and> (list_all with_runtime ops \<longrightarrow> (ex_completed e \<noteq> None \<longleftrightarrow> ex_terminal (ex_status e)))"
proof -
  have "exec_rows_ok (rows (exec_run ops (idle_sys m)))"
    by (induction ops rule: rev_induct)
      (simp_all add: assms(1) exec_rows_ok_def [of Map.empty] exec_run_snoc exec_rows_ok_apply)
  then have "exec_row_ok e" "ex_id e = k"
    using assms(2) by (auto simp: exec_rows_ok_def run_store_def dest: keyed_byD)
  moreover have "ex_completed e \<noteq> None \<longleftrightarrow> ex_terminal (ex_status e)" if "list_all with_runtime ops"
  proof -
    have "exec_rows_inv (ms_executions (run_store ops m))"
      by (rule run_store_inv [OF that]) (simp add: assms(1) exec_rows_inv_def)
    with assms(2) show ?thesis by (simp add: exec_rows_inv_def)
  qed
  ultimately show ?thesis unfolding exec_row_ok_def by blast
qed

lemma terminal_kept:
  assumes "rows s k = Some e" "ex_terminal (ex_status e)" "MockJob k \<notin> set (sy_jobs s)"
  shows "rows (exec_run ops s) k = Some e \<and> MockJob k \<notin> set (sy_jobs (exec_run ops s))"
proof (induction ops rule: rev_induct)
  case (snoc op ops)
  show ?case
  proof (cases "exec_run ops s" op rule: exec_apply_cases)
    case machine
    with snoc exec_write_terminal [OF machine(1) _ assms(2)] machine(2) [of k] show ?thesis
      by (auto simp: exec_run_snoc)
  next
    case (mock j)
    with snoc have "j \<noteq> k" by auto
    with mock snoc show ?thesis by (auto simp: exec_run_snoc mock_write_def)
  qed
qed (use assms in simp)

text \<open>
  C1: once an execution is completed or failed, no sequence of whole operations, background jobs
  included, changes any field of its row, exactly if no mock job is under way for it; and in a
  service with a runtime none ever is.
\<close>

theorem terminal_rows_frozen:
  assumes "rows s k = Some e" "ex_terminal (ex_status e)"
  shows "((\<forall>ops. rows (exec_run ops s) k = Some e) \<longleftrightarrow> MockJob k \<notin> set (sy_jobs s))
    \<and> (\<forall>ops0 m. list_all with_runtime ops0 \<and> s = exec_run ops0 (idle_sys m)
         \<longrightarrow> (\<forall>ops. rows (exec_run ops s) k = Some e))"
proof -
  have "rows (exec_run [OpMock 0 False None k] s) k \<noteq> Some e" if "MockJob k \<in> set (sy_jobs s)"
  proof -
    have "rows (exec_run [OpMock 0 False None k] s) k = Some (set_status 0 ExReview None e)"
      using that assms(1)
      by (simp add: exec_run_def mockExecution_def transitionFromMock_def Execution_UpdateStatus_def Let_def)
    moreover have "ex_status e \<noteq> ExReview" using assms(2) by (auto simp: ex_terminal_def)
    then have "set_status 0 ExReview None e \<noteq> e" by (metis set_status_simps(4))
    ultimately show ?thesis by simp
  qed
  moreover have "MockJob k \<notin> set (sy_jobs s)" if "list_all with_runtime ops0" "s = exec_run ops0 (idle_sys m)" for ops0 m
    using no_mock_jobs [OF that(1), of "idle_sys m" k] that(2) by simp
  ultimately show ?thesis using terminal_kept [OF assms] by blast
qed

lemma completed_needs_review:
  assumes "exec_write T T'" "T' k = Some e'" "ex_status e' = ExCompleted"
    and "\<not> (\<exists>e. T k = Some e \<and> ex_status e = ExCompleted)"
  shows "\<exists>e. T k = Some e \<and> ex_status e = ExReview"
proof (cases "T k")
  case None
  with exec_write_fresh [OF assms(1)] assms(2,3) show ?thesis by simp
next
  case (Some e)
  with exec_write_row [OF assms(1) Some] assms(2-4) show ?thesis
    by (auto dest: transition_completed)
qed

lemma mock_not_completed:
  assumes "mock_write j T T'" "T' k = Some e'" "ex_status e' = ExCompleted"
  shows "\<exists>e. T k = Some e \<and> ex_status e = ExCompleted"
  using assms by (auto simp: mock_write_def split: if_splits)

text \<open>
  C2: a completed execution has been in review: when a sequence of whole operations ends with
  the execution completed and did not start so, the row was in review after some proper prefix.
\<close>

theorem completed_only_from_review:
  assumes "rows (exec_run ops s) k = Some e'" "ex_status e' = ExCompleted"
    and "\<forall>e. rows s k = Some e \<longrightarrow> ex_status e \<noteq> ExCompleted"
  shows "\<exists>pre op post e. ops = pre @ op # post
    \<and> rows (exec_run pre s) k = Some e \<and> ex_status e = ExReview"
  using assms(1,2)
proof (induction ops arbitrary: e' rule: rev_induct)
  case Nil
  with assms(3) show ?case by auto
next
  case (snoc op ops)
  let ?T = "rows (exec_run ops s)"
  show ?case
  proof (cases "\<exists>e. ?T k = Some e \<and> ex_status e = ExCompleted")
    case True
    with snoc.IH obtain pre op' post e where "ops = pre @ op' # post"
      "rows (exec_run pre s) k = Some e" "ex_status e = ExReview" by blast
    then show ?thesis by (intro exI [of _ pre] exI [of _ op'] exI [of _ "post @ [op]"]) auto
  next
    case False
    have "\<exists>e. ?T k = Some e \<and> ex_status e = ExReview"
    proof (cases "exec_run ops s" op rule: exec_apply_cases)
      case machine
      from completed_needs_review [OF machine(1) _ _ False] snoc.prems show ?thesis
        by (auto simp: exec_run_snoc)
    next
      case (mock j)
      from mock_not_completed [OF mock(2)] False snoc.prems show ?thesis by (auto simp: exec_run_snoc)
    qed
    then show ?thesis by (auto intro!: exI [of _ ops])
  qed
qed

section \<open>Sample runs\<close>

text \<open>A project 3 with task 1 and agent 6.\<close>

definition sample_world :: mem_store where
  "sample_world = NewMemoryStore
     \<lparr>ms_tasks := [1 \<mapsto> \<lparr>t_id = 1, t_project = 3, t_title = ''t'', t_description = '''',
        t_status = TaskBacklog, t_priority = PriorityMedium, t_assignee = 0,
        t_assignee_agent = '''', t_required = [], t_position = 0, t_created = 1, t_updated = 1\<rparr>],
      ms_agents := [6 \<mapsto> sample_agent 6 [''coding'']]\<rparr>"

definition sample_env :: create_env where
  "sample_env = \<lparr>ce_now = 5, ce_exec = 10, ce_instance = 11, ce_worker = 12,
     ce_decode = (\<lambda>_. None), ce_spawn = Some (\<lambda>_. Inr ''h'')\<rparr>"

lemmas exec_eval =
  run_store_def idle_sys_def exec_run_def CreateExecution_def start_worker_def UpdateExecutionStatus_def
  UpdateExecutionStatus_check_def UpdateExecutionStatus_commit_def GetExecution_def
  Execution_GetByID_def Execution_Create_def Execution_UpdateStatus_def Task_GetByID_def
  Agent_GetByID_def Worker_Create_def set_status_def isValidExecutionTransition_def
  sample_world_def sample_env_def sample_agent_def new_execution_def NewMemoryStore_def Let_def
  ex_terminal_def

lemma sample_completed:
  "\<exists>e. ms_executions (run_store
      [OpCreate sample_env 1 6 3, OpPatch 20 10 ExRunning None 3, OpPatch 21 10 ExReview None 3,
       OpReview 22 10 True '''' 3] sample_world) 10 = Some e
    \<and> ex_status e = ExCompleted \<and> ex_completed e = Some 22"
  by (simp add: exec_eval ReviewExecution_def)

text \<open>Frozen with a runtime; without one the pending mock takes a cancelled execution to review.\<close>

definition no_runtime_env :: create_env where
  "no_runtime_env = sample_env\<lparr>ce_spawn := None\<rparr>"

lemma sample_cancelled:
  "\<exists>e. rows (exec_run [OpCreate no_runtime_env 1 6 3, OpCancel 20 10 3] (idle_sys sample_world)) 10 = Some e
    \<and> ex_status e = ExFailed
    \<and> MockJob 10 \<in> set (sy_jobs (exec_run [OpCreate no_runtime_env 1 6 3, OpCancel 20 10 3] (idle_sys sample_world)))"
  by (simp add: exec_eval no_runtime_env_def CancelExecution_def)

theorem terminal_rows_frozen_witness:
  "(\<exists>e. rows (exec_run
        [OpCreate sample_env 1 6 3, OpPatch 20 10 ExRunning None 3, OpPatch 21 10 ExReview None 3,
         OpReview 22 10 True '''' 3] (idle_sys sample_world)) 10 = Some e
    \<and> rows (exec_run [OpCancel 30 10 3, OpPatch 31 10 ExQueued None 3] (exec_run
        [OpCreate sample_env 1 6 3, OpPatch 20 10 ExRunning None 3, OpPatch 21 10 ExReview None 3,
         OpReview 22 10 True '''' 3] (idle_sys sample_world))) 10 = Some e)
   \<and> (\<exists>ops. rows (exec_run ops
        (exec_run [OpCreate no_runtime_env 1 6 3, OpCancel 20 10 3] (idle_sys sample_world))) 10
      \<noteq> rows (exec_run [OpCreate no_runtime_env 1 6 3, OpCancel 20 10 3] (idle_sys sample_world)) 10)"
proof
  let ?ops = "[OpCreate sample_env 1 6 3, OpPatch 20 10 ExRunning None 3, OpPatch 21 10 ExReview None 3,
     OpReview 22 10 True '''' 3]"
  let ?s = "exec_run ?ops (idle_sys sample_world)"
  obtain e where e: "rows ?s 10 = Some e" "ex_status e = ExCompleted"
    using sample_completed by (auto simp: run_store_def)
  have t: "ex_terminal (ex_status e)" using e(2) by (simp add: ex_terminal_def)
  have "list_all with_runtime ?ops" by (simp add: sample_env_def)
  with terminal_rows_frozen [OF e(1) t] have "\<forall>ops. rows (exec_run ops ?s) 10 = Some e" by blast
  then show "\<exists>e. rows ?s 10 = Some e
      \<and> rows (exec_run [OpCancel 30 10 3, OpPatch 31 10 ExQueued None 3] ?s) 10 = Some e"
    using e(1) by blast
next
  let ?s = "exec_run [OpCreate no_runtime_env 1 6 3, OpCancel 20 10 3] (idle_sys sample_world)"
  obtain e where e: "rows ?s 10 = Some e" "ex_status e = ExFailed" "MockJob 10 \<in> set (sy_jobs ?s)"
    using sample_cancelled by blast
  have "ex_terminal (ex_status e)" using e(2) by (simp add: ex_terminal_def)
  from terminal_rows_frozen [OF e(1) this] e(1,3) show "\<exists>ops. rows (exec_run ops ?s) 10 \<noteq> rows ?s 10"
    by auto
qed

theorem execution_rows_invariant_witness:
  "(\<exists>e. ms_executions (run_store [OpCreate sample_env 1 6 3, OpPatch 20 10 ExRunning None 3,
        OpPatch 21 10 ExReview None 3, OpReview 22 10 True '''' 3] sample_world) 10 = Some e
      \<and> ex_completed e \<noteq> None \<and> ex_terminal (ex_status e))
   \<and> (\<exists>e. ms_executions (run_store [OpCreate no_runtime_env 1 6 3, OpCancel 20 10 3, OpMock 30 False None 10]
          sample_world) 10 = Some e
      \<and> ex_completed e \<noteq> None \<and> ex_status e = ExReview)"
proof
  have m: "ms_executions sample_world = Map.empty" by (simp add: sample_world_def NewMemoryStore_def)
  let ?ops = "[OpCreate sample_env 1 6 3, OpPatch 20 10 ExRunning None 3, OpPatch 21 10 ExReview None 3,
     OpReview 22 10 True '''' 3]"
  obtain e where e: "ms_executions (run_store ?ops sample_world) 10 = Some e" "ex_completed e = Some 22"
    using sample_completed by blast
  have "list_all with_runtime ?ops" by (simp add: sample_env_def)
  with execution_rows_invariant [OF m e(1)] e
  show "\<exists>e. ms_executions (run_store ?ops sample_world) 10 = Some e
      \<and> ex_completed e \<noteq> None \<and> ex_terminal (ex_status e)"
    by auto
  show "\<exists>e. ms_executions (run_store [OpCreate no_runtime_env 1 6 3, OpCancel 20 10 3, OpMock 30 False None 10]
          sample_world) 10 = Some e
      \<and> ex_completed e \<noteq> None \<and> ex_status e = ExReview"
    by (simp add: exec_eval no_runtime_env_def CancelExecution_def mockExecution_def transitionFromMock_def)
qed

theorem completed_only_from_review_witness:
  "\<exists>pre op post e. [OpCreate sample_env 1 6 3, OpPatch 20 10 ExRunning None 3,
        OpPatch 21 10 ExReview None 3, OpReview 22 10 True '''' 3] = pre @ op # post
    \<and> rows (exec_run pre (idle_sys sample_world)) 10 = Some e \<and> ex_status e = ExReview"
proof -
  obtain e where e: "rows (exec_run
      [OpCreate sample_env 1 6 3, OpPatch 20 10 ExRunning None 3, OpPatch 21 10 ExReview None 3,
       OpReview 22 10 True '''' 3] (idle_sys sample_world)) 10 = Some e" "ex_status e = ExCompleted"
    using sample_completed by (auto simp: run_store_def)
  have "\<forall>e. rows (idle_sys sample_world) 10 = Some e \<longrightarrow> ex_status e \<noteq> ExCompleted"
    by (simp add: sample_world_def NewMemoryStore_def)
  from completed_only_from_review [OF e this] show ?thesis .
qed

section \<open>Tenants\<close>

text \<open>The project of an execution is the project of its task.\<close>

definition visible :: "uuid \<Rightarrow> uuid \<Rightarrow> mem_store \<Rightarrow> bool" where
  "visible caller k m \<longleftrightarrow> (\<exists>e t. ms_executions m k = Some e \<and> ms_tasks m (ex_task e) = Some t
     \<and> t_project t = caller)"

lemma Update_invisible:
  "\<not> visible caller k m \<Longrightarrow>
     snd (UpdateExecutionStatus now k st msg caller m) = m \<and> isl (fst (UpdateExecutionStatus now k st msg caller m))"
  by (rule UpdateExecutionStatus_cases [of now k st msg caller m])
    (auto simp: visible_def GetExecution_Inr)

lemma GetExecution_invisible: "\<not> visible caller k m \<Longrightarrow> isl (GetExecution k caller m)"
  by (cases "GetExecution k caller m") (auto simp: visible_def GetExecution_Inr)

text \<open>
  C10: no request of one tenant reads or changes an execution of another: for an execution whose
  task is not in the caller's project, get, patch, review and cancel return an error and leave
  the whole store as it is.
\<close>

theorem tenant_isolation:
  assumes "\<not> visible caller k m"
  shows "isl (GetExecution k caller m)
    \<and> (\<forall>now st msg. isl (fst (UpdateExecutionStatus now k st msg caller m))
        \<and> snd (UpdateExecutionStatus now k st msg caller m) = m)
    \<and> (\<forall>now acc reason. isl (fst (ReviewExecution now k acc reason caller m))
        \<and> snd (ReviewExecution now k acc reason caller m) = m)
    \<and> (\<forall>now. isl (fst (CancelExecution now k caller m)) \<and> snd (CancelExecution now k caller m) = m)"
proof -
  obtain err where g: "GetExecution k caller m = Inl err"
    using GetExecution_invisible [OF assms] by (auto simp: isl_def)
  then show ?thesis
    using Update_invisible [OF assms] by (simp add: ReviewExecution_def CancelExecution_def)
qed

theorem tenant_isolation_witness:
  "\<not> visible 4 10 (run_store [OpCreate sample_env 1 6 3] sample_world)
   \<and> isl (GetExecution 10 4 (run_store [OpCreate sample_env 1 6 3] sample_world))"
proof -
  have "\<not> visible 4 10 (run_store [OpCreate sample_env 1 6 3] sample_world)"
    by (simp add: visible_def exec_eval)
  from this tenant_isolation [OF this] show ?thesis by blast
qed

text \<open>
  The list does not do that. Without a task and an agent filter it returns the page of all
  executions in the store, the same for every caller.
\<close>

theorem ListExecutions_unscoped:
  assumes "ef_task f = uuid_nil" "ef_agent f = uuid_nil"
  shows "ListExecutions f caller ks m = Inr (Execution_List f ks m)"
  using assms by (simp add: ListExecutions_def)

theorem ListExecutions_unscoped_witness:
  "ListExecutions \<lparr>ef_task = 0, ef_agent = 0, ef_status = ExOther '''', ef_cursor = 0, ef_limit = 0\<rparr>
      999 [1, 2] sample_store
   = Inr \<lparr>ep_items = [sample_execution 2 20, sample_execution 1 10], ep_next = 0\<rparr>"
  by (simp add: ListExecutions_unscoped Execution_List_def sample_store_def sample_execution_def
      exec_matches_def exec_before_def DefaultExecutionLimit_def MaxExecutionLimit_def Let_def)

end
