(* ===== verification/Execution_Races.thy ===== *)
theory Execution_Races
  imports Execution_Lifecycle
begin

text \<open>
  The runs of the execution service in which something happens between or beside its whole
  operations: two changes whose checks both run before their writes, the driver that reports the
  end of a worker, a spawn that fails, and the mock that writes through the store.
\<close>

section \<open>Two changes at once\<close>

text \<open>
  C9: check and write are not one step. From every execution in review, an accept and a reject
  of which both checks run first are both let through, and the second write moves the execution
  out of the terminal status completed.
\<close>

theorem interleaved_changes_leave_terminal:
  assumes "GetExecution k caller m = Inr e" "ex_status e = ExReview"
  shows "UpdateExecutionStatus_check k ExCompleted caller m = Proceed
    \<and> UpdateExecutionStatus_check k ExFailed caller m = Proceed
    \<and> (let m1 = snd (UpdateExecutionStatus_commit t1 k ExCompleted None m);
           m2 = snd (UpdateExecutionStatus_commit t2 k ExFailed (Some reason) m1)
       in \<exists>e1 e2. ms_executions m1 k = Some e1 \<and> ex_status e1 = ExCompleted
            \<and> ms_executions m2 k = Some e2 \<and> ex_status e2 = ExFailed
            \<and> ex_completed e2 = Some t2)"
proof -
  have row: "ms_executions m k = Some e" using assms(1) by (simp add: GetExecution_Inr)
  then show ?thesis
    using assms
    by (simp add: UpdateExecutionStatus_check_def UpdateExecutionStatus_commit_def
        Execution_UpdateStatus_def isValidExecutionTransition_def ex_terminal_def Let_def)
qed

theorem interleaved_changes_leave_terminal_witness:
  "\<exists>m e2. ms_executions m 10 = Some e2 \<and> ex_status e2 = ExFailed
    \<and> m = snd (UpdateExecutionStatus_commit 31 10 ExFailed (Some ''late'')
            (snd (UpdateExecutionStatus_commit 30 10 ExCompleted None
              (run_store [OpCreate sample_env 1 6 3, OpPatch 20 10 ExRunning None 3,
                 OpPatch 21 10 ExReview None 3] sample_world))))"
proof -
  let ?m = "run_store [OpCreate sample_env 1 6 3, OpPatch 20 10 ExRunning None 3,
    OpPatch 21 10 ExReview None 3] sample_world"
  have "\<exists>e. GetExecution 10 3 ?m = Inr e \<and> ex_status e = ExReview"
    by (simp add: exec_eval)
  then obtain e where "GetExecution 10 3 ?m = Inr e" "ex_status e = ExReview" by blast
  from interleaved_changes_leave_terminal [OF this, of 30 31 "''late''"] show ?thesis
    by (auto simp: Let_def)
qed

section \<open>The driver of a worker\<close>

lemma update_worker_row:
  assumes "ms_workers m k = Some w" "w_id (f w) = k" "k \<noteq> uuid_nil" "IsValidWorkerStatus (w_status (f w))"
  shows "ms_workers (update_worker k f m) = (ms_workers m)(k \<mapsto> f w)"
  using assms by (simp add: update_worker_def Worker_GetByID_def Worker_Update_def)

lemma UpdateExecutionStatus_workers [simp]:
  "ms_workers (snd (UpdateExecutionStatus now k st msg caller m)) = ms_workers m"
  by (rule UpdateExecutionStatus_cases [of now k st msg caller m]) simp_all

lemma GetExecution_update_worker [simp]:
  "GetExecution k caller (update_worker wid f m) = GetExecution k caller m"
  by (simp add: GetExecution_def Execution_GetByID_def Task_GetByID_def split: option.split)

text \<open>
  What the driver does with the answer of the runtime. For an execution of its project, the
  row moves to the status the answer translates to (review for a completed worker, failed with
  the reason for everything else) if that is an edge of the machine from where it is, and is
  left as it is otherwise.
\<close>

theorem driver_writes:
  assumes "GetExecution k caller m = Inr e" "drive_target wait = (st, msg)"
  shows "ms_executions (driveWorker_finish now wid k caller wait m) k =
    Some (if ex_status e \<noteq> st \<and> isValidExecutionTransition (ex_status e) st
          then set_status now st msg e else e)
    \<and> st \<in> {ExReview, ExFailed}
    \<and> (st = ExReview \<longleftrightarrow> (\<exists>r. wait = Inr r \<and> wr_status r = WorkerCompleted))"
proof -
  have t: "st \<in> {ExReview, ExFailed}
      \<and> (st = ExReview \<longleftrightarrow> (\<exists>r. wait = Inr r \<and> wr_status r = WorkerCompleted))"
    using assms(2) by (auto simp: drive_target_def split: sum.splits if_splits)
  obtain f where f: "driveWorker_finish now wid k caller wait m
      = snd (UpdateExecutionStatus now k st msg caller (update_worker wid f m))"
    by (simp add: driveWorker_finish_def assms(2) TransitionTo_def Let_def)
  have row: "ms_executions m k = Some e" using assms(1) by (simp add: GetExecution_Inr)
  show ?thesis
    unfolding f
    by (rule UpdateExecutionStatus_cases [of now k st msg caller "update_worker wid f m"])
      (use t row assms(1) in \<open>auto simp: UpdateExecutionStatus_def
        UpdateExecutionStatus_check_def UpdateExecutionStatus_commit_def
        Execution_UpdateStatus_def Let_def split: if_splits\<close>)
qed

theorem driver_writes_witness:
  "\<exists>e. GetExecution 10 3 (run_store [OpCreate sample_env 1 6 3] sample_world) = Inr e
    \<and> ms_executions (driveWorker_finish 30 12 10 3 (Inl ''boom'')
         (run_store [OpCreate sample_env 1 6 3] sample_world)) 10
      = Some (set_status 30 ExFailed (Some ''runtime wait: boom'') e)"
proof -
  have "\<exists>e. GetExecution 10 3 (run_store [OpCreate sample_env 1 6 3] sample_world) = Inr e
      \<and> ex_status e = ExAssigned"
    by (simp add: exec_eval)
  then obtain e where e: "GetExecution 10 3 (run_store [OpCreate sample_env 1 6 3] sample_world) = Inr e"
    "ex_status e = ExAssigned" by blast
  have "drive_target (Inl ''boom'') = (ExFailed, Some ''runtime wait: boom'')"
    by (simp add: drive_target_def)
  from driver_writes [OF e(1) this, of 30 12] e show ?thesis
    by (auto simp: isValidExecutionTransition_def)
qed

text \<open>The row and the worker that a successful create with a runtime leaves.\<close>

lemma CreateExecution_driver:
  assumes "CreateExecution env tid aid caller m = (Inr e, Some (DriveJob w h k p), m')"
  shows "w = ce_worker env" "k = ce_exec env" "p = caller"
    "GetExecution k p m' = Inr e" "ex_status e = ExAssigned"
    "\<exists>wk. ms_workers m' w = Some wk \<and> w_id wk = (if ce_worker env = uuid_nil then ce_worker env else w)
       \<and> w_status wk = MWPending"
proof -
  have "w = ce_worker env \<and> k = ce_exec env \<and> p = caller \<and> GetExecution k p m' = Inr e
      \<and> ex_status e = ExAssigned
      \<and> (\<exists>wk. ms_workers m' w = Some wk
             \<and> w_id wk = (if ce_worker env = uuid_nil then ce_worker env else w)
             \<and> w_status wk = MWPending)"
  proof (cases env tid aid caller m rule: CreateExecution_cases)
    case (refused err)
    with assms show ?thesis by simp
  next
    case (created t a m1)
    then obtain spawn where s: "ce_spawn env = Some spawn"
      using assms by (cases "ce_spawn env") auto
    have m1: "m1 = m\<lparr>ms_executions := (ms_executions m)(ce_exec env \<mapsto> new_execution env tid aid)\<rparr>"
      using created(5) by (auto simp: Execution_Create_def split: if_splits)
    have st: "ex_status (new_execution env tid aid) = ExAssigned"
      "ex_task (new_execution env tid aid) = tid" by (simp_all add: new_execution_def)
    show ?thesis
      using assms created(1,2) st
      unfolding created(6) s m1
      by (auto simp: start_worker_def Let_def Worker_Create_def Execution_UpdateStatus_def
          GetExecution_Inr split: sum.splits option.splits if_splits)
  qed
  then show "w = ce_worker env" "k = ce_exec env" "p = caller" "GetExecution k p m' = Inr e"
    "ex_status e = ExAssigned"
    "\<exists>wk. ms_workers m' w = Some wk \<and> w_id wk = (if ce_worker env = uuid_nil then ce_worker env else w)
       \<and> w_status wk = MWPending"
    by auto
qed

text \<open>
  C4: the hand-over of a successful worker is lost. Whenever a create with a runtime succeeds
  and the worker then completes, the driver marks the worker completed, but the execution stays
  in assigned: there is no edge from assigned to review, and nothing moves it to running.
\<close>

theorem successful_worker_stuck:
  assumes "CreateExecution env tid aid caller m = (Inr e, Some (DriveJob w h k p), m')"
    and "wr_status r = WorkerCompleted" "ce_worker env \<noteq> uuid_nil"
  shows "let m'' = driveWorker_finish now w k p (Inr r) (driveWorker_begin w m')
    in ms_executions m'' k = Some e \<and> ex_status e = ExAssigned
       \<and> (\<exists>wk. ms_workers m'' w = Some wk \<and> w_status wk = MWCompleted)"
proof -
  note c = CreateExecution_driver [OF assms(1)]
  obtain wk where wk: "ms_workers m' w = Some wk" "w_id wk = w" using c(1,6) by auto
  have nz: "w \<noteq> uuid_nil" using assms(3) c(1) by simp
  let ?b = "driveWorker_begin w m'"
  have b: "ms_workers ?b = (ms_workers m')(w \<mapsto> wk\<lparr>w_status := MWRunning\<rparr>)"
    unfolding driveWorker_begin_def by (rule update_worker_row) (use wk nz in simp_all)
  have g: "GetExecution k p ?b = Inr e" using c(4) by (simp add: driveWorker_begin_def)
  have dt: "drive_target (Inr r) = (ExReview, None)" using assms(2) by (simp add: drive_target_def)
  have "ms_executions (driveWorker_finish now w k p (Inr r) ?b) k = Some e"
    using driver_writes [OF g dt] c(5) by (simp add: isValidExecutionTransition_def)
  moreover obtain f where f: "driveWorker_finish now w k p (Inr r) ?b
      = snd (UpdateExecutionStatus now k ExReview None p (update_worker w f ?b))"
    "\<And>v. w_id (f v) = w_id v \<and> w_status (f v) = MWCompleted"
    by (simp add: driveWorker_finish_def dt TransitionTo_def Let_def)
  have "ms_workers (update_worker w f ?b) = (ms_workers ?b)(w \<mapsto> f (wk\<lparr>w_status := MWRunning\<rparr>))"
    by (rule update_worker_row) (use b f(2) wk nz in simp_all)
  ultimately show ?thesis using f c(5) by (simp add: Let_def)
qed

theorem successful_worker_stuck_witness:
  "\<exists>e m'. CreateExecution sample_env 1 6 3 sample_world
        = (Inr e, Some (DriveJob 12 ''h'' 10 3), m')
    \<and> ex_status e = ExAssigned
    \<and> ms_executions (driveWorker_finish 30 12 10 3
          (Inr (zero_result\<lparr>wr_status := WorkerCompleted\<rparr>)) (driveWorker_begin 12 m')) 10 = Some e"
proof -
  have "\<exists>e m'. CreateExecution sample_env 1 6 3 sample_world
      = (Inr e, Some (DriveJob 12 ''h'' 10 3), m')"
    by (simp add: exec_eval)
  then obtain e m' where c: "CreateExecution sample_env 1 6 3 sample_world
      = (Inr e, Some (DriveJob 12 ''h'' 10 3), m')" by blast
  from successful_worker_stuck [OF c, of "zero_result\<lparr>wr_status := WorkerCompleted\<rparr>" 30] c
  show ?thesis by (simp add: Let_def sample_env_def)
qed

section \<open>A spawn that fails\<close>

text \<open>
  When the runtime refuses to spawn, the caller gets an error but the execution row is
  stored, in assigned, with no worker row and no driver that could ever move it.
\<close>

theorem failed_spawn_leaves_row:
  assumes "ms_executions m (ce_exec env) = None" "ms_tasks m tid = Some t" "t_project t = caller"
    and "ms_agents m aid = Some a" "ag_project a = caller"
    and "ce_spawn env = Some (\<lambda>_. Inl err)"
  shows "\<exists>m'. CreateExecution env tid aid caller m
      = (Inl (ErrInternal (''aion runtime spawn: '' @ err)), None, m')
    \<and> ms_executions m' = (ms_executions m)(ce_exec env \<mapsto> new_execution env tid aid)
    \<and> ms_workers m' = ms_workers m"
  using assms
  by (simp add: CreateExecution_def Task_GetByID_def Agent_GetByID_def Execution_Create_def
      start_worker_def Let_def)

theorem failed_spawn_leaves_row_witness:
  "\<exists>m'. CreateExecution (sample_env\<lparr>ce_spawn := Some (\<lambda>_. Inl ''no binary'')\<rparr>) 1 6 3 sample_world
      = (Inl (ErrInternal ''aion runtime spawn: no binary''), None, m')"
  using failed_spawn_leaves_row
    [of sample_world "sample_env\<lparr>ce_spawn := Some (\<lambda>_. Inl ''no binary'')\<rparr>" 1
        "\<lparr>t_id = 1, t_project = 3, t_title = ''t'', t_description = '''', t_status = TaskBacklog,
          t_priority = PriorityMedium, t_assignee = 0, t_assignee_agent = '''', t_required = [],
          t_position = 0, t_created = 1, t_updated = 1\<rparr>" 3 6 "sample_agent 6 [''coding'']"]
  by (auto simp: sample_world_def sample_env_def sample_agent_def NewMemoryStore_def)

section \<open>The mock\<close>

text \<open>The mock writes through the store: it moves any row to review, a terminal one too.\<close>

lemma mock_overwrites:
  assumes "ms_executions m k = Some e"
  shows "ms_executions (mockExecution now False None k m) k = Some (set_status now ExReview None e)"
  using assms by (simp add: mockExecution_def transitionFromMock_def Execution_UpdateStatus_def Let_def)

end
