(* ===== verification/Aion_Runs.thy ===== *)
theory Aion_Runs
  imports Aion
begin

text \<open>
  Runs of the scripted runtime: every interleaving of spawns, ends of worker goroutines, cancels,
  waits, close and forget (aion/mock.go), and what ProcessRuntime reports for the output of a
  child (aion/process.go).
\<close>

section \<open>Handles\<close>

lemma digits_loop_no_dash: "CHR ''-'' \<notin> set buf \<Longrightarrow> CHR ''-'' \<notin> set (digits_loop n buf)"
proof (induction n buf rule: digits_loop.induct)
  case (1 n buf)
  have "of_char (char_of (48 + nat (n mod 10)) :: char) \<noteq> (of_char CHR ''-'' :: nat)"
    by simp
  then have "char_of (48 + nat (n mod 10)) \<noteq> CHR ''-''" by metis
  with 1 show ?case by (cases "n > 0") (auto simp: digits_loop.simps [of n buf])
qed

lemma intToString_nonneg:
  assumes "0 \<le> n"
  shows "CHR ''-'' \<notin> set (intToString n)" "read_digits (intToString n) = n"
proof -
  show "CHR ''-'' \<notin> set (intToString n)"
    using assms digits_loop_no_dash [of "[]" n] by (auto simp: intToString_def Let_def)
  show "read_digits (intToString n) = n"
    using assms read_digits_loop [of n "[]"]
    by (auto simp: intToString_def Let_def read_digits_def digit_value_def)
qed

text \<open>The number of a handle can be read back, so that different counters give different
  handles.\<close>

lemma mock_handle_inj:
  assumes "mock_handle ustr a x = mock_handle ustr b y"
  shows "a = b"
proof -
  let ?s = "\<lambda>n. intToString (uint n)"
  have "takeWhile (\<lambda>c. c \<noteq> CHR ''-'') (?s n @ CHR ''-'' # z) = ?s n" for n :: "64 word" and z
    using intToString_nonneg(1) [of "uint n"] by (subst takeWhile_append2) auto
  moreover have "?s a @ CHR ''-'' # ustr x = ?s b @ CHR ''-'' # ustr y"
    using assms by (simp add: mock_handle_def)
  ultimately have "?s a = ?s b" by metis
  then have "uint a = uint b" using intToString_nonneg(2) by (metis uint_ge_0)
  then show ?thesis by (simp add: word_uint_eq_iff)
qed

section \<open>Runs\<close>

text \<open>
  A state of a run: the runtime, the number of spawns so far and the results that Wait has
  returned. A worker whose handle was forgotten is gone, with any Wait that blocks on it.
\<close>

record mock_run =
  mr_runtime :: mock_runtime
  mr_spawns :: nat
  mr_delivered :: "(worker_handle \<times> worker_result) list"

definition mock_start :: mock_run where
  "mock_start = \<lparr>mr_runtime = NewMockRuntime, mr_spawns = 0, mr_delivered = []\<rparr>"

inductive mock_step :: "(uuid \<Rightarrow> string) \<Rightarrow> mock_run \<Rightarrow> mock_run \<Rightarrow> bool" for ustr where
  register: "mock_step ustr s (s\<lparr>mr_runtime := RegisterScript key script (mr_runtime s)\<rparr>)"
| default: "mock_step ustr s (s\<lparr>mr_runtime := SetDefaultScript script (mr_runtime s)\<rparr>)"
| spawn: "mock_Spawn ustr spec (mr_runtime s) = (res, r)
    \<Longrightarrow> mock_step ustr s (s\<lparr>mr_runtime := r, mr_spawns := Suc (mr_spawns s)\<rparr>)"
| worker_end: "mk_workers (mr_runtime s) h = Some w
    \<Longrightarrow> mock_run_end e startedAt now h (mr_runtime s) w = Some w'
    \<Longrightarrow> mock_step ustr s (s\<lparr>mr_runtime :=
          (mr_runtime s)\<lparr>mk_workers := (mk_workers (mr_runtime s))(h \<mapsto> w')\<rparr>\<rparr>)"
| cancel: "mock_Cancel now h (mr_runtime s) = Inr r \<Longrightarrow> mock_step ustr s (s\<lparr>mr_runtime := r\<rparr>)"
| wait: "mock_Wait_select e h (mr_runtime s) = Some (Inr res, r)
    \<Longrightarrow> mock_step ustr s (s\<lparr>mr_runtime := r, mr_delivered := (h, res) # mr_delivered s\<rparr>)"
| shut: "mock_step ustr s (s\<lparr>mr_runtime := mock_Close (mr_runtime s)\<rparr>)"
| forget: "mock_step ustr s (s\<lparr>mr_runtime := mock_Forget h (mr_runtime s)\<rparr>)"

text \<open>A worker is idle, holds its one result, or has had it taken.\<close>

definition result_ok :: "worker_handle \<Rightarrow> worker_result \<Rightarrow> bool" where
  "result_ok h res \<longleftrightarrow> wr_handle res = h \<and> IsTerminal (wr_status res)"

definition worker_ok :: "(worker_handle \<times> worker_result) list \<Rightarrow> worker_handle \<Rightarrow> mock_worker \<Rightarrow> bool"
where
  "worker_ok dl h w \<longleftrightarrow>
     (mw_done w \<longleftrightarrow> mw_result w \<noteq> None \<or> h \<in> fst ` set dl)
     \<and> (mw_result w \<noteq> None \<longrightarrow> h \<notin> fst ` set dl)
     \<and> (\<forall>res. mw_result w = Some res \<longrightarrow>
          result_ok h res \<and> wr_execution res = ws_execution (mw_spec w))"

definition issued :: "(uuid \<Rightarrow> string) \<Rightarrow> nat \<Rightarrow> worker_handle \<Rightarrow> bool" where
  "issued ustr c h \<longleftrightarrow> (\<exists>n \<le> c. \<exists>x. h = mock_handle ustr (of_nat n) x)"

definition mock_ok :: "(uuid \<Rightarrow> string) \<Rightarrow> nat \<Rightarrow> mock_run \<Rightarrow> bool" where
  "mock_ok ustr c s \<longleftrightarrow>
     c \<le> mr_spawns s \<and> mk_counter (mr_runtime s) = of_nat c
     \<and> (\<forall>h \<in> fst ` set (mr_delivered s). issued ustr c h)
     \<and> (\<forall>h \<in> dom (mk_workers (mr_runtime s)). issued ustr c h)
     \<and> distinct (map fst (mr_delivered s))
     \<and> (\<forall>(h, res) \<in> set (mr_delivered s). result_ok h res)
     \<and> (\<forall>h w. mk_workers (mr_runtime s) h = Some w \<longrightarrow> worker_ok (mr_delivered s) h w)"

definition mock_inv :: "(uuid \<Rightarrow> string) \<Rightarrow> mock_run \<Rightarrow> bool" where
  "mock_inv ustr s \<longleftrightarrow> (mr_spawns s < 2 ^ 64 \<longrightarrow> (\<exists>c. mock_ok ustr c s))"

lemma mock_inv_start: "mock_inv ustr mock_start"
  by (auto simp: mock_inv_def mock_ok_def mock_start_def NewMockRuntime_def)

lemma terminal_result_ok:
  "result_ok h (mock_terminal_result startedAt now h w)"
  "wr_execution (mock_terminal_result startedAt now h w) = ws_execution (mw_spec w)"
  "result_ok h (cancel_result startedAt now h why w)"
  "wr_execution (cancel_result startedAt now h why w) = ws_execution (mw_spec w)"
  by (auto simp: result_ok_def mock_terminal_result_def cancel_result_def Let_def)

lemma worker_ok_push:
  assumes "worker_ok dl h w" "result_ok h res" "wr_execution res = ws_execution (mw_spec w)"
  shows "worker_ok dl h (pushResult res w)"
  using assms by (auto simp: worker_ok_def pushResult_def)

lemma worker_ok_cancelled [simp]: "worker_ok dl h (w\<lparr>mw_cancelled := b\<rparr>) = worker_ok dl h w"
  by (simp add: worker_ok_def)

lemma mock_run_end_ok:
  assumes "mock_run_end e startedAt now h r w = Some w'" "worker_ok dl h w"
  shows "worker_ok dl h w'"
  using assms
  by (auto simp: mock_run_end_def terminal_result_ok intro!: worker_ok_push
      split: if_splits run_event.splits)

lemma take_result_Some:
  assumes "take_result h r = Some (res, r')"
  obtains w where "mk_workers r h = Some w" "mw_result w = Some res"
    "r' = r\<lparr>mk_workers := (mk_workers r)(h \<mapsto> w\<lparr>mw_result := None\<rparr>)\<rparr>"
  using assms by (auto simp: take_result_def split: option.splits)

lemma mock_Wait_select_Inr:
  assumes "mock_Wait_select e h r = Some (Inr res, r')"
  shows "take_result h r = Some (res, r')"
  using assms
  by (auto simp: mock_Wait_select_def split: wait_event.splits if_splits option.splits prod.splits)

text \<open>The invariant survives a change that leaves counter and handles and keeps every worker.\<close>

lemma mock_ok_workers:
  assumes "mock_ok ustr c s" "mk_counter r = mk_counter (mr_runtime s)"
    and "dom (mk_workers r) \<subseteq> dom (mk_workers (mr_runtime s))"
    and "\<And>h w. mk_workers r h = Some w \<Longrightarrow>
      (\<And>v. mk_workers (mr_runtime s) h = Some v \<Longrightarrow> worker_ok (mr_delivered s) h v)
      \<Longrightarrow> worker_ok (mr_delivered s) h w"
  shows "mock_ok ustr c (s\<lparr>mr_runtime := r\<rparr>)"
  using assms unfolding mock_ok_def by (simp add: subset_iff)

lemma mock_ok_spawn:
  assumes ok: "mock_ok ustr c s" and small: "Suc (mr_spawns s) < 2 ^ 64"
    and sp: "mock_Spawn ustr spec (mr_runtime s) = (res, r)"
  shows "\<exists>c'. mock_ok ustr c' (s\<lparr>mr_runtime := r, mr_spawns := Suc (mr_spawns s)\<rparr>)"
proof (cases res)
  case (Inl e)
  then have "r = mr_runtime s"
    using sp by (auto simp: mock_Spawn_def Let_def split: if_splits sum.splits)
  then show ?thesis using ok by (intro exI [of _ c]) (simp add: mock_ok_def)
next
  case (Inr h)
  let ?w = "\<lparr>mw_spec = spec, mw_script = scriptFor ustr spec (mr_runtime s), mw_result = None,
              mw_cancelled = False, mw_done = False\<rparr>"
  have c: "c \<le> mr_spawns s" "mk_counter (mr_runtime s) = of_nat c" using ok by (simp_all add: mock_ok_def)
  have h: "h = mock_handle ustr (of_nat (Suc c)) (ws_execution spec)"
    and r: "mk_counter r = of_nat (Suc c)" "mk_workers r = (mk_workers (mr_runtime s))(h \<mapsto> ?w)"
    using sp Inr c(2) by (auto simp: mock_Spawn_def Let_def add.commute split: if_splits sum.splits)
  have "\<not> issued ustr c h"
  proof
    assume "issued ustr c h"
    then obtain n x where n: "n \<le> c" "h = mock_handle ustr (of_nat n) x" by (auto simp: issued_def)
    then have "(of_nat n :: 64 word) = of_nat (Suc c)" using h mock_handle_inj by metis
    moreover have "n < 2 ^ LENGTH(64)" "Suc c < 2 ^ LENGTH(64)" using n(1) c(1) small by simp_all
    ultimately have "n = Suc c" by (metis unat_of_nat mod_less)
    with n(1) show False by simp
  qed
  then have "h \<notin> fst ` set (mr_delivered s)" using ok by (auto simp: mock_ok_def)
  then have "worker_ok (mr_delivered s) h ?w" by (simp add: worker_ok_def)
  moreover have "issued ustr (Suc c) h"
    unfolding issued_def h by blast
  moreover have "issued ustr c k \<Longrightarrow> issued ustr (Suc c) k" for k
    by (auto simp: issued_def intro: le_SucI)
  ultimately show ?thesis
    using ok r c(1) by (intro exI [of _ "Suc c"]) (auto simp: mock_ok_def)
qed

lemma mock_ok_take:
  assumes inv: "mock_ok ustr c s" and t: "take_result h (mr_runtime s) = Some (res, r)"
  shows "mock_ok ustr c (s\<lparr>mr_runtime := r, mr_delivered := (h, res) # mr_delivered s\<rparr>)"
proof -
  from t obtain w where w: "mk_workers (mr_runtime s) h = Some w" "mw_result w = Some res"
    "r = (mr_runtime s)\<lparr>mk_workers := (mk_workers (mr_runtime s))(h \<mapsto> w\<lparr>mw_result := None\<rparr>)\<rparr>"
    by (rule take_result_Some)
  have ok: "\<And>h w. mk_workers (mr_runtime s) h = Some w \<Longrightarrow> worker_ok (mr_delivered s) h w"
    using inv by (auto simp: mock_ok_def)
  have "h \<notin> fst ` set (mr_delivered s)" "result_ok h res" "mw_done w"
    using ok [OF w(1)] w(2) by (auto simp: worker_ok_def)
  moreover have "worker_ok ((h, res) # mr_delivered s) k v"
    if "mk_workers r k = Some v" for k v
    using that ok [of k v] ok [OF w(1)] w by (auto simp: worker_ok_def split: if_splits)
  moreover have "issued ustr c h" using inv w(1) by (auto simp: mock_ok_def)
  ultimately show ?thesis
    using inv w(1,3) by (auto simp: mock_ok_def)
qed

lemma mock_ok_step:
  assumes step: "mock_step ustr s s'" and ok: "mock_ok ustr c s" and small: "mr_spawns s' < 2 ^ 64"
  shows "\<exists>c'. mock_ok ustr c' s'"
  using step
proof cases
  case (worker_end h w e startedAt now w')
  show ?thesis unfolding worker_end(1)
    by (rule exI, rule mock_ok_workers [OF ok])
       (use worker_end mock_run_end_ok [OF worker_end(3)] in \<open>auto split: if_splits\<close>)
next
  case (cancel now h r)
  then obtain w where "mk_workers (mr_runtime s) h = Some w"
    "r = (mr_runtime s)\<lparr>mk_workers := (mk_workers (mr_runtime s))(h \<mapsto>
       pushResult (cancel_result now now h ''cancelled by runtime'' w) (w\<lparr>mw_cancelled := True\<rparr>))\<rparr>"
    by (auto simp: mock_Cancel_def split: option.splits)
  note w = this
  show ?thesis unfolding cancel(1)
    by (rule exI, rule mock_ok_workers [OF ok])
       (use w in \<open>auto simp: terminal_result_ok intro!: worker_ok_push split: if_splits\<close>)
next
  case (spawn spec res r)
  then show ?thesis using mock_ok_spawn ok small by auto
next
  case (wait e h res r)
  then show ?thesis using mock_ok_take mock_Wait_select_Inr ok by blast
next
  case shut
  have "mock_ok ustr c (s\<lparr>mr_runtime := mock_Close (mr_runtime s)\<rparr>)"
    by (rule mock_ok_workers [OF ok]) (auto simp: mock_Close_def split: if_splits)
  then show ?thesis unfolding shut by blast
next
  case (forget h)
  have "mock_ok ustr c (s\<lparr>mr_runtime := mock_Forget h (mr_runtime s)\<rparr>)"
    by (rule mock_ok_workers [OF ok]) (auto simp: mock_Forget_def split: if_splits)
  then show ?thesis unfolding forget by blast
next
  case (register key script)
  have "mock_ok ustr c (s\<lparr>mr_runtime := RegisterScript key script (mr_runtime s)\<rparr>)"
    by (rule mock_ok_workers [OF ok]) (auto simp: RegisterScript_def)
  then show ?thesis unfolding register by blast
next
  case (default script)
  have "mock_ok ustr c (s\<lparr>mr_runtime := SetDefaultScript script (mr_runtime s)\<rparr>)"
    by (rule mock_ok_workers [OF ok]) (auto simp: SetDefaultScript_def)
  then show ?thesis unfolding default by blast
qed

lemma mock_inv_step:
  assumes "mock_step ustr s s'" "mock_inv ustr s"
  shows "mock_inv ustr s'"
proof -
  have "mr_spawns s \<le> mr_spawns s'" using assms(1) by cases auto
  then show ?thesis
    using assms mock_ok_step [OF assms(1)] unfolding mock_inv_def by (meson le_less_trans)
qed

section \<open>Properties of the scripted runtime\<close>

text \<open>
  In every run with fewer than 2^64 spawns Wait returns at most one result per handle, a
  result it returns is terminal and carries the handle, and a worker whose result is settled
  either still holds it for Wait or has had it returned.
\<close>

theorem mock_delivers_once:
  assumes run: "(mock_step ustr)\<^sup>*\<^sup>* mock_start s" and few: "mr_spawns s < 2 ^ 64"
  shows "distinct (map fst (mr_delivered s))
    \<and> (\<forall>(h, res) \<in> set (mr_delivered s). wr_handle res = h \<and> IsTerminal (wr_status res))
    \<and> (\<forall>h w. mk_workers (mr_runtime s) h = Some w \<longrightarrow> mw_done w \<longrightarrow>
         (mw_result w = None \<longleftrightarrow> h \<in> fst ` set (mr_delivered s)))"
proof -
  have "mock_inv ustr s"
    using run by (induction rule: rtranclp_induct) (auto intro: mock_inv_start mock_inv_step)
  with few obtain c where "mock_ok ustr c s" by (auto simp: mock_inv_def)
  then have "distinct (map fst (mr_delivered s))"
    "\<forall>(h, res) \<in> set (mr_delivered s). result_ok h res"
    "\<forall>h w. mk_workers (mr_runtime s) h = Some w \<longrightarrow> worker_ok (mr_delivered s) h w"
    by (simp_all add: mock_ok_def)
  then show ?thesis
    unfolding result_ok_def worker_ok_def by blast
qed

definition sample_spec :: worker_spec where
  "sample_spec = \<lparr>ws_execution = 1, ws_task = 2, ws_agent = 3, ws_project = 4, ws_model = ''m'',
     ws_provider = ''p'', ws_permission = ''auto'', ws_input = '''', ws_attempt = 1\<rparr>"

text \<open>A worker is spawned, cancelled before its end, ends all the same, and is waited for.\<close>

theorem mock_delivers_once_witness:
  "\<exists>s h res. (mock_step (\<lambda>_. ''e''))\<^sup>*\<^sup>* mock_start s \<and> mr_delivered s = [(h, res)]
     \<and> wr_status res = WorkerCancelled \<and> wr_handle res = h"
proof -
  define h where "h = mock_handle (\<lambda>_. ''e'') 1 1"
  define w0 where "w0 = \<lparr>mw_spec = sample_spec, mw_script = zero_script, mw_result = None,
      mw_cancelled = False, mw_done = False\<rparr>"
  define w1 where "w1 = pushResult (cancel_result 5 5 h ''cancelled by runtime'' w0)
      (w0\<lparr>mw_cancelled := True\<rparr>)"
  define rt where "rt w = NewMockRuntime\<lparr>mk_counter := 1, mk_workers := [h \<mapsto> w]\<rparr>" for w
  define st where "st w log = \<lparr>mr_runtime = rt w, mr_spawns = 1, mr_delivered = log\<rparr>" for w log
  note defs = st_def rt_def w0_def w1_def h_def sample_spec_def zero_script_def mock_start_def
    NewMockRuntime_def pushResult_def cancel_result_def
  have "mock_Spawn (\<lambda>_. ''e'') sample_spec (mr_runtime mock_start) = (Inr h, rt w0)"
    by (simp add: mock_Spawn_def spec_Validate_def scriptFor_def Let_def defs)
  from mock_step.spawn [OF this] have s1: "mock_step (\<lambda>_. ''e'') mock_start (st w0 [])"
    by (simp add: st_def mock_start_def)
  have "mock_Cancel 5 h (rt w0) = Inr (rt w1)"
    by (simp add: mock_Cancel_def rt_def w1_def)
  then have s2: "mock_step (\<lambda>_. ''e'') (st w0 []) (st w1 [])"
    using mock_step.cancel [of 5 h "st w0 []" "rt w1"] by (simp add: st_def)
  have "mock_run_end TimerFired 4 6 h (rt w1) w1 = Some w1"
    by (simp add: mock_run_end_def w1_def w0_def zero_script_def pushResult_def)
  then have s3: "mock_step (\<lambda>_. ''e'') (st w1 []) (st w1 [])"
    using mock_step.worker_end [of "st w1 []" h w1 TimerFired 4 6 w1]
    by (simp add: st_def rt_def)
  let ?res = "cancel_result 5 5 h ''cancelled by runtime'' w0"
  have "mock_Wait_select ResultReady h (rt w1) = Some (Inr ?res, rt (w1\<lparr>mw_result := None\<rparr>))"
    by (simp add: mock_Wait_select_def take_result_def rt_def w1_def w0_def pushResult_def)
  then have s4: "mock_step (\<lambda>_. ''e'') (st w1 []) (st (w1\<lparr>mw_result := None\<rparr>) [(h, ?res)])"
    using mock_step.wait [of ResultReady h "st w1 []"] by (simp add: st_def)
  have run: "(mock_step (\<lambda>_. ''e''))\<^sup>*\<^sup>* mock_start (st (w1\<lparr>mw_result := None\<rparr>) [(h, ?res)])"
    using s1 s2 s3 s4 by (meson converse_rtranclp_into_rtranclp rtranclp.rtrancl_refl)
  from mock_delivers_once [OF run] have "wr_handle ?res = h"
    by (simp add: st_def)
  with run show ?thesis
    by (intro exI [of _ "st (w1\<lparr>mw_result := None\<rparr>) [(h, ?res)]"] exI [of _ h] exI [of _ ?res])
       (simp add: st_def cancel_result_def)
qed

section \<open>Properties of the child process output\<close>

lemma last_frame_append:
  "last_frame parse (xs @ ys) acc = last_frame parse ys (last_frame parse xs acc)"
  by (induction xs arbitrary: acc) (auto split: option.split)

lemma last_frame_Some:
  "last_frame parse ls None = Some msg \<longleftrightarrow>
     (\<exists>pre l post. ls = pre @ l # post \<and> l \<noteq> [] \<and> parse l = Some msg
        \<and> (\<forall>k \<in> set post. k = [] \<or> parse k = None))"
proof (induction ls rule: rev_induct)
  case Nil
  then show ?case by simp
next
  case (snoc l ls)
  show ?case
  proof (cases "l = [] \<or> parse l = None")
    case True
    then have "last_frame parse (ls @ [l]) None = last_frame parse ls None"
      by (auto simp: last_frame_append)
    moreover have "(\<exists>pre k post. ls @ [l] = pre @ k # post \<and> k \<noteq> [] \<and> parse k = Some msg
        \<and> (\<forall>k \<in> set post. k = [] \<or> parse k = None))
      \<longleftrightarrow> (\<exists>pre k post. ls = pre @ k # post \<and> k \<noteq> [] \<and> parse k = Some msg
        \<and> (\<forall>k \<in> set post. k = [] \<or> parse k = None))" (is "?L \<longleftrightarrow> ?R")
    proof
      assume ?L
      then obtain pre k post where p: "ls @ [l] = pre @ k # post" "k \<noteq> []" "parse k = Some msg"
        "\<forall>k \<in> set post. k = [] \<or> parse k = None" by blast
      with True have "post \<noteq> []" by auto
      then obtain post' where "post = post' @ [l]" using p(1)
        by (metis append_butlast_last_id last_ConsR last_append last_snoc list.distinct(1))
      with p show ?R by auto
    next
      assume ?R
      then obtain pre k post where "ls = pre @ k # post" "k \<noteq> []" "parse k = Some msg"
        "\<forall>k \<in> set post. k = [] \<or> parse k = None" by blast
      with True show ?L by (intro exI [of _ pre] exI [of _ k] exI [of _ "post @ [l]"]) auto
    qed
    ultimately show ?thesis using snoc by simp
  next
    case False
    then obtain m where m: "l \<noteq> []" "parse l = Some m" by auto
    show ?thesis
    proof
      assume "last_frame parse (ls @ [l]) None = Some msg"
      with m show "\<exists>pre l' post. ls @ [l] = pre @ l' # post \<and> l' \<noteq> [] \<and> parse l' = Some msg
        \<and> (\<forall>k \<in> set post. k = [] \<or> parse k = None)"
        by (intro exI [of _ ls] exI [of _ l] exI [of _ "[]"]) (simp add: last_frame_append)
    next
      assume "\<exists>pre l' post. ls @ [l] = pre @ l' # post \<and> l' \<noteq> [] \<and> parse l' = Some msg
        \<and> (\<forall>k \<in> set post. k = [] \<or> parse k = None)"
      then obtain pre l' post where p: "ls @ [l] = pre @ l' # post" "parse l' = Some msg"
        "\<forall>k \<in> set post. k = [] \<or> parse k = None" by blast
      have "post = []"
      proof (rule ccontr)
        assume "post \<noteq> []"
        then have "l \<in> set post" using p(1) by (metis last.simps last_in_set last_appendR last_snoc list.distinct(1))
        with p(3) m show False by auto
      qed
      with p m show "last_frame parse (ls @ [l]) None = Some msg" by (simp add: last_frame_append)
    qed
  qed
qed

text \<open>
  The worker is reported completed exactly when a result frame is the last line that parses
  among the lines before the first one that does not fit the buffer: nothing after a line
  of bufSize bytes or more is seen, not even a result frame.
\<close>

theorem pumpStdout_completed:
  "wr_status (pumpStdout parse bufSize now h spec out) = WorkerCompleted \<longleftrightarrow>
     (\<exists>pre l post msg. takeWhile (\<lambda>l. int (length l) < bufSize) out = pre @ l # post
        \<and> drop_cr l \<noteq> [] \<and> parse (drop_cr l) = Some msg \<and> msg_type msg = ''result''
        \<and> (\<forall>k \<in> set post. drop_cr k = [] \<or> parse (drop_cr k) = None))"
proof -
  let ?ls = "takeWhile (\<lambda>l. int (length l) < bufSize) out"
  have "wr_status (pumpStdout parse bufSize now h spec out) = WorkerCompleted \<longleftrightarrow>
      (\<exists>msg. last_frame parse (map drop_cr ?ls) None = Some msg \<and> msg_type msg = ''result'')"
    by (cases "last_frame parse (map drop_cr ?ls) None")
       (auto simp: pumpStdout_def scan_lines_def frame_result_def Let_def)
  also have "\<dots> \<longleftrightarrow> (\<exists>pre l post msg. ?ls = pre @ l # post
        \<and> drop_cr l \<noteq> [] \<and> parse (drop_cr l) = Some msg \<and> msg_type msg = ''result''
        \<and> (\<forall>k \<in> set post. drop_cr k = [] \<or> parse (drop_cr k) = None))"
    (is "?L \<longleftrightarrow> ?R")
  proof
    assume ?L
    then obtain msg pre l post where p: "map drop_cr ?ls = pre @ l # post" "l \<noteq> []"
      "parse l = Some msg" "msg_type msg = ''result''" "\<forall>k \<in> set post. k = [] \<or> parse k = None"
      unfolding last_frame_Some by blast
    then obtain us k vs where "?ls = us @ k # vs" "l = drop_cr k" "post = map drop_cr vs"
      by (auto simp: map_eq_append_conv map_eq_Cons_conv Cons_eq_map_conv)
    with p show ?R by (intro exI [of _ us] exI [of _ k] exI [of _ vs] exI [of _ msg]) auto
  next
    assume ?R
    then obtain pre l post msg where p: "?ls = pre @ l # post" "drop_cr l \<noteq> []"
      "parse (drop_cr l) = Some msg" "msg_type msg = ''result''"
      "\<forall>k \<in> set post. drop_cr k = [] \<or> parse (drop_cr k) = None" by blast
    then have "last_frame parse (map drop_cr ?ls) None = Some msg"
      unfolding last_frame_Some
      by (intro exI [of _ "map drop_cr pre"] exI [of _ "drop_cr l"] exI [of _ "map drop_cr post"]) auto
    with p(4) show ?L by blast
  qed
  finally show ?thesis .
qed

text \<open>A result frame before a line that does not parse.\<close>

theorem pumpStdout_completed_witness:
  "wr_status (pumpStdout (\<lambda>l. if l = ''r'' then Some (NewMessage 1 ''result'' 1 ''x'' '''') else None)
     10 7 ''h'' sample_spec [''r'', ''?'']) = WorkerCompleted"
  unfolding pumpStdout_completed
  by (rule exI [of _ "[]"], rule exI [of _ "''r''"], rule exI [of _ "[''?'']"],
      rule exI [of _ "NewMessage 1 ''result'' 1 ''x'' ''''"]) (simp add: drop_cr_def NewMessage_def)

text \<open>
  A worker whose result frame does not fit the buffer is reported failed, with the message of
  a worker that wrote nothing when that frame is its whole output.
\<close>

theorem oversize_result_lost:
  assumes "bufSize \<le> int (length l)"
  shows "pumpStdout parse bufSize now h spec (l # ls) = zero_result\<lparr>wr_handle := h,
      wr_execution := ws_execution spec, wr_status := WorkerFailed, wr_started := now,
      wr_completed := now, wr_error := ''aion worker produced no output before exit''\<rparr>"
  using assms by (simp add: pumpStdout_def scan_lines_def frame_result_def zero_result_def Let_def)

theorem oversize_result_lost_witness:
  "wr_status (pumpStdout (\<lambda>l. Some (NewMessage 1 ''result'' 1 l ''''))
     (pc_stdout_buffer (config_defaults
        \<lparr>pc_binary = '''', pc_extra = [], pc_wait_timeout = 0, pc_env = [], pc_stdout_buffer = 0,
         pc_stderr_buffer = 0\<rparr>)) 7 ''h'' sample_spec [replicate 65536 CHR ''x'']) = WorkerFailed"
  by (subst oversize_result_lost) (simp_all add: config_defaults_def Let_def)

end
