(* ===== verification/Capability_Service.thy ===== *)
theory Capability_Service
  imports Store_Agents Errors
begin

text \<open>
  Capabilities: the catalog of src/src/internal/model/capability.go with the agent types of
  agent\_type.go, and the matching, scoring and enforcement functions of
  src/src/internal/service/capability.go. A capability is its name.
\<close>

section \<open>The catalog (model/capability.go, model/agent\_type.go)\<close>

definition AllCapabilities :: "string list" where
  "AllCapabilities =
     [''architecture'', ''coding'', ''testing'', ''security'', ''documentation'', ''devops'',
      ''project_management'', ''data_engineering'', ''leadership'']"

definition ValidCapability :: "string \<Rightarrow> bool" where
  "ValidCapability c = list_ex (\<lambda>x. x = c) AllCapabilities"

definition AssignableCapabilities :: "string list" where
  "AssignableCapabilities =
     [''architecture'', ''coding'', ''testing'', ''security'', ''devops'', ''documentation'',
      ''project_management'', ''data_engineering'']"

definition IsAssignableCapability :: "string \<Rightarrow> bool" where
  "IsAssignableCapability c = list_ex (\<lambda>x. x = c) AssignableCapabilities"

definition RoleCapabilities :: "string \<rightharpoonup> string list" where
  "RoleCapabilities =
     [''pm'' \<mapsto> [''project_management''],
      ''developer'' \<mapsto> [''coding'', ''testing''],
      ''architect'' \<mapsto> [''architecture'', ''coding''],
      ''reviewer'' \<mapsto> [''testing'', ''security''],
      ''qa'' \<mapsto> [''testing''],
      ''security'' \<mapsto> [''security''],
      ''devops'' \<mapsto> [''devops'', ''architecture''],
      ''techwriter'' \<mapsto> [''documentation''],
      ''data_engineer'' \<mapsto> [''data_engineering'', ''coding''],
      ''leader'' \<mapsto> [''leadership'']]"

text \<open>A nil slice is the empty list.\<close>

definition DefaultCapabilitiesForRole :: "string \<Rightarrow> string list" where
  "DefaultCapabilitiesForRole role =
     (case RoleCapabilities role of None \<Rightarrow> [] | Some caps \<Rightarrow> caps)"

definition AllAgentTypes :: "string list" where
  "AllAgentTypes = [''pm'', ''architect'', ''developer'', ''reviewer'', ''qa'', ''devops'']"

definition IsValidAgentType :: "string \<Rightarrow> bool" where
  "IsValidAgentType t = list_ex (\<lambda>x. x = t) AllAgentTypes"

definition AgentTypeCapabilities :: "string \<rightharpoonup> string list" where
  "AgentTypeCapabilities =
     [''pm'' \<mapsto> [''requirement_analysis'', ''task_decomposition''],
      ''architect'' \<mapsto> [''system_design'', ''api_design''],
      ''developer'' \<mapsto> [''code_implementation''],
      ''reviewer'' \<mapsto> [''code_review'', ''security_scan''],
      ''qa'' \<mapsto> [''test_planning'', ''test_execution''],
      ''devops'' \<mapsto> [''ci_cd'', ''deployment'', ''infrastructure'']]"

definition DefaultCapabilitiesForType :: "string \<Rightarrow> string list" where
  "DefaultCapabilitiesForType t =
     (case AgentTypeCapabilities t of None \<Rightarrow> [] | Some caps \<Rightarrow> caps)"

section \<open>The service (service/capability.go)\<close>

definition TaskRequiresCapability :: "string \<Rightarrow> string list" where
  "TaskRequiresCapability typ =
     (if typ \<in> set [''feature'', ''implementation''] then [''coding'', ''testing'']
      else if typ \<in> set [''architecture'', ''design''] then [''architecture'']
      else if typ = ''bugfix'' then [''coding'']
      else if typ = ''review'' then [''testing'', ''security'']
      else if typ \<in> set [''test'', ''qa''] then [''testing'']
      else if typ = ''security_audit'' then [''security'']
      else if typ \<in> set [''deployment'', ''infrastructure''] then [''devops'', ''architecture'']
      else if typ = ''documentation'' then [''documentation'']
      else if typ \<in> set [''data_pipeline'', ''analytics''] then [''data_engineering'', ''coding'']
      else if typ \<in> set [''project_management'', ''planning''] then [''project_management'']
      else [''coding''])"

text \<open>The map built from the agent's capabilities is the set of them.\<close>

fun has_all :: "string list \<Rightarrow> string list \<Rightarrow> bool" where
  "has_all caps [] = True"
| "has_all caps (req # reqs) = (if req \<notin> set caps then False else has_all caps reqs)"

definition AgentHasCapability :: "agent \<Rightarrow> string list \<Rightarrow> bool" where
  "AgentHasCapability a required =
     (if required = [] then True else has_all (ag_capabilities a) required)"

definition FindCompatibleAgents :: "agent list \<Rightarrow> string list \<Rightarrow> agent list" where
  "FindCompatibleAgents agents required =
     (if required = [] then agents else filter (\<lambda>a. AgentHasCapability a required) agents)"

text \<open>The loop over the required names: the score and the names of the agent not yet used.\<close>

fun score_loop :: "string list \<Rightarrow> string list \<Rightarrow> int \<Rightarrow> int \<times> string list" where
  "score_loop [] agentSet score = (score, agentSet)"
| "score_loop (req # reqs) agentSet score =
     (if req \<in> set agentSet then score_loop reqs (filter (\<lambda>c. c \<noteq> req) agentSet) (score + 2)
      else score_loop reqs agentSet (score - 5))"

definition AssignmentScore :: "agent \<Rightarrow> string list \<Rightarrow> int" where
  "AssignmentScore a required =
     (if required = [] then int (length (ag_capabilities a))
      else let (score, rest) = score_loop required (remdups (ag_capabilities a)) 0
           in score + int (length rest))"

definition ValidateAgentHasCapabilities ::
  "(uuid \<Rightarrow> string) \<Rightarrow> uuid \<Rightarrow> string list \<Rightarrow> mem_store \<Rightarrow> service_error + unit" where
  "ValidateAgentHasCapabilities ustr agentID required m =
     (if required = [] then Inr ()
      else case Agent_ListCapabilities agentID m of
             Inl ErrNotFound \<Rightarrow> Inl (notFound (''agent '' @ ustr agentID @ '' not found''))
           | Inl _ \<Rightarrow> Inl (internalError ''failed to load agent capabilities'')
           | Inr granted \<Rightarrow>
               let missing = filter (\<lambda>req. req \<notin> set (map acv_name granted)) required
               in if missing \<noteq> [] then Inl (capabilityMismatch missing) else Inr ())"

section \<open>Lemmas\<close>

lemma has_all_iff: "has_all caps reqs \<longleftrightarrow> set reqs \<subseteq> set caps"
  by (induction reqs) auto

lemma AgentHasCapability_iff: "AgentHasCapability a reqs \<longleftrightarrow> set reqs \<subseteq> set (ag_capabilities a)"
  by (auto simp: AgentHasCapability_def has_all_iff)

lemma FindCompatibleAgents_eq:
  "FindCompatibleAgents as reqs = filter (\<lambda>a. set reqs \<subseteq> set (ag_capabilities a)) as"
  by (simp add: FindCompatibleAgents_def AgentHasCapability_iff)

text \<open>The enforcement seam and the snapshot test agree on what an agent may do.\<close>

lemma ValidateAgentHasCapabilities_Inr:
  "ValidateAgentHasCapabilities ustr k reqs m = Inr () \<longleftrightarrow>
     reqs = [] \<or> (\<exists>a. ms_agents m k = Some a \<and> set reqs \<subseteq> set (ag_capabilities a))"
  by (auto simp: ValidateAgentHasCapabilities_def Agent_ListCapabilities_def Let_def comp_def
      filter_empty_conv split: option.splits)

lemma ValidateAgentHasCapabilities_mismatch:
  assumes "ms_agents m k = Some a" "\<not> set reqs \<subseteq> set (ag_capabilities a)"
  shows "ValidateAgentHasCapabilities ustr k reqs m
       = Inl (capabilityMismatch (filter (\<lambda>r. r \<notin> set (ag_capabilities a)) reqs))"
  using assms
  by (auto simp: ValidateAgentHasCapabilities_def Agent_ListCapabilities_def Let_def comp_def
      filter_empty_conv)

lemma score_loop_distinct:
  assumes "distinct reqs" "distinct A"
  shows "score_loop reqs A s =
    (s + 2 * int (length (filter (\<lambda>r. r \<in> set A) reqs))
       - 5 * int (length (filter (\<lambda>r. r \<notin> set A) reqs)),
     filter (\<lambda>c. c \<notin> set reqs) A)"
  using assms
proof (induction reqs arbitrary: A s)
  case Nil
  then show ?case by simp
next
  case (Cons r reqs)
  have same: "filter (\<lambda>x. x \<in> set A \<and> x \<noteq> r) reqs = filter (\<lambda>x. x \<in> set A) reqs"
    "filter (\<lambda>x. x \<in> set A \<longrightarrow> x = r) reqs = filter (\<lambda>x. x \<notin> set A) reqs"
    using Cons.prems(1) by (auto intro!: filter_cong)
  have "filter (\<lambda>c. c \<notin> set reqs) (filter (\<lambda>c. c \<noteq> r) A) = filter (\<lambda>c. c \<notin> set (r # reqs)) A"
    by (auto simp: filter_filter intro: filter_cong)
  moreover have "filter (\<lambda>c. c \<notin> set reqs) A = filter (\<lambda>c. c \<notin> set (r # reqs)) A" if "r \<notin> set A"
    using that by (auto intro!: filter_cong)
  ultimately show ?case
    using Cons.IH [of "filter (\<lambda>c. c \<noteq> r) A" "s + 2"] Cons.IH [of A "s - 5"] Cons.prems
    by (simp add: same algebra_simps)
qed

section \<open>Properties\<close>

text \<open>
  For a list of required names without repetition the score is two for each that the agent
  has, minus five for each it lacks, plus one for each other capability of the agent.
\<close>

theorem AssignmentScore_correct:
  assumes "distinct reqs" "reqs \<noteq> []"
  shows "AssignmentScore a reqs =
      2 * int (card (set reqs \<inter> set (ag_capabilities a)))
    - 5 * int (card (set reqs - set (ag_capabilities a)))
    + int (card (set (ag_capabilities a) - set reqs))"
proof -
  let ?A = "remdups (ag_capabilities a)"
  have "length (filter P xs) = card {x \<in> set xs. P x}" if "distinct xs" for P and xs :: "string list"
    using distinct_card [of "filter P xs"] that by simp
  note len = this [OF assms(1)] this [of ?A]
  have "{x \<in> set reqs. x \<in> set ?A} = set reqs \<inter> set (ag_capabilities a)"
    "{x \<in> set reqs. x \<notin> set ?A} = set reqs - set (ag_capabilities a)"
    "{x \<in> set ?A. x \<notin> set reqs} = set (ag_capabilities a) - set reqs" by auto
  then show ?thesis
    using assms(2)
    by (simp add: AssignmentScore_def score_loop_distinct [OF assms(1) distinct_remdups] len)
qed

theorem AssignmentScore_correct_witness:
  "AssignmentScore \<lparr>ag_id = 1, ag_project = 3, ag_name = ''a'', ag_role = ''qa'',
      ag_status = AgentIdle, ag_capabilities = [''testing'', ''coding''], ag_last_active = None,
      ag_metadata = '''', ag_runtime = '''', ag_version = 1, ag_retired_at = None, ag_created = 1,
      ag_updated = 1\<rparr> [''testing'', ''security''] = - 2"
  by (subst AssignmentScore_correct) (simp_all add: insert_Diff_if)

text \<open>A name required twice is counted as missing the second time, even when the agent has it.\<close>

lemma AssignmentScore_repeated:
  assumes "ag_capabilities a = [c]"
  shows "AssignmentScore a [c, c] = - 3"
  using assms by (simp add: AssignmentScore_def)

text \<open>Every assignable capability is in the catalog; leadership is the only one left out.\<close>

lemma assignable_iff: "IsAssignableCapability c \<longleftrightarrow> ValidCapability c \<and> c \<noteq> ''leadership''"
  by (auto simp: IsAssignableCapability_def ValidCapability_def AssignableCapabilities_def
      AllCapabilities_def)

text \<open>The defaults of every role are capabilities of the catalog.\<close>

lemma role_defaults_valid:
  "c \<in> set (DefaultCapabilitiesForRole role) \<Longrightarrow> ValidCapability c"
  by (auto simp: DefaultCapabilitiesForRole_def RoleCapabilities_def ValidCapability_def
      AllCapabilities_def split: option.splits if_splits)

text \<open>The store's own catalog has only six of the nine: these three pass the catalog check of the
  model but not that of the store.\<close>

lemma seed_missing:
  "ValidCapability c \<and> \<not> Capability_Exists c NewMemoryStore \<longleftrightarrow>
     c \<in> {''documentation'', ''project_management'', ''data_engineering''}"
  by (auto simp: ValidCapability_def AllCapabilities_def Capability_Exists_def NewMemoryStore_def
      canonicalCapabilitySeed_def capability_seed_row_def)

end
