(* ===== verification/Assignment_Service.thy ===== *)
theory Assignment_Service
  imports Capability_Service Store_Assign
begin

text \<open>
  Task assignment: AssignTaskToAgent and ListAssignmentHistory of
  src/src/internal/service/assignment.go. The task it reads is the row of the store, so the
  assignments to its fields are updates of the row; the agent and the active assignment are
  copies. WithTx of the in-memory store runs its closure on the same maps and undoes nothing.
\<close>

section \<open>The service\<close>

record assignment_result =
  ar_task :: task
  ar_event :: "assignment_event option"
  ar_assignment :: "assignment option"
  ar_idempotent :: bool

text \<open>What a call gets from outside: the instant and the two fresh ids.\<close>

record assign_env =
  ae_now :: go_time
  ae_assignment :: uuid
  ae_event :: uuid

definition put_task :: "task \<Rightarrow> mem_store \<Rightarrow> mem_store" where
  "put_task t m = m\<lparr>ms_tasks := (ms_tasks m)(t_id t \<mapsto> t)\<rparr>"

text \<open>The closure given to WithTx: its error, or the new rows.\<close>

definition assign_tx ::
  "assign_env \<Rightarrow> uuid \<Rightarrow> uuid \<Rightarrow> string \<Rightarrow> uuid option \<Rightarrow> assignment_action \<Rightarrow> mem_store
   \<Rightarrow> (store_error + assignment \<times> assignment_event) \<times> mem_store" where
  "assign_tx env taskID agentID notes assignedBy action m =
     (let flip = (case Assignment_GetActiveByTask taskID m of
            Inl ErrNotFound \<Rightarrow> (Inr (), m)
          | Inl e \<Rightarrow> (Inl e, m)
          | Inr prev \<Rightarrow>
              (case Assignment_Update
                      (prev\<lparr>as_status := AsSuperseded, as_completed := Some (ae_now env)\<rparr>) m of
                 Inl e \<Rightarrow> (Inl e, m) | Inr m1 \<Rightarrow> (Inr (), m1)))
      in case flip of
           (Inl e, m1) \<Rightarrow> (Inl e, m1)
         | (Inr _, m1) \<Rightarrow>
             let newA = \<lparr>as_id = ae_assignment env, as_task = taskID, as_agent = agentID,
                          as_assigned = ae_now env, as_completed = None, as_status = AsActive\<rparr>
             in case Assignment_Create (ae_assignment env) (ae_now env) newA m1 of
                  Inl e \<Rightarrow> (Inl e, m1)
                | Inr (created, m2) \<Rightarrow>
                    let ev = \<lparr>ev_id = ae_event env, ev_assignment = as_id created,
                               ev_task = taskID, ev_agent = Some agentID, ev_by = assignedBy,
                               ev_at = ae_now env, ev_action = action, ev_notes = notes\<rparr>
                    in case Event_Append (ae_event env) (ae_now env) ev m2 of
                         Inl e \<Rightarrow> (Inl e, m2)
                       | Inr (ev', m3) \<Rightarrow> (Inr (created, ev'), m3))"

text \<open>The part after the checks, from the comparison with the present assignee.\<close>

definition assign_record ::
  "assign_env \<Rightarrow> task \<Rightarrow> uuid \<Rightarrow> uuid \<Rightarrow> string \<Rightarrow> uuid option \<Rightarrow> mem_store
   \<Rightarrow> (service_error + assignment_result) \<times> mem_store" where
  "assign_record env task taskID agentID notes assignedBy m =
     (if t_assignee task = agentID
      then (Inr \<lparr>ar_task = task, ar_event = None,
                 ar_assignment = (case Assignment_GetActiveByTask taskID m of
                                    Inr a \<Rightarrow> Some a | Inl _ \<Rightarrow> None),
                 ar_idempotent = True\<rparr>, m)
      else
        let action = (if t_assignee task = uuid_nil then ActAssign else ActReassign)
        in case assign_tx env taskID agentID notes assignedBy action m of
             (Inl ErrAlreadyExists, m1) \<Rightarrow> (Inl (conflict
                ''Assignment race: another request created an active row for this task concurrently''), m1)
           | (Inl _, m1) \<Rightarrow> (Inl (internalError ''Failed to record assignment''), m1)
           | (Inr (newA, newE), m1) \<Rightarrow>
               let task2 = task\<lparr>t_assignee := agentID, t_updated := ae_now env\<rparr>;
                   m2 = put_task task2 m1
               in case Task_Update task2 m2 of
                    Inl _ \<Rightarrow> (Inl (internalError ''Failed to update task assignment''), m2)
                  | Inr m3 \<Rightarrow>
                      (Inr \<lparr>ar_task = task2, ar_event = Some newE, ar_assignment = Some newA,
                             ar_idempotent = False\<rparr>, m3))"

definition AssignTaskToAgent ::
  "(uuid \<Rightarrow> string) \<Rightarrow> assign_env \<Rightarrow> uuid \<Rightarrow> uuid \<Rightarrow> string \<Rightarrow> uuid option \<Rightarrow> string list \<Rightarrow> uuid
   \<Rightarrow> mem_store \<Rightarrow> (service_error + assignment_result) \<times> mem_store" where
  "AssignTaskToAgent ustr env taskID agentID notes assignedBy capsRequired caller m =
     (if caller = uuid_nil then (Inl missingProjectHeader, m)
      else case Task_GetByID taskID m of
             Inl _ \<Rightarrow> (Inl (notFound ''Task not found''), m)
           | Inr task \<Rightarrow>
      if t_project task \<noteq> caller then (Inl crossTenantBlocked, m)
      else case Agent_GetByID agentID m of
             Inl _ \<Rightarrow> (Inl (notFound ''Agent not found''), m)
           | Inr agent \<Rightarrow>
      if ag_project agent \<noteq> caller then (Inl crossTenantBlocked, m)
      else if t_project task \<noteq> ag_project agent then (Inl crossTenantBlocked, m)
      else if int (length notes) > MaxAssignmentNotesBytes
        then (Inl (validationSingle ''notes'' ''exceeds 1 KiB (1024 bytes)''), m)
      else if ag_status agent \<noteq> AgentIdle then (Inl (conflict ''Agent is not idle''), m)
      else
        let task1 = (if capsRequired \<noteq> [] then task\<lparr>t_required := capsRequired\<rparr> else task);
            m1 = put_task task1 m
        in case (if t_required task1 \<noteq> []
                 then ValidateAgentHasCapabilities ustr agentID (t_required task1) m1
                 else Inr ()) of
             Inl e \<Rightarrow> (Inl e, m1)
           | Inr _ \<Rightarrow> assign_record env task1 taskID agentID notes assignedBy m1)"

definition ListAssignmentHistory ::
  "uuid \<Rightarrow> uuid \<Rightarrow> mem_store \<Rightarrow> service_error + assignment_event list" where
  "ListAssignmentHistory taskID caller m =
     (if caller = uuid_nil then Inl missingProjectHeader
      else case Task_GetByID taskID m of
             Inl ErrNotFound \<Rightarrow> Inl (notFound ''Task not found'')
           | Inl _ \<Rightarrow> Inl (internalError ''Failed to fetch task'')
           | Inr task \<Rightarrow>
               if t_project task \<noteq> caller then Inl crossTenantBlocked
               else Inr (Event_ListByTask taskID m))"

section \<open>The transaction\<close>

text \<open>The frame of a run: which tables a call may touch.\<close>

definition same_elsewhere :: "mem_store \<Rightarrow> mem_store \<Rightarrow> bool" where
  "same_elsewhere m m' \<longleftrightarrow>
     ms_agents m' = ms_agents m \<and> ms_executions m' = ms_executions m
     \<and> ms_projects m' = ms_projects m \<and> ms_deliverables m' = ms_deliverables m"

lemma Assignment_Create_active:
  assumes "as_task a \<noteq> uuid_nil" "as_agent a \<noteq> uuid_nil" "as_status a = AsActive"
    and "as_id a \<noteq> uuid_nil" "as_assigned a \<noteq> zero_time" "ms_active m (as_task a) = None"
  shows "Assignment_Create fresh now a m =
    Inr (a, m\<lparr>ms_assignments := (ms_assignments m)(as_id a \<mapsto> a),
              ms_active := (ms_active m)(as_task a \<mapsto> as_id a)\<rparr>)"
  using assms by (simp add: Assignment_Create_def Let_def)

definition fresh_env :: "assign_env \<Rightarrow> mem_store \<Rightarrow> bool" where
  "fresh_env env m \<longleftrightarrow>
     ae_now env \<noteq> zero_time \<and> ae_assignment env \<noteq> uuid_nil \<and> ae_event env \<noteq> uuid_nil
     \<and> ms_assignments m (ae_assignment env) = None \<and> ms_events m (ae_event env) = None"

definition superseded :: "go_time \<Rightarrow> assignment \<Rightarrow> assignment" where
  "superseded now a = a\<lparr>as_status := AsSuperseded, as_completed := Some now\<rparr>"

definition new_assignment :: "assign_env \<Rightarrow> uuid \<Rightarrow> uuid \<Rightarrow> assignment" where
  "new_assignment env taskID agentID =
     \<lparr>as_id = ae_assignment env, as_task = taskID, as_agent = agentID, as_assigned = ae_now env,
      as_completed = None, as_status = AsActive\<rparr>"

definition new_event ::
  "assign_env \<Rightarrow> uuid \<Rightarrow> uuid \<Rightarrow> string \<Rightarrow> uuid option \<Rightarrow> assignment_action \<Rightarrow> assignment_event" where
  "new_event env taskID agentID notes assignedBy action =
     \<lparr>ev_id = ae_event env, ev_assignment = ae_assignment env, ev_task = taskID,
      ev_agent = Some agentID, ev_by = assignedBy, ev_at = ae_now env, ev_action = action,
      ev_notes = notes\<rparr>"

text \<open>With fresh ids and rows that have proper ids the closure cannot fail.\<close>

lemma assign_tx_ok:
  assumes inv: "assign_inv m" "ms_assignments m uuid_nil = None" and ids: "fresh_env env m"
    and t: "taskID \<noteq> uuid_nil" "agentID \<noteq> uuid_nil" and act: "action \<in> {ActAssign, ActReassign}"
  defines "prev \<equiv> Assignment_GetActiveByTask taskID m"
  shows "\<exists>m'. assign_tx env taskID agentID notes assignedBy action m
      = (Inr (new_assignment env taskID agentID,
              new_event env taskID agentID notes assignedBy action), m')
    \<and> assign_inv m'
    \<and> ms_assignments m' = (case prev of
          Inl _ \<Rightarrow> ms_assignments m
        | Inr p \<Rightarrow> (ms_assignments m)(as_id p \<mapsto> superseded (ae_now env) p))
        (ae_assignment env \<mapsto> new_assignment env taskID agentID)
    \<and> ms_active m' taskID = Some (ae_assignment env)
    \<and> ms_events m' = (ms_events m)
        (ae_event env \<mapsto> new_event env taskID agentID notes assignedBy action)
    \<and> (events_inv m \<longrightarrow> events_inv m')
    \<and> ms_tasks m' = ms_tasks m \<and> same_elsewhere m m'"
proof -
  have env: "ae_now env \<noteq> zero_time" "ae_assignment env \<noteq> uuid_nil" "ae_event env \<noteq> uuid_nil"
    "ms_assignments m (ae_assignment env) = None" "ms_events m (ae_event env) = None"
    using ids by (auto simp: fresh_env_def)
  let ?a = "new_assignment env taskID agentID"
  let ?ev = "new_event env taskID agentID notes assignedBy action"
  define T where "T = (case prev of Inl _ \<Rightarrow> ms_assignments m
    | Inr p \<Rightarrow> (ms_assignments m)(as_id p \<mapsto> superseded (ae_now env) p))"
  text \<open>After the flip: the task has no active row.\<close>
  have "\<exists>m1. (case prev of
            Inl ErrNotFound \<Rightarrow> (Inr (), m)
          | Inl e \<Rightarrow> (Inl e, m)
          | Inr p \<Rightarrow> (case Assignment_Update (superseded (ae_now env) p) m of
                 Inl e \<Rightarrow> (Inl e, m) | Inr m1 \<Rightarrow> (Inr (), m1))) = (Inr (), m1)
      \<and> assign_inv m1 \<and> ms_assignments m1 = T \<and> ms_active m1 taskID = None
      \<and> ms_events m1 = ms_events m \<and> ms_event_ids m1 = ms_event_ids m \<and> ms_tasks m1 = ms_tasks m
      \<and> same_elsewhere m m1"
  proof (cases "ms_active m taskID")
    case None
    then have p: "prev = Inl ErrNotFound" by (simp add: prev_def Assignment_GetActiveByTask_def)
    with None inv show ?thesis by (simp add: T_def same_elsewhere_def)
  next
    case (Some k)
    then obtain p where p: "ms_assignments m k = Some p" "as_task p = taskID" "as_status p = AsActive"
      using assign_inv_index [OF inv(1)] by auto
    have kp: "as_id p = k" using inv(1) p(1) by (auto simp: assign_inv_def dest: keyed_byD)
    have k0: "k \<noteq> uuid_nil" using inv(2) p(1) by auto
    have prev: "prev = Inr p" using Some p by (simp add: prev_def Assignment_GetActiveByTask_def)
    let ?p = "superseded (ae_now env) p"
    have sp: "as_id ?p = k" "as_task ?p = taskID" "as_status ?p = AsSuperseded"
      using kp p by (simp_all add: superseded_def)
    have u: "Assignment_Update ?p m = Inr (m\<lparr>ms_assignments := (ms_assignments m)(k \<mapsto> ?p),
        ms_active := (ms_active m)(taskID := None)\<rparr>)"
      using sp k0 p(1) Some by (simp add: Assignment_Update_def Let_def assignment_validators)
    have "assign_inv (m\<lparr>ms_assignments := (ms_assignments m)(k \<mapsto> ?p),
        ms_active := (ms_active m)(taskID := None)\<rparr>)"
      by (rule assign_inv_Update(1) [OF inv(1) u, of p]) (use sp p in simp_all)
    with prev u kp show ?thesis by (simp add: T_def same_elsewhere_def)
  qed
  then obtain m1 where m1: "(case prev of
            Inl ErrNotFound \<Rightarrow> (Inr (), m)
          | Inl e \<Rightarrow> (Inl e, m)
          | Inr p \<Rightarrow> (case Assignment_Update (superseded (ae_now env) p) m of
                 Inl e \<Rightarrow> (Inl e, m) | Inr m1 \<Rightarrow> (Inr (), m1))) = (Inr (), m1)"
    "assign_inv m1" "ms_assignments m1 = T" "ms_active m1 taskID = None" "ms_events m1 = ms_events m"
    "ms_event_ids m1 = ms_event_ids m" "ms_tasks m1 = ms_tasks m" "same_elsewhere m m1"
    by blast
  have fT: "T (ae_assignment env) = None"
  proof (cases prev)
    case (Inr p)
    then have "ms_assignments m (as_id p) = Some p"
      using GetActiveByTask_iff [OF inv(1)] by (simp add: prev_def)
    with env(4) Inr show ?thesis by (auto simp: T_def)
  qed (simp add: T_def env(4))
  let ?m2 = "m1\<lparr>ms_assignments := (ms_assignments m1)(ae_assignment env \<mapsto> ?a),
    ms_active := (ms_active m1)(taskID \<mapsto> ae_assignment env)\<rparr>"
  have c: "Assignment_Create (ae_assignment env) (ae_now env) ?a m1 = Inr (?a, ?m2)"
    using Assignment_Create_active [of ?a m1] m1(4) t env(1,2) by (simp add: new_assignment_def)
  have i2: "assign_inv ?m2"
    by (rule assign_inv_Create [OF m1(2) c]) (use fT m1(3) in \<open>simp add: new_assignment_def\<close>)
  let ?m3 = "?m2\<lparr>ms_events := (ms_events ?m2)(ae_event env \<mapsto> ?ev),
    ms_event_ids := (ms_event_ids ?m2)(taskID := ms_event_ids ?m2 taskID @ [ae_event env])\<rparr>"
  have e: "Event_Append (ae_event env) (ae_now env) ?ev ?m2 = Inr (?ev, ?m3)"
    using t act env
    by (auto simp: Event_Append_def Let_def new_event_def IsValidAssignmentAction_def
        AllAssignmentActions_def)
  have "assign_tx env taskID agentID notes assignedBy action m = (Inr (?a, ?ev), ?m3)"
    using m1(1) c e
    unfolding assign_tx_def Let_def superseded_def [symmetric] prev_def [symmetric]
      new_assignment_def [symmetric]
    by (simp add: new_event_def [symmetric]) (simp add: new_assignment_def new_event_def)
  moreover have "assign_inv ?m3" using i2 by (simp add: assign_inv_def)
  moreover have "events_inv ?m3" if "events_inv m"
  proof -
    have "events_inv ?m2" using that by (simp add: events_inv_def m1)
    from events_inv_Append [OF this e] show ?thesis using env(5) by (simp add: new_event_def m1)
  qed
  ultimately show ?thesis using m1 by (simp add: T_def same_elsewhere_def)
qed


section \<open>Whole calls\<close>

text \<open>What a store satisfies that the other operations have filled: keyed tables without a nil key
  and the invariants of the assignment tables.\<close>

definition assign_ready :: "mem_store \<Rightarrow> bool" where
  "assign_ready m \<longleftrightarrow>
     assign_inv m \<and> events_inv m \<and> keyed_by t_id (ms_tasks m) \<and> ms_assignments m uuid_nil = None
     \<and> ms_tasks m uuid_nil = None \<and> ms_agents m uuid_nil = None"

lemma put_task_simps [simp]:
  "ms_tasks (put_task t m) = (ms_tasks m)(t_id t \<mapsto> t)" "ms_agents (put_task t m) = ms_agents m"
  "ms_assignments (put_task t m) = ms_assignments m" "ms_active (put_task t m) = ms_active m"
  "ms_events (put_task t m) = ms_events m" "ms_event_ids (put_task t m) = ms_event_ids m"
  "assign_inv (put_task t m) = assign_inv m" "events_inv (put_task t m) = events_inv m"
  "Assignment_GetActiveByTask k (put_task t m) = Assignment_GetActiveByTask k m"
  "same_elsewhere m (put_task t m') = same_elsewhere m m'"
  by (simp_all add: put_task_def assign_inv_def events_inv_def same_elsewhere_def
      Assignment_GetActiveByTask_def split: option.split)

lemma put_task_again [simp]: "t_id t = t_id t' \<Longrightarrow> put_task t (put_task t' m) = put_task t m"
  by (simp add: put_task_def)

text \<open>The task that the capability check sees: its required names may be replaced by the request.\<close>

definition required_task :: "string list \<Rightarrow> task \<Rightarrow> task" where
  "required_task caps t = (if caps \<noteq> [] then t\<lparr>t_required := caps\<rparr> else t)"

lemma required_task_simps [simp]:
  "t_id (required_task caps t) = t_id t" "t_project (required_task caps t) = t_project t"
  "t_assignee (required_task caps t) = t_assignee t"
  by (simp_all add: required_task_def)

text \<open>The checks a call makes before it writes.\<close>

definition assign_allowed :: "string \<Rightarrow> uuid \<Rightarrow> task \<Rightarrow> agent \<Rightarrow> bool" where
  "assign_allowed notes caller task agent \<longleftrightarrow>
     caller \<noteq> uuid_nil \<and> t_project task = caller \<and> ag_project agent = caller
     \<and> int (length notes) \<le> MaxAssignmentNotesBytes \<and> ag_status agent = AgentIdle"

lemma AssignTaskToAgent_allowed:
  fixes caps :: "string list"
  assumes "ms_tasks m taskID = Some task" "ms_agents m agentID = Some agent"
    and "assign_allowed notes caller task agent"
  defines "task1 \<equiv> required_task caps task"
  defines "m1 \<equiv> put_task task1 m"
  shows "AssignTaskToAgent ustr env taskID agentID notes assignedBy caps caller m =
    (if set (t_required task1) \<subseteq> set (ag_capabilities agent)
     then assign_record env task1 taskID agentID notes assignedBy m1
     else (Inl (capabilityMismatch
             (filter (\<lambda>r. r \<notin> set (ag_capabilities agent)) (t_required task1))), m1))"
proof -
  have ag: "ms_agents m1 agentID = Some agent"
    using assms(2) by (simp add: m1_def put_task_def)
  have v: "(if t_required task1 \<noteq> []
       then ValidateAgentHasCapabilities ustr agentID (t_required task1) m1 else Inr ())
     = (if set (t_required task1) \<subseteq> set (ag_capabilities agent) then Inr ()
        else Inl (capabilityMismatch
             (filter (\<lambda>r. r \<notin> set (ag_capabilities agent)) (t_required task1))))"
    using ag ValidateAgentHasCapabilities_mismatch [OF ag]
      ValidateAgentHasCapabilities_Inr [of ustr agentID "t_required task1" m1] by auto
  have "AssignTaskToAgent ustr env taskID agentID notes assignedBy caps caller m =
     (case (if t_required task1 \<noteq> []
            then ValidateAgentHasCapabilities ustr agentID (t_required task1) m1 else Inr ()) of
        Inl e \<Rightarrow> (Inl e, m1)
      | Inr _ \<Rightarrow> assign_record env task1 taskID agentID notes assignedBy m1)"
    using assms(1-3) unfolding task1_def m1_def required_task_def
    by (simp add: AssignTaskToAgent_def Task_GetByID_def Agent_GetByID_def assign_allowed_def Let_def)
  then show ?thesis unfolding v by simp
qed

text \<open>Without a task, an agent and the checks a call fails and changes nothing.\<close>

lemma AssignTaskToAgent_refused:
  assumes "\<not> (\<exists>task agent. ms_tasks m taskID = Some task \<and> ms_agents m agentID = Some agent
                \<and> assign_allowed notes caller task agent)"
  shows "\<exists>e. AssignTaskToAgent ustr env taskID agentID notes assignedBy caps caller m = (Inl e, m)"
  using assms
  by (auto simp: AssignTaskToAgent_def Task_GetByID_def Agent_GetByID_def assign_allowed_def Let_def
      split: option.splits)

definition assign_result ::
  "assign_env \<Rightarrow> task \<Rightarrow> uuid \<Rightarrow> string \<Rightarrow> uuid option \<Rightarrow> assignment_result" where
  "assign_result env task agentID notes assignedBy =
     \<lparr>ar_task = task\<lparr>t_assignee := agentID, t_updated := ae_now env\<rparr>,
      ar_event = Some (new_event env (t_id task) agentID notes assignedBy
         (if t_assignee task = uuid_nil then ActAssign else ActReassign)),
      ar_assignment = Some (new_assignment env (t_id task) agentID),
      ar_idempotent = False\<rparr>"

text \<open>The recording part with fresh ids always succeeds when the agent is not yet the assignee.\<close>

lemma assign_record_ok:
  fixes msg :: string and assignedBy :: "uuid option"
  assumes inv: "assign_ready m" and ids: "fresh_env env m" and ag: "agentID \<noteq> uuid_nil"
    and t: "ms_tasks m taskID = Some task" and new: "t_assignee task \<noteq> agentID"
  defines "prev \<equiv> Assignment_GetActiveByTask taskID m"
    and "r \<equiv> assign_result env task agentID msg assignedBy"
  shows "\<exists>m'. assign_record env task taskID agentID msg assignedBy m = (Inr r, m')
    \<and> assign_ready m'
    \<and> ms_assignments m' = (case prev of
          Inl _ \<Rightarrow> ms_assignments m
        | Inr p \<Rightarrow> (ms_assignments m)(as_id p \<mapsto> superseded (ae_now env) p))
        (ae_assignment env \<mapsto> new_assignment env taskID agentID)
    \<and> ms_active m' taskID = Some (ae_assignment env)
    \<and> ms_events m' = (ms_events m)(ae_event env \<mapsto> the (ar_event r))
    \<and> ms_tasks m' = (ms_tasks m)(taskID \<mapsto> ar_task r) \<and> same_elsewhere m m'"
proof -
  have tid: "t_id task = taskID" "taskID \<noteq> uuid_nil"
    using inv t by (auto simp: assign_ready_def dest: keyed_byD)
  define act where "act = (if t_assignee task = uuid_nil then ActAssign else ActReassign)"
  have "act \<in> {ActAssign, ActReassign}" by (simp add: act_def)
  moreover have i: "assign_inv m" "events_inv m" "ms_assignments m uuid_nil = None"
    using inv by (simp_all add: assign_ready_def)
  ultimately obtain m1 where m1:
    "assign_tx env taskID agentID msg assignedBy act m
      = (Inr (new_assignment env taskID agentID,
              new_event env taskID agentID msg assignedBy act), m1)"
    "assign_inv m1"
    "ms_assignments m1 = (case prev of
          Inl _ \<Rightarrow> ms_assignments m
        | Inr p \<Rightarrow> (ms_assignments m)(as_id p \<mapsto> superseded (ae_now env) p))
        (ae_assignment env \<mapsto> new_assignment env taskID agentID)"
    "ms_active m1 taskID = Some (ae_assignment env)"
    "ms_events m1 = (ms_events m)
        (ae_event env \<mapsto> new_event env taskID agentID msg assignedBy act)"
    "events_inv m1" "ms_tasks m1 = ms_tasks m" "same_elsewhere m m1"
    using assign_tx_ok [OF i(1,3) ids tid(2) ag, of act msg assignedBy] unfolding prev_def by blast
  let ?t = "task\<lparr>t_assignee := agentID, t_updated := ae_now env\<rparr>"
  have a0: "ms_assignments m1 uuid_nil = None"
  proof (cases prev)
    case (Inr p)
    then have "as_id p \<noteq> uuid_nil"
      using inv GetActiveByTask_iff [of m taskID p] by (auto simp: assign_ready_def prev_def)
    with Inr show ?thesis using inv ids m1(3) by (auto simp: assign_ready_def fresh_env_def)
  qed (use inv ids m1(3) in \<open>auto simp: assign_ready_def fresh_env_def\<close>)
  have u: "Task_Update ?t (put_task ?t m1) = Inr (put_task ?t m1)"
    by (simp add: Task_Update_def)
  have "assign_record env task taskID agentID msg assignedBy m = (Inr r, put_task ?t m1)"
    using new m1(1) tid(1) u
    by (simp add: assign_record_def r_def assign_result_def Let_def act_def [symmetric])
  moreover have "assign_ready (put_task ?t m1)"
    using inv m1(2,6,7,8) a0 tid
    by (simp add: assign_ready_def same_elsewhere_def keyed_by_upd)
  ultimately show ?thesis
    using m1 tid by (simp add: r_def assign_result_def act_def)
qed

lemma assign_ready_put:
  assumes "assign_ready m" "ms_tasks m taskID = Some task"
  shows "assign_ready (put_task (required_task caps task) m)"
    "ms_tasks (put_task (required_task caps task) m) taskID = Some (required_task caps task)"
proof -
  have "t_id task = taskID" "taskID \<noteq> uuid_nil"
    using assms by (auto simp: assign_ready_def dest: keyed_byD)
  with assms show "assign_ready (put_task (required_task caps task) m)"
    "ms_tasks (put_task (required_task caps task) m) taskID = Some (required_task caps task)"
    by (simp_all add: assign_ready_def)
qed

text \<open>Every outcome of a call, from the checks to the writes.\<close>

lemma AssignTaskToAgent_outcomes:
  assumes inv: "assign_ready m" and ids: "fresh_env env m"
    and c: "AssignTaskToAgent ustr env taskID agentID msg assignedBy caps caller m = (res, m')"
  obtains (refused) e where "res = Inl e" "m' = m"
  | (lacking) task agent where "ms_tasks m taskID = Some task" "ms_agents m agentID = Some agent"
      "assign_allowed msg caller task agent"
      "\<not> set (t_required (required_task caps task)) \<subseteq> set (ag_capabilities agent)"
      "res = Inl (capabilityMismatch (filter (\<lambda>r. r \<notin> set (ag_capabilities agent))
                    (t_required (required_task caps task))))"
      "m' = put_task (required_task caps task) m"
  | (again) task agent where "ms_tasks m taskID = Some task" "ms_agents m agentID = Some agent"
      "assign_allowed msg caller task agent"
      "set (t_required (required_task caps task)) \<subseteq> set (ag_capabilities agent)"
      "t_assignee task = agentID" "m' = put_task (required_task caps task) m"
      "\<exists>r. res = Inr r \<and> ar_idempotent r"
  | (recorded) task agent where "ms_tasks m taskID = Some task" "ms_agents m agentID = Some agent"
      "assign_allowed msg caller task agent"
      "set (t_required (required_task caps task)) \<subseteq> set (ag_capabilities agent)"
      "t_assignee task \<noteq> agentID" "agentID \<noteq> uuid_nil" "t_id task = taskID"
      "res = Inr (assign_result env (required_task caps task) agentID msg assignedBy)"
      "assign_record env (required_task caps task) taskID agentID msg assignedBy
         (put_task (required_task caps task) m)
       = (Inr (assign_result env (required_task caps task) agentID msg assignedBy), m')"
proof (cases "\<exists>task agent. ms_tasks m taskID = Some task \<and> ms_agents m agentID = Some agent
                \<and> assign_allowed msg caller task agent")
  case False
  from AssignTaskToAgent_refused [OF this] c show ?thesis
    using refused by (metis prod.inject)
next
  case True
  then obtain task agent where t: "ms_tasks m taskID = Some task" "ms_agents m agentID = Some agent"
    "assign_allowed msg caller task agent" by blast
  let ?t = "required_task caps task" and ?m = "put_task (required_task caps task) m"
  note c' = c [unfolded AssignTaskToAgent_allowed [OF t]]
  show ?thesis
  proof (cases "set (t_required ?t) \<subseteq> set (ag_capabilities agent)")
    case False
    with c' lacking [OF t] show ?thesis by (metis (lifting) prod.inject)
  next
    case sub: True
    then have rec: "assign_record env ?t taskID agentID msg assignedBy ?m = (res, m')"
      using c' by simp
    show ?thesis
    proof (cases "t_assignee task = agentID")
      case True
      with rec again [OF t sub] show ?thesis by (auto simp: assign_record_def)
    next
      case False
      have tid: "t_id task = taskID" "agentID \<noteq> uuid_nil"
        using inv t by (auto simp: assign_ready_def dest: keyed_byD)
      have "fresh_env env ?m" using ids by (simp add: fresh_env_def)
      from assign_record_ok [OF assign_ready_put(1) [OF inv t(1)] this tid(2)
          assign_ready_put(2) [OF inv t(1)], of msg assignedBy] False
      obtain m2 where m2: "assign_record env ?t taskID agentID msg assignedBy ?m
        = (Inr (assign_result env ?t agentID msg assignedBy), m2)" by auto
      show ?thesis
        by (rule recorded [OF t sub False tid(2,1)]) (use rec m2 in simp_all)
    qed
  qed
qed

section \<open>Properties\<close>

text \<open>
  C21: a call that is not a repetition leaves exactly one active assignment of the task, the new
  one to the requested agent; the assignment that was active before is superseded, every other
  assignment is untouched, one event with the right action is added, and the task row names the
  agent. The agent was idle, in the caller's project and had every required capability.
\<close>

theorem AssignTaskToAgent_records:
  assumes inv: "assign_ready m" and ids: "fresh_env env m"
    and c: "AssignTaskToAgent ustr env taskID agentID msg assignedBy caps caller m = (Inr r, m')"
    and new: "\<not> ar_idempotent r"
  shows "\<exists>task agent. ms_tasks m taskID = Some task \<and> ms_agents m agentID = Some agent
      \<and> t_project task = caller \<and> ag_project agent = caller \<and> ag_status agent = AgentIdle
      \<and> set (t_required (ar_task r)) \<subseteq> set (ag_capabilities agent)
      \<and> ms_tasks m' = (ms_tasks m)(taskID \<mapsto> ar_task r) \<and> t_assignee (ar_task r) = agentID
      \<and> (\<forall>a. Assignment_GetActiveByTask taskID m' = Inr a \<longleftrightarrow> ar_assignment r = Some a)
      \<and> ar_assignment r = Some (new_assignment env taskID agentID)
      \<and> (\<forall>k a. k \<noteq> ae_assignment env \<longrightarrow> ms_assignments m k = Some a \<longrightarrow>
           ms_assignments m' k = Some (if as_task a = taskID \<and> as_status a = AsActive
             then superseded (ae_now env) a else a))
      \<and> ms_events m' = (ms_events m)(ae_event env \<mapsto> the (ar_event r))
      \<and> ev_action (the (ar_event r))
          = (if t_assignee task = uuid_nil then ActAssign else ActReassign)"
  using inv ids c
proof (cases rule: AssignTaskToAgent_outcomes)
  case (recorded task agent)
  let ?t = "required_task caps task" and ?m = "put_task (required_task caps task) m"
  have ids': "fresh_env env ?m" using ids by (simp add: fresh_env_def)
  have f: "t_assignee ?t \<noteq> agentID" using recorded(5) by simp
  have r: "r = assign_result env ?t agentID msg assignedBy" using recorded(8) by simp
  note ok = assign_record_ok [OF assign_ready_put(1) [OF inv recorded(1)] ids' recorded(6)
      assign_ready_put(2) [OF inv recorded(1)] f, of msg assignedBy, folded r]
  from ok recorded(9) have ready: "assign_ready m'"
    and asg: "ms_assignments m' = (case Assignment_GetActiveByTask taskID m of
          Inl _ \<Rightarrow> ms_assignments m
        | Inr p \<Rightarrow> (ms_assignments m)(as_id p \<mapsto> superseded (ae_now env) p))
        (ae_assignment env \<mapsto> new_assignment env taskID agentID)"
    and act: "ms_active m' taskID = Some (ae_assignment env)"
    and evs: "ms_events m' = (ms_events m)(ae_event env \<mapsto> the (ar_event r))"
    and tasks: "ms_tasks m' = (ms_tasks m)(taskID \<mapsto> ar_task r)"
    using recorded(7) by (auto simp: r cong: sum.case_cong)
  have ai: "assign_inv m" using inv by (simp add: assign_ready_def)
  have one: "Assignment_GetActiveByTask taskID m' = Inr (new_assignment env taskID agentID)"
    using act asg by (simp add: Assignment_GetActiveByTask_def)
  have others: "ms_assignments m' k = Some (if as_task a = taskID \<and> as_status a = AsActive
             then superseded (ae_now env) a else a)"
    if k: "k \<noteq> ae_assignment env" "ms_assignments m k = Some a" for k a
  proof (cases "Assignment_GetActiveByTask taskID m")
    case (Inl e)
    then have "\<not> (as_task a = taskID \<and> as_status a = AsActive)"
      using GetActiveByTask_iff [OF ai, of taskID a] ai k(2)
      by (auto simp: assign_inv_def dest: keyed_byD)
    with Inl k asg show ?thesis by auto
  next
    case (Inr p)
    have p: "ms_assignments m (as_id p) = Some p" "as_task p = taskID" "as_status p = AsActive"
      using Inr GetActiveByTask_iff [OF ai, of taskID p] by simp_all
    have asg': "ms_assignments m' k
        = (if k = as_id p then Some (superseded (ae_now env) p) else ms_assignments m k)"
      unfolding asg Inr using k(1) by simp
    show ?thesis
    proof (cases "k = as_id p")
      case True
      with k(2) p have "a = p" by simp
      with True asg' p show ?thesis by simp
    next
      case False
      with one_active [OF ai k(2) p(1) _ p(3)] p(2)
      have "\<not> (as_task a = taskID \<and> as_status a = AsActive)" by auto
      with False asg' k(2) show ?thesis by auto
    qed
  qed
  have acts: "Assignment_GetActiveByTask taskID m' = Inr a \<longleftrightarrow> ar_assignment r = Some a"
    "ar_assignment r = Some (new_assignment env taskID agentID)" for a
    using one recorded(7) by (auto simp: r assign_result_def)
  have proj: "t_project task = caller" "ag_project agent = caller" "ag_status agent = AgentIdle"
    using recorded(3) by (simp_all add: assign_allowed_def)
  have upd: "t_required (ar_task r) = t_required ?t" "t_assignee (ar_task r) = agentID"
    "ev_action (the (ar_event r))
       = (if t_assignee task = uuid_nil then ActAssign else ActReassign)"
    by (simp_all add: r assign_result_def new_event_def)
  show ?thesis
    by (rule exI [of _ task], rule exI [of _ agent], intro conjI allI impI)
       (fact recorded(1,2) proj tasks upd(2,3) acts evs others
        | use recorded(4) in \<open>simp only: upd(1)\<close>)+
qed (use new in auto)

definition sample_assign :: mem_store where
  "sample_assign = NewMemoryStore\<lparr>ms_tasks := [1 \<mapsto>
     \<lparr>t_id = 1, t_project = 3, t_title = ''t'', t_description = '''', t_status = TaskBacklog,
      t_priority = PriorityMedium, t_assignee = 0, t_assignee_agent = '''',
      t_required = [''coding''], t_position = 0, t_created = 1, t_updated = 1\<rparr>],
   ms_agents := [6 \<mapsto> sample_agent 6 [''coding'']]\<rparr>"

definition sample_assign_env :: assign_env where
  "sample_assign_env = \<lparr>ae_now = 5, ae_assignment = 10, ae_event = 11\<rparr>"

lemma sample_assign_ready: "assign_ready sample_assign" "fresh_env sample_assign_env sample_assign"
  by (simp_all add: assign_ready_def fresh_env_def sample_assign_def sample_assign_env_def
      assign_inv_def events_inv_def keyed_by_def NewMemoryStore_def)

lemmas assign_eval =
  AssignTaskToAgent_def assign_record_def assign_tx_def sample_assign_def sample_assign_env_def
  sample_agent_def NewMemoryStore_def Let_def Task_GetByID_def Agent_GetByID_def put_task_def
  ValidateAgentHasCapabilities_def Agent_ListCapabilities_def Assignment_GetActiveByTask_def
  Assignment_Create_def Event_Append_def Task_Update_def MaxAssignmentNotesBytes_def
  IsValidAssignmentAction_def AllAssignmentActions_def assignment_validators

theorem AssignTaskToAgent_records_witness:
  "\<exists>r m'. AssignTaskToAgent (\<lambda>_. '''') sample_assign_env 1 6 ''n'' None [] 3 sample_assign
      = (Inr r, m') \<and> \<not> ar_idempotent r
    \<and> Assignment_GetActiveByTask 1 m' = Inr (new_assignment sample_assign_env 1 6)"
proof -
  let ?c = "AssignTaskToAgent (\<lambda>_. '''') sample_assign_env 1 6 ''n'' None [] 3 sample_assign"
  obtain r m' where c: "?c = (Inr r, m')" and n: "\<not> ar_idempotent r"
    by (simp add: assign_eval)
  from AssignTaskToAgent_records [OF sample_assign_ready c n] c n show ?thesis by auto
qed

section \<open>Runs of assignment calls\<close>

text \<open>Any sequence of calls, each with ids that are new at that moment, failed calls included.\<close>

inductive assign_steps :: "(uuid \<Rightarrow> string) \<Rightarrow> mem_store \<Rightarrow> mem_store \<Rightarrow> bool"
  for ustr m where
  start: "assign_steps ustr m m"
| call: "assign_steps ustr m m1 \<Longrightarrow> fresh_env env m1
    \<Longrightarrow> AssignTaskToAgent ustr env taskID agentID msg assignedBy caps caller m1 = (res, m2)
    \<Longrightarrow> assign_steps ustr m m2"

text \<open>The assignee of the task row is the agent of the active assignment, or nil without one.\<close>

definition assignee_agrees :: "mem_store \<Rightarrow> bool" where
  "assignee_agrees m \<longleftrightarrow>
     (\<forall>k t. ms_tasks m k = Some t \<longrightarrow>
        t_assignee t = (case Assignment_GetActiveByTask k m of
                          Inl _ \<Rightarrow> uuid_nil | Inr a \<Rightarrow> as_agent a))"

lemma AssignTaskToAgent_keeps:
  assumes inv: "assign_ready m" and agree: "assignee_agrees m" and ids: "fresh_env env m"
    and c: "AssignTaskToAgent ustr env taskID agentID msg assignedBy caps caller m = (res, m')"
  shows "assign_ready m' \<and> assignee_agrees m'"
  using inv ids c
proof (cases rule: AssignTaskToAgent_outcomes)
  case refused
  with inv agree show ?thesis by simp
next
  case (lacking task agent)
  from assign_ready_put [OF inv lacking(1), of caps] inv lacking agree
  show ?thesis by (auto simp: assignee_agrees_def assign_ready_def dest: keyed_byD)
next
  case (again task agent)
  from assign_ready_put [OF inv again(1), of caps] inv again agree
  show ?thesis by (auto simp: assignee_agrees_def assign_ready_def dest: keyed_byD)
next
  case (recorded task agent)
  let ?t = "required_task caps task" and ?m = "put_task (required_task caps task) m"
  have ids': "fresh_env env ?m" using ids by (simp add: fresh_env_def)
  have f: "t_assignee ?t \<noteq> agentID" using recorded(5) by simp
  from assign_record_ok [OF assign_ready_put(1) [OF inv recorded(1)] ids' recorded(6)
      assign_ready_put(2) [OF inv recorded(1)] f, of msg assignedBy] recorded(9)
  have ready: "assign_ready m'"
    and act: "ms_active m' taskID = Some (ae_assignment env)"
    and tasks: "ms_tasks m' = (ms_tasks ?m)
      (taskID \<mapsto> ar_task (assign_result env ?t agentID msg assignedBy))"
    and asg: "ms_assignments m' = (case Assignment_GetActiveByTask taskID ?m of
          Inl _ \<Rightarrow> ms_assignments ?m
        | Inr p \<Rightarrow> (ms_assignments ?m)(as_id p \<mapsto> superseded (ae_now env) p))
        (ae_assignment env \<mapsto> new_assignment env taskID agentID)"
    by auto
  have ai: "assign_inv m" "assign_inv m'" using inv ready by (simp_all add: assign_ready_def)
  have other: "Assignment_GetActiveByTask k m' = Assignment_GetActiveByTask k m" if "k \<noteq> taskID" for k
  proof (rule GetActiveByTask_cong [OF ai(2,1)])
    fix a :: assignment
    assume a: "as_task a = k" "as_status a = AsActive"
    show "ms_assignments m' (as_id a) = Some a \<longleftrightarrow> ms_assignments m (as_id a) = Some a"
    proof (cases "Assignment_GetActiveByTask taskID m")
      case (Inl e)
      with a that asg ids show ?thesis by (auto simp: new_assignment_def fresh_env_def)
    next
      case (Inr p)
      then have p: "ms_assignments m (as_id p) = Some p" "as_task p = taskID"
        using GetActiveByTask_iff [OF ai(1), of taskID p] by simp_all
      have "ms_assignments m' (as_id a) =
          (if as_id a = ae_assignment env then Some (new_assignment env taskID agentID)
           else if as_id a = as_id p then Some (superseded (ae_now env) p)
           else ms_assignments m (as_id a))"
        unfolding asg using Inr by simp
      with a that p ids show ?thesis
        by (auto simp: superseded_def new_assignment_def fresh_env_def split: if_splits)
    qed
  qed
  have new: "Assignment_GetActiveByTask taskID m' = Inr (new_assignment env taskID agentID)"
    using act asg by (simp add: Assignment_GetActiveByTask_def)
  have "assignee_agrees m'"
    unfolding assignee_agrees_def
  proof (intro allI impI)
    fix k t assume k: "ms_tasks m' k = Some t"
    show "t_assignee t = (case Assignment_GetActiveByTask k m' of
                          Inl _ \<Rightarrow> uuid_nil | Inr a \<Rightarrow> as_agent a)"
    proof (cases "k = taskID")
      case True
      with k tasks new show ?thesis by (auto simp: assign_result_def new_assignment_def)
    next
      case False
      with k tasks recorded(7) have "ms_tasks m k = Some t" by simp
      with agree False other show ?thesis by (simp add: assignee_agrees_def)
    qed
  qed
  with ready show ?thesis by simp
qed

text \<open>
  C28: no sequence of assignment calls, failed ones included, leaves a task with two active
  assignments or lets the assignee of a task row differ from the agent of its active assignment.
\<close>

theorem assignments_stay_consistent:
  assumes run: "assign_steps ustr m m'" and "assign_ready m" "assignee_agrees m"
  shows "(\<forall>j k a b. ms_assignments m' j = Some a \<longrightarrow> ms_assignments m' k = Some b
            \<longrightarrow> as_status a = AsActive \<longrightarrow> as_status b = AsActive \<longrightarrow> as_task a = as_task b \<longrightarrow> j = k)
    \<and> (\<forall>k t. ms_tasks m' k = Some t \<longrightarrow>
        t_assignee t = (case Assignment_GetActiveByTask k m' of
                          Inl _ \<Rightarrow> uuid_nil | Inr a \<Rightarrow> as_agent a))"
proof -
  have "assign_ready m' \<and> assignee_agrees m'"
    using run
  proof (induction rule: assign_steps.induct)
    case start
    show ?case using assms(2,3) by simp
  next
    case (call m1 env taskID agentID msg assignedBy caps caller res m2)
    then show ?case using AssignTaskToAgent_keeps by blast
  qed
  then show ?thesis
    using one_active unfolding assign_ready_def assignee_agrees_def by blast
qed

theorem assignments_stay_consistent_witness:
  "\<exists>m'. assign_steps (\<lambda>_. '''') sample_assign m' \<and> m' \<noteq> sample_assign
    \<and> (\<forall>t. ms_tasks m' 1 = Some t \<longrightarrow> t_assignee t = 6)"
proof -
  obtain r m' where c: "AssignTaskToAgent (\<lambda>_. '''') sample_assign_env 1 6 ''n'' None [] 3 sample_assign
      = (Inr r, m')" and d: "ms_assignments m' 10 \<noteq> None"
    and a: "Assignment_GetActiveByTask 1 m' = Inr (new_assignment sample_assign_env 1 6)"
    by (simp add: assign_eval) (simp add: assign_eval new_assignment_def)
  have run: "assign_steps (\<lambda>_. '''') sample_assign m'"
    by (rule assign_steps.call [OF assign_steps.start sample_assign_ready(2) c])
  have agree: "assignee_agrees sample_assign"
    by (simp add: assignee_agrees_def sample_assign_def NewMemoryStore_def
        Assignment_GetActiveByTask_def)
  from assignments_stay_consistent [OF run sample_assign_ready(1) agree] a
  have "\<forall>t. ms_tasks m' 1 = Some t \<longrightarrow> t_assignee t = 6" by (simp add: new_assignment_def)
  moreover have "m' \<noteq> sample_assign"
    using d by (auto simp: sample_assign_def NewMemoryStore_def)
  ultimately show ?thesis using run by blast
qed

text \<open>
  A call refused because the agent lacks a required capability still replaces the required
  capabilities of the task row.
\<close>

theorem refused_assignment_changes_task:
  assumes "ms_tasks m taskID = Some task" "ms_agents m agentID = Some agent"
    and "assign_allowed msg caller task agent" "t_id task = taskID"
    and "caps \<noteq> []" "\<not> set caps \<subseteq> set (ag_capabilities agent)"
  shows "\<exists>m'. AssignTaskToAgent ustr env taskID agentID msg assignedBy caps caller m
      = (Inl (capabilityMismatch (filter (\<lambda>r. r \<notin> set (ag_capabilities agent)) caps)), m')
    \<and> ms_tasks m' = (ms_tasks m)(taskID \<mapsto> task\<lparr>t_required := caps\<rparr>)"
  using AssignTaskToAgent_allowed [OF assms(1-3), of ustr env assignedBy caps] assms(4-6)
  by (simp add: required_task_def)

theorem refused_assignment_changes_task_witness:
  "\<exists>m'. AssignTaskToAgent (\<lambda>_. '''') sample_assign_env 1 6 '''' None [''security''] 3 sample_assign
      = (Inl (capabilityMismatch [''security'']), m') \<and> ms_tasks m' \<noteq> ms_tasks sample_assign"
proof -
  obtain t a where t: "ms_tasks sample_assign 1 = Some t" "ms_agents sample_assign 6 = Some a"
    "assign_allowed '''' 3 t a" "t_id t = 1" "ag_capabilities a = [''coding'']"
    "t_required t = [''coding'']"
    by (simp add: sample_assign_def sample_agent_def assign_allowed_def MaxAssignmentNotesBytes_def)
  from refused_assignment_changes_task [OF t(1-4), of "[''security'']" "\<lambda>_. ''''" sample_assign_env None]
    t(5) obtain m' where m': "AssignTaskToAgent (\<lambda>_. '''') sample_assign_env 1 6 '''' None
        [''security''] 3 sample_assign = (Inl (capabilityMismatch [''security'']), m')"
      "ms_tasks m' = (ms_tasks sample_assign)(1 \<mapsto> t\<lparr>t_required := [''security'']\<rparr>)"
    by auto
  then have "map_option t_required (ms_tasks m' 1) = Some [''security'']" by simp
  moreover have "map_option t_required (ms_tasks sample_assign 1) = Some [''coding'']"
    using t(1,6) by simp
  ultimately have "ms_tasks m' \<noteq> ms_tasks sample_assign" by auto
  with m'(1) show ?thesis by blast
qed

end
