(* ===== verification/Deliverable_Service.thy ===== *)
theory Deliverable_Service
  imports Errors Store_Keyset Store_Agents
begin

text \<open>
  Deliverables and their history: src/src/internal/service/deliverable.go over the tables of
  deliverables and deliverable versions. An update is written as the three accesses to the store
  that other requests can come between: the read with its checks, the insertion of the version
  row, and the update of the main row.
\<close>

section \<open>The service\<close>

record create_deliverable_request =
  cd_task :: uuid
  cd_agent :: uuid
  cd_title :: string
  cd_content :: string
  cd_by :: "uuid option"

record update_deliverable_request =
  ud_title :: string
  ud_content :: string
  ud_by :: "uuid option"

text \<open>The instant and the fresh ids a call takes from outside.\<close>

record deliv_env =
  de_now :: go_time
  de_deliverable :: uuid
  de_version :: uuid

definition title_errors :: "string \<Rightarrow> field_errors" where
  "title_errors title = NotEmpty title ''title'' ''Title'' []"

definition content_too_large :: service_error where
  "content_too_large = payloadTooLarge ''Deliverable content exceeds maximum allowed size''
     MaxDeliverableContentBytes"

definition CreateDeliverable ::
  "deliv_env \<Rightarrow> create_deliverable_request \<Rightarrow> uuid \<Rightarrow> mem_store
   \<Rightarrow> (service_error + deliverable) \<times> mem_store" where
  "CreateDeliverable env req caller m =
     (if HasErrors (title_errors (cd_title req))
      then (Inl (validationError (title_errors (cd_title req))), m)
      else if caller = uuid_nil then (Inl missingProjectHeader, m)
      else case Task_GetByID (cd_task req) m of
             Inl ErrNotFound \<Rightarrow> (Inl (notFound ''Task not found''), m)
           | Inl _ \<Rightarrow> (Inl (internalError ''Failed to fetch parent task''), m)
           | Inr task \<Rightarrow>
      if t_project task \<noteq> caller then (Inl crossTenantBlocked, m)
      else case Agent_GetByID (cd_agent req) m of
             Inl ErrNotFound \<Rightarrow> (Inl (notFound ''Agent not found''), m)
           | Inl _ \<Rightarrow> (Inl (internalError ''Failed to fetch parent agent''), m)
           | Inr agent \<Rightarrow>
      if ag_project agent \<noteq> caller then (Inl crossTenantBlocked, m)
      else if t_project task \<noteq> ag_project agent then (Inl crossTenantBlocked, m)
      else if int (length (cd_content req)) > MaxDeliverableContentBytes
        then (Inl content_too_large, m)
      else
        let d = \<lparr>d_id = de_deliverable env, d_task = cd_task req, d_agent = cd_agent req,
                 d_title = cd_title req, d_content = cd_content req, d_version = 1,
                 d_created = de_now env, d_updated = de_now env\<rparr>;
            v = \<lparr>dv_id = de_version env, dv_deliverable = d_id d, dv_version = 1,
                 dv_title = cd_title req, dv_content = cd_content req, dv_created = de_now env,
                 dv_by = cd_by req\<rparr>;
            failed = (\<lambda>e. if e = ErrAlreadyExists
              then conflict ''Deliverable already exists (id collision; retry)''
              else internalError ''Failed to create deliverable'')
        in case Deliverable_Create d m of
             Inl e \<Rightarrow> (Inl (failed e), m)
           | Inr m1 \<Rightarrow>
               (case DeliverableVersion_Insert (de_version env) (de_now env) v m1 of
                  Inl e \<Rightarrow> (Inl (failed e), m1)
                | Inr m2 \<Rightarrow> (Inr d, m2)))"

definition GetDeliverable ::
  "uuid \<Rightarrow> uuid \<Rightarrow> mem_store \<Rightarrow> service_error + deliverable" where
  "GetDeliverable k caller m =
     (if caller = uuid_nil then Inl missingProjectHeader
      else case Deliverable_GetByID k m of
             Inl ErrNotFound \<Rightarrow> Inl (notFound ''Deliverable not found'')
           | Inl _ \<Rightarrow> Inl (internalError ''Failed to get deliverable'')
           | Inr d \<Rightarrow>
               (case Task_GetByID (d_task d) m of
                  Inl ErrNotFound \<Rightarrow> Inl (notFound ''Parent task not found'')
                | Inl _ \<Rightarrow> Inl (internalError ''Failed to get parent task'')
                | Inr task \<Rightarrow> if t_project task \<noteq> caller then Inl crossTenantBlocked else Inr d))"

definition ListDeliverables ::
  "deliverable_filter \<Rightarrow> uuid \<Rightarrow> uuid list \<Rightarrow> mem_store \<Rightarrow> service_error + deliverable_page" where
  "ListDeliverables f caller ks m =
     (let task_check = (if df_task f = uuid_nil then Inr ()
            else case Task_GetByID (df_task f) m of
                   Inl ErrNotFound \<Rightarrow> Inl (notFound ''Task not found'')
                 | Inl _ \<Rightarrow> Inl (internalError ''Failed to resolve task filter'')
                 | Inr task \<Rightarrow> if t_project task \<noteq> caller then Inl crossTenantBlocked else Inr ());
          agent_check = (if df_agent f = uuid_nil then Inr ()
            else case Agent_GetByID (df_agent f) m of
                   Inl ErrNotFound \<Rightarrow> Inl (notFound ''Agent not found'')
                 | Inl _ \<Rightarrow> Inl (internalError ''Failed to resolve agent filter'')
                 | Inr agent \<Rightarrow> if ag_project agent \<noteq> caller then Inl crossTenantBlocked else Inr ())
      in if df_task f = uuid_nil \<and> df_agent f = uuid_nil
         then Inl (validationSingle ''filter'' ''Provide task_id or agent_id to filter'')
         else if caller = uuid_nil then Inl missingProjectHeader
         else case task_check of
                Inl e \<Rightarrow> Inl e
              | Inr _ \<Rightarrow> (case agent_check of
                            Inl e \<Rightarrow> Inl e | Inr _ \<Rightarrow> Inr (Deliverable_List f ks m)))"

text \<open>UpdateDeliverable, up to the row it has read.\<close>

definition UpdateDeliverable_read ::
  "uuid \<Rightarrow> update_deliverable_request \<Rightarrow> uuid \<Rightarrow> mem_store \<Rightarrow> service_error + deliverable" where
  "UpdateDeliverable_read k req caller m =
     (if HasErrors (title_errors (ud_title req))
      then Inl (validationError (title_errors (ud_title req)))
      else if int (length (ud_content req)) > MaxDeliverableContentBytes
        then Inl content_too_large
      else if caller = uuid_nil then Inl missingProjectHeader
      else case Deliverable_GetByID k m of
             Inl ErrNotFound \<Rightarrow> Inl (notFound ''Deliverable not found'')
           | Inl _ \<Rightarrow> Inl (internalError ''Failed to read deliverable'')
           | Inr current \<Rightarrow>
               (case Task_GetByID (d_task current) m of
                  Inl ErrNotFound \<Rightarrow> Inl (notFound ''Parent task not found'')
                | Inl _ \<Rightarrow> Inl (internalError ''Failed to read parent task'')
                | Inr task \<Rightarrow>
                    if t_project task \<noteq> caller then Inl crossTenantBlocked else Inr current))"

text \<open>The two rows it computes from it.\<close>

definition updated_row :: "deliv_env \<Rightarrow> update_deliverable_request \<Rightarrow> deliverable \<Rightarrow> deliverable" where
  "updated_row env req current =
     current\<lparr>d_title := ud_title req, d_content := ud_content req,
       d_version := wrap64 (d_version current + 1), d_updated := de_now env\<rparr>"

definition version_row ::
  "deliv_env \<Rightarrow> update_deliverable_request \<Rightarrow> deliverable \<Rightarrow> deliverable_version" where
  "version_row env req current =
     \<lparr>dv_id = de_version env, dv_deliverable = d_id current,
      dv_version = wrap64 (d_version current + 1), dv_title = ud_title req,
      dv_content = ud_content req, dv_created = de_now env, dv_by = ud_by req\<rparr>"

definition update_error :: "store_error \<Rightarrow> service_error" where
  "update_error e =
     (case e of
        ErrAlreadyExists \<Rightarrow> conflict ''Duplicate version; another update is in progress''
      | ErrNotFound \<Rightarrow> notFound ''Deliverable not found''
      | _ \<Rightarrow> internalError ''Failed to update deliverable'')"

definition UpdateDeliverable_insert ::
  "deliv_env \<Rightarrow> update_deliverable_request \<Rightarrow> deliverable \<Rightarrow> mem_store
   \<Rightarrow> (service_error + deliverable) \<times> mem_store" where
  "UpdateDeliverable_insert env req current m =
     (case DeliverableVersion_Insert (de_version env) (de_now env) (version_row env req current) m of
        Inl e \<Rightarrow> (Inl (update_error e), m)
      | Inr m1 \<Rightarrow> (Inr (updated_row env req current), m1))"

definition UpdateDeliverable_main ::
  "deliverable \<Rightarrow> mem_store \<Rightarrow> (service_error + deliverable) \<times> mem_store" where
  "UpdateDeliverable_main updated m =
     (case Deliverable_Update updated m of
        Inl e \<Rightarrow> (Inl (update_error e), m) | Inr m1 \<Rightarrow> (Inr updated, m1))"

definition UpdateDeliverable ::
  "deliv_env \<Rightarrow> uuid \<Rightarrow> update_deliverable_request \<Rightarrow> uuid \<Rightarrow> mem_store
   \<Rightarrow> (service_error + deliverable) \<times> mem_store" where
  "UpdateDeliverable env k req caller m =
     (case UpdateDeliverable_read k req caller m of
        Inl e \<Rightarrow> (Inl e, m)
      | Inr current \<Rightarrow>
          (case UpdateDeliverable_insert env req current m of
             (Inl e, m1) \<Rightarrow> (Inl e, m1)
           | (Inr updated, m1) \<Rightarrow> UpdateDeliverable_main updated m1))"

definition ListDeliverableVersions ::
  "uuid \<Rightarrow> uuid \<Rightarrow> (uuid \<Rightarrow> (uuid \<times> int) list) \<Rightarrow> mem_store
   \<Rightarrow> service_error + deliverable_version list" where
  "ListDeliverableVersions k caller kss m =
     (if caller = uuid_nil then Inl missingProjectHeader
      else case Deliverable_GetByID k m of
             Inl ErrNotFound \<Rightarrow> Inl (notFound ''Deliverable not found'')
           | Inl _ \<Rightarrow> Inl (internalError ''Failed to list versions'')
           | Inr d \<Rightarrow>
               (case Task_GetByID (d_task d) m of
                  Inl ErrNotFound \<Rightarrow> Inl (notFound ''Parent task not found'')
                | Inl _ \<Rightarrow> Inl (internalError ''Failed to read parent task'')
                | Inr task \<Rightarrow>
                    if t_project task \<noteq> caller then Inl crossTenantBlocked
                    else Inr (DeliverableVersion_ListVersions k kss m)))"

section \<open>Interleaved requests\<close>

text \<open>
  A state of a run: the store, the rows read by updates that have not yet written, and the main
  rows of updates whose version row is in and whose main row is still to be written.
\<close>

record deliv_run =
  dr_store :: mem_store
  dr_read :: "deliverable list"
  dr_inserted :: "deliverable list"

text \<open>Ids that no row has, and a clock that is past the zero instant.\<close>

definition deliv_fresh :: "deliv_env \<Rightarrow> mem_store \<Rightarrow> bool" where
  "deliv_fresh env m \<longleftrightarrow>
     de_now env \<noteq> zero_time \<and> de_version env \<noteq> uuid_nil
     \<and> (\<forall>v \<in> ran (ms_dversions m). dv_id v \<noteq> de_version env)"

inductive deliv_step :: "deliv_run \<Rightarrow> deliv_run \<Rightarrow> bool" where
  create: "deliv_fresh env (dr_store s)
    \<Longrightarrow> CreateDeliverable env req caller (dr_store s) = (res, m)
    \<Longrightarrow> deliv_step s (s\<lparr>dr_store := m\<rparr>)"
| read: "UpdateDeliverable_read k req caller (dr_store s) = Inr current
    \<Longrightarrow> deliv_step s (s\<lparr>dr_read := current # dr_read s\<rparr>)"
| insert: "current \<in> set (dr_read s) \<Longrightarrow> deliv_fresh env (dr_store s)
    \<Longrightarrow> d_version current < max_int64
    \<Longrightarrow> UpdateDeliverable_insert env req current (dr_store s) = (Inr updated, m)
    \<Longrightarrow> deliv_step s (s\<lparr>dr_store := m, dr_inserted := updated # dr_inserted s\<rparr>)"
| refused: "current \<in> set (dr_read s) \<Longrightarrow> deliv_fresh env (dr_store s)
    \<Longrightarrow> d_version current < max_int64
    \<Longrightarrow> UpdateDeliverable_insert env req current (dr_store s) = (Inl e, m)
    \<Longrightarrow> deliv_step s (s\<lparr>dr_store := m\<rparr>)"
| main: "updated \<in> set (dr_inserted s)
    \<Longrightarrow> UpdateDeliverable_main updated (dr_store s) = (res, m)
    \<Longrightarrow> deliv_step s (s\<lparr>dr_store := m, dr_inserted := remove1 updated (dr_inserted s)\<rparr>)"

section \<open>The invariant\<close>

text \<open>The number of versions a deliverable has rows for.\<close>

definition top_version :: "deliverable list \<Rightarrow> deliverable \<Rightarrow> int" where
  "top_version ins d = (if d_id d \<in> d_id ` set ins then d_version d + 1 else d_version d)"

definition main_ok :: "mem_store \<Rightarrow> deliverable list \<Rightarrow> deliverable \<Rightarrow> bool" where
  "main_ok m ins d \<longleftrightarrow>
     1 \<le> d_version d \<and> top_version ins d \<le> max_int64
     \<and> (\<forall>n. ms_dversions m (d_id d, n) \<noteq> None \<longleftrightarrow> 1 \<le> n \<and> n \<le> top_version ins d)
     \<and> (\<forall>v. ms_dversions m (d_id d, d_version d) = Some v \<longrightarrow>
          dv_title v = d_title d \<and> dv_content v = d_content d)"

definition inserted_ok :: "mem_store \<Rightarrow> deliverable \<Rightarrow> bool" where
  "inserted_ok m u \<longleftrightarrow>
     (\<exists>d v. ms_deliverables m (d_id u) = Some d \<and> d_version u = d_version d + 1
        \<and> ms_dversions m (d_id u, d_version u) = Some v
        \<and> dv_title v = d_title u \<and> dv_content v = d_content u)"

definition read_ok :: "mem_store \<Rightarrow> deliverable \<Rightarrow> bool" where
  "read_ok m c \<longleftrightarrow>
     (\<exists>d. ms_deliverables m (d_id c) = Some d \<and> 1 \<le> d_version c \<and> d_version c \<le> d_version d)"

definition ids_ok :: "mem_store \<Rightarrow> bool" where
  "ids_ok m \<longleftrightarrow>
     inj_on (\<lambda>k. dv_id (the (ms_dversions m k))) (dom (ms_dversions m))
     \<and> (\<forall>k n v. ms_dversions m (k, n) = Some v \<longrightarrow> dv_deliverable v = k \<and> dv_version v = n)
     \<and> (\<forall>k. distinct (ms_dversion_ids m k)
          \<and> set (ms_dversion_ids m k) = {dv_id v |v n. ms_dversions m (k, n) = Some v})"

definition deliv_ok :: "mem_store \<Rightarrow> deliverable list \<Rightarrow> deliverable list \<Rightarrow> bool" where
  "deliv_ok m rs ins \<longleftrightarrow>
     keyed_by d_id (ms_deliverables m) \<and> ids_ok m
     \<and> (\<forall>k n. ms_dversions m (k, n) \<noteq> None \<longrightarrow> ms_deliverables m k \<noteq> None)
     \<and> (\<forall>k d. ms_deliverables m k = Some d \<longrightarrow> main_ok m ins d)
     \<and> (\<forall>u \<in> set ins. inserted_ok m u) \<and> distinct (map d_id ins)
     \<and> (\<forall>c \<in> set rs. read_ok m c)"

abbreviation deliv_inv :: "deliv_run \<Rightarrow> bool" where
  "deliv_inv s \<equiv> deliv_ok (dr_store s) (dr_read s) (dr_inserted s)"

lemma deliv_okI:
  assumes "keyed_by d_id (ms_deliverables m)" "ids_ok m"
    and "\<And>k n. ms_dversions m (k, n) \<noteq> None \<Longrightarrow> ms_deliverables m k \<noteq> None"
    and "\<And>k d. ms_deliverables m k = Some d \<Longrightarrow> main_ok m ins d"
    and "\<And>u. u \<in> set ins \<Longrightarrow> inserted_ok m u" and "distinct (map d_id ins)"
    and "\<And>c. c \<in> set rs \<Longrightarrow> read_ok m c"
  shows "deliv_ok m rs ins"
  using assms unfolding deliv_ok_def by blast

lemma deliv_okD:
  assumes "deliv_ok m rs ins"
  shows "keyed_by d_id (ms_deliverables m)" "ids_ok m"
    "ms_deliverables m k = None \<Longrightarrow> ms_dversions m (k, n) = None"
    "ms_deliverables m k = Some d \<Longrightarrow> main_ok m ins d"
    "ms_deliverables m k = Some d \<Longrightarrow> d_id d = k"
    "u \<in> set ins \<Longrightarrow> inserted_ok m u" "distinct (map d_id ins)"
    "c \<in> set rs \<Longrightarrow> read_ok m c"
  using assms unfolding deliv_ok_def keyed_by_def by blast+

lemma deliv_ok_start:
  assumes "ms_deliverables m = Map.empty" "ms_dversions m = Map.empty" "ms_dversion_ids m = (\<lambda>_. [])"
  shows "deliv_ok m [] []"
  using assms by (simp add: deliv_ok_def ids_ok_def)

text \<open>What an insertion does, when its row has an id and an instant.\<close>

lemma Insert_row:
  assumes "dv_id v \<noteq> uuid_nil" "dv_created v \<noteq> zero_time"
  shows "DeliverableVersion_Insert fresh now v m =
    (if ms_dversions m (dv_deliverable v, dv_version v) \<noteq> None then Inl ErrAlreadyExists
     else Inr (m\<lparr>ms_dversions := (ms_dversions m)((dv_deliverable v, dv_version v) \<mapsto> v),
       ms_dversion_ids := (ms_dversion_ids m)(dv_deliverable v :=
          ms_dversion_ids m (dv_deliverable v) @ [dv_id v])\<rparr>))"
  using assms by (simp add: DeliverableVersion_Insert_def Let_def)

lemma ids_ok_insert:
  assumes ok: "ids_ok m" and new: "ms_dversions m (dv_deliverable v, dv_version v) = None"
    and fresh: "\<forall>w \<in> ran (ms_dversions m). dv_id w \<noteq> dv_id v"
  shows "ids_ok (m\<lparr>ms_dversions := (ms_dversions m)((dv_deliverable v, dv_version v) \<mapsto> v),
       ms_dversion_ids := (ms_dversion_ids m)(dv_deliverable v :=
          ms_dversion_ids m (dv_deliverable v) @ [dv_id v])\<rparr>)"
proof -
  let ?k = "(dv_deliverable v, dv_version v)" and ?T = "ms_dversions m"
  have inj: "inj_on (\<lambda>k. dv_id (the ((?T(?k \<mapsto> v)) k))) (dom (?T(?k \<mapsto> v)))"
  proof (rule inj_onI)
    fix a b assume ab: "a \<in> dom (?T(?k \<mapsto> v))" "b \<in> dom (?T(?k \<mapsto> v))"
      "dv_id (the ((?T(?k \<mapsto> v)) a)) = dv_id (the ((?T(?k \<mapsto> v)) b))"
    have old: "dv_id (the (?T c)) \<noteq> dv_id v" if dom: "c \<in> dom ?T" for c
    proof -
      obtain y where "?T c = Some y" using dom by blast
      with fresh show ?thesis by (auto dest: ranI)
    qed
    show "a = b"
    proof (cases "a = ?k \<or> b = ?k")
      case True
      with ab old [of a] old [of b] show ?thesis by (auto split: if_splits)
    next
      case False
      with ab ok show ?thesis by (auto simp: ids_ok_def dest: inj_onD)
    qed
  qed
  have "dv_id v \<notin> set (ms_dversion_ids m (dv_deliverable v))"
  proof
    assume "dv_id v \<in> set (ms_dversion_ids m (dv_deliverable v))"
    then obtain w n where "?T (dv_deliverable v, n) = Some w" "dv_id v = dv_id w"
      using ok by (auto simp: ids_ok_def)
    with fresh show False by (auto dest: ranI)
  qed
  moreover have "{dv_id w |w n. (?T(?k \<mapsto> v)) (k, n) = Some w}
     = (if k = dv_deliverable v then insert (dv_id v) {dv_id w |w n. ?T (k, n) = Some w}
        else {dv_id w |w n. ?T (k, n) = Some w})" for k
    using new by auto (metis option.distinct(1))
  ultimately show ?thesis
    using ok inj by (auto simp: ids_ok_def)
qed

lemma CreateDeliverable_cases:
  assumes "deliv_fresh env m" "CreateDeliverable env req caller m = (res, m')"
  obtains (same) e where "res = Inl e" "m' = m"
  | (orphan) k where "ms_deliverables m k = None" "ms_dversions m (k, 1) \<noteq> None"
  | (created) d v where "res = Inr d" "ms_deliverables m (d_id d) = None" "d_version d = 1"
      "dv_deliverable v = d_id d" "dv_version v = 1" "dv_id v = de_version env"
      "dv_title v = d_title d" "dv_content v = d_content d"
      "ms_dversions m (d_id d, 1) = None"
      "m' = m\<lparr>ms_deliverables := (ms_deliverables m)(d_id d \<mapsto> d),
              ms_dversions := (ms_dversions m)((d_id d, 1) \<mapsto> v),
              ms_dversion_ids := (ms_dversion_ids m)(d_id d := ms_dversion_ids m (d_id d) @ [dv_id v])\<rparr>"
proof -
  let ?d = "\<lparr>d_id = de_deliverable env, d_task = cd_task req, d_agent = cd_agent req,
    d_title = cd_title req, d_content = cd_content req, d_version = 1,
    d_created = de_now env, d_updated = de_now env\<rparr>"
  let ?v = "\<lparr>dv_id = de_version env, dv_deliverable = de_deliverable env, dv_version = 1,
    dv_title = cd_title req, dv_content = cd_content req, dv_created = de_now env,
    dv_by = cd_by req\<rparr>"
  have r: "DeliverableVersion_Insert (de_version env) (de_now env) ?v n =
    (if ms_dversions n (de_deliverable env, 1) \<noteq> None then Inl ErrAlreadyExists
     else Inr (n\<lparr>ms_dversions := (ms_dversions n)((de_deliverable env, 1) \<mapsto> ?v),
       ms_dversion_ids := (ms_dversion_ids n)(de_deliverable env :=
          ms_dversion_ids n (de_deliverable env) @ [de_version env])\<rparr>))" for n
    using assms(1) by (subst Insert_row) (simp_all add: deliv_fresh_def)
  consider (no) e where "res = Inl e" "m' = m"
    | (go) "ms_deliverables m (de_deliverable env) = None"
        "(case DeliverableVersion_Insert (de_version env) (de_now env) ?v
           (m\<lparr>ms_deliverables := (ms_deliverables m)(de_deliverable env \<mapsto> ?d)\<rparr>) of
            Inl e \<Rightarrow> (\<exists>e'. res = Inl e')
          | Inr m2 \<Rightarrow> res = Inr ?d \<and> m' = m2)"
    using assms(2)
    by (auto simp: CreateDeliverable_def Let_def Deliverable_Create_def
        split: if_splits sum.splits store_error.splits)
  then show thesis
  proof cases
    case no
    then show thesis by (rule same)
  next
    case go
    show thesis
    proof (cases "ms_dversions m (de_deliverable env, 1) = None")
      case True
      with go r show thesis by (intro created [of ?d ?v]) simp_all
    next
      case False
      with go(1) show thesis by (rule orphan)
    qed
  qed
qed

text \<open>Facts about a deliverable whose tables did not change for its key.\<close>

lemma main_ok_cong:
  assumes "main_ok m ins d" "\<And>n. ms_dversions m' (d_id d, n) = ms_dversions m (d_id d, n)"
    and "d_id d \<in> d_id ` set ins' \<longleftrightarrow> d_id d \<in> d_id ` set ins"
  shows "main_ok m' ins' d"
  using assms by (simp add: main_ok_def top_version_def)

lemma inserted_ok_cong:
  assumes "inserted_ok m u" "ms_deliverables m' (d_id u) = ms_deliverables m (d_id u)"
    and "\<And>n. ms_dversions m' (d_id u, n) = ms_dversions m (d_id u, n)"
  shows "inserted_ok m' u"
  using assms by (simp add: inserted_ok_def)

lemma read_ok_mono:
  assumes "read_ok m c" "\<And>d. ms_deliverables m (d_id c) = Some d \<Longrightarrow>
      \<exists>d'. ms_deliverables m' (d_id c) = Some d' \<and> d_version d \<le> d_version d'"
  shows "read_ok m' c"
  using assms unfolding read_ok_def by (meson order_trans)

lemma deliv_ok_create:
  assumes inv: "deliv_ok m rs ins" and f: "deliv_fresh env m"
    and c: "CreateDeliverable env req caller m = (res, m')"
  shows "deliv_ok m' rs ins"
  using f c
proof (cases rule: CreateDeliverable_cases)
  case same
  with inv show ?thesis by simp
next
  case (orphan k)
  with inv have False unfolding deliv_ok_def by blast
  then show ?thesis ..
next
  case (created d v)
  note I = deliv_okD [OF inv]
  have none: "ms_dversions m (d_id d, n) = None" for n
    using I(3) created(2) .
  have notin: "d_id d \<notin> d_id ` set ins"
    using I(6) created(2) unfolding inserted_ok_def by fastforce
  have other: "ms_deliverables m' k = ms_deliverables m k"
    "ms_dversions m' (k, n) = ms_dversions m (k, n)" if "k \<noteq> d_id d" for k n
    using that created(10) by simp_all
  have "ids_ok (m\<lparr>ms_dversions := (ms_dversions m)((dv_deliverable v, dv_version v) \<mapsto> v),
       ms_dversion_ids := (ms_dversion_ids m)(dv_deliverable v :=
          ms_dversion_ids m (dv_deliverable v) @ [dv_id v])\<rparr>)"
    using f created by (intro ids_ok_insert [OF I(2)]) (auto simp: deliv_fresh_def)
  then have ids: "ids_ok m'" using created by (simp add: ids_ok_def)
  have new: "main_ok m' ins d"
    using created none notin by (auto simp: main_ok_def top_version_def)
  show ?thesis
  proof (rule deliv_okI)
    show "keyed_by d_id (ms_deliverables m')" using I(1) created(10) by simp
    show "ids_ok m'" by (rule ids)
    show "ms_deliverables m' k \<noteq> None" if "ms_dversions m' (k, n) \<noteq> None" for k n
      using that other(1) [of k] other(2) [of k n] I(3) [of k n] created(10) by (cases "k = d_id d"; cases "ms_deliverables m k") auto
    show "main_ok m' ins e" if "ms_deliverables m' k = Some e" for k e
    proof (cases "k = d_id d")
      case True
      with that new created(10) show ?thesis by simp
    next
      case False
      with that other have old: "ms_deliverables m k = Some e" by simp
      show ?thesis
        by (rule main_ok_cong [OF I(4) [OF old]]) (use False other(2) I(5) [OF old] in auto)
    qed
    show "inserted_ok m' u" if "u \<in> set ins" for u
    proof -
      have "d_id u \<noteq> d_id d" using notin imageI [OF that, of d_id] by metis
      with other show ?thesis by (intro inserted_ok_cong [OF I(6) [OF that]]) simp_all
    qed
    show "distinct (map d_id ins)" by (rule I(7))
    show "read_ok m' c" if "c \<in> set rs" for c
    proof (rule read_ok_mono [OF I(8) [OF that]])
      fix e assume e: "ms_deliverables m (d_id c) = Some e"
      with created(2) have "d_id c \<noteq> d_id d" by auto
      with e other show "\<exists>e'. ms_deliverables m' (d_id c) = Some e' \<and> d_version e \<le> d_version e'"
        by simp
    qed
  qed
qed

lemma deliv_ok_insert:
  assumes inv: "deliv_ok m rs ins" and cur: "current \<in> set rs"
    and f: "deliv_fresh env m" and small: "d_version current < max_int64"
    and u: "UpdateDeliverable_insert env req current m = (Inr updated, m')"
  shows "deliv_ok m' rs (updated # ins)"
    "map_le (ms_dversions m) (ms_dversions m')"
proof -
  let ?v = "version_row env req current"
  note I = deliv_okD [OF inv]
  obtain d where d: "ms_deliverables m (d_id current) = Some d" "1 \<le> d_version current"
    "d_version current \<le> d_version d"
    using I(8) [OF cur] by (auto simp: read_ok_def)
  have did: "d_id d = d_id current" using I(5) [OF d(1)] .
  have next_v: "wrap64 (d_version current + 1) = d_version current + 1"
    using d(2) small by (intro wrap64_id) (simp add: is_int64_def)
  have row: "dv_deliverable ?v = d_id current" "dv_version ?v = d_version current + 1"
    "dv_id ?v = de_version env" "dv_title ?v = ud_title req" "dv_content ?v = ud_content req"
    by (simp_all add: version_row_def next_v)
  have ins: "DeliverableVersion_Insert (de_version env) (de_now env) ?v m =
    (if ms_dversions m (d_id current, d_version current + 1) \<noteq> None then Inl ErrAlreadyExists
     else Inr (m\<lparr>ms_dversions := (ms_dversions m)((d_id current, d_version current + 1) \<mapsto> ?v),
       ms_dversion_ids := (ms_dversion_ids m)(d_id current :=
          ms_dversion_ids m (d_id current) @ [de_version env])\<rparr>))"
    using f Insert_row [of ?v "de_version env" "de_now env" m] row
    by (simp add: deliv_fresh_def version_row_def)
  have new: "ms_dversions m (d_id current, d_version current + 1) = None"
    and upd: "updated = updated_row env req current"
    and m': "m' = m\<lparr>ms_dversions := (ms_dversions m)((d_id current, d_version current + 1) \<mapsto> ?v),
       ms_dversion_ids := (ms_dversion_ids m)(d_id current :=
          ms_dversion_ids m (d_id current) @ [de_version env])\<rparr>"
    using u unfolding UpdateDeliverable_insert_def ins by (auto split: if_splits)
  show "map_le (ms_dversions m) (ms_dversions m')"
    using new m' by (auto simp: map_le_def)
  have up: "d_id updated = d_id current" "d_version updated = d_version current + 1"
    "d_title updated = ud_title req" "d_content updated = ud_content req"
    by (simp_all add: upd updated_row_def next_v)
  have mo: "main_ok m ins d" using I(4) [OF d(1)] .
  have "\<not> (1 \<le> d_version current + 1 \<and> d_version current + 1 \<le> top_version ins d)"
    using mo new did unfolding main_ok_def by metis
  then have low: "top_version ins d \<le> d_version current" using d(2) by simp
  then have eqv: "d_version d = d_version current"
    using d(3) by (simp add: top_version_def split: if_splits)
  have notin: "d_id current \<notin> d_id ` set ins"
    using low eqv did by (simp add: top_version_def split: if_splits)
  have top: "top_version ins d = d_version current"
    using notin eqv did by (simp add: top_version_def)
  have ids: "ids_ok m'"
    using ids_ok_insert [OF I(2), of ?v] new f row unfolding m' by (simp add: deliv_fresh_def)
  have other: "ms_dversions m' (k, n) = ms_dversions m (k, n)" if "k \<noteq> d_id current" for k n
    using that m' by simp
  have main: "main_ok m' (updated # ins) d"
    using mo new did top notin eqv small up m' by (auto simp: main_ok_def top_version_def)
  have same: "ms_deliverables m' = ms_deliverables m" using m' by simp
  show "deliv_ok m' rs (updated # ins)"
  proof (rule deliv_okI)
    show "keyed_by d_id (ms_deliverables m')" using I(1) same by simp
    show "ids_ok m'" by (rule ids)
    show "ms_deliverables m' k \<noteq> None" if "ms_dversions m' (k, n) \<noteq> None" for k n
      using that other [of k n] I(3) [of k n] d(1) same
      by (cases "k = d_id current"; cases "ms_deliverables m k") auto
    show "main_ok m' (updated # ins) e" if e: "ms_deliverables m' k = Some e" for k e
    proof (cases "k = d_id current")
      case True
      with e d main same show ?thesis by simp
    next
      case False
      with e same have old: "ms_deliverables m k = Some e" by simp
      show ?thesis
        by (rule main_ok_cong [OF I(4) [OF old]]) (use False other up I(5) [OF old] in auto)
    qed
    show "inserted_ok m' x" if x: "x \<in> set (updated # ins)" for x
    proof (cases "x = updated")
      case True
      with d eqv up row m' show ?thesis by (simp add: inserted_ok_def)
    next
      case False
      with x have old: "x \<in> set ins" by simp
      have "d_id x \<noteq> d_id current" using notin imageI [OF old, of d_id] by metis
      with other same show ?thesis by (intro inserted_ok_cong [OF I(6) [OF old]]) simp_all
    qed
    show "distinct (map d_id (updated # ins))"
      using notin up I(7) by simp
    show "read_ok m' c" if "c \<in> set rs" for c
      using I(8) [OF that] same by (simp add: read_ok_def)
  qed
qed

text \<open>A refused insertion changes nothing.\<close>

lemma UpdateDeliverable_insert_Inl:
  "UpdateDeliverable_insert env req current m = (Inl e, m') \<Longrightarrow> m' = m"
  by (auto simp: UpdateDeliverable_insert_def split: sum.splits)

lemma deliv_ok_main:
  assumes inv: "deliv_ok m rs ins" and u: "updated \<in> set ins"
    and c: "UpdateDeliverable_main updated m = (res, m')"
  shows "deliv_ok m' rs (remove1 updated ins)"
    "res = Inr updated" "ms_dversions m' = ms_dversions m"
proof -
  let ?ins = "remove1 updated ins"
  note I = deliv_okD [OF inv]
  obtain d v where d: "ms_deliverables m (d_id updated) = Some d" "d_version updated = d_version d + 1"
    "ms_dversions m (d_id updated, d_version updated) = Some v"
    "dv_title v = d_title updated" "dv_content v = d_content updated"
    using I(6) [OF u] by (auto simp: inserted_ok_def)
  have m': "m' = m\<lparr>ms_deliverables := (ms_deliverables m)(d_id updated \<mapsto> updated)\<rparr>"
    and r: "res = Inr updated"
    using c d(1) by (auto simp: UpdateDeliverable_main_def Deliverable_Update_def)
  show "res = Inr updated" by (rule r)
  show dv: "ms_dversions m' = ms_dversions m" using m' by simp
  have dist: "distinct ins" using I(7) by (simp add: distinct_map)
  then have ins: "set ?ins = set ins - {updated}" by simp
  have uniq: "x = updated" if "x \<in> set ins" "d_id x = d_id updated" for x
    using I(7) that u by (auto simp: distinct_map dest: inj_onD)
  have did: "d_id d = d_id updated" using I(5) [OF d(1)] .
  have mo: "main_ok m ins d" using I(4) [OF d(1)] .
  have keys: "k \<in> d_id ` set ?ins \<longleftrightarrow> k \<in> d_id ` set ins \<and> k \<noteq> d_id updated" for k
    using ins uniq u by auto
  have top: "top_version ins d = d_version updated" "top_version ?ins updated = d_version updated"
    using u d(2) did keys by (auto simp: top_version_def)
  have main: "main_ok m' ?ins updated"
    using mo d did top dv by (simp add: main_ok_def)
  show "deliv_ok m' rs ?ins"
  proof (rule deliv_okI)
    show "keyed_by d_id (ms_deliverables m')" using I(1) m' by simp
    show "ids_ok m'" using I(2) m' by (simp add: ids_ok_def)
    show "ms_deliverables m' k \<noteq> None" if "ms_dversions m' (k, n) \<noteq> None" for k n
      using that I(3) [of k n] m' by (cases "ms_deliverables m k") auto
    show "main_ok m' ?ins e" if e: "ms_deliverables m' k = Some e" for k e
    proof (cases "k = d_id updated")
      case True
      with e m' main show ?thesis by simp
    next
      case False
      with e m' have old: "ms_deliverables m k = Some e" by simp
      show ?thesis
        by (rule main_ok_cong [OF I(4) [OF old]]) (use False keys I(5) [OF old] dv in auto)
    qed
    show "inserted_ok m' x" if x: "x \<in> set ?ins" for x
    proof -
      have old: "x \<in> set ins" "d_id x \<noteq> d_id updated"
        using x ins uniq by auto
      with m' show ?thesis by (intro inserted_ok_cong [OF I(6) [OF old(1)]]) simp_all
    qed
    show "distinct (map d_id ?ins)" using I(7) ins dist by (auto simp: distinct_map intro: inj_on_subset)
    show "read_ok m' c" if "c \<in> set rs" for c
      by (rule read_ok_mono [OF I(8) [OF that]]) (use d m' in auto)
  qed
qed

text \<open>Every step keeps the invariant, and every version row.\<close>

lemma UpdateDeliverable_read_Inr:
  "UpdateDeliverable_read k req caller m = Inr d \<longleftrightarrow>
     ms_deliverables m k = Some d \<and> TrimSpace (ud_title req) \<noteq> []
     \<and> int (length (ud_content req)) \<le> MaxDeliverableContentBytes \<and> caller \<noteq> uuid_nil
     \<and> (\<exists>t. ms_tasks m (d_task d) = Some t \<and> t_project t = caller)"
  by (auto simp: UpdateDeliverable_read_def Deliverable_GetByID_def Task_GetByID_def title_errors_def
      split: option.splits)

lemma deliv_step_keeps:
  assumes "deliv_step s s'" "deliv_inv s"
  shows "deliv_inv s' \<and> map_le (ms_dversions (dr_store s)) (ms_dversions (dr_store s'))"
  using assms
proof cases
  case (create env req caller res m)
  from create(2,3) have "map_le (ms_dversions (dr_store s)) (ms_dversions m)"
  proof (cases rule: CreateDeliverable_cases)
    case (orphan k)
    with assms(2) have False unfolding deliv_ok_def by blast
    then show ?thesis ..
  next
    case (created d v)
    then show ?thesis by (auto simp: map_le_def)
  qed simp
  with create deliv_ok_create [OF assms(2)] show ?thesis by auto
next
  case (read k req caller current)
  then have old: "ms_deliverables (dr_store s) k = Some current"
    by (simp add: UpdateDeliverable_read_Inr)
  note I = deliv_okD [OF assms(2)]
  have "read_ok (dr_store s) current"
    using old I(4,5) [OF old] by (auto simp: read_ok_def main_ok_def)
  with assms(2) read show ?thesis by (simp add: deliv_ok_def)
next
  case (insert current env req updated m)
  with deliv_ok_insert [OF assms(2)] show ?thesis by simp
next
  case (refused current env req e m)
  then have "m = dr_store s" using UpdateDeliverable_insert_Inl by blast
  with refused assms(2) show ?thesis by simp
next
  case (main updated res m)
  with deliv_ok_main [OF assms(2)] show ?thesis by simp
qed

lemma deliv_steps_keep:
  assumes "deliv_step\<^sup>*\<^sup>* s s'" "deliv_inv s"
  shows "deliv_inv s' \<and> map_le (ms_dversions (dr_store s)) (ms_dversions (dr_store s'))"
  using assms(1)
proof (induction rule: rtranclp_induct)
  case base
  show ?case using assms(2) by simp
next
  case (step t u)
  with deliv_step_keeps [OF step(2)] show ?case by (auto intro: map_le_trans)
qed

text \<open>Runs start on a store without deliverables.\<close>

definition deliv_start :: "mem_store \<Rightarrow> deliv_run" where
  "deliv_start m = \<lparr>dr_store = m\<lparr>ms_deliverables := Map.empty, ms_dversions := Map.empty,
     ms_dversion_ids := (\<lambda>_. [])\<rparr>, dr_read = [], dr_inserted = []\<rparr>"

lemma deliv_start_ok: "deliv_inv (deliv_start m)"
  by (simp add: deliv_start_def deliv_ok_start)

lemma deliv_reachable_ok: "deliv_step\<^sup>*\<^sup>* (deliv_start m) s \<Longrightarrow> deliv_inv s"
  using deliv_steps_keep deliv_start_ok by blast

lemma deliverable_rows:
  assumes run: "deliv_step\<^sup>*\<^sup>* (deliv_start m) s"
    and d: "ms_deliverables (dr_store s) k = Some d" and idle: "k \<notin> d_id ` set (dr_inserted s)"
  shows "ms_dversions (dr_store s) (k, n) \<noteq> None \<longleftrightarrow> 1 \<le> n \<and> n \<le> d_version d"
proof -
  note I = deliv_okD [OF deliv_reachable_ok [OF run]]
  have k: "d_id d = k" using I(5) [OF d] .
  have "top_version (dr_inserted s) d = d_version d" using idle k by (simp add: top_version_def)
  with I(4) [OF d] k show ?thesis by (simp add: main_ok_def)
qed

text \<open>The version list of a store with proper ids: the rows of the deliverable, each once.\<close>

interpretation version_order: weak_order "\<lambda>a b :: deliverable_version. dv_version b < dv_version a"
  by unfold_locales auto

lemma map_filter_keys:
  "(\<And>x. x \<in> set xs \<Longrightarrow> \<exists>v. f x = Some v \<and> g v = x) \<Longrightarrow> map g (List.map_filter f xs) = xs"
  by (induction xs) (force simp: List.map_filter_def)+

lemma ListVersions_rows:
  assumes ids: "ids_ok m" and ks: "\<And>vid. iterates (ms_dversions m) (kss vid)"
  shows "set (DeliverableVersion_ListVersions k kss m) = {v. \<exists>n. ms_dversions m (k, n) = Some v}"
    "sorted_wrt (\<lambda>v w. dv_version v \<ge> dv_version w) (DeliverableVersion_ListVersions k kss m)"
    "distinct (DeliverableVersion_ListVersions k kss m)"
proof -
  let ?T = "ms_dversions m" and ?ids = "ms_dversion_ids m k"
  define hit where "hit vid = List.find (\<lambda>v. dv_id v = vid) (range_values ?T (kss vid))" for vid
  have hit: "hit (dv_id v) = Some v" if v: "?T (k, n) = Some v" for n v
  proof -
    have vals: "set (range_values ?T (kss vid)) = ran ?T" for vid
      by (rule set_range_values_iterates [OF ks])
    have "v \<in> ran ?T" using v by (rule ranI)
    then have "v \<in> set (range_values ?T (kss (dv_id v)))" by (simp add: vals)
    then have "hit (dv_id v) \<noteq> None" unfolding hit_def find_None_iff by blast
    then obtain w where w: "hit (dv_id v) = Some w" by blast
    then have w': "dv_id w = dv_id v" "w \<in> ran ?T"
      unfolding hit_def find_Some_iff vals [symmetric, of "dv_id v"] by auto
    from w'(2) obtain a where a: "?T a = Some w" by (auto simp: ran_def)
    have "a = (k, n)"
    proof (rule inj_onD)
      show "inj_on (\<lambda>k. dv_id (the (?T k))) (dom ?T)" using ids by (simp add: ids_ok_def)
    qed (use a v w' in auto)
    with a v w show ?thesis by simp
  qed
  have idset: "set ?ids = {dv_id v |v n. ?T (k, n) = Some v}" and dist: "distinct ?ids"
    using ids by (auto simp: ids_ok_def)
  define L where "L = List.map_filter hit ?ids"
  have "map dv_id L = ?ids"
    unfolding L_def by (rule map_filter_keys) (use idset hit in auto)
  then have "distinct L" using dist by (metis distinct_map)
  moreover have "set L = {v. \<exists>n. ?T (k, n) = Some v}"
  proof -
    have "set (List.map_filter hit xs) = {v. \<exists>x \<in> set xs. hit x = Some v}" for xs
      by (induction xs) (auto simp: List.map_filter_def)
    then have "set L = {v. \<exists>x \<in> set ?ids. hit x = Some v}" unfolding L_def .
    then show ?thesis unfolding idset using hit by fastforce
  qed
  moreover have "DeliverableVersion_ListVersions k kss m
      = sort_slice (\<lambda>a b. dv_version b < dv_version a) L"
    by (simp add: DeliverableVersion_ListVersions_def L_def hit_def [abs_def] Let_def List.map_filter_def)
  moreover have "sorted_wrt (\<lambda>v w. dv_version v \<ge> dv_version w)
      (sort_slice (\<lambda>a b. dv_version b < dv_version a) L)"
    using version_order.sorted_sort_slice [of L] by (simp add: not_less)
  ultimately show
    "set (DeliverableVersion_ListVersions k kss m) = {v. \<exists>n. ms_dversions m (k, n) = Some v}"
    "sorted_wrt (\<lambda>v w. dv_version v \<ge> dv_version w) (DeliverableVersion_ListVersions k kss m)"
    "distinct (DeliverableVersion_ListVersions k kss m)"
    by simp_all
qed

section \<open>Properties\<close>

text \<open>
  C26: however creates and updates interleave, the versions of a deliverable that no update is
  half through are numbered 1 to its current version without a gap, and the newest holds its
  title and content.
\<close>

theorem deliverable_history_contiguous:
  assumes run: "deliv_step\<^sup>*\<^sup>* (deliv_start m) s"
    and d: "ms_deliverables (dr_store s) k = Some d" and idle: "k \<notin> d_id ` set (dr_inserted s)"
  shows "{n. ms_dversions (dr_store s) (k, n) \<noteq> None} = {1..d_version d}
    \<and> (\<exists>v. ms_dversions (dr_store s) (k, d_version d) = Some v
         \<and> dv_title v = d_title d \<and> dv_content v = d_content d)"
proof -
  note I = deliv_okD [OF deliv_reachable_ok [OF run]] and rows = deliverable_rows [OF run d idle]
  have k: "d_id d = k" using I(5) [OF d] .
  have ok: "main_ok (dr_store s) (dr_inserted s) d" using I(4) [OF d] .
  have "1 \<le> d_version d" using ok by (simp add: main_ok_def)
  then obtain v where "ms_dversions (dr_store s) (k, d_version d) = Some v" using rows by blast
  with ok k have "\<exists>v. ms_dversions (dr_store s) (k, d_version d) = Some v
         \<and> dv_title v = d_title d \<and> dv_content v = d_content d"
    by (auto simp: main_ok_def)
  with rows show ?thesis by auto
qed

text \<open>A sample run: a create, two updates that read the same row, the first of them whole and the
  second refused.\<close>

definition sample_deliv :: mem_store where
  "sample_deliv = NewMemoryStore\<lparr>ms_tasks := [1 \<mapsto>
     \<lparr>t_id = 1, t_project = 3, t_title = ''t'', t_description = '''', t_status = TaskBacklog,
      t_priority = PriorityMedium, t_assignee = 0, t_assignee_agent = '''',
      t_required = [], t_position = 0, t_created = 1, t_updated = 1\<rparr>],
   ms_agents := [6 \<mapsto> sample_agent 6 []]\<rparr>"

definition sample_denv :: "uuid \<Rightarrow> deliv_env" where
  "sample_denv v = \<lparr>de_now = 5, de_deliverable = 10, de_version = v\<rparr>"

definition sample_d1 :: deliverable where
  "sample_d1 = \<lparr>d_id = 10, d_task = 1, d_agent = 6, d_title = ''a'', d_content = '''',
     d_version = 1, d_created = 5, d_updated = 5\<rparr>"

definition sample_create :: create_deliverable_request where
  "sample_create = \<lparr>cd_task = 1, cd_agent = 6, cd_title = ''a'', cd_content = '''', cd_by = None\<rparr>"

definition sample_update :: "string \<Rightarrow> update_deliverable_request" where
  "sample_update t = \<lparr>ud_title = t, ud_content = '''', ud_by = None\<rparr>"

lemma TrimSpace_sample [simp]: "TrimSpace ''a'' = ''a''" "TrimSpace ''b'' = ''b''"
  by (simp_all add: TrimSpace_def trim_left.simps white_space_def)

text \<open>The store after the create, and after the first update.\<close>

definition sample_m1 :: mem_store where
  "sample_m1 = snd (CreateDeliverable (sample_denv 11) sample_create 3
     (dr_store (deliv_start sample_deliv)))"

definition sample_m2 :: mem_store where
  "sample_m2 = snd (UpdateDeliverable_insert (sample_denv 12) (sample_update ''b'') sample_d1 sample_m1)"

definition sample_m3 :: mem_store where
  "sample_m3 = snd (UpdateDeliverable_main
     (updated_row (sample_denv 12) (sample_update ''b'') sample_d1) sample_m2)"

lemma sample_m1:
  "CreateDeliverable (sample_denv 11) sample_create 3 (dr_store (deliv_start sample_deliv))
    = (Inr sample_d1, sample_m1)"
  "ms_deliverables sample_m1 = [10 \<mapsto> sample_d1]"
  "ms_dversions sample_m1 = [(10, 1) \<mapsto> \<lparr>dv_id = 11, dv_deliverable = 10, dv_version = 1,
     dv_title = ''a'', dv_content = '''', dv_created = 5, dv_by = None\<rparr>]"
  "ms_tasks sample_m1 = ms_tasks sample_deliv"
  by (simp_all add: sample_m1_def CreateDeliverable_def title_errors_def sample_create_def
      deliv_start_def sample_deliv_def sample_denv_def sample_d1_def Task_GetByID_def
      Agent_GetByID_def sample_agent_def MaxDeliverableContentBytes_def Let_def
      Deliverable_Create_def DeliverableVersion_Insert_def HasErrors_def [symmetric])

lemma sample_m2:
  "UpdateDeliverable_insert (sample_denv 12) (sample_update ''b'') sample_d1 sample_m1
    = (Inr (updated_row (sample_denv 12) (sample_update ''b'') sample_d1), sample_m2)"
  "ms_deliverables sample_m2 = [10 \<mapsto> sample_d1]"
  "ms_dversions sample_m2 = (ms_dversions sample_m1)((10, 2) \<mapsto>
     version_row (sample_denv 12) (sample_update ''b'') sample_d1)"
  by (simp_all add: sample_m2_def UpdateDeliverable_insert_def DeliverableVersion_Insert_def
      version_row_def sample_denv_def sample_update_def sample_m1 Let_def)
     (simp_all add: sample_d1_def wrap64_id is_int64_def sample_m1)

lemma sample_m3:
  "UpdateDeliverable_main (updated_row (sample_denv 12) (sample_update ''b'') sample_d1) sample_m2
    = (Inr (updated_row (sample_denv 12) (sample_update ''b'') sample_d1), sample_m3)"
  "ms_deliverables sample_m3
    = [10 \<mapsto> updated_row (sample_denv 12) (sample_update ''b'') sample_d1]"
  "ms_dversions sample_m3 = ms_dversions sample_m2"
  by (simp_all add: sample_m3_def UpdateDeliverable_main_def Deliverable_Update_def updated_row_def
      sample_d1_def sample_m2)

definition sample_end :: deliv_run where
  "sample_end = \<lparr>dr_store = sample_m3, dr_read = [sample_d1, sample_d1], dr_inserted = []\<rparr>"

lemma sample_run:
  "deliv_step\<^sup>*\<^sup>* (deliv_start sample_deliv)
     \<lparr>dr_store = sample_m1, dr_read = [], dr_inserted = []\<rparr>"
  "deliv_step\<^sup>*\<^sup>* \<lparr>dr_store = sample_m1, dr_read = [], dr_inserted = []\<rparr> sample_end"
proof -
  let ?s = "\<lambda>m rs ins. \<lparr>dr_store = m, dr_read = rs, dr_inserted = ins\<rparr>"
  let ?u = "updated_row (sample_denv 12) (sample_update ''b'') sample_d1"
  have f: "deliv_fresh (sample_denv 11) (dr_store (deliv_start sample_deliv))"
    "deliv_fresh (sample_denv 12) sample_m1"
    by (simp_all add: deliv_fresh_def sample_denv_def deliv_start_def sample_m1)
  from deliv_step.create [OF f(1) sample_m1(1)]
  show "deliv_step\<^sup>*\<^sup>* (deliv_start sample_deliv) (?s sample_m1 [] [])"
    by (intro r_into_rtranclp) (simp add: deliv_start_def)
  have rd: "UpdateDeliverable_read 10 (sample_update ''b'') 3 sample_m1 = Inr sample_d1"
    by (simp add: UpdateDeliverable_read_Inr sample_m1 sample_update_def sample_d1_def
        MaxDeliverableContentBytes_def sample_deliv_def)
  have s1: "deliv_step (?s sample_m1 [] []) (?s sample_m1 [sample_d1] [])"
    using deliv_step.read [of 10 "sample_update ''b''" 3 "?s sample_m1 [] []"] rd by simp
  have s2: "deliv_step (?s sample_m1 [sample_d1] []) (?s sample_m1 [sample_d1, sample_d1] [])"
    using deliv_step.read [of 10 "sample_update ''b''" 3 "?s sample_m1 [sample_d1] []"] rd by simp
  have s3: "deliv_step (?s sample_m1 [sample_d1, sample_d1] []) (?s sample_m2 [sample_d1, sample_d1] [?u])"
    using deliv_step.insert [where current = sample_d1 and env = "sample_denv 12"
        and req = "sample_update ''b''" and updated = ?u and m = sample_m2
        and s = "?s sample_m1 [sample_d1, sample_d1] []"] f(2) sample_m2(1)
    by simp (simp add: sample_d1_def)
  have s4: "deliv_step (?s sample_m2 [sample_d1, sample_d1] [?u]) sample_end"
    using deliv_step.main [of ?u "?s sample_m2 [sample_d1, sample_d1] [?u]"] sample_m3(1)
    by (simp add: sample_end_def)
  from s1 s2 s3 s4 show "deliv_step\<^sup>*\<^sup>* (?s sample_m1 [] []) sample_end"
    by (meson converse_rtranclp_into_rtranclp rtranclp.rtrancl_refl)
qed

theorem deliverable_history_contiguous_witness:
  "{n. ms_dversions (dr_store sample_end) (10, n) \<noteq> None} = {1..2}"
proof -
  have run: "deliv_step\<^sup>*\<^sup>* (deliv_start sample_deliv) sample_end"
    using sample_run by (rule rtranclp_trans)
  have d: "ms_deliverables (dr_store sample_end) 10
      = Some (updated_row (sample_denv 12) (sample_update ''b'') sample_d1)"
    by (simp add: sample_end_def sample_m3)
  have v: "d_version (updated_row (sample_denv 12) (sample_update ''b'') sample_d1) = 2"
    by (simp add: updated_row_def sample_d1_def is_int64_def)
  from deliverable_history_contiguous [OF run d] v show ?thesis by (simp add: sample_end_def)
qed

text \<open>
  A version row, once written, is never changed or removed: the history is append-only.
\<close>

theorem version_rows_immutable:
  assumes "deliv_step\<^sup>*\<^sup>* (deliv_start m) s" "deliv_step\<^sup>*\<^sup>* s s'"
    and "ms_dversions (dr_store s) (k, n) = Some v"
  shows "ms_dversions (dr_store s') (k, n) = Some v"
proof -
  have "map_le (ms_dversions (dr_store s)) (ms_dversions (dr_store s'))"
    using deliv_steps_keep [OF assms(2)] deliv_reachable_ok [OF assms(1)] by blast
  with assms(3) show ?thesis by (metis domI map_le_def)
qed

theorem version_rows_immutable_witness:
  "\<exists>v. ms_dversions (dr_store sample_end) (10, 1) = Some v \<and> dv_title v = ''a''"
proof -
  have "ms_dversions (dr_store \<lparr>dr_store = sample_m1, dr_read = [], dr_inserted = []\<rparr>) (10, 1)
    = Some \<lparr>dv_id = 11, dv_deliverable = 10, dv_version = 1, dv_title = ''a'', dv_content = '''',
            dv_created = 5, dv_by = None\<rparr>"
    by (simp add: sample_m1)
  from version_rows_immutable [OF sample_run this] show ?thesis by simp
qed

text \<open>
  Of two updates that read the same row the one that inserts its version second gets a
  conflict and writes nothing, so that no update is lost.
\<close>

theorem stale_update_conflicts:
  assumes "de_version env1 \<noteq> uuid_nil" "de_now env1 \<noteq> zero_time"
    and first: "UpdateDeliverable_insert env1 req1 current m = (Inr updated, m1)"
    and later: "\<And>k. ms_dversions m1 k \<noteq> None \<Longrightarrow> ms_dversions m2 k \<noteq> None"
  shows "UpdateDeliverable_insert env2 req2 current m2
       = (Inl (conflict ''Duplicate version; another update is in progress''), m2)"
proof -
  have "ms_dversions m1 (d_id current, wrap64 (d_version current + 1)) \<noteq> None"
    using first Insert_row [of "version_row env1 req1 current" "de_version env1" "de_now env1" m]
      assms(1,2)
    by (auto simp: UpdateDeliverable_insert_def version_row_def split: if_splits)
  then have "ms_dversions m2 (d_id current, wrap64 (d_version current + 1)) \<noteq> None" by (rule later)
  then show ?thesis
    by (auto simp: UpdateDeliverable_insert_def DeliverableVersion_Insert_def version_row_def
        update_error_def)
qed

theorem stale_update_conflicts_witness:
  "UpdateDeliverable_insert (sample_denv 13) (sample_update ''c'') sample_d1 sample_m3
     = (Inl (conflict ''Duplicate version; another update is in progress''), sample_m3)"
  by (rule stale_update_conflicts [OF _ _ sample_m2(1)])
     (simp_all add: sample_denv_def sample_m3)

text \<open>
  The version list of an idle deliverable is its whole history, newest first: the numbers
  from the current version down to 1, each with its stored row, whatever the map order.
\<close>

theorem ListVersions_whole_history:
  assumes run: "deliv_step\<^sup>*\<^sup>* (deliv_start m) s"
    and d: "ms_deliverables (dr_store s) k = Some d" and idle: "k \<notin> d_id ` set (dr_inserted s)"
    and ks: "\<And>vid. iterates (ms_dversions (dr_store s)) (kss vid)"
  shows "map (\<lambda>v. (dv_version v, Some v)) (DeliverableVersion_ListVersions k kss (dr_store s))
       = map (\<lambda>n. (n, ms_dversions (dr_store s) (k, n))) (rev [1..d_version d])"
proof -
  let ?L = "DeliverableVersion_ListVersions k kss (dr_store s)"
  have ids: "ids_ok (dr_store s)" using deliv_okD(2) [OF deliv_reachable_ok [OF run]] .
  have set: "set ?L = {v. \<exists>n. ms_dversions (dr_store s) (k, n) = Some v}"
    and sorted: "sorted_wrt (\<lambda>v w. dv_version v \<ge> dv_version w) ?L" and dist: "distinct ?L"
    by (rule ListVersions_rows [OF ids ks])+
  have row: "ms_dversions (dr_store s) (k, dv_version v) = Some v" if "v \<in> set ?L" for v
    using that set ids by (auto simp: ids_ok_def)
  have "inj_on dv_version (set ?L)" using row by (auto intro!: inj_onI) (metis option.inject)
  with dist have "distinct (map dv_version ?L)" by (simp add: distinct_map)
  moreover have "sorted (rev (map dv_version ?L))"
    using sorted by (simp add: rev_map [symmetric] sorted_wrt_map sorted_wrt_rev)
  moreover have "dv_version ` set ?L = {1..d_version d}"
  proof -
    have "n \<in> dv_version ` set ?L \<longleftrightarrow> ms_dversions (dr_store s) (k, n) \<noteq> None" for n
      using row set ids by (auto simp: ids_ok_def image_iff)
    then show ?thesis
      unfolding set_eq_iff atLeastAtMost_iff by (simp only: deliverable_rows [OF run d idle] simp_thms)
  qed
  ultimately have "rev (map dv_version ?L) = [1..d_version d]"
    by (intro sorted_distinct_set_unique) auto
  then have nums: "map dv_version ?L = rev [1..d_version d]" by (metis rev_rev_ident)
  have "map (\<lambda>v. (dv_version v, Some v)) ?L
      = map (\<lambda>n. (n, ms_dversions (dr_store s) (k, n))) (map dv_version ?L)"
    using row by simp
  with nums show ?thesis by simp
qed

theorem ListVersions_whole_history_witness:
  "map dv_version (DeliverableVersion_ListVersions 10 (\<lambda>_. [(10, 1), (10, 2)]) sample_m3) = [2, 1]"
proof -
  have run: "deliv_step\<^sup>*\<^sup>* (deliv_start sample_deliv) sample_end"
    using sample_run by (rule rtranclp_trans)
  have d: "ms_deliverables (dr_store sample_end) 10
      = Some (updated_row (sample_denv 12) (sample_update ''b'') sample_d1)"
    by (simp add: sample_end_def sample_m3)
  have v: "d_version (updated_row (sample_denv 12) (sample_update ''b'') sample_d1) = 2"
    by (simp add: updated_row_def sample_d1_def is_int64_def)
  have it: "iterates (ms_dversions (dr_store sample_end)) [(10, 1), (10, 2)]"
    by (auto simp: iterates_def sample_end_def sample_m3 sample_m2 sample_m1)
  have "map fst (map (\<lambda>v. (dv_version v, Some v))
        (DeliverableVersion_ListVersions 10 (\<lambda>_. [(10, 1), (10, 2)]) (dr_store sample_end)))
      = map fst (map (\<lambda>n. (n, ms_dversions (dr_store sample_end) (10, n))) (rev [1..2]))"
    using ListVersions_whole_history [OF run d _ it] v by (simp add: sample_end_def)
  then show ?thesis by (simp add: sample_end_def upto.simps comp_def)
qed

end
