(* ===== verification/Dispatch.thy ===== *)
theory Dispatch
  imports Aion
begin

text \<open>
  The dispatch queue and the dispatcher (src/src/internal/dispatch/queue.go, dispatcher.go): the
  operations of InMemoryQueue, split where another goroutine can come between, the bookkeeping of
  a worker, and the pool of workers as a step relation. The runtime is left open: a worker may get
  any answer from Spawn and Wait. Buffer sizes are positive, so that a send never needs a receiver.
\<close>

section \<open>The queue (dispatch/queue.go)\<close>

datatype dispatch_error =
  ErrQueueFull | ErrQueueClosed | ErrUnknownSpec | ErrSpecInvalid aion_error | ContextEnded

record dispatch_queue =
  dq_pending :: "worker_spec list"
  dq_in_flight :: "uuid \<rightharpoonup> worker_spec"
  dq_dlq :: "worker_spec list"
  dq_closed :: bool
  dq_dropped :: int
  dq_buffer :: nat
  dq_max :: int
  dq_nonblocking :: bool

definition NewInMemoryQueue :: "nat option \<Rightarrow> int option \<Rightarrow> bool \<Rightarrow> dispatch_queue" where
  "NewInMemoryQueue buffer attempts nonblocking =
     \<lparr>dq_pending = [], dq_in_flight = Map.empty, dq_dlq = [], dq_closed = False, dq_dropped = 0,
      dq_buffer = (case buffer of None \<Rightarrow> 1024 | Some n \<Rightarrow> n),
      dq_max = (case attempts of None \<Rightarrow> 3 | Some n \<Rightarrow> n), dq_nonblocking = nonblocking\<rparr>"

definition has_room :: "dispatch_queue \<Rightarrow> bool" where
  "has_room q \<longleftrightarrow> length (dq_pending q) < dq_buffer q"

text \<open>Enqueue: its checks, then one ready case of its select; None means it blocks. Close sets the
  flag before it closes the channel; the two are one step here.\<close>

datatype queue_event = ChannelReady | CtxEnded | CloseSignal | NoneReady

definition Enqueue_check :: "worker_spec \<Rightarrow> dispatch_queue \<Rightarrow> dispatch_error + unit" where
  "Enqueue_check spec q =
     (case spec_Validate spec of
        Inl e \<Rightarrow> Inl (ErrSpecInvalid e)
      | Inr _ \<Rightarrow> if dq_closed q then Inl ErrQueueClosed else Inr ())"

definition Enqueue_select ::
  "queue_event \<Rightarrow> bool \<Rightarrow> worker_spec \<Rightarrow> dispatch_queue
   \<Rightarrow> ((dispatch_error + unit) \<times> dispatch_queue) option" where
  "Enqueue_select e ctx_done spec q =
     (case e of
        ChannelReady \<Rightarrow>
          if has_room q then Some (Inr (), q\<lparr>dq_pending := dq_pending q @ [spec]\<rparr>) else None
      | CtxEnded \<Rightarrow> if ctx_done then Some (Inl ContextEnded, q) else None
      | CloseSignal \<Rightarrow>
          if \<not> dq_nonblocking q \<and> dq_closed q then Some (Inl ErrQueueClosed, q) else None
      | NoneReady \<Rightarrow>
          if dq_nonblocking q \<and> \<not> has_room q \<and> \<not> ctx_done
          then Some (Inl ErrQueueFull, q) else None)"

text \<open>Dequeue: a return of its select, and the entry into the in-flight set that follows a
  receive.\<close>

definition Dequeue_select ::
  "queue_event \<Rightarrow> bool \<Rightarrow> dispatch_queue
   \<Rightarrow> ((dispatch_error + worker_spec) \<times> dispatch_queue) option" where
  "Dequeue_select e ctx_done q =
     (case e of
        ChannelReady \<Rightarrow>
          (case dq_pending q of
             [] \<Rightarrow> None | spec # rest \<Rightarrow> Some (Inr spec, q\<lparr>dq_pending := rest\<rparr>))
      | CtxEnded \<Rightarrow> if ctx_done then Some (Inl ContextEnded, q) else None
      | CloseSignal \<Rightarrow>
          if dq_closed q
          then Some (case dq_pending q of
                       [] \<Rightarrow> (Inl ErrQueueClosed, q)
                     | spec # rest \<Rightarrow> (Inr spec, q\<lparr>dq_pending := rest\<rparr>))
          else None
      | NoneReady \<Rightarrow> None)"

definition Dequeue_mark :: "worker_spec \<Rightarrow> dispatch_queue \<Rightarrow> dispatch_queue" where
  "Dequeue_mark spec q = q\<lparr>dq_in_flight := (dq_in_flight q)(ws_execution spec \<mapsto> spec)\<rparr>"

definition Ack :: "worker_spec \<Rightarrow> dispatch_queue \<Rightarrow> (dispatch_error + unit) \<times> dispatch_queue" where
  "Ack spec q =
     (if dq_in_flight q (ws_execution spec) = None then (Inl ErrUnknownSpec, q)
      else (Inr (), q\<lparr>dq_in_flight := (dq_in_flight q)(ws_execution spec := None)\<rparr>))"

text \<open>Nack up to its select: unknown, dropped, or about to send the retry.\<close>

datatype nack_begin = NackUnknown | NackDropped | NackRequeue worker_spec

definition nack_drop :: "worker_spec \<Rightarrow> dispatch_queue \<Rightarrow> dispatch_queue" where
  "nack_drop spec q =
     q\<lparr>dq_in_flight := (dq_in_flight q)(ws_execution spec := None),
       dq_dropped := dq_dropped q + 1, dq_dlq := dq_dlq q @ [spec]\<rparr>"

definition Nack_begin :: "worker_spec \<Rightarrow> dispatch_queue \<Rightarrow> nack_begin \<times> dispatch_queue" where
  "Nack_begin spec q =
     (if dq_in_flight q (ws_execution spec) = None then (NackUnknown, q)
      else if dq_closed q then (NackDropped, nack_drop spec q)
      else if ws_attempt spec < dq_max q
      then (NackRequeue (spec\<lparr>ws_attempt := ws_attempt spec + 1\<rparr>),
            q\<lparr>dq_in_flight := (dq_in_flight q)(ws_execution spec := None)\<rparr>)
      else (NackDropped, nack_drop spec q))"

text \<open>The select of Nack: it waits for room or for the end of the context, not for Close.\<close>

definition Nack_send ::
  "queue_event \<Rightarrow> bool \<Rightarrow> worker_spec \<Rightarrow> dispatch_queue
   \<Rightarrow> ((dispatch_error + unit) \<times> dispatch_queue) option" where
  "Nack_send e ctx_done retry q =
     (case e of
        ChannelReady \<Rightarrow>
          if has_room q then Some (Inr (), q\<lparr>dq_pending := dq_pending q @ [retry]\<rparr>) else None
      | CtxEnded \<Rightarrow>
          if ctx_done
          then Some (Inl ContextEnded,
                     q\<lparr>dq_in_flight := (dq_in_flight q)(ws_execution retry \<mapsto> retry)\<rparr>)
          else None
      | _ \<Rightarrow> None)"

definition Queue_Close :: "dispatch_queue \<Rightarrow> dispatch_queue" where
  "Queue_Close q = (if dq_closed q then q else q\<lparr>dq_closed := True\<rparr>)"

definition Queue_Len :: "dispatch_queue \<Rightarrow> nat" where
  "Queue_Len q = length (dq_pending q)"

section \<open>The dispatcher (dispatch/dispatcher.go)\<close>

record dispatcher_stats =
  st_spawned :: int
  st_completed :: int
  st_failed :: int
  st_cancelled :: int
  st_retries :: int
  st_dropped :: int

definition no_stats :: dispatcher_stats where
  "no_stats = \<lparr>st_spawned = 0, st_completed = 0, st_failed = 0, st_cancelled = 0, st_retries = 0,
     st_dropped = 0\<rparr>"

text \<open>What the runtime answers for one spec: Spawn fails, Wait fails (with the context ended or
  not), or the worker reaches a status.\<close>

datatype runtime_answer = SpawnFailed | WaitFailed bool | Finished worker_status

text \<open>handleSpec: the counters it moves, and whether it calls Ack or Nack.\<close>

definition count_answer :: "runtime_answer \<Rightarrow> dispatcher_stats \<Rightarrow> dispatcher_stats" where
  "count_answer a st =
     (case a of
        SpawnFailed \<Rightarrow> st\<lparr>st_failed := st_failed st + 1\<rparr>
      | WaitFailed ctx_done \<Rightarrow>
          if ctx_done then st\<lparr>st_cancelled := st_cancelled st + 1\<rparr>
          else st\<lparr>st_failed := st_failed st + 1\<rparr>
      | Finished status \<Rightarrow>
          if status = WorkerCompleted then st\<lparr>st_completed := st_completed st + 1\<rparr>
          else if status = WorkerCancelled then st\<lparr>st_cancelled := st_cancelled st + 1\<rparr>
          else st\<lparr>st_failed := st_failed st + 1\<rparr>)"

definition wants_ack :: "runtime_answer \<Rightarrow> bool" where
  "wants_ack a \<longleftrightarrow> a = Finished WorkerCompleted"

definition recordNackResult :: "bool \<Rightarrow> bool \<Rightarrow> dispatcher_stats \<Rightarrow> dispatcher_stats" where
  "recordNackResult dropped retried st =
     (let st1 = (if dropped then st\<lparr>st_dropped := st_dropped st + 1\<rparr> else st)
      in if retried then st1\<lparr>st_retries := st_retries st1 + 1\<rparr> else st1)"

text \<open>Where a worker goroutine stands: at its loop, between the receive and the in-flight entry, at
  the runtime with a spec, in the select of Nack, or gone.\<close>

datatype dworker = WIdle | WReceived worker_spec | WRunning worker_spec | WRetrying worker_spec | WGone

text \<open>
  The dispatcher with its queue. \<open>ds_accepted\<close>, \<open>ds_acked\<close>, \<open>ds_left\<close> and
  \<open>ds_spawns\<close> are not in the code: the specs that Enqueue took, those that Ack settled, those
  that a Nack put back in flight when its context ended, and those given to the runtime, in the
  order and as often as that happened.
\<close>

record dispatcher =
  ds_queue :: dispatch_queue
  ds_workers :: "dworker list"
  ds_running :: bool
  ds_cancelled :: bool
  ds_stats :: dispatcher_stats
  ds_accepted :: "worker_spec list"
  ds_acked :: "worker_spec list"
  ds_left :: "worker_spec list"
  ds_spawns :: "worker_spec list"

definition NewDispatcher :: "dispatch_queue \<Rightarrow> dispatcher" where
  "NewDispatcher q = \<lparr>ds_queue = q, ds_workers = [], ds_running = False, ds_cancelled = False,
     ds_stats = no_stats, ds_accepted = [], ds_acked = [], ds_left = [], ds_spawns = []\<rparr>"

text \<open>Start makes the pool, with a context that has not ended. A second Start while it runs does
  nothing.\<close>

definition Start :: "int \<Rightarrow> dispatcher \<Rightarrow> dispatcher option" where
  "Start workers d =
     (if workers < 1 then None
      else if ds_running d then Some d
      else Some (d\<lparr>ds_running := True, ds_cancelled := False,
                   ds_workers := ds_workers d @ replicate (nat workers) WIdle\<rparr>))"

text \<open>The part of Stop before it waits for the workers.\<close>

definition Stop :: "dispatcher \<Rightarrow> dispatcher" where
  "Stop d = (if \<not> ds_running d then d else d\<lparr>ds_running := False, ds_cancelled := True\<rparr>)"

definition set_worker :: "nat \<Rightarrow> dworker \<Rightarrow> dispatcher \<Rightarrow> dispatcher" where
  "set_worker i w d = d\<lparr>ds_workers := (ds_workers d)[i := w]\<rparr>"

definition worker_at :: "dispatcher \<Rightarrow> nat \<Rightarrow> dworker \<Rightarrow> bool" where
  "worker_at d i w \<longleftrightarrow> i < length (ds_workers d) \<and> ds_workers d ! i = w"

text \<open>handleSpec after the answer of the runtime, up to the select of Nack.\<close>

definition finish_spec :: "nat \<Rightarrow> runtime_answer \<Rightarrow> worker_spec \<Rightarrow> dispatcher \<Rightarrow> dispatcher" where
  "finish_spec i a spec d =
     (let d1 = d\<lparr>ds_stats := count_answer a (ds_stats d)\<rparr>
      in if wants_ack a
         then (case Ack spec (ds_queue d1) of
                 (Inl _, q) \<Rightarrow> set_worker i WIdle (d1\<lparr>ds_queue := q\<rparr>)
               | (Inr _, q) \<Rightarrow>
                   set_worker i WIdle (d1\<lparr>ds_queue := q, ds_acked := spec # ds_acked d1\<rparr>))
         else (case Nack_begin spec (ds_queue d1) of
                 (NackUnknown, q) \<Rightarrow> set_worker i WIdle (d1\<lparr>ds_queue := q\<rparr>)
               | (NackDropped, q) \<Rightarrow>
                   set_worker i WIdle (d1\<lparr>ds_queue := q,
                     ds_stats := recordNackResult True False (ds_stats d1)\<rparr>)
               | (NackRequeue retry, q) \<Rightarrow> set_worker i (WRetrying retry) (d1\<lparr>ds_queue := q\<rparr>)))"

text \<open>The steps of the pool, and those of its surroundings. The closed check of an Enqueue may
  have run before a Close, so that its send needs only a valid spec.\<close>

inductive work_step :: "dispatcher \<Rightarrow> dispatcher \<Rightarrow> bool" where
  receive: "worker_at d i WIdle
    \<Longrightarrow> Dequeue_select e (ds_cancelled d) (ds_queue d) = Some (Inr spec, q)
    \<Longrightarrow> work_step d (set_worker i (WReceived spec) (d\<lparr>ds_queue := q\<rparr>))"
| leave: "worker_at d i WIdle
    \<Longrightarrow> Dequeue_select e (ds_cancelled d) (ds_queue d) = Some (Inl err, q)
    \<Longrightarrow> work_step d (set_worker i WGone (d\<lparr>ds_queue := q\<rparr>))"
| mark: "worker_at d i (WReceived spec)
    \<Longrightarrow> work_step d (set_worker i (WRunning spec)
          (d\<lparr>ds_queue := Dequeue_mark spec (ds_queue d),
             ds_stats := (ds_stats d)\<lparr>st_spawned := st_spawned (ds_stats d) + 1\<rparr>,
             ds_spawns := spec # ds_spawns d\<rparr>))"
| finish: "worker_at d i (WRunning spec) \<Longrightarrow> work_step d (finish_spec i a spec d)"
| requeue: "worker_at d i (WRetrying retry)
    \<Longrightarrow> Nack_send e (ds_cancelled d) retry (ds_queue d) = Some (Inr u, q)
    \<Longrightarrow> work_step d (set_worker i WIdle
          (d\<lparr>ds_queue := q, ds_stats := recordNackResult False True (ds_stats d)\<rparr>))"
| abandon: "worker_at d i (WRetrying retry)
    \<Longrightarrow> Nack_send e (ds_cancelled d) retry (ds_queue d) = Some (Inl err, q)
    \<Longrightarrow> work_step d (set_worker i WIdle (d\<lparr>ds_queue := q, ds_left := retry # ds_left d\<rparr>))"

inductive outer_step :: "dispatcher \<Rightarrow> dispatcher \<Rightarrow> bool" where
  enqueue: "spec_Validate spec = Inr ()
    \<Longrightarrow> Enqueue_select e ctx_done spec (ds_queue d) = Some (Inr (), q)
    \<Longrightarrow> outer_step d (d\<lparr>ds_queue := q, ds_accepted := spec # ds_accepted d\<rparr>)"
| shut: "outer_step d (d\<lparr>ds_queue := Queue_Close (ds_queue d)\<rparr>)"
| stop: "outer_step d (Stop d)"

definition disp_step :: "dispatcher \<Rightarrow> dispatcher \<Rightarrow> bool" where
  "disp_step d d' \<longleftrightarrow> work_step d d' \<or> outer_step d d'"

end
