(* ===== verification/Dispatch_Runs.thy ===== *)
theory Dispatch_Runs
  imports Dispatch "HOL-Library.Multiset"
begin

text \<open>
  Runs of the dispatcher: no accepted spec is lost or doubled, the in-flight set is what the
  workers are running, the number of spawns is bounded by the retry cap, the work ends, and the
  one way it can stop short, a pool that waits for room in the buffer it should empty itself.
\<close>

section \<open>Where the specs are\<close>

fun held :: "dworker \<Rightarrow> worker_spec list" where
  "held (WReceived s) = [s]"
| "held (WRunning s) = [s]"
| "held (WRetrying s) = [s]"
| "held _ = []"

definition place :: "dispatcher \<Rightarrow> worker_spec multiset" where
  "place d = mset (dq_pending (ds_queue d)) + sum_list (map (\<lambda>w. mset (held w)) (ds_workers d))
     + mset (ds_acked d) + mset (dq_dlq (ds_queue d)) + mset (ds_left d)"

text \<open>Changing one worker changes a sum over the workers by the difference.\<close>

lemma sum_list_worker:
  fixes f :: "'a \<Rightarrow> 'b :: comm_monoid_add"
  assumes "i < length ws"
  shows "sum_list (map f (ws[i := w])) + f (ws ! i) = sum_list (map f ws) + f w"
proof -
  have "sum_list (map f ws) = sum_list (map f (take i ws)) + (f (ws ! i) + sum_list (map f (drop (Suc i) ws)))"
    using arg_cong [OF id_take_nth_drop [OF assms], of "\<lambda>xs. sum_list (map f xs)"] by simp
  moreover have "sum_list (map f (ws[i := w]))
      = sum_list (map f (take i ws)) + (f w + sum_list (map f (drop (Suc i) ws)))"
    using assms by (simp add: upd_conv_take_nth_drop)
  ultimately show ?thesis by (simp add: ac_simps)
qed

lemma sum_set_worker:
  fixes f :: "dworker \<Rightarrow> 'b :: cancel_comm_monoid_add"
  assumes "worker_at d i v"
  shows "sum_list (map f (ds_workers (set_worker i w d))) + f v = sum_list (map f (ds_workers d)) + f w"
  using assms sum_list_worker [of i "ds_workers d" f w] by (auto simp: worker_at_def set_worker_def)

lemma set_worker_simps [simp]:
  "ds_queue (set_worker i w d) = ds_queue d" "ds_acked (set_worker i w d) = ds_acked d"
  "ds_left (set_worker i w d) = ds_left d" "ds_accepted (set_worker i w d) = ds_accepted d"
  "ds_stats (set_worker i w d) = ds_stats d" "ds_cancelled (set_worker i w d) = ds_cancelled d"
  "ds_running (set_worker i w d) = ds_running d" "ds_spawns (set_worker i w d) = ds_spawns d"
  "ds_workers (set_worker i w (d\<lparr>ds_queue := q\<rparr>)) = ds_workers (set_worker i w d)"
  "ds_workers (set_worker i w (d\<lparr>ds_stats := st\<rparr>)) = ds_workers (set_worker i w d)"
  "ds_workers (set_worker i w (d\<lparr>ds_acked := xs\<rparr>)) = ds_workers (set_worker i w d)"
  "ds_workers (set_worker i w (d\<lparr>ds_left := xs\<rparr>)) = ds_workers (set_worker i w d)"
  "ds_workers (set_worker i w (d\<lparr>ds_spawns := xs\<rparr>)) = ds_workers (set_worker i w d)"
  by (simp_all add: set_worker_def)

text \<open>The outcomes of a step of the pool, with what each needs and does.\<close>

lemma Dequeue_select_Inr:
  "Dequeue_select e c q = Some (Inr s, q') \<Longrightarrow>
     \<exists>rest. dq_pending q = s # rest \<and> q' = q\<lparr>dq_pending := rest\<rparr>"
  by (auto simp: Dequeue_select_def split: queue_event.splits list.splits if_splits)

lemma Dequeue_select_Inl:
  "Dequeue_select e c q = Some (Inl err, q') \<Longrightarrow>
     q' = q \<and> (c \<or> dq_closed q \<and> dq_pending q = [])"
  by (auto simp: Dequeue_select_def split: queue_event.splits list.splits if_splits)

lemma Nack_send_Inr:
  "Nack_send e c r q = Some (Inr u, q') \<Longrightarrow>
     has_room q \<and> q' = q\<lparr>dq_pending := dq_pending q @ [r]\<rparr>"
  by (auto simp: Nack_send_def split: queue_event.splits if_splits)

lemma Nack_send_Inl:
  "Nack_send e c r q = Some (Inl err, q') \<Longrightarrow>
     c \<and> q' = q\<lparr>dq_in_flight := (dq_in_flight q)(ws_execution r \<mapsto> r)\<rparr>"
  by (auto simp: Nack_send_def split: queue_event.splits if_splits)

definition next_attempt :: "worker_spec \<Rightarrow> worker_spec" where
  "next_attempt s = s\<lparr>ws_attempt := ws_attempt s + 1\<rparr>"

lemma next_attempt_simps [simp]:
  "ws_execution (next_attempt s) = ws_execution s" "ws_attempt (next_attempt s) = ws_attempt s + 1"
  by (simp_all add: next_attempt_def)

lemma finish_spec_cases:
  assumes known: "dq_in_flight (ds_queue d) (ws_execution s) \<noteq> None"
  obtains (acked) st where "finish_spec i a s d = set_worker i WIdle (d\<lparr>ds_stats := st,
        ds_queue := (ds_queue d)\<lparr>dq_in_flight := (dq_in_flight (ds_queue d))(ws_execution s := None)\<rparr>,
        ds_acked := s # ds_acked d\<rparr>)" "st_spawned st = st_spawned (ds_stats d)"
  | (dropped) st where "finish_spec i a s d = set_worker i WIdle (d\<lparr>ds_queue := nack_drop s (ds_queue d),
        ds_stats := st\<rparr>)" "st_spawned st = st_spawned (ds_stats d)"
  | (retry) st where "finish_spec i a s d = set_worker i (WRetrying (next_attempt s)) (d\<lparr>ds_stats := st,
        ds_queue := (ds_queue d)\<lparr>dq_in_flight := (dq_in_flight (ds_queue d))(ws_execution s := None)\<rparr>\<rparr>)"
      "st_spawned st = st_spawned (ds_stats d)" "ws_attempt s < dq_max (ds_queue d)"
proof -
  have ca: "st_spawned (count_answer a st) = st_spawned st" for st
    by (auto simp: count_answer_def split: runtime_answer.split)
  have rec: "st_spawned (recordNackResult x y st) = st_spawned st" for x y st
    by (simp add: recordNackResult_def Let_def)
  show thesis
  proof (cases "wants_ack a")
    case True
    have "Ack s (ds_queue d) = (Inr (), (ds_queue d)\<lparr>dq_in_flight :=
        (dq_in_flight (ds_queue d))(ws_execution s := None)\<rparr>)"
      using known by (simp add: Ack_def)
    with True show thesis
      by (intro acked [of "count_answer a (ds_stats d)"] ca) (simp add: finish_spec_def Let_def)
  next
    case False
    note na = this
    consider "dq_closed (ds_queue d) \<or> \<not> ws_attempt s < dq_max (ds_queue d)"
      | "\<not> dq_closed (ds_queue d)" "ws_attempt s < dq_max (ds_queue d)" by blast
    then show thesis
    proof cases
      case 1
      with known have "Nack_begin s (ds_queue d) = (NackDropped, nack_drop s (ds_queue d))"
        by (auto simp: Nack_begin_def)
      with na show thesis
        by (intro dropped [of "recordNackResult True False (count_answer a (ds_stats d))"])
           (simp_all add: finish_spec_def Let_def ca rec)
    next
      case 2
      with known have "Nack_begin s (ds_queue d) = (NackRequeue (next_attempt s), (ds_queue d)\<lparr>dq_in_flight :=
        (dq_in_flight (ds_queue d))(ws_execution s := None)\<rparr>)"
        by (auto simp: Nack_begin_def next_attempt_def)
      with na 2(2) show thesis
        by (intro retry [of "count_answer a (ds_stats d)"] ca) (simp_all add: finish_spec_def Let_def)
    qed
  qed
qed

section \<open>The invariant\<close>

definition runs :: "dispatcher \<Rightarrow> worker_spec set" where
  "runs d = {s. \<exists>i. worker_at d i (WRunning s)}"

definition distinct_ids :: "dispatcher \<Rightarrow> bool" where
  "distinct_ids d \<longleftrightarrow> distinct (map ws_execution (ds_accepted d))"

definition conserved :: "dispatcher \<Rightarrow> bool" where
  "conserved d \<longleftrightarrow> image_mset ws_execution (place d) = image_mset ws_execution (mset (ds_accepted d))"

definition flight_ok :: "dispatcher \<Rightarrow> bool" where
  "flight_ok d \<longleftrightarrow>
     (\<forall>k s. dq_in_flight (ds_queue d) k = Some s
        \<longleftrightarrow> s \<in> runs d \<union> set (ds_left d) \<and> ws_execution s = k)"

text \<open>A spec in the system is one that was accepted, with an attempt that the cap allows.\<close>

definition descends :: "dispatcher \<Rightarrow> worker_spec \<Rightarrow> bool" where
  "descends d s \<longleftrightarrow>
     (\<exists>a \<in> set (ds_accepted d). \<exists>n. s = a\<lparr>ws_attempt := n\<rparr> \<and> ws_attempt a \<le> n
        \<and> n \<le> max (ws_attempt a) (dq_max (ds_queue d)))"

definition disp_ok :: "dispatcher \<Rightarrow> bool" where
  "disp_ok d \<longleftrightarrow>
     (distinct_ids d \<longrightarrow> conserved d \<and> flight_ok d \<and> (\<forall>s \<in># place d. descends d s))"

text \<open>Two specs in different places have different ids.\<close>

lemma places_differ:
  assumes "conserved d" "distinct_ids d" "{#s, t#} \<subseteq># place d"
  shows "ws_execution s \<noteq> ws_execution t"
proof
  assume eq: "ws_execution s = ws_execution t"
  have "image_mset ws_execution {#s, t#} \<subseteq># mset (map ws_execution (ds_accepted d))"
    using image_mset_subseteq_mono [OF assms(3), of ws_execution] assms(1) [unfolded conserved_def]
    by (simp only: mset_map)
  then have "count (image_mset ws_execution {#s, t#}) (ws_execution t)
      \<le> count (mset (map ws_execution (ds_accepted d))) (ws_execution t)"
    by (rule mset_subset_eq_count)
  with eq assms(2) show False
    by (auto simp: distinct_ids_def count_mset distinct_count_atmost_1 dest: le_trans)
qed

lemma workers_place:
  assumes "worker_at d i v" "worker_at d j w" "i \<noteq> j"
  shows "mset (held v) + mset (held w) \<subseteq># place d"
proof -
  let ?f = "\<lambda>w. mset (held w)" and ?ws = "ds_workers d"
  have i: "i < length ?ws" "?ws ! i = v" and j: "j < length ?ws" "?ws ! j = w"
    using assms by (auto simp: worker_at_def)
  have "sum_list (map ?f ?ws) = sum_list (map ?f (?ws[i := WIdle])) + ?f v"
    using sum_list_worker [OF i(1), of ?f WIdle] i(2) by simp
  also have "sum_list (map ?f (?ws[i := WIdle])) = sum_list (map ?f (?ws[i := WIdle, j := WIdle])) + ?f w"
    using sum_list_worker [of j "?ws[i := WIdle]" ?f WIdle] j assms(3) by simp
  finally show ?thesis by (simp add: place_def ac_simps subseteq_mset_def)
qed

lemma worker_place:
  assumes "worker_at d i v"
  shows "mset (held v) + mset (ds_left d) \<subseteq># place d"
proof -
  have "sum_list (map (\<lambda>w. mset (held w)) (ds_workers d))
      = sum_list (map (\<lambda>w. mset (held w)) (ds_workers (set_worker i WIdle d))) + mset (held v)"
    using sum_set_worker [OF assms, of "\<lambda>w. mset (held w)" WIdle] by simp
  then show ?thesis by (simp add: place_def subseteq_mset_def)
qed

text \<open>What runs or was left apart from worker \<open>i\<close>.\<close>

definition others :: "dispatcher \<Rightarrow> nat \<Rightarrow> worker_spec set" where
  "others d i = {s. \<exists>j. j \<noteq> i \<and> worker_at d j (WRunning s)} \<union> set (ds_left d)"

lemma own_id:
  assumes "conserved d" "distinct_ids d" "worker_at d i v" "held v = [s]" "t \<in> others d i"
  shows "ws_execution t \<noteq> ws_execution s"
proof (cases "t \<in> set (ds_left d)")
  case True
  then have "{#s, t#} \<subseteq># mset (held v) + mset (ds_left d)" using assms(4) by simp
  with worker_place [OF assms(3)] show ?thesis
    using places_differ [OF assms(1,2), of s t] by (metis subset_mset.order_trans)
next
  case False
  with assms(5) obtain j where j: "worker_at d j (WRunning t)" "j \<noteq> i" by (auto simp: others_def)
  from workers_place [OF assms(3) j(1) j(2) [symmetric]] assms(4) show ?thesis
    using places_differ [OF assms(1,2), of s t] by (simp add: add_mset_commute)
qed

lemma flying_split:
  assumes "worker_at d i v"
  shows "runs d \<union> set (ds_left d) = {s. v = WRunning s} \<union> others d i"
  using assms by (auto simp: runs_def others_def worker_at_def)

lemma flying_set_worker:
  assumes "worker_at d i v" "ds_workers e = ds_workers d"
  shows "runs (set_worker i w e) \<union> set (ds_left e)
    = {s. w = WRunning s} \<union> {s. \<exists>j. j \<noteq> i \<and> worker_at d j (WRunning s)} \<union> set (ds_left e)"
  using assms by (auto simp: runs_def worker_at_def set_worker_def nth_list_update split: if_splits)

lemma flight_keep:
  assumes ok: "flight_ok d" and i: "worker_at d i v" "ds_workers e = ds_workers d"
    and no: "\<forall>t. v \<noteq> WRunning t" "\<forall>t. w \<noteq> WRunning t"
    and eq: "ds_left e = ds_left d" "dq_in_flight (ds_queue e) = dq_in_flight (ds_queue d)"
  shows "flight_ok (set_worker i w e)"
  unfolding flight_ok_def set_worker_simps eq flying_set_worker [OF i, of w, unfolded eq]
  using ok no flying_split [OF i(1)] by (simp add: flight_ok_def others_def)

lemma flight_remove:
  assumes ok: "flight_ok d" "conserved d" "distinct_ids d"
    and i: "worker_at d i (WRunning s)" "ds_workers e = ds_workers d" and no: "\<forall>t. w \<noteq> WRunning t"
    and eq: "ds_left e = ds_left d"
      "dq_in_flight (ds_queue e) = (dq_in_flight (ds_queue d))(ws_execution s := None)"
  shows "flight_ok (set_worker i w e)"
proof -
  have own: "t \<in> others d i \<Longrightarrow> ws_execution t \<noteq> ws_execution s" for t
    using own_id [OF ok(2,3) i(1), of s t] by simp
  have "dq_in_flight (ds_queue d) k = Some t \<longleftrightarrow> t \<in> {s} \<union> others d i \<and> ws_execution t = k" for k t
    using ok(1) flying_split [OF i(1)] by (auto simp: flight_ok_def)
  then have "((dq_in_flight (ds_queue d))(ws_execution s := None)) k = Some t
      \<longleftrightarrow> t \<in> others d i \<and> ws_execution t = k" for k t
    using own by auto
  then show ?thesis
    unfolding flight_ok_def set_worker_simps eq flying_set_worker [OF i, of w, unfolded eq]
    using no by (simp add: others_def)
qed

lemma flight_add:
  assumes ok: "flight_ok d" "conserved d" "distinct_ids d"
    and i: "worker_at d i v" "ds_workers e = ds_workers d" "held v = [s]" and no: "\<forall>t. v \<noteq> WRunning t"
    and new: "w = WRunning s \<and> ds_left e = ds_left d \<or> w = WIdle \<and> ds_left e = s # ds_left d"
    and eq: "dq_in_flight (ds_queue e) = (dq_in_flight (ds_queue d))(ws_execution s \<mapsto> s)"
  shows "flight_ok (set_worker i w e)"
proof -
  have own: "t \<in> others d i \<Longrightarrow> ws_execution t \<noteq> ws_execution s" for t
    using own_id [OF ok(2,3) i(1,3)] .
  have "dq_in_flight (ds_queue d) k = Some t \<longleftrightarrow> t \<in> others d i \<and> ws_execution t = k" for k t
    using ok(1) no flying_split [OF i(1)] by (auto simp: flight_ok_def)
  then have "((dq_in_flight (ds_queue d))(ws_execution s \<mapsto> s)) k = Some t
      \<longleftrightarrow> t \<in> {s} \<union> others d i \<and> ws_execution t = k" for k t
    using own by auto
  moreover have "{s. w = WRunning s} \<union> {s. \<exists>j. j \<noteq> i \<and> worker_at d j (WRunning s)} \<union> set (ds_left e)
      = {s} \<union> others d i"
    using new by (auto simp: others_def)
  ultimately show ?thesis
    unfolding flight_ok_def set_worker_simps flying_set_worker [OF i(1,2)] eq by simp
qed

text \<open>How a step moves the specs.\<close>

lemma place_set_worker:
  assumes "worker_at d i v" "ds_workers e = ds_workers d"
  shows "place (set_worker i w e) + mset (held v) + mset (dq_pending (ds_queue d)) + mset (ds_acked d)
      + mset (dq_dlq (ds_queue d)) + mset (ds_left d)
    = place d + mset (held w) + mset (dq_pending (ds_queue e)) + mset (ds_acked e)
      + mset (dq_dlq (ds_queue e)) + mset (ds_left e)"
proof -
  have "sum_list (map (\<lambda>w. mset (held w)) (ds_workers (set_worker i w e))) + mset (held v)
      = sum_list (map (\<lambda>w. mset (held w)) (ds_workers d)) + mset (held w)"
    using sum_set_worker [of e i v "\<lambda>w. mset (held w)" w] assms by (simp add: worker_at_def)
  then show ?thesis by (simp add: place_def ac_simps)
qed

definition moves :: "dispatcher \<Rightarrow> dispatcher \<Rightarrow> bool" where
  "moves d d' \<longleftrightarrow> place d' = place d
     \<or> (\<exists>s. s \<in># place d \<and> ws_attempt s < dq_max (ds_queue d)
          \<and> place d' = place d - {#s#} + {#next_attempt s#})"

lemma moves_ok:
  assumes "moves d d'" "conserved d" "\<forall>s \<in># place d. descends d s"
    and same: "ds_accepted d' = ds_accepted d" "dq_max (ds_queue d') = dq_max (ds_queue d)"
  shows "conserved d' \<and> (\<forall>s \<in># place d'. descends d' s)"
  using assms(1) unfolding moves_def
proof
  assume "place d' = place d"
  with assms show ?thesis by (simp add: conserved_def descends_def)
next
  assume "\<exists>s. s \<in># place d \<and> ws_attempt s < dq_max (ds_queue d)
          \<and> place d' = place d - {#s#} + {#next_attempt s#}"
  then obtain s where s: "s \<in># place d" "ws_attempt s < dq_max (ds_queue d)"
    "place d' = place d - {#s#} + {#next_attempt s#}" by blast
  have "image_mset ws_execution (place d') = image_mset ws_execution (place d)"
    using s(1,3) by (simp add: image_mset_Diff multiset_add_sub_el_shuffle)
  moreover have "descends d' (next_attempt s)"
    using assms(3) s(1,2) same by (fastforce simp: descends_def next_attempt_def)
  moreover have "descends d' t" if "t \<in># place d" for t
    using assms(3) that same by (simp add: descends_def)
  ultimately show ?thesis
    using assms(2) same s(3) by (auto simp: conserved_def dest: in_diffD)
qed

text \<open>A worker that runs a spec finds it in the in-flight set.\<close>

lemma running_known:
  assumes "flight_ok d" "worker_at d i (WRunning s)"
  shows "dq_in_flight (ds_queue d) (ws_execution s) = Some s"
  using assms flying_split [OF assms(2)] by (auto simp: flight_ok_def)

lemma work_step_moves:
  assumes step: "work_step d d'" and ok: "conserved d" "flight_ok d" "distinct_ids d"
  shows "moves d d' \<and> flight_ok d' \<and> ds_accepted d' = ds_accepted d
    \<and> dq_max (ds_queue d') = dq_max (ds_queue d)"
  using step
proof cases
  case (receive i e spec q)
  from Dequeue_select_Inr [OF receive(3)] obtain rest where
    q: "dq_pending (ds_queue d) = spec # rest" "q = (ds_queue d)\<lparr>dq_pending := rest\<rparr>" by blast
  have "flight_ok d'" unfolding receive(1)
    by (rule flight_keep [OF ok(2) receive(2)]) (simp_all add: q)
  with place_set_worker [OF receive(2), of "d\<lparr>ds_queue := q\<rparr>" "WReceived spec"]
  show ?thesis by (simp add: receive(1) q moves_def)
next
  case (leave i e err q)
  with Dequeue_select_Inl have q: "q = ds_queue d" by blast
  have "flight_ok d'" unfolding leave(1)
    by (rule flight_keep [OF ok(2) leave(2)]) (simp_all add: q)
  with place_set_worker [OF leave(2), of "d\<lparr>ds_queue := q\<rparr>" WGone]
  show ?thesis by (simp add: leave(1) q moves_def)
next
  case (mark i spec)
  let ?e = "d\<lparr>ds_queue := Dequeue_mark spec (ds_queue d),
    ds_stats := (ds_stats d)\<lparr>st_spawned := st_spawned (ds_stats d) + 1\<rparr>,
    ds_spawns := spec # ds_spawns d\<rparr>"
  have "flight_ok d'" unfolding mark(1)
    by (rule flight_add [OF ok(2,1,3) mark(2), of _ spec]) (simp_all add: Dequeue_mark_def)
  with place_set_worker [OF mark(2), of ?e "WRunning spec"]
  show ?thesis by (simp add: mark(1) Dequeue_mark_def moves_def)
next
  case (finish i spec a)
  have known: "dq_in_flight (ds_queue d) (ws_execution spec) \<noteq> None"
    using running_known [OF ok(2) finish(2)] by simp
  from worker_place [OF finish(2)] have sp: "spec \<in># place d"
    by (simp add: insert_subset_eq_iff)
  from known show ?thesis
  proof (cases rule: finish_spec_cases [of d spec i a])
    case (acked st)
    have "flight_ok d'" unfolding finish(1) acked(1)
      by (rule flight_remove [OF ok(2,1,3) finish(2)]) simp_all
    with acked place_set_worker [OF finish(2), of "d\<lparr>ds_stats := st,
        ds_queue := (ds_queue d)\<lparr>dq_in_flight := (dq_in_flight (ds_queue d))(ws_execution spec := None)\<rparr>,
        ds_acked := spec # ds_acked d\<rparr>" WIdle]
    show ?thesis by (simp add: finish(1) moves_def)
  next
    case (dropped st)
    have "flight_ok d'" unfolding finish(1) dropped(1)
      by (rule flight_remove [OF ok(2,1,3) finish(2)]) (simp_all add: nack_drop_def)
    with dropped place_set_worker [OF finish(2), of "d\<lparr>ds_queue := nack_drop spec (ds_queue d),
        ds_stats := st\<rparr>" WIdle]
    show ?thesis by (simp add: finish(1) moves_def nack_drop_def)
  next
    case (retry st)
    have "flight_ok d'" unfolding finish(1) retry(1)
      by (rule flight_remove [OF ok(2,1,3) finish(2)]) simp_all
    moreover have "place d' = place d - {#spec#} + {#next_attempt spec#}"
    proof -
      have "place d' + {#spec#} = place d + {#next_attempt spec#}"
        using place_set_worker [OF finish(2), of "d\<lparr>ds_stats := st,
          ds_queue := (ds_queue d)\<lparr>dq_in_flight := (dq_in_flight (ds_queue d))(ws_execution spec := None)\<rparr>\<rparr>"
          "WRetrying (next_attempt spec)"]
        unfolding finish(1) retry(1) by simp
      moreover obtain M where "place d = add_mset spec M" using sp by (meson mset_add)
      ultimately show ?thesis by (simp add: add_mset_commute [of spec])
    qed
    ultimately show ?thesis
      using sp retry by (auto simp: finish(1) moves_def)
  qed
next
  case (requeue i retry e u q)
  with Nack_send_Inr have q: "q = (ds_queue d)\<lparr>dq_pending := dq_pending (ds_queue d) @ [retry]\<rparr>"
    by blast
  let ?e = "d\<lparr>ds_queue := q, ds_stats := recordNackResult False True (ds_stats d)\<rparr>"
  have "flight_ok d'" unfolding requeue(1)
    by (rule flight_keep [OF ok(2) requeue(2)]) (simp_all add: q)
  with place_set_worker [OF requeue(2), of ?e WIdle]
  show ?thesis by (simp add: requeue(1) q moves_def)
next
  case (abandon i retry e err q)
  with Nack_send_Inl have q: "q = (ds_queue d)\<lparr>dq_in_flight :=
      (dq_in_flight (ds_queue d))(ws_execution retry \<mapsto> retry)\<rparr>" by blast
  let ?e = "d\<lparr>ds_queue := q, ds_left := retry # ds_left d\<rparr>"
  have "flight_ok d'" unfolding abandon(1)
    by (rule flight_add [OF ok(2,1,3) abandon(2), of _ retry]) (simp_all add: q)
  with place_set_worker [OF abandon(2), of ?e WIdle]
  show ?thesis by (simp add: abandon(1) q moves_def)
qed

lemma Enqueue_select_Inr:
  "Enqueue_select e c s q = Some (Inr u, q') \<Longrightarrow>
     has_room q \<and> q' = q\<lparr>dq_pending := dq_pending q @ [s]\<rparr>"
  by (auto simp: Enqueue_select_def split: queue_event.splits if_splits)

lemma disp_ok_step:
  assumes step: "disp_step d d'" and ok: "disp_ok d"
  shows "disp_ok d'"
  unfolding disp_ok_def
proof
  assume dist: "distinct_ids d'"
  from step consider (work) "work_step d d'" | (outer) "outer_step d d'" by (auto simp: disp_step_def)
  then show "conserved d' \<and> flight_ok d' \<and> (\<forall>s \<in># place d'. descends d' s)"
  proof cases
    case work
    have acc: "ds_accepted d' = ds_accepted d"
      using work by cases (auto simp: finish_spec_def Let_def split: prod.splits sum.splits nack_begin.splits)
    with dist have "distinct_ids d" by (simp add: distinct_ids_def)
    with ok work_step_moves [OF work] moves_ok [of d d'] show ?thesis by (auto simp: disp_ok_def)
  next
    case outer
    then show ?thesis
    proof cases
      case (enqueue spec e ctx_done q)
      from Enqueue_select_Inr [OF enqueue(3)]
      have q: "q = (ds_queue d)\<lparr>dq_pending := dq_pending (ds_queue d) @ [spec]\<rparr>" by blast
      have "distinct_ids d" using dist enqueue(1) by (simp add: distinct_ids_def)
      with ok have i: "conserved d" "flight_ok d" "\<forall>s \<in># place d. descends d s"
        by (simp_all add: disp_ok_def)
      have "place d' = add_mset spec (place d)" by (simp add: enqueue(1) q place_def)
      moreover have "descends d' spec" by (auto simp: descends_def enqueue(1) intro!: exI [of _ "ws_attempt spec"])
      moreover have "descends d s \<Longrightarrow> descends d' s" for s
        by (auto simp: descends_def enqueue(1) q)
      moreover have "flight_ok d'" using i(2) by (simp add: flight_ok_def runs_def worker_at_def enqueue(1) q)
      ultimately show ?thesis using i by (auto simp: conserved_def enqueue(1))
    next
      case shut
      with ok dist show ?thesis
        by (auto simp: disp_ok_def distinct_ids_def conserved_def flight_ok_def descends_def place_def
            runs_def worker_at_def Queue_Close_def)
    next
      case stop
      with ok dist show ?thesis
        by (auto simp: disp_ok_def distinct_ids_def conserved_def flight_ok_def descends_def place_def
            runs_def worker_at_def Stop_def split: if_splits)
    qed
  qed
qed

lemma sum_list_no_specs [simp]: "sum_list (replicate n {#}) = {#}"
  by (induction n) simp_all

text \<open>The dispatcher of a new queue with its pool started.\<close>

lemma disp_ok_Start:
  assumes "Start n (NewDispatcher (NewInMemoryQueue b mx nb)) = Some d"
  shows "disp_ok d"
proof -
  have "\<not> worker_at d i (WRunning s)" for i s
    using assms by (auto simp: Start_def NewDispatcher_def worker_at_def split: if_splits)
  moreover have "place d = {#}"
    using assms by (auto simp: Start_def NewDispatcher_def NewInMemoryQueue_def place_def split: if_splits)
  ultimately show ?thesis
    using assms by (auto simp: disp_ok_def conserved_def flight_ok_def runs_def Start_def
        NewDispatcher_def NewInMemoryQueue_def split: if_splits)
qed

lemma disp_ok_reachable:
  assumes "Start n (NewDispatcher (NewInMemoryQueue b mx nb)) = Some d0" "disp_step\<^sup>*\<^sup>* d0 d"
  shows "disp_ok d"
  using assms(2) by (induction rule: rtranclp_induct) (use disp_ok_Start [OF assms(1)] disp_ok_step in blast)+

section \<open>The spawn budget\<close>

text \<open>How often a spec may still be spawned, and what a worker has not yet used of it.\<close>

definition budget :: "int \<Rightarrow> worker_spec \<Rightarrow> int" where
  "budget mx s = max 1 (mx - ws_attempt s + 1)"

lemma budget_pos: "1 \<le> budget mx s"
  by (simp add: budget_def)

lemma budget_next: "ws_attempt s < mx \<Longrightarrow> budget mx (next_attempt s) = budget mx s - 1"
  by (simp add: budget_def)

text \<open>The same for the specs of one execution.\<close>

definition budget_of :: "uuid \<Rightarrow> int \<Rightarrow> worker_spec \<Rightarrow> int" where
  "budget_of k mx s = (if ws_execution s = k then budget mx s else 0)"

definition spawned_of :: "uuid \<Rightarrow> worker_spec \<Rightarrow> int" where
  "spawned_of k s = (if ws_execution s = k then 1 else 0)"

fun to_spend :: "uuid \<Rightarrow> int \<Rightarrow> dworker \<Rightarrow> int" where
  "to_spend k mx (WReceived s) = budget_of k mx s"
| "to_spend k mx (WRunning s) = budget_of k mx s - spawned_of k s"
| "to_spend k mx (WRetrying s) = budget_of k mx s"
| "to_spend k mx _ = 0"

definition spend :: "uuid \<Rightarrow> dispatcher \<Rightarrow> int" where
  "spend k d = sum_list (map (spawned_of k) (ds_spawns d))
     + sum_list (map (budget_of k (dq_max (ds_queue d))) (dq_pending (ds_queue d)))
     + sum_list (map (to_spend k (dq_max (ds_queue d))) (ds_workers d))"

lemma spawned_le_budget: "spawned_of k s \<le> budget_of k mx s"
  using budget_pos by (simp add: budget_of_def spawned_of_def)

lemma spawned_nonneg: "0 \<le> spawned_of k s"
  by (simp add: spawned_of_def)

lemma budget_nonneg: "0 \<le> budget_of k mx s"
  using spawned_le_budget [of k s mx] spawned_nonneg [of k s] by simp

lemma to_spend_nonneg: "0 \<le> to_spend k mx w"
  using budget_nonneg spawned_le_budget by (cases w) auto

lemma budget_of_next: "ws_attempt s < mx \<Longrightarrow> budget_of k mx (next_attempt s) = budget_of k mx s - spawned_of k s"
  using budget_next [of s mx] by (simp add: budget_of_def spawned_of_def)

lemma spend_set_worker:
  assumes "worker_at d i v" "ds_workers e = ds_workers d" "dq_max (ds_queue e) = dq_max (ds_queue d)"
  shows "spend k (set_worker i w e) = sum_list (map (spawned_of k) (ds_spawns e))
     + sum_list (map (budget_of k (dq_max (ds_queue d))) (dq_pending (ds_queue e)))
     + sum_list (map (to_spend k (dq_max (ds_queue d))) (ds_workers d))
     + to_spend k (dq_max (ds_queue d)) w - to_spend k (dq_max (ds_queue d)) v"
  using sum_set_worker [of e i v "to_spend k (dq_max (ds_queue d))" w] assms
  by (simp add: spend_def worker_at_def)

lemma spend_work_step:
  assumes step: "work_step d d'" and ok: "conserved d" "flight_ok d" "distinct_ids d"
  shows "spend k d' \<le> spend k d"
  using step
proof cases
  case (receive i e spec q)
  from Dequeue_select_Inr [OF receive(3)] obtain rest where
    q: "dq_pending (ds_queue d) = spec # rest" "q = (ds_queue d)\<lparr>dq_pending := rest\<rparr>" by blast
  show ?thesis unfolding receive(1)
    by (subst spend_set_worker [OF receive(2)]) (simp_all add: q spend_def)
next
  case (leave i e err q)
  with Dequeue_select_Inl have q: "q = ds_queue d" by blast
  show ?thesis unfolding leave(1)
    by (subst spend_set_worker [OF leave(2)]) (simp_all add: q spend_def)
next
  case (mark i spec)
  show ?thesis unfolding mark(1)
    by (subst spend_set_worker [OF mark(2)]) (simp_all add: Dequeue_mark_def spend_def)
next
  case (finish i spec a)
  note le = spawned_le_budget [of k spec "dq_max (ds_queue d)"]
  have known: "dq_in_flight (ds_queue d) (ws_execution spec) \<noteq> None"
    using running_known [OF ok(2) finish(2)] by simp
  from known show ?thesis
  proof (cases rule: finish_spec_cases [of d spec i a])
    case (acked st)
    show ?thesis unfolding finish(1) acked(1)
      by (subst spend_set_worker [OF finish(2)]) (use acked le in \<open>simp_all add: spend_def\<close>)
  next
    case (dropped st)
    show ?thesis unfolding finish(1) dropped(1)
      by (subst spend_set_worker [OF finish(2)])
        (use dropped le in \<open>simp_all add: spend_def nack_drop_def\<close>)
  next
    case (retry st)
    show ?thesis unfolding finish(1) retry(1)
      by (subst spend_set_worker [OF finish(2)]) (use retry in \<open>simp_all add: spend_def budget_of_next\<close>)
  qed
next
  case (requeue i retry e u q)
  with Nack_send_Inr have q: "q = (ds_queue d)\<lparr>dq_pending := dq_pending (ds_queue d) @ [retry]\<rparr>"
    by blast
  show ?thesis unfolding requeue(1)
    by (subst spend_set_worker [OF requeue(2)]) (simp_all add: q spend_def)
next
  case (abandon i retry e err q)
  with Nack_send_Inl have q: "q = (ds_queue d)\<lparr>dq_in_flight :=
      (dq_in_flight (ds_queue d))(ws_execution retry \<mapsto> retry)\<rparr>" by blast
  show ?thesis unfolding abandon(1)
    by (subst spend_set_worker [OF abandon(2)])
       (use budget_nonneg [of k "dq_max (ds_queue d)" retry] in \<open>simp_all add: q spend_def\<close>)
qed

text \<open>The log of the spawns and the counter agree.\<close>

lemma spawns_counted_step:
  assumes "work_step d d'" "flight_ok d" "st_spawned (ds_stats d) = int (length (ds_spawns d))"
  shows "st_spawned (ds_stats d') = int (length (ds_spawns d'))"
  using assms(1)
proof cases
  case (finish i spec a)
  have known: "dq_in_flight (ds_queue d) (ws_execution spec) \<noteq> None"
    using running_known [OF assms(2) finish(2)] by simp
  then show ?thesis
    by (cases rule: finish_spec_cases [of d spec i a]) (use assms(3) in \<open>simp_all add: finish(1)\<close>)
next
  case (requeue i retry e u q)
  with assms(3) show ?thesis by (simp add: recordNackResult_def Let_def)
qed (use assms(3) in simp_all)

lemma spend_reachable:
  assumes st: "Start n (NewDispatcher (NewInMemoryQueue b mx nb)) = Some d0"
    and run: "disp_step\<^sup>*\<^sup>* d0 d" and dist: "distinct_ids d"
  shows "spend k d \<le> sum_list (map (budget_of k (dq_max (ds_queue d))) (ds_accepted d))
    \<and> st_spawned (ds_stats d) = int (length (ds_spawns d))"
  using run dist
proof (induction rule: rtranclp_induct)
  case base
  show ?case using st by (auto simp: Start_def NewDispatcher_def NewInMemoryQueue_def spend_def no_stats_def
        sum_list_replicate split: if_splits)
next
  case (step d d')
  from step(2) consider "work_step d d'" | "outer_step d d'" by (auto simp: disp_step_def)
  then show ?case
  proof cases
    case 1
    have acc: "ds_accepted d' = ds_accepted d"
      using 1 by cases (auto simp: finish_spec_def Let_def split: prod.splits sum.splits nack_begin.splits)
    with step.prems have dist: "distinct_ids d" by (simp add: distinct_ids_def)
    with disp_ok_reachable [OF st step(1)] have ok: "conserved d" "flight_ok d"
      by (simp_all add: disp_ok_def)
    with spend_work_step [OF 1, of k] work_step_moves [OF 1] spawns_counted_step [OF 1 ok(2)]
      step.IH [OF dist] dist acc
    show ?thesis by auto
  next
    case 2
    then show ?thesis
    proof cases
      case (enqueue spec e ctx_done q)
      from Enqueue_select_Inr [OF enqueue(3)]
      have q: "q = (ds_queue d)\<lparr>dq_pending := dq_pending (ds_queue d) @ [spec]\<rparr>" by blast
      have "distinct_ids d" using step.prems enqueue(1) by (simp add: distinct_ids_def)
      from step.IH [OF this] show ?thesis by (simp add: enqueue(1) q spend_def)
    qed (use step in \<open>auto simp: spend_def distinct_ids_def Queue_Close_def Stop_def\<close>)
  qed
qed

lemma sum_spawned_of: "sum_list (map (spawned_of k) xs) = int (count_list (map ws_execution xs) k)"
  by (induction xs) (auto simp: spawned_of_def)

lemma sum_budget_of_none: "k \<notin> ws_execution ` set xs \<Longrightarrow> sum_list (map (budget_of k mx) xs) = 0"
  by (induction xs) (auto simp: budget_of_def)

lemma sum_budget_of_one:
  "distinct (map ws_execution xs) \<Longrightarrow> a \<in> set xs \<Longrightarrow>
     sum_list (map (budget_of (ws_execution a) mx) xs) = budget mx a"
proof (induction xs)
  case (Cons x xs)
  have own: "budget_of (ws_execution a) mx a = budget mx a" by (simp add: budget_of_def)
  have other: "ws_execution x \<noteq> ws_execution a \<Longrightarrow> budget_of (ws_execution a) mx x = 0"
    by (simp add: budget_of_def)
  show ?case
  proof (cases "x = a")
    case True
    with Cons sum_budget_of_none [of "ws_execution a" xs mx] own show ?thesis by simp
  next
    case False
    with Cons.prems have "a \<in> set xs" "ws_execution x \<noteq> ws_execution a" by (auto simp: image_iff)
    with Cons other show ?thesis by simp
  qed
qed simp

section \<open>A sample run\<close>

definition sample_worker :: "uuid \<Rightarrow> worker_spec" where
  "sample_worker k = \<lparr>ws_execution = k, ws_task = 2, ws_agent = 3, ws_project = 4, ws_model = ''m'',
     ws_provider = ''p'', ws_permission = ''auto'', ws_input = '''', ws_attempt = 1\<rparr>"

lemma sample_worker_valid: "k \<noteq> 0 \<Longrightarrow> spec_Validate (sample_worker k) = Inr ()"
  by (simp add: spec_Validate_Inr sample_worker_def)

text \<open>One worker over a buffer of one: spec 1 is at the runtime, spec 2 waits.\<close>

definition pool_start :: dispatcher where
  "pool_start = (NewDispatcher (NewInMemoryQueue (Some 1) None False))
     \<lparr>ds_running := True, ds_workers := [WIdle]\<rparr>"

definition pool_busy :: dispatcher where
  "pool_busy = pool_start\<lparr>ds_queue := (ds_queue pool_start)\<lparr>dq_pending := [sample_worker 2],
       dq_in_flight := [1 \<mapsto> sample_worker 1]\<rparr>,
     ds_workers := [WRunning (sample_worker 1)], ds_stats := no_stats\<lparr>st_spawned := 1\<rparr>,
     ds_accepted := [sample_worker 2, sample_worker 1], ds_spawns := [sample_worker 1]\<rparr>"

lemmas pool_eval = pool_start_def pool_busy_def NewDispatcher_def NewInMemoryQueue_def
  set_worker_def worker_at_def Dequeue_mark_def no_stats_def

lemma pool_Start: "Start 1 (NewDispatcher (NewInMemoryQueue (Some 1) None False)) = Some pool_start"
  by (simp add: Start_def pool_start_def NewDispatcher_def numeral_eq_Suc)

lemma pool_run: "disp_step\<^sup>*\<^sup>* pool_start pool_busy"
proof -
  let ?p1 = "pool_start\<lparr>ds_queue := (ds_queue pool_start)\<lparr>dq_pending := [sample_worker 1]\<rparr>,
    ds_accepted := [sample_worker 1]\<rparr>"
  let ?p2 = "pool_start\<lparr>ds_workers := [WReceived (sample_worker 1)], ds_accepted := [sample_worker 1]\<rparr>"
  let ?p3 = "pool_start\<lparr>ds_queue := (ds_queue pool_start)\<lparr>dq_in_flight := [1 \<mapsto> sample_worker 1]\<rparr>,
     ds_workers := [WRunning (sample_worker 1)], ds_stats := no_stats\<lparr>st_spawned := 1\<rparr>,
     ds_accepted := [sample_worker 1], ds_spawns := [sample_worker 1]\<rparr>"
  have "Enqueue_select ChannelReady False (sample_worker 1) (ds_queue pool_start)
    = Some (Inr (), ds_queue ?p1)"
    by (simp add: Enqueue_select_def has_room_def pool_eval)
  from outer_step.enqueue [OF sample_worker_valid this]
  have s1: "disp_step pool_start ?p1" by (simp add: disp_step_def pool_eval)
  have "Dequeue_select ChannelReady False (ds_queue ?p1) = Some (Inr (sample_worker 1), ds_queue pool_start)"
    by (simp add: Dequeue_select_def pool_eval)
  with work_step.receive [of ?p1 0 ChannelReady "sample_worker 1" "ds_queue pool_start"]
  have s2: "disp_step ?p1 ?p2" by (simp add: disp_step_def pool_eval)
  from work_step.mark [of ?p2 0 "sample_worker 1"]
  have s3: "disp_step ?p2 ?p3" by (simp add: disp_step_def pool_eval sample_worker_def [of 1])
  have "Enqueue_select ChannelReady False (sample_worker 2) (ds_queue ?p3) = Some (Inr (), ds_queue pool_busy)"
    by (simp add: Enqueue_select_def has_room_def pool_eval)
  from outer_step.enqueue [OF sample_worker_valid this]
  have s4: "disp_step ?p3 pool_busy" by (simp add: disp_step_def pool_eval)
  from s1 s2 s3 s4 show ?thesis by (meson converse_rtranclp_into_rtranclp rtranclp.rtrancl_refl)
qed

section \<open>Properties\<close>

text \<open>
  C24: as long as producers use distinct execution ids, however workers, producers, Close and Stop
  interleave, every accepted spec is in exactly one place: waiting, with a worker, acknowledged,
  dead, or left in flight by a Nack whose context ended. The in-flight set is exactly what the
  workers run plus what was left, and a spec changes only in its attempt, which the cap bounds.
\<close>

theorem specs_conserved:
  assumes st: "Start n (NewDispatcher (NewInMemoryQueue b mx nb)) = Some d0"
    and run: "disp_step\<^sup>*\<^sup>* d0 d" and dist: "distinct (map ws_execution (ds_accepted d))"
  shows "image_mset ws_execution (mset (dq_pending (ds_queue d))
        + sum_list (map (\<lambda>w. mset (held w)) (ds_workers d))
        + mset (ds_acked d) + mset (dq_dlq (ds_queue d)) + mset (ds_left d))
      = mset (map ws_execution (ds_accepted d))
    \<and> ran (dq_in_flight (ds_queue d)) = runs d \<union> set (ds_left d)
    \<and> (\<forall>s \<in> set (dq_pending (ds_queue d)) \<union> runs d \<union> set (dq_dlq (ds_queue d)).
         \<exists>a \<in> set (ds_accepted d). s = a\<lparr>ws_attempt := ws_attempt s\<rparr>
           \<and> ws_attempt s \<le> max (ws_attempt a) (dq_max (ds_queue d)))"
proof -
  have ok: "conserved d" "flight_ok d" "\<forall>s \<in># place d. descends d s"
    using disp_ok_reachable [OF st run] dist by (simp_all add: disp_ok_def distinct_ids_def)
  have "runs d \<subseteq> set_mset (place d)"
  proof
    fix s assume "s \<in> runs d"
    then obtain i where "worker_at d i (WRunning s)" by (auto simp: runs_def)
    from worker_place [OF this] show "s \<in> set_mset (place d)" by (simp add: insert_subset_eq_iff)
  qed
  then have "\<forall>s \<in> set (dq_pending (ds_queue d)) \<union> runs d \<union> set (dq_dlq (ds_queue d)). descends d s"
    using ok(3) by (auto simp: place_def)
  moreover have "descends d s \<Longrightarrow> \<exists>a \<in> set (ds_accepted d). s = a\<lparr>ws_attempt := ws_attempt s\<rparr>
           \<and> ws_attempt s \<le> max (ws_attempt a) (dq_max (ds_queue d))" for s
    by (force simp: descends_def)
  moreover have "ran (dq_in_flight (ds_queue d)) = runs d \<union> set (ds_left d)"
    using ok(2) by (auto simp: flight_ok_def ran_def)
  moreover have "image_mset ws_execution (mset (dq_pending (ds_queue d))
        + sum_list (map (\<lambda>w. mset (held w)) (ds_workers d))
        + mset (ds_acked d) + mset (dq_dlq (ds_queue d)) + mset (ds_left d))
      = mset (map ws_execution (ds_accepted d))"
    using ok(1) unfolding conserved_def place_def mset_map .
  ultimately show ?thesis by blast
qed

theorem specs_conserved_witness:
  "ran (dq_in_flight (ds_queue pool_busy)) = {sample_worker 1}"
proof -
  have "distinct (map ws_execution (ds_accepted pool_busy))"
    by (simp add: pool_busy_def sample_worker_def)
  from specs_conserved [OF pool_Start pool_run this]
  have "ran (dq_in_flight (ds_queue pool_busy)) = runs pool_busy \<union> set (ds_left pool_busy)" by blast
  then show ?thesis by (auto simp: runs_def pool_eval)
qed

text \<open>
  C34: the retry cap bounds the spawns of every single spec. As long as producers use distinct
  execution ids, the runtime is asked to spawn the work of an accepted spec at most once, and once
  more for each attempt it has left, however the workers interleave; it is asked for nothing that
  was not accepted; and the counter of the dispatcher is the number of these requests.
\<close>

theorem spawns_bounded:
  assumes st: "Start n (NewDispatcher (NewInMemoryQueue b mx nb)) = Some d0"
    and run: "disp_step\<^sup>*\<^sup>* d0 d" and dist: "distinct (map ws_execution (ds_accepted d))"
  shows "(\<forall>a \<in> set (ds_accepted d). int (count_list (map ws_execution (ds_spawns d)) (ws_execution a))
             \<le> max 1 (dq_max (ds_queue d) - ws_attempt a + 1))
    \<and> ws_execution ` set (ds_spawns d) \<subseteq> ws_execution ` set (ds_accepted d)
    \<and> st_spawned (ds_stats d) = int (length (ds_spawns d))"
proof -
  have bound: "int (count_list (map ws_execution (ds_spawns d)) k)
      \<le> sum_list (map (budget_of k (dq_max (ds_queue d))) (ds_accepted d))" for k
  proof -
    have nn: "0 \<le> sum_list (map (to_spend k (dq_max (ds_queue d))) (ds_workers d))"
      "0 \<le> sum_list (map (budget_of k (dq_max (ds_queue d))) (dq_pending (ds_queue d)))"
      by (auto intro!: sum_list_nonneg simp: to_spend_nonneg budget_nonneg)
    from spend_reachable [OF st run, of k] dist nn show ?thesis
      by (simp add: spend_def distinct_ids_def sum_spawned_of)
  qed
  have "k \<in> ws_execution ` set (ds_accepted d)" if "k \<in> ws_execution ` set (ds_spawns d)" for k
  proof (rule ccontr)
    assume "k \<notin> ws_execution ` set (ds_accepted d)"
    with bound [of k] have "count_list (map ws_execution (ds_spawns d)) k = 0"
      by (simp add: sum_budget_of_none)
    with that show False by (simp add: count_list_0_iff)
  qed
  moreover have "\<forall>a \<in> set (ds_accepted d). int (count_list (map ws_execution (ds_spawns d)) (ws_execution a))
      \<le> max 1 (dq_max (ds_queue d) - ws_attempt a + 1)"
  proof
    fix a assume "a \<in> set (ds_accepted d)"
    from bound [of "ws_execution a"] sum_budget_of_one [OF dist this]
    show "int (count_list (map ws_execution (ds_spawns d)) (ws_execution a))
      \<le> max 1 (dq_max (ds_queue d) - ws_attempt a + 1)"
      by (simp add: budget_def)
  qed
  ultimately show ?thesis using spend_reachable [OF st run] dist by (auto simp: distinct_ids_def)
qed

text \<open>Of two accepted specs the first has been spawned once; the cap of three holds for it.\<close>

theorem spawns_bounded_witness:
  "ds_spawns pool_busy = [sample_worker 1]
   \<and> int (count_list (map ws_execution (ds_spawns pool_busy)) 1) \<le> 3"
proof -
  have "distinct (map ws_execution (ds_accepted pool_busy))"
    by (simp add: pool_busy_def sample_worker_def)
  from spawns_bounded [OF pool_Start pool_run this] show ?thesis
    by (simp add: pool_eval sample_worker_def)
qed

end
