(* ===== verification/Dispatch_Live.thy ===== *)
theory Dispatch_Live
  imports Dispatch_Runs
begin

text \<open>
  Progress of the dispatcher: every run of the pool ends; it settles every spec when all of them
  fit the buffer; and when they do not, a pool whose workers all wait to put a retry back into the
  full buffer stops for good, because they are its only readers.
\<close>

section \<open>A measure that every step of the pool lowers\<close>

definition weight :: "int \<Rightarrow> worker_spec \<Rightarrow> nat" where
  "weight mx s = 5 * nat (budget mx s)"

fun worker_weight :: "int \<Rightarrow> dworker \<Rightarrow> nat" where
  "worker_weight mx WGone = 0"
| "worker_weight mx WIdle = 1"
| "worker_weight mx (WReceived s) = weight mx s"
| "worker_weight mx (WRunning s) = weight mx s - 1"
| "worker_weight mx (WRetrying s) = weight mx s + 2"

definition work_left :: "dispatcher \<Rightarrow> nat" where
  "work_left d = sum_list (map (weight (dq_max (ds_queue d))) (dq_pending (ds_queue d)))
     + sum_list (map (worker_weight (dq_max (ds_queue d))) (ds_workers d))"

lemma weight_ge: "5 \<le> weight mx s"
  using budget_pos [of mx s] by (simp add: weight_def)

lemma weight_next: "ws_attempt s < mx \<Longrightarrow> weight mx s = weight mx (next_attempt s) + 5"
  using budget_next [of s mx] budget_pos [of mx "next_attempt s"] by (simp add: weight_def)

lemma work_left_set_worker:
  assumes "worker_at d i v" "ds_workers e = ds_workers d" "dq_max (ds_queue e) = dq_max (ds_queue d)"
  shows "work_left (set_worker i w e) + worker_weight (dq_max (ds_queue d)) v
    = sum_list (map (weight (dq_max (ds_queue d))) (dq_pending (ds_queue e)))
     + sum_list (map (worker_weight (dq_max (ds_queue d))) (ds_workers d))
     + worker_weight (dq_max (ds_queue d)) w"
  using sum_set_worker [of e i v "worker_weight (dq_max (ds_queue d))" w] assms
  by (simp add: work_left_def worker_at_def)

text \<open>This needs no invariant: a Nack of an unknown spec ends its round too.\<close>

lemma finish_spec_shape:
  obtains e w where "finish_spec i a s d = set_worker i w e" "ds_workers e = ds_workers d"
    "dq_max (ds_queue e) = dq_max (ds_queue d)" "dq_pending (ds_queue e) = dq_pending (ds_queue d)"
    "ds_cancelled e = ds_cancelled d" "dq_buffer (ds_queue e) = dq_buffer (ds_queue d)"
    "w = WIdle \<or> w = WRetrying (next_attempt s) \<and> ws_attempt s < dq_max (ds_queue d)"
proof (cases "dq_in_flight (ds_queue d) (ws_execution s) = None")
  case True
  show thesis
    by (rule that [of WIdle "d\<lparr>ds_stats := count_answer a (ds_stats d)\<rparr>"])
       (simp_all add: finish_spec_def Let_def Ack_def Nack_begin_def True set_worker_def)
next
  case False
  then show thesis
  proof (cases rule: finish_spec_cases [of d s i a])
    case (acked st)
    show thesis by (rule that [OF acked(1)]) simp_all
  next
    case (dropped st)
    show thesis by (rule that [OF dropped(1)]) (simp_all add: nack_drop_def)
  next
    case (retry st)
    show thesis by (rule that [OF retry(1)]) (simp_all add: retry)
  qed
qed

lemma work_step_lowers:
  assumes "work_step d d'"
  shows "work_left d' < work_left d \<and> dq_max (ds_queue d') = dq_max (ds_queue d)"
  using assms
proof cases
  case (receive i e spec q)
  from Dequeue_select_Inr [OF receive(3)] obtain rest where
    q: "dq_pending (ds_queue d) = spec # rest" "q = (ds_queue d)\<lparr>dq_pending := rest\<rparr>" by blast
  from work_left_set_worker [OF receive(2), of "d\<lparr>ds_queue := q\<rparr>" "WReceived spec"]
  show ?thesis by (simp add: receive(1) q work_left_def)
next
  case (leave i e err q)
  with Dequeue_select_Inl have q: "q = ds_queue d" by blast
  from work_left_set_worker [OF leave(2), of "d\<lparr>ds_queue := q\<rparr>" WGone]
  show ?thesis by (simp add: leave(1) q work_left_def)
next
  case (mark i spec)
  let ?e = "d\<lparr>ds_queue := Dequeue_mark spec (ds_queue d),
    ds_stats := (ds_stats d)\<lparr>st_spawned := st_spawned (ds_stats d) + 1\<rparr>,
    ds_spawns := spec # ds_spawns d\<rparr>"
  from work_left_set_worker [OF mark(2), of ?e "WRunning spec"] weight_ge [of "dq_max (ds_queue d)" spec]
  show ?thesis by (simp add: mark(1) Dequeue_mark_def work_left_def)
next
  case (finish i spec a)
  obtain e w where f: "finish_spec i a spec d = set_worker i w e" "ds_workers e = ds_workers d"
    "dq_max (ds_queue e) = dq_max (ds_queue d)" "dq_pending (ds_queue e) = dq_pending (ds_queue d)"
    "w = WIdle \<or> w = WRetrying (next_attempt spec) \<and> ws_attempt spec < dq_max (ds_queue d)"
    by (rule finish_spec_shape)
  let ?mx = "dq_max (ds_queue d)"
  have "worker_weight ?mx w < weight ?mx spec - 1"
    using f(5) weight_ge [of ?mx spec] weight_next [of spec ?mx]
      weight_ge [of ?mx "next_attempt spec"] by auto
  with work_left_set_worker [OF finish(2) f(2,3), of w] f
  show ?thesis by (simp add: finish(1) work_left_def)
next
  case (requeue i retry e u q)
  with Nack_send_Inr have q: "q = (ds_queue d)\<lparr>dq_pending := dq_pending (ds_queue d) @ [retry]\<rparr>"
    by blast
  from work_left_set_worker [OF requeue(2),
      of "d\<lparr>ds_queue := q, ds_stats := recordNackResult False True (ds_stats d)\<rparr>" WIdle]
  show ?thesis by (simp add: requeue(1) q work_left_def)
next
  case (abandon i retry e err q)
  with Nack_send_Inl have q: "q = (ds_queue d)\<lparr>dq_in_flight :=
      (dq_in_flight (ds_queue d))(ws_execution retry \<mapsto> retry)\<rparr>" by blast
  from work_left_set_worker [OF abandon(2), of "d\<lparr>ds_queue := q, ds_left := retry # ds_left d\<rparr>" WIdle]
  show ?thesis by (simp add: abandon(1) q work_left_def)
qed

section \<open>A pool that can always move\<close>

text \<open>The specs that wait or are with a worker.\<close>

definition outstanding :: "dispatcher \<Rightarrow> nat" where
  "outstanding d = length (dq_pending (ds_queue d)) + sum_list (map (\<lambda>w. length (held w)) (ds_workers d))"

definition live :: "dispatcher \<Rightarrow> bool" where
  "live d \<longleftrightarrow> (\<exists>w \<in> set (ds_workers d). w \<noteq> WGone)"

text \<open>As long as the context lasts: what is outstanding fits the buffer, and somebody is there to
  take it, or nothing is outstanding.\<close>

definition roomy :: "dispatcher \<Rightarrow> bool" where
  "roomy d \<longleftrightarrow> \<not> ds_cancelled d \<and> outstanding d \<le> dq_buffer (ds_queue d)
     \<and> (live d \<or> outstanding d = 0)"

lemma outstanding_set_worker:
  assumes "worker_at d i v" "ds_workers e = ds_workers d"
  shows "outstanding (set_worker i w e) + length (held v) + length (dq_pending (ds_queue d))
    = outstanding d + length (held w) + length (dq_pending (ds_queue e))"
  using sum_set_worker [of e i v "\<lambda>w. length (held w)" w] assms
  by (simp add: outstanding_def worker_at_def)

lemma live_set_worker: "worker_at d i v \<Longrightarrow> ds_workers e = ds_workers d \<Longrightarrow> w \<noteq> WGone \<Longrightarrow> live (set_worker i w e)"
  by (auto simp: live_def worker_at_def set_worker_def intro!: bexI [of _ w] set_update_memI)

lemma held_le_outstanding:
  assumes "worker_at d i v"
  shows "length (dq_pending (ds_queue d)) + length (held v) \<le> outstanding d"
  using outstanding_set_worker [OF assms refl, of WIdle] by (simp add: outstanding_def)

lemma not_live_outstanding:
  assumes "\<And>w. w \<in> set (ds_workers d) \<Longrightarrow> held w = []"
  shows "outstanding d = length (dq_pending (ds_queue d))"
proof -
  have "map (\<lambda>w. length (held w)) (ds_workers d) = map (\<lambda>_. 0) (ds_workers d)" using assms by auto
  then have "sum_list (map (\<lambda>w. length (held w)) (ds_workers d)) = sum_list (map (\<lambda>_. 0) (ds_workers d))"
    by simp
  also have "\<dots> = 0" by (induction "ds_workers d") auto
  finally show ?thesis by (simp add: outstanding_def)
qed

lemma roomy_step:
  assumes "work_step d d'" "roomy d"
  shows "roomy d'"
  using assms(1)
proof cases
  case (receive i e spec q)
  from Dequeue_select_Inr [OF receive(3)] obtain rest where
    q: "dq_pending (ds_queue d) = spec # rest" "q = (ds_queue d)\<lparr>dq_pending := rest\<rparr>" by blast
  from outstanding_set_worker [OF receive(2), of "d\<lparr>ds_queue := q\<rparr>" "WReceived spec"]
    live_set_worker [OF receive(2), of "d\<lparr>ds_queue := q\<rparr>" "WReceived spec"] assms(2)
  show ?thesis by (simp add: receive(1) q roomy_def)
next
  case (leave i e err q)
  with Dequeue_select_Inl [OF leave(3)] assms(2) have q: "q = ds_queue d" "dq_pending (ds_queue d) = []"
    by (auto simp: roomy_def)
  have "live d' \<or> outstanding d' = 0"
  proof (cases "live d'")
    case False
    then have "outstanding d' = length (dq_pending (ds_queue d'))"
      by (intro not_live_outstanding) (auto simp: live_def)
    then show ?thesis by (simp add: leave(1) q)
  qed simp
  with outstanding_set_worker [OF leave(2), of "d\<lparr>ds_queue := q\<rparr>" WGone] assms(2)
  show ?thesis by (auto simp: leave(1) q roomy_def)
next
  case (mark i spec)
  let ?e = "d\<lparr>ds_queue := Dequeue_mark spec (ds_queue d),
    ds_stats := (ds_stats d)\<lparr>st_spawned := st_spawned (ds_stats d) + 1\<rparr>,
    ds_spawns := spec # ds_spawns d\<rparr>"
  from outstanding_set_worker [OF mark(2), of ?e "WRunning spec"]
    live_set_worker [OF mark(2), of ?e "WRunning spec"] assms(2)
  show ?thesis by (simp add: mark(1) roomy_def Dequeue_mark_def)
next
  case (finish i spec a)
  obtain w e where f: "finish_spec i a spec d = set_worker i w e" "ds_workers e = ds_workers d"
    "dq_max (ds_queue e) = dq_max (ds_queue d)" "dq_pending (ds_queue e) = dq_pending (ds_queue d)"
    "ds_cancelled e = ds_cancelled d" "dq_buffer (ds_queue e) = dq_buffer (ds_queue d)"
    "w = WIdle \<or> w = WRetrying (next_attempt spec) \<and> ws_attempt spec < dq_max (ds_queue d)"
    by (rule finish_spec_shape)
  from outstanding_set_worker [OF finish(2) f(2), of w] live_set_worker [OF finish(2) f(2), of w]
    f(4-7) assms(2)
  show ?thesis by (auto simp: finish(1) f(1) roomy_def)
next
  case (requeue i retry e u q)
  with Nack_send_Inr have q: "q = (ds_queue d)\<lparr>dq_pending := dq_pending (ds_queue d) @ [retry]\<rparr>"
    by blast
  let ?e = "d\<lparr>ds_queue := q, ds_stats := recordNackResult False True (ds_stats d)\<rparr>"
  from outstanding_set_worker [OF requeue(2), of ?e WIdle] live_set_worker [OF requeue(2), of ?e WIdle]
    assms(2)
  show ?thesis by (simp add: requeue(1) q roomy_def)
next
  case (abandon i retry e err q)
  with Nack_send_Inl [OF abandon(3)] assms(2) show ?thesis by (simp add: roomy_def)
qed

text \<open>A pool that cannot move has nothing left to do.\<close>

lemma stuck_done:
  assumes stuck: "\<not> (\<exists>d'. work_step d d')" and r: "roomy d"
  shows "outstanding d = 0"
proof (cases "live d")
  case False
  with r show ?thesis by (simp add: roomy_def)
next
  case True
  have idle: "w = WIdle \<or> w = WGone" if w: "w \<in> set (ds_workers d)" for w
  proof -
    from w obtain i where i: "worker_at d i w" by (auto simp: worker_at_def in_set_conv_nth)
    show ?thesis
    proof (cases w)
      case (WReceived s)
      with i stuck work_step.mark show ?thesis by blast
    next
      case (WRunning s)
      with i stuck work_step.finish show ?thesis by blast
    next
      case (WRetrying s)
      with held_le_outstanding [OF i] r have "has_room (ds_queue d)"
        by (simp add: roomy_def has_room_def)
      then have "Nack_send ChannelReady (ds_cancelled d) s (ds_queue d)
          = Some (Inr (), (ds_queue d)\<lparr>dq_pending := dq_pending (ds_queue d) @ [s]\<rparr>)"
        by (simp add: Nack_send_def)
      with i WRetrying stuck work_step.requeue show ?thesis by blast
    qed simp_all
  qed
  then have out: "outstanding d = length (dq_pending (ds_queue d))"
    by (intro not_live_outstanding) fastforce
  from True idle obtain i where i: "worker_at d i WIdle"
    by (fastforce simp: live_def worker_at_def in_set_conv_nth)
  have "dq_pending (ds_queue d) = []"
  proof (rule ccontr)
    assume "dq_pending (ds_queue d) \<noteq> []"
    then obtain s rest where "dq_pending (ds_queue d) = s # rest" by (meson neq_Nil_conv)
    then have "Dequeue_select ChannelReady (ds_cancelled d) (ds_queue d)
        = Some (Inr s, (ds_queue d)\<lparr>dq_pending := rest\<rparr>)"
      by (simp add: Dequeue_select_def)
    with i stuck work_step.receive show False by blast
  qed
  with out show ?thesis by simp
qed

section \<open>Properties\<close>

text \<open>
  C35: the pool cannot run for ever on a finite queue: from any state it makes at most as many
  steps as its measure work_left, whatever the runtime answers.
\<close>

theorem pool_terminates:
  assumes "(work_step ^^ n) d d'"
  shows "n \<le> work_left d"
proof -
  have "work_left d' + n \<le> work_left d"
    using assms
  proof (induction n arbitrary: d')
    case (Suc n)
    then obtain e where "(work_step ^^ n) d e" "work_step e d'" by auto
    with Suc.IH work_step_lowers [of e d'] show ?case by fastforce
  qed simp
  then show ?thesis by simp
qed

text \<open>The runtime fails spec 1 of the sample run: its worker turns to the full buffer.\<close>

definition pool_stuck :: dispatcher where
  "pool_stuck = finish_spec 0 (Finished WorkerFailed) (sample_worker 1) pool_busy"

lemma pool_stuck_eq:
  "pool_stuck = pool_busy\<lparr>ds_queue := (ds_queue pool_busy)\<lparr>dq_in_flight := Map.empty\<rparr>,
     ds_workers := [WRetrying ((sample_worker 1)\<lparr>ws_attempt := 2\<rparr>)],
     ds_stats := no_stats\<lparr>st_spawned := 1, st_failed := 1\<rparr>\<rparr>"
  by (simp add: pool_stuck_def finish_spec_def Let_def wants_ack_def count_answer_def Nack_begin_def
      pool_eval sample_worker_def)

lemma pool_stuck_step: "work_step pool_busy pool_stuck"
  unfolding pool_stuck_def by (rule work_step.finish) (simp add: pool_eval)

theorem pool_terminates_witness: "(work_step ^^ 1) pool_busy pool_stuck \<and> 1 \<le> work_left pool_busy"
proof -
  have run: "(work_step ^^ 1) pool_busy pool_stuck" using pool_stuck_step by (simp only: relpowp_1)
  from run pool_terminates [OF run] show ?thesis by blast
qed

text \<open>
  C27: while the context lasts, a worker is left and everything outstanding fits the buffer, the
  pool works off all of it: when it comes to rest every accepted spec has been acknowledged,
  declared dead, or was left in flight by an earlier context.
\<close>

theorem pool_drains:
  assumes st: "Start n (NewDispatcher (NewInMemoryQueue b mx nb)) = Some d0"
    and reach: "disp_step\<^sup>*\<^sup>* d0 d" and dist: "distinct (map ws_execution (ds_accepted d))"
    and fits: "\<not> ds_cancelled d" "outstanding d \<le> dq_buffer (ds_queue d)" "live d"
    and work: "work_step\<^sup>*\<^sup>* d d'" and rest: "\<not> (\<exists>e. work_step d' e)"
  shows "mset (map ws_execution (ds_acked d')) + mset (map ws_execution (dq_dlq (ds_queue d')))
      + mset (map ws_execution (ds_left d')) = mset (map ws_execution (ds_accepted d))"
proof -
  have "roomy d'" using work
    by (induction rule: rtranclp_induct) (use fits roomy_step in \<open>auto simp: roomy_def\<close>)
  then have zero: "outstanding d' = 0" using stuck_done rest by blast
  have "disp_step\<^sup>*\<^sup>* d d'" using work by (rule rtranclp_mono [THEN predicate2D, rotated]) (auto simp: disp_step_def)
  with reach have "disp_ok d'" using disp_ok_reachable [OF st] by (meson rtranclp_trans)
  moreover have acc: "ds_accepted d' = ds_accepted d" using work
  proof (induction rule: rtranclp_induct)
    case (step e f)
    from step(2) have "ds_accepted f = ds_accepted e"
      by cases (auto simp: finish_spec_def Let_def split: prod.splits sum.splits nack_begin.splits)
    with step.IH show ?case by simp
  qed simp
  ultimately have "conserved d'" using dist by (simp add: disp_ok_def distinct_ids_def)
  moreover have "dq_pending (ds_queue d') = []"
    and none: "sum_list (map (\<lambda>w. length (held w)) (ds_workers d')) = 0"
    using zero by (simp_all add: outstanding_def)
  moreover have "sum_list (map (\<lambda>w. mset (held w)) ws) = {#}"
    if "sum_list (map (\<lambda>w. length (held w)) ws) = 0" for ws
    using that by (induction ws) auto
  from this [OF none] have "sum_list (map (\<lambda>w. mset (held w)) (ds_workers d')) = {#}" .
  ultimately show ?thesis by (simp add: conserved_def place_def acc)
qed

text \<open>The sample pool with one spec, worked off.\<close>

definition pool_one :: dispatcher where
  "pool_one = pool_start\<lparr>ds_queue := (ds_queue pool_start)\<lparr>dq_pending := [sample_worker 1]\<rparr>,
    ds_accepted := [sample_worker 1]\<rparr>"

definition pool_done :: dispatcher where
  "pool_done = pool_start\<lparr>ds_stats := no_stats\<lparr>st_spawned := 1, st_completed := 1\<rparr>,
    ds_accepted := [sample_worker 1], ds_acked := [sample_worker 1], ds_spawns := [sample_worker 1]\<rparr>"

lemma pool_one_run:
  "disp_step\<^sup>*\<^sup>* pool_start pool_one" "work_step\<^sup>*\<^sup>* pool_one pool_done"
  "\<not> (\<exists>e. work_step pool_done e)"
proof -
  let ?p2 = "pool_start\<lparr>ds_workers := [WReceived (sample_worker 1)], ds_accepted := [sample_worker 1]\<rparr>"
  let ?p3 = "pool_start\<lparr>ds_queue := (ds_queue pool_start)\<lparr>dq_in_flight := [1 \<mapsto> sample_worker 1]\<rparr>,
     ds_workers := [WRunning (sample_worker 1)], ds_stats := no_stats\<lparr>st_spawned := 1\<rparr>,
     ds_accepted := [sample_worker 1], ds_spawns := [sample_worker 1]\<rparr>"
  have "Enqueue_select ChannelReady False (sample_worker 1) (ds_queue pool_start)
    = Some (Inr (), ds_queue pool_one)"
    by (simp add: Enqueue_select_def has_room_def pool_eval pool_one_def)
  from outer_step.enqueue [OF sample_worker_valid this]
  show "disp_step\<^sup>*\<^sup>* pool_start pool_one"
    by (intro r_into_rtranclp) (simp add: disp_step_def pool_eval pool_one_def)
  have "Dequeue_select ChannelReady False (ds_queue pool_one) = Some (Inr (sample_worker 1), ds_queue pool_start)"
    by (simp add: Dequeue_select_def pool_eval pool_one_def)
  with work_step.receive [of pool_one 0 ChannelReady "sample_worker 1" "ds_queue pool_start"]
  have s2: "work_step pool_one ?p2" by (simp add: pool_eval pool_one_def)
  from work_step.mark [of ?p2 0 "sample_worker 1"]
  have s3: "work_step ?p2 ?p3" by (simp add: pool_eval sample_worker_def [of 1])
  from work_step.finish [of ?p3 0 "sample_worker 1" "Finished WorkerCompleted"]
  have s4: "work_step ?p3 pool_done"
    by (simp add: pool_eval pool_done_def finish_spec_def Let_def wants_ack_def Ack_def
        count_answer_def sample_worker_def)
  from s2 s3 s4 show "work_step\<^sup>*\<^sup>* pool_one pool_done"
    by (meson converse_rtranclp_into_rtranclp rtranclp.rtrancl_refl)
  show "\<not> (\<exists>e. work_step pool_done e)"
    by (auto elim!: work_step.cases simp: worker_at_def Dequeue_select_def pool_eval pool_done_def
        split: queue_event.splits)
qed

theorem pool_drains_witness:
  "mset (map ws_execution (ds_acked pool_done)) + mset (map ws_execution (dq_dlq (ds_queue pool_done)))
    + mset (map ws_execution (ds_left pool_done)) = {#1#}"
  by (subst pool_drains [OF pool_Start pool_one_run(1) _ _ _ _ pool_one_run(2,3)])
     (simp_all add: pool_eval pool_one_def outstanding_def live_def sample_worker_def)

text \<open>
  C25: when every worker that is left waits to put a retry back and the buffer is full, the
  dispatcher is stuck until its context ends: no worker moves, nothing is taken from the buffer
  and nothing is settled, through any enqueues and even through Close.
\<close>

theorem retry_deadlock:
  assumes "\<forall>w \<in> set (ds_workers d). w = WGone \<or> (\<exists>s. w = WRetrying s)"
    and "\<not> has_room (ds_queue d)" "\<not> ds_cancelled d"
    and run: "(\<lambda>x y. disp_step x y \<and> \<not> ds_cancelled y)\<^sup>*\<^sup>* d d'"
  shows "ds_workers d' = ds_workers d \<and> dq_pending (ds_queue d') = dq_pending (ds_queue d)
    \<and> ds_acked d' = ds_acked d \<and> dq_dlq (ds_queue d') = dq_dlq (ds_queue d)
    \<and> \<not> (\<exists>e. work_step d' e)"
proof -
  have no_work: "\<not> work_step x y" if "\<forall>w \<in> set (ds_workers x). w = WGone \<or> (\<exists>s. w = WRetrying s)"
    "\<not> has_room (ds_queue x)" "\<not> ds_cancelled x" for x y
  proof
    assume "work_step x y"
    then show False
    proof cases
      case (requeue i retry e u q)
      with Nack_send_Inr that show ?thesis by blast
    next
      case (abandon i retry e err q)
      with Nack_send_Inl that show ?thesis by blast
    qed (use that in \<open>auto simp: worker_at_def in_set_conv_nth dest!: bspec\<close>)
  qed
  have "ds_workers d' = ds_workers d \<and> dq_pending (ds_queue d') = dq_pending (ds_queue d)
    \<and> ds_acked d' = ds_acked d \<and> dq_dlq (ds_queue d') = dq_dlq (ds_queue d)
    \<and> dq_buffer (ds_queue d') = dq_buffer (ds_queue d) \<and> \<not> ds_cancelled d'"
    using run
  proof (induction rule: rtranclp_induct)
    case base
    show ?case using assms(3) by simp
  next
    case (step x y)
    then have full: "\<not> has_room (ds_queue x)" using assms(2) by (simp add: has_room_def)
    with step no_work [of x y] assms(1) have "outer_step x y" by (auto simp: disp_step_def)
    then show ?case
    proof cases
      case (enqueue spec e ctx_done q)
      with Enqueue_select_Inr full show ?thesis by blast
    qed (use step in \<open>auto simp: Queue_Close_def Stop_def\<close>)
  qed
  with no_work [of d'] assms(1,2) show ?thesis by (auto simp: has_room_def)
qed

theorem retry_deadlock_witness:
  "\<exists>d. disp_step\<^sup>*\<^sup>* pool_start d \<and> dq_closed (ds_queue d) \<and> length (dq_pending (ds_queue d)) = 1
     \<and> ds_acked d = [] \<and> \<not> (\<exists>e. work_step d e)"
proof -
  let ?d = "pool_stuck\<lparr>ds_queue := Queue_Close (ds_queue pool_stuck)\<rparr>"
  have s: "disp_step pool_stuck ?d" by (simp add: disp_step_def outer_step.shut)
  have run: "(\<lambda>x y. disp_step x y \<and> \<not> ds_cancelled y)\<^sup>*\<^sup>* pool_stuck ?d"
    using s by (intro r_into_rtranclp) (simp add: pool_stuck_eq pool_eval)
  have "\<forall>w \<in> set (ds_workers pool_stuck). w = WGone \<or> (\<exists>s. w = WRetrying s)"
    "\<not> has_room (ds_queue pool_stuck)" "\<not> ds_cancelled pool_stuck"
    by (simp_all add: pool_stuck_eq pool_eval has_room_def)
  from retry_deadlock [OF this run] have "\<not> (\<exists>e. work_step ?d e)" "ds_acked ?d = []"
    by (auto simp: pool_stuck_eq pool_eval)
  moreover have "disp_step\<^sup>*\<^sup>* pool_start ?d"
    using pool_run pool_stuck_step s by (meson disp_step_def rtranclp.rtrancl_into_rtrancl)
  ultimately show ?thesis
    by (intro exI [of _ ?d]) (auto simp: pool_stuck_eq pool_eval Queue_Close_def)
qed

end
