(* ===== verification/Agent_Service.thy ===== *)
theory Agent_Service
  imports Errors Store_Agents
begin

text \<open>
  The agent service (src/src/internal/service/agent.go) over the agent table and the capability
  catalog. UpdateAgent is written as its check, which works on a copy of the row, and its commit,
  since other requests may come between the two.
\<close>

section \<open>Requests\<close>

record create_agent_request =
  ca_project :: uuid
  ca_name :: string
  ca_role :: string
  ca_capabilities :: "string list"
  ca_metadata :: string

record list_agents_request =
  la_project :: uuid
  la_status :: string
  la_capability :: string
  la_include_retired :: bool
  la_cursor :: string
  la_limit :: int

text \<open>Absent fields are None.\<close>

record update_agent_request =
  ua_role :: "string option"
  ua_status :: "agent_status option"
  ua_capabilities :: "string list option"
  ua_metadata :: "string option"
  ua_version :: "int option"

text \<open>The conversion from and to the string type of the code.\<close>

fun agent_status_str :: "agent_status \<Rightarrow> string" where
  "agent_status_str AgentInitializing = ''initializing''"
| "agent_status_str AgentIdle = ''idle''"
| "agent_status_str AgentBusy = ''busy''"
| "agent_status_str AgentPaused = ''paused''"
| "agent_status_str AgentError = ''error''"
| "agent_status_str AgentRetired = ''retired''"
| "agent_status_str AgentSpawning = ''spawning''"
| "agent_status_str AgentWorking = ''working''"
| "agent_status_str AgentCompleted = ''completed''"
| "agent_status_str AgentFailed = ''failed''"
| "agent_status_str (AgentOther s) = s"

definition agent_status_of :: "string \<Rightarrow> agent_status" where
  "agent_status_of s =
     (case List.find (\<lambda>st. agent_status_str st = s)
             [AgentInitializing, AgentIdle, AgentBusy, AgentPaused, AgentError, AgentRetired,
              AgentSpawning, AgentWorking, AgentCompleted, AgentFailed] of
        Some st \<Rightarrow> st | None \<Rightarrow> AgentOther s)"

lemma agent_status_of_str: "agent_status_str (agent_status_of s) = s"
  by (auto simp: agent_status_of_def find_Some_iff split: option.split)

section \<open>Helpers\<close>

definition validateAgentName :: "string \<Rightarrow> service_error + unit" where
  "validateAgentName name =
     (let name = TrimSpace name
      in if name = '''' then Inl (validationSingle ''name'' ''Name is required'')
         else if 80 < length name
         then Inl (validationSingle ''name'' ''Name must be 80 characters or fewer'')
         else Inr ())"

definition validateAgentRole :: "string \<Rightarrow> service_error + unit" where
  "validateAgentRole role =
     (let role = TrimSpace role
      in if role = '''' then Inl (validationSingle ''role'' ''Role is required'')
         else if 80 < length role
         then Inl (validationSingle ''role'' ''Role must be 80 characters or fewer'')
         else Inr ())"

text \<open>The loop over the names: those seen and those missing.\<close>

fun missing_capabilities :: "mem_store \<Rightarrow> string list \<Rightarrow> string list \<Rightarrow> string list \<Rightarrow> string list"
where
  "missing_capabilities m [] seen missing = missing"
| "missing_capabilities m (n # ns) seen missing =
     (if n \<in> set seen then missing_capabilities m ns seen missing
      else missing_capabilities m ns (n # seen)
             (if \<not> Capability_Exists n m then missing @ [n] else missing))"

definition validateCapabilitiesExist :: "string list \<Rightarrow> mem_store \<Rightarrow> service_error + unit" where
  "validateCapabilitiesExist names m =
     (if names = [] then Inr ()
      else if missing_capabilities m names [] [] \<noteq> []
      then Inl (unprocessableEntity ''CAPABILITY_NOT_FOUND''
                  ''One or more capabilities do not exist in the catalog'')
      else Inr ())"

definition metadataOrEmpty :: "string \<Rightarrow> string" where
  "metadataOrEmpty md =
     (if md = [] then ''{}''
      else let s = TrimSpace md in if s = '''' \<or> s = ''null'' then ''{}'' else md)"

lemma set_missing_capabilities:
  "set (missing_capabilities m ns seen acc)
     = set acc \<union> {n \<in> set ns. n \<notin> set seen \<and> \<not> Capability_Exists n m}"
  by (induction m ns seen acc rule: missing_capabilities.induct) auto

lemma validateCapabilitiesExist_Inr:
  "validateCapabilitiesExist names m = Inr () \<longleftrightarrow> (\<forall>n \<in> set names. Capability_Exists n m)"
proof -
  have "missing_capabilities m names [] [] = [] \<longleftrightarrow> (\<forall>n \<in> set names. Capability_Exists n m)"
    using set_missing_capabilities [of m names "[]" "[]"]
    by (subst set_empty [symmetric]) auto
  then show ?thesis by (simp add: validateCapabilitiesExist_def)
qed

section \<open>Create and read\<close>

definition agent_exists_error :: service_error where
  "agent_exists_error = \<lparr>err_status = 409, err_code = ''ALREADY_EXISTS'',
     err_message = ''An agent with this name already exists in the project'', err_details = []\<rparr>"

definition new_agent :: "go_time \<Rightarrow> uuid \<Rightarrow> create_agent_request \<Rightarrow> agent" where
  "new_agent now k req =
     \<lparr>ag_id = k, ag_project = ca_project req, ag_name = ca_name req, ag_role = ca_role req,
      ag_status = AgentInitializing, ag_capabilities = ca_capabilities req, ag_last_active = None,
      ag_metadata = metadataOrEmpty (ca_metadata req), ag_runtime = '''', ag_version = 1,
      ag_retired_at = None, ag_created = now, ag_updated = now\<rparr>"

definition CreateAgent ::
  "go_time \<Rightarrow> uuid \<Rightarrow> uuid list \<Rightarrow> create_agent_request \<Rightarrow> mem_store
   \<Rightarrow> (service_error + agent) \<times> mem_store" where
  "CreateAgent now k ks req m =
     (case validateAgentName (ca_name req) of
        Inl e \<Rightarrow> (Inl e, m)
      | Inr _ \<Rightarrow>
      (case validateAgentRole (ca_role req) of
        Inl e \<Rightarrow> (Inl e, m)
      | Inr _ \<Rightarrow>
      if ca_capabilities req = []
      then (Inl (validationSingle ''capabilities'' ''At least one capability is required''), m)
      else
      (case validateCapabilitiesExist (ca_capabilities req) m of
        Inl e \<Rightarrow> (Inl e, m)
      | Inr _ \<Rightarrow>
          let agent = new_agent now k req
          in case Agent_Create ks agent m of
               Inl ErrAlreadyExists \<Rightarrow> (Inl agent_exists_error, m)
             | Inl _ \<Rightarrow> (Inl (internalError ''Failed to create agent''), m)
             | Inr m1 \<Rightarrow> (Inr agent, m1))))"

definition GetAgent :: "uuid \<Rightarrow> uuid \<Rightarrow> mem_store \<Rightarrow> service_error + agent" where
  "GetAgent k caller m =
     (if caller = uuid_nil then Inl missingProjectHeader
      else case Agent_GetByID k m of
             Inl ErrNotFound \<Rightarrow> Inl (notFound ''Agent not found'')
           | Inl _ \<Rightarrow> Inl (internalError ''Failed to fetch agent'')
           | Inr a \<Rightarrow> if ag_project a \<noteq> caller then Inl crossTenantBlocked else Inr a)"

definition ListAgents ::
  "(uuid \<Rightarrow> string) \<Rightarrow> list_agents_request \<Rightarrow> uuid list \<Rightarrow> mem_store
   \<Rightarrow> service_error + agent_page" where
  "ListAgents ustr req ks m =
     (if la_project req = uuid_nil
      then Inl (validationSingle ''project_id'' ''project_id is required'')
      else let st = agent_status_of (la_status req)
      in if la_status req \<noteq> '''' \<and> \<not> IsValidAgentStatus st
      then Inl (validationSingle ''status'' (''Unknown status: '' @ la_status req))
      else if la_capability req \<noteq> '''' \<and> \<not> Capability_Exists (la_capability req) m
      then Inl (validationSingle ''capability'' (''Unknown capability: '' @ la_capability req))
      else Inr (Agent_List ustr
             \<lparr>af_project = la_project req,
              af_status = (if la_status req \<noteq> '''' then st else AgentOther ''''),
              af_capability = la_capability req, af_include_retired = la_include_retired req,
              af_cursor = la_cursor req, af_limit = la_limit req\<rparr> ks m))"

definition ListAgentCapabilities ::
  "uuid \<Rightarrow> uuid \<Rightarrow> mem_store \<Rightarrow> service_error + agent_capability_view list" where
  "ListAgentCapabilities k caller m =
     (case GetAgent k caller m of
        Inl e \<Rightarrow> Inl e
      | Inr _ \<Rightarrow>
          (case Agent_ListCapabilities k m of
             Inl _ \<Rightarrow> Inl (internalError ''Failed to fetch agent capabilities'')
           | Inr caps \<Rightarrow> Inr caps))"

definition ListCapabilities ::
  "capability_filter \<Rightarrow> string list \<Rightarrow> mem_store \<Rightarrow> service_error + capability_page" where
  "ListCapabilities f ks m =
     (if cf_category f \<noteq> '''' \<and> cf_category f \<notin>
           set [''architecture'', ''coding'', ''testing'', ''security'', ''devops'', ''leadership'']
      then Inl (validationSingle ''category'' (''Unknown category: '' @ cf_category f))
      else Inr (Capability_List f ks m))"

section \<open>Update\<close>

definition version_conflict :: "string \<Rightarrow> service_error" where
  "version_conflict msg = \<lparr>err_status = 409, err_code = ''VERSION_CONFLICT'', err_message = msg,
     err_details = []\<rparr>"

definition already_retired :: service_error where
  "already_retired = \<lparr>err_status = 409, err_code = ''ALREADY_RETIRED'',
     err_message = ''Agent is retired; create a new agent instead'', err_details = []\<rparr>"

text \<open>fmt.Sprintf with the verb for a decimal integer.\<close>

definition Sprintf_d :: "int \<Rightarrow> string" where
  "Sprintf_d n = (if n = 0 then ''0''
     else if n < 0 then CHR ''-'' # digits_loop (- n) [] else digits_loop n [])"

text \<open>UpdateAgent up to its first write: the copy of the row with the new fields.\<close>

definition UpdateAgent_check ::
  "uuid \<Rightarrow> uuid \<Rightarrow> update_agent_request \<Rightarrow> mem_store \<Rightarrow> service_error + agent" where
  "UpdateAgent_check k caller req m =
     (case GetAgent k caller m of
        Inl e \<Rightarrow> Inl e
      | Inr a \<Rightarrow>
      if ag_retired_at a \<noteq> None then Inl already_retired
      else case ua_version req of
             None \<Rightarrow> Inl (validationSingle ''version'' ''version is required for optimistic concurrency'')
           | Some v \<Rightarrow>
      if v \<noteq> ag_version a
      then Inl (version_conflict (''Stale version (have '' @ Sprintf_d v @ '', current ''
                  @ Sprintf_d (ag_version a) @ '')''))
      else case (case ua_role req of None \<Rightarrow> Inr () | Some r \<Rightarrow> validateAgentRole r) of
             Inl e \<Rightarrow> Inl e
           | Inr _ \<Rightarrow>
      let a1 = (case ua_role req of None \<Rightarrow> a | Some r \<Rightarrow> a\<lparr>ag_role := r\<rparr>)
      in if (case ua_status req of None \<Rightarrow> False | Some st \<Rightarrow> \<not> IsValidAgentStatus st)
      then Inl (validationSingle ''status''
                  (''Unknown status: '' @ agent_status_str (the (ua_status req))))
      else let a2 = (case ua_status req of None \<Rightarrow> a1 | Some st \<Rightarrow> a1\<lparr>ag_status := st\<rparr>);
               a3 = (case ua_metadata req of None \<Rightarrow> a2
                     | Some md \<Rightarrow> a2\<lparr>ag_metadata := metadataOrEmpty md\<rparr>)
      in case ua_capabilities req of
           None \<Rightarrow> Inr a3
         | Some caps \<Rightarrow>
             if caps = [] then Inl (validationSingle ''capabilities'' ''Capabilities cannot be empty'')
             else (case validateCapabilitiesExist caps m of Inl e \<Rightarrow> Inl e | Inr _ \<Rightarrow> Inr a3))"

definition UpdateAgent_write ::
  "uuid \<Rightarrow> agent \<Rightarrow> mem_store \<Rightarrow> (service_error + agent) \<times> mem_store" where
  "UpdateAgent_write caller a m =
     (case Agent_Update a m of
        Inl ErrConflict \<Rightarrow> (Inl (version_conflict ''Concurrent modification; refresh and retry''), m)
      | Inl _ \<Rightarrow> (Inl (internalError ''Failed to update agent''), m)
      | Inr (_, m1) \<Rightarrow> (GetAgent (ag_id a) caller m1, m1))"

definition UpdateAgent_commit ::
  "uuid \<Rightarrow> string list option \<Rightarrow> agent \<Rightarrow> mem_store \<Rightarrow> (service_error + agent) \<times> mem_store" where
  "UpdateAgent_commit caller caps existing m =
     (case caps of
        None \<Rightarrow> UpdateAgent_write caller existing m
      | Some names \<Rightarrow>
          (case Agent_SetCapabilities (ag_id existing) names m of
             Inl ErrNotFound \<Rightarrow> (Inl (notFound ''Agent not found''), m)
           | Inl _ \<Rightarrow> (Inl (internalError ''Failed to update capabilities''), m)
           | Inr m1 \<Rightarrow>
               (case GetAgent (ag_id existing) caller m1 of
                  Inl e \<Rightarrow> (Inl e, m1)
                | Inr fresh \<Rightarrow>
                    UpdateAgent_write caller
                      (fresh\<lparr>ag_role := ag_role existing, ag_status := ag_status existing,
                             ag_metadata := ag_metadata existing\<rparr>) m1)))"

definition UpdateAgent ::
  "uuid \<Rightarrow> uuid \<Rightarrow> update_agent_request \<Rightarrow> mem_store \<Rightarrow> (service_error + agent) \<times> mem_store" where
  "UpdateAgent k caller req m =
     (case UpdateAgent_check k caller req m of
        Inl e \<Rightarrow> (Inl e, m)
      | Inr existing \<Rightarrow> UpdateAgent_commit caller (ua_capabilities req) existing m)"

definition RetireAgent ::
  "go_time \<Rightarrow> uuid \<Rightarrow> uuid \<Rightarrow> mem_store \<Rightarrow> (service_error + unit) \<times> mem_store" where
  "RetireAgent now k caller m =
     (case GetAgent k caller m of
        Inl e \<Rightarrow> (Inl e, m)
      | Inr _ \<Rightarrow>
          (case Agent_SoftDelete now k m of
             Inl ErrNotFound \<Rightarrow> (Inl (notFound ''Agent not found''), m)
           | Inl _ \<Rightarrow> (Inl (internalError ''Failed to retire agent''), m)
           | Inr m1 \<Rightarrow> (Inr (), m1)))"

section \<open>Correctness of the updates\<close>

text \<open>The row an accepted update leaves.\<close>

definition updated_agent :: "update_agent_request \<Rightarrow> agent \<Rightarrow> agent" where
  "updated_agent req a =
     a\<lparr>ag_role := (case ua_role req of None \<Rightarrow> ag_role a | Some r \<Rightarrow> r),
       ag_status := (case ua_status req of None \<Rightarrow> ag_status a | Some st \<Rightarrow> st),
       ag_metadata := (case ua_metadata req of None \<Rightarrow> ag_metadata a
                       | Some md \<Rightarrow> metadataOrEmpty md)\<rparr>"

lemma updated_agent_steps:
  "updated_agent req a =
     (let a1 = (case ua_role req of None \<Rightarrow> a | Some r \<Rightarrow> a\<lparr>ag_role := r\<rparr>);
          a2 = (case ua_status req of None \<Rightarrow> a1 | Some st \<Rightarrow> a1\<lparr>ag_status := st\<rparr>)
      in case ua_metadata req of None \<Rightarrow> a2 | Some md \<Rightarrow> a2\<lparr>ag_metadata := metadataOrEmpty md\<rparr>)"
  by (cases a) (simp add: updated_agent_def Let_def split: option.split)

lemma GetAgent_Inr:
  "GetAgent k caller m = Inr a \<longleftrightarrow>
     caller \<noteq> uuid_nil \<and> ms_agents m k = Some a \<and> ag_project a = caller"
  by (auto simp: GetAgent_def Agent_GetByID_def split: option.splits)

lemma UpdateAgent_check_Inr:
  assumes "UpdateAgent_check k caller req m = Inr e"
  obtains a where "GetAgent k caller m = Inr a" "ag_retired_at a = None"
    "ua_version req = Some (ag_version a)" "e = updated_agent req a"
    "\<forall>st. ua_status req = Some st \<longrightarrow> IsValidAgentStatus st"
    "\<forall>r. ua_role req = Some r \<longrightarrow> validateAgentRole r = Inr ()"
    "\<forall>cs. ua_capabilities req = Some cs \<longrightarrow> cs \<noteq> [] \<and> (\<forall>n \<in> set cs. Capability_Exists n m)"
proof -
  obtain a where a: "GetAgent k caller m = Inr a"
    using assms by (cases "GetAgent k caller m") (auto simp: UpdateAgent_check_def)
  have r: "ag_retired_at a = None" and v: "ua_version req = Some (ag_version a)"
    using assms by (auto simp: UpdateAgent_check_def a split: if_splits option.splits)
  have role: "\<forall>r. ua_role req = Some r \<longrightarrow> validateAgentRole r = Inr ()"
  proof (intro allI impI)
    fix s assume "ua_role req = Some s"
    with assms show "validateAgentRole s = Inr ()"
      by (cases "validateAgentRole s") (auto simp: UpdateAgent_check_def a r v)
  qed
  then have ok: "(case ua_role req of None \<Rightarrow> Inr () | Some r \<Rightarrow> validateAgentRole r) = Inr ()"
    by (simp split: option.split)
  have st: "\<forall>st. ua_status req = Some st \<longrightarrow> IsValidAgentStatus st"
    using assms by (auto simp: UpdateAgent_check_def a r v ok Let_def split: if_splits)
  have caps: "cs \<noteq> [] \<and> validateCapabilitiesExist cs m = Inr ()" if "ua_capabilities req = Some cs" for cs
    using assms that
    by (auto simp: UpdateAgent_check_def a r v ok Let_def split: if_splits sum.splits)
  have status: "(case ua_status req of None \<Rightarrow> False | Some st \<Rightarrow> \<not> IsValidAgentStatus st) = False"
    using st by (simp split: option.split)
  have step: "UpdateAgent_check k caller req m =
      (case ua_capabilities req of
         None \<Rightarrow> Inr (updated_agent req a)
       | Some cs \<Rightarrow> if cs = [] then Inl (validationSingle ''capabilities'' ''Capabilities cannot be empty'')
           else (case validateCapabilitiesExist cs m of Inl e \<Rightarrow> Inl e | Inr _ \<Rightarrow> Inr (updated_agent req a)))"
    unfolding UpdateAgent_check_def Let_def a sum.case v option.case ok
      updated_agent_steps [unfolded Let_def, symmetric] r status by simp
  have "UpdateAgent_check k caller req m = Inr (updated_agent req a)"
  proof (cases "ua_capabilities req")
    case None
    with step show ?thesis by simp
  next
    case (Some cs)
    with step caps [OF Some] show ?thesis by simp
  qed
  with assms have "e = updated_agent req a" by simp
  from that [OF a r v this st role] caps show ?thesis
    by (simp add: validateCapabilitiesExist_Inr)
qed

lemma GetAgent_put [simp]:
  "caller \<noteq> uuid_nil \<Longrightarrow> ag_project a = caller \<Longrightarrow>
     GetAgent k caller (m\<lparr>ms_agents := (ms_agents m)(k \<mapsto> a)\<rparr>) = Inr a"
  by (simp add: GetAgent_Inr)

text \<open>
  The commit on any later store: without capabilities it is guarded by the version of the copy,
  with capabilities it takes the version it finds.
\<close>

lemma UpdateAgent_commit_None:
  assumes "ms_agents m (ag_id e) = Some b" "ag_project e = caller" "caller \<noteq> uuid_nil"
    and "ag_created e = zero_time \<longrightarrow> ag_created b = zero_time"
  shows "UpdateAgent_commit caller None e m =
     (if ag_version b = ag_version e
      then (Inr (e\<lparr>ag_version := ag_version e + 1\<rparr>),
            m\<lparr>ms_agents := (ms_agents m)(ag_id e \<mapsto> e\<lparr>ag_version := ag_version e + 1\<rparr>)\<rparr>)
      else (Inl (version_conflict ''Concurrent modification; refresh and retry''), m))"
  using assms
  by (cases e) (auto simp: UpdateAgent_commit_def UpdateAgent_write_def Agent_Update_def Let_def)

lemma UpdateAgent_commit_Some:
  assumes b: "ms_agents m (ag_id e) = Some b" and p: "ag_project b = caller" "caller \<noteq> uuid_nil"
    and i: "ag_id b = ag_id e"
  shows "UpdateAgent_commit caller (Some caps) e m =
     (let c = b\<lparr>ag_capabilities := caps, ag_version := ag_version b + 2, ag_role := ag_role e,
                ag_status := ag_status e, ag_metadata := ag_metadata e\<rparr>
      in (Inr c, m\<lparr>ms_agents := (ms_agents m)(ag_id e \<mapsto> c)\<rparr>))"
proof -
  let ?b = "b\<lparr>ag_capabilities := caps, ag_version := ag_version b + 1\<rparr>"
  have "Agent_SetCapabilities (ag_id e) caps m
      = Inr (m\<lparr>ms_agents := (ms_agents m)(ag_id e \<mapsto> ?b)\<rparr>)"
    by (simp add: Agent_SetCapabilities_def b)
  with p i show ?thesis
    by (cases b) (auto simp: UpdateAgent_commit_def UpdateAgent_write_def Agent_Update_def Let_def
        add.commute)
qed

text \<open>
  C30: an update by itself is all or nothing. A refused one changes nothing; an accepted one was
  asked for with the version of the row, by its own project, on an agent that is not retired, and
  replaces exactly the given fields, counting the version up once, or twice with capabilities,
  and leaving the names of the project's agents unique.
\<close>

theorem UpdateAgent_correct:
  assumes inv: "agents_inv m" and run: "UpdateAgent k caller req m = (r, m')"
  shows "case r of
     Inl e \<Rightarrow> m' = m
   | Inr a' \<Rightarrow> (\<exists>a. ms_agents m k = Some a \<and> ag_project a = caller \<and> ag_retired_at a = None
        \<and> ua_version req = Some (ag_version a)
        \<and> a' = (updated_agent req a)
                 \<lparr>ag_capabilities := (case ua_capabilities req of None \<Rightarrow> ag_capabilities a
                                      | Some cs \<Rightarrow> cs),
                  ag_version := ag_version a + (if ua_capabilities req = None then 1 else 2)\<rparr>
        \<and> m' = m\<lparr>ms_agents := (ms_agents m)(k \<mapsto> a')\<rparr> \<and> agents_inv m'
        \<and> (\<forall>n. (\<exists>cs. ua_capabilities req = Some cs \<and> n \<in> set cs) \<longrightarrow> Capability_Exists n m))"
proof (cases "UpdateAgent_check k caller req m")
  case (Inl e)
  with run have "r = Inl e" "m' = m" by (auto simp: UpdateAgent_def)
  then show ?thesis by simp
next
  case (Inr e)
  from Inr obtain a where a: "GetAgent k caller m = Inr a" "ag_retired_at a = None"
    "ua_version req = Some (ag_version a)" "e = updated_agent req a"
    "\<forall>cs. ua_capabilities req = Some cs \<longrightarrow> cs \<noteq> [] \<and> (\<forall>n \<in> set cs. Capability_Exists n m)"
    by (rule UpdateAgent_check_Inr) blast
  have row: "ms_agents m k = Some a" and p: "ag_project a = caller" "caller \<noteq> uuid_nil"
    using a(1) by (auto simp: GetAgent_Inr)
  have id: "ag_id a = k" by (rule agents_invD(1) [OF inv row])
  have keep: "agents_inv (m\<lparr>ms_agents := (ms_agents m)(k \<mapsto> c)\<rparr>)"
    if "ag_id c = k" "ag_project c = ag_project a" "ag_name c = ag_name a" "ag_retired_at c = ag_retired_at a"
    for c by (rule agents_inv_same [OF inv row, where a' = c]) (use that in simp_all)
  show ?thesis
  proof (cases "ua_capabilities req")
    case None
    with Inr run row p id keep a(2-4) show ?thesis
      by (auto simp: UpdateAgent_def UpdateAgent_commit_None updated_agent_def)
  next
    case (Some cs)
    with Inr run row p id keep a(2-5) show ?thesis
      by (auto simp: UpdateAgent_def UpdateAgent_commit_Some updated_agent_def Let_def)
  qed
qed

text \<open>
  Two updates of one agent that were checked against the same row. When the first has
  committed, the second gets a conflict and changes nothing if it carries no capabilities; with
  capabilities it is accepted all the same, and puts back the role, status and metadata of the
  row as it was before the first update, apart from the fields it gives itself.
\<close>

theorem concurrent_updates:
  assumes inv: "agents_inv m" and row: "ms_agents m k = Some a"
    and c1: "UpdateAgent_check k caller r1 m = Inr e1" and c2: "UpdateAgent_check k caller r2 m = Inr e2"
    and w1: "UpdateAgent_commit caller (ua_capabilities r1) e1 m = (Inr a1, m1)"
  shows "UpdateAgent_commit caller (ua_capabilities r2) e2 m1 =
     (case ua_capabilities r2 of
        None \<Rightarrow> (Inl (version_conflict ''Concurrent modification; refresh and retry''), m1)
      | Some cs \<Rightarrow>
          (let a2 = (updated_agent r2 a)\<lparr>ag_capabilities := cs, ag_version := ag_version a1 + 2\<rparr>
           in (Inr a2, m1\<lparr>ms_agents := (ms_agents m1)(k \<mapsto> a2)\<rparr>)))"
proof -
  have e: "e1 = updated_agent r1 a" "e2 = updated_agent r2 a"
    and p: "ag_project a = caller" "caller \<noteq> uuid_nil"
    using c1 c2 row by (auto simp: GetAgent_Inr elim!: UpdateAgent_check_Inr)
  have "UpdateAgent k caller r1 m = (Inr a1, m1)"
    using c1 w1 by (simp add: UpdateAgent_def)
  from UpdateAgent_correct [OF inv this] row
  have a1: "ms_agents m1 k = Some a1"
    and row1: "a1 = (updated_agent r1 a)
                 \<lparr>ag_capabilities := (case ua_capabilities r1 of None \<Rightarrow> ag_capabilities a | Some cs \<Rightarrow> cs),
                  ag_version := ag_version a + (if ua_capabilities r1 = None then 1 else 2)\<rparr>"
    by auto
  have id: "ag_id (updated_agent r2 a) = k" "ag_id a1 = k" "ag_id a = k" "ag_project a1 = caller"
    and v: "ag_version a1 \<noteq> ag_version (updated_agent r2 a)"
    and t: "ag_created a1 = ag_created (updated_agent r2 a)" 
    "ag_project (updated_agent r2 a) = caller"
    using agents_invD(1) [OF inv row] p by (simp_all add: row1 updated_agent_def)
  show ?thesis
  proof (cases "ua_capabilities r2")
    case None
    have "ms_agents m1 (ag_id (updated_agent r2 a)) = Some a1" by (simp add: id a1)
    from UpdateAgent_commit_None [OF this t(2) p(2)] None v t show ?thesis by (simp add: e)
  next
    case (Some cs)
    have b: "ms_agents m1 (ag_id (updated_agent r2 a)) = Some a1" "ag_id a1 = ag_id (updated_agent r2 a)"
      by (simp_all add: id a1)
    have "a1\<lparr>ag_capabilities := cs, ag_version := ag_version a1 + 2, ag_role := ag_role (updated_agent r2 a),
            ag_status := ag_status (updated_agent r2 a), ag_metadata := ag_metadata (updated_agent r2 a)\<rparr>
        = (updated_agent r2 a)\<lparr>ag_capabilities := cs, ag_version := ag_version a1 + 2\<rparr>"
      unfolding row1 by (cases a) (simp add: updated_agent_def)
    with UpdateAgent_commit_Some [OF b(1) id(4) p(2) b(2)] Some show ?thesis
      by (simp add: e id Let_def)
  qed
qed

text \<open>The list of a project as asked for without parameters, and a change of the status alone.\<close>

definition default_agent_filter :: "uuid \<Rightarrow> agent_filter" where
  "default_agent_filter p = \<lparr>af_project = p, af_status = AgentOther '''', af_capability = '''',
     af_include_retired = False, af_cursor = '''', af_limit = 0\<rparr>"

definition status_change :: "agent_status \<Rightarrow> int \<Rightarrow> update_agent_request" where
  "status_change st v = \<lparr>ua_role = None, ua_status = Some st, ua_capabilities = None,
     ua_metadata = None, ua_version = Some v\<rparr>"

lemma RetireAgent_row:
  assumes "RetireAgent now k caller m = (Inr (), m1)"
  obtains a where "ms_agents m k = Some a" "ag_project a = caller" "caller \<noteq> uuid_nil"
    "ms_agents m1 k = Some (a\<lparr>ag_status := AgentRetired, ag_retired_at := Some now,
                              ag_version := ag_version a + 1\<rparr>)"
  using assms by (auto simp: RetireAgent_def GetAgent_def Agent_GetByID_def Agent_SoftDelete_def
      split: sum.splits option.splits if_splits)

lemma status_change_accepted:
  assumes "ms_agents m k = Some b" "ag_id b = k" "ag_project b = caller" "caller \<noteq> uuid_nil"
    and "ag_retired_at b = None"
  shows "\<exists>c m'. UpdateAgent k caller (status_change AgentIdle (ag_version b)) m = (Inr c, m')
           \<and> ag_status c = AgentIdle"
proof -
  have "UpdateAgent_check k caller (status_change AgentIdle (ag_version b)) m
      = Inr (b\<lparr>ag_status := AgentIdle\<rparr>)"
    using assms by (simp add: UpdateAgent_check_def GetAgent_def Agent_GetByID_def status_change_def
        IsValidAgentStatus_def AllAgentStatuses_def)
  then show ?thesis
    using assms by (simp add: UpdateAgent_def UpdateAgent_commit_None status_change_def)
qed

text \<open>
  Retirement. After RetireAgent the agent is off the default list and every update of it is
  refused. An update that sets the status to retired leaves the retirement instant unset: the
  agent stays on the default list under its retired status, and an update back to idle is accepted.
\<close>

theorem retired_status_is_not_retirement:
  assumes inv: "agents_inv m" and retire: "RetireAgent now k caller m = (Inr (), m1)"
    and put: "UpdateAgent k caller req m = (Inr b, m2)" "ua_status req = Some AgentRetired"
  shows "(\<exists>a. ms_agents m1 k = Some a \<and> ag_status a = AgentRetired \<and> ag_retired_at a = Some now
            \<and> \<not> agent_matches (default_agent_filter caller) a)
       \<and> UpdateAgent k caller req' m1 = (Inl already_retired, m1)
       \<and> ms_agents m2 k = Some b \<and> ag_status b = AgentRetired \<and> ag_retired_at b = None
       \<and> agent_matches (default_agent_filter caller) b
       \<and> (\<exists>c m3. UpdateAgent k caller (status_change AgentIdle (ag_version b)) m2 = (Inr c, m3)
            \<and> ag_status c = AgentIdle)"
proof -
  obtain a where a: "ms_agents m k = Some a" "ag_project a = caller" "caller \<noteq> uuid_nil"
    and m1: "ms_agents m1 k = Some (a\<lparr>ag_status := AgentRetired, ag_retired_at := Some now,
                   ag_version := ag_version a + 1\<rparr>)"
    using retire by (rule RetireAgent_row)
  have r: "UpdateAgent k caller req' m1 = (Inl already_retired, m1)"
    using a m1 by (simp add: UpdateAgent_def UpdateAgent_check_def GetAgent_def Agent_GetByID_def)
  from UpdateAgent_correct [OF inv put(1)] put(2) a
  have b: "ms_agents m2 k = Some b" "ag_status b = AgentRetired" "ag_retired_at b = None"
    "ag_project b = caller" "ag_id b = k"
    by (auto simp: updated_agent_def dest: agents_invD(1) [OF inv])
  with r m1 status_change_accepted [OF b(1,5,4) a(3) b(3)] show ?thesis
    by (simp add: agent_matches_def default_agent_filter_def)
qed

section \<open>Witnesses\<close>

definition sample_agents :: mem_store where
  "sample_agents = NewMemoryStore\<lparr>ms_agents := [7 \<mapsto> sample_agent 7 [''go'']]\<rparr>"

lemma sample_agents_inv: "agents_inv sample_agents"
  by (auto simp: agents_inv_def sample_agents_def keyed_by_def sample_agent_def split: if_splits)

theorem UpdateAgent_correct_witness:
  "\<exists>r m'. UpdateAgent 7 3 (status_change AgentBusy 1) sample_agents = (Inr r, m')
     \<and> ag_version r = 2 \<and> ag_status r = AgentBusy \<and> agents_inv m'"
proof -
  let ?c = "UpdateAgent 7 3 (status_change AgentBusy 1) sample_agents"
  have "isl (fst ?c) = False" by code_simp
  then obtain r m' where c: "?c = (Inr r, m')" by (cases ?c; cases "fst ?c") auto
  from UpdateAgent_correct [OF sample_agents_inv c] c show ?thesis
    by (auto simp: sample_agents_def sample_agent_def status_change_def updated_agent_def)
qed

lemma sample_check:
  "st \<in> {AgentBusy, AgentIdle, AgentRetired} \<Longrightarrow>
     UpdateAgent_check 7 3 (status_change st 1) sample_agents = Inr ((sample_agent 7 [''go''])\<lparr>ag_status := st\<rparr>)"
  by (auto simp: UpdateAgent_check_def GetAgent_def Agent_GetByID_def sample_agents_def
      sample_agent_def status_change_def IsValidAgentStatus_def AllAgentStatuses_def)

lemma sample_commit:
  "\<exists>a m. UpdateAgent_commit 3 None ((sample_agent 7 [''go''])\<lparr>ag_status := st\<rparr>) sample_agents = (Inr a, m)"
  by (subst UpdateAgent_commit_None [where b = "sample_agent 7 [''go'']"])
    (auto simp: sample_agents_def sample_agent_def)

theorem concurrent_updates_witness:
  "\<exists>e1 e2 a1 m1. UpdateAgent_check 7 3 (status_change AgentBusy 1) sample_agents = Inr e1
     \<and> UpdateAgent_check 7 3 (status_change AgentIdle 1) sample_agents = Inr e2
     \<and> UpdateAgent_commit 3 None e1 sample_agents = (Inr a1, m1)
     \<and> UpdateAgent_commit 3 None e2 m1
         = (Inl (version_conflict ''Concurrent modification; refresh and retry''), m1)"
proof -
  note c = sample_check [of AgentBusy] sample_check [of AgentIdle]
  obtain a1 m1 where w: "UpdateAgent_commit 3 None ((sample_agent 7 [''go''])\<lparr>ag_status := AgentBusy\<rparr>)
      sample_agents = (Inr a1, m1)"
    using sample_commit by blast
  have row: "ms_agents sample_agents 7 = Some (sample_agent 7 [''go''])"
    by (simp add: sample_agents_def)
  from concurrent_updates [OF sample_agents_inv row c(1,2), of a1 m1] w c show ?thesis
    by (simp add: status_change_def)
qed

theorem retired_status_is_not_retirement_witness:
  "\<exists>m1 b m2. RetireAgent 9 7 3 sample_agents = (Inr (), m1)
     \<and> UpdateAgent 7 3 (status_change AgentRetired 1) sample_agents = (Inr b, m2)
     \<and> UpdateAgent 7 3 (status_change AgentIdle 2) m1 = (Inl already_retired, m1)
     \<and> ag_retired_at b = None"
proof -
  obtain m1 where r: "RetireAgent 9 7 3 sample_agents = (Inr (), m1)"
    by (simp add: RetireAgent_def GetAgent_def Agent_GetByID_def Agent_SoftDelete_def
        sample_agents_def sample_agent_def)
  obtain b m2 where u: "UpdateAgent 7 3 (status_change AgentRetired 1) sample_agents = (Inr b, m2)"
    using sample_commit [of AgentRetired] sample_check [of AgentRetired]
    by (auto simp: UpdateAgent_def status_change_def)
  from retired_status_is_not_retirement [OF sample_agents_inv r u] r u show ?thesis
    by (auto simp: status_change_def)
qed

end
