(* ===== verification/Auth_Service.thy ===== *)
theory Auth_Service
  imports Errors Store "HOL-Library.Countable"
begin

text \<open>
  Users and authentication: src/src/internal/service/user.go and auth.go, the table of API keys
  (store/api_key_store_memory.go) and its seed (buildAPIKeyStore of src/src/cmd/main.go). What the
  code takes from its libraries is the record \<open>auth_lib\<close>: signing and parsing of tokens
  (golang-jwt), bcrypt, SHA-256 in hexadecimal, parsing and printing of ids, the mail parser.
\<close>

section \<open>The libraries\<close>

text \<open>The claims of a token; instants in tokens are whole seconds.\<close>

record jwt_claims =
  cl_uid :: string
  cl_role :: string
  cl_expires :: int
  cl_issued :: int
  cl_issuer :: string
  cl_audience :: "string list"

text \<open>
  \<open>al_parse\<close> is ParseWithClaims for a secret and an instant: no value for an error, otherwise
  the claims and the Valid flag. The key function only admits the HMAC methods, which is what
  \<open>al_sign\<close> uses. \<open>al_date\<close> is NewNumericDate.
\<close>

record auth_lib =
  al_secret :: string
  al_sign :: "string \<Rightarrow> jwt_claims \<Rightarrow> string option"
  al_parse :: "string \<Rightarrow> go_time \<Rightarrow> string \<Rightarrow> (jwt_claims \<times> bool) option"
  al_date :: "go_time \<Rightarrow> int"
  al_compare :: "string \<Rightarrow> string \<Rightarrow> bool"
  al_bcrypt :: "string \<Rightarrow> string option"
  al_sha256 :: "string \<Rightarrow> string"
  al_uuid_parse :: "string \<Rightarrow> uuid option"
  al_uuid_str :: "uuid \<Rightarrow> string"
  al_mail :: "string \<Rightarrow> bool"

definition trim_prefix :: "string \<Rightarrow> string \<Rightarrow> string" where
  "trim_prefix s p = (if has_prefix s p then drop (length p) s else s)"

lemma has_prefix_append [simp]: "has_prefix (p @ s) p"
  by (simp add: has_prefix_def)

lemma has_prefix_simps [simp]:
  "has_prefix s []" "\<not> has_prefix [] (d # ds)"
  "has_prefix (c # cs) (d # ds) \<longleftrightarrow> c = d \<and> has_prefix cs ds"
  by (simp_all add: has_prefix_def)

lemma trim_prefix_append [simp]: "trim_prefix (p @ s) p = s"
  by (simp add: trim_prefix_def)

section \<open>API keys (store/api_key_store_memory.go)\<close>

definition normaliseHash :: "string \<Rightarrow> string" where
  "normaliseHash h =
     map (\<lambda>c. if 65 \<le> (of_char c :: nat) \<and> (of_char c :: nat) \<le> 70
              then char_of ((of_char c :: nat) + 32) else c) h"

type_synonym api_keys = "string \<rightharpoonup> api_key"

definition NewMemoryAPIKeyStore :: "api_key list \<Rightarrow> api_keys" where
  "NewMemoryAPIKeyStore seed =
     foldl (\<lambda>keys e. keys(normaliseHash (ak_hash e) \<mapsto> e\<lparr>ak_hash := normaliseHash (ak_hash e)\<rparr>))
       Map.empty seed"

definition APIKey_GetByHash :: "string \<Rightarrow> api_keys \<Rightarrow> store_error + api_key" where
  "APIKey_GetByHash h keys =
     (case keys (normaliseHash h) of None \<Rightarrow> Inl ErrNotFound | Some k \<Rightarrow> Inr k)"

definition APIKey_Revoke :: "go_time \<Rightarrow> string \<Rightarrow> api_keys \<Rightarrow> store_error + api_keys" where
  "APIKey_Revoke now h keys =
     (case keys (normaliseHash h) of
        None \<Rightarrow> Inl ErrNotFound
      | Some k \<Rightarrow>
          if ak_revoked k \<noteq> None then Inr keys
          else Inr (keys(normaliseHash h \<mapsto> k\<lparr>ak_revoked := Some now\<rparr>)))"

section \<open>The seed of the table (cmd/main.go)\<close>

text \<open>strings.Split with a one-byte separator, and strings.SplitN with the limit 2.\<close>

fun split_on :: "char \<Rightarrow> string \<Rightarrow> string \<Rightarrow> string list" where
  "split_on sep [] cur = [cur]"
| "split_on sep (c # cs) cur =
     (if c = sep then cur # split_on sep cs [] else split_on sep cs (cur @ [c]))"

definition split_n2 :: "char \<Rightarrow> string \<Rightarrow> string list" where
  "split_n2 sep s =
     (if sep \<notin> set s then [s]
      else [takeWhile (\<lambda>c. c \<noteq> sep) s, tl (dropWhile (\<lambda>c. c \<noteq> sep) s)])"

text \<open>One round of the loop over the entries: the key it appends, or nothing.\<close>

definition seed_entry :: "auth_lib \<Rightarrow> go_time \<Rightarrow> string \<Rightarrow> api_key list" where
  "seed_entry lib now entry0 =
     (let entry = TrimSpace entry0
      in if entry = '''' then []
      else let parts = split_n2 (CHR '','') entry
      in if length parts \<noteq> 2 then []
      else let token = TrimSpace (parts ! 0); uidStr = TrimSpace (parts ! 1)
      in if \<not> has_prefix token ''ak_'' \<or> length token \<le> length ''ak_'' then []
      else case al_uuid_parse lib uidStr of
             None \<Rightarrow> []
           | Some uid \<Rightarrow>
               [\<lparr>ak_hash = al_sha256 lib (trim_prefix token ''ak_''), ak_user = uid,
                 ak_role = ''api'', ak_name = ''dev-seed'', ak_created = now, ak_expires = None,
                 ak_revoked = None, ak_last_used = None\<rparr>])"

definition dev_fallback :: string where
  "dev_fallback = ''ak_dev_local_only_change_in_production_2026_06_12'' @ '',''
     @ ''00000000-0000-0000-0000-000000000001''"

text \<open>\<open>env\<close> is the value of API_KEYS_DEV, empty when the variable is not set.\<close>

definition buildAPIKeyStore :: "auth_lib \<Rightarrow> go_time \<Rightarrow> string \<Rightarrow> api_keys" where
  "buildAPIKeyStore lib now env =
     (let raw = (if env = '''' then dev_fallback else env)
      in NewMemoryAPIKeyStore (concat (map (seed_entry lib now) (split_on (CHR '';'') raw []))))"

section \<open>Users (service/user.go)\<close>

record register_request =
  rr_email :: string
  rr_password :: string
  rr_name :: string

definition new_user :: "go_time \<Rightarrow> uuid \<Rightarrow> string \<Rightarrow> register_request \<Rightarrow> user" where
  "new_user now k hashed req =
     \<lparr>u_id = k, u_email = rr_email req, u_password_hash = hashed, u_name = rr_name req,
      u_role = RoleMember, u_teams = [], u_projects = [], u_created = now, u_updated = now\<rparr>"

definition Register ::
  "auth_lib \<Rightarrow> go_time \<Rightarrow> uuid \<Rightarrow> register_request \<Rightarrow> mem_store \<Rightarrow> (service_error + user) \<times> mem_store"
where
  "Register lib now k req m =
     (let errs = NotEmpty (rr_email req) ''email'' ''Email'' [];
          errs = NotEmpty (rr_password req) ''password'' ''Password'' errs;
          errs = NotEmpty (rr_name req) ''name'' ''Name'' errs;
          errs = Email (al_mail lib) (rr_email req) ''email'' errs;
          errs = Name (rr_name req) ''name'' errs
      in if HasErrors errs then (Inl (validationError errs), m)
      else if \<not> isl (User_GetByEmail (rr_email req) m)
      then (Inl (conflict ''A user with this email already exists''), m)
      else case al_bcrypt lib (rr_password req) of
             None \<Rightarrow> (Inl (internalError ''Failed to create user''), m)
           | Some hashed \<Rightarrow>
               let u = new_user now k hashed req
               in case User_Create u m of
                    Inl _ \<Rightarrow> (Inl (internalError ''Failed to create user''), m)
                  | Inr m1 \<Rightarrow> (Inr u, m1))"

definition GetProfile :: "auth_lib \<Rightarrow> string \<Rightarrow> mem_store \<Rightarrow> service_error + user" where
  "GetProfile lib userID m =
     (case al_uuid_parse lib userID of
        None \<Rightarrow> Inl (validationError (add_field_error ''user_id'' ''Invalid User ID format'' []))
      | Some uid \<Rightarrow>
          (case User_GetByID uid m of Inl _ \<Rightarrow> Inl (notFound ''User not found'') | Inr u \<Rightarrow> Inr u))"

section \<open>Tokens (service/auth.go)\<close>

definition seconds :: int where "seconds = 1000000000"

definition hashToken :: "auth_lib \<Rightarrow> string \<Rightarrow> string" where
  "hashToken lib input = take 32 (al_sha256 lib input)"

definition token_key :: "auth_lib \<Rightarrow> string \<Rightarrow> string" where
  "token_key lib tok = ''auth:refresh_token:'' @ hashToken lib tok"

definition access_claims :: "auth_lib \<Rightarrow> go_time \<Rightarrow> uuid \<Rightarrow> string \<Rightarrow> int \<Rightarrow> jwt_claims" where
  "access_claims lib now uid role expiry =
     \<lparr>cl_uid = al_uuid_str lib uid, cl_role = role, cl_expires = al_date lib (now + expiry),
      cl_issued = al_date lib now, cl_issuer = ''ai-software-factory'',
      cl_audience = [''ai-software-factory-api'']\<rparr>"

definition generateJWT :: "auth_lib \<Rightarrow> go_time \<Rightarrow> uuid \<Rightarrow> string \<Rightarrow> int \<Rightarrow> string option" where
  "generateJWT lib now uid role expiry =
     al_sign lib (al_secret lib) (access_claims lib now uid role expiry)"

definition refresh_claims :: "auth_lib \<Rightarrow> go_time \<Rightarrow> uuid \<Rightarrow> string \<Rightarrow> jwt_claims" where
  "refresh_claims lib now uid role =
     \<lparr>cl_uid = al_uuid_str lib uid, cl_role = role,
      cl_expires = al_date lib (now + 7 * 24 * 3600 * seconds), cl_issued = al_date lib now,
      cl_issuer = ''ai-software-factory'', cl_audience = [''ai-software-factory-api-refresh'']\<rparr>"

definition generateRefreshToken :: "auth_lib \<Rightarrow> go_time \<Rightarrow> uuid \<Rightarrow> string \<Rightarrow> string option" where
  "generateRefreshToken lib now uid role =
     al_sign lib (al_secret lib) (refresh_claims lib now uid role)"

definition ValidateToken ::
  "auth_lib \<Rightarrow> go_time \<Rightarrow> string \<Rightarrow> mem_store \<Rightarrow> service_error + jwt_claims" where
  "ValidateToken lib now tok m =
     (case al_parse lib (al_secret lib) now tok of
        None \<Rightarrow> Inl (unauthorized ''Invalid token'')
      | Some (c, valid) \<Rightarrow>
          if \<not> valid then Inl (unauthorized ''Invalid token'')
          else case al_uuid_parse lib (cl_uid c) of
                 None \<Rightarrow> Inl (unauthorized ''Invalid token user ID format'')
               | Some uid \<Rightarrow>
                   (case User_GetByID uid m of
                      Inl _ \<Rightarrow> Inl (unauthorized ''User not found or inactive'')
                    | Inr _ \<Rightarrow> Inr c))"

definition ValidateRefreshToken ::
  "auth_lib \<Rightarrow> go_time \<Rightarrow> string \<Rightarrow> mem_store \<Rightarrow> service_error + uuid" where
  "ValidateRefreshToken lib now tok m =
     (case al_parse lib (al_secret lib) now tok of
        None \<Rightarrow> Inl (unauthorized ''Invalid refresh token'')
      | Some (c, valid) \<Rightarrow>
          if \<not> valid then Inl (unauthorized ''Invalid refresh token'')
          else if \<not> list_ex (\<lambda>a. a = ''ai-software-factory-api-refresh'') (cl_audience c)
          then Inl (unauthorized ''Invalid token audience'')
          else case al_uuid_parse lib (cl_uid c) of
                 None \<Rightarrow> Inl (unauthorized ''Invalid token user ID format'')
               | Some uid \<Rightarrow>
                   (case Token_Get (token_key lib tok) m of
                      Inl _ \<Rightarrow> Inl (unauthorized ''Token revoked or expired'')
                    | Inr _ \<Rightarrow> Inr uid))"

record login_request =
  lr_email :: string
  lr_password :: string

record login_result =
  lr_access :: string
  lr_refresh :: string
  lr_expires_in :: int

text \<open>
  The tail Login and Refresh share: an access and a refresh token for the user, drawn at two
  instants, and the key of the refresh token stored.
\<close>

definition issue_tokens ::
  "auth_lib \<Rightarrow> go_time \<Rightarrow> go_time \<Rightarrow> user \<Rightarrow> mem_store \<Rightarrow> (service_error + login_result) \<times> mem_store"
where
  "issue_tokens lib now1 now2 u m =
     (case generateJWT lib now1 (u_id u) (role_str (u_role u)) (15 * 60 * seconds) of
        None \<Rightarrow> (Inl (internalError ''Failed to generate token''), m)
      | Some access \<Rightarrow>
          (case generateRefreshToken lib now2 (u_id u) (role_str (u_role u)) of
             None \<Rightarrow> (Inl (internalError ''Failed to generate token''), m)
           | Some refresh \<Rightarrow>
               (Inr \<lparr>lr_access = access, lr_refresh = refresh, lr_expires_in = 900\<rparr>,
                Token_Set (token_key lib refresh) (u_id u) (7 * 24 * 3600) m)))"

definition Login ::
  "auth_lib \<Rightarrow> go_time \<Rightarrow> go_time \<Rightarrow> login_request \<Rightarrow> mem_store
   \<Rightarrow> (service_error + login_result) \<times> mem_store" where
  "Login lib now1 now2 req m =
     (let errs = NotEmpty (lr_email req) ''email'' ''Email'' [];
          errs = NotEmpty (lr_password req) ''password'' ''Password'' errs;
          errs = Email (al_mail lib) (lr_email req) ''email'' errs
      in if HasErrors errs then (Inl (validationError errs), m)
      else case User_GetByEmail (lr_email req) m of
             Inl _ \<Rightarrow> (Inl (unauthorized ''Invalid email or password''), m)
           | Inr u \<Rightarrow>
               if \<not> al_compare lib (u_password_hash u) (lr_password req)
               then (Inl (unauthorized ''Invalid email or password''), m)
               else issue_tokens lib now1 now2 u m)"

text \<open>\<open>now\<close> is the instant of the check, \<open>now1\<close> and \<open>now2\<close> those of the two new tokens.\<close>

definition Refresh ::
  "auth_lib \<Rightarrow> go_time \<Rightarrow> go_time \<Rightarrow> go_time \<Rightarrow> string \<Rightarrow> mem_store
   \<Rightarrow> (service_error + login_result) \<times> mem_store" where
  "Refresh lib now now1 now2 tok m =
     (case ValidateRefreshToken lib now tok m of
        Inl _ \<Rightarrow> (Inl (unauthorized ''Invalid or expired refresh token''), m)
      | Inr uid \<Rightarrow>
          (case User_GetByID uid m of
             Inl _ \<Rightarrow> (Inl (unauthorized ''User not found''), m)
           | Inr u \<Rightarrow>
               (case issue_tokens lib now1 now2 u m of
                  (Inl e, m1) \<Rightarrow> (Inl e, m1)
                | (Inr res, m1) \<Rightarrow> (Inr res, Token_Delete (token_key lib tok) m1))))"

definition Logout :: "auth_lib \<Rightarrow> string \<Rightarrow> mem_store \<Rightarrow> mem_store" where
  "Logout lib tok m = Token_Delete (token_key lib tok) m"

definition ValidateAPIKey ::
  "auth_lib \<Rightarrow> go_time \<Rightarrow> string \<Rightarrow> api_keys \<Rightarrow> service_error + uuid \<times> string" where
  "ValidateAPIKey lib now tok keys =
     (if \<not> has_prefix tok ''ak_'' then Inl (unauthorized ''Invalid API key'')
      else let body = trim_prefix tok ''ak_''
      in if body = '''' then Inl (unauthorized ''Invalid API key'')
      else case APIKey_GetByHash (al_sha256 lib body) keys of
             Inl _ \<Rightarrow> Inl (unauthorized ''Invalid API key'')
           | Inr key \<Rightarrow>
               if ak_revoked key \<noteq> None then Inl (unauthorized ''API key revoked'')
               else if (case ak_expires key of None \<Rightarrow> False | Some t \<Rightarrow> t < now)
               then Inl (unauthorized ''API key expired'')
               else Inr (ak_user key, ak_role key))"

section \<open>The table of users\<close>

text \<open>Both maps hold the same rows: by id and by mail address.\<close>

definition users_inv :: "mem_store \<Rightarrow> bool" where
  "users_inv m \<longleftrightarrow>
     keyed_by u_id (ms_users m)
     \<and> (\<forall>e u. ms_users_email m e = Some u \<longleftrightarrow> ms_users m (u_id u) = Some u \<and> u_email u = e)"

lemma users_inv_by_email:
  "users_inv m \<Longrightarrow> User_GetByEmail e m = Inr u \<Longrightarrow> User_GetByID (u_id u) m = Inr u \<and> u_email u = e"
  by (auto simp: users_inv_def User_GetByEmail_def User_GetByID_def split: option.splits)

lemma users_inv_new: "users_inv NewMemoryStore"
  by (simp add: users_inv_def NewMemoryStore_def keyed_by_def)

lemma users_inv_Create:
  assumes "users_inv m" "User_Create u m = Inr m'"
  shows "users_inv m'"
proof -
  have m': "m' = m\<lparr>ms_users := (ms_users m)(u_id u \<mapsto> u),
                   ms_users_email := (ms_users_email m)(u_email u \<mapsto> u)\<rparr>"
    and new: "ms_users m (u_id u) = None" "ms_users_email m (u_email u) = None"
    using assms(2) by (auto simp: User_Create_def split: if_splits)
  have key: "keyed_by u_id (ms_users m)"
    and both: "\<And>e w. ms_users_email m e = Some w \<longleftrightarrow> ms_users m (u_id w) = Some w \<and> u_email w = e"
    using assms(1) by (auto simp: users_inv_def)
  have "ms_users_email m' e = Some w \<longleftrightarrow> ms_users m' (u_id w) = Some w \<and> u_email w = e" for e w
  proof (cases "w = u")
    case True
    with both [of e u] new show ?thesis by (auto simp: m')
  next
    case False
    then show ?thesis using both [of e w] new by (auto simp: m')
  qed
  with key show ?thesis by (simp add: users_inv_def m')
qed

lemma Register_Inr:
  assumes "Register lib now k req m = (Inr u, m')"
  obtains hashed where "al_bcrypt lib (rr_password req) = Some hashed"
    "u = new_user now k hashed req" "User_Create u m = Inr m'"
    "TrimSpace (rr_email req) \<noteq> ''''" "TrimSpace (rr_password req) \<noteq> ''''" "al_mail lib (rr_email req)"
proof -
  have errs: "TrimSpace (rr_email req) \<noteq> ''''" "TrimSpace (rr_password req) \<noteq> ''''"
    "rr_email req = '''' \<or> al_mail lib (rr_email req)"
    using assms by (auto simp: Register_def Let_def HasErrors_def Email_def Name_def NotEmpty_def
        add_field_error_def split: if_splits)
  then have mail: "al_mail lib (rr_email req)" by auto
  obtain hashed where h: "al_bcrypt lib (rr_password req) = Some hashed"
    using assms by (auto simp: Register_def Let_def split: if_splits option.splits)
  with assms have "u = new_user now k hashed req" "User_Create u m = Inr m'"
    by (auto simp: Register_def Let_def split: if_splits sum.splits)
  with that h errs mail show ?thesis by blast
qed

lemma users_inv_Register:
  "users_inv m \<Longrightarrow> users_inv (snd (Register lib now k req m))"
  by (cases "Register lib now k req m"; cases "fst (Register lib now k req m)")
    (auto elim!: Register_Inr dest: users_inv_Create
      simp: Register_def Let_def split: if_splits option.splits sum.splits)

section \<open>Sessions\<close>

text \<open>
  What the token and id libraries document: a signed token parses to its claims until it expires,
  and an id parses back from its text.
\<close>

definition jwt_ok :: "auth_lib \<Rightarrow> bool" where
  "jwt_ok lib \<longleftrightarrow>
     (\<forall>c tok now. al_sign lib (al_secret lib) c = Some tok \<and> al_date lib now < cl_expires c \<longrightarrow>
        al_parse lib (al_secret lib) now tok = Some (c, True))"

definition uuid_ok :: "auth_lib \<Rightarrow> bool" where
  "uuid_ok lib \<longleftrightarrow> (\<forall>k. al_uuid_parse lib (al_uuid_str lib k) = Some k)"

lemma jwt_okD:
  "jwt_ok lib \<Longrightarrow> al_sign lib (al_secret lib) c = Some tok \<Longrightarrow> al_date lib now < cl_expires c \<Longrightarrow>
     al_parse lib (al_secret lib) now tok = Some (c, True)"
  by (simp add: jwt_ok_def)

lemma issue_tokens_Inr:
  assumes "issue_tokens lib now1 now2 u m = (Inr res, m')"
  shows "al_sign lib (al_secret lib) (access_claims lib now1 (u_id u) (role_str (u_role u)) (15 * 60 * seconds))
           = Some (lr_access res)"
    "al_sign lib (al_secret lib) (refresh_claims lib now2 (u_id u) (role_str (u_role u))) = Some (lr_refresh res)"
    "m' = m\<lparr>ms_tokens := (ms_tokens m)(token_key lib (lr_refresh res) \<mapsto> u_id u)\<rparr>"
  using assms by (auto simp: issue_tokens_def generateJWT_def generateRefreshToken_def Token_Set_def
      split: option.splits)

lemma Login_Inr:
  assumes "users_inv m" "Login lib now1 now2 req m = (Inr res, m')"
  obtains u where "ms_users m (u_id u) = Some u" "u_email u = lr_email req"
    "al_compare lib (u_password_hash u) (lr_password req)" "issue_tokens lib now1 now2 u m = (Inr res, m')"
proof -
  obtain u where "User_GetByEmail (lr_email req) m = Inr u"
    "al_compare lib (u_password_hash u) (lr_password req)" "issue_tokens lib now1 now2 u m = (Inr res, m')"
    using assms(2) by (auto simp: Login_def Let_def split: if_splits sum.splits)
  with users_inv_by_email [OF assms(1) this(1)] show ?thesis
    by (intro that) (auto simp: User_GetByID_def split: option.splits)
qed

lemma ValidateToken_signed:
  assumes "jwt_ok lib" "uuid_ok lib" "al_sign lib (al_secret lib) c = Some tok"
    and "cl_uid c = al_uuid_str lib (u_id u)" "ms_users m (u_id u) = Some u" "al_date lib now < cl_expires c"
  shows "ValidateToken lib now tok m = Inr c"
  using assms(2,4,5) jwt_okD [OF assms(1,3,6)]
  by (simp add: ValidateToken_def uuid_ok_def User_GetByID_def)

lemma ValidateRefreshToken_signed:
  assumes "jwt_ok lib" "uuid_ok lib" "al_sign lib (al_secret lib) (refresh_claims lib now1 uid role) = Some tok"
    and "al_date lib now < al_date lib (now1 + 7 * 24 * 3600 * seconds)"
  shows "ValidateRefreshToken lib now tok m =
     (if ms_tokens m (token_key lib tok) = None then Inl (unauthorized ''Token revoked or expired'')
      else Inr uid)"
proof -
  have "al_date lib now < cl_expires (refresh_claims lib now1 uid role)"
    using assms(4) by (simp add: refresh_claims_def)
  from jwt_okD [OF assms(1,3) this] assms(2) show ?thesis
    by (simp add: ValidateRefreshToken_def uuid_ok_def refresh_claims_def Token_Get_def split: option.split)
qed

lemma ValidateRefreshToken_deleted:
  "ms_tokens m (token_key lib tok) = None \<Longrightarrow> isl (ValidateRefreshToken lib now tok m)"
  by (simp add: ValidateRefreshToken_def Token_Get_def split: option.split)

text \<open>
  C19: a refresh token is good as an access token, for its seven days and past the logout. Logout
  takes the refresh token out of the table, so that no refresh is answered any more; but
  ValidateToken, which the middleware asks for the bearer token of a request, looks neither at the
  audience of a token nor at the table, and still accepts it with the user and role it names.
\<close>

theorem refresh_token_outlives_logout:
  assumes lib: "jwt_ok lib" "uuid_ok lib" and inv: "users_inv m"
    and login: "Login lib now1 now2 req m = (Inr res, m1)"
    and out: "m2 = Logout lib (lr_refresh res) m1"
    and early: "al_date lib now < al_date lib (now2 + 7 * 24 * 3600 * seconds)"
  shows "isl (ValidateRefreshToken lib now (lr_refresh res) m2)
     \<and> (\<exists>u. ms_users m (u_id u) = Some u \<and> u_email u = lr_email req
          \<and> ValidateToken lib now (lr_refresh res) m2
              = Inr (refresh_claims lib now2 (u_id u) (role_str (u_role u))))"
proof -
  obtain u where u: "ms_users m (u_id u) = Some u" "u_email u = lr_email req"
    and i: "issue_tokens lib now1 now2 u m = (Inr res, m1)"
    using inv login by (rule Login_Inr)
  note t = issue_tokens_Inr [OF i]
  have "isl (ValidateRefreshToken lib now (lr_refresh res) m2)"
    by (rule ValidateRefreshToken_deleted) (simp add: out Logout_def Token_Delete_def)
  moreover have "ms_users m2 (u_id u) = Some u"
    using u(1) by (simp add: out Logout_def Token_Delete_def t(3))
  with early have "ValidateToken lib now (lr_refresh res) m2
      = Inr (refresh_claims lib now2 (u_id u) (role_str (u_role u)))"
    by (intro ValidateToken_signed [OF lib t(2)]) (simp_all add: refresh_claims_def)
  ultimately show ?thesis using u by blast
qed

text \<open>
  C20: rotation of refresh tokens. After a successful refresh the old token is refused for good,
  and the new one is accepted throughout its seven days exactly if its key differs from the old
  one's. A refresh in the second in which the old token was issued for an unchanged user signs the
  same claims and gets the same token, so it hands out a token that it has just revoked.
\<close>

theorem refresh_rotates:
  assumes lib: "jwt_ok lib" "uuid_ok lib"
    and ref: "Refresh lib now now1 now2 tok m = (Inr res, m')"
  shows "isl (ValidateRefreshToken lib t tok m')
     \<and> (al_date lib t < al_date lib (now2 + 7 * 24 * 3600 * seconds) \<longrightarrow>
          (isl (ValidateRefreshToken lib t (lr_refresh res) m')
             \<longleftrightarrow> token_key lib (lr_refresh res) = token_key lib tok))
     \<and> (\<forall>u now0. ValidateRefreshToken lib now tok m = Inr (u_id u) \<and> ms_users m (u_id u) = Some u
          \<and> al_sign lib (al_secret lib) (refresh_claims lib now0 (u_id u) (role_str (u_role u))) = Some tok
          \<and> al_date lib now2 = al_date lib now0
          \<and> al_date lib (now2 + 7 * 24 * 3600 * seconds) = al_date lib (now0 + 7 * 24 * 3600 * seconds)
          \<longrightarrow> lr_refresh res = tok)"
proof -
  obtain uid u m1 where v: "ValidateRefreshToken lib now tok m = Inr uid"
    and u: "User_GetByID uid m = Inr u" and i: "issue_tokens lib now1 now2 u m = (Inr res, m1)"
    and m': "m' = Token_Delete (token_key lib tok) m1"
    using ref by (auto simp: Refresh_def split: sum.splits prod.splits)
  note t = issue_tokens_Inr [OF i]
  have "isl (ValidateRefreshToken lib t tok m')"
    by (rule ValidateRefreshToken_deleted) (simp add: m' Token_Delete_def)
  moreover have "isl (ValidateRefreshToken lib t (lr_refresh res) m')
      \<longleftrightarrow> token_key lib (lr_refresh res) = token_key lib tok"
    if "al_date lib t < al_date lib (now2 + 7 * 24 * 3600 * seconds)"
    using ValidateRefreshToken_signed [OF lib t(2) that]
    by (simp add: m' Token_Delete_def t(3))
  moreover have "lr_refresh res = tok"
    if h: "ValidateRefreshToken lib now tok m = Inr (u_id w)" "ms_users m (u_id w) = Some w"
      "al_sign lib (al_secret lib) (refresh_claims lib now0 (u_id w) (role_str (u_role w))) = Some tok"
      "al_date lib now2 = al_date lib now0"
      "al_date lib (now2 + 7 * 24 * 3600 * seconds) = al_date lib (now0 + 7 * 24 * 3600 * seconds)"
    for w now0
  proof -
    have "w = u" using v u h(1,2) by (simp add: User_GetByID_def)
    with t(2) h(3-5) show ?thesis by (simp add: refresh_claims_def)
  qed
  ultimately show ?thesis by blast
qed

section \<open>Witnesses\<close>

text \<open>
  Libraries for the witnesses: a token is the claims in unary, a digest tells one given text from
  all others, and a password is its own hash.
\<close>

type_synonym claim_fields = "string \<times> string \<times> int \<times> int \<times> string \<times> string list"

definition claim_fields :: "jwt_claims \<Rightarrow> claim_fields" where
  "claim_fields c = (cl_uid c, cl_role c, cl_expires c, cl_issued c, cl_issuer c, cl_audience c)"

definition claims_of :: "claim_fields \<Rightarrow> jwt_claims" where
  "claims_of f = (case f of (u, r, e, i, s, a) \<Rightarrow>
     \<lparr>cl_uid = u, cl_role = r, cl_expires = e, cl_issued = i, cl_issuer = s, cl_audience = a\<rparr>)"

definition sample_sign :: "jwt_claims \<Rightarrow> string" where
  "sample_sign c = replicate (to_nat (claim_fields c)) CHR ''x''"

definition sample_lib :: "string \<Rightarrow> auth_lib" where
  "sample_lib t =
     \<lparr>al_secret = '''', al_sign = (\<lambda>_ c. Some (sample_sign c)),
      al_parse = (\<lambda>_ now tok. let c = claims_of (from_nat (length tok)) in if now div seconds < cl_expires c then Some (c, True) else None),
      al_date = (\<lambda>now. now div seconds), al_compare = (=), al_bcrypt = Some,
      al_sha256 = (\<lambda>s. if s = t then ''1'' else ''0''),
      al_uuid_parse = (\<lambda>s. Some (of_nat (length s))), al_uuid_str = (\<lambda>k. replicate (unat k) CHR ''x''),
      al_mail = (\<lambda>_. True)\<rparr>"

lemma sample_lib_simps [simp]:
  "al_sign (sample_lib t) = (\<lambda>_ c. Some (sample_sign c))" "al_date (sample_lib t) = (\<lambda>now. now div seconds)"
  "al_sha256 (sample_lib t) = (\<lambda>s. if s = t then ''1'' else ''0'')" "al_bcrypt (sample_lib t) = Some"
  "al_compare (sample_lib t) = (=)" "al_mail (sample_lib t) = (\<lambda>_. True)"
  by (simp_all add: sample_lib_def)

lemma sample_claims:
  "refresh_claims (sample_lib t) now k r = refresh_claims (sample_lib '''') now k r"
  by (simp add: refresh_claims_def sample_lib_def)

lemma claims_of_sign [simp]: "claims_of (from_nat (length (sample_sign c))) = c"
  by (simp add: sample_sign_def claims_of_def claim_fields_def)

lemma sample_jwt_ok: "jwt_ok (sample_lib t)"
  by (auto simp: jwt_ok_def sample_lib_def Let_def)

lemma sample_uuid_ok: "uuid_ok (sample_lib t)"
  by (simp add: uuid_ok_def sample_lib_def)

definition sample_user :: user where
  "sample_user = new_user 1 5 ''pw'' \<lparr>rr_email = ''e'', rr_password = ''pw'', rr_name = ''ab''\<rparr>"

definition sample_users :: mem_store where
  "sample_users = NewMemoryStore\<lparr>ms_users := [5 \<mapsto> sample_user], ms_users_email := [''e'' \<mapsto> sample_user]\<rparr>"

lemma sample_users_inv: "users_inv sample_users"
proof -
  have "User_Create sample_user NewMemoryStore = Inr sample_users"
    by (simp add: User_Create_def NewMemoryStore_def sample_users_def sample_user_def new_user_def)
  with users_inv_new show ?thesis by (rule users_inv_Create)
qed

text \<open>A login at the instant 0, and the answer of a refresh at the instant t.\<close>

definition sample_login :: login_result where
  "sample_login = \<lparr>lr_access = sample_sign (access_claims (sample_lib '''') 0 5 ''member'' (15 * 60 * seconds)),
     lr_refresh = sample_sign (refresh_claims (sample_lib '''') 0 5 ''member''), lr_expires_in = 900\<rparr>"

lemma sample_Login:
  "Login (sample_lib '''') 0 0 \<lparr>lr_email = ''e'', lr_password = ''pw''\<rparr> sample_users
     = (Inr sample_login, sample_users\<lparr>ms_tokens := [token_key (sample_lib '''') (lr_refresh sample_login) \<mapsto> 5]\<rparr>)"
proof -
  have "TrimSpace ''e'' \<noteq> []" "TrimSpace ''pw'' \<noteq> []" by code_simp+
  then show ?thesis
    by (simp add: Login_def Let_def Email_def sample_lib_def User_GetByEmail_def sample_users_def
        sample_user_def new_user_def issue_tokens_def generateJWT_def generateRefreshToken_def
        Token_Set_def sample_login_def NewMemoryStore_def access_claims_def refresh_claims_def token_key_def
        hashToken_def)
qed

theorem refresh_token_outlives_logout_witness:
  "\<exists>res m1. Login (sample_lib '''') 0 0 \<lparr>lr_email = ''e'', lr_password = ''pw''\<rparr> sample_users = (Inr res, m1)
     \<and> \<not> isl (ValidateToken (sample_lib '''') (6 * 24 * 3600 * seconds) (lr_refresh res)
               (Logout (sample_lib '''') (lr_refresh res) m1))"
proof -
  let ?l = "sample_lib ''''"
  have early: "al_date ?l (6 * 24 * 3600 * seconds) < al_date ?l (0 + 7 * 24 * 3600 * seconds)"
    by (simp add: sample_lib_def seconds_def)
  from refresh_token_outlives_logout [OF sample_jwt_ok sample_uuid_ok sample_users_inv sample_Login refl early]
    sample_Login show ?thesis by auto
qed

text \<open>Two seconds later the refresh of this login gives a new token, half a second later the old one.\<close>

lemma sample_refreshed:
  assumes "t = sample_sign (refresh_claims (sample_lib '''') 0 5 ''member'')"
    and "m = sample_users\<lparr>ms_tokens := [token_key (sample_lib t) t \<mapsto> 5]\<rparr>" "0 \<le> now" "now < 10 * seconds"
  shows "Refresh (sample_lib t) now now now t m
     = (Inr \<lparr>lr_access = sample_sign (access_claims (sample_lib t) now 5 ''member'' (15 * 60 * seconds)),
             lr_refresh = sample_sign (refresh_claims (sample_lib t) now 5 ''member''), lr_expires_in = 900\<rparr>,
        m\<lparr>ms_tokens := (ms_tokens m)(token_key (sample_lib t) (sample_sign (refresh_claims (sample_lib t) now 5 ''member'')) \<mapsto> 5,
                 token_key (sample_lib t) t := None)\<rparr>)"
proof -
  have "al_sign (sample_lib t) (al_secret (sample_lib t)) (refresh_claims (sample_lib t) 0 5 ''member'') = Some t"
    unfolding sample_claims [of t] by (simp add: assms(1))
  moreover have "al_date (sample_lib t) now < al_date (sample_lib t) (0 + 7 * 24 * 3600 * seconds)"
    using assms(3,4) by (simp add: seconds_def)
  ultimately have v: "ValidateRefreshToken (sample_lib t) now t m = Inr 5"
    using ValidateRefreshToken_signed [OF sample_jwt_ok sample_uuid_ok] assms(2) by simp
  have u: "User_GetByID 5 m = Inr sample_user" by (simp add: assms(2) User_GetByID_def sample_users_def)
  have "issue_tokens (sample_lib t) now now sample_user m
      = (Inr \<lparr>lr_access = sample_sign (access_claims (sample_lib t) now 5 ''member'' (15 * 60 * seconds)),
             lr_refresh = sample_sign (refresh_claims (sample_lib t) now 5 ''member''), lr_expires_in = 900\<rparr>,
         m\<lparr>ms_tokens := (ms_tokens m)
             (token_key (sample_lib t) (sample_sign (refresh_claims (sample_lib t) now 5 ''member'')) \<mapsto> 5)\<rparr>)"
    by (simp add: issue_tokens_def generateJWT_def generateRefreshToken_def Token_Set_def sample_user_def
        new_user_def)
  then show ?thesis by (simp add: Refresh_def v u Token_Delete_def)
qed

theorem refresh_rotates_witness:
  "\<exists>lib m t res m'. Refresh lib (seconds div 2) (seconds div 2) (seconds div 2) t m = (Inr res, m')
     \<and> lr_refresh res = t \<and> isl (ValidateRefreshToken lib seconds (lr_refresh res) m')"
proof -
  define t where "t = sample_sign (refresh_claims (sample_lib '''') 0 5 ''member'')"
  define m where "m = sample_users\<lparr>ms_tokens := [token_key (sample_lib t) t \<mapsto> 5]\<rparr>"
  let ?h = "seconds div 2"
  have h: "0 \<le> ?h" "?h < 10 * seconds" by (simp_all add: seconds_def)
  obtain res m' where r: "Refresh (sample_lib t) ?h ?h ?h t m = (Inr res, m')"
    and new: "lr_refresh res = sample_sign (refresh_claims (sample_lib t) ?h 5 ''member'')"
    using sample_refreshed [OF t_def m_def h] by simp
  have same: "lr_refresh res = t"
  proof -
    have "refresh_claims (sample_lib t) ?h 5 ''member'' = refresh_claims (sample_lib '''') 0 5 ''member''"
      unfolding sample_claims [of t] by (simp add: refresh_claims_def seconds_def)
    then show ?thesis by (simp add: new t_def)
  qed
  from refresh_rotates [OF sample_jwt_ok sample_uuid_ok r, of seconds] same
  have "isl (ValidateRefreshToken (sample_lib t) seconds (lr_refresh res) m')" by simp
  with r same show ?thesis by blast
qed

end
