(* ===== verification/Project_Service.thy ===== *)
theory Project_Service
  imports Errors Store_Agents Store_Paging
begin

text \<open>
  The task and project services (src/src/internal/service/task.go and project.go) with the table
  of task status transitions (service/service.go). The environment gives the instant of a call and
  the ids it draws. The outer option of the two list calls is the panic of a negative page offset.
\<close>

section \<open>Task requests\<close>

record create_task_request =
  ct_project :: uuid
  ct_title :: string
  ct_description :: string
  ct_priority :: task_priority

record update_task_request =
  ut_title :: string
  ut_description :: string
  ut_priority :: task_priority
  ut_assignee :: uuid

text \<open>The page data of a list answer (store.Pagination).\<close>

record pagination =
  pg_page :: int
  pg_limit :: int
  pg_total :: int
  pg_pages :: int

text \<open>The string type conversion of priorities: the empty string is an absent priority.\<close>

definition PriorityNone :: task_priority where
  "PriorityNone = PriorityOther ''''"

definition page_or_default :: "int \<Rightarrow> int" where
  "page_or_default p = (if p \<le> 0 then 1 else p)"

definition limit_or_default :: "int \<Rightarrow> int" where
  "limit_or_default l = (if l \<le> 0 \<or> l > 100 then 20 else l)"

definition mk_pagination :: "int \<Rightarrow> int \<Rightarrow> int \<Rightarrow> pagination" where
  "mk_pagination page limit n = \<lparr>pg_page = page, pg_limit = limit, pg_total = n,
     pg_pages = (n + limit - 1) div limit\<rparr>"

section \<open>Task operations\<close>

definition new_task :: "go_time \<Rightarrow> uuid \<Rightarrow> create_task_request \<Rightarrow> task" where
  "new_task now k req =
     \<lparr>t_id = k, t_project = ct_project req, t_title = ct_title req,
      t_description = ct_description req, t_status = TaskBacklog,
      t_priority = (if ct_priority req = PriorityNone then PriorityMedium else ct_priority req),
      t_assignee = uuid_nil, t_assignee_agent = '''', t_required = [], t_position = 0,
      t_created = now, t_updated = now\<rparr>"

definition CreateTask ::
  "go_time \<Rightarrow> uuid \<Rightarrow> create_task_request \<Rightarrow> mem_store \<Rightarrow> (service_error + task) \<times> mem_store" where
  "CreateTask now k req m =
     (let errs = NotEmpty (ct_title req) ''title'' ''Title'' []
      in if HasErrors errs then (Inl (validationError errs), m)
      else case Project_GetByID (ct_project req) m of
        Inl _ \<Rightarrow> (Inl (notFound ''Project not found''), m)
      | Inr _ \<Rightarrow>
          let t = new_task now k req
          in case Task_Create t m of
               Inl _ \<Rightarrow> (Inl (internalError ''Failed to create task''), m)
             | Inr m1 \<Rightarrow> (Inr t, m1))"

definition GetTask :: "uuid \<Rightarrow> mem_store \<Rightarrow> service_error + task" where
  "GetTask k m =
     (case Task_GetByID k m of Inl _ \<Rightarrow> Inl (notFound ''Task not found'') | Inr t \<Rightarrow> Inr t)"

definition ListProjectTasks ::
  "uuid \<Rightarrow> task_status \<Rightarrow> int \<Rightarrow> int \<Rightarrow> uuid list \<Rightarrow> mem_store \<Rightarrow> (task list \<times> pagination) option"
where
  "ListProjectTasks p st page limit ks m =
     (let page = page_or_default page; limit = limit_or_default limit
      in case Task_List \<lparr>tf_project = p, tf_status = st, tf_assignee = uuid_nil,
                tf_page = page, tf_limit = limit\<rparr> ks m of
           None \<Rightarrow> None
         | Some (tasks, n) \<Rightarrow> Some (tasks, mk_pagination page limit n))"

definition UpdateTask ::
  "go_time \<Rightarrow> uuid \<Rightarrow> update_task_request \<Rightarrow> mem_store \<Rightarrow> (service_error + task) \<times> mem_store" where
  "UpdateTask now k req m =
     (case Task_GetByID k m of
        Inl _ \<Rightarrow> (Inl (notFound ''Task not found''), m)
      | Inr t \<Rightarrow>
          let t1 = (if ut_title req \<noteq> '''' then t\<lparr>t_title := ut_title req\<rparr> else t);
              t2 = (if ut_description req \<noteq> '''' then t1\<lparr>t_description := ut_description req\<rparr> else t1);
              t3 = (if ut_priority req \<noteq> PriorityNone then t2\<lparr>t_priority := ut_priority req\<rparr> else t2);
              t4 = (if ut_assignee req \<noteq> uuid_nil then t3\<lparr>t_assignee := ut_assignee req\<rparr> else t3);
              t5 = t4\<lparr>t_updated := now\<rparr>
          in case Task_Update t5 m of
               Inl _ \<Rightarrow> (Inl (internalError ''Failed to update task''), m)
             | Inr m1 \<Rightarrow> (Inr t5, m1))"

definition DeleteTask :: "uuid \<Rightarrow> mem_store \<Rightarrow> (service_error + unit) \<times> mem_store" where
  "DeleteTask k m =
     (case Task_Delete k m of
        Inl ErrNotFound \<Rightarrow> (Inl (notFound ''Task not found''), m)
      | Inl _ \<Rightarrow> (Inl (internalError ''Failed to delete task''), m)
      | Inr m1 \<Rightarrow> (Inr (), m1))"

text \<open>A status without a row of its own in the map is not found in it.\<close>

fun taskStatusTransitions :: "task_status \<Rightarrow> task_status list option" where
  "taskStatusTransitions TaskBacklog = Some [TaskReady, TaskBlocked]"
| "taskStatusTransitions TaskReady = Some [TaskInProgress, TaskBlocked]"
| "taskStatusTransitions TaskInProgress = Some [TaskReview, TaskBlocked]"
| "taskStatusTransitions TaskReview = Some [TaskDone, TaskBlocked]"
| "taskStatusTransitions TaskDone = Some [TaskBlocked]"
| "taskStatusTransitions TaskBlocked =
     Some [TaskBacklog, TaskReady, TaskInProgress, TaskReview, TaskDone]"
| "taskStatusTransitions _ = None"

definition invalid_transition :: "string \<Rightarrow> service_error" where
  "invalid_transition msg = unprocessableEntity ''INVALID_TRANSITION'' msg"

definition UpdateTaskStatus ::
  "go_time \<Rightarrow> uuid \<Rightarrow> task_status \<Rightarrow> mem_store \<Rightarrow> (service_error + task) \<times> mem_store" where
  "UpdateTaskStatus now k new m =
     (case Task_GetByID k m of
        Inl _ \<Rightarrow> (Inl (notFound ''Task not found''), m)
      | Inr t \<Rightarrow>
          (case taskStatusTransitions (t_status t) of
             None \<Rightarrow> (Inl (invalid_transition
                        (''Invalid status transition from '' @ task_status_str (t_status t))), m)
           | Some allowed \<Rightarrow>
               if \<not> list_ex (\<lambda>a. a = new) allowed
               then (Inl (invalid_transition (''Cannot transition from ''
                       @ task_status_str (t_status t) @ '' to '' @ task_status_str new)), m)
               else
                 let t1 = t\<lparr>t_status := new, t_updated := now\<rparr>
                 in case Task_Update t1 m of
                      Inl _ \<Rightarrow> (Inl (internalError ''Failed to update task status''), m)
                    | Inr m1 \<Rightarrow> (Inr t1, m1)))"

section \<open>Project operations\<close>

record create_project_request =
  cp_name :: string
  cp_description :: string
  cp_template :: string
  cp_owner :: uuid
  cp_agents :: "uuid list"

record update_project_request =
  up_name :: string
  up_description :: string
  up_status :: project_status

text \<open>The loop over the initial agents: each found one is written back with the new project.\<close>

fun assign_initial :: "uuid \<Rightarrow> go_time \<Rightarrow> uuid list \<Rightarrow> mem_store \<Rightarrow> mem_store" where
  "assign_initial p now [] m = m"
| "assign_initial p now (k # ks) m =
     (case Agent_GetByID k m of
        Inl _ \<Rightarrow> assign_initial p now ks m
      | Inr a \<Rightarrow>
          (case Agent_Update (a\<lparr>ag_project := p, ag_updated := now\<rparr>) m of
             Inl _ \<Rightarrow> assign_initial p now ks m
           | Inr (_, m1) \<Rightarrow> assign_initial p now ks m1))"

definition new_project :: "go_time \<Rightarrow> uuid \<Rightarrow> create_project_request \<Rightarrow> project" where
  "new_project now k req =
     \<lparr>pr_id = k, pr_name = cp_name req, pr_description = cp_description req,
      pr_owner = cp_owner req, pr_status = ProjectInitializing, pr_template = cp_template req,
      pr_progress = 0, pr_active_agents = 0, pr_created = now, pr_updated = now\<rparr>"

definition CreateProject ::
  "go_time \<Rightarrow> uuid \<Rightarrow> create_project_request \<Rightarrow> mem_store \<Rightarrow> (service_error + project) \<times> mem_store"
where
  "CreateProject now k req m =
     (let errs = NotEmpty (cp_name req) ''name'' ''Name'' []
      in if HasErrors errs then (Inl (validationError errs), m)
      else let p = new_project now k req
      in case Project_Create p m of
           Inl _ \<Rightarrow> (Inl (internalError ''Failed to create project''), m)
         | Inr m1 \<Rightarrow> (Inr p, assign_initial (pr_id p) now (cp_agents req) m1))"

definition GetProject :: "uuid \<Rightarrow> mem_store \<Rightarrow> service_error + project" where
  "GetProject k m =
     (case Project_GetByID k m of
        Inl _ \<Rightarrow> Inl (notFound ''Project not found'') | Inr p \<Rightarrow> Inr p)"

definition ListProjects ::
  "(string \<Rightarrow> string) \<Rightarrow> project_filter \<Rightarrow> uuid list \<Rightarrow> uuid list \<Rightarrow> mem_store
   \<Rightarrow> (project list \<times> pagination) option \<times> mem_store" where
  "ListProjects to_lower f ks aks m =
     (let f1 = f\<lparr>pjf_page := page_or_default (pjf_page f), pjf_limit := limit_or_default (pjf_limit f)\<rparr>
      in case Project_List to_lower f1 ks aks m of
           (None, m1) \<Rightarrow> (None, m1)
         | (Some (ps, n), m1) \<Rightarrow>
             (Some (ps, mk_pagination (pjf_page f1) (pjf_limit f1) n), m1))"

definition UpdateProject ::
  "go_time \<Rightarrow> uuid \<Rightarrow> update_project_request \<Rightarrow> mem_store \<Rightarrow> (service_error + project) \<times> mem_store"
where
  "UpdateProject now k req m =
     (case Project_GetByID k m of
        Inl _ \<Rightarrow> (Inl (notFound ''Project not found''), m)
      | Inr p \<Rightarrow>
          let p1 = (if up_name req \<noteq> '''' then p\<lparr>pr_name := up_name req\<rparr> else p);
              p2 = (if up_description req \<noteq> '''' then p1\<lparr>pr_description := up_description req\<rparr> else p1);
              p3 = (if up_status req \<noteq> ProjectOther '''' then p2\<lparr>pr_status := up_status req\<rparr> else p2);
              p4 = p3\<lparr>pr_updated := now\<rparr>
          in case Project_Update p4 m of
               Inl _ \<Rightarrow> (Inl (internalError ''Failed to update project''), m)
             | Inr m1 \<Rightarrow> (Inr p4, m1))"

definition DeleteProject :: "uuid \<Rightarrow> mem_store \<Rightarrow> (service_error + unit) \<times> mem_store" where
  "DeleteProject k m =
     (case Project_Delete k m of
        Inl ErrNotFound \<Rightarrow> (Inl (notFound ''Project not found''), m)
      | Inl _ \<Rightarrow> (Inl (internalError ''Failed to delete project''), m)
      | Inr m1 \<Rightarrow> (Inr (), m1))"

definition initialTasks :: "(string \<times> string \<times> task_priority) list" where
  "initialTasks =
     [(''Requirements Analysis'',
       ''Analyze user description and extract core functional requirements.'', PriorityHigh),
      (''Architecture Design'',
       ''Define system architecture, tech stack, and API contracts.'', PriorityHigh),
      (''Database Schema Design'',
       ''Design PostgreSQL schema and migration scripts.'', PriorityMedium),
      (''Frontend Setup'',
       ''Initialize Next.js project and design system components.'', PriorityMedium)]"

text \<open>The loop over the initial tasks; \<open>ids\<close> are the drawn ids. A failed create is only logged.\<close>

fun create_initial ::
  "uuid \<Rightarrow> go_time \<Rightarrow> (string \<times> string \<times> task_priority) list \<Rightarrow> uuid list \<Rightarrow> mem_store \<Rightarrow> mem_store" where
  "create_initial p now ((ti, de, pri) # ts) (k # ks) m =
     (case Task_Create (new_task now k \<lparr>ct_project = p, ct_title = ti, ct_description = de,
                          ct_priority = pri\<rparr>) m of
        Inl _ \<Rightarrow> create_initial p now ts ks m
      | Inr m1 \<Rightarrow> create_initial p now ts ks m1)"
| "create_initial p now _ _ m = m"

definition DecomposeProject ::
  "go_time \<Rightarrow> uuid list \<Rightarrow> uuid \<Rightarrow> mem_store \<Rightarrow> (service_error + unit) \<times> mem_store" where
  "DecomposeProject now ids k m =
     (case Project_GetByID k m of
        Inl _ \<Rightarrow> (Inl (notFound ''Project not found''), m)
      | Inr p \<Rightarrow>
          let m1 = create_initial (pr_id p) now initialTasks ids m;
              p1 = p\<lparr>pr_status := ProjectInProgress, pr_updated := now\<rparr>
          in (Inr (), case Project_Update p1 m1 of Inl _ \<Rightarrow> m1 | Inr m2 \<Rightarrow> m2))"

section \<open>The task workflow\<close>

text \<open>The statuses with a row of their own in the table.\<close>

definition workflow :: "task_status list" where
  "workflow = [TaskBacklog, TaskReady, TaskInProgress, TaskReview, TaskDone, TaskBlocked]"

definition next_statuses :: "task_status \<Rightarrow> task_status list" where
  "next_statuses st = (case taskStatusTransitions st of None \<Rightarrow> [] | Some xs \<Rightarrow> xs)"

lemma next_statuses_simps [simp]:
  "next_statuses TaskBacklog = [TaskReady, TaskBlocked]"
  "next_statuses TaskReady = [TaskInProgress, TaskBlocked]"
  "next_statuses TaskInProgress = [TaskReview, TaskBlocked]"
  "next_statuses TaskReview = [TaskDone, TaskBlocked]"
  "next_statuses TaskDone = [TaskBlocked]"
  "next_statuses TaskBlocked = [TaskBacklog, TaskReady, TaskInProgress, TaskReview, TaskDone]"
  by (simp_all add: next_statuses_def)

lemma next_statuses_other: "st \<notin> set workflow \<Longrightarrow> next_statuses st = []"
  by (cases st) (simp_all add: workflow_def next_statuses_def)

lemma UpdateTaskStatus_row:
  assumes "ms_tasks m k = Some t" "t_id t = k"
  shows "if new \<in> set (next_statuses (t_status t))
     then UpdateTaskStatus now k new m
        = (Inr (t\<lparr>t_status := new, t_updated := now\<rparr>),
           m\<lparr>ms_tasks := (ms_tasks m)(k \<mapsto> t\<lparr>t_status := new, t_updated := now\<rparr>)\<rparr>)
     else (\<exists>msg. UpdateTaskStatus now k new m = (Inl (invalid_transition msg), m))"
  using assms
  by (auto simp: UpdateTaskStatus_def Task_GetByID_def Task_Update_def next_statuses_def Let_def list_ex_iff
      split: option.split)

text \<open>A sequence of status changes of one task, all of them accepted.\<close>

fun status_run :: "go_time \<Rightarrow> uuid \<Rightarrow> task_status list \<Rightarrow> mem_store \<Rightarrow> mem_store option" where
  "status_run now k [] m = Some m"
| "status_run now k (s # ss) m =
     (case UpdateTaskStatus now k s m of
        (Inl _, _) \<Rightarrow> None
      | (Inr _, m1) \<Rightarrow> status_run now k ss m1)"

lemma status_run_path:
  assumes "ms_tasks m k = Some t" "t_id t = k"
  shows "(\<exists>m'. status_run now k ss m = Some m'
            \<and> map_option t_status (ms_tasks m' k) = Some (last (t_status t # ss)))
         \<longleftrightarrow> successively (\<lambda>a b. b \<in> set (next_statuses a)) (t_status t # ss)"
  using assms
proof (induction ss arbitrary: m t)
  case Nil
  then show ?case by simp
next
  case (Cons s ss)
  let ?t = "t\<lparr>t_status := s, t_updated := now\<rparr>"
  let ?m = "m\<lparr>ms_tasks := (ms_tasks m)(k \<mapsto> ?t)\<rparr>"
  show ?case
  proof (cases "s \<in> set (next_statuses (t_status t))")
    case True
    with UpdateTaskStatus_row [OF Cons.prems, of s now] Cons.IH [of ?m ?t] Cons.prems show ?thesis by simp
  next
    case False
    with UpdateTaskStatus_row [OF Cons.prems, of s now] show ?thesis by auto
  qed
qed

text \<open>Between any two statuses of the table there is a path of at most two changes.\<close>

lemma workflow_two_changes:
  assumes "a \<in> set workflow" "b \<in> set workflow"
  shows "\<exists>ss. length ss \<le> 2 \<and> last (a # ss) = b
     \<and> successively (\<lambda>a b. b \<in> set (next_statuses a)) (a # ss)"
proof -
  consider "a = b" | "a \<noteq> b" "b = TaskBlocked" | "a = TaskBlocked" "b \<noteq> a"
    | "a \<noteq> TaskBlocked" "b \<noteq> TaskBlocked" "a \<noteq> b" by blast
  then show ?thesis
  proof cases
    case 1
    then show ?thesis by (intro exI [of _ "[]"]) simp
  next
    case 2
    with assms show ?thesis by (intro exI [of _ "[b]"]) (auto simp: workflow_def)
  next
    case 3
    with assms show ?thesis by (intro exI [of _ "[b]"]) (auto simp: workflow_def)
  next
    case 4
    with assms show ?thesis
      by (intro exI [of _ "[TaskBlocked, b]"]) (auto simp: workflow_def)
  qed
qed

text \<open>
  The task status machine. A task in a status of the table can be brought to every other
  one of them by at most two accepted changes, so from the backlog to done without review. A task
  in any other status, todo and open among them, is stuck: every change is refused and leaves the
  store as it is.
\<close>

theorem task_status_reach:
  assumes "ms_tasks m k = Some t" "t_id t = k"
  shows "if t_status t \<in> set workflow
     then (\<forall>b \<in> set workflow. \<exists>ss m'. length ss \<le> 2 \<and> status_run now k ss m = Some m'
              \<and> map_option t_status (ms_tasks m' k) = Some b)
     else (\<forall>b. \<exists>msg. UpdateTaskStatus now k b m = (Inl (invalid_transition msg), m))"
proof (cases "t_status t \<in> set workflow")
  case True
  have "\<exists>ss m'. length ss \<le> 2 \<and> status_run now k ss m = Some m'
      \<and> map_option t_status (ms_tasks m' k) = Some b" if b: "b \<in> set workflow" for b
  proof -
    obtain ss where ss: "length ss \<le> 2" "last (t_status t # ss) = b"
      "successively (\<lambda>a b. b \<in> set (next_statuses a)) (t_status t # ss)"
      using workflow_two_changes [OF True b] by blast
    from ss(3) obtain m' where "status_run now k ss m = Some m'"
      "map_option t_status (ms_tasks m' k) = Some (last (t_status t # ss))"
      unfolding status_run_path [OF assms, of now, symmetric] by blast
    with ss(1,2) show ?thesis by metis
  qed
  with True show ?thesis by simp
next
  case False
  have "\<exists>msg. UpdateTaskStatus now k b m = (Inl (invalid_transition msg), m)" for b
    using UpdateTaskStatus_row [OF assms, of b now] by (simp add: next_statuses_other [OF False])
  with False show ?thesis by simp
qed

section \<open>The agents of a new project\<close>

text \<open>An agent row after \<open>n\<close> visits of the loop.\<close>

definition moved_agent :: "uuid \<Rightarrow> go_time \<Rightarrow> nat \<Rightarrow> agent \<Rightarrow> agent" where
  "moved_agent p now n a =
     (if n = 0 then a
      else a\<lparr>ag_project := p, ag_updated := now, ag_version := ag_version a + int n\<rparr>)"

lemma moved_agent_id [simp]: "ag_id (moved_agent p now n a) = ag_id a"
  by (simp add: moved_agent_def)

lemma moved_agent_Suc:
  "(moved_agent p now n a)\<lparr>ag_project := p, ag_updated := now,
     ag_version := ag_version (moved_agent p now n a) + 1\<rparr> = moved_agent p now (Suc n) a"
  by (cases a) (simp add: moved_agent_def)

lemma moved_agent_moved:
  "moved_agent p now n (moved_agent p now (Suc 0) a) = moved_agent p now (Suc n) a"
  by (cases a) (simp add: moved_agent_def)

lemma assign_initial_step:
  assumes "keyed_by ag_id (ms_agents m)" "ms_agents m k = Some a"
  shows "assign_initial p now (k # ks) m
     = assign_initial p now ks (m\<lparr>ms_agents := (ms_agents m)(k \<mapsto> moved_agent p now (Suc 0) a)\<rparr>)"
proof -
  have id: "ag_id a = k" using assms by (rule keyed_byD)
  have "Agent_Update (a\<lparr>ag_project := p, ag_updated := now\<rparr>) m
      = Inr (moved_agent p now (Suc 0) a,
          m\<lparr>ms_agents := (ms_agents m)(k \<mapsto> moved_agent p now (Suc 0) a)\<rparr>)"
    using assms(2) id by (cases a) (simp add: Agent_Update_def moved_agent_def Let_def)
  with assms(2) show ?thesis by (simp add: Agent_GetByID_def)
qed

lemma assign_initial_rows:
  assumes "keyed_by ag_id (ms_agents m)"
  shows "assign_initial p now ks m
     = m\<lparr>ms_agents := (\<lambda>j. map_option (moved_agent p now (count_list ks j)) (ms_agents m j))\<rparr>"
  using assms
proof (induction ks arbitrary: m)
  case Nil
  have "(\<lambda>j. map_option (moved_agent p now 0) (ms_agents m j)) = ms_agents m"
  proof
    fix j show "map_option (moved_agent p now 0) (ms_agents m j) = ms_agents m j"
      by (cases "ms_agents m j") (simp_all add: moved_agent_def)
  qed
  then show ?case by simp
next
  case (Cons k ks)
  show ?case
  proof (cases "ms_agents m k")
    case None
    then have "assign_initial p now (k # ks) m = assign_initial p now ks m"
      by (simp add: Agent_GetByID_def)
    also have "\<dots> = m\<lparr>ms_agents := (\<lambda>j. map_option (moved_agent p now (count_list (k # ks) j)) (ms_agents m j))\<rparr>"
      unfolding Cons.IH [OF Cons.prems] using None
      by (intro arg_cong [where f = "\<lambda>f. m\<lparr>ms_agents := f\<rparr>"] ext) auto
    finally show ?thesis .
  next
    case (Some a)
    let ?m = "m\<lparr>ms_agents := (ms_agents m)(k \<mapsto> moved_agent p now (Suc 0) a)\<rparr>"
    have key: "keyed_by ag_id (ms_agents ?m)"
      using Cons.prems keyed_byD [OF Cons.prems Some] by simp
    have "map_option (moved_agent p now (count_list ks j)) (ms_agents ?m j)
        = map_option (moved_agent p now (count_list (k # ks) j)) (ms_agents m j)" for j
      using Some by (simp add: moved_agent_moved)
    then show ?thesis
      unfolding assign_initial_step [OF Cons.prems Some] Cons.IH [OF key] by simp
  qed
qed

text \<open>
  Creating a project takes over every agent it names, whatever project the agent was in and
  whether it is retired, counting the version up once per mention, and leaves the other agents
  alone. Agents in service from different projects may have one name, so the call can break the
  rule the agent table keeps at its own inserts, that the names within a project differ.
\<close>

theorem CreateProject_takes_agents:
  assumes inv: "agents_inv m" and new: "CreateProject now p req m = (Inr pr, m')"
  shows "ms_projects m' = (ms_projects m)(p \<mapsto> pr)
     \<and> (\<forall>k. ms_agents m' k = map_option (moved_agent p now (count_list (cp_agents req) k)) (ms_agents m k))
     \<and> (\<forall>j k a b. j \<in> set (cp_agents req) \<and> k \<in> set (cp_agents req) \<and> j \<noteq> k
          \<and> ms_agents m j = Some a \<and> ms_agents m k = Some b \<and> ag_name a = ag_name b
          \<and> ag_retired_at a = None \<and> ag_retired_at b = None \<longrightarrow> \<not> agents_inv m')"
proof -
  let ?m1 = "m\<lparr>ms_projects := (ms_projects m)(p \<mapsto> pr)\<rparr>"
  have m': "m' = assign_initial p now (cp_agents req) ?m1"
    using new by (auto simp: CreateProject_def Project_Create_def new_project_def Let_def
        split: if_splits)
  have "keyed_by ag_id (ms_agents ?m1)" using inv by (simp add: agents_inv_def)
  from assign_initial_rows [OF this]
  have rows: "m' = ?m1\<lparr>ms_agents := (\<lambda>j. map_option (moved_agent p now (count_list (cp_agents req) j))
      (ms_agents m j))\<rparr>" by (simp add: m')
  have "\<not> agents_inv m'"
    if "j \<in> set (cp_agents req)" "k \<in> set (cp_agents req)" "j \<noteq> k" "ms_agents m j = Some a"
      "ms_agents m k = Some b" "ag_name a = ag_name b" "ag_retired_at a = None" "ag_retired_at b = None"
    for j k a b
  proof
    assume inv': "agents_inv m'"
    have c: "count_list (cp_agents req) j \<noteq> 0" "count_list (cp_agents req) k \<noteq> 0"
      using that(1,2) by (simp_all add: count_list_0_iff)
    show False
      using agents_invD(2) [OF inv', of j "moved_agent p now (count_list (cp_agents req) j) a" k
          "moved_agent p now (count_list (cp_agents req) k) b"] that(3-8) c
      by (simp add: rows) (simp add: moved_agent_def)
  qed
  then show ?thesis by (simp add: rows) blast
qed

section \<open>Decomposition\<close>

text \<open>With new ids the call adds its four tasks, every time it is called.\<close>

lemma create_initial_rows:
  assumes "length ids = length ts" "distinct ids" "\<forall>i \<in> set ids. ms_tasks m i = None"
    and "m' = create_initial p now ts ids m"
  shows "(\<forall>j. j \<notin> set ids \<longrightarrow> ms_tasks m' j = ms_tasks m j)
     \<and> (\<forall>i \<in> set ids. \<exists>t. ms_tasks m' i = Some t \<and> t_project t = p \<and> t_status t = TaskBacklog)
     \<and> ms_projects m' = ms_projects m"
  using assms
proof (induction p now ts ids m rule: create_initial.induct)
  case (1 p now ti de pri ts k ks m)
  let ?t = "new_task now k \<lparr>ct_project = p, ct_title = ti, ct_description = de, ct_priority = pri\<rparr>"
  let ?m = "m\<lparr>ms_tasks := (ms_tasks m)(k \<mapsto> ?t)\<rparr>"
  have c: "Task_Create ?t m = Inr ?m" using 1(5) by (simp add: Task_Create_def new_task_def)
  have t: "t_project ?t = p" "t_status ?t = TaskBacklog" by (simp_all add: new_task_def)
  have "\<forall>i \<in> set ks. ms_tasks ?m i = None" using 1(4,5) by auto
  moreover have "m' = create_initial p now ts ks ?m" using 1(6) c by simp
  ultimately have ih: "(\<forall>j. j \<notin> set ks \<longrightarrow> ms_tasks m' j = ms_tasks ?m j)
     \<and> (\<forall>i \<in> set ks. \<exists>t. ms_tasks m' i = Some t \<and> t_project t = p \<and> t_status t = TaskBacklog)
     \<and> ms_projects m' = ms_projects ?m"
    using 1(2) [OF c] 1(3,4) by simp
  moreover have "k \<notin> set ks" using 1(4) by simp
  ultimately have "ms_tasks m' k = Some ?t" by simp
  with ih t show ?case by auto
qed (auto simp: Suc_length_conv)

lemma DecomposeProject_adds:
  assumes p: "ms_projects m k = Some p" "pr_id p = k"
    and ids: "length ids = 4" "distinct ids" "\<forall>i \<in> set ids. ms_tasks m i = None"
  shows "\<exists>m'. DecomposeProject now ids k m = (Inr (), m')
     \<and> (\<forall>j. j \<notin> set ids \<longrightarrow> ms_tasks m' j = ms_tasks m j)
     \<and> (\<forall>i \<in> set ids. \<exists>t. ms_tasks m' i = Some t \<and> t_project t = k \<and> t_status t = TaskBacklog)
     \<and> map_option pr_status (ms_projects m' k) = Some ProjectInProgress"
proof -
  have "length ids = length initialTasks" using ids(1) by (simp add: initialTasks_def)
  from create_initial_rows [OF this ids(2,3) refl, of k now] p show ?thesis
    by (simp add: DecomposeProject_def Project_GetByID_def Project_Update_def Let_def)
qed

section \<open>Witnesses\<close>

text \<open>Two agents of one name in projects 3 and 4.\<close>

definition sample_teams :: mem_store where
  "sample_teams = NewMemoryStore\<lparr>ms_agents :=
     [7 \<mapsto> sample_agent 7 [], 8 \<mapsto> (sample_agent 8 [])\<lparr>ag_project := 4\<rparr>]\<rparr>"

lemma sample_teams_inv: "agents_inv sample_teams"
  by (auto simp: agents_inv_def sample_teams_def keyed_by_def sample_agent_def split: if_splits)

definition sample_project :: create_project_request where
  "sample_project = \<lparr>cp_name = ''p'', cp_description = '''', cp_template = '''', cp_owner = 0,
     cp_agents = [7, 8]\<rparr>"

theorem CreateProject_takes_agents_witness:
  "\<exists>pr m'. CreateProject 2 9 sample_project sample_teams = (Inr pr, m')
     \<and> agents_inv sample_teams \<and> \<not> agents_inv m'"
proof -
  have "TrimSpace ''p'' \<noteq> []" by code_simp
  then obtain pr m' where c: "CreateProject 2 9 sample_project sample_teams = (Inr pr, m')"
    by (simp add: CreateProject_def sample_project_def sample_teams_def Project_Create_def
        NewMemoryStore_def new_project_def Let_def)
  from CreateProject_takes_agents [OF sample_teams_inv c] have "\<not> agents_inv m'"
    by (auto simp: sample_project_def sample_teams_def sample_agent_def)
  with c sample_teams_inv show ?thesis by blast
qed

theorem task_status_reach_witness:
  "\<exists>ss m'. length ss \<le> 2 \<and> status_run 5 1 ss sample_tasks = Some m'
     \<and> map_option t_status (ms_tasks m' 1) = Some TaskDone"
proof -
  have row: "ms_tasks sample_tasks 1 = Some (sample_task 1 10)" "t_id (sample_task 1 10) = 1"
    by (simp_all add: sample_tasks_def sample_task_def)
  from task_status_reach [OF row, of 5] show ?thesis
    by (simp add: sample_task_def workflow_def)
qed

end
