(* ===== verification/Platform_Services.thy ===== *)
theory Platform_Services
  imports Auth_Service Project_Service
begin

text \<open>
  The smaller services of src/src/internal/service: code generation and commits (code.go), reviews
  and their gates (review.go, review_gate.go), deployments (deployment.go), webhooks (webhook.go)
  and the audit log (audit_log.go), with the code handlers (handler/code.go). An outer option is a
  panic, None: uuid.MustParse panics on a text that is no id. The libraries are the record
  \<open>auth_lib\<close>; \<open>to_lower\<close> stands for strings.ToLower.
\<close>

section \<open>Code (code.go)\<close>

text \<open>A request context gives the value of a string key, if it is a string.\<close>

type_synonym req_ctx = "string \<Rightarrow> string option"

definition checkProjectAccess :: "auth_lib \<Rightarrow> req_ctx \<Rightarrow> string \<Rightarrow> mem_store \<Rightarrow> bool" where
  "checkProjectAccess lib ctx projectID m =
     (case ctx ''user_id'' of
        None \<Rightarrow> False
      | Some userID \<Rightarrow>
          (case al_uuid_parse lib userID of
             None \<Rightarrow> False
           | Some uid \<Rightarrow>
               (case al_uuid_parse lib projectID of
                  None \<Rightarrow> False
                | Some pid \<Rightarrow> CheckProjectAccess (al_uuid_str lib) uid pid m)))"

record generate_code_request =
  gcr_project :: string
  gcr_task :: string
  gcr_specification :: string
  gcr_files :: "string list"

definition GenerateCode ::
  "auth_lib \<Rightarrow> req_ctx \<Rightarrow> go_time \<Rightarrow> uuid \<Rightarrow> generate_code_request \<Rightarrow> mem_store
   \<Rightarrow> ((service_error + codegen_request) \<times> mem_store) option" where
  "GenerateCode lib ctx now k req m =
     (if \<not> checkProjectAccess lib ctx (gcr_project req) m
      then Some (Inl (notFound ''Project not found''), m)
      else let errs = NotEmpty (gcr_project req) ''project_id'' ''Project ID'' [];
               errs = NotEmpty (gcr_specification req) ''specification'' ''Specification'' errs
      in if HasErrors errs then Some (Inl (validationError errs), m)
      else case al_uuid_parse lib (gcr_project req) of
        None \<Rightarrow> None
      | Some pid \<Rightarrow>
      if isl (Project_GetByID pid m) then Some (Inl (notFound ''Project not found''), m)
      else case al_uuid_parse lib (gcr_task req) of
        None \<Rightarrow> None
      | Some tid \<Rightarrow>
          let cg = \<lparr>cg_id = k, cg_project = pid, cg_task = tid,
                    cg_specification = gcr_specification req, cg_files = gcr_files req,
                    cg_status = CodeGenQueued, cg_execution = uuid_nil, cg_output = '''',
                    cg_estimated = 300, cg_created = now, cg_updated = now\<rparr>
          in case CodeGen_Create cg m of
               Inl _ \<Rightarrow> Some (Inl (internalError ''Failed to create code generation request''), m)
             | Inr m1 \<Rightarrow> Some (Inr cg, m1))"

definition Code_GetFile ::
  "auth_lib \<Rightarrow> req_ctx \<Rightarrow> string \<Rightarrow> string \<Rightarrow> mem_store \<Rightarrow> service_error + project_file" where
  "Code_GetFile lib ctx projectID path m =
     (if \<not> checkProjectAccess lib ctx projectID m then Inl (notFound ''File not found'')
      else case al_uuid_parse lib projectID of
             None \<Rightarrow> Inl (notFound ''File not found'')
           | Some pid \<Rightarrow>
               (case GetFile pid path m of
                  Inl _ \<Rightarrow> Inl (notFound ''File not found'') | Inr f \<Rightarrow> Inr f))"

text \<open>The chain of suffix tests, first match first.\<close>

definition language_suffixes :: "(string list \<times> string) list" where
  "language_suffixes =
     [([''.go''], ''go''), ([''.ts'', ''.tsx''], ''typescript''), ([''.js'', ''.jsx''], ''javascript''),
      ([''.py''], ''python''), ([''.rs''], ''rust''), ([''.md''], ''markdown''), ([''.css''], ''css''),
      ([''.html'', ''.htm''], ''html''), ([''.yml'', ''.yaml''], ''yaml''), ([''.json''], ''json''),
      ([''.toml''], ''toml'')]"

definition detectLanguage :: "(string \<Rightarrow> string) \<Rightarrow> string \<Rightarrow> string" where
  "detectLanguage to_lower path =
     (let p = to_lower path
      in case List.find (\<lambda>(ss, _). list_ex (has_suffix p) ss) language_suffixes of
           None \<Rightarrow> ''text'' | Some (_, lang) \<Rightarrow> lang)"

record create_commit_request =
  ccr_project :: string
  ccr_branch :: string
  ccr_message :: string
  ccr_files :: "commit_file list"

definition commit_file_row ::
  "(string \<Rightarrow> string) \<Rightarrow> go_time \<Rightarrow> uuid \<Rightarrow> string \<Rightarrow> commit_file \<Rightarrow> project_file" where
  "commit_file_row to_lower now pid author f =
     \<lparr>pf_project = pid, pf_path = cmf_path f, pf_content = cmf_content f,
      pf_language = detectLanguage to_lower (cmf_path f), pf_size = int (length (cmf_content f)),
      pf_modified = now, pf_modified_by = author\<rparr>"

definition Code_CreateCommit ::
  "(string \<Rightarrow> string) \<Rightarrow> auth_lib \<Rightarrow> req_ctx \<Rightarrow> go_time \<Rightarrow> uuid \<Rightarrow> create_commit_request \<Rightarrow> mem_store
   \<Rightarrow> ((service_error + commit) \<times> mem_store) option" where
  "Code_CreateCommit to_lower lib ctx now k req m =
     (if \<not> checkProjectAccess lib ctx (ccr_project req) m
      then Some (Inl (notFound ''Project not found''), m)
      else let errs = NotEmpty (ccr_project req) ''project_id'' ''Project ID'' [];
               errs = NotEmpty (ccr_message req) ''message'' ''Commit message'' errs
      in if HasErrors errs then Some (Inl (validationError errs), m)
      else case al_uuid_parse lib (ccr_project req) of
        None \<Rightarrow> None
      | Some pid \<Rightarrow>
          let c = \<lparr>cm_sha = take 8 (al_uuid_str lib k), cm_project = pid, cm_branch = ccr_branch req,
                   cm_message = ccr_message req, cm_author = ''agent_dev_001'',
                   cm_files = ccr_files req, cm_created = now\<rparr>
          in case CreateCommit c m of
               Inl _ \<Rightarrow> Some (Inl (internalError ''Failed to create commit''), m)
             | Inr m1 \<Rightarrow>
                 Some (Inr c, foldl (\<lambda>m f. SaveFile (commit_file_row to_lower now pid (cm_author c) f) m)
                                m1 (ccr_files req)))"

section \<open>Reviews (review.go, review_gate.go)\<close>

record gate_result =
  gr_success :: bool
  gr_score :: rat
  gr_issues :: "review_issue list"

text \<open>A gate: its name and what it answers, None for an error.\<close>

type_synonym gate_runner = "string \<times> (uuid \<Rightarrow> string \<Rightarrow> gate_result option)"

definition LinterGate :: gate_runner where
  "LinterGate = (''Linter'', \<lambda>_ _. Some \<lparr>gr_success = True, gr_score = 100, gr_issues = []\<rparr>)"

definition SASTGate :: gate_runner where
  "SASTGate = (''SAST'', \<lambda>_ _. Some \<lparr>gr_success = True, gr_score = 100, gr_issues = []\<rparr>)"

definition ComplexityGate :: gate_runner where
  "ComplexityGate = (''Complexity'', \<lambda>_ _. Some \<lparr>gr_success = True, gr_score = 100, gr_issues = []\<rparr>)"

definition review_gates :: "gate_runner list" where
  "review_gates = [LinterGate, SASTGate, ComplexityGate]"

record create_review_request =
  crr_project :: string
  crr_commit :: string
  crr_reviewer_type :: string
  crr_target :: string

definition CreateReview ::
  "auth_lib \<Rightarrow> go_time \<Rightarrow> uuid \<Rightarrow> create_review_request \<Rightarrow> mem_store \<Rightarrow> (service_error + review) \<times> mem_store"
where
  "CreateReview lib now k req m =
     (let errs = NotEmpty (crr_project req) ''project_id'' ''Project ID'' [];
          errs = NotEmpty (crr_commit req) ''commit_sha'' ''Commit SHA'' errs
      in if HasErrors errs then (Inl (validationError errs), m)
      else case al_uuid_parse lib (crr_project req) of
        None \<Rightarrow> (Inl (validationError (add_field_error ''project_id'' ''Invalid Project ID format'' errs)), m)
      | Some pid \<Rightarrow>
      (case (if crr_target req \<noteq> '''' then al_uuid_parse lib (crr_target req) else Some uuid_nil) of
        None \<Rightarrow> (Inl (validationError (add_field_error ''target_agent_id'' ''Invalid Agent ID format'' errs)), m)
      | Some target \<Rightarrow>
      if isl (Project_GetByID pid m) then (Inl (notFound ''Project not found''), m)
      else let rv = \<lparr>rv_id = k, rv_project = pid, rv_commit = crr_commit req, rv_target_agent = target,
                     rv_reviewer_type = crr_reviewer_type req, rv_reviewer_id = None, rv_agent = None,
                     rv_reviewer = ''review_agent_001'', rv_status = ReviewInProgress,
                     rv_result = ReviewResultNone, rv_score = 0, rv_issues = [], rv_metrics = None,
                     rv_created = now, rv_updated = now\<rparr>
           in case Review_Create rv m of
                Inl _ \<Rightarrow> (Inl (internalError ''Failed to create review''), m)
              | Inr m1 \<Rightarrow> (Inr rv, m1)))"

text \<open>The loop over the gates: metrics, issues and the sum of the scores.\<close>

fun run_gates ::
  "uuid \<Rightarrow> string \<Rightarrow> gate_runner list \<Rightarrow> review_metrics \<times> review_issue list \<times> rat
   \<Rightarrow> review_metrics \<times> review_issue list \<times> rat" where
  "run_gates p sha [] acc = acc"
| "run_gates p sha ((name, run) # gs) (mt, iss, sc) =
     (case run p sha of
        None \<Rightarrow> run_gates p sha gs (mt, iss, sc)
      | Some r \<Rightarrow>
          let mt1 = (if name = ''Linter'' then mt\<lparr>rm_lint_errors := int (length (gr_issues r))\<rparr>
                     else if name = ''SAST'' then mt\<lparr>rm_sast_findings := int (length (gr_issues r))\<rparr>
                     else if name = ''Complexity'' then mt\<lparr>rm_complexity := \<lfloor>gr_score r\<rfloor>\<rparr> else mt)
          in run_gates p sha gs (mt1, iss @ gr_issues r, sc + gr_score r))"

definition zero_metrics :: review_metrics where
  "zero_metrics = \<lparr>rm_complexity = 0, rm_max_complexity = 0, rm_test_coverage = 0,
     rm_duplications = 0, rm_lint_errors = 0, rm_sast_findings = 0\<rparr>"

definition processReview ::
  "go_time \<Rightarrow> gate_runner list \<Rightarrow> review \<Rightarrow> mem_store \<Rightarrow> review \<times> mem_store" where
  "processReview now gates rv m =
     (let (mt, iss, sc) = run_gates (rv_project rv) (rv_commit rv) gates (zero_metrics, [], 0);
          rv1 = rv\<lparr>rv_metrics := Some mt, rv_issues := iss, rv_score := sc / of_nat (length gates),
                   rv_status := ReviewCompleted, rv_updated := now,
                   rv_result := (if list_ex (\<lambda>i. ri_severity i = ''high'' \<or> ri_severity i = ''critical'') iss
                                 then ReviewChangesReq else ReviewApproved)\<rparr>
      in case Review_Update rv1 m of Inl _ \<Rightarrow> (rv1, m) | Inr m1 \<Rightarrow> (rv1, m1))"

definition GetReview :: "auth_lib \<Rightarrow> string \<Rightarrow> mem_store \<Rightarrow> service_error + review" where
  "GetReview lib i m =
     (case al_uuid_parse lib i of
        None \<Rightarrow> Inl (validationError (add_field_error ''id'' ''Invalid Review ID format'' []))
      | Some k \<Rightarrow>
          (case Review_GetByID k m of Inl _ \<Rightarrow> Inl (notFound ''Review not found'') | Inr r \<Rightarrow> Inr r))"

section \<open>Deployments (deployment.go)\<close>

definition env_of :: "string \<Rightarrow> deploy_env" where
  "env_of s = (if s = ''development'' then EnvDevelopment else if s = ''staging'' then EnvStaging
     else if s = ''production'' then EnvProduction else EnvOther s)"

definition validDeploymentEnvironments :: "string list" where
  "validDeploymentEnvironments = [''development'', ''staging'', ''production'']"

definition pending_step :: "string \<Rightarrow> deploy_step" where
  "pending_step n = \<lparr>ds_name = n, ds_status = ''pending'', ds_duration = 0\<rparr>"

record trigger_deployment_request =
  tdr_project :: string
  tdr_environment :: string
  tdr_branch :: string

definition TriggerDeployment ::
  "auth_lib \<Rightarrow> go_time \<Rightarrow> uuid \<Rightarrow> trigger_deployment_request \<Rightarrow> mem_store
   \<Rightarrow> ((service_error + deployment) \<times> mem_store) option" where
  "TriggerDeployment lib now k req m =
     (let errs = NotEmpty (tdr_project req) ''project_id'' ''Project ID'' [];
          errs = NotEmpty (tdr_environment req) ''environment'' ''Environment'' errs;
          errs = AllowedStrings (tdr_environment req) validDeploymentEnvironments
                   ''environment'' ''Environment'' errs
      in if HasErrors errs then Some (Inl (validationError errs), m)
      else case al_uuid_parse lib (tdr_project req) of
        None \<Rightarrow> None
      | Some pid \<Rightarrow>
      if isl (Project_GetByID pid m) then Some (Inl (notFound ''Project not found''), m)
      else let d = \<lparr>dep_id = k, dep_project = pid, dep_env = env_of (tdr_environment req),
                    dep_branch = tdr_branch req, dep_status = DeployQueued, dep_url = '''',
                    dep_estimated = 600,
                    dep_steps = [pending_step ''build'', pending_step ''test'', pending_step ''deploy''],
                    dep_rollback_from = '''', dep_rollback_to = '''', dep_started = None,
                    dep_completed = None, dep_created = now, dep_updated = now\<rparr>
           in case Deployment_Create d m of
                Inl _ \<Rightarrow> Some (Inl (internalError ''Failed to create deployment''), m)
              | Inr m1 \<Rightarrow> Some (Inr d, m1))"

definition GetDeployment :: "auth_lib \<Rightarrow> string \<Rightarrow> mem_store \<Rightarrow> (service_error + deployment) option" where
  "GetDeployment lib i m =
     (case al_uuid_parse lib i of
        None \<Rightarrow> None
      | Some k \<Rightarrow>
          Some (case Deployment_GetByID k m of
                  Inl _ \<Rightarrow> Inl (notFound ''Deployment not found'') | Inr d \<Rightarrow> Inr d))"

definition RollbackDeployment ::
  "auth_lib \<Rightarrow> go_time \<Rightarrow> uuid \<Rightarrow> string \<Rightarrow> mem_store \<Rightarrow> ((service_error + deployment) \<times> mem_store) option"
where
  "RollbackDeployment lib now k i m =
     (case al_uuid_parse lib i of
        None \<Rightarrow> None
      | Some old \<Rightarrow>
      (case Deployment_GetByID old m of
        Inl _ \<Rightarrow> Some (Inl (notFound ''Deployment not found''), m)
      | Inr e \<Rightarrow>
          let d = \<lparr>dep_id = k, dep_project = dep_project e, dep_env = dep_env e, dep_branch = '''',
                   dep_status = DeployRollingBack, dep_url = '''', dep_estimated = 600, dep_steps = [],
                   dep_rollback_from = i, dep_rollback_to = al_uuid_str lib (dep_id e),
                   dep_started = None, dep_completed = None, dep_created = now, dep_updated = now\<rparr>
          in case Deployment_Create d m of
               Inl _ \<Rightarrow> Some (Inl (internalError ''Failed to create rollback deployment''), m)
             | Inr m1 \<Rightarrow> Some (Inr d, m1)))"

section \<open>Webhooks (webhook.go)\<close>

record register_webhook_request =
  rwr_url :: string
  rwr_events :: "string list"
  rwr_secret :: string

text \<open>The check against private addresses is not written yet: it accepts every URL.\<close>

definition validateWebhookURL :: "string \<Rightarrow> string option" where
  "validateWebhookURL rawURL = None"

definition validEvents :: "string list" where
  "validEvents = [''project.created'', ''project.updated'', ''task.created'', ''task.updated'',
     ''code.generated'', ''code.committed'', ''review.completed'', ''deployment.created'',
     ''deployment.updated'']"

definition RegisterWebhook ::
  "auth_lib \<Rightarrow> go_time \<Rightarrow> uuid \<Rightarrow> register_webhook_request \<Rightarrow> mem_store \<Rightarrow> (service_error + webhook) \<times> mem_store"
where
  "RegisterWebhook lib now k req m =
     (let errs = NotEmpty (rwr_url req) ''url'' ''URL'' [];
          errs = (if rwr_events req = [] then add_field_error ''events'' ''At least one event is required'' errs
                  else errs);
          errs = (case validateWebhookURL (rwr_url req) of
                    None \<Rightarrow> errs | Some msg \<Rightarrow> add_field_error ''url'' msg errs)
      in if HasErrors errs then (Inl (validationError errs), m)
      else case List.find (\<lambda>e. e \<notin> set validEvents) (rwr_events req) of
        Some e \<Rightarrow> (Inl (validationSingle ''events'' (''Unknown event: '' @ e)), m)
      | None \<Rightarrow>
      (case al_bcrypt lib (rwr_secret req) of
        None \<Rightarrow> (Inl (internalError ''Failed to register webhook''), m)
      | Some hashed \<Rightarrow>
          let w = \<lparr>wh_id = k, wh_url = rwr_url req, wh_events = rwr_events req, wh_secret = hashed,
                   wh_active = True, wh_created = now, wh_updated = now\<rparr>
          in case Webhook_Create w m of
               Inl _ \<Rightarrow> (Inl (internalError ''Failed to register webhook''), m)
             | Inr m1 \<Rightarrow> (Inr w, m1)))"

definition ValidateWebhookSecret ::
  "auth_lib \<Rightarrow> string \<Rightarrow> string \<Rightarrow> mem_store \<Rightarrow> service_error + bool" where
  "ValidateWebhookSecret lib webhookID provided m =
     (case al_uuid_parse lib webhookID of
        None \<Rightarrow> Inl (validationError (add_field_error ''webhook_id'' ''Invalid Webhook ID format'' []))
      | Some k \<Rightarrow>
          (case Webhook_GetByID k m of
             Inl _ \<Rightarrow> Inl (notFound ''Webhook not found'')
           | Inr w \<Rightarrow> Inr (al_compare lib (wh_secret w) provided)))"

section \<open>The audit log (audit_log.go)\<close>

definition LogAction ::
  "go_time \<Rightarrow> uuid \<Rightarrow> string \<Rightarrow> uuid \<Rightarrow> string \<Rightarrow> uuid option \<Rightarrow> mem_store \<Rightarrow> mem_store" where
  "LogAction now k entityType entityID action userID m =
     AuditLog_Create k
       \<lparr>al_id = k, al_entity_type = entityType, al_entity = entityID, al_action = action,
        al_user = userID, al_changes = '''', al_created = now\<rparr> m"

definition ListLogs ::
  "audit_filter \<Rightarrow> uuid list \<Rightarrow> mem_store \<Rightarrow> (audit_log list \<times> pagination) option" where
  "ListLogs f ks m =
     (let f1 = f\<lparr>alf_page := page_or_default (alf_page f), alf_limit := limit_or_default (alf_limit f)\<rparr>
      in case AuditLog_List f1 ks m of
           None \<Rightarrow> None
         | Some (logs, n) \<Rightarrow> Some (logs, mk_pagination (alf_page f1) (alf_limit f1) n))"

section \<open>What the services do\<close>

lemma SaveFiles_get:
  assumes "map_of (map (\<lambda>f. (pf_path f, f)) (rev fs)) path = Some f" "\<forall>f \<in> set fs. pf_project f = p"
  shows "GetFile p path (foldl (\<lambda>m f. SaveFile f m) m fs) = Inr f"
  using assms
proof (induction fs rule: rev_induct)
  case Nil
  then show ?case by simp
next
  case (snoc g fs)
  then show ?case by (auto simp: SaveFile_def GetFile_def split: if_splits)
qed

text \<open>After a commit the last file of each path in it is the file of the project.\<close>

lemma CreateCommit_files:
  assumes "Code_CreateCommit to_lower lib ctx now k req m = Some (Inr c, m')"
    and "map_of (map (\<lambda>f. (cmf_path f, f)) (rev (ccr_files req))) path = Some f"
  shows "GetFile (cm_project c) path m' = Inr (commit_file_row to_lower now (cm_project c) ''agent_dev_001'' f)"
proof -
  let ?row = "commit_file_row to_lower now (cm_project c) ''agent_dev_001''"
  obtain m1 where m': "m' = foldl (\<lambda>m f. SaveFile (?row f) m) m1 (ccr_files req)"
    using assms(1) by (auto simp: Code_CreateCommit_def Let_def split: if_splits option.splits sum.splits)
  have "foldl (\<lambda>m f. SaveFile (?row f) m) m1 xs = foldl (\<lambda>m f. SaveFile f m) m1 (map ?row xs)" for xs
    by (induction xs arbitrary: m1) simp_all
  with m' have m': "m' = foldl (\<lambda>m f. SaveFile f m) m1 (map ?row (ccr_files req))" by simp
  have "map_of (map (\<lambda>f. (pf_path f, f)) (map ?row xs)) path = map_option ?row (map_of (map (\<lambda>f. (cmf_path f, f)) xs) path)"
    for xs by (induction xs) (auto simp: commit_file_row_def)
  with assms(2) have "map_of (map (\<lambda>f. (pf_path f, f)) (rev (map ?row (ccr_files req)))) path = Some (?row f)"
    by (simp add: rev_map)
  then show ?thesis unfolding m' by (rule SaveFiles_get) (auto simp: commit_file_row_def)
qed

text \<open>The gates as they are wired up approve every commit with full marks.\<close>

lemma processReview_approves:
  "fst (processReview now review_gates rv m)
     = rv\<lparr>rv_metrics := Some (zero_metrics\<lparr>rm_complexity := 100\<rparr>), rv_issues := [], rv_score := 100,
          rv_status := ReviewCompleted, rv_updated := now, rv_result := ReviewApproved\<rparr>"
  by (simp add: processReview_def review_gates_def LinterGate_def SASTGate_def ComplexityGate_def
      zero_metrics_def Let_def split: sum.split)

text \<open>A rollback names one deployment as both its source and its target.\<close>

lemma RollbackDeployment_to_itself:
  assumes "RollbackDeployment lib now k (al_uuid_str lib old) m = Some (Inr d, m')"
    and "uuid_ok lib" "keyed_by dep_id (ms_deployments m)"
  shows "dep_rollback_from d = dep_rollback_to d"
  using assms by (auto simp: RollbackDeployment_def uuid_ok_def Deployment_GetByID_def Let_def
      dest: keyed_byD split: option.splits sum.splits)

text \<open>A text that is no id makes the deployment calls panic.\<close>

lemma bad_id_panics:
  "al_uuid_parse lib i = None \<Longrightarrow> GetDeployment lib i m = None \<and> RollbackDeployment lib now k i m = None"
  by (simp add: GetDeployment_def RollbackDeployment_def)

end
