(* ===== verification/Http_Access.thy ===== *)
theory Http_Access
  imports Auth_Service "HOL-Library.Signed_Division"
begin

text \<open>
  The gates in front of the handlers: src/src/internal/middleware/middleware.go (authentication,
  roles, request ids, CORS headers, rate limit) and the route table of
  src/src/internal/router/router.go. A request is what the gates read of it; the router of gin,
  which finds the route of a path, is left out: the statements are about a request that has
  reached a route.
\<close>

section \<open>Authentication (middleware.go)\<close>

record http_request =
  rq_method :: string
  rq_path :: string
  rq_auth :: string

text \<open>The answer of a gate: pass on, with the user and role it has set, or abort.\<close>

datatype gate = Next "(string \<times> string) option" | Abort int string string

text \<open>None is the nil map.\<close>

definition isPublic :: "string \<Rightarrow> (string \<times> bool) list option \<Rightarrow> bool" where
  "isPublic path publicPaths =
     (case publicPaths of
        None \<Rightarrow> False
      | Some ps \<Rightarrow>
          if map_of ps path = Some True then True
          else list_ex (\<lambda>(p, _). has_prefix path p) ps)"

definition Auth ::
  "auth_lib \<Rightarrow> go_time \<Rightarrow> api_keys \<Rightarrow> (string \<times> bool) list option \<Rightarrow> http_request \<Rightarrow> mem_store \<Rightarrow> gate"
where
  "Auth lib now keys publicPaths rq m =
     (if isPublic (rq_path rq) publicPaths then Next None
      else if rq_auth rq = '''' then Abort 401 ''UNAUTHORIZED'' ''Missing Authorization header''
      else if \<not> has_prefix (rq_auth rq) ''Bearer ''
      then Abort 401 ''UNAUTHORIZED'' ''Invalid authorization scheme, expected Bearer <token>''
      else let token = trim_prefix (rq_auth rq) ''Bearer ''
      in if token = '''' then Abort 401 ''UNAUTHORIZED'' ''Missing token''
      else if has_prefix token ''ak_''
      then (case ValidateAPIKey lib now token keys of
              Inl e \<Rightarrow> Abort 401 (err_code e) (err_message e)
            | Inr (uid, role) \<Rightarrow> Next (Some (al_uuid_str lib uid, role)))
      else (case ValidateToken lib now token m of
              Inl _ \<Rightarrow> Abort 401 ''UNAUTHORIZED'' ''Invalid or expired token''
            | Inr c \<Rightarrow> Next (Some (cl_uid c, cl_role c))))"

text \<open>The role gates, on the role set by the gate before, if any.\<close>

definition forbidden_gate :: gate where
  "forbidden_gate = Abort 403 ''FORBIDDEN'' ''Insufficient permissions''"

definition RequireRole :: "string \<Rightarrow> (string \<times> string) option \<Rightarrow> gate" where
  "RequireRole required ident =
     (case ident of
        None \<Rightarrow> forbidden_gate
      | Some (uid, role) \<Rightarrow> if role \<noteq> required then forbidden_gate else Next ident)"

definition RequireAnyRole :: "string list \<Rightarrow> (string \<times> string) option \<Rightarrow> gate" where
  "RequireAnyRole roles ident =
     (case ident of
        None \<Rightarrow> forbidden_gate
      | Some (uid, role) \<Rightarrow> if list_ex (\<lambda>r. role = r) roles then Next ident else forbidden_gate)"

section \<open>Request ids and CORS (middleware.go)\<close>

text \<open>\<open>stamp\<close> is the formatted clock, with its dots.\<close>

definition RequestID :: "string \<Rightarrow> string \<Rightarrow> string" where
  "RequestID header stamp =
     (if header = '''' then ''req_'' @ filter (\<lambda>c. c \<noteq> CHR ''.'') stamp else header)"

record cors_config =
  cors_origins :: "string list"
  cors_methods :: "string list"
  cors_headers :: "string list"
  cors_credentials :: bool
  cors_max_age :: int

definition DefaultCORSConfig :: cors_config where
  "DefaultCORSConfig = \<lparr>cors_origins = [],
     cors_methods = [''GET'', ''POST'', ''PATCH'', ''PUT'', ''DELETE'', ''OPTIONS''],
     cors_headers = [''Content-Type'', ''Authorization'', ''X-Request-ID''],
     cors_credentials = False, cors_max_age = 86400\<rparr>"

text \<open>
  Building the gate panics on a wildcard origin with credentials: None. The gate gives the headers
  it writes and whether it aborts with status 204. \<open>itoa\<close> stands for strconv.Itoa.
\<close>

definition CORS ::
  "(int \<Rightarrow> string) \<Rightarrow> cors_config \<Rightarrow> (string \<Rightarrow> string \<Rightarrow> (string \<times> string) list \<times> bool) option" where
  "CORS itoa cfg =
     (if cors_credentials cfg \<and> list_ex (\<lambda>o'. o' = ''*'') (cors_origins cfg) then None
      else Some (\<lambda>method origin.
        let allowed = list_ex (\<lambda>o'. o' = origin) (cors_origins cfg)
        in ((if allowed
             then [(''Access-Control-Allow-Origin'', origin), (''Vary'', ''Origin'')]
                  @ (if cors_credentials cfg then [(''Access-Control-Allow-Credentials'', ''true'')] else [])
             else [])
            @ [(''Access-Control-Allow-Methods'', strings_join (cors_methods cfg) '', ''),
               (''Access-Control-Allow-Headers'', strings_join (cors_headers cfg) '', ''),
               (''Access-Control-Max-Age'', itoa (cors_max_age cfg))],
            method = ''OPTIONS'')))"

section \<open>The rate limit (middleware.go)\<close>

text \<open>
  Numbers of type float64 are rationals; \<open>rnd\<close> stands for the rounding of the machine, and every
  operation of the code is the exact operation followed by it (multiplication and addition are not
  fused).
\<close>

record rate_config =
  rl_rpm :: int
  rl_burst :: int

definition DefaultRateLimitConfig :: rate_config where
  "DefaultRateLimitConfig = \<lparr>rl_rpm = 100, rl_burst = 20\<rparr>"

record bucket =
  bk_tokens :: rat
  bk_refill :: go_time

definition refill_rate :: "(rat \<Rightarrow> rat) \<Rightarrow> rate_config \<Rightarrow> rat" where
  "refill_rate rnd cfg = rnd (rnd (of_int (rl_rpm cfg)) / 60)"

definition max_tokens :: "(rat \<Rightarrow> rat) \<Rightarrow> rate_config \<Rightarrow> rat" where
  "max_tokens rnd cfg = rnd (of_int (rl_rpm cfg + rl_burst cfg))"

text \<open>time.Duration.Seconds.\<close>

definition Seconds :: "(rat \<Rightarrow> rat) \<Rightarrow> int \<Rightarrow> rat" where
  "Seconds rnd d =
     rnd (rnd (of_int (d sdiv 1000000000)) + rnd (rnd (of_int (d smod 1000000000)) / 1000000000))"

definition float_min :: "rat \<Rightarrow> rat \<Rightarrow> rat" where
  "float_min a b = (if a < b then a else b)"

text \<open>
  One request of a key: the remaining whole tokens, or None when it is refused. The bucket keeps
  its refill in both cases.
\<close>

definition RateLimit ::
  "(rat \<Rightarrow> rat) \<Rightarrow> rate_config \<Rightarrow> go_time \<Rightarrow> string \<Rightarrow> (string \<rightharpoonup> bucket)
   \<Rightarrow> int option \<times> (string \<rightharpoonup> bucket)" where
  "RateLimit rnd cfg now key buckets =
     (let b = (case buckets key of
                 None \<Rightarrow> \<lparr>bk_tokens = max_tokens rnd cfg, bk_refill = now\<rparr> | Some b \<Rightarrow> b);
          elapsed = Seconds rnd (now - bk_refill b);
          tokens = float_min (max_tokens rnd cfg)
                     (rnd (bk_tokens b + rnd (elapsed * refill_rate rnd cfg)))
      in if tokens < 1
         then (None, buckets(key \<mapsto> \<lparr>bk_tokens = tokens, bk_refill = now\<rparr>))
         else let left = rnd (tokens - 1)
              in (Some \<lfloor>left\<rfloor>, buckets(key \<mapsto> \<lparr>bk_tokens = left, bk_refill = now\<rparr>)))"

text \<open>The ticker forgets buckets that were not used for thirty minutes.\<close>

definition sweep :: "go_time \<Rightarrow> (string \<rightharpoonup> bucket) \<Rightarrow> (string \<rightharpoonup> bucket)" where
  "sweep now buckets =
     (\<lambda>k. case buckets k of
            None \<Rightarrow> None
          | Some b \<Rightarrow> if now - bk_refill b > 30 * 60 * 1000000000 then None else Some b)"

section \<open>The routes (router/router.go)\<close>

record route =
  rt_method :: string
  rt_path :: string
  rt_roles :: "string list option"

definition publicRouteSet :: "(string \<times> bool) list" where
  "publicRouteSet =
     [(''GET /v1/healthz'', True), (''HEAD /v1/healthz'', True), (''POST /v1/auth/login'', True),
      (''POST /v1/auth/refresh'', True)]"

definition writeRole :: "string list" where "writeRole = [''developer'', ''admin'']"

definition adminRole :: "string list" where "adminRole = [''admin'']"

definition routes :: "route list" where
  "routes =
    [
     \<lparr>rt_method = ''GET'', rt_path = ''/v1/healthz'', rt_roles = None\<rparr>,
     \<lparr>rt_method = ''HEAD'', rt_path = ''/v1/healthz'', rt_roles = None\<rparr>,
     \<lparr>rt_method = ''POST'', rt_path = ''/v1/auth/login'', rt_roles = None\<rparr>,
     \<lparr>rt_method = ''POST'', rt_path = ''/v1/auth/refresh'', rt_roles = None\<rparr>,
     \<lparr>rt_method = ''POST'', rt_path = ''/v1/auth/logout'', rt_roles = Some writeRole\<rparr>,
     \<lparr>rt_method = ''POST'', rt_path = ''/v1/projects'', rt_roles = Some writeRole\<rparr>,
     \<lparr>rt_method = ''PUT'', rt_path = ''/v1/projects/:id'', rt_roles = Some writeRole\<rparr>,
     \<lparr>rt_method = ''POST'', rt_path = ''/v1/projects/:id/decompose'', rt_roles = Some writeRole\<rparr>,
     \<lparr>rt_method = ''POST'', rt_path = ''/v1/agents'', rt_roles = Some writeRole\<rparr>,
     \<lparr>rt_method = ''PUT'', rt_path = ''/v1/agents/:id'', rt_roles = Some writeRole\<rparr>,
     \<lparr>rt_method = ''POST'', rt_path = ''/v1/projects/:id/tasks'', rt_roles = Some writeRole\<rparr>,
     \<lparr>rt_method = ''PUT'', rt_path = ''/v1/tasks/:id'', rt_roles = Some writeRole\<rparr>,
     \<lparr>rt_method = ''POST'', rt_path = ''/v1/tasks/:id/assign'', rt_roles = Some writeRole\<rparr>,
     \<lparr>rt_method = ''PATCH'', rt_path = ''/v1/tasks/:id/status'', rt_roles = Some writeRole\<rparr>,
     \<lparr>rt_method = ''POST'', rt_path = ''/v1/executions'', rt_roles = Some writeRole\<rparr>,
     \<lparr>rt_method = ''PATCH'', rt_path = ''/v1/executions/:id'', rt_roles = Some writeRole\<rparr>,
     \<lparr>rt_method = ''PATCH'', rt_path = ''/v1/executions/:id/review'', rt_roles = Some writeRole\<rparr>,
     \<lparr>rt_method = ''POST'', rt_path = ''/v1/deliverables'', rt_roles = Some writeRole\<rparr>,
     \<lparr>rt_method = ''PUT'', rt_path = ''/v1/deliverables/:id'', rt_roles = Some writeRole\<rparr>,
     \<lparr>rt_method = ''POST'', rt_path = ''/v1/code/generate'', rt_roles = Some writeRole\<rparr>,
     \<lparr>rt_method = ''POST'', rt_path = ''/v1/code/:projectId/commits'', rt_roles = Some writeRole\<rparr>,
     \<lparr>rt_method = ''POST'', rt_path = ''/v1/reviews'', rt_roles = Some writeRole\<rparr>,
     \<lparr>rt_method = ''POST'', rt_path = ''/v1/deployments'', rt_roles = Some writeRole\<rparr>,
     \<lparr>rt_method = ''POST'', rt_path = ''/v1/deployments/:id/rollback'', rt_roles = Some writeRole\<rparr>,
     \<lparr>rt_method = ''POST'', rt_path = ''/v1/webhooks'', rt_roles = Some adminRole\<rparr>,
     \<lparr>rt_method = ''DELETE'', rt_path = ''/v1/projects/:id'', rt_roles = Some adminRole\<rparr>,
     \<lparr>rt_method = ''DELETE'', rt_path = ''/v1/agents/:id'', rt_roles = Some adminRole\<rparr>,
     \<lparr>rt_method = ''DELETE'', rt_path = ''/v1/tasks/:id'', rt_roles = Some adminRole\<rparr>,
     \<lparr>rt_method = ''DELETE'', rt_path = ''/v1/executions/:id'', rt_roles = Some adminRole\<rparr>,
     \<lparr>rt_method = ''POST'', rt_path = ''/v1/users/register'', rt_roles = Some adminRole\<rparr>,
     \<lparr>rt_method = ''GET'', rt_path = ''/v1/projects'', rt_roles = None\<rparr>,
     \<lparr>rt_method = ''GET'', rt_path = ''/v1/projects/:id'', rt_roles = None\<rparr>,
     \<lparr>rt_method = ''GET'', rt_path = ''/v1/agents'', rt_roles = None\<rparr>,
     \<lparr>rt_method = ''GET'', rt_path = ''/v1/agents/:id'', rt_roles = None\<rparr>,
     \<lparr>rt_method = ''GET'', rt_path = ''/v1/agents/:id/capabilities'', rt_roles = None\<rparr>,
     \<lparr>rt_method = ''GET'', rt_path = ''/v1/capabilities'', rt_roles = None\<rparr>,
     \<lparr>rt_method = ''GET'', rt_path = ''/v1/projects/:id/tasks'', rt_roles = None\<rparr>,
     \<lparr>rt_method = ''GET'', rt_path = ''/v1/tasks/:id'', rt_roles = None\<rparr>,
     \<lparr>rt_method = ''GET'', rt_path = ''/v1/tasks/:id/history'', rt_roles = None\<rparr>,
     \<lparr>rt_method = ''GET'', rt_path = ''/v1/executions'', rt_roles = None\<rparr>,
     \<lparr>rt_method = ''GET'', rt_path = ''/v1/executions/:id'', rt_roles = None\<rparr>,
     \<lparr>rt_method = ''GET'', rt_path = ''/v1/deliverables'', rt_roles = None\<rparr>,
     \<lparr>rt_method = ''GET'', rt_path = ''/v1/deliverables/:id'', rt_roles = None\<rparr>,
     \<lparr>rt_method = ''GET'', rt_path = ''/v1/deliverables/:id/versions'', rt_roles = None\<rparr>,
     \<lparr>rt_method = ''GET'', rt_path = ''/v1/code/:projectId/files/*path'', rt_roles = None\<rparr>,
     \<lparr>rt_method = ''GET'', rt_path = ''/v1/reviews/:id'', rt_roles = None\<rparr>,
     \<lparr>rt_method = ''GET'', rt_path = ''/v1/deployments/:id'', rt_roles = None\<rparr>,
     \<lparr>rt_method = ''GET'', rt_path = ''/v1/users/me'', rt_roles = None\<rparr>]"

text \<open>The gates of a route one after the other, on what authentication and roles decide.\<close>

definition access ::
  "auth_lib \<Rightarrow> go_time \<Rightarrow> api_keys \<Rightarrow> http_request \<Rightarrow> route \<Rightarrow> mem_store \<Rightarrow> gate" where
  "access lib now keys rq rt m =
     (case Auth lib now keys (Some publicRouteSet) rq m of
        Abort st code msg \<Rightarrow> Abort st code msg
      | Next ident \<Rightarrow>
          (case rt_roles rt of None \<Rightarrow> Next ident | Some roles \<Rightarrow> RequireAnyRole roles ident))"

section \<open>Who gets through\<close>

text \<open>A bearer token that the authentication accepts, with the user and role it stands for.\<close>

definition authenticates ::
  "auth_lib \<Rightarrow> go_time \<Rightarrow> api_keys \<Rightarrow> mem_store \<Rightarrow> string \<Rightarrow> string \<times> string \<Rightarrow> bool" where
  "authenticates lib now keys m tok ident \<longleftrightarrow>
     (if has_prefix tok ''ak_''
      then tok \<noteq> ''ak_'' \<and>
        (\<exists>k. keys (normaliseHash (al_sha256 lib (trim_prefix tok ''ak_''))) = Some k \<and> ak_revoked k = None
           \<and> (\<forall>t. ak_expires k = Some t \<longrightarrow> now \<le> t) \<and> ident = (al_uuid_str lib (ak_user k), ak_role k))
      else \<exists>c. ValidateToken lib now tok m = Inr c \<and> ident = (cl_uid c, cl_role c))"

lemma isPublic_routes:
  assumes "path = '''' \<or> hd path = CHR ''/''"
  shows "\<not> isPublic path (Some publicRouteSet)"
  using assms by (cases path) (auto simp: isPublic_def publicRouteSet_def has_prefix_def)

lemma ValidateAPIKey_Inr:
  assumes "has_prefix tok ''ak_''"
  shows "ValidateAPIKey lib now tok keys = Inr w \<longleftrightarrow>
     tok \<noteq> ''ak_'' \<and>
     (\<exists>k. keys (normaliseHash (al_sha256 lib (trim_prefix tok ''ak_''))) = Some k \<and> ak_revoked k = None
        \<and> (\<forall>t. ak_expires k = Some t \<longrightarrow> now \<le> t) \<and> w = (ak_user k, ak_role k))"
proof -
  obtain body where tok: "tok = ''ak_'' @ body" using assms by (auto simp: has_prefix_iff)
  show ?thesis
    unfolding tok ValidateAPIKey_def Let_def trim_prefix_append APIKey_GetByHash_def
    by (cases "keys (normaliseHash (al_sha256 lib body))")
      (auto simp: not_less split: option.splits)
qed

lemma Auth_token:
  assumes "tok \<noteq> ''''" "rq_auth rq = ''Bearer '' @ tok" "\<not> isPublic (rq_path rq) ps"
  shows "Auth lib now keys ps rq m =
     (if has_prefix tok ''ak_''
      then (case ValidateAPIKey lib now tok keys of
              Inl e \<Rightarrow> Abort 401 (err_code e) (err_message e)
            | Inr (uid, role) \<Rightarrow> Next (Some (al_uuid_str lib uid, role)))
      else (case ValidateToken lib now tok m of
              Inl _ \<Rightarrow> Abort 401 ''UNAUTHORIZED'' ''Invalid or expired token''
            | Inr c \<Rightarrow> Next (Some (cl_uid c, cl_role c))))"
  unfolding Auth_def assms(2) Let_def trim_prefix_append using assms(1,3) by simp

lemma authenticates_key:
  "has_prefix tok ''ak_'' \<Longrightarrow> authenticates lib now keys m tok who \<longleftrightarrow>
     (\<exists>w. ValidateAPIKey lib now tok keys = Inr w \<and> who = (al_uuid_str lib (fst w), snd w))"
  by (auto simp: authenticates_def ValidateAPIKey_Inr)

lemma Auth_Next:
  assumes "rq_path rq = '''' \<or> hd (rq_path rq) = CHR ''/''"
  shows "Auth lib now keys (Some publicRouteSet) rq m = Next ident \<longleftrightarrow>
     (\<exists>tok who. tok \<noteq> '''' \<and> rq_auth rq = ''Bearer '' @ tok \<and> authenticates lib now keys m tok who
        \<and> ident = Some who)"
proof (cases "\<exists>tok. tok \<noteq> '''' \<and> rq_auth rq = ''Bearer '' @ tok")
  case True
  then obtain tok where tok: "tok \<noteq> ''''" "rq_auth rq = ''Bearer '' @ tok" by blast
  have "Auth lib now keys (Some publicRouteSet) rq m = Next ident \<longleftrightarrow>
      (\<exists>who. authenticates lib now keys m tok who \<and> ident = Some who)"
  proof (cases "has_prefix tok ''ak_''")
    case True
    then show ?thesis
      unfolding Auth_token [OF tok isPublic_routes [OF assms]] authenticates_key [OF True]
      by (auto split: sum.splits)
  next
    case False
    then show ?thesis
      unfolding Auth_token [OF tok isPublic_routes [OF assms]] authenticates_def
      by (auto split: sum.splits)
  qed
  with tok show ?thesis by auto
next
  case False
  have "\<not> (has_prefix (rq_auth rq) ''Bearer '' \<and> trim_prefix (rq_auth rq) ''Bearer '' \<noteq> '''')"
    using False by (auto simp: has_prefix_iff trim_prefix_def)
  with False isPublic_routes [OF assms] show ?thesis by (auto simp: Auth_def Let_def)
qed

text \<open>
  C17: the gates decide as the role matrix does, with one list of exceptions that is empty. For
  every path a client can send, a request passes the gates of a route exactly if it carries a
  bearer token that is a stored, unrevoked and unexpired API key or a valid token of a known user,
  whose role the route admits. The set of public routes has no effect, since its keys start with
  a method and the gate looks up paths: the login and health routes ask for a token too.
\<close>

theorem access_matrix:
  assumes "rq_path rq = '''' \<or> hd (rq_path rq) = CHR ''/''"
  shows "access lib now keys rq rt m = Next ident \<longleftrightarrow>
     (\<exists>tok uid role. tok \<noteq> '''' \<and> rq_auth rq = ''Bearer '' @ tok
        \<and> authenticates lib now keys m tok (uid, role) \<and> ident = Some (uid, role)
        \<and> (case rt_roles rt of None \<Rightarrow> True | Some roles \<Rightarrow> role \<in> set roles))"
proof -
  have "access lib now keys rq rt m = Next ident \<longleftrightarrow>
      Auth lib now keys (Some publicRouteSet) rq m = Next ident
      \<and> (case rt_roles rt of None \<Rightarrow> True
         | Some roles \<Rightarrow> (case ident of None \<Rightarrow> False | Some (uid, role) \<Rightarrow> role \<in> set roles))"
    by (auto simp: access_def RequireAnyRole_def forbidden_gate_def list_ex_iff
        split: gate.splits option.splits if_splits)
  then show ?thesis unfolding Auth_Next [OF assms]
    by (cases "rt_roles rt") (auto split: prod.splits)
qed

section \<open>Runs of the server\<close>

lemma foldl_upd_all:
  assumes "\<And>h k. keys h = Some k \<Longrightarrow> P k" "\<And>e. e \<in> set xs \<Longrightarrow> P (g e)"
    and "foldl (\<lambda>m e. m(f e \<mapsto> g e)) keys xs h = Some k"
  shows "P k"
  using assms
proof (induction xs arbitrary: keys)
  case Nil
  then show ?case by simp
next
  case (Cons e xs)
  show ?case
  proof (rule Cons.IH)
    fix h k assume "(keys(f e \<mapsto> g e)) h = Some k"
    then show "P k" using Cons.prems(1) Cons.prems(2) [of e] by (cases "h = f e") auto
  next
    fix x assume "x \<in> set xs" then show "P (g x)" using Cons.prems(2) by simp
  next
    show "foldl (\<lambda>m e. m(f e \<mapsto> g e)) (keys(f e \<mapsto> g e)) xs h = Some k"
      using Cons.prems(3) unfolding foldl_Cons .
  qed
qed

lemma NewMemoryAPIKeyStore_roles:
  assumes "NewMemoryAPIKeyStore seed h = Some k" "\<And>e. e \<in> set seed \<Longrightarrow> ak_role e = r"
  shows "ak_role k = r"
  using assms(1) unfolding NewMemoryAPIKeyStore_def
  by (rule foldl_upd_all [where P = "\<lambda>k. ak_role k = r", rotated 2]) (simp_all add: assms(2))

lemma seed_entry_role: "e \<in> set (seed_entry lib now s) \<Longrightarrow> ak_role e = ''api''"
  by (auto simp: seed_entry_def Let_def split: if_splits option.splits)

lemma buildAPIKeyStore_role:
  assumes "buildAPIKeyStore lib now env h = Some k"
  shows "ak_role k = ''api''"
proof (rule NewMemoryAPIKeyStore_roles)
  let ?raw = "if env = '''' then dev_fallback else env"
  show "NewMemoryAPIKeyStore (concat (map (seed_entry lib now) (split_on (CHR '';'') ?raw []))) h = Some k"
    using assms unfolding buildAPIKeyStore_def Let_def .
  fix e assume "e \<in> set (concat (map (seed_entry lib now) (split_on (CHR '';'') ?raw [])))"
  then show "ak_role e = ''api''" using seed_entry_role by (auto simp del: split_on.simps)
qed

text \<open>
  A run of the server on one store: any request that passes the gates of its route, and what the
  handlers behind them do to the table of users. Only the registration adds to it.
\<close>

definition client_path :: "http_request \<Rightarrow> bool" where
  "client_path rq \<longleftrightarrow> rq_path rq = '''' \<or> hd (rq_path rq) = CHR ''/''"

definition is_register :: "route \<Rightarrow> bool" where
  "is_register rt \<longleftrightarrow> rt_method rt = ''POST'' \<and> rt_path rt = ''/v1/users/register''"

inductive http_run :: "auth_lib \<Rightarrow> api_keys \<Rightarrow> mem_store \<Rightarrow> mem_store \<Rightarrow> bool" for lib keys m0 where
  start: "http_run lib keys m0 m0"
| register: "http_run lib keys m0 m \<Longrightarrow> rt \<in> set routes \<Longrightarrow> client_path rq
    \<Longrightarrow> access lib now keys rq rt m = Next ident \<Longrightarrow> is_register rt
    \<Longrightarrow> http_run lib keys m0 (snd (Register lib now k req m))"
| other: "http_run lib keys m0 m \<Longrightarrow> rt \<in> set routes \<Longrightarrow> client_path rq
    \<Longrightarrow> access lib now keys rq rt m = Next ident \<Longrightarrow> \<not> is_register rt
    \<Longrightarrow> ms_users m' = ms_users m \<Longrightarrow> http_run lib keys m0 m'"

definition guarded :: "route \<Rightarrow> bool" where
  "guarded rt \<longleftrightarrow> rt_roles rt = Some writeRole \<or> rt_roles rt = Some adminRole"

lemma routes_all: "list_all (\<lambda>rt. (rt_roles rt \<noteq> None \<longrightarrow> guarded rt)
    \<and> (is_register rt \<longrightarrow> rt_roles rt = Some adminRole)) routes"
  by code_simp

lemma routes_guarded: "rt \<in> set routes \<Longrightarrow> rt_roles rt \<noteq> None \<Longrightarrow> guarded rt"
  "rt \<in> set routes \<Longrightarrow> is_register rt \<Longrightarrow> rt_roles rt = Some adminRole"
  using routes_all by (auto simp: list_all_iff)

lemma guarded_refused:
  assumes "guarded rt" "client_path rq"
    and "\<And>tok who. authenticates lib now keys m tok who \<Longrightarrow> snd who \<notin> {''developer'', ''admin''}"
  shows "\<exists>st code msg. access lib now keys rq rt m = Abort st code msg"
proof (cases "access lib now keys rq rt m")
  case (Next ident)
  then obtain tok uid role where "authenticates lib now keys m tok (uid, role)"
    "case rt_roles rt of None \<Rightarrow> True | Some roles \<Rightarrow> role \<in> set roles"
    using access_matrix [of rq lib now keys rt m ident] assms(2) by (auto simp: client_path_def)
  with assms(1) assms(3) [of tok "(uid, role)"] show ?thesis
    by (auto simp: guarded_def writeRole_def adminRole_def)
qed simp

lemma no_users_no_writer:
  assumes "keys = buildAPIKeyStore lib t env" "ms_users m = Map.empty"
    and "authenticates lib now keys m tok who"
  shows "snd who = ''api''"
  using assms
  by (auto simp: authenticates_def ValidateToken_def User_GetByID_def buildAPIKeyStore_role
      split: if_splits option.splits)

text \<open>
  C18: a freshly started server never lets anyone write. API keys carry the role api, users can
  only be registered by an administrator, and the writing routes admit the roles developer and
  admin only. So in every run from a store without users the table of users stays empty and every
  request on a route with a role gate is turned away.
\<close>

theorem nobody_can_write:
  assumes keys: "keys = buildAPIKeyStore lib t env" and run: "http_run lib keys m0 m"
    and "ms_users m0 = Map.empty"
  shows "ms_users m = Map.empty \<and>
     (\<forall>rt rq now. rt \<in> set routes \<and> rt_roles rt \<noteq> None \<and> client_path rq \<longrightarrow>
        (\<exists>st code msg. access lib now keys rq rt m = Abort st code msg))"
proof -
  have refused: "\<exists>st code msg. access lib now keys rq rt m = Abort st code msg"
    if "ms_users m = Map.empty" "rt \<in> set routes" "rt_roles rt \<noteq> None" "client_path rq" for m rt rq now
    using guarded_refused [OF routes_guarded(1) [OF that(2,3)] that(4)]
      no_users_no_writer [OF keys that(1)] by fastforce
  from run assms(3) have "ms_users m = Map.empty"
  proof (induction rule: http_run.induct)
    case (register m rt rq now ident k req)
    with refused [of m rt rq now] routes_guarded(2) [of rt] show ?case by auto
  qed simp_all
  with refused show ?thesis by blast
qed

section \<open>Bounds of the rate limit\<close>

text \<open>
  What is used of the machine's rounding: it is monotone, and exact on the whole numbers a double
  holds.
\<close>

definition rounding :: "(rat \<Rightarrow> rat) \<Rightarrow> bool" where
  "rounding rnd \<longleftrightarrow> (\<forall>x y. x \<le> y \<longrightarrow> rnd x \<le> rnd y) \<and> (\<forall>i. \<bar>i\<bar> \<le> 2 ^ 53 \<longrightarrow> rnd (of_int i) = of_int i)"

definition sane_rate :: "rate_config \<Rightarrow> bool" where
  "sane_rate cfg \<longleftrightarrow> 0 \<le> rl_rpm cfg \<and> 1 \<le> rl_rpm cfg + rl_burst cfg \<and> rl_rpm cfg \<le> 2 ^ 53
     \<and> rl_rpm cfg + rl_burst cfg \<le> 2 ^ 53"

definition buckets_ok :: "(rat \<Rightarrow> rat) \<Rightarrow> rate_config \<Rightarrow> (string \<rightharpoonup> bucket) \<Rightarrow> bool" where
  "buckets_ok rnd cfg bs \<longleftrightarrow>
     (\<forall>k b. bs k = Some b \<longrightarrow> 0 \<le> bk_tokens b \<and> bk_tokens b \<le> max_tokens rnd cfg)"

lemma rounding_mono: "rounding rnd \<Longrightarrow> x \<le> y \<Longrightarrow> rnd x \<le> rnd y"
  by (simp add: rounding_def)

lemma rounding_int: "rounding rnd \<Longrightarrow> \<bar>i\<bar> \<le> 2 ^ 53 \<Longrightarrow> rnd (of_int i) = of_int i"
  by (simp add: rounding_def)

lemma rounding_0 [simp]: "rounding rnd \<Longrightarrow> rnd 0 = 0"
  using rounding_int [of rnd 0] by simp

lemma rounding_nonneg: "rounding rnd \<Longrightarrow> 0 \<le> x \<Longrightarrow> 0 \<le> rnd x"
  using rounding_mono [of rnd 0 x] by simp

lemma max_tokens_eq: "rounding rnd \<Longrightarrow> sane_rate cfg \<Longrightarrow> max_tokens rnd cfg = of_int (rl_rpm cfg + rl_burst cfg)"
  unfolding max_tokens_def by (rule rounding_int) (auto simp: sane_rate_def)

lemma refill_nonneg:
  assumes "rounding rnd" "sane_rate cfg" "0 \<le> d"
  shows "0 \<le> rnd (Seconds rnd d * refill_rate rnd cfg)"
proof -
  have "0 \<le> d sdiv 1000000000" "0 \<le> d smod 1000000000"
    using assms(3) by (simp_all add: signed_divide_int_def signed_modulo_int_def sgn_if)
  then have "0 \<le> Seconds rnd d"
    unfolding Seconds_def by (intro rounding_nonneg [OF assms(1)] add_nonneg_nonneg divide_nonneg_nonneg) simp_all
  moreover have "0 \<le> refill_rate rnd cfg"
    unfolding refill_rate_def using assms(2)
    by (intro rounding_nonneg [OF assms(1)] divide_nonneg_nonneg) (simp_all add: sane_rate_def)
  ultimately show ?thesis by (intro rounding_nonneg [OF assms(1)]) simp
qed

lemma RateLimit_keeps:
  assumes r: "rounding rnd" and s: "sane_rate cfg" and ok: "buckets_ok rnd cfg bs"
    and clock: "\<forall>b. bs key = Some b \<longrightarrow> bk_refill b \<le> now"
  shows "buckets_ok rnd cfg (snd (RateLimit rnd cfg now key bs))"
proof -
  let ?M = "of_int (rl_rpm cfg + rl_burst cfg) :: rat"
  note M = max_tokens_eq [OF r s]
  have M1: "1 \<le> ?M" using s by (simp add: sane_rate_def)
  let ?b = "case bs key of None \<Rightarrow> \<lparr>bk_tokens = max_tokens rnd cfg, bk_refill = now\<rparr> | Some b \<Rightarrow> b"
  have b: "0 \<le> bk_tokens ?b" "bk_refill ?b \<le> now"
    using ok clock M M1 by (auto simp: buckets_ok_def split: option.split)
  let ?t = "float_min (max_tokens rnd cfg)
      (rnd (bk_tokens ?b + rnd (Seconds rnd (now - bk_refill ?b) * refill_rate rnd cfg)))"
  have "0 \<le> rnd (Seconds rnd (now - bk_refill ?b) * refill_rate rnd cfg)"
    using b(2) by (intro refill_nonneg [OF r s]) simp
  with b(1) have "0 \<le> rnd (bk_tokens ?b + rnd (Seconds rnd (now - bk_refill ?b) * refill_rate rnd cfg))"
    by (intro rounding_nonneg [OF r]) simp
  with M M1 have t: "0 \<le> ?t" "?t \<le> ?M" by (simp_all add: float_min_def)
  have left: "0 \<le> rnd (?t - 1)" "rnd (?t - 1) \<le> ?M" if "\<not> ?t < 1"
  proof -
    show "0 \<le> rnd (?t - 1)" using that by (intro rounding_nonneg [OF r]) simp
    have "rnd (?t - 1) \<le> rnd ?M" using t(2) by (intro rounding_mono [OF r]) linarith
    also have "\<dots> = ?M" using M by (simp add: max_tokens_def)
    finally show "rnd (?t - 1) \<le> ?M" .
  qed
  show ?thesis
  proof (cases "?t < 1")
    case True
    then have "snd (RateLimit rnd cfg now key bs) = bs(key \<mapsto> \<lparr>bk_tokens = ?t, bk_refill = now\<rparr>)"
      unfolding RateLimit_def Let_def by simp
    with ok t M show ?thesis by (simp add: buckets_ok_def)
  next
    case False
    then have "snd (RateLimit rnd cfg now key bs) = bs(key \<mapsto> \<lparr>bk_tokens = rnd (?t - 1), bk_refill = now\<rparr>)"
      unfolding RateLimit_def Let_def by simp
    with ok left [OF False] M show ?thesis by (simp add: buckets_ok_def)
  qed
qed

text \<open>The answers to n requests of one key at one instant.\<close>

primrec burst ::
  "(rat \<Rightarrow> rat) \<Rightarrow> rate_config \<Rightarrow> go_time \<Rightarrow> string \<Rightarrow> nat \<Rightarrow> (string \<rightharpoonup> bucket) \<Rightarrow> int option list" where
  "burst rnd cfg now key 0 bs = []"
| "burst rnd cfg now key (Suc n) bs =
     (let (r, bs') = RateLimit rnd cfg now key bs in r # burst rnd cfg now key n bs')"

lemma RateLimit_whole:
  assumes r: "rounding rnd" and s: "sane_rate cfg" and t: "0 \<le> t" "t \<le> rl_rpm cfg + rl_burst cfg"
    and b: "bs key = Some \<lparr>bk_tokens = of_int t, bk_refill = now\<rparr>
            \<or> bs key = None \<and> t = rl_rpm cfg + rl_burst cfg"
  shows "RateLimit rnd cfg now key bs =
     (if t = 0 then (None, bs(key \<mapsto> \<lparr>bk_tokens = 0, bk_refill = now\<rparr>))
      else (Some (t - 1), bs(key \<mapsto> \<lparr>bk_tokens = of_int (t - 1), bk_refill = now\<rparr>)))"
proof -
  note M = max_tokens_eq [OF r s]
  have top: "rl_rpm cfg + rl_burst cfg \<le> 2 ^ 53" using s by (simp add: sane_rate_def)
  have whole: "rnd (of_int t) = of_int t" by (rule rounding_int [OF r]) (use t top in simp)
  have less: "rnd (of_int (t - 1)) = of_int (t - 1)" if "t \<noteq> 0"
    by (rule rounding_int [OF r]) (use that t top in simp)
  have zero: "Seconds rnd 0 = 0" by (simp add: Seconds_def r signed_divide_int_def signed_modulo_int_def)
  have b': "(case bs key of None \<Rightarrow> \<lparr>bk_tokens = max_tokens rnd cfg, bk_refill = now\<rparr> | Some b \<Rightarrow> b)
      = \<lparr>bk_tokens = of_int t, bk_refill = now\<rparr>"
    using b M by auto
  have m: "float_min (max_tokens rnd cfg) (of_int t) = of_int t"
    using t(2) by (simp add: M float_min_def del: of_int_add)
  have one: "of_int t - 1 = (of_int (t - 1) :: rat)" by simp
  have "t = 0 \<longleftrightarrow> of_int t < (1 :: rat)" using t(1) by auto
  with whole less m show ?thesis
    unfolding RateLimit_def Let_def b' by (auto simp: zero r one simp del: of_int_diff)
qed

lemma burst_whole:
  assumes "rounding rnd" "sane_rate cfg" "0 \<le> t" "t \<le> rl_rpm cfg + rl_burst cfg"
    and "bs key = Some \<lparr>bk_tokens = of_int t, bk_refill = now\<rparr>
            \<or> bs key = None \<and> t = rl_rpm cfg + rl_burst cfg"
  shows "burst rnd cfg now key n bs
     = map (\<lambda>i. if int i < t then Some (t - 1 - int i) else None) [0..<n]"
  using assms(3-5)
proof (induction n arbitrary: t bs)
  case 0
  then show ?case by simp
next
  case (Suc n)
  note step = RateLimit_whole [where bs = bs and key = key and now = now, OF assms(1,2) Suc.prems]
  have shift: "map f [0..<Suc n] = f 0 # map (\<lambda>i. f (Suc i)) [0..<n]" for f :: "nat \<Rightarrow> int option"
    unfolding upt_conv_Cons [OF zero_less_Suc] map_Suc_upt [symmetric] by simp
  show ?case
  proof (cases "t = 0")
    case True
    have "burst rnd cfg now key n (bs(key \<mapsto> \<lparr>bk_tokens = 0, bk_refill = now\<rparr>))
        = map (\<lambda>i. if int i < 0 then Some (0 - 1 - int i) else None) [0..<n]"
      by (rule Suc.IH) (use Suc.prems True in simp_all)
    with True step show ?thesis unfolding shift burst.simps by simp
  next
    case False
    have ih: "burst rnd cfg now key n (bs(key \<mapsto> \<lparr>bk_tokens = of_int (t - 1), bk_refill = now\<rparr>))
        = map (\<lambda>i. if int i < t - 1 then Some (t - 1 - 1 - int i) else None) [0..<n]"
      by (rule Suc.IH) (use Suc.prems False in simp_all)
    have "t > 0" using False Suc.prems(1) by simp
    then show ?thesis
      unfolding shift burst.simps step if_not_P [OF False] Let_def prod.case ih by auto
  qed
qed

text \<open>
  C32: the rate limit. Every bucket stays between empty and the sum of the rate and the burst, and
  of the requests a new client sends at one instant exactly that many are let through, the answer
  counting down what is left.
\<close>

theorem rate_limit_bounds:
  assumes "rounding rnd" "sane_rate cfg" "buckets_ok rnd cfg bs"
    and "\<forall>b. bs key = Some b \<longrightarrow> bk_refill b \<le> now"
  shows "buckets_ok rnd cfg (snd (RateLimit rnd cfg now key bs))
     \<and> (bs key = None \<longrightarrow> burst rnd cfg now key n bs
          = map (\<lambda>i. if int i < rl_rpm cfg + rl_burst cfg
                     then Some (rl_rpm cfg + rl_burst cfg - 1 - int i) else None) [0..<n])"
  using RateLimit_keeps [OF assms]
    burst_whole [OF assms(1,2), of "rl_rpm cfg + rl_burst cfg" bs key now n] assms(2)
  by (auto simp: sane_rate_def)

section \<open>Witnesses\<close>

definition sample_key :: api_key where
  "sample_key = \<lparr>ak_hash = ''0'', ak_user = 0, ak_role = ''admin'', ak_name = '''', ak_created = 0,
     ak_expires = Some 9, ak_revoked = None, ak_last_used = None\<rparr>"

theorem access_matrix_witness:
  "access (sample_lib '''') 9 [''0'' \<mapsto> sample_key]
     \<lparr>rq_method = ''POST'', rq_path = ''/v1/webhooks'', rq_auth = ''Bearer ak_k''\<rparr>
     \<lparr>rt_method = ''POST'', rt_path = ''/v1/webhooks'', rt_roles = Some adminRole\<rparr> NewMemoryStore
     = Next (Some ('''', ''admin''))"
proof -
  have p: "rq_path \<lparr>rq_method = ''POST'', rq_path = ''/v1/webhooks'', rq_auth = ''Bearer ak_k''\<rparr> = ''''
      \<or> hd (rq_path \<lparr>rq_method = ''POST'', rq_path = ''/v1/webhooks'', rq_auth = ''Bearer ak_k''\<rparr>) = CHR ''/''"
    by simp
  have uid: "al_uuid_str (sample_lib '''') 0 = ''''" by (simp add: sample_lib_def)
  have "authenticates (sample_lib '''') 9 [''0'' \<mapsto> sample_key] NewMemoryStore ''ak_k'' ('''', ''admin'')"
    using uid by (auto simp: authenticates_def normaliseHash_def sample_key_def trim_prefix_def)
  then show ?thesis by (subst access_matrix [OF p]) (simp add: adminRole_def)
qed

theorem nobody_can_write_witness:
  "\<exists>st code msg. access (sample_lib '''') 0 (buildAPIKeyStore (sample_lib '''') 0 '''')
     \<lparr>rq_method = ''POST'', rq_path = ''/v1/projects'',
        rq_auth = ''Bearer ak_dev_local_only_change_in_production_2026_06_12''\<rparr>
     \<lparr>rt_method = ''POST'', rt_path = ''/v1/projects'', rt_roles = Some writeRole\<rparr> NewMemoryStore
     = Abort st code msg"
proof -
  have "\<lparr>rt_method = ''POST'', rt_path = ''/v1/projects'', rt_roles = Some writeRole\<rparr> \<in> set routes"
    by (simp add: routes_def)
  moreover have "ms_users NewMemoryStore = Map.empty" by (simp add: NewMemoryStore_def)
  ultimately show ?thesis
    using nobody_can_write [OF refl http_run.start, where lib = "sample_lib ''''" and t = 0 and env = "''''" and m0 = NewMemoryStore]
    by (simp add: client_path_def)
qed

theorem rate_limit_bounds_witness:
  "burst (\<lambda>x. x) \<lparr>rl_rpm = 1, rl_burst = 1\<rparr> 0 ''k'' 3 Map.empty = [Some 1, Some 0, None]"
proof -
  have "rounding (\<lambda>x. x)" "sane_rate \<lparr>rl_rpm = 1, rl_burst = 1\<rparr>"
    "buckets_ok (\<lambda>x. x) \<lparr>rl_rpm = 1, rl_burst = 1\<rparr> Map.empty"
    by (simp_all add: rounding_def sane_rate_def buckets_ok_def)
  from rate_limit_bounds [OF this, where key = "''k''" and now = 0 and n = 3] show ?thesis by (simp add: upt_rec)
qed

end
