(* ===== verification/Code_Api.thy ===== *)
theory Code_Api
  imports Platform_Services Http_Access
begin

text \<open>
  The code handlers (src/src/internal/handler/code.go) behind the authentication gate. A gin
  context has keys of its own, which the gate writes, and the context of the request it wraps,
  which net/http makes and the handlers pass on. A handler answers a status; None is a panic.
\<close>

record gin_ctx =
  gc_keys :: "string \<rightharpoonup> string"
  gc_request :: req_ctx

text \<open>What the authentication gate sets for a request it lets through.\<close>

definition auth_stamp :: "(string \<times> string) option \<Rightarrow> gin_ctx \<Rightarrow> gin_ctx" where
  "auth_stamp ident gc =
     (case ident of
        None \<Rightarrow> gc
      | Some (uid, role) \<Rightarrow> gc\<lparr>gc_keys := (gc_keys gc)(''user_id'' \<mapsto> uid, ''role'' \<mapsto> role)\<rparr>)"

text \<open>The status of an answer: that of the service's error, or the handler's own.\<close>

definition answer :: "int \<Rightarrow> service_error + 'a \<Rightarrow> int" where
  "answer ok r = (case r of Inl e \<Rightarrow> err_status e | Inr _ \<Rightarrow> ok)"

text \<open>A body is None when it is not well-formed.\<close>

definition Code_Generate_handler ::
  "auth_lib \<Rightarrow> gin_ctx \<Rightarrow> go_time \<Rightarrow> uuid \<Rightarrow> generate_code_request option \<Rightarrow> mem_store
   \<Rightarrow> (int \<times> mem_store) option" where
  "Code_Generate_handler lib gc now k body m =
     (case body of
        None \<Rightarrow> Some (400, m)
      | Some req \<Rightarrow>
          map_option (\<lambda>(r, m1). (answer 202 r, m1)) (GenerateCode lib (gc_request gc) now k req m))"

definition Code_GetFile_handler ::
  "auth_lib \<Rightarrow> gin_ctx \<Rightarrow> string \<Rightarrow> string \<Rightarrow> mem_store \<Rightarrow> int" where
  "Code_GetFile_handler lib gc projectID filePath m =
     (if projectID = '''' \<or> filePath = '''' then 400
      else answer 200 (Code_GetFile lib (gc_request gc) projectID filePath m))"

definition Code_CreateCommit_handler ::
  "(string \<Rightarrow> string) \<Rightarrow> auth_lib \<Rightarrow> gin_ctx \<Rightarrow> go_time \<Rightarrow> uuid \<Rightarrow> string
   \<Rightarrow> (string \<times> string \<times> commit_file list) option \<Rightarrow> mem_store \<Rightarrow> (int \<times> mem_store) option" where
  "Code_CreateCommit_handler to_lower lib gc now k projectID body m =
     (if projectID = '''' then Some (400, m)
      else case body of
        None \<Rightarrow> Some (400, m)
      | Some (branch, message, files) \<Rightarrow>
          map_option (\<lambda>(r, m1). (answer 201 r, m1))
            (Code_CreateCommit to_lower lib (gc_request gc) now k
               \<lparr>ccr_project = projectID, ccr_branch = branch, ccr_message = message, ccr_files = files\<rparr> m))"

text \<open>
  C33: the code endpoints refuse everyone. The gate puts the user into the gin context, the
  handlers hand the context of the request to the service, and the service looks for the user
  there. As that context carries no user, every well-formed request to generate code, read a file
  or commit gets the status 404 whoever sends it, and nothing is written.
\<close>

theorem code_api_refuses:
  assumes "gc_request gc ''user_id'' = None" and "gc' = auth_stamp ident gc" and "projectID \<noteq> ''''" "path \<noteq> ''''"
  shows "Code_Generate_handler lib gc' now k (Some req) m = Some (404, m)
     \<and> Code_GetFile_handler lib gc' projectID path m = 404
     \<and> Code_CreateCommit_handler to_lower lib gc' now k projectID (Some body) m = Some (404, m)"
proof -
  have "gc_request gc' = gc_request gc"
    by (auto simp: assms(2) auth_stamp_def split: option.split)
  moreover have "\<not> checkProjectAccess lib (gc_request gc) p m" for p
    by (simp add: checkProjectAccess_def assms(1))
  ultimately show ?thesis using assms(3,4)
    by (cases body) (simp add: Code_Generate_handler_def Code_GetFile_handler_def Code_CreateCommit_handler_def
        GenerateCode_def Code_GetFile_def Code_CreateCommit_def answer_def notFound_def)
qed

text \<open>An administrator with a request for a project of the store.\<close>

definition sample_admins :: mem_store where
  "sample_admins = NewMemoryStore\<lparr>ms_users := [0 \<mapsto> sample_user\<lparr>u_id := 0, u_role := RoleAdmin\<rparr>],
     ms_files := [(0, ''a'') \<mapsto> \<lparr>pf_project = 0, pf_path = ''a'', pf_content = '''', pf_language = '''', pf_size = 0,
       pf_modified = 0, pf_modified_by = ''''\<rparr>]\<rparr>"

theorem code_api_refuses_witness:
  "CheckProjectAccess (\<lambda>_. '''') 0 0 sample_admins \<and> \<not> isl (GetFile 0 ''a'' sample_admins)
     \<and> Code_GetFile_handler (sample_lib '''')
         (auth_stamp (Some ('''', ''admin'')) \<lparr>gc_keys = Map.empty, gc_request = \<lambda>_. None\<rparr>) ''x'' ''a''
         sample_admins = 404"
proof -
  have "gc_request \<lparr>gc_keys = Map.empty, gc_request = \<lambda>_. None\<rparr> ''user_id'' = None" by simp
  from code_api_refuses [OF this refl, of "''x''" "''a''"]
  show ?thesis by (simp add: sample_admins_def CheckProjectAccess_def GetFile_def)
qed

end
