(* ===== verification/Go_Text.thy ===== *)
theory Go_Text
  imports Errors
begin

text \<open>
  Functions of Go's strings and strconv packages that several components read their input with:
  the decimal reader and a comparison up to case.
\<close>

definition is_digit :: "char \<Rightarrow> bool" where
  "is_digit c \<longleftrightarrow> (let n = of_char c :: nat in 48 \<le> n \<and> n \<le> 57)"

datatype atoi_error = ErrSyntax | ErrRange

text \<open>
  The reader of unsigned numbers of 64 bits. It gives up with the greatest number as soon as the
  digits read so far exceed it, whatever follows.
\<close>

fun ParseUint :: "string \<Rightarrow> int \<Rightarrow> int \<times> atoi_error option" where
  "ParseUint [] n = (n, None)"
| "ParseUint (c # cs) n =
     (if \<not> is_digit c then (0, Some ErrSyntax)
      else let n1 = 10 * n + digit_value c
           in if 2 ^ 64 \<le> n1 then (2 ^ 64 - 1, Some ErrRange) else ParseUint cs n1)"

text \<open>strconv.Atoi: the number and the error; with a range error the number is the nearest one.\<close>

definition Atoi :: "string \<Rightarrow> int \<times> atoi_error option" where
  "Atoi s =
     (let neg = (s \<noteq> [] \<and> hd s = CHR ''-'');
          ds = (if s \<noteq> [] \<and> (hd s = CHR ''-'' \<or> hd s = CHR ''+'') then tl s else s)
      in if ds = [] then (0, Some ErrSyntax)
         else case ParseUint ds 0 of
                (_, Some ErrSyntax) \<Rightarrow> (0, Some ErrSyntax)
              | (un, _) \<Rightarrow>
                  if \<not> neg \<and> 2 ^ 63 \<le> un then (2 ^ 63 - 1, Some ErrRange)
                  else if neg \<and> 2 ^ 63 < un then (- (2 ^ 63), Some ErrRange)
                  else (if neg then - un else un, None))"

text \<open>strings.EqualFold with a text of ASCII letters, none of which has a fold outside ASCII.\<close>

definition ascii_lower :: "char \<Rightarrow> char" where
  "ascii_lower c = (let n = of_char c :: nat in if 65 \<le> n \<and> n \<le> 90 then char_of (n + 32) else c)"

definition equal_fold :: "string \<Rightarrow> string \<Rightarrow> bool" where
  "equal_fold s t \<longleftrightarrow> map ascii_lower s = t"

lemma digit_value_nonneg: "is_digit c \<Longrightarrow> 0 \<le> digit_value c"
  by (simp add: is_digit_def digit_value_def Let_def)

lemma read_digits_ge:
  assumes "list_all is_digit s" "0 \<le> n"
  shows "n \<le> foldl (\<lambda>acc c. 10 * acc + digit_value c) n s"
  using assms
proof (induction s arbitrary: n)
  case (Cons c cs)
  have d: "0 \<le> digit_value c" using Cons.prems(1) digit_value_nonneg by simp
  then have "n \<le> 10 * n + digit_value c" using Cons.prems(2) by simp
  with Cons.IH [of "10 * n + digit_value c"] Cons.prems d show ?case by simp
qed simp

lemma ParseUint_digits:
  assumes "list_all is_digit s" "0 \<le> n"
    and "foldl (\<lambda>acc c. 10 * acc + digit_value c) n s < 2 ^ 64"
  shows "ParseUint s n = (foldl (\<lambda>acc c. 10 * acc + digit_value c) n s, None)"
  using assms
proof (induction s arbitrary: n)
  case (Cons c cs)
  let ?n = "10 * n + digit_value c"
  have d: "0 \<le> ?n" "list_all is_digit cs" using Cons.prems digit_value_nonneg [of c] by simp_all
  moreover have "?n < 2 ^ 64" using read_digits_ge [OF d(2,1)] Cons.prems(3) by simp
  ultimately show ?case using Cons by (simp add: Let_def)
qed simp

lemma digit_no_sign: "is_digit c \<Longrightarrow> c \<noteq> CHR ''-'' \<and> c \<noteq> CHR ''+''"
  by (auto simp: is_digit_def)

text \<open>Digits are read as the number they stand for, when it has 63 bits.\<close>

lemma Atoi_digits:
  assumes "s \<noteq> []" "list_all is_digit s" "read_digits s < 2 ^ 63"
  shows "Atoi s = (read_digits s, None)"
proof -
  have "is_digit (hd s)" using assms(1,2) by (cases s) auto
  then have "hd s \<noteq> CHR ''-''" "hd s \<noteq> CHR ''+''" using digit_no_sign by blast+
  moreover have "ParseUint s 0 = (read_digits s, None)"
    using ParseUint_digits [OF assms(2), of 0] assms(3) by (simp add: read_digits_def)
  ultimately show ?thesis using assms by (simp add: Atoi_def Let_def)
qed

lemma ParseUint_large:
  assumes "list_all is_digit s" "0 \<le> n" "n < 2 ^ 64"
    and "2 ^ 64 \<le> foldl (\<lambda>acc c. 10 * acc + digit_value c) n s"
  shows "ParseUint s n = (2 ^ 64 - 1, Some ErrRange)"
  using assms
proof (induction s arbitrary: n)
  case (Cons c cs)
  have "0 \<le> 10 * n + digit_value c" using Cons.prems digit_value_nonneg [of c] by simp
  with Cons show ?case by (simp add: Let_def)
qed simp

text \<open>A text of digits is read as its number, or as the greatest one of 63 bits.\<close>

lemma Atoi_clamped:
  assumes "s \<noteq> []" "list_all is_digit s"
  shows "fst (Atoi s) = min (read_digits s) (2 ^ 63 - 1)"
proof -
  have sign: "hd s \<noteq> CHR ''-'' \<and> hd s \<noteq> CHR ''+''"
    using assms digit_no_sign by (cases s) auto
  consider "read_digits s < 2 ^ 63" | "2 ^ 63 \<le> read_digits s" "read_digits s < 2 ^ 64" | "2 ^ 64 \<le> read_digits s"
    by linarith
  then show ?thesis
  proof cases
    case 1
    then show ?thesis using Atoi_digits [OF assms] by simp
  next
    case 2
    then have "ParseUint s 0 = (read_digits s, None)"
      using ParseUint_digits [OF assms(2), of 0] by (simp add: read_digits_def)
    with 2 sign assms(1) show ?thesis by (simp add: Atoi_def Let_def)
  next
    case 3
    then have "ParseUint s 0 = (2 ^ 64 - 1, Some ErrRange)"
      using ParseUint_large [OF assms(2), of 0] by (simp add: read_digits_def)
    with 3 sign assms(1) show ?thesis by (simp add: Atoi_def Let_def)
  qed
qed

lemma digits_are_digits: "0 \<le> n \<Longrightarrow> list_all is_digit buf \<Longrightarrow> list_all is_digit (digits_loop n buf)"
proof (induction n buf rule: digits_loop.induct)
  case (1 n buf)
  have "of_char (char_of (48 + nat (n mod 10)) :: char) = 48 + nat (n mod 10)"
    by (simp add: of_char_of)
  then have "is_digit (char_of (48 + nat (n mod 10)))" by (simp add: is_digit_def Let_def)
  with 1 show ?case by (subst digits_loop.simps) simp
qed

end
