(* ===== verification/Agent_Factory.thy ===== *)
theory Agent_Factory
  imports Aion Agent_Service Go_Text
begin

text \<open>
  Package agentfactory (src/src/internal/agentfactory/agent_factory.go): the spawning of agent
  processes through a worker runtime, their tracking, and the signals of a shutdown. The runtime
  is an argument, as are the JSON decoder and the operating system, which receives the signals.
\<close>

section \<open>Types\<close>

datatype factory_error =
  ErrAlreadyShutdown | ErrAgentNotTracked | ErrNilAgent | ErrNilRuntime | ErrSpawn string

record factory_config =
  fc_model :: string
  fc_provider :: string
  fc_permission :: string
  fc_grace :: int

record agent_handle =
  ah_agent :: uuid
  ah_execution :: uuid
  ah_project :: uuid
  ah_role :: string
  ah_model :: string
  ah_provider :: string
  ah_permission :: string
  ah_worker :: string
  ah_pid :: int
  ah_started :: go_time

text \<open>The once-flag of Shutdown is set together with the stopped flag, so one field holds both.\<close>

record agent_factory =
  fa_cfg :: factory_config
  fa_tracked :: "uuid \<rightharpoonup> agent_handle"
  fa_stopped :: bool

definition New_factory :: "bool \<Rightarrow> factory_config \<Rightarrow> factory_error + agent_factory" where
  "New_factory runtime_nil cfg =
     (if runtime_nil then Inl ErrNilRuntime
      else let cfg = (if fc_model cfg = '''' then cfg\<lparr>fc_model := ''MiniMax-M3''\<rparr> else cfg);
               cfg = (if fc_provider cfg = '''' then cfg\<lparr>fc_provider := ''TokenRouter''\<rparr> else cfg);
               cfg = (if fc_permission cfg = '''' then cfg\<lparr>fc_permission := ''YOLO''\<rparr> else cfg);
               cfg = (if fc_grace cfg = 0 then cfg\<lparr>fc_grace := 5 * 1000000000\<rparr> else cfg)
           in Inr \<lparr>fa_cfg = cfg, fa_tracked = Map.empty, fa_stopped = False\<rparr>)"

section \<open>Process handles\<close>

definition processHandlePrefix :: string where "processHandlePrefix = ''proc-''"

text \<open>None stands for the three errors, which come with the number 0.\<close>

definition ParsePIDFromHandle :: "string \<Rightarrow> int option" where
  "ParsePIDFromHandle s =
     (if \<not> has_prefix s processHandlePrefix then None
      else let rest = drop (length processHandlePrefix) s
           in if CHR ''-'' \<notin> set rest then None
              else case Atoi (takeWhile (\<lambda>c. c \<noteq> CHR ''-'') rest) of
                     (_, Some _) \<Rightarrow> None | (pid, None) \<Rightarrow> Some pid)"

section \<open>Spawning\<close>

text \<open>\<open>decode\<close> is json.Unmarshal into the three overrides, None for an error.\<close>

definition resolveRuntime ::
  "(string \<Rightarrow> (string \<times> string \<times> string) option) \<Rightarrow> agent_factory \<Rightarrow> agent \<Rightarrow> string \<times> string \<times> string" where
  "resolveRuntime decode fa a =
     (let cfg = fa_cfg fa; def = (fc_model cfg, fc_provider cfg, fc_permission cfg)
      in if ag_runtime a = '''' then def
         else case decode (ag_runtime a) of
                None \<Rightarrow> def
              | Some (mo, pr, pe) \<Rightarrow>
                  (if mo \<noteq> '''' then mo else fc_model cfg,
                   if pr \<noteq> '''' then pr else fc_provider cfg,
                   if pe \<noteq> '''' then pe else fc_permission cfg))"

definition spawn_spec ::
  "(string \<Rightarrow> (string \<times> string \<times> string) option) \<Rightarrow> agent_factory \<Rightarrow> agent \<Rightarrow> uuid \<Rightarrow> string \<Rightarrow> worker_spec" where
  "spawn_spec decode fa a exec input =
     (case resolveRuntime decode fa a of (mo, pr, pe) \<Rightarrow>
        \<lparr>ws_execution = exec, ws_task = exec, ws_agent = ag_id a, ws_project = ag_project a,
         ws_model = mo, ws_provider = pr, ws_permission = pe, ws_input = input, ws_attempt = 1\<rparr>)"

text \<open>The check under the lock before the spawn.\<close>

definition spawn_check :: "agent option \<Rightarrow> agent_factory \<Rightarrow> factory_error + agent" where
  "spawn_check a fa =
     (case a of
        None \<Rightarrow> Inl ErrNilAgent
      | Some a \<Rightarrow> if fa_stopped fa then Inl ErrAlreadyShutdown else Inr a)"

definition spawn_handle :: "go_time \<Rightarrow> agent \<Rightarrow> worker_spec \<Rightarrow> string \<Rightarrow> agent_handle" where
  "spawn_handle now a spec h =
     \<lparr>ah_agent = ag_id a, ah_execution = ws_execution spec, ah_project = ag_project a,
      ah_role = ag_role a, ah_model = ws_model spec, ah_provider = ws_provider spec,
      ah_permission = ws_permission spec, ah_worker = h,
      ah_pid = (case ParsePIDFromHandle h of None \<Rightarrow> 0 | Some p \<Rightarrow> p), ah_started = now\<rparr>"

text \<open>
  The part under the second lock, after the runtime has started the process: the answer, the
  factory, and the process ids that get a signal.
\<close>

definition spawn_register ::
  "agent_handle \<Rightarrow> agent_factory \<Rightarrow> (factory_error + agent_handle) \<times> agent_factory \<times> int list" where
  "spawn_register h fa =
     (if fa_stopped fa
      then (Inl ErrAlreadyShutdown, fa, if ah_pid h \<noteq> 0 then [ah_pid h] else [])
      else (Inr h, fa\<lparr>fa_tracked := (fa_tracked fa)(ah_agent h \<mapsto> h)\<rparr>, []))"

definition SpawnAgent ::
  "(string \<Rightarrow> (string \<times> string \<times> string) option) \<Rightarrow> (worker_spec \<Rightarrow> string + string) \<Rightarrow> go_time
   \<Rightarrow> agent option \<Rightarrow> uuid \<Rightarrow> string \<Rightarrow> agent_factory
   \<Rightarrow> (factory_error + agent_handle) \<times> agent_factory \<times> int list" where
  "SpawnAgent decode spawn now a exec input fa =
     (case spawn_check a fa of
        Inl e \<Rightarrow> (Inl e, fa, [])
      | Inr a \<Rightarrow>
          let spec = spawn_spec decode fa a exec input
          in case spawn spec of
               Inl msg \<Rightarrow> (Inl (ErrSpawn msg), fa, [])
             | Inr h \<Rightarrow> spawn_register (spawn_handle now a spec h) fa)"

section \<open>Lookup and shutdown\<close>

definition Tracked :: "uuid list \<Rightarrow> agent_factory \<Rightarrow> agent_handle list" where
  "Tracked ks fa = range_values (fa_tracked fa) ks"

definition Get_tracked :: "uuid \<Rightarrow> agent_factory \<Rightarrow> agent_handle option" where
  "Get_tracked k fa = fa_tracked fa k"

definition TrackedCount :: "uuid list \<Rightarrow> agent_factory \<Rightarrow> nat" where
  "TrackedCount ks fa = length (range_values (fa_tracked fa) ks)"

text \<open>
  The signals go out in the order of the map iteration \<open>ks\<close>; failed signals are only logged.
  \<open>close\<close> is the answer of the runtime's Close, asked by the first call only.
\<close>

definition Shutdown ::
  "uuid list \<Rightarrow> string + unit \<Rightarrow> agent_factory \<Rightarrow> (string + unit) \<times> agent_factory \<times> int list" where
  "Shutdown ks close fa =
     (if fa_stopped fa then (Inr (), fa, [])
      else (close, fa\<lparr>fa_stopped := True, fa_tracked := Map.empty\<rparr>,
            filter (\<lambda>p. p \<noteq> 0) (map ah_pid (range_values (fa_tracked fa) ks))))"

section \<open>The handle of a process\<close>

text \<open>The number in the handle that the process runtime makes is read back.\<close>

lemma ParsePID_roundtrip:
  assumes "0 \<le> pid" "pid < 2 ^ 63"
  shows "ParsePIDFromHandle (''proc-'' @ Sprintf_d pid @ ''-'' @ u) = Some pid"
proof -
  let ?s = "Sprintf_d pid"
  have s: "?s \<noteq> []" "list_all is_digit ?s" "read_digits ?s = pid"
  proof -
    consider "pid = 0" | "0 < pid" using assms(1) by linarith
    then show "?s \<noteq> []" "list_all is_digit ?s" "read_digits ?s = pid"
      by (cases; use digits_loop_hd [of pid "[]"] digits_are_digits [of pid "[]"] read_digits_loop [of pid "[]"]
          in \<open>force simp: Sprintf_d_def is_digit_def read_digits_def digit_value_def\<close>)+
  qed
  have tw: "takeWhile (\<lambda>c. c \<noteq> CHR ''-'') (?s @ ''-'' @ u) = ?s"
    using s(2) digit_no_sign by (subst takeWhile_append2) (auto simp: list_all_iff)
  have "Atoi ?s = (pid, None)" using Atoi_digits [OF s(1,2)] s(3) assms(2) by simp
  with tw show ?thesis
    by (simp add: ParsePIDFromHandle_def processHandlePrefix_def has_prefix_def)
qed

section \<open>Runs\<close>

text \<open>
  Any interleaving of spawns and shutdowns. A spawn passes its check, has its process started by
  the runtime or refused, and registers; the run records the processes started, with the agent,
  and those signalled.
\<close>

record factory_run =
  fr_fa :: agent_factory
  fr_checked :: "agent list"
  fr_pending :: "agent_handle list"
  fr_started :: "(uuid \<times> int) list"
  fr_signalled :: "int list"

inductive factory_step ::
  "(string \<Rightarrow> (string \<times> string \<times> string) option) \<Rightarrow> factory_run \<Rightarrow> factory_run \<Rightarrow> bool" for decode where
  check: "spawn_check (Some a) (fr_fa r) = Inr a \<Longrightarrow>
     factory_step decode r (r\<lparr>fr_checked := fr_checked r @ [a]\<rparr>)"
| refused: "a \<in> set (fr_checked r) \<Longrightarrow>
     factory_step decode r (r\<lparr>fr_checked := remove1 a (fr_checked r)\<rparr>)"
| launch: "a \<in> set (fr_checked r) \<Longrightarrow>
     h = spawn_handle now a (spawn_spec decode (fr_fa r) a exec input) worker \<Longrightarrow>
     factory_step decode r (r\<lparr>fr_checked := remove1 a (fr_checked r), fr_pending := fr_pending r @ [h],
       fr_started := fr_started r @ [(ag_id a, ah_pid h)]\<rparr>)"
| register: "h \<in> set (fr_pending r) \<Longrightarrow> spawn_register h (fr_fa r) = (ans, fa', sent) \<Longrightarrow>
     factory_step decode r (r\<lparr>fr_fa := fa', fr_pending := remove1 h (fr_pending r),
       fr_signalled := fr_signalled r @ sent\<rparr>)"
| shutdown: "iterates (fa_tracked (fr_fa r)) ks \<Longrightarrow> Shutdown ks close (fr_fa r) = (ans, fa', sent) \<Longrightarrow>
     factory_step decode r (r\<lparr>fr_fa := fa', fr_signalled := fr_signalled r @ sent\<rparr>)"

definition fresh_run :: "agent_factory \<Rightarrow> factory_run" where
  "fresh_run fa = \<lparr>fr_fa = fa\<lparr>fa_tracked := Map.empty, fa_stopped := False\<rparr>, fr_checked = [],
     fr_pending = [], fr_started = [], fr_signalled = []\<rparr>"

text \<open>The processes of an agent that the factory still has to account for.\<close>

definition held :: "uuid \<Rightarrow> factory_run \<Rightarrow> nat" where
  "held a r = length (filter (\<lambda>h. ah_agent h = a) (fr_pending r))
     + (if fa_tracked (fr_fa r) a = None then 0 else 1)"

definition accounted :: "uuid \<Rightarrow> int \<Rightarrow> factory_run \<Rightarrow> bool" where
  "accounted a p r \<longleftrightarrow> p = 0 \<or> p \<in> set (fr_signalled r)
     \<or> (\<exists>h. h \<in> set (fr_pending r) \<and> ah_agent h = a \<and> ah_pid h = p)
     \<or> (\<exists>h. fa_tracked (fr_fa r) a = Some h \<and> ah_pid h = p)"

definition factory_inv :: "factory_run \<Rightarrow> bool" where
  "factory_inv r \<longleftrightarrow>
     (\<forall>a. held a r \<le> count_list (map fst (fr_started r)) a)
     \<and> (fa_stopped (fr_fa r) \<longrightarrow> fa_tracked (fr_fa r) = Map.empty)
     \<and> (\<forall>a p. (a, p) \<in> set (fr_started r) \<and> count_list (map fst (fr_started r)) a = 1 \<longrightarrow> accounted a p r)"

lemma factory_invD:
  assumes "factory_inv r"
  shows "held a r \<le> count_list (map fst (fr_started r)) a"
    "fa_stopped (fr_fa r) \<Longrightarrow> fa_tracked (fr_fa r) = Map.empty"
    "(a, p) \<in> set (fr_started r) \<Longrightarrow> count_list (map fst (fr_started r)) a = 1 \<Longrightarrow> accounted a p r"
  using assms by (auto simp: factory_inv_def)

lemma factory_inv_fresh: "factory_inv (fresh_run fa)"
  by (simp add: factory_inv_def fresh_run_def held_def)

lemma filter_remove1_length:
  "h \<in> set xs \<Longrightarrow> length (filter P xs) = (if P h then 1 else 0) + length (filter P (remove1 h xs))"
  by (induction xs) auto

lemma in_remove1: "x \<in> set xs \<Longrightarrow> x \<noteq> h \<Longrightarrow> x \<in> set (remove1 h xs)"
  by (induction xs) auto

lemma count_list_fst: "(a, p) \<in> set xs \<Longrightarrow> 0 < count_list (map fst xs) a"
  by (metis count_notin gr0I image_eqI fst_conv list.set_map count_list_0_iff)

lemma factory_step_inv:
  assumes "factory_step decode r r'" "factory_inv r"
  shows "factory_inv r'"
  using assms
proof (induction rule: factory_step.induct)
  case (launch a r h now exec input worker)
  note I = factory_invD [OF launch.prems]
  have agent: "ah_agent h = ag_id a" by (simp add: launch.hyps spawn_handle_def)
  let ?r = "r\<lparr>fr_checked := remove1 a (fr_checked r), fr_pending := fr_pending r @ [h],
       fr_started := fr_started r @ [(ag_id a, ah_pid h)]\<rparr>"
  have "accounted b p ?r" if "(b, p) \<in> set (fr_started ?r)" "count_list (map fst (fr_started ?r)) b = 1" for b p
  proof (cases "b = ag_id a")
    case True
    with that(2) have "count_list (map fst (fr_started r)) b = 0" by simp
    with that(1) True have "p = ah_pid h" using count_list_fst [of b p "fr_started r"] by auto
    with agent True show ?thesis by (auto simp: accounted_def)
  next
    case False
    with that I(3) [of b p] have "accounted b p r" by auto
    then show ?thesis by (auto simp: accounted_def)
  qed
  moreover have "held b ?r \<le> count_list (map fst (fr_started ?r)) b" for b
    using I(1) [of b] agent by (simp add: held_def)
  ultimately show ?case using I(2) by (auto simp: factory_inv_def)
next
  case (register h r ans fa' sent)
  note I = factory_invD [OF register.prems]
  let ?r = "r\<lparr>fr_fa := fa', fr_pending := remove1 h (fr_pending r), fr_signalled := fr_signalled r @ sent\<rparr>"
  note split = filter_remove1_length [OF register.hyps(1)]
  have "held b ?r \<le> held b r" for b
    using register.hyps(2) split [of "\<lambda>x. ah_agent x = b"]
    by (auto simp: held_def spawn_register_def split: if_splits)
  then have "held b ?r \<le> count_list (map fst (fr_started ?r)) b" for b
    using order_trans [OF _ I(1)] by simp
  moreover have "accounted b p ?r"
    if "(b, p) \<in> set (fr_started ?r)" "count_list (map fst (fr_started ?r)) b = 1" for b p
  proof -
    have acc: "accounted b p r" using that I(3) [of b p] by simp
    show ?thesis
    proof (cases "ah_agent h = b")
      case True
      have "held b r \<le> 1" using I(1) [of b] that(2) by simp
      with split [of "\<lambda>x. ah_agent x = b"] True
      have none: "fa_tracked (fr_fa r) b = None" "filter (\<lambda>x. ah_agent x = b) (remove1 h (fr_pending r)) = []"
        by (auto simp: held_def split: if_splits)
      have "x = h" if "x \<in> set (fr_pending r)" "ah_agent x = b" for x
        using none(2) in_remove1 [OF that(1), of h] that(2) by (cases "x = h") (auto simp: filter_empty_conv)
      with acc none(1) have "p = 0 \<or> p \<in> set (fr_signalled r) \<or> ah_pid h = p"
        by (auto simp: accounted_def)
      with True register.hyps(2) show ?thesis
        by (auto simp: accounted_def spawn_register_def split: if_splits)
    next
      case False
      with acc register.hyps(2) show ?thesis
        by (auto simp: accounted_def spawn_register_def intro: in_remove1 split: if_splits)
    qed
  qed
  moreover have "fa_stopped fa' \<longrightarrow> fa_tracked fa' = Map.empty"
    using register.hyps(2) I(2) by (auto simp: spawn_register_def split: if_splits)
  ultimately show ?case by (simp add: factory_inv_def)
next
  case (shutdown r ks close ans fa' sent)
  note I = factory_invD [OF shutdown.prems]
  have all: "ah_pid h \<in> set sent \<or> ah_pid h = 0" if "fa_tracked (fr_fa r) k = Some h" for k h
  proof -
    have "h \<in> set (range_values (fa_tracked (fr_fa r)) ks)"
      using that set_range_values_iterates [OF shutdown.hyps(1)] by (auto simp: ran_def)
    moreover have "\<not> fa_stopped (fr_fa r)" using I(2) that by auto
    ultimately show ?thesis using shutdown.hyps(2) by (auto simp: Shutdown_def)
  qed
  let ?r = "r\<lparr>fr_fa := fa', fr_signalled := fr_signalled r @ sent\<rparr>"
  have "accounted b p ?r" if "accounted b p r" for b p
    using that all [of b] by (auto simp: accounted_def)
  moreover have "held b ?r \<le> held b r" for b
    using shutdown.hyps(2) by (auto simp: held_def Shutdown_def split: if_splits)
  ultimately show ?case
    using I shutdown.hyps(2) by (fastforce simp: factory_inv_def Shutdown_def intro: order_trans split: if_splits)
qed (auto simp: factory_inv_def held_def accounted_def)

text \<open>
  C14: a shutdown reaches every agent process. However spawns and shutdowns overlap, once the
  factory is stopped and no spawn is under way, each process started for an agent that was spawned
  once has been sent its signal, the spawn that lost the race with the shutdown included.
\<close>

theorem shutdown_reaches_all:
  assumes "(factory_step decode)\<^sup>*\<^sup>* (fresh_run fa) r" "fa_stopped (fr_fa r)" "fr_pending r = []"
    and "(a, p) \<in> set (fr_started r)" "p \<noteq> 0" "count_list (map fst (fr_started r)) a = 1"
  shows "p \<in> set (fr_signalled r)"
proof -
  have "factory_inv r"
    using assms(1) by (induction rule: rtranclp_induct) (auto intro: factory_inv_fresh factory_step_inv)
  from factory_invD(3) [OF this assms(4,6)] factory_invD(2) [OF this assms(2)] assms(3,5)
  show ?thesis by (auto simp: accounted_def)
qed

text \<open>A spawn that passes its check, starts its process, and loses the race with the shutdown.\<close>

definition raced_run :: "agent_factory \<Rightarrow> agent \<Rightarrow> factory_run" where
  "raced_run fa a = \<lparr>fr_fa = fa\<lparr>fa_tracked := Map.empty, fa_stopped := True\<rparr>, fr_checked = [],
     fr_pending = [], fr_started = [(ag_id a, 7)], fr_signalled = [7]\<rparr>"

lemma raced_run_reached: "(factory_step decode)\<^sup>*\<^sup>* (fresh_run fa) (raced_run fa a)"
proof -
  let ?f0 = "fa\<lparr>fa_tracked := Map.empty, fa_stopped := False\<rparr>"
  let ?f1 = "fa\<lparr>fa_tracked := Map.empty, fa_stopped := True\<rparr>"
  obtain h worker where h: "h = spawn_handle 0 a (spawn_spec decode ?f0 a 0 '''') worker"
    and pid: "ah_pid h = 7" "ah_agent h = ag_id a"
    using ParsePID_roundtrip [of 7 "''u''"] by (intro that [of _ "''proc-'' @ Sprintf_d 7 @ ''-'' @ ''u''", OF refl]) (simp_all add: spawn_handle_def)
  let ?r0 = "fresh_run fa"
  let ?r1 = "?r0\<lparr>fr_checked := [a]\<rparr>"
  let ?r2 = "?r0\<lparr>fr_pending := [h], fr_started := [(ag_id a, 7)]\<rparr>"
  let ?r3 = "?r2\<lparr>fr_fa := ?f1\<rparr>"
  have "factory_step decode ?r0 ?r1"
    using factory_step.check [of a ?r0] by (simp add: spawn_check_def fresh_run_def)
  moreover have "factory_step decode ?r1 ?r2"
    using factory_step.launch [of a ?r1 h 0 decode 0 "''''" worker] h pid(1) by (simp add: fresh_run_def)
  moreover have "factory_step decode ?r2 ?r3"
    using factory_step.shutdown [of ?r2 "[]" "Inr ()" "Inr ()" ?f1 "[]"]
    by (simp add: fresh_run_def Shutdown_def iterates_def range_values_def)
  moreover have "factory_step decode ?r3 (raced_run fa a)"
    using factory_step.register [of h ?r3 "Inl ErrAlreadyShutdown" ?f1 "[7]"] pid
    by (simp add: fresh_run_def raced_run_def spawn_register_def)
  ultimately show ?thesis by (meson rtranclp.rtrancl_into_rtrancl rtranclp.rtrancl_refl)
qed

definition sample_factory :: agent_factory where
  "sample_factory = \<lparr>fa_cfg = \<lparr>fc_model = '''', fc_provider = '''', fc_permission = '''', fc_grace = 0\<rparr>,
     fa_tracked = Map.empty, fa_stopped = False\<rparr>"

theorem shutdown_reaches_all_witness:
  "(7::int) \<in> set (fr_signalled (raced_run sample_factory (sample_agent 7 [])))"
  using shutdown_reaches_all [OF raced_run_reached [of "\<lambda>_. None"], of sample_factory "sample_agent 7 []" "ag_id (sample_agent 7 [])" 7]
  by (simp add: raced_run_def)

text \<open>
  Spawning an agent again replaces the tracked handle: the process started first is no longer
  tracked, and the shutdown does not signal it.
\<close>

lemma respawn_loses_process:
  assumes "\<not> fa_stopped fa" "ah_agent h1 = a" "ah_agent h2 = a"
    and "spawn_register h1 fa = (ans1, fa1, s1)" "spawn_register h2 fa1 = (ans2, fa2, s2)"
    and "iterates (fa_tracked fa2) ks" "\<forall>k h. fa_tracked fa k = Some h \<longrightarrow> ah_pid h \<noteq> ah_pid h1"
    and "ah_pid h1 \<noteq> ah_pid h2"
  shows "ans1 = Inr h1" "ans2 = Inr h2" "ah_pid h1 \<notin> set (snd (snd (Shutdown ks close fa2)))"
proof -
  have fa2: "fa_tracked fa2 = (fa_tracked fa)(a \<mapsto> h2)" "ans1 = Inr h1" "ans2 = Inr h2"
    using assms(1-5) by (auto simp: spawn_register_def)
  have "set (range_values (fa_tracked fa2) ks) = ran (fa_tracked fa2)"
    by (rule set_range_values_iterates [OF assms(6)])
  moreover have "ah_pid h1 \<notin> ah_pid ` ran (fa_tracked fa2)"
    using assms(7,8) by (fastforce simp: fa2 ran_def split: if_splits)
  ultimately show "ah_pid h1 \<notin> set (snd (snd (Shutdown ks close fa2)))"
    by (auto simp: Shutdown_def)
qed (use assms(1-5) in \<open>auto simp: spawn_register_def\<close>)

end
