(* ===== verification/Config.thy ===== *)
theory Config
  imports Go_Text
begin

text \<open>
  Package config (src/src/internal/config/config.go): the settings of the server from the
  environment. \<open>env\<close> is os.Getenv, empty for a variable that is not set; \<open>lower\<close> is
  strings.ToLower. Missing or malformed required variables panic, which is the left side of a
  result.
\<close>

section \<open>Reading variables\<close>

datatype load_panic = NotSet string | NotInteger string atoi_error

definition getEnv :: "(string \<Rightarrow> string) \<Rightarrow> string \<Rightarrow> string \<Rightarrow> string" where
  "getEnv env key fallback = (if env key \<noteq> '''' then env key else fallback)"

definition getEnvRequired :: "(string \<Rightarrow> string) \<Rightarrow> string \<Rightarrow> load_panic + string" where
  "getEnvRequired env key = (if env key = '''' then Inl (NotSet key) else Inr (env key))"

definition getEnvInt :: "(string \<Rightarrow> string) \<Rightarrow> string \<Rightarrow> int \<Rightarrow> int" where
  "getEnvInt env key fallback =
     (if env key \<noteq> ''''
      then (case Atoi (env key) of (i, None) \<Rightarrow> i | (_, Some _) \<Rightarrow> fallback)
      else fallback)"

definition getEnvIntRequired :: "(string \<Rightarrow> string) \<Rightarrow> string \<Rightarrow> load_panic + int" where
  "getEnvIntRequired env key =
     (if env key = '''' then Inl (NotSet key)
      else case Atoi (env key) of
             (_, Some e) \<Rightarrow> Inl (NotInteger key e) | (i, None) \<Rightarrow> Inr i)"

definition getEnvBool :: "(string \<Rightarrow> string) \<Rightarrow> string \<Rightarrow> bool \<Rightarrow> bool" where
  "getEnvBool env key fallback =
     (if env key \<noteq> '''' then env key = ''true'' \<or> env key = ''1'' else fallback)"

fun production_loop :: "(string \<Rightarrow> string) \<Rightarrow> (string \<Rightarrow> string) \<Rightarrow> string list \<Rightarrow> bool" where
  "production_loop lower env [] = False"
| "production_loop lower env (k # ks) =
     (let v = lower (TrimSpace (env k))
      in if v \<noteq> '''' then v = ''production'' \<or> v = ''prod'' else production_loop lower env ks)"

definition isProductionEnv :: "(string \<Rightarrow> string) \<Rightarrow> (string \<Rightarrow> string) \<Rightarrow> bool" where
  "isProductionEnv lower env = production_loop lower env [''APP_ENV'', ''ENV'']"

section \<open>Lists of values\<close>

definition is_trim :: "char \<Rightarrow> bool" where
  "is_trim c \<longleftrightarrow> c = CHR '' '' \<or> c = CHR 0x09 \<or> c = CHR 0x0A \<or> c = CHR 0x0D"

definition trimSpace :: "string \<Rightarrow> string" where
  "trimSpace s = rev (dropWhile is_trim (rev (dropWhile is_trim s)))"

text \<open>
  The range over a string goes over its characters, which the argument lists, each as the string
  that string(r) gives back.
\<close>

definition is_separator :: "string \<Rightarrow> bool" where
  "is_separator r \<longleftrightarrow> r = '','' \<or> r = [CHR 0x0A] \<or> r = [CHR 0x0D]"

fun splitCSV :: "string list \<Rightarrow> string \<Rightarrow> string list" where
  "splitCSV [] current = [current]"
| "splitCSV (r # rs) current =
     (if is_separator r then current # splitCSV rs '''' else splitCSV rs (current @ r))"

definition parseCSV :: "(string \<Rightarrow> string list) \<Rightarrow> string \<Rightarrow> string list" where
  "parseCSV chars s =
     (if s = '''' then []
      else filter (\<lambda>t. t \<noteq> '''') (map trimSpace (splitCSV (chars s) '''')))"

section \<open>The settings\<close>

record server_config =
  sc_host :: string
  sc_port :: int

record database_config =
  dc_host :: string
  dc_port :: int
  dc_user :: string
  dc_password :: string
  dc_name :: string

record auth_config =
  ac_secret :: string
  ac_cookie_secure :: bool

record cors_settings =
  co_origins :: "string list"
  co_methods :: "string list"
  co_headers :: "string list"
  co_credentials :: bool
  co_max_age :: int

record rate_settings =
  rs_rpm :: int
  rs_burst :: int

record agent_config =
  gc_runtime :: string
  gc_memory :: int
  gc_cpu :: int
  gc_binary :: string
  gc_model :: string
  gc_provider :: string
  gc_permission :: string
  gc_max_concurrent :: int
  gc_wait_timeout :: int

record app_config =
  cfg_server :: server_config
  cfg_database :: database_config
  cfg_auth :: auth_config
  cfg_cors :: cors_settings
  cfg_rate :: rate_settings
  cfg_agent :: agent_config

text \<open>The required variables are read in the order of the struct; the first that fails panics.\<close>

definition Load ::
  "(string \<Rightarrow> string) \<Rightarrow> (string \<Rightarrow> string list) \<Rightarrow> (string \<Rightarrow> string) \<Rightarrow> load_panic + app_config" where
  "Load lower chars env =
     (case getEnvRequired env ''DB_HOST'' of Inl p \<Rightarrow> Inl p | Inr db_host \<Rightarrow>
      case getEnvIntRequired env ''DB_PORT'' of Inl p \<Rightarrow> Inl p | Inr db_port \<Rightarrow>
      case getEnvRequired env ''DB_USER'' of Inl p \<Rightarrow> Inl p | Inr db_user \<Rightarrow>
      case getEnvRequired env ''DB_PASSWORD'' of Inl p \<Rightarrow> Inl p | Inr db_password \<Rightarrow>
      case getEnvRequired env ''DB_NAME'' of Inl p \<Rightarrow> Inl p | Inr db_name \<Rightarrow>
      case getEnvRequired env ''JWT_SECRET'' of Inl p \<Rightarrow> Inl p | Inr secret \<Rightarrow>
      Inr
       \<lparr>cfg_server = \<lparr>sc_host = getEnv env ''SERVER_HOST'' ''localhost'',
          sc_port = getEnvInt env ''SERVER_PORT'' 8080\<rparr>,
        cfg_database = \<lparr>dc_host = db_host, dc_port = db_port, dc_user = db_user,
          dc_password = db_password, dc_name = db_name\<rparr>,
        cfg_auth = \<lparr>ac_secret = secret,
          ac_cookie_secure = getEnvBool env ''AUTH_COOKIE_SECURE'' (isProductionEnv lower env)\<rparr>,
        cfg_cors = \<lparr>co_origins = parseCSV chars (getEnv env ''CORS_ALLOWED_ORIGINS'' ''''),
          co_methods = [''GET'', ''POST'', ''PATCH'', ''PUT'', ''DELETE'', ''OPTIONS''],
          co_headers = [''Content-Type'', ''Authorization'', ''X-Request-ID''],
          co_credentials = getEnvBool env ''CORS_ALLOW_CREDENTIALS'' False, co_max_age = 86400\<rparr>,
        cfg_rate = \<lparr>rs_rpm = getEnvInt env ''RATE_LIMIT_RPM'' 100,
          rs_burst = getEnvInt env ''RATE_LIMIT_BURST'' 20\<rparr>,
        cfg_agent = \<lparr>gc_runtime = getEnv env ''AGENT_RUNTIME'' ''runc'',
          gc_memory = wrap64 (wrap64 (getEnvInt env ''AGENT_MEMORY_MB'' 512 * 1024) * 1024),
          gc_cpu = getEnvInt env ''AGENT_CPU_LIMIT'' 50000,
          gc_binary = getEnv env ''AION_BINARY'' ''aion'',
          gc_model = getEnv env ''AION_MODEL'' ''sonnet'',
          gc_provider = getEnv env ''AION_PROVIDER'' ''anthropic'',
          gc_permission = getEnv env ''AION_PERMISSION_MODE'' ''default'',
          gc_max_concurrent = getEnvInt env ''AION_MAX_CONCURRENT'' 8,
          gc_wait_timeout = getEnvInt env ''AION_WAIT_TIMEOUT'' 600\<rparr>\<rparr>)"

section \<open>What is loaded\<close>

lemma splitCSV_append:
  "list_all (\<lambda>r. \<not> is_separator r) rs \<Longrightarrow> splitCSV (rs @ rs') cur = splitCSV rs' (cur @ concat rs)"
  by (induction rs arbitrary: cur) auto

definition plain_value :: "string \<Rightarrow> bool" where
  "plain_value w \<longleftrightarrow> w \<noteq> [] \<and> \<not> is_trim (hd w) \<and> \<not> is_trim (last w) \<and> list_all (\<lambda>c. \<not> is_separator [c]) w"

lemma trimSpace_plain:
  assumes "plain_value w"
  shows "trimSpace w = w"
proof -
  have "dropWhile is_trim w = w" "dropWhile is_trim (rev w) = rev w"
    using assms by (auto simp: plain_value_def dropWhile_eq_self_iff hd_rev)
  then show ?thesis by (simp add: trimSpace_def)
qed

definition csv_text :: "string list \<Rightarrow> string" where
  "csv_text ws = concat (map (\<lambda>w. w @ '','') ws)"

text \<open>
  A list of values that hold no separator and no space at their ends is read back as it is, from
  the text with a comma after each value.
\<close>

lemma splitCSV_values:
  assumes "list_all plain_value ws"
  shows "splitCSV (map (\<lambda>c. [c]) (csv_text ws)) '''' = ws @ ['''']"
  using assms
proof (induction ws)
  case (Cons w ws)
  have "list_all (\<lambda>r. \<not> is_separator r) (map (\<lambda>c. [c]) w)"
    using Cons.prems by (simp add: plain_value_def list_all_iff)
  from splitCSV_append [OF this, of "'','' # map (\<lambda>c. [c]) (csv_text ws)" "''''"] Cons
  show ?case by (simp add: csv_text_def is_separator_def o_def)
qed (simp add: csv_text_def)

theorem parseCSV_roundtrip:
  assumes "list_all plain_value ws"
  shows "parseCSV (map (\<lambda>c. [c])) (csv_text ws) = ws"
proof (cases ws)
  case (Cons w ws')
  have "map trimSpace ws = ws"
    using assms trimSpace_plain by (auto simp: list_all_iff intro: map_idI)
  moreover have "filter (\<lambda>t. t \<noteq> '''') ws = ws"
    using assms by (auto simp: list_all_iff plain_value_def filter_id_conv)
  moreover have "csv_text ws \<noteq> ''''" using Cons by (simp add: csv_text_def)
  ultimately show ?thesis
    using splitCSV_values [OF assms] by (simp add: parseCSV_def trimSpace_def)
qed (simp add: parseCSV_def csv_text_def)

text \<open>
  The server starts exactly if the six required variables are set and the port of the database is
  a number; it never starts with a part of the settings.
\<close>

theorem Load_starts_iff:
  "(\<exists>c. Load lower chars env = Inr c) \<longleftrightarrow>
     (\<forall>k \<in> {''DB_HOST'', ''DB_PORT'', ''DB_USER'', ''DB_PASSWORD'', ''DB_NAME'', ''JWT_SECRET''}.
        env k \<noteq> '''') \<and> snd (Atoi (env ''DB_PORT'')) = None"
  by (cases "Atoi (env ''DB_PORT'')")
    (auto simp: Load_def getEnvRequired_def getEnvIntRequired_def split: option.splits)

end
