(* ===== verification/Web.thy ===== *)
theory Web
  imports Code_Api Go_Text
begin

text \<open>
  What the handlers of src/src/internal/handler share: the context of a request, the answers
  (types.go, agent.go) and the readers of the caller's project and user (agent.go,
  deliverable.go).
\<close>

section \<open>Requests and answers\<close>

text \<open>
  \<open>wc_param\<close> are the parameters of the route, empty when it has none of the name; \<open>wc_query\<close> is
  the query string, None for an absent key; \<open>wc_project\<close> is the header X-Project-ID.
\<close>

record web_ctx = gin_ctx +
  wc_param :: "string \<Rightarrow> string"
  wc_query :: "string \<Rightarrow> string option"
  wc_project :: string

definition Query :: "web_ctx \<Rightarrow> string \<Rightarrow> string" where
  "Query c k = (case wc_query c k of None \<Rightarrow> '''' | Some v \<Rightarrow> v)"

definition DefaultQuery :: "web_ctx \<Rightarrow> string \<Rightarrow> string \<Rightarrow> string" where
  "DefaultQuery c k d = (case wc_query c k of None \<Rightarrow> d | Some v \<Rightarrow> v)"

text \<open>The libraries of the handlers: ids and tokens, and the two formats of instants.\<close>

record web_lib =
  wl_auth :: auth_lib
  wl_rfc3339 :: "go_time \<Rightarrow> string"
  wl_millis :: "go_time \<Rightarrow> string"

abbreviation parse_id :: "web_lib \<Rightarrow> string \<Rightarrow> uuid option" where
  "parse_id L \<equiv> al_uuid_parse (wl_auth L)"

abbreviation id_str :: "web_lib \<Rightarrow> uuid \<Rightarrow> string" where
  "id_str L \<equiv> al_uuid_str (wl_auth L)"

text \<open>An answer: a body, an error with its envelope and request id, or a status alone.\<close>

datatype 'a reply =
    Sent int 'a
  | Failed int string string "field_error list" "string option"
  | Bare int

fun reply_status :: "'a reply \<Rightarrow> int" where
  "reply_status (Sent st b) = st"
| "reply_status (Failed st code msg ds rid) = st"
| "reply_status (Bare st) = st"

fun reply_code :: "'a reply \<Rightarrow> string" where
  "reply_code (Failed st code msg ds rid) = code"
| "reply_code _ = ''''"

definition writeError :: "int \<Rightarrow> string \<Rightarrow> string \<Rightarrow> 'a reply" where
  "writeError st code msg = Failed st code msg [] None"

definition writeErrorWithDetails :: "int \<Rightarrow> string \<Rightarrow> string \<Rightarrow> field_error list \<Rightarrow> 'a reply" where
  "writeErrorWithDetails st code msg ds = Failed st code msg ds None"

definition writeServiceError :: "service_error \<Rightarrow> 'a reply" where
  "writeServiceError e =
     (if err_details e \<noteq> []
      then writeErrorWithDetails (err_status e) (err_code e) (err_message e) (err_details e)
      else writeError (err_status e) (err_code e) (err_message e))"

definition respondError :: "web_ctx \<Rightarrow> service_error \<Rightarrow> 'a reply" where
  "respondError c e =
     Failed (err_status e) (err_code e) (err_message e) (err_details e) (gc_keys c ''request_id'')"

definition bad_request :: "string \<Rightarrow> string \<Rightarrow> service_error" where
  "bad_request code msg = \<lparr>err_status = 400, err_code = code, err_message = msg, err_details = []\<rparr>"

text \<open>The errors of ShouldBindJSON: a body over the limit of the reader, or any other.\<close>

datatype bind_error = TooLarge | Malformed string

definition isMaxBytesError :: "bind_error \<Rightarrow> bool" where
  "isMaxBytesError e \<longleftrightarrow> e = TooLarge"

fun bind_text :: "bind_error \<Rightarrow> string" where
  "bind_text TooLarge = ''http: request body too large''"
| "bind_text (Malformed s) = s"

section \<open>Who asks\<close>

definition projectIDFromContext :: "web_lib \<Rightarrow> web_ctx \<Rightarrow> uuid option" where
  "projectIDFromContext L c =
     (case (if wc_project c \<noteq> '''' then parse_id L (wc_project c) else None) of
        Some k \<Rightarrow> Some k
      | None \<Rightarrow>
          (case (if wc_param c ''project_id'' \<noteq> '''' then parse_id L (wc_param c ''project_id'') else None) of
             Some k \<Rightarrow> Some k | None \<Rightarrow> None))"

definition userIDFromContext :: "web_lib \<Rightarrow> web_ctx \<Rightarrow> uuid option" where
  "userIDFromContext L c =
     (case gc_keys c ''user_id'' of
        None \<Rightarrow> None | Some s \<Rightarrow> if s = '''' then None else parse_id L s)"

definition missing_project :: "'a reply" where
  "missing_project = writeError 400 ''MISSING_PROJECT_HEADER'' ''X-Project-ID header is required for this request''"

text \<open>Optional filters of a query: absent, an id, or malformed.\<close>

definition query_id :: "web_lib \<Rightarrow> web_ctx \<Rightarrow> string \<Rightarrow> uuid option" where
  "query_id L c k = (if Query c k = '''' then Some uuid_nil else parse_id L (Query c k))"

definition query_limit :: "web_ctx \<Rightarrow> int option" where
  "query_limit c =
     (if Query c ''limit'' = '''' then Some 0
      else case Atoi (Query c ''limit'') of
             (_, Some _) \<Rightarrow> None | (n, None) \<Rightarrow> if n < 0 then None else Some n)"

lemma writeError_status [simp]: "reply_status (writeError st code msg) = st"
  by (simp add: writeError_def)

lemma writeError_code [simp]: "reply_code (writeError st code msg) = code"
  by (simp add: writeError_def)

lemma missing_project_status [simp]: "reply_status missing_project = 400"
  by (simp add: missing_project_def)

lemma writeServiceError_status [simp]: "reply_status (writeServiceError e) = err_status e"
  by (simp add: writeServiceError_def writeErrorWithDetails_def)

lemma respondError_status [simp]: "reply_status (respondError c e) = err_status e"
  by (simp add: respondError_def)

end
