(* ===== verification/Execution_Api.thy ===== *)
theory Execution_Api
  imports Web Execution_Lifecycle
begin

text \<open>
  The handlers of src/src/internal/handler/execution.go over the execution service. A handler
  takes the context, what ShouldBindJSON makes of the body, and the store; it answers a reply and
  the new store. The log line of an unknown error is left out.
\<close>

section \<open>Shared parts\<close>

fun exec_status_str :: "execution_status \<Rightarrow> string" where
  "exec_status_str ExQueued = ''queued''"
| "exec_status_str ExAssigned = ''assigned''"
| "exec_status_str ExRunning = ''running''"
| "exec_status_str ExReview = ''review''"
| "exec_status_str ExCompleted = ''completed''"
| "exec_status_str ExFailed = ''failed''"
| "exec_status_str (ExOther s) = s"

text \<open>The conversion of a text to the status type.\<close>

definition exec_status_of :: "string \<Rightarrow> execution_status" where
  "exec_status_of s =
     (case List.find (\<lambda>st. exec_status_str st = s) AllExecutionStatuses of
        Some st \<Rightarrow> st | None \<Rightarrow> ExOther s)"

lemma exec_status_of_str: "exec_status_str (exec_status_of s) = s"
  by (auto simp: exec_status_of_def find_Some_iff split: option.split)

fun mapError :: "exec_error \<Rightarrow> 'a reply" where
  "mapError ErrCrossTenantBlocked =
     writeError 404 ''CROSS_TENANT_BLOCKED'' ''the referenced resource is not in your project''"
| "mapError ErrTaskNotFound = writeError 404 ''TASK_NOT_FOUND'' ''the referenced task does not exist''"
| "mapError ErrAgentNotFound = writeError 404 ''AGENT_NOT_FOUND'' ''the referenced agent does not exist''"
| "mapError ErrExecutionNotFound =
     writeError 404 ''EXECUTION_NOT_FOUND'' ''the requested execution does not exist''"
| "mapError ErrInvalidStateTransition =
     writeError 409 ''INVALID_STATE_TRANSITION'' ''the requested status transition is not allowed for this execution''"
| "mapError (ErrInternal _) = writeError 500 ''INTERNAL'' ''internal server error''"

definition invalid_status :: "'a reply" where
  "invalid_status = writeError 400 ''INVALID_EXECUTION_STATUS''
     ''status must be one of queued/assigned/running/review/completed/failed''"

definition bad_id :: "'a reply" where
  "bad_id = writeError 400 ''BAD_REQUEST'' ''id must be a UUID''"

section \<open>Handlers\<close>

text \<open>
  The body has passed its binding, so both texts have the form of an id; the errors of the second
  parse are dropped by the code and give the nil id.
\<close>

definition Exec_Create ::
  "web_lib \<Rightarrow> create_env \<Rightarrow> web_ctx \<Rightarrow> bind_error + string \<times> string \<Rightarrow> mem_store
   \<Rightarrow> execution reply \<times> job option \<times> mem_store" where
  "Exec_Create L env c body m =
     (case projectIDFromContext L c of
        None \<Rightarrow> (missing_project, None, m)
      | Some caller \<Rightarrow>
      (case body of
        Inl e \<Rightarrow> (writeError 400 ''BAD_REQUEST'' (bind_text e), None, m)
      | Inr (task, agent) \<Rightarrow>
          let taskID = (case parse_id L task of None \<Rightarrow> uuid_nil | Some k \<Rightarrow> k);
              agentID = (case parse_id L agent of None \<Rightarrow> uuid_nil | Some k \<Rightarrow> k)
          in case CreateExecution env taskID agentID caller m of
               (Inl e, j, m1) \<Rightarrow> (mapError e, j, m1)
             | (Inr ex, j, m1) \<Rightarrow> (Sent 201 ex, j, m1)))"

definition Exec_List ::
  "web_lib \<Rightarrow> web_ctx \<Rightarrow> uuid list \<Rightarrow> mem_store \<Rightarrow> execution_page reply" where
  "Exec_List L c ks m =
     (case projectIDFromContext L c of
        None \<Rightarrow> missing_project
      | Some caller \<Rightarrow>
      (case query_id L c ''task_id'' of
        None \<Rightarrow> writeError 400 ''BAD_REQUEST'' ''task_id must be a UUID''
      | Some task \<Rightarrow>
      (case query_id L c ''agent_id'' of
        None \<Rightarrow> writeError 400 ''BAD_REQUEST'' ''agent_id must be a UUID''
      | Some agent \<Rightarrow>
      if Query c ''status'' \<noteq> '''' \<and> \<not> IsValidExecutionStatus (exec_status_of (Query c ''status''))
      then invalid_status
      else (case query_limit c of
        None \<Rightarrow> writeError 400 ''BAD_REQUEST'' ''limit must be a non-negative integer''
      | Some limit \<Rightarrow>
      (case query_id L c ''cursor'' of
        None \<Rightarrow> writeError 400 ''BAD_REQUEST'' ''cursor must be a UUID''
      | Some cursor \<Rightarrow>
      (case ListExecutions \<lparr>ef_task = task, ef_agent = agent,
                ef_status = exec_status_of (Query c ''status''), ef_cursor = cursor, ef_limit = limit\<rparr>
              caller ks m of
        Inl e \<Rightarrow> mapError e
      | Inr page \<Rightarrow> Sent 200 page))))))"

definition Exec_GetByID :: "web_lib \<Rightarrow> web_ctx \<Rightarrow> mem_store \<Rightarrow> execution reply" where
  "Exec_GetByID L c m =
     (case projectIDFromContext L c of
        None \<Rightarrow> missing_project
      | Some caller \<Rightarrow>
      (case parse_id L (wc_param c ''id'') of
        None \<Rightarrow> bad_id
      | Some k \<Rightarrow>
      (case GetExecution k caller m of Inl e \<Rightarrow> mapError e | Inr ex \<Rightarrow> Sent 200 ex)))"

text \<open>The body: the status and the error message, each of which may be absent.\<close>

definition Exec_Patch ::
  "web_lib \<Rightarrow> go_time \<Rightarrow> web_ctx \<Rightarrow> bind_error + string option \<times> string option \<Rightarrow> mem_store
   \<Rightarrow> execution reply \<times> mem_store" where
  "Exec_Patch L now c body m =
     (case projectIDFromContext L c of
        None \<Rightarrow> (missing_project, m)
      | Some caller \<Rightarrow>
      (case parse_id L (wc_param c ''id'') of
        None \<Rightarrow> (bad_id, m)
      | Some k \<Rightarrow>
      (case body of
        Inl e \<Rightarrow> (writeError 400 ''BAD_REQUEST'' (bind_text e), m)
      | Inr (status, errMsg) \<Rightarrow>
          if status = None \<and> errMsg = None
          then (writeError 400 ''BAD_REQUEST'' ''at least one of status, error_message is required'', m)
          else let newStatus = exec_status_of (case status of None \<Rightarrow> '''' | Some s \<Rightarrow> s)
          in if status \<noteq> None \<and> \<not> IsValidExecutionStatus newStatus then (invalid_status, m)
          else case UpdateExecutionStatus now k newStatus errMsg caller m of
                 (Inl e, m1) \<Rightarrow> (mapError e, m1) | (Inr ex, m1) \<Rightarrow> (Sent 200 ex, m1))))"

definition Exec_Review ::
  "web_lib \<Rightarrow> go_time \<Rightarrow> web_ctx \<Rightarrow> bind_error + bool option \<times> string \<Rightarrow> mem_store
   \<Rightarrow> review_action reply \<times> mem_store" where
  "Exec_Review L now c body m =
     (case parse_id L (wc_param c ''id'') of
        None \<Rightarrow> (writeError 400 ''VALIDATION_ERROR'' ''Invalid Execution ID'', m)
      | Some k \<Rightarrow>
      (case projectIDFromContext L c of
        None \<Rightarrow> (missing_project, m)
      | Some caller \<Rightarrow>
      (case body of
        Inl e \<Rightarrow> (writeError 400 ''INVALID_JSON'' ''Malformed request body'', m)
      | Inr (None, reason) \<Rightarrow> (writeError 400 ''VALIDATION_ERROR'' ''accepted is required'', m)
      | Inr (Some accepted, reason) \<Rightarrow>
          if \<not> accepted \<and> reason = ''''
          then (writeError 400 ''VALIDATION_ERROR'' ''reason is required when accepted=false'', m)
          else if MaxAssignmentNotesBytes < int (length reason)
          then (writeError 400 ''VALIDATION_ERROR'' ''reason exceeds 1 KiB (1024 bytes)'', m)
          else case ReviewExecution now k accepted reason caller m of
                 (Inl e, m1) \<Rightarrow> (mapError e, m1) | (Inr a, m1) \<Rightarrow> (Sent 200 a, m1))))"

definition Exec_Cancel ::
  "web_lib \<Rightarrow> go_time \<Rightarrow> web_ctx \<Rightarrow> mem_store \<Rightarrow> unit reply \<times> mem_store" where
  "Exec_Cancel L now c m =
     (case parse_id L (wc_param c ''id'') of
        None \<Rightarrow> (writeError 400 ''VALIDATION_ERROR'' ''Invalid Execution ID'', m)
      | Some k \<Rightarrow>
      (case projectIDFromContext L c of
        None \<Rightarrow> (missing_project, m)
      | Some caller \<Rightarrow>
      (case CancelExecution now k caller m of
         (Inl e, m1) \<Rightarrow> (mapError e, m1) | (Inr u, m1) \<Rightarrow> (Bare 204, m1))))"

section \<open>What the requests do\<close>

text \<open>Without a project of the caller every request answers 400 and changes nothing.\<close>

theorem no_project_no_execution:
  assumes "projectIDFromContext L c = None"
  shows "reply_status (fst (Exec_Create L env c body1 m)) = 400" "snd (snd (Exec_Create L env c body1 m)) = m"
    "reply_status (Exec_List L c ks m) = 400" "reply_status (Exec_GetByID L c m) = 400"
    "reply_status (fst (Exec_Patch L now c body2 m)) = 400" "snd (Exec_Patch L now c body2 m) = m"
    "reply_status (fst (Exec_Review L now c body3 m)) = 400" "snd (Exec_Review L now c body3 m) = m"
    "reply_status (fst (Exec_Cancel L now c m)) = 400" "snd (Exec_Cancel L now c m) = m"
  using assms
  by (simp_all add: Exec_Create_def Exec_List_def Exec_GetByID_def Exec_Patch_def Exec_Review_def
      Exec_Cancel_def split: option.split)

lemma exec_status_of_valid:
  "IsValidExecutionStatus (exec_status_of s) \<longleftrightarrow>
     s \<in> {''queued'', ''assigned'', ''running'', ''review'', ''completed'', ''failed''}"
  by (auto simp: exec_status_of_def AllExecutionStatuses_def)

lemma exec_status_of_empty [simp]: "exec_status_of '''' = ExOther ''''"
  by (simp add: exec_status_of_def AllExecutionStatuses_def)

text \<open>
  C11: what a PATCH of an execution of the caller's project does. A status that is none of the
  six is refused with 400. A status equal to the stored one changes nothing, one that the state
  machine allows is written, completed from review included, and any other is refused with 409. A
  body with the error message alone is always refused with 409.
\<close>

theorem Exec_Patch_correct:
  assumes "projectIDFromContext L c = Some caller" "parse_id L (wc_param c ''id'') = Some k"
    and "ms_executions m k = Some e" "visible caller k m" "exec_rows_inv (ms_executions m)"
  shows "Exec_Patch L now c (Inr (st, msg)) m =
     (case st of
        None \<Rightarrow> ((if msg = None
                  then writeError 400 ''BAD_REQUEST'' ''at least one of status, error_message is required''
                  else mapError ErrInvalidStateTransition), m)
      | Some s \<Rightarrow>
          if s \<notin> {''queued'', ''assigned'', ''running'', ''review'', ''completed'', ''failed''}
          then (invalid_status, m)
          else if exec_status_of s = ex_status e then (Sent 200 e, m)
          else if isValidExecutionTransition (ex_status e) (exec_status_of s)
          then (Sent 200 (set_status now (exec_status_of s) msg e),
                m\<lparr>ms_executions := (ms_executions m)(k \<mapsto> set_status now (exec_status_of s) msg e)\<rparr>)
          else (mapError ErrInvalidStateTransition, m))"
proof -
  have g: "GetExecution k caller m = Inr e"
    using assms(3,4) by (simp add: GetExecution_Inr visible_def)
  have valid: "IsValidExecutionStatus (ex_status e)"
    using assms(3,5) by (auto simp: exec_rows_inv_def)
  have upd: "UpdateExecutionStatus now k s msg caller m =
     (if s = ex_status e then (Inr e, m)
      else if isValidExecutionTransition (ex_status e) s
      then (Inr (set_status now s msg e), m\<lparr>ms_executions := (ms_executions m)(k \<mapsto> set_status now s msg e)\<rparr>)
      else (Inl ErrInvalidStateTransition, m))" for s
    using g assms(3)
    by (auto simp: UpdateExecutionStatus_def UpdateExecutionStatus_check_def UpdateExecutionStatus_commit_def
        Execution_UpdateStatus_def Let_def)
  show ?thesis
  proof (cases st)
    case None
    have "\<not> isValidExecutionTransition (ex_status e) (ExOther '''')" "ex_status e \<noteq> ExOther ''''"
      using valid by (cases "ex_status e"; simp add: isValidExecutionTransition_def)+
    then show ?thesis using assms(1,2) None upd [of "ExOther ''''"]
      by (cases msg) (simp_all add: Exec_Patch_def)
  next
    case (Some s)
    show ?thesis
    proof (cases "IsValidExecutionStatus (exec_status_of s)")
      case True
      with Some assms(1,2) show ?thesis
        using upd [of "exec_status_of s"] exec_status_of_valid [of s] by (simp add: Exec_Patch_def Let_def)
    next
      case False
      with Some assms(1,2) show ?thesis
        using exec_status_of_valid [of s] by (simp add: Exec_Patch_def Let_def)
    qed
  qed
qed

text \<open>
  C12: a caller learns whether an execution of another project exists. For an id that is not an
  execution of the caller's project, the answer is 404 in any case, but its code is
  EXECUTION_NOT_FOUND exactly if no execution has the id, and CROSS_TENANT_BLOCKED otherwise; the
  same holds for PATCH and cancel with a well-formed body.
\<close>

theorem tenants_distinguishable:
  assumes "projectIDFromContext L c = Some caller" "parse_id L (wc_param c ''id'') = Some k"
    and "\<not> visible caller k m" and "r1 = Exec_GetByID L c m"
    and "r2 = fst (Exec_Patch L now c (Inr (Some ''failed'', msg)) m)" "r3 = fst (Exec_Cancel L now c m)"
  shows "reply_status r1 = 404 \<and> reply_status r2 = 404 \<and> reply_status r3 = 404
     \<and> {reply_code r1, reply_code r2, reply_code r3}
       = {if ms_executions m k = None then ''EXECUTION_NOT_FOUND'' else ''CROSS_TENANT_BLOCKED''}"
proof -
  have g: "GetExecution k caller m
      = Inl (if ms_executions m k = None then ErrExecutionNotFound else ErrCrossTenantBlocked)"
    using assms(3)
    by (cases "ms_executions m k")
      (auto simp: GetExecution_def Execution_GetByID_def Task_GetByID_def visible_def split: option.split)
  have "IsValidExecutionStatus (exec_status_of ''failed'')" by (simp add: exec_status_of_valid)
  then show ?thesis
    using assms(1,2) g unfolding assms(4-6)
    by (simp add: Exec_GetByID_def Exec_Patch_def Exec_Cancel_def CancelExecution_def
        UpdateExecutionStatus_def UpdateExecutionStatus_check_def Let_def)
qed

text \<open>A request of project 3, and one of project 4, for the execution 10.\<close>

definition sample_parse :: "string \<Rightarrow> uuid option" where
  "sample_parse s = (if s = ''x'' then Some 10 else if s = ''p'' then Some 3 else if s = ''q'' then Some 4 else None)"

definition sample_web :: web_lib where
  "sample_web = \<lparr>wl_auth = (sample_lib '''')\<lparr>al_uuid_parse := sample_parse\<rparr>, wl_rfc3339 = (\<lambda>_. ''''),
     wl_millis = (\<lambda>_. '''')\<rparr>"

definition sample_ctx :: "string \<Rightarrow> web_ctx" where
  "sample_ctx proj = \<lparr>gc_keys = Map.empty, gc_request = \<lambda>_. None, wc_param = (\<lambda>k. if k = ''id'' then ''x'' else ''''),
     wc_query = (\<lambda>_. None), wc_project = proj\<rparr>"

lemma sample_ctx_reads:
  "projectIDFromContext sample_web (sample_ctx ''p'') = Some 3"
  "projectIDFromContext sample_web (sample_ctx ''q'') = Some 4"
  "parse_id sample_web (wc_param (sample_ctx pr) ''id'') = Some 10"
  by (simp_all add: projectIDFromContext_def sample_web_def sample_ctx_def sample_parse_def)

definition sample_reviewed :: mem_store where
  "sample_reviewed = run_store [OpCreate sample_env 1 6 3, OpPatch 20 10 ExRunning None 3,
     OpPatch 21 10 ExReview None 3] sample_world"

lemma sample_reviewed_row:
  "\<exists>e. ms_executions sample_reviewed 10 = Some e \<and> ex_status e = ExReview"
  "visible 3 10 sample_reviewed" "\<not> visible 4 10 sample_reviewed"
  by (simp_all add: sample_reviewed_def visible_def exec_eval)

theorem Exec_Patch_correct_witness:
  "\<exists>e m. Exec_Patch sample_web 30 (sample_ctx ''p'') (Inr (Some ''completed'', None)) sample_reviewed = (Sent 200 e, m)
     \<and> ex_status e = ExCompleted
     \<and> Exec_Patch sample_web 30 (sample_ctx ''p'') (Inr (None, Some ''x'')) sample_reviewed
       = (mapError ErrInvalidStateTransition, sample_reviewed)"
proof -
  obtain e where e: "ms_executions sample_reviewed 10 = Some e" "ex_status e = ExReview"
    using sample_reviewed_row(1) by blast
  have inv: "exec_rows_inv (ms_executions sample_reviewed)"
    unfolding sample_reviewed_def
    by (rule run_store_inv) (simp_all add: sample_env_def sample_world_def exec_rows_inv_def NewMemoryStore_def)
  note P = Exec_Patch_correct [OF sample_ctx_reads(1,3) e(1) sample_reviewed_row(2) inv, where now = 30]
  have "exec_status_of ''completed'' = ExCompleted" by (simp add: exec_status_of_def AllExecutionStatuses_def)
  then show ?thesis
    using P [of "Some ''completed''" None] P [of None "Some ''x''"] e(2)
    by (simp add: isValidExecutionTransition_def)
qed

theorem tenants_distinguishable_witness:
  "reply_code (Exec_GetByID sample_web (sample_ctx ''q'') sample_reviewed) = ''CROSS_TENANT_BLOCKED''
   \<and> reply_code (Exec_GetByID sample_web (sample_ctx ''q'') sample_world) = ''EXECUTION_NOT_FOUND''"
proof -
  have "\<not> visible 4 10 sample_world" "ms_executions sample_world 10 = None"
    by (simp_all add: visible_def sample_world_def NewMemoryStore_def)
  moreover have "ms_executions sample_reviewed 10 \<noteq> None" using sample_reviewed_row(1) by auto
  ultimately show ?thesis
    using tenants_distinguishable [OF sample_ctx_reads(2,3) _ refl refl refl, of sample_reviewed]
      tenants_distinguishable [OF sample_ctx_reads(2,3) _ refl refl refl, of sample_world] sample_reviewed_row(3)
    by auto
qed

end
