(* ===== verification/Agent_Api.thy ===== *)
theory Agent_Api
  imports Web Agent_Service Assignment_Service Deliverable_Service
begin

text \<open>
  The handlers of src/src/internal/handler for agents (agent.go), capabilities (capability.go),
  assignments (assignment.go) and deliverables (deliverable.go), over their services.
\<close>

section \<open>Agents (agent.go)\<close>

record create_agent_body =
  cab_name :: string
  cab_role :: string
  cab_capabilities :: "string list"
  cab_metadata :: string

record agent_response =
  agr_id :: string
  agr_project :: string
  agr_name :: string
  agr_role :: string
  agr_status :: string
  agr_capabilities :: "string list"
  agr_last_active :: "string option"
  agr_metadata :: string
  agr_version :: int
  agr_retired_at :: "string option"
  agr_created :: string
  agr_updated :: string

definition toAgentResponse :: "web_lib \<Rightarrow> agent \<Rightarrow> agent_response" where
  "toAgentResponse L a =
     \<lparr>agr_id = id_str L (ag_id a), agr_project = id_str L (ag_project a), agr_name = ag_name a,
      agr_role = ag_role a, agr_status = agent_status_str (ag_status a),
      agr_capabilities = ag_capabilities a, agr_last_active = map_option (wl_millis L) (ag_last_active a),
      agr_metadata = ag_metadata a, agr_version = ag_version a,
      agr_retired_at = map_option (wl_millis L) (ag_retired_at a),
      agr_created = wl_millis L (ag_created a), agr_updated = wl_millis L (ag_updated a)\<rparr>"

definition project_required :: service_error where
  "project_required = bad_request ''VALIDATION_ERROR'' ''project_id is required''"

definition header_required :: service_error where
  "header_required = bad_request ''MISSING_PROJECT_HEADER'' ''X-Project-ID header is required for this request''"

definition invalid_agent_id :: service_error where
  "invalid_agent_id = bad_request ''VALIDATION_ERROR'' ''Invalid agent id''"

text \<open>The id of the route and the caller's project, which must not be the nil id.\<close>

definition agent_target :: "web_lib \<Rightarrow> web_ctx \<Rightarrow> service_error + uuid \<times> uuid" where
  "agent_target L c =
     (case parse_id L (wc_param c ''id'') of
        None \<Rightarrow> Inl invalid_agent_id
      | Some k \<Rightarrow>
          (case projectIDFromContext L c of
             None \<Rightarrow> Inl header_required
           | Some caller \<Rightarrow> if caller = uuid_nil then Inl header_required else Inr (k, caller)))"

definition Agent_Create_handler ::
  "web_lib \<Rightarrow> go_time \<Rightarrow> uuid \<Rightarrow> uuid list \<Rightarrow> web_ctx \<Rightarrow> bind_error + create_agent_body \<Rightarrow> mem_store
   \<Rightarrow> agent_response reply \<times> mem_store" where
  "Agent_Create_handler L now k ks c body m =
     (case body of
        Inl e \<Rightarrow> (respondError c (bad_request ''VALIDATION_ERROR'' (''Invalid JSON body: '' @ bind_text e)), m)
      | Inr req \<Rightarrow>
      (case projectIDFromContext L c of
        None \<Rightarrow> (respondError c project_required, m)
      | Some p \<Rightarrow>
      (case CreateAgent now k ks \<lparr>ca_project = p, ca_name = TrimSpace (cab_name req),
               ca_role = TrimSpace (cab_role req), ca_capabilities = cab_capabilities req,
               ca_metadata = cab_metadata req\<rparr> m of
         (Inl e, m1) \<Rightarrow> (respondError c e, m1)
       | (Inr a, m1) \<Rightarrow> (Sent 201 (toAgentResponse L a), m1))))"

text \<open>The body of a list: the agents, whether there are more, and the next cursor.\<close>

definition Agent_List_handler ::
  "web_lib \<Rightarrow> web_ctx \<Rightarrow> uuid list \<Rightarrow> mem_store \<Rightarrow> (agent_response list \<times> bool \<times> string) reply" where
  "Agent_List_handler L c ks m =
     (if Query c ''project_id'' \<noteq> '''' \<and> parse_id L (Query c ''project_id'') = None
      then respondError c (bad_request ''VALIDATION_ERROR'' ''Invalid project_id query parameter'')
      else (case projectIDFromContext L c of
        None \<Rightarrow> respondError c project_required
      | Some p \<Rightarrow>
      (case ListAgents (id_str L)
              \<lparr>la_project = p, la_status = Query c ''status'', la_capability = Query c ''capability'',
               la_include_retired = equal_fold (Query c ''include_retired'') ''true'',
               la_cursor = Query c ''cursor'', la_limit = fst (Atoi (Query c ''limit''))\<rparr> ks m of
         Inl e \<Rightarrow> respondError c e
       | Inr page \<Rightarrow> Sent 200 (map (toAgentResponse L) (ap_data page), ap_more page, ap_next page))))"

definition Agent_Get_handler :: "web_lib \<Rightarrow> web_ctx \<Rightarrow> mem_store \<Rightarrow> agent_response reply" where
  "Agent_Get_handler L c m =
     (case agent_target L c of
        Inl e \<Rightarrow> respondError c e
      | Inr (k, caller) \<Rightarrow>
          (case GetAgent k caller m of
             Inl e \<Rightarrow> respondError c e | Inr a \<Rightarrow> Sent 200 (toAgentResponse L a)))"

definition Agent_Update_handler ::
  "web_lib \<Rightarrow> web_ctx \<Rightarrow> bind_error + update_agent_request \<Rightarrow> mem_store \<Rightarrow> agent_response reply \<times> mem_store"
where
  "Agent_Update_handler L c body m =
     (case agent_target L c of
        Inl e \<Rightarrow> (respondError c e, m)
      | Inr (k, caller) \<Rightarrow>
      (case body of
        Inl e \<Rightarrow> (respondError c (bad_request ''VALIDATION_ERROR'' (''Invalid JSON body: '' @ bind_text e)), m)
      | Inr req \<Rightarrow>
      (case UpdateAgent k caller req m of
         (Inl e, m1) \<Rightarrow> (respondError c e, m1)
       | (Inr a, m1) \<Rightarrow> (Sent 200 (toAgentResponse L a), m1))))"

text \<open>The parameter force reaches the service, which does not look at it.\<close>

definition Agent_Delete_handler ::
  "web_lib \<Rightarrow> go_time \<Rightarrow> web_ctx \<Rightarrow> mem_store \<Rightarrow> unit reply \<times> mem_store" where
  "Agent_Delete_handler L now c m =
     (case agent_target L c of
        Inl e \<Rightarrow> (respondError c e, m)
      | Inr (k, caller) \<Rightarrow>
          (case RetireAgent now k caller m of
             (Inl e, m1) \<Rightarrow> (respondError c e, m1) | (Inr _, m1) \<Rightarrow> (Bare 204, m1)))"

section \<open>Capabilities (capability.go)\<close>

record capability_entry =
  ce_name :: string
  ce_display_name :: string
  ce_category :: string
  ce_granted_at :: string
  ce_proficiency :: "int option"
  ce_granted_by :: "string option"

definition ListAgentCapabilities_handler ::
  "web_lib \<Rightarrow> web_ctx \<Rightarrow> mem_store \<Rightarrow> capability_entry list reply" where
  "ListAgentCapabilities_handler L c m =
     (case agent_target L c of
        Inl e \<Rightarrow> respondError c e
      | Inr (k, caller) \<Rightarrow>
          (case ListAgentCapabilities k caller m of
             Inl e \<Rightarrow> respondError c e
           | Inr caps \<Rightarrow> Sent 200 (map (\<lambda>ac. \<lparr>ce_name = acv_name ac, ce_display_name = acv_display_name ac,
                 ce_category = acv_category ac, ce_granted_at = wl_millis L (acv_granted_at ac),
                 ce_proficiency = acv_proficiency ac,
                 ce_granted_by = map_option (id_str L) (acv_granted_by ac)\<rparr>) caps)))"

definition ListCatalogCapabilities_handler ::
  "web_ctx \<Rightarrow> string list \<Rightarrow> mem_store \<Rightarrow> (capability_row list \<times> bool \<times> string) reply" where
  "ListCatalogCapabilities_handler c ks m =
     (case ListCapabilities \<lparr>cf_category = Query c ''category'', cf_cursor = Query c ''cursor'',
              cf_limit = fst (Atoi (Query c ''limit''))\<rparr> ks m of
        Inl e \<Rightarrow> respondError c e
      | Inr page \<Rightarrow> Sent 200 (cp_data page, cp_more page, cp_next page))"

section \<open>Assignments (assignment.go)\<close>

record assign_task_body =
  atb_agent :: string
  atb_capabilities :: "string list"
  atb_notes :: string

definition invalid_request :: "string \<Rightarrow> 'a reply" where
  "invalid_request msg = writeError 400 ''VALIDATION_ERROR'' msg"

definition malformed_body :: "'a reply" where
  "malformed_body = writeError 400 ''INVALID_JSON'' ''Malformed request body''"

text \<open>The user is read the way \<open>userIDFromContext\<close> reads it, written out once more in the code.\<close>

definition AssignTask_handler ::
  "web_lib \<Rightarrow> assign_env \<Rightarrow> web_ctx \<Rightarrow> bind_error + assign_task_body \<Rightarrow> mem_store
   \<Rightarrow> assignment_result reply \<times> mem_store" where
  "AssignTask_handler L env c body m =
     (case parse_id L (wc_param c ''id'') of
        None \<Rightarrow> (invalid_request ''Invalid Task ID'', m)
      | Some k \<Rightarrow>
      (case body of
        Inl e \<Rightarrow> (malformed_body, m)
      | Inr req \<Rightarrow>
      if atb_agent req = '''' then (invalid_request ''agent_id is required'', m)
      else (case parse_id L (atb_agent req) of
        None \<Rightarrow> (invalid_request ''Invalid agent_id format'', m)
      | Some agent \<Rightarrow>
      if MaxAssignmentNotesBytes < int (length (atb_notes req))
      then (invalid_request ''notes exceeds 1 KiB (1024 bytes)'', m)
      else (case projectIDFromContext L c of
        None \<Rightarrow> (missing_project, m)
      | Some caller \<Rightarrow>
      (case AssignTaskToAgent (id_str L) env k agent (atb_notes req) (userIDFromContext L c)
              (atb_capabilities req) caller m of
         (Inl e, m1) \<Rightarrow> (writeServiceError e, m1) | (Inr r, m1) \<Rightarrow> (Sent 200 r, m1))))))"

definition ListHistory_handler ::
  "web_lib \<Rightarrow> go_time \<Rightarrow> web_ctx \<Rightarrow> mem_store \<Rightarrow> (assignment_event list \<times> nat \<times> string) reply" where
  "ListHistory_handler L now c m =
     (case parse_id L (wc_param c ''id'') of
        None \<Rightarrow> invalid_request ''Invalid Task ID''
      | Some k \<Rightarrow>
      (case projectIDFromContext L c of
        None \<Rightarrow> missing_project
      | Some caller \<Rightarrow>
      (case ListAssignmentHistory k caller m of
         Inl e \<Rightarrow> writeServiceError e
       | Inr evs \<Rightarrow> Sent 200 (evs, length evs, wl_rfc3339 L now))))"

section \<open>Deliverables (deliverable.go)\<close>

definition maxDeliverableRequestBytes :: int where
  "maxDeliverableRequestBytes = MaxDeliverableContentBytes + 8 * 1024"

record create_deliverable_body =
  cdb_task :: string
  cdb_agent :: string
  cdb_title :: string
  cdb_content :: string

record update_deliverable_body =
  udb_title :: string
  udb_content :: string

record deliverable_response =
  dlr_id :: string
  dlr_task :: string
  dlr_agent :: string
  dlr_title :: string
  dlr_content :: string
  dlr_version :: int
  dlr_created :: string
  dlr_updated :: string

record deliverable_version_response =
  dvr_id :: string
  dvr_deliverable :: string
  dvr_version :: int
  dvr_title :: string
  dvr_content :: string
  dvr_created :: string
  dvr_by :: "string option"

definition toDeliverableResponse :: "web_lib \<Rightarrow> deliverable \<Rightarrow> deliverable_response" where
  "toDeliverableResponse L d =
     \<lparr>dlr_id = id_str L (d_id d), dlr_task = id_str L (d_task d), dlr_agent = id_str L (d_agent d),
      dlr_title = d_title d, dlr_content = d_content d, dlr_version = d_version d,
      dlr_created = wl_rfc3339 L (d_created d), dlr_updated = wl_rfc3339 L (d_updated d)\<rparr>"

definition toDeliverableVersionResponse :: "web_lib \<Rightarrow> deliverable_version \<Rightarrow> deliverable_version_response" where
  "toDeliverableVersionResponse L v =
     \<lparr>dvr_id = id_str L (dv_id v), dvr_deliverable = id_str L (dv_deliverable v), dvr_version = dv_version v,
      dvr_title = dv_title v, dvr_content = dv_content v, dvr_created = wl_rfc3339 L (dv_created v),
      dvr_by = map_option (id_str L) (dv_by v)\<rparr>"

text \<open>\<open>bind\<close> is ShouldBindJSON over a body cut off by MaxBytesReader at the limit it is given.\<close>

definition bind_failed :: "bind_error \<Rightarrow> 'a reply" where
  "bind_failed e =
     (if isMaxBytesError e
      then writeError 413 ''PAYLOAD_TOO_LARGE'' ''Request body exceeds the maximum allowed size''
      else malformed_body)"

definition Deliverable_Create_handler ::
  "web_lib \<Rightarrow> deliv_env \<Rightarrow> web_ctx \<Rightarrow> (int \<Rightarrow> bind_error + create_deliverable_body) \<Rightarrow> mem_store
   \<Rightarrow> deliverable_response reply \<times> mem_store" where
  "Deliverable_Create_handler L env c bind m =
     (case bind maxDeliverableRequestBytes of
        Inl e \<Rightarrow> (bind_failed e, m)
      | Inr req \<Rightarrow>
      (case projectIDFromContext L c of
        None \<Rightarrow> (missing_project, m)
      | Some caller \<Rightarrow>
      (case parse_id L (cdb_task req) of
        None \<Rightarrow> (invalid_request ''Invalid task_id'', m)
      | Some task \<Rightarrow>
      (case parse_id L (cdb_agent req) of
        None \<Rightarrow> (invalid_request ''Invalid agent_id'', m)
      | Some agent \<Rightarrow>
      (case CreateDeliverable env \<lparr>cd_task = task, cd_agent = agent, cd_title = cdb_title req,
              cd_content = cdb_content req, cd_by = userIDFromContext L c\<rparr> caller m of
         (Inl e, m1) \<Rightarrow> (writeServiceError e, m1)
       | (Inr d, m1) \<Rightarrow> (Sent 201 (toDeliverableResponse L d), m1))))))"

definition Deliverable_List_handler ::
  "web_lib \<Rightarrow> web_ctx \<Rightarrow> uuid list \<Rightarrow> mem_store \<Rightarrow> deliverable_page reply" where
  "Deliverable_List_handler L c ks m =
     (case query_id L c ''task_id'' of
        None \<Rightarrow> invalid_request ''Invalid task_id''
      | Some task \<Rightarrow>
      (case query_id L c ''agent_id'' of
        None \<Rightarrow> invalid_request ''Invalid agent_id''
      | Some agent \<Rightarrow>
      (case query_limit c of
        None \<Rightarrow> invalid_request ''Invalid limit''
      | Some limit \<Rightarrow>
      (case query_id L c ''cursor'' of
        None \<Rightarrow> invalid_request ''Invalid cursor''
      | Some cursor \<Rightarrow>
      (case projectIDFromContext L c of
        None \<Rightarrow> missing_project
      | Some caller \<Rightarrow>
      (case ListDeliverables \<lparr>df_task = task, df_agent = agent, df_cursor = cursor, df_limit = limit\<rparr>
              caller ks m of
         Inl e \<Rightarrow> writeServiceError e | Inr page \<Rightarrow> Sent 200 page))))))"

text \<open>The id of the route and the caller's project.\<close>

definition deliverable_target :: "web_lib \<Rightarrow> web_ctx \<Rightarrow> 'a reply + uuid \<times> uuid" where
  "deliverable_target L c =
     (case parse_id L (wc_param c ''id'') of
        None \<Rightarrow> Inl (invalid_request ''Invalid Deliverable ID'')
      | Some k \<Rightarrow>
          (case projectIDFromContext L c of
             None \<Rightarrow> Inl missing_project | Some caller \<Rightarrow> Inr (k, caller)))"

definition Deliverable_Get_handler :: "web_lib \<Rightarrow> web_ctx \<Rightarrow> mem_store \<Rightarrow> deliverable_response reply" where
  "Deliverable_Get_handler L c m =
     (case deliverable_target L c of
        Inl r \<Rightarrow> r
      | Inr (k, caller) \<Rightarrow>
          (case GetDeliverable k caller m of
             Inl e \<Rightarrow> writeServiceError e | Inr d \<Rightarrow> Sent 200 (toDeliverableResponse L d)))"

definition Deliverable_Update_handler ::
  "web_lib \<Rightarrow> deliv_env \<Rightarrow> web_ctx \<Rightarrow> (int \<Rightarrow> bind_error + update_deliverable_body) \<Rightarrow> mem_store
   \<Rightarrow> deliverable_response reply \<times> mem_store" where
  "Deliverable_Update_handler L env c bind m =
     (case parse_id L (wc_param c ''id'') of
        None \<Rightarrow> (invalid_request ''Invalid Deliverable ID'', m)
      | Some k \<Rightarrow>
      (case bind maxDeliverableRequestBytes of
        Inl e \<Rightarrow> (bind_failed e, m)
      | Inr req \<Rightarrow>
      (case projectIDFromContext L c of
        None \<Rightarrow> (missing_project, m)
      | Some caller \<Rightarrow>
      (case UpdateDeliverable env k \<lparr>ud_title = udb_title req, ud_content = udb_content req,
              ud_by = userIDFromContext L c\<rparr> caller m of
         (Inl e, m1) \<Rightarrow> (writeServiceError e, m1)
       | (Inr d, m1) \<Rightarrow> (Sent 200 (toDeliverableResponse L d), m1)))))"

text \<open>\<open>kss\<close> gives the order in which the versions of a deliverable are visited.\<close>

definition Deliverable_ListVersions_handler ::
  "web_lib \<Rightarrow> web_ctx \<Rightarrow> (uuid \<Rightarrow> (uuid \<times> int) list) \<Rightarrow> mem_store
   \<Rightarrow> deliverable_version_response list reply" where
  "Deliverable_ListVersions_handler L c kss m =
     (case deliverable_target L c of
        Inl r \<Rightarrow> r
      | Inr (k, caller) \<Rightarrow>
          (case ListDeliverableVersions k caller kss m of
             Inl e \<Rightarrow> writeServiceError e
           | Inr vs \<Rightarrow> Sent 200 (map (toDeliverableVersionResponse L) vs)))"

end
