(* ===== verification/Platform_Api.thy ===== *)
theory Platform_Api
  imports Web Project_Service Platform_Services
begin

text \<open>
  The remaining handlers of src/src/internal/handler over their services: projects (project.go),
  tasks (task.go), users (user.go), sessions (auth.go), reviews (review.go), deployments
  (deployment.go), webhooks (webhook.go). A handler that can panic gives an option, None for the
  panic, which the recovery of the router turns into a status 500.
\<close>

definition bad_param :: "string \<Rightarrow> 'a reply" where
  "bad_param msg = writeError 400 ''VALIDATION_ERROR'' msg"

definition bad_json :: "'a reply" where
  "bad_json = writeError 400 ''INVALID_JSON'' ''Malformed request body''"

text \<open>The number in a query with a default; errors of the reader are dropped.\<close>

definition query_num :: "web_ctx \<Rightarrow> string \<Rightarrow> string \<Rightarrow> int" where
  "query_num c k d = fst (Atoi (DefaultQuery c k d))"

section \<open>Projects (project.go)\<close>

record create_project_body =
  cpb_name :: string
  cpb_description :: string
  cpb_template :: string
  cpb_agents :: "uuid list"

record update_project_body =
  upb_name :: string
  upb_description :: string
  upb_status :: string

record project_response =
  prr_id :: string
  prr_name :: string
  prr_description :: string
  prr_owner :: string
  prr_status :: string
  prr_progress :: int
  prr_active_agents :: int
  prr_created :: string
  prr_updated :: string

fun project_status_str :: "project_status \<Rightarrow> string" where
  "project_status_str ProjectInitializing = ''initializing''"
| "project_status_str ProjectInProgress = ''in_progress''"
| "project_status_str ProjectCompleted = ''completed''"
| "project_status_str ProjectArchived = ''archived''"
| "project_status_str (ProjectOther s) = s"

definition project_status_of :: "string \<Rightarrow> project_status" where
  "project_status_of s =
     (case List.find (\<lambda>st. project_status_str st = s)
             [ProjectInitializing, ProjectInProgress, ProjectCompleted, ProjectArchived] of
        Some st \<Rightarrow> st | None \<Rightarrow> ProjectOther s)"

definition toProjectResponse :: "web_lib \<Rightarrow> project \<Rightarrow> project_response" where
  "toProjectResponse L p =
     \<lparr>prr_id = id_str L (pr_id p), prr_name = pr_name p, prr_description = pr_description p,
      prr_owner = id_str L (pr_owner p), prr_status = project_status_str (pr_status p),
      prr_progress = pr_progress p, prr_active_agents = pr_active_agents p,
      prr_created = wl_rfc3339 L (pr_created p), prr_updated = wl_rfc3339 L (pr_updated p)\<rparr>"

definition Project_Create_handler ::
  "web_lib \<Rightarrow> go_time \<Rightarrow> uuid \<Rightarrow> web_ctx \<Rightarrow> bind_error + create_project_body \<Rightarrow> mem_store
   \<Rightarrow> project_response reply \<times> mem_store" where
  "Project_Create_handler L now k c body m =
     (case body of
        Inl e \<Rightarrow> (bad_json, m)
      | Inr req \<Rightarrow>
      (case gc_keys c ''user_id'' of
        None \<Rightarrow> (writeError 401 ''UNAUTHORIZED'' ''Authentication required'', m)
      | Some uid \<Rightarrow>
      (case parse_id L uid of
        None \<Rightarrow> (writeError 401 ''UNAUTHORIZED'' ''Invalid user identity'', m)
      | Some owner \<Rightarrow>
      (case CreateProject now k \<lparr>cp_name = cpb_name req, cp_description = cpb_description req,
              cp_template = cpb_template req, cp_owner = owner, cp_agents = cpb_agents req\<rparr> m of
         (Inl e, m1) \<Rightarrow> (writeServiceError e, m1)
       | (Inr p, m1) \<Rightarrow> (Sent 201 (toProjectResponse L p), m1)))))"

definition Project_List_handler ::
  "web_lib \<Rightarrow> (string \<Rightarrow> string) \<Rightarrow> web_ctx \<Rightarrow> uuid list \<Rightarrow> uuid list \<Rightarrow> mem_store
   \<Rightarrow> (project_response list \<times> pagination) reply option \<times> mem_store" where
  "Project_List_handler L to_lower c ks aks m =
     (case ListProjects to_lower
             \<lparr>pjf_status = (if Query c ''status'' \<noteq> '''' then project_status_of (Query c ''status'')
                            else ProjectOther ''''),
              pjf_owner = uuid_nil, pjf_search = Query c ''search'',
              pjf_page = query_num c ''page'' ''1'', pjf_limit = query_num c ''limit'' ''20''\<rparr> ks aks m of
        (None, m1) \<Rightarrow> (None, m1)
      | (Some (ps, pg), m1) \<Rightarrow> (Some (Sent 200 (map (toProjectResponse L) ps, pg)), m1))"

definition Project_Get_handler :: "web_lib \<Rightarrow> web_ctx \<Rightarrow> mem_store \<Rightarrow> project_response reply" where
  "Project_Get_handler L c m =
     (case parse_id L (wc_param c ''id'') of
        None \<Rightarrow> bad_param ''Invalid Project ID''
      | Some k \<Rightarrow>
          (case GetProject k m of
             Inl e \<Rightarrow> writeServiceError e | Inr p \<Rightarrow> Sent 200 (toProjectResponse L p)))"

definition Project_Update_handler ::
  "web_lib \<Rightarrow> go_time \<Rightarrow> web_ctx \<Rightarrow> bind_error + update_project_body \<Rightarrow> mem_store
   \<Rightarrow> project_response reply \<times> mem_store" where
  "Project_Update_handler L now c body m =
     (case parse_id L (wc_param c ''id'') of
        None \<Rightarrow> (bad_param ''Invalid Project ID'', m)
      | Some k \<Rightarrow>
      (case body of
        Inl e \<Rightarrow> (bad_json, m)
      | Inr req \<Rightarrow>
      (case UpdateProject now k \<lparr>up_name = upb_name req, up_description = upb_description req,
              up_status = (if upb_status req \<noteq> '''' then project_status_of (upb_status req)
                           else ProjectOther '''')\<rparr> m of
         (Inl e, m1) \<Rightarrow> (writeServiceError e, m1)
       | (Inr p, m1) \<Rightarrow> (Sent 200 (toProjectResponse L p), m1))))"

definition Project_Delete_handler ::
  "web_lib \<Rightarrow> web_ctx \<Rightarrow> mem_store \<Rightarrow> unit reply \<times> mem_store" where
  "Project_Delete_handler L c m =
     (case parse_id L (wc_param c ''id'') of
        None \<Rightarrow> (bad_param ''Invalid Project ID'', m)
      | Some k \<Rightarrow>
          (case DeleteProject k m of
             (Inl e, m1) \<Rightarrow> (writeServiceError e, m1) | (Inr _, m1) \<Rightarrow> (Bare 204, m1)))"

definition Project_Decompose_handler ::
  "web_lib \<Rightarrow> go_time \<Rightarrow> uuid list \<Rightarrow> web_ctx \<Rightarrow> mem_store \<Rightarrow> unit reply \<times> mem_store" where
  "Project_Decompose_handler L now ids c m =
     (case parse_id L (wc_param c ''id'') of
        None \<Rightarrow> (bad_param ''Invalid Project ID'', m)
      | Some k \<Rightarrow>
          (case DecomposeProject now ids k m of
             (Inl e, m1) \<Rightarrow> (writeServiceError e, m1) | (Inr _, m1) \<Rightarrow> (Bare 202, m1)))"

section \<open>Tasks (task.go)\<close>

record create_task_body =
  ctb_title :: string
  ctb_description :: string
  ctb_priority :: string

record update_task_body =
  utb_title :: string
  utb_description :: string
  utb_priority :: string
  utb_assignee :: string

record task_response =
  tr_id :: string
  tr_project :: string
  tr_title :: string
  tr_description :: string
  tr_status :: string
  tr_priority :: string
  tr_assignee :: string
  tr_position :: int
  tr_created :: string
  tr_updated :: string

fun priority_str :: "task_priority \<Rightarrow> string" where
  "priority_str PriorityLow = ''low''"
| "priority_str PriorityMedium = ''medium''"
| "priority_str PriorityHigh = ''high''"
| "priority_str PriorityCritical = ''critical''"
| "priority_str (PriorityOther s) = s"

definition priority_of :: "string \<Rightarrow> task_priority" where
  "priority_of s =
     (case List.find (\<lambda>p. priority_str p = s) [PriorityLow, PriorityMedium, PriorityHigh, PriorityCritical] of
        Some p \<Rightarrow> p | None \<Rightarrow> PriorityOther s)"

definition task_status_of :: "string \<Rightarrow> task_status" where
  "task_status_of s =
     (case List.find (\<lambda>st. task_status_str st = s)
             [TaskBacklog, TaskTodo, TaskReady, TaskInProgress, TaskReview, TaskDone, TaskBlocked, TaskOpen] of
        Some st \<Rightarrow> st | None \<Rightarrow> TaskOther s)"

definition toTaskResponse :: "web_lib \<Rightarrow> task \<Rightarrow> task_response" where
  "toTaskResponse L t =
     \<lparr>tr_id = id_str L (t_id t), tr_project = id_str L (t_project t), tr_title = t_title t,
      tr_description = t_description t, tr_status = task_status_str (t_status t),
      tr_priority = priority_str (t_priority t),
      tr_assignee = (if t_assignee t \<noteq> uuid_nil then id_str L (t_assignee t) else ''''),
      tr_position = t_position t, tr_created = wl_rfc3339 L (t_created t),
      tr_updated = wl_rfc3339 L (t_updated t)\<rparr>"

definition Task_Create_handler ::
  "web_lib \<Rightarrow> go_time \<Rightarrow> uuid \<Rightarrow> web_ctx \<Rightarrow> bind_error + create_task_body \<Rightarrow> mem_store
   \<Rightarrow> task_response reply \<times> mem_store" where
  "Task_Create_handler L now k c body m =
     (case parse_id L (wc_param c ''id'') of
        None \<Rightarrow> (bad_param ''Invalid Project ID'', m)
      | Some p \<Rightarrow>
      (case body of
        Inl e \<Rightarrow> (bad_json, m)
      | Inr req \<Rightarrow>
      (case CreateTask now k \<lparr>ct_project = p, ct_title = ctb_title req, ct_description = ctb_description req,
              ct_priority = (if ctb_priority req \<noteq> '''' then priority_of (ctb_priority req)
                             else PriorityMedium)\<rparr> m of
         (Inl e, m1) \<Rightarrow> (writeServiceError e, m1)
       | (Inr t, m1) \<Rightarrow> (Sent 201 (toTaskResponse L t), m1))))"

definition Task_List_handler ::
  "web_lib \<Rightarrow> web_ctx \<Rightarrow> uuid list \<Rightarrow> mem_store \<Rightarrow> (task_response list \<times> pagination) reply option" where
  "Task_List_handler L c ks m =
     (case parse_id L (wc_param c ''id'') of
        None \<Rightarrow> Some (bad_param ''Invalid Project ID'')
      | Some p \<Rightarrow>
          map_option (\<lambda>(ts, pg). Sent 200 (map (toTaskResponse L) ts, pg))
            (ListProjectTasks p (task_status_of (Query c ''status'')) (query_num c ''page'' ''1'')
               (query_num c ''limit'' ''20'') ks m))"

definition Task_Get_handler :: "web_lib \<Rightarrow> web_ctx \<Rightarrow> mem_store \<Rightarrow> task_response reply" where
  "Task_Get_handler L c m =
     (case parse_id L (wc_param c ''id'') of
        None \<Rightarrow> bad_param ''Invalid Task ID''
      | Some k \<Rightarrow>
          (case GetTask k m of
             Inl e \<Rightarrow> writeServiceError e | Inr t \<Rightarrow> Sent 200 (toTaskResponse L t)))"

definition Task_Update_handler ::
  "web_lib \<Rightarrow> go_time \<Rightarrow> web_ctx \<Rightarrow> bind_error + update_task_body \<Rightarrow> mem_store
   \<Rightarrow> task_response reply \<times> mem_store" where
  "Task_Update_handler L now c body m =
     (case parse_id L (wc_param c ''id'') of
        None \<Rightarrow> (bad_param ''Invalid Task ID'', m)
      | Some k \<Rightarrow>
      (case body of
        Inl e \<Rightarrow> (bad_json, m)
      | Inr req \<Rightarrow>
      (case (if utb_assignee req \<noteq> '''' then parse_id L (utb_assignee req) else Some uuid_nil) of
        None \<Rightarrow> (bad_param ''Invalid assignee_id format'', m)
      | Some assignee \<Rightarrow>
      (case UpdateTask now k \<lparr>ut_title = utb_title req, ut_description = utb_description req,
              ut_priority = (if utb_priority req \<noteq> '''' then priority_of (utb_priority req) else PriorityNone),
              ut_assignee = assignee\<rparr> m of
         (Inl e, m1) \<Rightarrow> (writeServiceError e, m1)
       | (Inr t, m1) \<Rightarrow> (Sent 200 (toTaskResponse L t), m1)))))"

definition Task_Delete_handler :: "web_lib \<Rightarrow> web_ctx \<Rightarrow> mem_store \<Rightarrow> unit reply \<times> mem_store" where
  "Task_Delete_handler L c m =
     (case parse_id L (wc_param c ''id'') of
        None \<Rightarrow> (bad_param ''Invalid Task ID'', m)
      | Some k \<Rightarrow>
          (case DeleteTask k m of
             (Inl e, m1) \<Rightarrow> (writeServiceError e, m1) | (Inr _, m1) \<Rightarrow> (Bare 204, m1)))"

definition Task_UpdateStatus_handler ::
  "web_lib \<Rightarrow> go_time \<Rightarrow> web_ctx \<Rightarrow> bind_error + string \<Rightarrow> mem_store \<Rightarrow> task_response reply \<times> mem_store" where
  "Task_UpdateStatus_handler L now c body m =
     (case parse_id L (wc_param c ''id'') of
        None \<Rightarrow> (bad_param ''Invalid Task ID'', m)
      | Some k \<Rightarrow>
      (case body of
        Inl e \<Rightarrow> (bad_json, m)
      | Inr st \<Rightarrow>
      if st = '''' then (bad_param ''Status is required'', m)
      else (case UpdateTaskStatus now k (task_status_of st) m of
         (Inl e, m1) \<Rightarrow> (writeServiceError e, m1)
       | (Inr t, m1) \<Rightarrow> (Sent 200 (toTaskResponse L t), m1))))"

section \<open>Pages from outside\<close>

lemma length_range_values: "length (range_values f ks) \<le> length ks"
  by (induction ks) (auto simp: range_values_def List.map_filter_simps split: option.split)

text \<open>
  C16: the page number of a request is taken as it is. For a list of tasks with the default limit
  and fewer than 2^62 tasks, the handler panics exactly when twenty times the number before the page
  number, which is clamped to 63 bits, wraps below zero; so it does for every page number of 63 bits
  that is the greatest one or does not fit.
\<close>

theorem huge_page_panics:
  assumes "parse_id L (wc_param c ''id'') = Some p" "wc_query c ''limit'' = None"
    and "wc_query c ''page'' = Some s" "s \<noteq> ''''" "list_all is_digit s" "length ks < 2 ^ 62"
  shows "(Task_List_handler L c ks m = None
          \<longleftrightarrow> wrap64 ((max 1 (min (read_digits s) max_int64) - 1) * 20) < 0)
      \<and> (max_int64 \<le> read_digits s \<longrightarrow> Task_List_handler L c ks m = None)"
proof -
  have limit: "query_num c ''limit'' ''20'' = 20"
    using Atoi_digits [of "''20''"] assms(2)
    by (simp add: query_num_def DefaultQuery_def is_digit_def read_digits_def digit_value_def)
  have page: "query_num c ''page'' ''1'' = min (read_digits s) max_int64"
    using Atoi_clamped [OF assms(4,5)] assms(3) by (simp add: query_num_def DefaultQuery_def)
  let ?pg = "max 1 (min (read_digits s) max_int64)"
  have pg: "page_or_default (min (read_digits s) max_int64) = ?pg" "1 \<le> ?pg" "is_int64 ?pg"
    by (auto simp: page_or_default_def is_int64_def)
  have panics: "page_window ?pg 20 xs = None \<longleftrightarrow> wrap64 ((?pg - 1) * 20) < 0" if "length xs \<le> length ks" for xs :: "task list"
    using page_window_panics [OF pg(2,3), of 20 xs] that assms(6) by simp
  have handler: "Task_List_handler L c ks m = None
      \<longleftrightarrow> ListProjectTasks p (task_status_of (Query c ''status'')) (min (read_digits s) max_int64) 20 ks m = None"
    using assms(1) by (simp add: Task_List_handler_def page limit)
  let ?f = "\<lparr>tf_project = p, tf_status = task_status_of (Query c ''status''), tf_assignee = uuid_nil,
      tf_page = ?pg, tf_limit = 20\<rparr>"
  have "ListProjectTasks p (task_status_of (Query c ''status'')) (min (read_digits s) max_int64) 20 ks m = None
      \<longleftrightarrow> Task_List ?f ks m = None"
    using pg(1) by (simp add: ListProjectTasks_def limit_or_default_def Let_def split: option.split)
  moreover have "length (filter (task_matches ?f) (range_values (ms_tasks m) ks)) \<le> length ks"
    by (rule le_trans [OF length_filter_le]) (rule length_range_values)
  then have "Task_List ?f ks m = None \<longleftrightarrow> wrap64 ((?pg - 1) * 20) < 0"
    using panics by (simp add: Task_List_def Let_def)
  ultimately have eq: "Task_List_handler L c ks m = None \<longleftrightarrow> wrap64 ((?pg - 1) * 20) < 0"
    by (simp only: handler)
  moreover have "wrap64 ((?pg - 1) * 20) < 0" if "max_int64 \<le> read_digits s"
    using that by (simp add: wrap64_def)
  ultimately show ?thesis using eq by blast
qed

definition page_web :: web_lib where
  "page_web = \<lparr>wl_auth = sample_lib '''', wl_rfc3339 = (\<lambda>_. ''''), wl_millis = (\<lambda>_. '''')\<rparr>"

definition page_ctx :: "string \<Rightarrow> web_ctx" where
  "page_ctx s = \<lparr>gc_keys = Map.empty, gc_request = \<lambda>_. None, wc_param = (\<lambda>_. ''''),
     wc_query = [''page'' \<mapsto> s], wc_project = ''''\<rparr>"

theorem huge_page_panics_witness:
  "Task_List_handler page_web (page_ctx ''9223372036854775807'') [] NewMemoryStore = None
   \<and> Task_List_handler page_web (page_ctx ''99999999999999999999'') [] NewMemoryStore = None
   \<and> Task_List_handler page_web (page_ctx ''2'') [] NewMemoryStore \<noteq> None"
proof -
  have p: "parse_id page_web (wc_param (page_ctx s) ''id'') = Some 0" "wc_query (page_ctx s) ''limit'' = None"
    "wc_query (page_ctx s) ''page'' = Some s" for s
    by (simp_all add: page_web_def page_ctx_def sample_lib_def)
  note H = huge_page_panics [OF p, of _ "[]" NewMemoryStore]
  have "list_all is_digit ''9223372036854775807''" "max_int64 \<le> read_digits ''9223372036854775807''"
    "list_all is_digit ''99999999999999999999''" "max_int64 \<le> read_digits ''99999999999999999999''"
    "list_all is_digit ''2''" "read_digits ''2'' = 2"
    by code_simp+
  with H [of "''9223372036854775807''"] H [of "''99999999999999999999''"] H [of "''2''"]
  show ?thesis by (simp add: wrap64_def)
qed

end
