(* ===== verification/Service_Api.thy ===== *)
theory Service_Api
  imports Web Platform_Services
begin

text \<open>
  The handlers of src/src/internal/handler for users (user.go), sessions (auth.go), reviews
  (review.go), deployments (deployment.go) and webhooks (webhook.go), over their services. A
  handler that can panic gives an option, None for the panic.
\<close>

definition bad_body :: "'a reply" where
  "bad_body = writeError 400 ''INVALID_JSON'' ''Malformed request body''"

section \<open>Users (user.go)\<close>

record user_response =
  ur_id :: string
  ur_email :: string
  ur_name :: string
  ur_role :: string
  ur_teams :: "string list"
  ur_projects :: "string list"
  ur_created :: string

text \<open>The literal both handlers build.\<close>

definition user_response_of :: "web_lib \<Rightarrow> user \<Rightarrow> user_response" where
  "user_response_of L u =
     \<lparr>ur_id = id_str L (u_id u), ur_email = u_email u, ur_name = u_name u, ur_role = role_str (u_role u),
      ur_teams = u_teams u, ur_projects = u_projects u, ur_created = wl_rfc3339 L (u_created u)\<rparr>"

definition User_Register_handler ::
  "web_lib \<Rightarrow> go_time \<Rightarrow> uuid \<Rightarrow> bind_error + register_request \<Rightarrow> mem_store
   \<Rightarrow> user_response reply \<times> mem_store" where
  "User_Register_handler L now k body m =
     (case body of
        Inl e \<Rightarrow> (bad_body, m)
      | Inr req \<Rightarrow>
          (case Register (wl_auth L) now k req m of
             (Inl e, m1) \<Rightarrow> (writeServiceError e, m1)
           | (Inr u, m1) \<Rightarrow> (Sent 201 (user_response_of L u), m1)))"

definition GetProfile_handler :: "web_lib \<Rightarrow> web_ctx \<Rightarrow> mem_store \<Rightarrow> user_response reply" where
  "GetProfile_handler L c m =
     (case gc_keys c ''user_id'' of
        None \<Rightarrow> writeError 401 ''UNAUTHORIZED'' ''Authentication required''
      | Some uid \<Rightarrow>
          if uid = '''' then writeError 401 ''UNAUTHORIZED'' ''Invalid user identity''
          else (case GetProfile (wl_auth L) uid m of
                  Inl e \<Rightarrow> writeServiceError e | Inr u \<Rightarrow> Sent 200 (user_response_of L u)))"

section \<open>Sessions (auth.go)\<close>

record cookie =
  ck_value :: string
  ck_max_age :: int
  ck_path :: string
  ck_secure :: bool
  ck_http_only :: bool
  ck_strict :: bool

definition refresh_cookie :: "bool \<Rightarrow> string \<Rightarrow> cookie" where
  "refresh_cookie secure tok = \<lparr>ck_value = tok, ck_max_age = 7 * 24 * 3600, ck_path = ''/'',
     ck_secure = secure, ck_http_only = True, ck_strict = True\<rparr>"

text \<open>
  The answers carry the access token with its lifetime, and the cookie refresh\_token that is set,
  if any. \<open>secure\<close> is the setting for secure cookies; the cookie of a request is None when it has
  none.
\<close>

definition Login_handler ::
  "web_lib \<Rightarrow> bool \<Rightarrow> go_time \<Rightarrow> go_time \<Rightarrow> bind_error + login_request \<Rightarrow> mem_store
   \<Rightarrow> (string \<times> int) reply \<times> cookie option \<times> mem_store" where
  "Login_handler L secure now1 now2 body m =
     (case body of
        Inl e \<Rightarrow> (bad_body, None, m)
      | Inr req \<Rightarrow>
          (case Login (wl_auth L) now1 now2 req m of
             (Inl e, m1) \<Rightarrow> (writeServiceError e, None, m1)
           | (Inr r, m1) \<Rightarrow>
               (Sent 200 (lr_access r, lr_expires_in r), Some (refresh_cookie secure (lr_refresh r)), m1)))"

definition Refresh_handler ::
  "web_lib \<Rightarrow> bool \<Rightarrow> go_time \<Rightarrow> go_time \<Rightarrow> go_time \<Rightarrow> string option \<Rightarrow> mem_store
   \<Rightarrow> (string \<times> int) reply \<times> cookie option \<times> mem_store" where
  "Refresh_handler L secure now now1 now2 ck m =
     (case ck of
        None \<Rightarrow> (writeError 401 ''UNAUTHORIZED'' ''Missing refresh token'', None, m)
      | Some tok \<Rightarrow>
          if tok = '''' then (writeError 401 ''UNAUTHORIZED'' ''Missing refresh token'', None, m)
          else (case Refresh (wl_auth L) now now1 now2 tok m of
             (Inl e, m1) \<Rightarrow> (writeServiceError e, None, m1)
           | (Inr r, m1) \<Rightarrow>
               (Sent 200 (lr_access r, lr_expires_in r), Some (refresh_cookie secure (lr_refresh r)), m1)))"

definition Logout_handler ::
  "web_lib \<Rightarrow> bool \<Rightarrow> string option \<Rightarrow> mem_store \<Rightarrow> string reply \<times> cookie option \<times> mem_store" where
  "Logout_handler L secure ck m =
     (case ck of
        None \<Rightarrow> (Sent 200 ''Already logged out'', None, m)
      | Some tok \<Rightarrow>
          if tok = '''' then (Sent 200 ''Already logged out'', None, m)
          else (Sent 200 ''Logged out successfully'',
                Some \<lparr>ck_value = '''', ck_max_age = -1, ck_path = ''/'', ck_secure = secure,
                      ck_http_only = True, ck_strict = False\<rparr>,
                Logout (wl_auth L) tok m))"

section \<open>Reviews (review.go)\<close>

record review_response =
  rvr_id :: string
  rvr_project :: string
  rvr_commit :: string
  rvr_target :: string
  rvr_status :: string
  rvr_reviewer_type :: string
  rvr_reviewer_id :: string
  rvr_reviewer :: string
  rvr_result :: string
  rvr_score :: rat
  rvr_issues :: "(string \<times> string \<times> int \<times> string \<times> string) list"
  rvr_metrics :: "review_metrics option"

fun review_status_str :: "review_status \<Rightarrow> string" where
  "review_status_str ReviewInProgress = ''in_progress''"
| "review_status_str ReviewCompleted = ''completed''"
| "review_status_str ReviewFailed = ''failed''"
| "review_status_str (ReviewStatusOther s) = s"

fun review_result_str :: "review_result \<Rightarrow> string" where
  "review_result_str ReviewApproved = ''approved''"
| "review_result_str ReviewChangesReq = ''changes_requested''"
| "review_result_str ReviewRejected = ''rejected''"
| "review_result_str ReviewResultNone = ''''"
| "review_result_str (ReviewResultOther s) = s"

definition Review_Create_handler ::
  "web_lib \<Rightarrow> go_time \<Rightarrow> uuid \<Rightarrow> bind_error + create_review_request \<Rightarrow> mem_store
   \<Rightarrow> review_response reply \<times> mem_store" where
  "Review_Create_handler L now k body m =
     (case body of
        Inl e \<Rightarrow> (bad_body, m)
      | Inr req \<Rightarrow>
          (case CreateReview (wl_auth L) now k req m of
             (Inl e, m1) \<Rightarrow> (writeServiceError e, m1)
           | (Inr r, m1) \<Rightarrow>
               (Sent 201 \<lparr>rvr_id = id_str L (rv_id r), rvr_project = id_str L (rv_project r),
                  rvr_commit = rv_commit r, rvr_target = id_str L (rv_target_agent r),
                  rvr_status = review_status_str (rv_status r), rvr_reviewer_type = rv_reviewer_type r,
                  rvr_reviewer_id = '''', rvr_reviewer = rv_reviewer r, rvr_result = '''', rvr_score = 0,
                  rvr_issues = [], rvr_metrics = None\<rparr>, m1)))"

text \<open>The id of the reviewer is a pointer, and printing it reads through the pointer.\<close>

definition Review_Get_handler :: "web_lib \<Rightarrow> web_ctx \<Rightarrow> mem_store \<Rightarrow> review_response reply option" where
  "Review_Get_handler L c m =
     (if wc_param c ''id'' = '''' then Some (writeError 400 ''VALIDATION_ERROR'' ''Review ID is required'')
      else case GetReview (wl_auth L) (wc_param c ''id'') m of
        Inl e \<Rightarrow> Some (writeServiceError e)
      | Inr r \<Rightarrow>
          (case rv_reviewer_id r of
             None \<Rightarrow> None
           | Some rid \<Rightarrow>
               Some (Sent 200 \<lparr>rvr_id = id_str L (rv_id r), rvr_project = id_str L (rv_project r),
                  rvr_commit = rv_commit r, rvr_target = id_str L (rv_target_agent r),
                  rvr_status = review_status_str (rv_status r), rvr_reviewer_type = rv_reviewer_type r,
                  rvr_reviewer_id = id_str L rid, rvr_reviewer = rv_reviewer r,
                  rvr_result = review_result_str (rv_result r), rvr_score = rv_score r,
                  rvr_issues = map (\<lambda>i. (ri_severity i, ri_file i, ri_line i, ri_message i, ri_suggestion i))
                    (rv_issues r),
                  rvr_metrics = rv_metrics r\<rparr>)))"

section \<open>Deployments (deployment.go)\<close>

fun deploy_status_str :: "deploy_status \<Rightarrow> string" where
  "deploy_status_str DeployQueued = ''queued''"
| "deploy_status_str DeployBuilding = ''building''"
| "deploy_status_str DeployTesting = ''testing''"
| "deploy_status_str DeployDeploying = ''deploying''"
| "deploy_status_str DeployCompleted = ''completed''"
| "deploy_status_str DeployFailed = ''failed''"
| "deploy_status_str DeployRollingBack = ''rolling_back''"
| "deploy_status_str (DeployOther s) = s"

fun deploy_env_str :: "deploy_env \<Rightarrow> string" where
  "deploy_env_str EnvDevelopment = ''development''"
| "deploy_env_str EnvStaging = ''staging''"
| "deploy_env_str EnvProduction = ''production''"
| "deploy_env_str (EnvOther s) = s"

record deployment_response =
  dpr_id :: string
  dpr_status :: string
  dpr_environment :: string
  dpr_url :: string
  dpr_estimated :: int
  dpr_started :: string
  dpr_completed :: string
  dpr_steps :: "deploy_step list"
  dpr_rollback_from :: string
  dpr_rollback_to :: string

definition toDeploymentResponse :: "web_lib \<Rightarrow> deployment \<Rightarrow> deployment_response" where
  "toDeploymentResponse L d =
     \<lparr>dpr_id = id_str L (dep_id d), dpr_status = deploy_status_str (dep_status d),
      dpr_environment = deploy_env_str (dep_env d), dpr_url = dep_url d, dpr_estimated = dep_estimated d,
      dpr_started = (case dep_started d of None \<Rightarrow> '''' | Some t \<Rightarrow> wl_rfc3339 L t),
      dpr_completed = (case dep_completed d of None \<Rightarrow> '''' | Some t \<Rightarrow> wl_rfc3339 L t),
      dpr_steps = dep_steps d, dpr_rollback_from = dep_rollback_from d, dpr_rollback_to = dep_rollback_to d\<rparr>"

definition deploy_answer ::
  "web_lib \<Rightarrow> int \<Rightarrow> (service_error + deployment) \<times> mem_store \<Rightarrow> deployment_response reply \<times> mem_store" where
  "deploy_answer L ok r =
     (case r of
        (Inl e, m1) \<Rightarrow> (writeServiceError e, m1)
      | (Inr d, m1) \<Rightarrow> (Sent ok (toDeploymentResponse L d), m1))"

definition Deployment_Trigger_handler ::
  "web_lib \<Rightarrow> go_time \<Rightarrow> uuid \<Rightarrow> bind_error + trigger_deployment_request \<Rightarrow> mem_store
   \<Rightarrow> (deployment_response reply \<times> mem_store) option" where
  "Deployment_Trigger_handler L now k body m =
     (case body of
        Inl e \<Rightarrow> Some (bad_body, m)
      | Inr req \<Rightarrow> map_option (deploy_answer L 202) (TriggerDeployment (wl_auth L) now k req m))"

definition Deployment_GetStatus_handler ::
  "web_lib \<Rightarrow> web_ctx \<Rightarrow> mem_store \<Rightarrow> (deployment_response reply \<times> mem_store) option" where
  "Deployment_GetStatus_handler L c m =
     (if wc_param c ''id'' = ''''
      then Some (writeError 400 ''VALIDATION_ERROR'' ''Deployment ID is required'', m)
      else map_option (\<lambda>r. deploy_answer L 200 (r, m)) (GetDeployment (wl_auth L) (wc_param c ''id'') m))"

definition Deployment_Rollback_handler ::
  "web_lib \<Rightarrow> go_time \<Rightarrow> uuid \<Rightarrow> web_ctx \<Rightarrow> mem_store \<Rightarrow> (deployment_response reply \<times> mem_store) option" where
  "Deployment_Rollback_handler L now k c m =
     (if wc_param c ''id'' = ''''
      then Some (writeError 400 ''VALIDATION_ERROR'' ''Deployment ID is required'', m)
      else map_option (deploy_answer L 200) (RollbackDeployment (wl_auth L) now k (wc_param c ''id'') m))"

section \<open>Webhooks (webhook.go)\<close>

record webhook_response =
  whr_id :: string
  whr_url :: string
  whr_events :: "string list"
  whr_active :: bool
  whr_created :: string

definition Webhook_Register_handler ::
  "web_lib \<Rightarrow> go_time \<Rightarrow> uuid \<Rightarrow> bind_error + register_webhook_request \<Rightarrow> mem_store
   \<Rightarrow> webhook_response reply \<times> mem_store" where
  "Webhook_Register_handler L now k body m =
     (case body of
        Inl e \<Rightarrow> (bad_body, m)
      | Inr req \<Rightarrow>
          (case RegisterWebhook (wl_auth L) now k req m of
             (Inl e, m1) \<Rightarrow> (writeServiceError e, m1)
           | (Inr w, m1) \<Rightarrow>
               (Sent 201 \<lparr>whr_id = id_str L (wh_id w), whr_url = wh_url w, whr_events = wh_events w,
                  whr_active = wh_active w, whr_created = wl_rfc3339 L (wh_created w)\<rparr>, m1)))"

section \<open>Runs of the review service\<close>

datatype review_op =
    RvCreate go_time uuid create_review_request
  | RvProcess go_time "gate_runner list" uuid

text \<open>The gates run on the row that was created; the row is in the store until then.\<close>

fun review_apply :: "auth_lib \<Rightarrow> mem_store \<Rightarrow> review_op \<Rightarrow> mem_store" where
  "review_apply lib m (RvCreate now k req) = snd (CreateReview lib now k req m)"
| "review_apply lib m (RvProcess now gates k) =
     (case Review_GetByID k m of Inl _ \<Rightarrow> m | Inr r \<Rightarrow> snd (processReview now gates r m))"

definition review_run :: "auth_lib \<Rightarrow> review_op list \<Rightarrow> mem_store \<Rightarrow> mem_store" where
  "review_run lib ops m = foldl (review_apply lib) m ops"

definition no_reviewer :: "mem_store \<Rightarrow> bool" where
  "no_reviewer m \<longleftrightarrow> (\<forall>k r. ms_reviews m k = Some r \<longrightarrow> rv_reviewer_id r = None)"

lemma no_reviewer_apply: "no_reviewer m \<Longrightarrow> no_reviewer (review_apply lib m op)"
  by (cases op)
    (auto simp: no_reviewer_def CreateReview_def Review_Create_def processReview_def Review_Update_def
      Review_GetByID_def Let_def split: option.splits if_splits sum.splits prod.splits)

lemma no_reviewer_run: "no_reviewer m \<Longrightarrow> no_reviewer (review_run lib ops m)"
  by (induction ops arbitrary: m) (auto simp: review_run_def no_reviewer_apply)

text \<open>
  C15: no review can ever be read. No operation of the service sets the id of a reviewer, the
  handler prints it without a test for nil, so in every state the service reaches from one without
  reviews, a request for a review that exists panics; all other requests are answered 400 or 404.
\<close>

theorem review_unreadable:
  assumes "ms_reviews m0 = Map.empty" and "m = review_run lib ops m0"
  shows "(Review_Get_handler L c m = None \<longleftrightarrow>
       wc_param c ''id'' \<noteq> '''' \<and> (\<exists>k r. parse_id L (wc_param c ''id'') = Some k \<and> ms_reviews m k = Some r))
     \<and> (\<forall>r. Review_Get_handler L c m = Some r \<longrightarrow> reply_status r \<in> {400, 404})"
proof -
  have "no_reviewer m"
    unfolding assms(2) by (rule no_reviewer_run) (simp add: no_reviewer_def assms(1))
  then have "ms_reviews m k = Some r \<Longrightarrow> rv_reviewer_id r = None" for k r
    by (simp add: no_reviewer_def)
  then show ?thesis
    by (auto simp: Review_Get_handler_def GetReview_def Review_GetByID_def validationError_def
        notFound_def split: option.splits)
qed

definition sample_review_web :: web_lib where
  "sample_review_web = \<lparr>wl_auth = sample_lib '''', wl_rfc3339 = (\<lambda>_. ''''), wl_millis = (\<lambda>_. '''')\<rparr>"

definition review_ctx :: "string \<Rightarrow> web_ctx" where
  "review_ctx i = \<lparr>gc_keys = Map.empty, gc_request = \<lambda>_. None, wc_param = (\<lambda>k. if k = ''id'' then i else ''''),
     wc_query = (\<lambda>_. None), wc_project = ''''\<rparr>"

definition sample_review_ops :: "review_op list" where
  "sample_review_ops =
     [RvCreate 1 3 \<lparr>crr_project = ''p'', crr_commit = ''c'', crr_reviewer_type = '''', crr_target = ''''\<rparr>,
      RvProcess 2 review_gates 3]"

definition review_project :: mem_store where
  "review_project = NewMemoryStore\<lparr>ms_projects := [1 \<mapsto> new_project 0 1 \<lparr>cp_name = ''n'', cp_description = '''',
     cp_template = '''', cp_owner = 0, cp_agents = []\<rparr>]\<rparr>"

lemma sample_review_done:
  "\<exists>r. ms_reviews (review_run (sample_lib '''') sample_review_ops review_project) 3 = Some r
     \<and> rv_status r = ReviewCompleted"
proof -
  have "TrimSpace ''p'' = ''p''" "TrimSpace ''c'' = ''c''" by code_simp+
  then show ?thesis
    by (simp add: review_run_def sample_review_ops_def CreateReview_def NotEmpty_def HasErrors_def
        sample_lib_def Project_GetByID_def review_project_def NewMemoryStore_def Review_Create_def
        Review_GetByID_def processReview_def Review_Update_def review_gates_def LinterGate_def SASTGate_def
        ComplexityGate_def Let_def)
qed

theorem review_unreadable_witness:
  "Review_Get_handler sample_review_web (review_ctx ''rrr'')
     (review_run (sample_lib '''') sample_review_ops review_project) = None"
proof -
  have "ms_reviews review_project = Map.empty" by (simp add: review_project_def NewMemoryStore_def)
  from review_unreadable [OF this refl, of sample_review_web "review_ctx ''rrr''" "sample_lib ''''" sample_review_ops]
    sample_review_done
  show ?thesis by (auto simp: review_ctx_def sample_review_web_def sample_lib_def)
qed

end
