(* ===== verification/Pg_Base.thy ===== *)
theory Pg_Base
  imports Store_Keyset Store_Agents Store_Assign Store_Paging
begin

text \<open>
  The database behind package store/postgres: the tables that the migrations of src/src/db create,
  with the constraints that refuse a statement, the errors a store method gives back, and
  postgresStore itself. A table is the list of its rows in the order a scan visits them. The
  database answers every statement: broken connections are not modelled. A text column holds any
  text without a zero byte; VARCHAR(n) refuses more than n characters.
\<close>

section \<open>Errors\<close>

text \<open>The classes of SQLSTATE a statement can end with here.\<close>

datatype sqlstate =
    NotNullViolation | ForeignKeyViolation | UniqueViolation | CheckViolation
  | StringTooLong | ZeroByte | IntOutOfRange | InvalidJson | NegativeOffset

text \<open>
  What a method of the stores returns: a sentinel of package store, an error that wraps the one
  of the statement, or one the method makes itself. Callers can only tell sentinels apart.
\<close>

datatype pg_error = Sentinel store_error | Failed sqlstate | Refused string

primrec violated :: "(bool \<times> sqlstate) list \<Rightarrow> sqlstate option" where
  "violated [] = None"
| "violated (p # ps) = (if fst p then Some (snd p) else violated ps)"

lemma violated_None [simp]: "violated ps = None \<longleftrightarrow> (\<forall>p \<in> set ps. \<not> fst p)"
  by (induction ps) auto

lemma violated_step [simp]:
  "fst p \<Longrightarrow> violated (p # ps) = Some (snd p)" "\<not> fst p \<Longrightarrow> violated (p # ps) = violated ps"
  by simp_all

declare violated.simps(2) [simp del]

lemma violated_app:
  "violated (ps @ qs) = (case violated ps of None \<Rightarrow> violated qs | Some e \<Rightarrow> Some e)"
  by (induction ps) (auto simp: violated.simps(2))

section \<open>Values on the way in\<close>

definition char_len :: "string \<Rightarrow> nat" where
  "char_len s = length (filter (\<lambda>c. (of_char c :: nat) div 64 \<noteq> 2) s)"

definition bad_text :: "string list \<Rightarrow> bool" where
  "bad_text ss \<longleftrightarrow> list_ex (\<lambda>s. CHR 0x00 \<in> set s) ss"

definition too_long :: "(nat \<times> string) list \<Rightarrow> bool" where
  "too_long cs \<longleftrightarrow> list_ex (\<lambda>(n, s). n < char_len s) cs"

definition bad_int4 :: "int \<Rightarrow> bool" where
  "bad_int4 n \<longleftrightarrow> n < - (2 ^ 31) \<or> 2 ^ 31 \<le> n"

text \<open>TIMESTAMPTZ has microseconds; the driver cuts the nanoseconds off.\<close>

definition pg_time :: "go_time \<Rightarrow> go_time" where
  "pg_time t = t - t mod 1000"

lemma pg_time_idem [simp]: "pg_time (pg_time t) = pg_time t"
  by (simp add: pg_time_def)

lemma pg_time_le: "pg_time t \<le> t" "t < pg_time t + 1000"
  using pos_mod_bound [of 1000 t] by (simp_all add: pg_time_def)

lemma pg_time_mono: "s \<le> t \<Longrightarrow> pg_time s \<le> pg_time t"
proof -
  have e: "pg_time t = 1000 * (t div 1000)" for t
    by (simp add: pg_time_def minus_mod_eq_mult_div)
  show "s \<le> t \<Longrightarrow> pg_time s \<le> pg_time t" unfolding e by (simp add: zdiv_mono1)
qed

section \<open>Columns\<close>

text \<open>
  The columns of a table that are NOT NULL, and those that get a value when an INSERT leaves
  them out. An INSERT that leaves out a required column without a default, or gives NULL for a
  required one, is refused.
\<close>

record table_schema =
  ts_required :: "string list"
  ts_defaults :: "string list"

definition null_required :: "table_schema \<Rightarrow> string list \<Rightarrow> string list \<Rightarrow> bool" where
  "null_required sch given nulls \<longleftrightarrow>
     list_ex (\<lambda>c. c \<in> set nulls \<or> c \<notin> set given \<and> c \<notin> set (ts_defaults sch)) (ts_required sch)"

definition users_schema :: table_schema where
  "users_schema = \<lparr>
     ts_required = [''id'', ''email'', ''password_hash'', ''name'', ''role'', ''created_at'', ''updated_at''],
     ts_defaults = [''id'', ''role'', ''created_at'', ''updated_at'']\<rparr>"

definition projects_schema :: table_schema where
  "projects_schema = \<lparr>
     ts_required = [''id'', ''name'', ''owner_id'', ''status'', ''created_at'', ''updated_at''],
     ts_defaults = [''id'', ''status'', ''progress'', ''created_at'', ''updated_at'']\<rparr>"

definition tasks_schema :: table_schema where
  "tasks_schema = \<lparr>
     ts_required = [''id'', ''project_id'', ''title'', ''status'', ''priority'', ''created_at'',
       ''updated_at'', ''required_capabilities''],
     ts_defaults = [''id'', ''status'', ''priority'', ''position'', ''created_at'', ''updated_at'',
       ''required_capabilities'']\<rparr>"

text \<open>Migrations 005, 010, 015, 016 and 026 together.\<close>

definition agents_schema :: table_schema where
  "agents_schema = \<lparr>
     ts_required = [''id'', ''name'', ''agent_type'', ''status'', ''created_at'', ''updated_at'',
       ''metadata'', ''version''],
     ts_defaults = [''id'', ''status'', ''tasks_done'', ''uptime'', ''config'', ''created_at'', ''updated_at'',
       ''capabilities'', ''metadata'', ''version'']\<rparr>"

definition agent_capabilities_schema :: table_schema where
  "agent_capabilities_schema = \<lparr>
     ts_required = [''agent_id'', ''capability_id'', ''proficiency'', ''granted_at''],
     ts_defaults = [''proficiency'', ''granted_at'']\<rparr>"

definition executions_schema :: table_schema where
  "executions_schema = \<lparr>
     ts_required = [''id'', ''task_id'', ''agent_id'', ''status'', ''created_at'', ''updated_at''],
     ts_defaults = [''id'', ''status'', ''created_at'', ''updated_at'']\<rparr>"

definition deliverables_schema :: table_schema where
  "deliverables_schema = \<lparr>
     ts_required = [''id'', ''task_id'', ''agent_id'', ''title'', ''content'', ''version'', ''created_at'',
       ''updated_at''],
     ts_defaults = [''id'', ''content'', ''version'', ''created_at'', ''updated_at'']\<rparr>"

definition deliverable_versions_schema :: table_schema where
  "deliverable_versions_schema = \<lparr>
     ts_required = [''id'', ''deliverable_id'', ''version'', ''title'', ''content'', ''created_at''],
     ts_defaults = [''id'', ''created_at'']\<rparr>"

definition assignments_schema :: table_schema where
  "assignments_schema = \<lparr>
     ts_required = [''id'', ''task_id'', ''agent_id'', ''assigned_at'', ''status''],
     ts_defaults = [''id'', ''assigned_at'', ''status'']\<rparr>"

definition assignment_events_schema :: table_schema where
  "assignment_events_schema = \<lparr>
     ts_required = [''id'', ''assignment_id'', ''task_id'', ''assigned_at'', ''action''],
     ts_defaults = [''id'', ''assigned_at'']\<rparr>"

definition code_generation_requests_schema :: table_schema where
  "code_generation_requests_schema = \<lparr>
     ts_required = [''id'', ''project_id'', ''task_id'', ''specification'', ''files'', ''status'',
       ''created_at'', ''updated_at''],
     ts_defaults = [''id'', ''files'', ''status'', ''estimated_time'', ''created_at'', ''updated_at'']\<rparr>"

definition commits_schema :: table_schema where
  "commits_schema = \<lparr>
     ts_required = [''sha'', ''project_id'', ''branch'', ''message'', ''author'', ''created_at''],
     ts_defaults = [''branch'', ''created_at'']\<rparr>"

definition commit_files_schema :: table_schema where
  "commit_files_schema = \<lparr>
     ts_required = [''id'', ''commit_sha'', ''path'', ''content''],
     ts_defaults = [''id'']\<rparr>"

definition project_files_schema :: table_schema where
  "project_files_schema = \<lparr>
     ts_required = [''id'', ''project_id'', ''path'', ''content'', ''last_modified''],
     ts_defaults = [''id'', ''size'', ''last_modified'']\<rparr>"

definition reviews_schema :: table_schema where
  "reviews_schema = \<lparr>
     ts_required = [''id'', ''project_id'', ''commit_sha'', ''reviewer_type'', ''status'', ''created_at'',
       ''updated_at''],
     ts_defaults = [''id'', ''status'', ''metrics'', ''created_at'', ''updated_at'']\<rparr>"

definition review_issues_schema :: table_schema where
  "review_issues_schema = \<lparr>
     ts_required = [''id'', ''review_id'', ''severity'', ''file'', ''line'', ''message'', ''created_at''],
     ts_defaults = [''id'', ''created_at'']\<rparr>"

definition review_comments_schema :: table_schema where
  "review_comments_schema = \<lparr>
     ts_required = [''id'', ''review_id'', ''file'', ''line'', ''author_id'', ''content'', ''created_at''],
     ts_defaults = [''id'', ''created_at'']\<rparr>"

definition audit_log_schema :: table_schema where
  "audit_log_schema = \<lparr>
     ts_required = [''id'', ''entity_type'', ''entity_id'', ''action'', ''created_at''],
     ts_defaults = [''id'', ''changes'', ''created_at'']\<rparr>"

section \<open>Tables\<close>

definition row_of :: "('r \<Rightarrow> 'k) \<Rightarrow> 'k \<Rightarrow> 'r list \<Rightarrow> 'r option" where
  "row_of key k t = List.find (\<lambda>r. key r = k) t"

definition has_key :: "('r \<Rightarrow> 'k) \<Rightarrow> 'k \<Rightarrow> 'r list \<Rightarrow> bool" where
  "has_key key k t \<longleftrightarrow> list_ex (\<lambda>r. key r = k) t"

text \<open>UPDATE ... WHERE key = k.\<close>

definition set_row :: "('r \<Rightarrow> 'k) \<Rightarrow> 'k \<Rightarrow> ('r \<Rightarrow> 'r) \<Rightarrow> 'r list \<Rightarrow> 'r list" where
  "set_row key k f t = map (\<lambda>r. if key r = k then f r else r) t"

lemma row_of_Nil [simp]: "row_of key k [] = None"
  by (simp add: row_of_def)

lemma row_of_Cons [simp]:
  "row_of key k (r # t) = (if key r = k then Some r else row_of key k t)"
  by (simp add: row_of_def)

lemma has_key_iff: "has_key key k t \<longleftrightarrow> row_of key k t \<noteq> None"
  by (induction t) (auto simp: has_key_def)

lemma has_key_set: "has_key key k t \<longleftrightarrow> k \<in> key ` set t"
  by (auto simp: has_key_def list_ex_iff)

lemma row_of_app: "row_of key k (t @ u) = (case row_of key k t of None \<Rightarrow> row_of key k u | r \<Rightarrow> r)"
  by (induction t) auto

lemma row_of_SomeD: "row_of key k t = Some r \<Longrightarrow> r \<in> set t \<and> key r = k"
  by (induction t) (auto split: if_splits)

lemma row_of_None: "row_of key k t = None \<longleftrightarrow> k \<notin> key ` set t"
  using has_key_iff [of key k t] has_key_set [of key k t] by auto

lemma row_of_distinct: "distinct (map key t) \<Longrightarrow> r \<in> set t \<Longrightarrow> row_of key (key r) t = Some r"
  by (induction t) (auto simp: image_iff)

lemma row_of_insert:
  "row_of key (key r) t = None \<Longrightarrow> row_of key k (t @ [r]) = (if k = key r then Some r else row_of key k t)"
  by (auto simp: row_of_app split: option.split)

lemma row_of_set_row:
  assumes "\<And>r. key r = k \<Longrightarrow> key (f r) = k"
  shows "row_of key j (set_row key k f t)
       = (if j = k then map_option f (row_of key k t) else row_of key j t)"
  using assms by (induction t) (auto simp: set_row_def)

lemma row_of_filter_key:
  "row_of key j (filter (\<lambda>r. key r \<noteq> k) t) = (if j = k then None else row_of key j t)"
  by (induction t) auto

lemma map_key_set_row: "(\<And>r. key r = k \<Longrightarrow> key (f r) = k) \<Longrightarrow> map key (set_row key k f t) = map key t"
  by (induction t) (auto simp: set_row_def)

lemma set_row_absent: "row_of key k t = None \<Longrightarrow> set_row key k f t = t"
  by (induction t) (auto simp: set_row_def split: if_splits)

section \<open>The database (postgres/store.go)\<close>

text \<open>
  The columns of a row are the fields of the record of package model; fields without a column
  are zero. kanban\_boards and agent\_runs are written by no operation. commits leaves its files
  to commit\_files, and reviews its issues to review\_issues.
\<close>

record agent_capability =
  ac_agent :: uuid
  ac_capability :: uuid
  ac_proficiency :: int
  ac_granted_at :: go_time

record pg_db =
  pg_users :: "user list"
  pg_projects :: "project list"
  pg_tasks :: "task list"
  pg_agents :: "agent list"
  pg_capabilities :: "capability_row list"
  pg_agent_capabilities :: "agent_capability list"
  pg_executions :: "execution list"
  pg_deliverables :: "deliverable list"
  pg_dversions :: "deliverable_version list"
  pg_assignments :: "assignment list"
  pg_events :: "assignment_event list"
  pg_codegens :: "codegen_request list"
  pg_files :: "project_file list"
  pg_commits :: "commit list"
  pg_commit_files :: "(string \<times> commit_file) list"
  pg_reviews :: "review list"
  pg_review_issues :: "review_issue list"
  pg_review_comments :: "review_comment list"
  pg_audit :: "audit_log list"
  pg_fallback :: mem_store

text \<open>The rows that migration 016 seeds; the ids are drawn by the database.\<close>

definition capability_seed :: "(string \<times> string \<times> string \<times> string) list" where
  "capability_seed =
     [(''architecture'', ''Architecture'', ''architecture'', ''System design, ADRs, dependency choices.''),
      (''coding'', ''Coding'', ''coding'', ''Source code and unit tests in the source tree.''),
      (''testing'', ''Testing'', ''testing'', ''Test execution, coverage, bug reports.''),
      (''security'', ''Security'', ''security'', ''Threat modeling, code audit, secret scanning.''),
      (''devops'', ''DevOps'', ''devops'', ''Build, deploy, infra-as-code, monitoring.''),
      (''leadership'', ''Leader'', ''leadership'', ''Planning, decomposition, dispatch, conflict resolution.'')]"

definition seeded_capabilities :: "uuid list \<Rightarrow> capability_row list" where
  "seeded_capabilities ids = map2
     (\<lambda>k (n, dn, cat, desc). \<lparr>cr_id = k, cr_name = n, cr_display_name = dn, cr_category = cat,
        cr_description = desc, cr_version = 1\<rparr>) ids capability_seed"

text \<open>A migrated database with the store that NewStore makes for it.\<close>

definition NewStore :: "uuid list \<Rightarrow> pg_db" where
  "NewStore ids = \<lparr>pg_users = [], pg_projects = [], pg_tasks = [], pg_agents = [],
     pg_capabilities = seeded_capabilities ids, pg_agent_capabilities = [], pg_executions = [],
     pg_deliverables = [], pg_dversions = [], pg_assignments = [], pg_events = [], pg_codegens = [],
     pg_files = [], pg_commits = [], pg_commit_files = [], pg_reviews = [], pg_review_issues = [],
     pg_review_comments = [], pg_audit = [], pg_fallback = NewMemoryStore\<rparr>"

text \<open>
  The sub-stores without a table are those of the in-memory store: an operation of it on the
  field \<open>pg_fallback\<close>.
\<close>

definition on_fallback :: "(mem_store \<Rightarrow> 'e + mem_store) \<Rightarrow> pg_db \<Rightarrow> 'e + pg_db" where
  "on_fallback f db = (case f (pg_fallback db) of
       Inl e \<Rightarrow> Inl e | Inr m \<Rightarrow> Inr (db\<lparr>pg_fallback := m\<rparr>))"

text \<open>WithTx: the closure runs on the transaction's view; an error rolls all of it back.\<close>

definition WithTx :: "(pg_db \<Rightarrow> 'e option \<times> pg_db) \<Rightarrow> pg_db \<Rightarrow> 'e option \<times> pg_db" where
  "WithTx f db = (case f db of (Some e, _) \<Rightarrow> (Some e, db) | (None, db') \<Rightarrow> (None, db'))"

lemma WithTx_all_or_nothing:
  "WithTx f db = (r, db') \<Longrightarrow> r = None \<and> f db = (None, db') \<or> r \<noteq> None \<and> db' = db"
  by (auto simp: WithTx_def split: prod.splits option.splits)

section \<open>The contract of a table of rows\<close>

text \<open>
  The part of the contract that both stores keep: a row that was accepted is found under its key
  as it is stored, and nothing else changes. \<open>stored\<close> is what the table keeps of a new row,
  \<open>merged\<close> what it keeps of an update over the old row.
\<close>

locale row_table =
  fixes key :: "'v \<Rightarrow> 'k"
    and view :: "'s \<Rightarrow> ('k \<rightharpoonup> 'v)"
    and stored :: "'v \<Rightarrow> 'v"
    and missing :: 'e
    and create :: "'v \<Rightarrow> 's \<Rightarrow> 'e + 's"
    and get :: "'k \<Rightarrow> 's \<Rightarrow> 'e + 'v"
  assumes get_view: "get k s = (case view s k of None \<Rightarrow> Inl missing | Some v \<Rightarrow> Inr v)"
    and stored_key: "key (stored v) = key v"
    and created: "create v s = Inr s' \<Longrightarrow> view s (key v) = None \<and> view s' = (view s)(key v \<mapsto> stored v)"
begin

lemma read_back: "create v s = Inr s' \<Longrightarrow> get k s' = (if k = key v then Inr (stored v) else get k s)"
  using created [of v s s'] by (simp add: get_view)

lemma create_refused: "get (key v) s = Inr w \<Longrightarrow> \<exists>e. create v s = Inl e"
  using created [of v s] by (cases "create v s") (auto simp: get_view split: option.splits)

lemma create_keeps_keys: "create v s = Inr s' \<Longrightarrow> keyed_by key (view s) \<Longrightarrow> keyed_by key (view s')"
  using created [of v s s'] by (simp add: stored_key)

end

locale row_table_update = row_table key view stored missing create get
  for key :: "'v \<Rightarrow> 'k" and view :: "'s \<Rightarrow> ('k \<rightharpoonup> 'v)" and stored :: "'v \<Rightarrow> 'v" and missing :: 'e
    and create :: "'v \<Rightarrow> 's \<Rightarrow> 'e + 's" and get :: "'k \<Rightarrow> 's \<Rightarrow> 'e + 'v" +
  fixes merged :: "'v \<Rightarrow> 'v \<Rightarrow> 'v"
    and update :: "'v \<Rightarrow> 's \<Rightarrow> 'e + 's"
  assumes merged_key: "key old = key v \<Longrightarrow> key (merged v old) = key v"
    and updated: "update v s = Inr s' \<Longrightarrow>
          \<exists>old. view s (key v) = Some old \<and> view s' = (view s)(key v \<mapsto> merged v old)"
begin

lemma update_present: "update v s = Inr s' \<Longrightarrow> \<exists>old. get (key v) s = Inr old"
  using updated [of v s s'] by (auto simp: get_view)

lemma read_back_update:
  "update v s = Inr s' \<Longrightarrow> get (key v) s = Inr old \<Longrightarrow>
     get k s' = (if k = key v then Inr (merged v old) else get k s)"
  using updated [of v s s'] by (auto simp: get_view split: option.splits)

lemma update_keeps_keys: "update v s = Inr s' \<Longrightarrow> dom (view s') = dom (view s)"
  using updated [of v s s'] by (auto simp: dom_def split: if_splits)

end

text \<open>The in-memory tables keep rows as they are given.\<close>

sublocale crud_table \<subseteq> row_table key view id ErrNotFound create get
  by unfold_locales (auto simp: get_view create_view create_iff [symmetric])

sublocale crud_update \<subseteq> row_table_update key view id ErrNotFound create get "\<lambda>v _. v" update
proof unfold_locales
  show "\<exists>old. view s (key v) = Some old \<and> view s' = (view s)(key v \<mapsto> v)"
    if "update v s = Inr s'" for v s s'
    using that update_missing [of s v] update_view by (cases "view s (key v)") auto
qed simp

end
