(* ===== verification/Pg_Query.thy ===== *)
theory Pg_Query
  imports Pg_Base Errors
begin

text \<open>
  The WHERE clauses that the List methods of store/postgres put together: a condition is its
  text with the numbers of its placeholders, and its meaning over the arguments and the columns
  of a row. The locale \<open>where_builder\<close> is the contract of a function that turns a filter into a
  clause: the placeholders are bound and the rows selected are those the filter asks for.
\<close>

section \<open>Conditions\<close>

datatype sql_val =
    VNull | VText string | VId uuid | VTime go_time | VTexts "string list"
  | VTaskStatus task_status | VProjectStatus project_status
  | VAgentStatus agent_status | VExecutionStatus execution_status

text \<open>The shapes of the conditions in the code; the numbers are placeholders.\<close>

datatype cond =
    CTrue
  | CEq string nat
  | CIsNull string
  | CGreater string nat
  | CGreater2 string string nat nat
  | CLess2 string string nat nat
  | CContains string nat
  | CILike2 string string nat

definition ph :: "nat \<Rightarrow> string" where
  "ph n = ''$'' @ digits_loop (int n) []"

fun cond_text :: "cond \<Rightarrow> string" where
  "cond_text CTrue = ''1 = 1''"
| "cond_text (CEq c n) = c @ '' = '' @ ph n"
| "cond_text (CIsNull c) = c @ '' IS NULL''"
| "cond_text (CGreater c n) = c @ '' > '' @ ph n"
| "cond_text (CGreater2 c d n m) = ''('' @ c @ '', '' @ d @ '') > ('' @ ph n @ '', '' @ ph m @ '')''"
| "cond_text (CLess2 c d n m) = ''('' @ c @ '', '' @ d @ '') < ('' @ ph n @ '', '' @ ph m @ '')''"
| "cond_text (CContains c n) = c @ '' @> '' @ ph n @ ''::jsonb''"
| "cond_text (CILike2 c d n) =
     ''('' @ c @ '' ILIKE '' @ ph n @ '' OR '' @ d @ '' ILIKE '' @ ph n @ '')''"

fun placeholders :: "cond \<Rightarrow> nat list" where
  "placeholders (CEq _ n) = [n]"
| "placeholders (CGreater _ n) = [n]"
| "placeholders (CGreater2 _ _ n m) = [n, m]"
| "placeholders (CLess2 _ _ n m) = [n, m]"
| "placeholders (CContains _ n) = [n]"
| "placeholders (CILike2 _ _ n) = [n]"
| "placeholders _ = []"

text \<open>Comparisons with NULL select nothing. Texts and ids are ordered by their bytes.\<close>

definition sql_eq :: "sql_val \<Rightarrow> sql_val \<Rightarrow> bool" where
  "sql_eq a b \<longleftrightarrow> a \<noteq> VNull \<and> a = b"

fun sql_less :: "sql_val \<Rightarrow> sql_val \<Rightarrow> bool" where
  "sql_less (VText a) (VText b) = (a < b)"
| "sql_less (VId a) (VId b) = (a < b)"
| "sql_less (VTime a) (VTime b) = (a < b)"
| "sql_less _ _ = False"

definition row_less :: "sql_val \<times> sql_val \<Rightarrow> sql_val \<times> sql_val \<Rightarrow> bool" where
  "row_less p q \<longleftrightarrow> sql_less (fst p) (fst q) \<or> sql_eq (fst p) (fst q) \<and> sql_less (snd p) (snd q)"

text \<open>LIKE: percent for any text, underscore for one character, backslash to quote.\<close>

fun like :: "string \<Rightarrow> string \<Rightarrow> bool" where
  "like [] s = (s = [])"
| "like (p # ps) s =
     (if p = CHR ''%'' then list_ex (\<lambda>i. like ps (drop i s)) [0..<Suc (length s)]
      else if p = CHR ''_'' then (case s of [] \<Rightarrow> False | _ # t \<Rightarrow> like ps t)
      else if p = CHR 0x5C
        then (case ps of [] \<Rightarrow> False
              | q # qs \<Rightarrow> (case s of [] \<Rightarrow> False | c # t \<Rightarrow> c = q \<and> like qs t))
      else (case s of [] \<Rightarrow> False | c # t \<Rightarrow> c = p \<and> like ps t))"

text \<open>
  ILIKE folds case first; \<open>to_lower\<close> is the fold of the database. The argument of the operator
  @> is a JSON array of one string, read by \<open>json_string\<close>: the quotes and backslashes of the
  text come escaped, a control character is not JSON.
\<close>

definition ilike :: "(string \<Rightarrow> string) \<Rightarrow> string \<Rightarrow> sql_val \<Rightarrow> bool" where
  "ilike to_lower pat v \<longleftrightarrow> (case v of VText s \<Rightarrow> like (to_lower pat) (to_lower s) | _ \<Rightarrow> False)"

fun json_body :: "string \<Rightarrow> (string \<times> string) option" where
  "json_body [] = None"
| "json_body (c # cs) =
     (if c = CHR 0x22 then Some ([], cs)
      else if c = CHR 0x5C
        then (case cs of [] \<Rightarrow> None
              | d # ds \<Rightarrow> if d = CHR 0x22 \<or> d = CHR 0x5C
                          then map_option (\<lambda>(b, r). (d # b, r)) (json_body ds) else None)
      else if (of_char c :: nat) < 32 then None
      else map_option (\<lambda>(b, r). (c # b, r)) (json_body cs))"

definition json_string :: "string \<Rightarrow> string option" where
  "json_string s = (if take 2 s = [CHR ''['', CHR 0x22]
     then (case json_body (drop 2 s) of Some (b, r) \<Rightarrow> (if r = '']'' then Some b else None) | None \<Rightarrow> None)
     else None)"

definition escapeJSON :: "string \<Rightarrow> string" where
  "escapeJSON s = concat (map (\<lambda>c. if c = CHR 0x5C \<or> c = CHR 0x22 then [CHR 0x5C, c] else [c]) s)"

definition json_array1 :: "string \<Rightarrow> string" where
  "json_array1 s = [CHR ''['', CHR 0x22] @ escapeJSON s @ [CHR 0x22, CHR '']'']"

lemma json_body_escaped:
  "\<forall>c \<in> set s. 32 \<le> (of_char c :: nat) \<Longrightarrow> json_body (escapeJSON s @ CHR 0x22 # r) = Some (s, r)"
  by (induction s) (auto simp: escapeJSON_def)

lemma json_array1_read:
  assumes "\<forall>c \<in> set s. 32 \<le> (of_char c :: nat)"
  shows "json_string (json_array1 s) = Some s"
proof -
  have "json_body (escapeJSON s @ [CHR 0x22, CHR '']'']) = Some (s, '']'')"
    by (rule json_body_escaped [OF assms])
  then show ?thesis by (simp add: json_string_def json_array1_def)
qed

fun holds :: "(string \<Rightarrow> string) \<Rightarrow> (nat \<Rightarrow> sql_val) \<Rightarrow> (string \<Rightarrow> sql_val) \<Rightarrow> cond \<Rightarrow> bool" where
  "holds lc arg col CTrue = True"
| "holds lc arg col (CEq c n) = sql_eq (col c) (arg n)"
| "holds lc arg col (CIsNull c) = (col c = VNull)"
| "holds lc arg col (CGreater c n) = sql_less (arg n) (col c)"
| "holds lc arg col (CGreater2 c d n m) = row_less (arg n, arg m) (col c, col d)"
| "holds lc arg col (CLess2 c d n m) = row_less (col c, col d) (arg n, arg m)"
| "holds lc arg col (CContains c n) =
     (case (col c, arg n) of
        (VTexts xs, VText j) \<Rightarrow> (case json_string j of Some x \<Rightarrow> x \<in> set xs | None \<Rightarrow> False)
      | _ \<Rightarrow> False)"
| "holds lc arg col (CILike2 c d n) =
     (case arg n of VText pat \<Rightarrow> ilike lc pat (col c) \<or> ilike lc pat (col d) | _ \<Rightarrow> False)"

lemma holds_cong:
  "(\<And>n. n \<in> set (placeholders c) \<Longrightarrow> arg n = arg' n) \<Longrightarrow> holds lc arg col c = holds lc arg' col c"
  by (cases c) simp_all

section \<open>Clauses\<close>

record where_clause =
  wc_conds :: "cond list"
  wc_args :: "sql_val list"
  wc_idx :: nat

definition no_conds :: where_clause where
  "no_conds = \<lparr>wc_conds = [], wc_args = [], wc_idx = 1\<rparr>"

definition add0 :: "cond \<Rightarrow> where_clause \<Rightarrow> where_clause" where
  "add0 c w = w\<lparr>wc_conds := wc_conds w @ [c]\<rparr>"

definition add1 :: "(nat \<Rightarrow> cond) \<Rightarrow> sql_val \<Rightarrow> where_clause \<Rightarrow> where_clause" where
  "add1 c v w = w\<lparr>wc_conds := wc_conds w @ [c (wc_idx w)], wc_args := wc_args w @ [v],
                  wc_idx := wc_idx w + 1\<rparr>"

definition add2 ::
  "(nat \<Rightarrow> nat \<Rightarrow> cond) \<Rightarrow> sql_val \<Rightarrow> sql_val \<Rightarrow> where_clause \<Rightarrow> where_clause" where
  "add2 c v u w = w\<lparr>wc_conds := wc_conds w @ [c (wc_idx w) (wc_idx w + 1)],
                    wc_args := wc_args w @ [v, u], wc_idx := wc_idx w + 2\<rparr>"

text \<open>The text of the clause, empty without conditions.\<close>

definition where_text :: "where_clause \<Rightarrow> string" where
  "where_text w = (if wc_conds w = [] then ''''
     else ''WHERE '' @ strings_join (map cond_text (wc_conds w)) '' AND '')"

definition arg_of :: "sql_val list \<Rightarrow> nat \<Rightarrow> sql_val" where
  "arg_of vs n = (if 1 \<le> n \<and> n \<le> length vs then vs ! (n - 1) else VNull)"

definition selects :: "(string \<Rightarrow> string) \<Rightarrow> where_clause \<Rightarrow> (string \<Rightarrow> sql_val) \<Rightarrow> bool" where
  "selects lc w col \<longleftrightarrow> list_all (holds lc (arg_of (wc_args w)) col) (wc_conds w)"

definition clause_ok :: "where_clause \<Rightarrow> bool" where
  "clause_ok w \<longleftrightarrow> wc_idx w = length (wc_args w) + 1
     \<and> (\<forall>c \<in> set (wc_conds w). \<forall>n \<in> set (placeholders c). 1 \<le> n \<and> n \<le> length (wc_args w))"

lemma clause_ok_empty [simp]: "clause_ok no_conds" "selects lc no_conds col"
  by (simp_all add: clause_ok_def no_conds_def selects_def)

lemma selects_more:
  assumes "clause_ok w"
  shows "list_all (holds lc (arg_of (wc_args w @ vs)) col) (wc_conds w) = selects lc w col"
proof -
  have "holds lc (arg_of (wc_args w @ vs)) col c = holds lc (arg_of (wc_args w)) col c"
    if "c \<in> set (wc_conds w)" for c
    using assms that by (intro holds_cong) (force simp: clause_ok_def arg_of_def nth_append)
  then show ?thesis by (auto simp: selects_def list_all_iff)
qed

lemma arg_of_new: "clause_ok w \<Longrightarrow> arg_of (wc_args w @ [v]) (wc_idx w) = v"
  "clause_ok w \<Longrightarrow> arg_of (wc_args w @ [v, u]) (wc_idx w) = v"
  "clause_ok w \<Longrightarrow> arg_of (wc_args w @ [v, u]) (Suc (wc_idx w)) = u"
  by (simp_all add: clause_ok_def arg_of_def nth_append)

lemma add0_ok:
  assumes "clause_ok w" "placeholders c = []"
  shows "clause_ok (add0 c w)" "selects lc (add0 c w) col \<longleftrightarrow> selects lc w col \<and> holds lc (\<lambda>_. VNull) col c"
proof -
  show "clause_ok (add0 c w)" using assms by (auto simp: clause_ok_def add0_def)
  have "holds lc (arg_of (wc_args w)) col c = holds lc (\<lambda>_. VNull) col c"
    using assms(2) by (intro holds_cong) simp
  then show "selects lc (add0 c w) col \<longleftrightarrow> selects lc w col \<and> holds lc (\<lambda>_. VNull) col c"
    by (simp add: selects_def add0_def)
qed

lemma add1_ok:
  assumes "clause_ok w" "\<And>n. placeholders (c n) = [n]"
  shows "clause_ok (add1 c v w)"
    "selects lc (add1 c v w) col \<longleftrightarrow> selects lc w col \<and> holds lc (\<lambda>_. v) col (c (wc_idx w))"
proof -
  show "clause_ok (add1 c v w)" using assms by (fastforce simp: clause_ok_def add1_def)
  have "holds lc (arg_of (wc_args w @ [v])) col (c (wc_idx w)) = holds lc (\<lambda>_. v) col (c (wc_idx w))"
    by (intro holds_cong) (simp add: assms(2) arg_of_new(1) [OF assms(1)])
  then show "selects lc (add1 c v w) col \<longleftrightarrow> selects lc w col \<and> holds lc (\<lambda>_. v) col (c (wc_idx w))"
    using selects_more [OF assms(1), of lc "[v]" col] by (simp add: add1_def selects_def)
qed

lemma add2_ok:
  assumes "clause_ok w" "\<And>n m. placeholders (c n m) = [n, m]"
  shows "clause_ok (add2 c v u w)"
    "selects lc (add2 c v u w) col
     \<longleftrightarrow> selects lc w col \<and> holds lc (\<lambda>n. if n = wc_idx w then v else u) col (c (wc_idx w) (wc_idx w + 1))"
proof -
  show "clause_ok (add2 c v u w)" using assms by (fastforce simp: clause_ok_def add2_def)
  have "holds lc (arg_of (wc_args w @ [v, u])) col (c (wc_idx w) (wc_idx w + 1))
      = holds lc (\<lambda>n. if n = wc_idx w then v else u) col (c (wc_idx w) (wc_idx w + 1))"
    by (intro holds_cong) (auto simp: assms(2) arg_of_new(2,3) [OF assms(1)])
  then show "selects lc (add2 c v u w) col
     \<longleftrightarrow> selects lc w col \<and> holds lc (\<lambda>n. if n = wc_idx w then v else u) col (c (wc_idx w) (wc_idx w + 1))"
    using selects_more [OF assms(1), of lc "[v, u]" col] by (simp add: add2_def selects_def)
qed

text \<open>Optional conditions, as every filter has them.\<close>

definition add_eq_if :: "bool \<Rightarrow> string \<Rightarrow> sql_val \<Rightarrow> where_clause \<Rightarrow> where_clause" where
  "add_eq_if b c v w = (if b then add1 (CEq c) v w else w)"

lemma add_eq_if_ok [simp]:
  assumes "clause_ok w"
  shows "clause_ok (add_eq_if b c v w)"
    "selects lc (add_eq_if b c v w) col \<longleftrightarrow> selects lc w col \<and> (b \<longrightarrow> sql_eq (col c) v)"
  using add1_ok [OF assms, of "CEq c"] by (auto simp: add_eq_if_def assms)

text \<open>Two clauses with the same conditions have the same text, whatever their arguments.\<close>

definition same_conds :: "where_clause \<Rightarrow> where_clause \<Rightarrow> bool" where
  "same_conds w w' \<longleftrightarrow> wc_conds w = wc_conds w' \<and> wc_idx w = wc_idx w'"

lemma same_conds_refl [simp]: "same_conds w w"
  by (simp add: same_conds_def)

lemma same_conds_text: "same_conds w w' \<Longrightarrow> where_text w = where_text w'"
  by (simp add: same_conds_def where_text_def)

lemma same_conds_add [simp]:
  "same_conds w w' \<Longrightarrow> same_conds (add0 c w) (add0 c w')"
  "same_conds w w' \<Longrightarrow> same_conds (add1 k v w) (add1 k v' w')"
  "same_conds w w' \<Longrightarrow> same_conds (add2 k2 v u w) (add2 k2 v' u' w')"
  "same_conds w w' \<Longrightarrow> same_conds (add_eq_if b nm v w) (add_eq_if b nm v' w')"
  by (auto simp: same_conds_def add0_def add1_def add2_def add_eq_if_def)

section \<open>The contract of a builder\<close>

locale where_builder =
  fixes lc :: "string \<Rightarrow> string"
    and build :: "'f \<Rightarrow> where_clause"
    and col :: "'r \<Rightarrow> string \<Rightarrow> sql_val"
    and wanted :: "'f \<Rightarrow> 'r \<Rightarrow> bool"
    and shape :: "'f \<Rightarrow> 'h"
  assumes build_ok: "clause_ok (build f)"
    and build_selects: "selects lc (build f) (col r) = wanted f r"
    and build_shape: "shape f = shape g \<Longrightarrow> same_conds (build f) (build g)"
begin

lemma rows_selected: "filter (\<lambda>r. selects lc (build f) (col r)) rows = filter (wanted f) rows"
  by (simp add: build_selects)

lemma all_bound: "c \<in> set (wc_conds (build f)) \<Longrightarrow> n \<in> set (placeholders c) \<Longrightarrow>
   1 \<le> n \<and> n \<le> length (wc_args (build f))"
  using build_ok [of f] by (auto simp: clause_ok_def)

lemma text_by_shape: "shape f = shape g \<Longrightarrow> where_text (build f) = where_text (build g)"
  by (rule same_conds_text) (rule build_shape)

end

section \<open>Pages by number\<close>

text \<open>
  The common tail of the List methods that page by number: LIMIT and OFFSET over the ordered
  rows, with the total of a count query before. The offset is computed in 64 bits; a negative one
  is an error of the statement.
\<close>

definition limit_offset :: "int \<Rightarrow> int \<Rightarrow> 'r list \<Rightarrow> pg_error + 'r list \<times> int" where
  "limit_offset page0 limit0 rows =
     (let total = int (length rows);
          page = (if page0 \<le> 0 then 1 else page0);
          limit = (if limit0 \<le> 0 then 20 else limit0);
          offset = wrap64 (wrap64 (page - 1) * limit)
      in if offset < 0 then Inl (Failed NegativeOffset)
         else Inr (take (nat limit) (drop (nat offset) rows), total))"

text \<open>It gives the window of the in-memory store, and an error where that one panics.\<close>

lemma limit_offset_window:
  assumes "int (length rows) + limit0 < 2 ^ 63" "20 + int (length rows) < 2 ^ 63"
  shows "limit_offset page0 limit0 rows
       = (case page_window page0 limit0 rows of
            Some r \<Rightarrow> Inr r | None \<Rightarrow> Inl (Failed NegativeOffset))"
proof -
  define p where "p = (if page0 \<le> 0 then 1 else page0)"
  define l where "l = (if limit0 \<le> 0 then 20 else limit0)"
  define st where "st = wrap64 (wrap64 (p - 1) * l)"
  define n where "n = int (length rows)"
  have l: "0 < l" "n + l < 2 ^ 63" using assms by (auto simp: l_def n_def)
  have lo: "limit_offset page0 limit0 rows
      = (if st < 0 then Inl (Failed NegativeOffset) else Inr (take (nat l) (drop (nat st) rows), n))"
    by (simp only: limit_offset_def Let_def p_def l_def st_def n_def)
  have pw: "page_window page0 limit0 rows = (if st \<ge> n then Some ([], n)
      else map_option (\<lambda>items. (items, n)) (slice_range rows st
        (if wrap64 (st + l) > n then n else wrap64 (st + l))))"
    by (simp only: page_window_def Let_def p_def l_def st_def n_def)
  consider "st < 0" | "0 \<le> st" "n \<le> st" | "0 \<le> st" "st < n" by linarith
  then show ?thesis
  proof cases
    case 1
    then have "\<not> st \<ge> n" by (simp add: n_def)
    with 1 show ?thesis unfolding lo pw by (simp add: slice_range_def)
  next
    case 2
    then show ?thesis unfolding lo pw by (simp add: n_def)
  next
    case 3
    then have "is_int64 (st + l)" using l by (simp add: is_int64_def)
    then have w: "wrap64 (st + l) = st + l" by simp
    have "take (nat l) (drop (nat st) rows)
        = take (nat ((if st + l > n then n else st + l) - st)) (drop (nat st) rows)"
      using 3 l by (auto simp: n_def)
    with 3 l show ?thesis unfolding lo pw w by (auto simp: slice_range_def n_def)
  qed
qed

end
