(* ===== verification/Pg_Core.thy ===== *)
theory Pg_Core
  imports Pg_Query
begin

text \<open>
  Users, projects, tasks, agents and the capability catalog in store/postgres: each method with
  its statement, the constraints that refuse it and the way its error is passed on. NOW() is the
  argument \<open>now\<close>, a drawn id \<open>fresh\<close>. \<open>scan\<close> is the order in which a query without a total
  ORDER BY meets the rows, some permutation of the table; \<open>lc\<close> folds case. Texts of enumerations
  fit their columns.
\<close>

definition permutes_rows :: "('r list \<Rightarrow> 'r list) \<Rightarrow> bool" where
  "permutes_rows scan \<longleftrightarrow> (\<forall>t. mset (scan t) = mset t)"

definition as_failed :: "sqlstate option \<Rightarrow> 'r \<Rightarrow> pg_error + 'r" where
  "as_failed e r = (case e of Some x \<Rightarrow> Inl (Failed x) | None \<Rightarrow> Inr r)"

text \<open>The methods that map unique\_violation to ErrAlreadyExists.\<close>

definition as_dup_failed :: "sqlstate option \<Rightarrow> 'r \<Rightarrow> pg_error + 'r" where
  "as_dup_failed e r = (case e of
       Some UniqueViolation \<Rightarrow> Inl (Sentinel ErrAlreadyExists)
     | Some x \<Rightarrow> Inl (Failed x) | None \<Rightarrow> Inr r)"

definition found :: "'r option \<Rightarrow> pg_error + 'r" where
  "found r = (case r of None \<Rightarrow> Inl (Sentinel ErrNotFound) | Some x \<Rightarrow> Inr x)"

lemma as_failed_Inr [simp]: "as_failed e r = Inr x \<longleftrightarrow> e = None \<and> r = x"
  by (auto simp: as_failed_def split: option.splits)

lemma as_dup_failed_Inr [simp]: "as_dup_failed e r = Inr x \<longleftrightarrow> e = None \<and> r = x"
  by (auto simp: as_dup_failed_def split: option.splits sqlstate.splits)

section \<open>Users (user\_store.go)\<close>

text \<open>Teams and projects of a user have no column.\<close>

definition users_row :: "user \<Rightarrow> user" where
  "users_row u = u\<lparr>u_teams := [], u_projects := [], u_created := pg_time (u_created u),
                   u_updated := pg_time (u_updated u)\<rparr>"

definition users_text_error :: "user \<Rightarrow> (bool \<times> sqlstate) list" where
  "users_text_error u =
     [(bad_text [u_email u, u_password_hash u, u_name u, role_str (u_role u)], ZeroByte),
      (too_long [(255, u_email u), (255, u_password_hash u), (255, u_name u),
         (50, role_str (u_role u))], StringTooLong)]"

definition PgUser_Create :: "user \<Rightarrow> pg_db \<Rightarrow> pg_error + pg_db" where
  "PgUser_Create u db =
     as_failed (violated (users_text_error u @
        [(null_required users_schema
            [''id'', ''email'', ''password_hash'', ''name'', ''role'', ''created_at'', ''updated_at''] [],
          NotNullViolation),
         (has_key u_id (u_id u) (pg_users db) \<or> has_key u_email (u_email u) (pg_users db),
          UniqueViolation)]))
       (db\<lparr>pg_users := pg_users db @ [users_row u]\<rparr>)"

definition PgUser_GetByID :: "uuid \<Rightarrow> pg_db \<Rightarrow> pg_error + user" where
  "PgUser_GetByID k db = found (row_of u_id k (pg_users db))"

definition PgUser_GetByEmail :: "string \<Rightarrow> pg_db \<Rightarrow> pg_error + user" where
  "PgUser_GetByEmail email db =
     (if bad_text [email] then Inl (Failed ZeroByte) else found (row_of u_email email (pg_users db)))"

definition PgUser_List :: "(user list \<Rightarrow> user list) \<Rightarrow> pg_db \<Rightarrow> user list" where
  "PgUser_List scan db = sort_slice (\<lambda>a b. u_created a < u_created b) (scan (pg_users db))"

definition users_set :: "user \<Rightarrow> user \<Rightarrow> user" where
  "users_set u r = r\<lparr>u_email := u_email u, u_password_hash := u_password_hash u, u_name := u_name u,
                    u_role := u_role u, u_updated := pg_time (u_updated u)\<rparr>"

definition PgUser_Update :: "user \<Rightarrow> pg_db \<Rightarrow> pg_error + pg_db" where
  "PgUser_Update u db =
     (case violated (users_text_error u) of
        Some e \<Rightarrow> Inl (Failed e)
      | None \<Rightarrow>
          if \<not> has_key u_id (u_id u) (pg_users db) then Inl (Sentinel ErrNotFound)
          else as_failed (violated
              [(list_ex (\<lambda>r. u_email r = u_email u \<and> u_id r \<noteq> u_id u) (pg_users db), UniqueViolation)])
            (db\<lparr>pg_users := set_row u_id (u_id u) (users_set u) (pg_users db)\<rparr>))"

definition PgUser_CheckProjectAccess :: "uuid \<Rightarrow> uuid \<Rightarrow> pg_db \<Rightarrow> bool" where
  "PgUser_CheckProjectAccess uid pid db =
     (case PgUser_GetByID uid db of
        Inl _ \<Rightarrow> False
      | Inr u \<Rightarrow> if u_role u = RoleAdmin then True else False)"

section \<open>Rows that go with a deleted row (the REFERENCES of the migrations)\<close>

definition drop_deliverables :: "(deliverable \<Rightarrow> bool) \<Rightarrow> pg_db \<Rightarrow> pg_db" where
  "drop_deliverables P db = db\<lparr>
     pg_dversions := filter (\<lambda>v. \<not> list_ex (\<lambda>d. P d \<and> d_id d = dv_deliverable v) (pg_deliverables db))
       (pg_dversions db),
     pg_deliverables := filter (\<lambda>d. \<not> P d) (pg_deliverables db)\<rparr>"

definition drop_assignments :: "(assignment \<Rightarrow> bool) \<Rightarrow> pg_db \<Rightarrow> pg_db" where
  "drop_assignments P db = db\<lparr>
     pg_events := filter (\<lambda>v. \<not> list_ex (\<lambda>a. P a \<and> as_id a = ev_assignment v) (pg_assignments db))
       (pg_events db),
     pg_assignments := filter (\<lambda>a. \<not> P a) (pg_assignments db)\<rparr>"

definition drop_reviews :: "(review \<Rightarrow> bool) \<Rightarrow> pg_db \<Rightarrow> pg_db" where
  "drop_reviews P db =
     (let dead = (\<lambda>k. list_ex (\<lambda>r. P r \<and> rv_id r = k) (pg_reviews db)) in db\<lparr>
     pg_review_issues := filter (\<lambda>i. \<not> dead (ri_review i)) (pg_review_issues db),
     pg_review_comments := filter (\<lambda>c. \<not> dead (rc_review c)) (pg_review_comments db),
     pg_reviews := filter (\<lambda>r. \<not> P r) (pg_reviews db)\<rparr>)"

definition drop_commits :: "(commit \<Rightarrow> bool) \<Rightarrow> pg_db \<Rightarrow> pg_db" where
  "drop_commits P db =
     (let dead = (\<lambda>sha. list_ex (\<lambda>c. P c \<and> cm_sha c = sha) (pg_commits db));
          db1 = drop_reviews (\<lambda>r. dead (rv_commit r)) db
      in db1\<lparr>pg_commit_files := filter (\<lambda>f. \<not> dead (fst f)) (pg_commit_files db1),
             pg_commits := filter (\<lambda>c. \<not> P c) (pg_commits db1)\<rparr>)"

definition drop_tasks :: "(task \<Rightarrow> bool) \<Rightarrow> pg_db \<Rightarrow> pg_db" where
  "drop_tasks P db =
     (let dead = (\<lambda>k. list_ex (\<lambda>t. P t \<and> t_id t = k) (pg_tasks db));
          db1 = drop_deliverables (\<lambda>d. dead (d_task d)) db;
          db2 = drop_assignments (\<lambda>a. dead (as_task a)) db1
      in db2\<lparr>pg_executions := filter (\<lambda>e. \<not> dead (ex_task e)) (pg_executions db2),
             pg_codegens := filter (\<lambda>g. \<not> dead (cg_task g)) (pg_codegens db2),
             pg_events := filter (\<lambda>v. \<not> dead (ev_task v)) (pg_events db2),
             pg_tasks := filter (\<lambda>t. \<not> P t) (pg_tasks db2)\<rparr>)"

text \<open>
  An assignment restricts the deletion of its agent; the event log and reviews forget it.
\<close>

definition drop_agents :: "(agent \<Rightarrow> bool) \<Rightarrow> pg_db \<Rightarrow> sqlstate + pg_db" where
  "drop_agents P db =
     (let dead = (\<lambda>k. list_ex (\<lambda>a. P a \<and> ag_id a = k) (pg_agents db))
      in if list_ex (\<lambda>a. dead (as_agent a)) (pg_assignments db) then Inl ForeignKeyViolation
         else let db1 = drop_deliverables (\<lambda>d. dead (d_agent d)) db
              in Inr (db1\<lparr>
                   pg_executions := filter (\<lambda>e. \<not> dead (ex_agent e)) (pg_executions db1),
                   pg_agent_capabilities :=
                     filter (\<lambda>c. \<not> dead (ac_agent c)) (pg_agent_capabilities db1),
                   pg_events := map (\<lambda>v. if \<exists>k \<in> set_option (ev_agent v). dead k
                                         then v\<lparr>ev_agent := None\<rparr> else v) (pg_events db1),
                   pg_reviews := map (\<lambda>r. if \<exists>k \<in> set_option (rv_agent r). dead k
                                          then r\<lparr>rv_agent := None\<rparr> else r) (pg_reviews db1),
                   pg_agents := filter (\<lambda>a. \<not> P a) (pg_agents db1)\<rparr>))"

section \<open>Projects (project\_store.go)\<close>

definition projects_row :: "project \<Rightarrow> project" where
  "projects_row p = p\<lparr>pr_active_agents := 0, pr_created := pg_time (pr_created p),
                      pr_updated := pg_time (pr_updated p)\<rparr>"

definition projects_errors :: "project \<Rightarrow> (bool \<times> sqlstate) list" where
  "projects_errors p =
     [(bad_text [pr_name p, pr_description p, pr_template p], ZeroByte),
      (too_long [(255, pr_name p), (100, pr_template p)], StringTooLong),
      (bad_int4 (pr_progress p), IntOutOfRange)]"

definition PgProject_Create :: "project \<Rightarrow> pg_db \<Rightarrow> pg_error + pg_db" where
  "PgProject_Create p db =
     as_failed (violated (projects_errors p @
        [(null_required projects_schema
            [''id'', ''name'', ''description'', ''owner_id'', ''status'', ''template'', ''progress'',
             ''created_at'', ''updated_at''] [], NotNullViolation),
         (has_key pr_id (pr_id p) (pg_projects db), UniqueViolation),
         (\<not> has_key u_id (pr_owner p) (pg_users db), ForeignKeyViolation)]))
       (db\<lparr>pg_projects := pg_projects db @ [projects_row p]\<rparr>)"

text \<open>The subquery counts the agents of the project in the status 'working'.\<close>

definition with_active :: "pg_db \<Rightarrow> project \<Rightarrow> project" where
  "with_active db p = p\<lparr>pr_active_agents := int (length
     (filter (\<lambda>a. ag_project a = pr_id p \<and> ag_status a = AgentWorking) (pg_agents db)))\<rparr>"

definition PgProject_GetByID :: "uuid \<Rightarrow> pg_db \<Rightarrow> pg_error + project" where
  "PgProject_GetByID k db = map_sum id (with_active db) (found (row_of pr_id k (pg_projects db)))"

definition project_col :: "project \<Rightarrow> string \<Rightarrow> sql_val" where
  "project_col p c =
     (if c = ''status'' then VProjectStatus (pr_status p)
      else if c = ''owner_id'' then VId (pr_owner p)
      else if c = ''name'' then VText (pr_name p)
      else if c = ''description'' then VText (pr_description p) else VNull)"

definition Project_where :: "project_filter \<Rightarrow> where_clause" where
  "Project_where f =
     (let w = no_conds;
          w = add_eq_if (pjf_status f \<noteq> ProjectOther '''') ''status'' (VProjectStatus (pjf_status f)) w;
          w = add_eq_if (pjf_owner f \<noteq> uuid_nil) ''owner_id'' (VId (pjf_owner f)) w
      in if pjf_search f \<noteq> ''''
         then add1 (CILike2 ''name'' ''description'') (VText (''%'' @ pjf_search f @ ''%'')) w else w)"

definition PgProject_List ::
  "(string \<Rightarrow> string) \<Rightarrow> (project list \<Rightarrow> project list) \<Rightarrow> project_filter \<Rightarrow> pg_db
   \<Rightarrow> pg_error + project list \<times> int" where
  "PgProject_List lc scan f db =
     (if bad_text [pjf_search f] then Inl (Failed ZeroByte)
      else let rows = filter (\<lambda>p. selects lc (Project_where f) (project_col p)) (scan (pg_projects db));
               rows = sort_slice (\<lambda>a b. pr_created b < pr_created a) rows
           in map_sum id (\<lambda>(ps, total). (map (with_active db) ps, total))
                (limit_offset (pjf_page f) (pjf_limit f) rows))"

definition projects_set :: "go_time \<Rightarrow> project \<Rightarrow> project \<Rightarrow> project" where
  "projects_set now p r = r\<lparr>pr_name := pr_name p, pr_description := pr_description p,
     pr_owner := pr_owner p, pr_status := pr_status p, pr_template := pr_template p,
     pr_progress := pr_progress p, pr_updated := pg_time now\<rparr>"

definition PgProject_Update :: "go_time \<Rightarrow> project \<Rightarrow> pg_db \<Rightarrow> pg_error + pg_db" where
  "PgProject_Update now p db =
     (case violated (projects_errors p) of
        Some e \<Rightarrow> Inl (Failed e)
      | None \<Rightarrow>
          if \<not> has_key pr_id (pr_id p) (pg_projects db) then Inl (Sentinel ErrNotFound)
          else as_failed (violated
              [(\<not> has_key u_id (pr_owner p) (pg_users db), ForeignKeyViolation)])
            (db\<lparr>pg_projects := set_row pr_id (pr_id p) (projects_set now p) (pg_projects db)\<rparr>))"

text \<open>The cascades run in the order in which the referencing tables were created.\<close>

definition PgProject_Delete :: "uuid \<Rightarrow> pg_db \<Rightarrow> pg_error + pg_db" where
  "PgProject_Delete k db =
     (if \<not> has_key pr_id k (pg_projects db) then Inl (Sentinel ErrNotFound)
      else case drop_agents (\<lambda>a. ag_project a = k) (drop_tasks (\<lambda>t. t_project t = k) db) of
             Inl e \<Rightarrow> Inl (Failed e)
           | Inr db1 \<Rightarrow>
               let db2 = drop_commits (\<lambda>c. cm_project c = k) db1;
                   db3 = drop_reviews (\<lambda>r. rv_project r = k) db2
               in Inr (db3\<lparr>pg_codegens := filter (\<lambda>g. cg_project g \<noteq> k) (pg_codegens db3),
                           pg_files := filter (\<lambda>f. pf_project f \<noteq> k) (pg_files db3),
                           pg_projects := filter (\<lambda>p. pr_id p \<noteq> k) (pg_projects db3)\<rparr>))"

section \<open>Tasks (task\_store.go)\<close>

text \<open>The agent of a task has no column; the assignee is a user of the users table.\<close>

definition tasks_row :: "task \<Rightarrow> task" where
  "tasks_row t = t\<lparr>t_assignee_agent := '''', t_created := pg_time (t_created t),
                   t_updated := pg_time (t_updated t)\<rparr>"

definition tasks_errors :: "task \<Rightarrow> (bool \<times> sqlstate) list" where
  "tasks_errors t =
     [(bad_text (t_title t # t_description t # t_required t), ZeroByte),
      (too_long [(500, t_title t)], StringTooLong),
      (bad_int4 (t_position t), IntOutOfRange)]"

definition PgTask_Create :: "task \<Rightarrow> pg_db \<Rightarrow> pg_error + pg_db" where
  "PgTask_Create t db =
     as_failed (violated (tasks_errors t @
        [(null_required tasks_schema
            [''id'', ''project_id'', ''title'', ''description'', ''status'', ''priority'',
             ''assignee_id'', ''position'', ''required_capabilities'', ''created_at'', ''updated_at''] [],
          NotNullViolation),
         (has_key t_id (t_id t) (pg_tasks db), UniqueViolation),
         (\<not> has_key pr_id (t_project t) (pg_projects db)
            \<or> \<not> has_key u_id (t_assignee t) (pg_users db), ForeignKeyViolation)]))
       (db\<lparr>pg_tasks := pg_tasks db @ [tasks_row t]\<rparr>)"

definition PgTask_GetByID :: "uuid \<Rightarrow> pg_db \<Rightarrow> pg_error + task" where
  "PgTask_GetByID k db = found (row_of t_id k (pg_tasks db))"

definition task_col :: "task \<Rightarrow> string \<Rightarrow> sql_val" where
  "task_col t c =
     (if c = ''project_id'' then VId (t_project t)
      else if c = ''status'' then VTaskStatus (t_status t)
      else if c = ''assignee_id'' then VId (t_assignee t) else VNull)"

definition Task_where :: "task_filter \<Rightarrow> where_clause" where
  "Task_where f =
     (let w = no_conds;
          w = add_eq_if (tf_project f \<noteq> uuid_nil) ''project_id'' (VId (tf_project f)) w;
          w = add_eq_if (tf_status f \<noteq> TaskOther '''') ''status'' (VTaskStatus (tf_status f)) w
      in add_eq_if (tf_assignee f \<noteq> uuid_nil) ''assignee_id'' (VId (tf_assignee f)) w)"

definition pg_task_before :: "task \<Rightarrow> task \<Rightarrow> bool" where
  "pg_task_before a b = (if t_position a \<noteq> t_position b then t_position a < t_position b
                         else t_created b < t_created a)"

definition PgTask_List ::
  "(string \<Rightarrow> string) \<Rightarrow> (task list \<Rightarrow> task list) \<Rightarrow> task_filter \<Rightarrow> pg_db
   \<Rightarrow> pg_error + task list \<times> int" where
  "PgTask_List lc scan f db =
     (let rows = filter (\<lambda>t. selects lc (Task_where f) (task_col t)) (scan (pg_tasks db))
      in limit_offset (tf_page f) (tf_limit f) (sort_slice pg_task_before rows))"

definition tasks_set :: "go_time \<Rightarrow> task \<Rightarrow> task \<Rightarrow> task" where
  "tasks_set now t r = r\<lparr>t_title := t_title t, t_description := t_description t,
     t_status := t_status t, t_priority := t_priority t, t_assignee := t_assignee t,
     t_position := t_position t, t_required := t_required t, t_updated := pg_time now\<rparr>"

definition PgTask_Update :: "go_time \<Rightarrow> task \<Rightarrow> pg_db \<Rightarrow> pg_error + pg_db" where
  "PgTask_Update now t db =
     (case violated (tasks_errors t) of
        Some e \<Rightarrow> Inl (Failed e)
      | None \<Rightarrow>
          if \<not> has_key t_id (t_id t) (pg_tasks db) then Inl (Sentinel ErrNotFound)
          else as_failed (violated
              [(\<not> has_key u_id (t_assignee t) (pg_users db), ForeignKeyViolation)])
            (db\<lparr>pg_tasks := set_row t_id (t_id t) (tasks_set now t) (pg_tasks db)\<rparr>))"

definition PgTask_Delete :: "uuid \<Rightarrow> pg_db \<Rightarrow> pg_error + pg_db" where
  "PgTask_Delete k db =
     (if \<not> has_key t_id k (pg_tasks db) then Inl (Sentinel ErrNotFound)
      else Inr (drop_tasks (\<lambda>t. t_id t = k) db))"

section \<open>What these tables keep of a row\<close>

lemma has_key_row: "\<not> has_key key k t \<longleftrightarrow> row_of key k t = None"
  by (simp add: has_key_iff)

lemma found_view: "found r = (case r of None \<Rightarrow> Inl (Sentinel ErrNotFound) | Some v \<Rightarrow> Inr v)"
  by (simp add: found_def)

lemmas users_defs = PgUser_Create_def PgUser_GetByID_def PgUser_Update_def users_row_def users_set_def
lemmas tasks_defs = PgTask_Create_def PgTask_GetByID_def PgTask_Update_def tasks_row_def tasks_set_def

interpretation pg_users: row_table_update u_id "\<lambda>db k. row_of u_id k (pg_users db)" users_row
  "Sentinel ErrNotFound" PgUser_Create PgUser_GetByID users_set PgUser_Update
proof unfold_locales
  fix u db db'
  assume "PgUser_Create u db = Inr db'"
  then show "row_of u_id (u_id u) (pg_users db) = None
      \<and> (\<lambda>k. row_of u_id k (pg_users db')) = (\<lambda>k. row_of u_id k (pg_users db))(u_id u \<mapsto> users_row u)"
    using row_of_insert [of u_id "users_row u" "pg_users db"]
    by (auto simp: users_defs has_key_row fun_eq_iff)
next
  fix u db db'
  assume "PgUser_Update u db = Inr db'"
  then show "\<exists>old. row_of u_id (u_id u) (pg_users db) = Some old
      \<and> (\<lambda>k. row_of u_id k (pg_users db')) = (\<lambda>k. row_of u_id k (pg_users db))(u_id u \<mapsto> users_set u old)"
    using row_of_set_row [of u_id "u_id u" "users_set u" _ "pg_users db"]
    by (auto simp: users_defs has_key_iff fun_eq_iff split: option.splits if_splits)
qed (auto simp: users_defs found_view)

interpretation pg_tasks: row_table_update t_id "\<lambda>db k. row_of t_id k (pg_tasks db)" tasks_row
  "Sentinel ErrNotFound" PgTask_Create PgTask_GetByID "tasks_set now" "PgTask_Update now" for now
proof unfold_locales
  fix t db db'
  assume "PgTask_Create t db = Inr db'"
  then show "row_of t_id (t_id t) (pg_tasks db) = None
      \<and> (\<lambda>k. row_of t_id k (pg_tasks db')) = (\<lambda>k. row_of t_id k (pg_tasks db))(t_id t \<mapsto> tasks_row t)"
    using row_of_insert [of t_id "tasks_row t" "pg_tasks db"]
    by (auto simp: tasks_defs has_key_row fun_eq_iff)
next
  fix t db db'
  assume "PgTask_Update now t db = Inr db'"
  then show "\<exists>old. row_of t_id (t_id t) (pg_tasks db) = Some old
      \<and> (\<lambda>k. row_of t_id k (pg_tasks db')) = (\<lambda>k. row_of t_id k (pg_tasks db))(t_id t \<mapsto> tasks_set now t old)"
    using row_of_set_row [of t_id "t_id t" "tasks_set now t" _ "pg_tasks db"]
    by (auto simp: tasks_defs has_key_iff fun_eq_iff split: option.splits if_splits)
qed (auto simp: tasks_defs found_view)

text \<open>The clauses select the rows that the filters of the in-memory store keep.\<close>

interpretation task_where: where_builder lc Task_where task_col task_matches
  "\<lambda>f. (tf_project f \<noteq> uuid_nil, tf_status f \<noteq> TaskOther '''', tf_assignee f \<noteq> uuid_nil)" for lc
  by unfold_locales
    (auto simp: Task_where_def Let_def task_matches_def task_col_def sql_eq_def)

text \<open>
  The search of the in-memory store is a substring; here percent and underscore are wildcards.
\<close>

definition pg_project_matches :: "(string \<Rightarrow> string) \<Rightarrow> project_filter \<Rightarrow> project \<Rightarrow> bool" where
  "pg_project_matches lc f p \<longleftrightarrow>
     (pjf_status f \<noteq> ProjectOther '''' \<longrightarrow> pr_status p = pjf_status f)
     \<and> (pjf_owner f \<noteq> uuid_nil \<longrightarrow> pr_owner p = pjf_owner f)
     \<and> (pjf_search f \<noteq> '''' \<longrightarrow>
          (\<exists>s \<in> {pr_name p, pr_description p}. like (lc (''%'' @ pjf_search f @ ''%'')) (lc s)))"

interpretation project_where: where_builder lc Project_where project_col "pg_project_matches lc"
  "\<lambda>f. (pjf_status f \<noteq> ProjectOther '''', pjf_owner f \<noteq> uuid_nil, pjf_search f \<noteq> '''')" for lc
proof unfold_locales
  fix f
  show "clause_ok (Project_where f)" by (simp add: Project_where_def Let_def add1_ok)
  show "selects lc (Project_where f) (project_col p) = pg_project_matches lc f p" for p
    by (auto simp: Project_where_def Let_def add1_ok pg_project_matches_def project_col_def
        sql_eq_def ilike_def)
qed (auto simp: Project_where_def Let_def)

lemma like_any: "like (CHR ''%'' # ps) s \<longleftrightarrow> (\<exists>i \<in> set [0..<Suc (length s)]. like ps (drop i s))"
  by (subst like.simps) (simp only: if_True refl list_ex_iff)

lemma like_char:
  "c \<notin> {CHR ''%'', CHR ''_'', CHR 0x5C} \<Longrightarrow>
     like (c # ps) s \<longleftrightarrow> (case s of [] \<Rightarrow> False | d # t \<Rightarrow> d = c \<and> like ps t)"
  by (subst like.simps) simp

declare like.simps(2) [simp del]

lemma like_percent: "like ''%'' s"
proof -
  have "length s \<in> set [0..<Suc (length s)]" "like [] (drop (length s) s)" by simp_all
  then show ?thesis unfolding like_any by blast
qed

lemma like_plain:
  "\<forall>c \<in> set p. c \<notin> {CHR ''%'', CHR ''_'', CHR 0x5C} \<Longrightarrow>
     like (p @ ''%'') s \<longleftrightarrow> take (length p) s = p"
proof (induction p arbitrary: s)
  case Nil
  then show ?case by (simp add: like_percent)
next
  case (Cons c p)
  then show ?case by (cases s) (auto simp: like_char)
qed

text \<open>Without wildcards the two stores search alike.\<close>

lemma like_contains:
  assumes "\<forall>c \<in> set p. c \<notin> {CHR ''%'', CHR ''_'', CHR 0x5C}"
  shows "like (''%'' @ p @ ''%'') s \<longleftrightarrow> strings_contains s p"
proof -
  have "like (''%'' @ p @ ''%'') s \<longleftrightarrow> (\<exists>i \<in> set [0..<Suc (length s)]. like (p @ ''%'') (drop i s))"
    by (simp only: append_Cons append_Nil like_any)
  then show ?thesis by (simp only: like_plain [OF assms] strings_contains_def)
qed

lemma pg_project_matches_plain:
  assumes lc: "lc = map f" "f CHR ''%'' = CHR ''%''"
    and plain: "\<forall>c \<in> set (pjf_search q). f c \<notin> {CHR ''%'', CHR ''_'', CHR 0x5C}"
  shows "pg_project_matches lc q p = project_matches lc q p"
proof -
  have "lc (''%'' @ pjf_search q @ ''%'') = ''%'' @ map f (pjf_search q) @ ''%''" by (simp add: lc)
  moreover have "like (''%'' @ map f (pjf_search q) @ ''%'') s
      \<longleftrightarrow> strings_contains s (map f (pjf_search q))" for s
    using plain by (intro like_contains) auto
  ultimately show ?thesis by (auto simp: pg_project_matches_def project_matches_def lc(1))
qed

end
