(* ===== verification/Pg_Agents.thy ===== *)
theory Pg_Agents
  imports Pg_Core
begin

text \<open>
  Agents and the capability catalog in store/postgres/agent\_store.go. \<open>jb\<close> is what JSONB keeps of
  a JSON text, None when it is not one. A nil slice is the empty list.
\<close>

section \<open>Agents\<close>

definition agents_row :: "(string \<Rightarrow> string option) \<Rightarrow> agent \<Rightarrow> agent" where
  "agents_row jb a = a\<lparr>ag_last_active := map_option pg_time (ag_last_active a),
     ag_metadata := the (jb (ag_metadata a)),
     ag_runtime := (if ag_runtime a = '''' then '''' else the (jb (ag_runtime a))),
     ag_retired_at := map_option pg_time (ag_retired_at a),
     ag_created := pg_time (ag_created a), ag_updated := pg_time (ag_updated a)\<rparr>"

definition agents_errors :: "(string \<Rightarrow> string option) \<Rightarrow> agent \<Rightarrow> (bool \<times> sqlstate) list" where
  "agents_errors jb a =
     [(bad_text (ag_name a # ag_role a # ag_capabilities a), ZeroByte),
      (too_long [(255, ag_name a), (80, ag_role a)], StringTooLong),
      (ag_metadata a \<noteq> '''' \<and> jb (ag_metadata a) = None
         \<or> ag_runtime a \<noteq> '''' \<and> jb (ag_runtime a) = None, InvalidJson)]"

text \<open>The columns of the INSERT. The table has a further column agent\_type.\<close>

definition agents_inserted :: "string list" where
  "agents_inserted = [''id'', ''project_id'', ''name'', ''role'', ''status'', ''capabilities'',
     ''last_active_at'', ''metadata'', ''runtime'', ''version'', ''retired_at'', ''created_at'', ''updated_at'']"

definition PgAgent_Create ::
  "(string \<Rightarrow> string option) \<Rightarrow> uuid \<Rightarrow> agent \<Rightarrow> pg_db \<Rightarrow> pg_error + pg_db" where
  "PgAgent_Create jb fresh a db =
     (let a = (if ag_id a = uuid_nil then a\<lparr>ag_id := fresh\<rparr> else a);
          a = (if ag_status a = AgentOther '''' then a\<lparr>ag_status := AgentInitializing\<rparr> else a);
          a = (if ag_version a = 0 then a\<lparr>ag_version := 1\<rparr> else a);
          a = (if ag_metadata a = '''' then a\<lparr>ag_metadata := ''{}''\<rparr> else a)
      in as_dup_failed (violated (agents_errors jb a @
           [(bad_int4 (ag_version a), IntOutOfRange),
            (null_required agents_schema agents_inserted [], NotNullViolation),
            (\<not> IsValidAgentStatus (ag_status a), CheckViolation),
            (has_key ag_id (ag_id a) (pg_agents db)
               \<or> list_ex (\<lambda>x. ag_project x = ag_project a \<and> ag_name x = ag_name a) (pg_agents db),
             UniqueViolation),
            (\<not> has_key pr_id (ag_project a) (pg_projects db), ForeignKeyViolation)]))
          (db\<lparr>pg_agents := pg_agents db @ [agents_row jb a]\<rparr>))"

definition PgAgent_GetByID :: "uuid \<Rightarrow> pg_db \<Rightarrow> pg_error + agent" where
  "PgAgent_GetByID k db = found (row_of ag_id k (pg_agents db))"

definition agent_col :: "agent \<Rightarrow> string \<Rightarrow> sql_val" where
  "agent_col a c =
     (if c = ''project_id'' then VId (ag_project a)
      else if c = ''retired_at'' then (case ag_retired_at a of None \<Rightarrow> VNull | Some t \<Rightarrow> VTime t)
      else if c = ''status'' then VAgentStatus (ag_status a)
      else if c = ''capabilities'' then VTexts (ag_capabilities a)
      else if c = ''created_at'' then VTime (ag_created a)
      else if c = ''id'' then VId (ag_id a) else VNull)"

text \<open>The instant of the cursor's row, NULL when there is none.\<close>

definition lookupCreatedAt :: "uuid \<Rightarrow> pg_db \<Rightarrow> sql_val" where
  "lookupCreatedAt k db =
     (case row_of ag_id k (pg_agents db) of None \<Rightarrow> VNull | Some a \<Rightarrow> VTime (ag_created a))"

definition Agent_conds :: "agent_filter \<Rightarrow> where_clause" where
  "Agent_conds f =
     (let w = add1 (CEq ''project_id'') (VId (af_project f)) no_conds;
          w = (if \<not> af_include_retired f then add0 (CIsNull ''retired_at'') w else w);
          w = add_eq_if (af_status f \<noteq> AgentOther '''') ''status'' (VAgentStatus (af_status f)) w
      in if af_capability f \<noteq> ''''
         then add1 (CContains ''capabilities'') (VText (json_array1 (af_capability f))) w else w)"

definition after_agent :: "uuid \<Rightarrow> pg_db \<Rightarrow> where_clause \<Rightarrow> where_clause" where
  "after_agent c db w = add2 (CGreater2 ''created_at'' ''id'') (lookupCreatedAt c db) (VId c) w"

definition clamp_limit :: "int \<Rightarrow> int" where
  "clamp_limit l = (let l = (if l \<le> 0 then 50 else l) in if l > 200 then 200 else l)"

text \<open>One row more than the page is asked for; it tells whether there are more.\<close>

definition fetch_page :: "int \<Rightarrow> 'r list \<Rightarrow> 'r list \<times> bool" where
  "fetch_page limit rows =
     (let out = take (nat (limit + 1)) rows; hasMore = int (length out) > limit
      in (if hasMore then take (nat limit) out else out, hasMore))"

definition pg_agent_before :: "agent \<Rightarrow> agent \<Rightarrow> bool" where
  "pg_agent_before a b = (if ag_created a \<noteq> ag_created b then ag_created a < ag_created b
                          else ag_id a < ag_id b)"

text \<open>\<open>uparse\<close> and \<open>ustr\<close> stand for uuid.Parse and String.\<close>

definition PgAgent_List ::
  "(string \<Rightarrow> uuid option) \<Rightarrow> (uuid \<Rightarrow> string) \<Rightarrow> (agent list \<Rightarrow> agent list) \<Rightarrow> agent_filter \<Rightarrow> pg_db
   \<Rightarrow> pg_error + agent_page" where
  "PgAgent_List uparse ustr scan f db =
     (let limit = clamp_limit (af_limit f);
          w = Agent_conds f;
          with_cursor = (if af_cursor f = '''' then Some w
             else case uparse (af_cursor f) of None \<Rightarrow> None | Some c \<Rightarrow> Some (after_agent c db w))
      in case with_cursor of
           None \<Rightarrow> Inl (Refused ''invalid cursor'')
         | Some w \<Rightarrow>
             if bad_text [af_capability f] then Inl (Failed ZeroByte)
             else if af_capability f \<noteq> '''' \<and> json_string (json_array1 (af_capability f)) = None
               then Inl (Failed InvalidJson)
             else let rows = filter (\<lambda>a. selects id w (agent_col a)) (scan (pg_agents db));
                      (out, hasMore) = fetch_page limit (sort_slice pg_agent_before rows);
                      nextCursor = (if hasMore \<and> out \<noteq> [] then ustr (ag_id (last out)) else '''')
                  in Inr \<lparr>ap_data = out, ap_next = nextCursor, ap_more = hasMore\<rparr>)"

text \<open>
  Update: the version is compared and counted up in the caller's struct, which is returned; the
  statement has no assignment to the column.
\<close>

definition agents_set :: "(string \<Rightarrow> string option) \<Rightarrow> go_time \<Rightarrow> agent \<Rightarrow> agent \<Rightarrow> agent" where
  "agents_set jb now a r = r\<lparr>ag_name := ag_name a, ag_role := ag_role a, ag_status := ag_status a,
     ag_capabilities := ag_capabilities a, ag_last_active := map_option pg_time (ag_last_active a),
     ag_metadata := the (jb (ag_metadata a)),
     ag_runtime := (if ag_runtime a = '''' then '''' else the (jb (ag_runtime a))),
     ag_updated := pg_time now\<rparr>"

definition PgAgent_Update ::
  "(string \<Rightarrow> string option) \<Rightarrow> go_time \<Rightarrow> agent \<Rightarrow> pg_db \<Rightarrow> pg_error + agent \<times> pg_db" where
  "PgAgent_Update jb now a db =
     (let currentVersion = ag_version a;
          a' = a\<lparr>ag_version := ag_version a + 1\<rparr>
      in case violated (agents_errors jb a' @ [(bad_int4 currentVersion, IntOutOfRange)]) of
           Some e \<Rightarrow> Inl (Failed e)
         | None \<Rightarrow>
             (case row_of ag_id (ag_id a) (pg_agents db) of
                None \<Rightarrow> Inl (Sentinel ErrConflict)
              | Some r \<Rightarrow>
                  if ag_version r \<noteq> currentVersion \<or> ag_retired_at r \<noteq> None
                  then Inl (Sentinel ErrConflict)
                  else as_failed (violated
                      [(ag_metadata a = '''', NotNullViolation),
                       (\<not> IsValidAgentStatus (ag_status a), CheckViolation),
                       (list_ex (\<lambda>x. ag_project x = ag_project r \<and> ag_name x = ag_name a
                            \<and> ag_id x \<noteq> ag_id r) (pg_agents db), UniqueViolation)])
                    (a', db\<lparr>pg_agents := set_row ag_id (ag_id a) (agents_set jb now a') (pg_agents db)\<rparr>)))"

definition PgAgent_SoftDelete :: "go_time \<Rightarrow> uuid \<Rightarrow> pg_db \<Rightarrow> pg_error + pg_db" where
  "PgAgent_SoftDelete now k db =
     (case row_of ag_id k (pg_agents db) of
        None \<Rightarrow> Inl (Sentinel ErrNotFound)
      | Some r \<Rightarrow>
          if ag_retired_at r \<noteq> None then Inl (Sentinel ErrNotFound)
          else Inr (db\<lparr>pg_agents := set_row ag_id k
                 (\<lambda>r. r\<lparr>ag_status := AgentRetired, ag_retired_at := Some (pg_time now),
                        ag_version := ag_version r + 1, ag_updated := pg_time now\<rparr>) (pg_agents db)\<rparr>))"

text \<open>The loop over the names inside the transaction; an unknown name is skipped.\<close>

fun grant_all :: "go_time \<Rightarrow> uuid \<Rightarrow> string list \<Rightarrow> pg_db \<Rightarrow> pg_error + pg_db" where
  "grant_all now k [] db = Inr db"
| "grant_all now k (n # ns) db =
     (if bad_text [n] then Inl (Failed ZeroByte)
      else case row_of cr_name n (pg_capabilities db) of
             None \<Rightarrow> grant_all now k ns db
           | Some c \<Rightarrow>
               (case violated
                  [(null_required agent_capabilities_schema [''agent_id'', ''capability_id'', ''granted_at''] [],
                    NotNullViolation),
                   (list_ex (\<lambda>g. ac_agent g = k \<and> ac_capability g = cr_id c) (pg_agent_capabilities db),
                    UniqueViolation),
                   (\<not> has_key ag_id k (pg_agents db), ForeignKeyViolation)] of
                  Some e \<Rightarrow> Inl (Failed e)
                | None \<Rightarrow> grant_all now k ns (db\<lparr>pg_agent_capabilities := pg_agent_capabilities db @
                     [\<lparr>ac_agent = k, ac_capability = cr_id c, ac_proficiency = 1,
                       ac_granted_at = pg_time now\<rparr>]\<rparr>)))"

definition PgAgent_SetCapabilities ::
  "go_time \<Rightarrow> uuid \<Rightarrow> string list \<Rightarrow> pg_db \<Rightarrow> pg_error + pg_db" where
  "PgAgent_SetCapabilities now k names db =
     (let db1 = db\<lparr>pg_agent_capabilities :=
                     filter (\<lambda>g. ac_agent g \<noteq> k) (pg_agent_capabilities db)\<rparr>
      in case grant_all now k names db1 of
           Inl e \<Rightarrow> Inl e
         | Inr db2 \<Rightarrow>
             if bad_text names then Inl (Failed ZeroByte)
             else if \<not> has_key ag_id k (pg_agents db2) then Inl (Sentinel ErrNotFound)
             else Inr (db2\<lparr>pg_agents := set_row ag_id k
                    (\<lambda>r. r\<lparr>ag_capabilities := names, ag_version := ag_version r + 1,
                           ag_updated := pg_time now\<rparr>) (pg_agents db2)\<rparr>))"

definition view_before :: "agent_capability_view \<Rightarrow> agent_capability_view \<Rightarrow> bool" where
  "view_before a b = (if acv_granted_at a \<noteq> acv_granted_at b then acv_granted_at a < acv_granted_at b
                      else acv_name a < acv_name b)"

definition PgAgent_ListCapabilities :: "uuid \<Rightarrow> pg_db \<Rightarrow> agent_capability_view list" where
  "PgAgent_ListCapabilities k db =
     sort_slice view_before
       (List.map_filter
          (\<lambda>g. map_option
             (\<lambda>c. \<lparr>acv_name = cr_name c, acv_display_name = cr_display_name c,
                   acv_category = cr_category c, acv_proficiency = Some (ac_proficiency g),
                   acv_granted_at = ac_granted_at g, acv_granted_by = None\<rparr>)
             (row_of cr_id (ac_capability g) (pg_capabilities db)))
          (filter (\<lambda>g. ac_agent g = k) (pg_agent_capabilities db)))"

section \<open>Capabilities\<close>

definition PgCapability_GetByName :: "string \<Rightarrow> pg_db \<Rightarrow> pg_error + capability_row" where
  "PgCapability_GetByName n db =
     (if bad_text [n] then Inl (Failed ZeroByte) else found (row_of cr_name n (pg_capabilities db)))"

definition PgCapability_Exists :: "string \<Rightarrow> pg_db \<Rightarrow> pg_error + bool" where
  "PgCapability_Exists n db =
     (if bad_text [n] then Inl (Failed ZeroByte) else Inr (has_key cr_name n (pg_capabilities db)))"

definition capability_col :: "capability_row \<Rightarrow> string \<Rightarrow> sql_val" where
  "capability_col r c = (if c = ''category'' then VText (cr_category r)
                         else if c = ''name'' then VText (cr_name r) else VNull)"

definition Capability_where :: "capability_filter \<Rightarrow> where_clause" where
  "Capability_where f =
     (let w = add0 CTrue no_conds;
          w = add_eq_if (cf_category f \<noteq> '''') ''category'' (VText (cf_category f)) w
      in if cf_cursor f \<noteq> '''' then add1 (CGreater ''name'') (VText (cf_cursor f)) w else w)"

definition PgCapability_List :: "capability_filter \<Rightarrow> pg_db \<Rightarrow> pg_error + capability_page" where
  "PgCapability_List f db =
     (if bad_text [cf_category f, cf_cursor f] then Inl (Failed ZeroByte)
      else let rows = filter (\<lambda>c. selects id (Capability_where f) (capability_col c)) (pg_capabilities db);
               (out, hasMore) = fetch_page (clamp_limit (cf_limit f))
                 (sort_slice (\<lambda>a b. cr_name a < cr_name b) rows);
               nextCursor = (if hasMore \<and> out \<noteq> [] then cr_name (last out) else '''')
           in Inr \<lparr>cp_data = out, cp_next = nextCursor, cp_more = hasMore\<rparr>)"

section \<open>What the clauses and statements come to\<close>

lemma clamp_limit_bounds: "1 \<le> clamp_limit l" "clamp_limit l \<le> 200"
  by (simp_all add: clamp_limit_def Let_def)

lemma fetch_page_eq: "0 \<le> limit \<Longrightarrow> fetch_page limit rows = (take (nat limit) rows, limit < int (length rows))"
  by (auto simp: fetch_page_def Let_def min_def)

lemma Agent_conds_ok [simp]: "clause_ok (Agent_conds f)"
  by (simp add: Agent_conds_def Let_def add0_ok add1_ok)

text \<open>The capability filter is a JSON array, which reads back as the capability it was made of.\<close>

lemma agent_where_selects:
  assumes "\<forall>c \<in> set (af_capability f). 32 \<le> (of_char c :: nat)"
  shows "selects lc (Agent_conds f) (agent_col a) = agent_matches f a"
  by (auto simp: Agent_conds_def Let_def add0_ok add1_ok agent_matches_def agent_col_def sql_eq_def
      json_array1_read [OF assms] capabilityMatches_def list_ex_iff split: option.splits)

interpretation capability_where: where_builder id Capability_where capability_col
  "\<lambda>f c. (cf_category f = '''' \<or> cr_category c = cf_category f) \<and> (cf_cursor f = '''' \<or> cf_cursor f < cr_name c)"
  "\<lambda>f. (cf_category f \<noteq> '''', cf_cursor f \<noteq> '''')"
  by unfold_locales
    (auto simp: Capability_where_def Let_def add0_ok add1_ok capability_col_def sql_eq_def)

text \<open>Every INSERT of an agent is refused: agent\_type is required and never given.\<close>

lemma agent_type_missing: "null_required agents_schema agents_inserted []"
  by (simp add: null_required_def agents_schema_def agents_inserted_def)

lemma PgAgent_Create_fails: "\<exists>e. PgAgent_Create jb fresh a db = Inl e"
proof -
  have "PgAgent_Create jb fresh a db \<noteq> Inr db'" for db'
    by (auto simp: PgAgent_Create_def Let_def agent_type_missing)
  then show ?thesis by (metis sum.exhaust)
qed

lemma PgAgent_Update_row:
  assumes "PgAgent_Update jb now a db = Inr (a', db')"
  obtains r where "row_of ag_id (ag_id a) (pg_agents db) = Some r" "ag_version r = ag_version a"
    "ag_retired_at r = None" "a' = a\<lparr>ag_version := ag_version a + 1\<rparr>"
    "db' = db\<lparr>pg_agents := set_row ag_id (ag_id a) (agents_set jb now a') (pg_agents db)\<rparr>"
    "row_of ag_id (ag_id a) (pg_agents db') = Some (agents_set jb now a' r)"
proof (cases "row_of ag_id (ag_id a) (pg_agents db)")
  case None
  with assms show ?thesis by (auto simp: PgAgent_Update_def Let_def split: option.splits)
next
  case (Some r)
  have k: "ag_id r = ag_id a \<Longrightarrow> ag_id (agents_set jb now a' r) = ag_id a" for r
    by (simp add: agents_set_def)
  show ?thesis
    by (rule that [OF Some])
      (use assms Some row_of_set_row [of ag_id "ag_id a" "agents_set jb now a'" "ag_id a" "pg_agents db", OF k]
        in \<open>auto simp: PgAgent_Update_def Let_def split: option.splits if_splits\<close>)
qed

end
