(* ===== verification/Pg_Work.thy ===== *)
theory Pg_Work
  imports Pg_Agents
begin

text \<open>
  Assignments and their events, executions, deliverables and their versions in store/postgres.
  Ids the database draws are the argument \<open>fresh\<close>, NOW() and time.Now() the argument \<open>now\<close>.
\<close>

section \<open>Assignments (assignment\_store.go)\<close>

definition assignments_row :: "assignment \<Rightarrow> assignment" where
  "assignments_row a = a\<lparr>as_assigned := pg_time (as_assigned a), as_completed := None\<rparr>"

text \<open>The partial unique index: one active row of a task.\<close>

definition active_taken :: "uuid \<Rightarrow> uuid \<Rightarrow> assignment list \<Rightarrow> bool" where
  "active_taken task except rows \<longleftrightarrow>
     list_ex (\<lambda>a. as_task a = task \<and> as_status a = AsActive \<and> as_id a \<noteq> except) rows"

definition PgAssignment_Create ::
  "uuid \<Rightarrow> go_time \<Rightarrow> assignment \<Rightarrow> pg_db \<Rightarrow> pg_error + assignment \<times> pg_db" where
  "PgAssignment_Create fresh now a db =
     (if as_task a = uuid_nil \<or> as_agent a = uuid_nil
        then Inl (Refused ''assignment must have task_id and agent_id'')
      else let a = (if as_status a = AsOther '''' then a\<lparr>as_status := AsActive\<rparr> else a)
           in if as_status a \<noteq> AsActive then Inl (Refused ''Create expects status=active'')
              else let a = (if as_id a = uuid_nil then a\<lparr>as_id := fresh\<rparr> else a);
                       a = (if as_assigned a = zero_time then a\<lparr>as_assigned := now\<rparr> else a);
                       out = assignments_row a
                   in as_dup_failed (violated
                        [(null_required assignments_schema
                            [''id'', ''task_id'', ''agent_id'', ''assigned_at'', ''completed_at'', ''status'']
                            [''completed_at''], NotNullViolation),
                         (\<not> IsValidAssignmentStatus (as_status a), CheckViolation),
                         (has_key as_id (as_id a) (pg_assignments db)
                            \<or> active_taken (as_task a) (as_id a) (pg_assignments db), UniqueViolation),
                         (\<not> has_key t_id (as_task a) (pg_tasks db)
                            \<or> \<not> has_key ag_id (as_agent a) (pg_agents db), ForeignKeyViolation)])
                       (out, db\<lparr>pg_assignments := pg_assignments db @ [out]\<rparr>))"

definition assignments_set :: "assignment \<Rightarrow> assignment \<Rightarrow> assignment" where
  "assignments_set a r = r\<lparr>as_status := as_status a,
                          as_completed := map_option pg_time (as_completed a)\<rparr>"

definition PgAssignment_Update :: "assignment \<Rightarrow> pg_db \<Rightarrow> pg_error + pg_db" where
  "PgAssignment_Update a db =
     (if as_id a = uuid_nil then Inl (Refused ''assignment must have id'')
      else if \<not> IsValidAssignmentStatus (as_status a) then Inl (Refused ''invalid assignment status'')
      else case row_of as_id (as_id a) (pg_assignments db) of
             None \<Rightarrow> Inl (Sentinel ErrNotFound)
           | Some r \<Rightarrow> as_dup_failed (violated
               [(as_status a = AsActive \<and> active_taken (as_task r) (as_id r) (pg_assignments db),
                 UniqueViolation)])
               (db\<lparr>pg_assignments := set_row as_id (as_id a) (assignments_set a) (pg_assignments db)\<rparr>))"

definition PgAssignment_GetByID :: "uuid \<Rightarrow> pg_db \<Rightarrow> pg_error + assignment" where
  "PgAssignment_GetByID k db = found (row_of as_id k (pg_assignments db))"

definition PgAssignment_GetActiveByTask :: "uuid \<Rightarrow> pg_db \<Rightarrow> pg_error + assignment" where
  "PgAssignment_GetActiveByTask t db =
     found (List.find (\<lambda>a. as_task a = t \<and> as_status a = AsActive) (pg_assignments db))"

section \<open>Assignment events (assignment\_event\_store.go)\<close>

definition events_row :: "assignment_event \<Rightarrow> assignment_event" where
  "events_row v = v\<lparr>ev_at := pg_time (ev_at v)\<rparr>"

definition PgEvent_Append ::
  "uuid \<Rightarrow> go_time \<Rightarrow> assignment_event \<Rightarrow> pg_db \<Rightarrow> pg_error + assignment_event \<times> pg_db" where
  "PgEvent_Append fresh now ev db =
     (if ev_assignment ev = uuid_nil then Inl (Refused ''assignment event must have assignment_id'')
      else let ev = (if ev_id ev = uuid_nil then ev\<lparr>ev_id := fresh\<rparr> else ev);
               ev = (if ev_at ev = zero_time then ev\<lparr>ev_at := now\<rparr> else ev)
           in if \<not> IsValidAssignmentAction (ev_action ev) then Inl (Refused ''invalid assignment action'')
              else if ev_task ev = uuid_nil then Inl (Refused ''assignment event must have a task_id'')
              else let out = events_row ev
                   in as_failed (violated
                        [(bad_text [ev_notes ev], ZeroByte),
                         (null_required assignment_events_schema
                            [''id'', ''assignment_id'', ''task_id'', ''agent_id'', ''assigned_by'',
                             ''assigned_at'', ''action'', ''notes''] [], NotNullViolation),
                         (has_key ev_id (ev_id ev) (pg_events db), UniqueViolation),
                         (\<not> has_key as_id (ev_assignment ev) (pg_assignments db)
                            \<or> \<not> has_key t_id (ev_task ev) (pg_tasks db)
                            \<or> (\<exists>k \<in> set_option (ev_agent ev). \<not> has_key ag_id k (pg_agents db))
                            \<or> (\<exists>k \<in> set_option (ev_by ev). \<not> has_key u_id k (pg_users db)),
                          ForeignKeyViolation)])
                       (out, db\<lparr>pg_events := pg_events db @ [out]\<rparr>))"

definition PgEvent_ListByTask :: "uuid \<Rightarrow> pg_db \<Rightarrow> assignment_event list" where
  "PgEvent_ListByTask t db = sort_slice event_before (filter (\<lambda>v. ev_task v = t) (pg_events db))"

section \<open>Executions (execution\_store.go)\<close>

definition executions_row :: "execution \<Rightarrow> execution" where
  "executions_row e = e\<lparr>ex_started := pg_time (ex_started e),
     ex_completed := map_option pg_time (ex_completed e),
     ex_created := pg_time (ex_created e), ex_updated := pg_time (ex_updated e)\<rparr>"

definition error_text :: "string option \<Rightarrow> string list" where
  "error_text m = (case m of None \<Rightarrow> [] | Some s \<Rightarrow> [s])"

text \<open>The id of the row is drawn by the database and written back to the caller's struct.\<close>

definition PgExecution_Create ::
  "uuid \<Rightarrow> go_time \<Rightarrow> execution \<Rightarrow> pg_db \<Rightarrow> pg_error + execution \<times> pg_db" where
  "PgExecution_Create fresh now e db =
     (let e = (if ex_created e = zero_time then e\<lparr>ex_created := now\<rparr> else e);
          e = (if ex_updated e = zero_time then e\<lparr>ex_updated := now\<rparr> else e);
          e = e\<lparr>ex_id := fresh\<rparr>
      in as_dup_failed (violated
           [(bad_text (error_text (ex_error e)), ZeroByte),
            (null_required executions_schema
               [''task_id'', ''agent_id'', ''status'', ''started_at'', ''completed_at'', ''error_message'',
                ''aion_agent_instance_id'', ''created_at'', ''updated_at''] [], NotNullViolation),
            (\<not> IsValidExecutionStatus (ex_status e), CheckViolation),
            (has_key ex_id fresh (pg_executions db), UniqueViolation),
            (\<not> has_key t_id (ex_task e) (pg_tasks db)
               \<or> \<not> has_key ag_id (ex_agent e) (pg_agents db), ForeignKeyViolation)])
          (e, db\<lparr>pg_executions := pg_executions db @ [executions_row e]\<rparr>))"

definition PgExecution_GetByID :: "uuid \<Rightarrow> pg_db \<Rightarrow> pg_error + execution" where
  "PgExecution_GetByID k db = found (row_of ex_id k (pg_executions db))"

definition execution_col :: "execution \<Rightarrow> string \<Rightarrow> sql_val" where
  "execution_col e c =
     (if c = ''task_id'' then VId (ex_task e)
      else if c = ''agent_id'' then VId (ex_agent e)
      else if c = ''status'' then VExecutionStatus (ex_status e)
      else if c = ''started_at'' then VTime (ex_started e)
      else if c = ''id'' then VId (ex_id e) else VNull)"

definition Execution_where :: "execution_filter \<Rightarrow> where_clause" where
  "Execution_where f =
     (let w = no_conds;
          w = add_eq_if (ef_task f \<noteq> uuid_nil) ''task_id'' (VId (ef_task f)) w;
          w = add_eq_if (ef_agent f \<noteq> uuid_nil) ''agent_id'' (VId (ef_agent f)) w
      in add_eq_if (ef_status f \<noteq> ExOther '''') ''status'' (VExecutionStatus (ef_status f)) w)"

text \<open>A cursor whose row is gone adds no condition.\<close>

definition after_row ::
  "string \<Rightarrow> go_time option \<Rightarrow> uuid \<Rightarrow> where_clause \<Rightarrow> where_clause" where
  "after_row c t k w = (case t of None \<Rightarrow> w
     | Some ts \<Rightarrow> add2 (CLess2 c ''id'') (VTime ts) (VId k) w)"

definition PgExecution_List ::
  "(execution list \<Rightarrow> execution list) \<Rightarrow> execution_filter \<Rightarrow> pg_db \<Rightarrow> execution_page" where
  "PgExecution_List scan f db =
     (let w = Execution_where f;
          w = (if ef_cursor f \<noteq> uuid_nil
               then after_row ''started_at''
                      (map_option ex_started (row_of ex_id (ef_cursor f) (pg_executions db)))
                      (ef_cursor f) w
               else w);
          limit = (if ef_limit f \<le> 0 then DefaultExecutionLimit else ef_limit f);
          limit = (if limit > MaxExecutionLimit then MaxExecutionLimit else limit);
          rows = filter (\<lambda>e. selects id w (execution_col e)) (scan (pg_executions db));
          items = take (nat (limit + 1)) (sort_slice exec_before rows)
      in if int (length items) > limit
         then \<lparr>ep_items = take (nat limit) items,
               ep_next = ex_id (take (nat limit) items ! nat (limit - 1))\<rparr>
         else \<lparr>ep_items = items, ep_next = uuid_nil\<rparr>)"

text \<open>The CASE expressions of the UPDATE, on the columns of the old row.\<close>

definition executions_set_status ::
  "go_time \<Rightarrow> execution_status \<Rightarrow> string option \<Rightarrow> execution \<Rightarrow> execution" where
  "executions_set_status now s msg r = r\<lparr>ex_status := s,
     ex_completed := (if s \<in> {ExCompleted, ExFailed} then Some (pg_time now) else ex_completed r),
     ex_error := (if msg \<noteq> None then msg else if s \<noteq> ExFailed then None else ex_error r),
     ex_updated := pg_time now\<rparr>"

definition PgExecution_UpdateStatus ::
  "go_time \<Rightarrow> uuid \<Rightarrow> execution_status \<Rightarrow> string option \<Rightarrow> pg_db \<Rightarrow> pg_error + execution \<times> pg_db"
  where
  "PgExecution_UpdateStatus now k newStatus errorMessage db =
     (if bad_text (error_text errorMessage) then Inl (Failed ZeroByte)
      else case row_of ex_id k (pg_executions db) of
             None \<Rightarrow> Inl (Sentinel ErrNotFound)
           | Some r \<Rightarrow> as_failed (violated [(\<not> IsValidExecutionStatus newStatus, CheckViolation)])
               (executions_set_status now newStatus errorMessage r,
                db\<lparr>pg_executions :=
                  set_row ex_id k (executions_set_status now newStatus errorMessage) (pg_executions db)\<rparr>))"

section \<open>Deliverables (deliverable\_store.go)\<close>

definition deliverables_row :: "deliverable \<Rightarrow> deliverable" where
  "deliverables_row d = d\<lparr>d_created := pg_time (d_created d), d_updated := pg_time (d_updated d)\<rparr>"

text \<open>created\_at and updated\_at are the same argument of the INSERT.\<close>

definition PgDeliverable_Create ::
  "uuid \<Rightarrow> go_time \<Rightarrow> deliverable \<Rightarrow> pg_db \<Rightarrow> pg_error + deliverable \<times> pg_db" where
  "PgDeliverable_Create fresh now d db =
     (let d = (if d_created d = zero_time then d\<lparr>d_created := now\<rparr> else d);
          out = d\<lparr>d_id := fresh, d_updated := pg_time (d_created d)\<rparr>
      in as_dup_failed (violated
           [(bad_text [d_title d, d_content d], ZeroByte),
            (too_long [(500, d_title d)], StringTooLong),
            (bad_int4 (d_version d), IntOutOfRange),
            (null_required deliverables_schema
               [''task_id'', ''agent_id'', ''title'', ''content'', ''version'', ''created_at'', ''updated_at''] [],
             NotNullViolation),
            (has_key d_id fresh (pg_deliverables db), UniqueViolation),
            (\<not> has_key t_id (d_task d) (pg_tasks db)
               \<or> \<not> has_key ag_id (d_agent d) (pg_agents db), ForeignKeyViolation)])
          (out, db\<lparr>pg_deliverables := pg_deliverables db @ [deliverables_row out]\<rparr>))"

definition PgDeliverable_GetByID :: "uuid \<Rightarrow> pg_db \<Rightarrow> pg_error + deliverable" where
  "PgDeliverable_GetByID k db = found (row_of d_id k (pg_deliverables db))"

definition deliverable_col :: "deliverable \<Rightarrow> string \<Rightarrow> sql_val" where
  "deliverable_col d c =
     (if c = ''task_id'' then VId (d_task d)
      else if c = ''agent_id'' then VId (d_agent d)
      else if c = ''created_at'' then VTime (d_created d)
      else if c = ''id'' then VId (d_id d) else VNull)"

definition Deliverable_where :: "deliverable_filter \<Rightarrow> where_clause" where
  "Deliverable_where f =
     (let w = no_conds;
          w = add_eq_if (df_task f \<noteq> uuid_nil) ''task_id'' (VId (df_task f)) w
      in add_eq_if (df_agent f \<noteq> uuid_nil) ''agent_id'' (VId (df_agent f)) w)"

definition PgDeliverable_List ::
  "(deliverable list \<Rightarrow> deliverable list) \<Rightarrow> deliverable_filter \<Rightarrow> pg_db \<Rightarrow> deliverable_page" where
  "PgDeliverable_List scan f db =
     (let w = Deliverable_where f;
          w = (if df_cursor f \<noteq> uuid_nil
               then after_row ''created_at''
                      (map_option d_created (row_of d_id (df_cursor f) (pg_deliverables db)))
                      (df_cursor f) w
               else w);
          limit = (if df_limit f \<le> 0 then DefaultDeliverableLimit else df_limit f);
          limit = (if limit > MaxDeliverableLimit then MaxDeliverableLimit else limit);
          rows = filter (\<lambda>d. selects id w (deliverable_col d)) (scan (pg_deliverables db));
          items = take (nat (limit + 1)) (sort_slice deliv_before rows)
      in if int (length items) > limit
         then \<lparr>dp_items = take (nat limit) items,
               dp_next = d_id (take (nat limit) items ! nat (limit - 1))\<rparr>
         else \<lparr>dp_items = items, dp_next = uuid_nil\<rparr>)"

definition deliverables_set :: "go_time \<Rightarrow> deliverable \<Rightarrow> deliverable \<Rightarrow> deliverable" where
  "deliverables_set now d r = r\<lparr>d_title := d_title d, d_content := d_content d,
     d_version := d_version d, d_updated := pg_time now\<rparr>"

definition PgDeliverable_Update ::
  "go_time \<Rightarrow> deliverable \<Rightarrow> pg_db \<Rightarrow> pg_error + deliverable \<times> pg_db" where
  "PgDeliverable_Update now d db =
     (case violated
        [(bad_text [d_title d, d_content d], ZeroByte),
         (too_long [(500, d_title d)], StringTooLong),
         (bad_int4 (d_version d), IntOutOfRange)] of
        Some e \<Rightarrow> Inl (Failed e)
      | None \<Rightarrow>
          if \<not> has_key d_id (d_id d) (pg_deliverables db) then Inl (Sentinel ErrNotFound)
          else Inr (d\<lparr>d_updated := pg_time now\<rparr>, db\<lparr>pg_deliverables :=
                 set_row d_id (d_id d) (deliverables_set now d) (pg_deliverables db)\<rparr>))"

definition dversions_row :: "deliverable_version \<Rightarrow> deliverable_version" where
  "dversions_row v = v\<lparr>dv_created := pg_time (dv_created v)\<rparr>"

definition PgDeliverableVersion_Insert ::
  "uuid \<Rightarrow> go_time \<Rightarrow> deliverable_version \<Rightarrow> pg_db \<Rightarrow> pg_error + deliverable_version \<times> pg_db" where
  "PgDeliverableVersion_Insert fresh now v db =
     (let v = (if dv_created v = zero_time then v\<lparr>dv_created := now\<rparr> else v);
          v = v\<lparr>dv_id := fresh\<rparr>
      in as_dup_failed (violated
           [(bad_text [dv_title v, dv_content v], ZeroByte),
            (bad_int4 (dv_version v), IntOutOfRange),
            (null_required deliverable_versions_schema
               [''deliverable_id'', ''version'', ''title'', ''content'', ''created_at'', ''created_by''] [],
             NotNullViolation),
            (dv_version v \<le> 0, CheckViolation),
            (has_key dv_id fresh (pg_dversions db)
               \<or> list_ex (\<lambda>r. dv_deliverable r = dv_deliverable v \<and> dv_version r = dv_version v)
                   (pg_dversions db), UniqueViolation),
            (\<not> has_key d_id (dv_deliverable v) (pg_deliverables db), ForeignKeyViolation)])
          (v, db\<lparr>pg_dversions := pg_dversions db @ [dversions_row v]\<rparr>))"

definition PgDeliverableVersion_ListVersions :: "uuid \<Rightarrow> pg_db \<Rightarrow> deliverable_version list" where
  "PgDeliverableVersion_ListVersions k db =
     sort_slice (\<lambda>a b. dv_version b < dv_version a)
       (filter (\<lambda>v. dv_deliverable v = k) (pg_dversions db))"

section \<open>The clauses\<close>

interpretation execution_where: where_builder lc Execution_where execution_col exec_matches
  "\<lambda>f. (ef_task f \<noteq> uuid_nil, ef_agent f \<noteq> uuid_nil, ef_status f \<noteq> ExOther '''')" for lc
  by unfold_locales
    (auto simp: Execution_where_def Let_def exec_matches_def execution_col_def sql_eq_def)

interpretation deliverable_where: where_builder lc Deliverable_where deliverable_col deliv_matches
  "\<lambda>f. (df_task f \<noteq> uuid_nil, df_agent f \<noteq> uuid_nil)" for lc
  by unfold_locales
    (auto simp: Deliverable_where_def Let_def deliv_matches_def deliverable_col_def sql_eq_def)

end
