(* ===== verification/Pg_Refine.thy ===== *)
theory Pg_Refine
  imports Pg_Work
begin

text \<open>
  The PostgreSQL stores of executions, deliverables and assignments against the in-memory store:
  when both hold the same rows the reads agree, and a write of one is a write of the other that
  leaves the same rows.
\<close>

section \<open>The relation\<close>

definition same_rows :: "('r \<Rightarrow> uuid) \<Rightarrow> (uuid \<rightharpoonup> 'r) \<Rightarrow> 'r list \<Rightarrow> bool" where
  "same_rows key m t \<longleftrightarrow> distinct (map key t) \<and> (\<forall>k. m k = row_of key k t)"

lemma same_rowsD: "same_rows key m t \<Longrightarrow> m k = row_of key k t"
  by (simp add: same_rows_def)

lemma same_rows_empty: "same_rows key Map.empty []"
  by (simp add: same_rows_def)

lemma same_rows_ran: "same_rows key m t \<Longrightarrow> ran m = set t"
  by (force simp: same_rows_def ran_def dest: row_of_SomeD intro: row_of_distinct)

lemma same_rows_keyed: "same_rows key m t \<Longrightarrow> keyed_by key m"
  by (auto simp: same_rows_def keyed_by_def dest: row_of_SomeD)

lemma same_rows_insert:
  assumes "same_rows key m t" "m (key r) = None"
  shows "same_rows key (m(key r \<mapsto> r)) (t @ [r])"
proof -
  have n: "row_of key (key r) t = None" using assms by (simp add: same_rows_def)
  then have "key r \<notin> key ` set t" by (simp add: row_of_None)
  then show ?thesis using assms(1) row_of_insert [OF n] by (simp add: same_rows_def)
qed

lemma same_rows_set:
  assumes "same_rows key m t" "m k = Some r" "\<And>r. key r = k \<Longrightarrow> key (f r) = k"
  shows "same_rows key (m(k \<mapsto> f r)) (set_row key k f t)"
  using assms row_of_set_row [of key k f _ t] map_key_set_row [of key k f t]
  by (auto simp: same_rows_def)

lemma same_rows_mset:
  assumes "same_rows key m t" "iterates m ks" "permutes_rows scan"
  shows "mset (range_values m ks) = mset (scan t)"
proof -
  have "distinct (map key (range_values m ks))"
    using assms(2) distinct_map_range_values [OF same_rows_keyed [OF assms(1)]]
    by (simp add: iterates_def)
  then have d: "distinct (range_values m ks)" by (simp add: distinct_map)
  have t: "distinct t" using assms(1) by (simp add: same_rows_def distinct_map)
  have "set (range_values m ks) = set t"
    using set_range_values_iterates [OF assms(2)] same_rows_ran [OF assms(1)] by simp
  with d t have "mset (range_values m ks) = mset t" by (simp add: set_eq_iff_mset_eq_distinct)
  then show ?thesis using assms(3) by (simp add: permutes_rows_def)
qed

section \<open>Pages\<close>

text \<open>One row more than the limit is fetched: the page and the cursor of the in-memory store.\<close>

lemma fetched_page:
  fixes limit :: int and T :: "'a list"
  assumes "0 < limit"
  defines "items \<equiv> take (nat (limit + 1)) T"
  shows "page_at nil ident (nat limit) T 0
       = (if int (length items) > limit
          then (take (nat limit) items, ident (take (nat limit) items ! nat (limit - 1)))
          else (items, nil))"
proof (cases "int (length T) > limit")
  case True
  then have "take (nat limit) items = take (nat limit) T" "int (length items) > limit"
    using assms by (auto simp: min_def)
  moreover have "nat limit < length T" using True assms(1) by linarith
  ultimately show ?thesis using assms(1) by (simp add: page_at_def nat_diff_distrib)
next
  case False
  then have "items = T" using assms by simp
  moreover have "\<not> nat limit < length T" using False assms(1) by linarith
  ultimately show ?thesis using False by (simp add: page_at_def)
qed

context newest_first
begin

text \<open>The rows before the cut of a page, from the map in any order and from a scan.\<close>

lemma scanned_rows:
  assumes ok: "table_ok ident ts m" and it: "iterates m ks"
    and same: "same_rows ident m t" and scan: "permutes_rows scan"
    and sel: "\<And>r. Q r \<longleftrightarrow> P r \<and> (c \<noteq> uuid_nil \<longrightarrow> (case row_of ident c t of None \<Rightarrow> True
        | Some e \<Rightarrow> ts r < ts e \<or> ts r = ts e \<and> ident r < c))"
  shows "sort_slice lt (filter Q (scan t))
       = sort_slice lt (cursor_cut ident ts m c (filter P (range_values m ks)))"
proof (rule sort_slice_cong_mset)
  have eq: "cursor_cut ident ts m c (filter P (range_values m ks)) = filter Q (range_values m ks)"
  proof (cases "c = uuid_nil")
    case True
    with sel show ?thesis by (simp add: cursor_cut_def cong: filter_cong)
  next
    case False
    show ?thesis
    proof (cases "row_of ident c t")
      case None
      with same False sel show ?thesis by (simp add: cursor_cut_def same_rows_def cong: filter_cong)
    next
      case (Some e)
      then have m: "m c = Some e" using same by (simp add: same_rows_def)
      then have "ts e \<noteq> zero_time" using table_okD [OF ok m] by simp
      with False m Some sel show ?thesis
        by (auto simp: cursor_cut_def Let_def intro!: filter_cong)
    qed
  qed
  have "mset (filter Q (scan t)) = mset (filter Q (range_values m ks))"
    using same_rows_mset [OF same it scan] by simp
  then show "mset (filter Q (scan t))
      = mset (cursor_cut ident ts m c (filter P (range_values m ks)))"
    by (simp only: eq)
  fix x y assume xy: "x \<in> set (filter Q (scan t))" "y \<in> set (filter Q (scan t))" "\<not> lt x y" "\<not> lt y x"
  have s: "set (scan t) = set (range_values m ks)"
    using same_rows_mset [OF same it scan] by (metis set_mset_mset)
  show "x = y"
    by (rule visited_rows(3) [OF ok it, of x Q]) (use xy s in auto)
qed

end

lemma cursor_select:
  assumes "clause_ok w" "\<And>r. selects lc w (col r) = P r"
    and "\<And>r. col r c = VTime (ts r)" "\<And>r. col r ''id'' = VId (ident r)"
  shows "selects lc (if k \<noteq> uuid_nil then after_row c (map_option ts (row_of ident k t)) k w else w) (col r)
    \<longleftrightarrow> P r \<and> (k \<noteq> uuid_nil \<longrightarrow> (case row_of ident k t of None \<Rightarrow> True
          | Some e \<Rightarrow> ts r < ts e \<or> ts r = ts e \<and> ident r < k))"
  using assms
  by (auto simp: after_row_def add2_ok row_less_def sql_eq_def split: option.splits)

lemma exec_limits:
  "0 < (if (if l \<le> 0 then DefaultExecutionLimit else l) > MaxExecutionLimit then MaxExecutionLimit
        else (if l \<le> 0 then DefaultExecutionLimit else l))"
  by (simp add: DefaultExecutionLimit_def MaxExecutionLimit_def)

lemma deliv_limits:
  "0 < (if (if l \<le> 0 then DefaultDeliverableLimit else l) > MaxDeliverableLimit then MaxDeliverableLimit
        else (if l \<le> 0 then DefaultDeliverableLimit else l))"
  by (simp add: DefaultDeliverableLimit_def MaxDeliverableLimit_def)

lemma PgExecution_List_agrees:
  assumes same: "same_rows ex_id (ms_executions m) (pg_executions db)" and ok: "exec_table_ok m"
    and it: "iterates (ms_executions m) ks" and scan: "permutes_rows scan"
  shows "PgExecution_List scan f db = Execution_List f ks m"
proof -
  let ?l = "if ef_limit f \<le> 0 then DefaultExecutionLimit else ef_limit f"
  let ?l' = "if ?l > MaxExecutionLimit then MaxExecutionLimit else ?l"
  let ?w = "if ef_cursor f \<noteq> uuid_nil
     then after_row ''started_at'' (map_option ex_started (row_of ex_id (ef_cursor f) (pg_executions db)))
       (ef_cursor f) (Execution_where f) else Execution_where f"
  let ?T = "sort_slice exec_before (filter (\<lambda>e. selects id ?w (execution_col e)) (scan (pg_executions db)))"
  let ?i = "take (nat (?l' + 1)) ?T"
  have sel: "selects id ?w (execution_col e) \<longleftrightarrow> exec_matches f e
      \<and> (ef_cursor f \<noteq> uuid_nil \<longrightarrow> (case row_of ex_id (ef_cursor f) (pg_executions db) of None \<Rightarrow> True
          | Some p \<Rightarrow> ex_started e < ex_started p \<or> ex_started e = ex_started p \<and> ex_id e < ef_cursor f))" for e
    by (rule cursor_select [OF execution_where.build_ok execution_where.build_selects])
      (simp_all add: execution_col_def)
  have T: "?T = sort_slice exec_before (cursor_cut ex_id ex_started (ms_executions m) (ef_cursor f)
      (filter (exec_matches f) (range_values (ms_executions m) ks)))"
    by (rule exec_order.scanned_rows [OF ok it same scan sel])
  have l: "nat ?l' = exec_limit f"
    by (auto simp: exec_limit_def DefaultExecutionLimit_def MaxExecutionLimit_def)
  have "(ep_items (Execution_List f ks m), ep_next (Execution_List f ks m)) = exec_pg f m ks (ef_cursor f)"
    by (simp add: exec_pg_def Let_def)
  also have "\<dots> = page_at uuid_nil ex_id (nat ?l') ?T 0"
    unfolding exec_pg_sorted T l ..
  also have "\<dots> = (if int (length ?i) > ?l' then (take (nat ?l') ?i, ex_id (take (nat ?l') ?i ! nat (?l' - 1)))
      else (?i, uuid_nil))"
    by (rule fetched_page [OF exec_limits])
  also have "\<dots> = (ep_items (PgExecution_List scan f db), ep_next (PgExecution_List scan f db))"
    by (simp only: PgExecution_List_def Let_def execution_page.simps if_split prod.inject) simp
  finally show ?thesis by simp
qed

lemma PgDeliverable_List_agrees:
  assumes same: "same_rows d_id (ms_deliverables m) (pg_deliverables db)" and ok: "deliv_table_ok m"
    and it: "iterates (ms_deliverables m) ks" and scan: "permutes_rows scan"
  shows "PgDeliverable_List scan f db = Deliverable_List f ks m"
proof -
  let ?l = "if df_limit f \<le> 0 then DefaultDeliverableLimit else df_limit f"
  let ?l' = "if ?l > MaxDeliverableLimit then MaxDeliverableLimit else ?l"
  let ?w = "if df_cursor f \<noteq> uuid_nil
     then after_row ''created_at'' (map_option d_created (row_of d_id (df_cursor f) (pg_deliverables db)))
       (df_cursor f) (Deliverable_where f) else Deliverable_where f"
  let ?T = "sort_slice deliv_before (filter (\<lambda>e. selects id ?w (deliverable_col e)) (scan (pg_deliverables db)))"
  let ?i = "take (nat (?l' + 1)) ?T"
  have sel: "selects id ?w (deliverable_col e) \<longleftrightarrow> deliv_matches f e
      \<and> (df_cursor f \<noteq> uuid_nil \<longrightarrow> (case row_of d_id (df_cursor f) (pg_deliverables db) of None \<Rightarrow> True
          | Some p \<Rightarrow> d_created e < d_created p \<or> d_created e = d_created p \<and> d_id e < df_cursor f))" for e
    by (rule cursor_select [OF deliverable_where.build_ok deliverable_where.build_selects])
      (simp_all add: deliverable_col_def)
  have T: "?T = sort_slice deliv_before (cursor_cut d_id d_created (ms_deliverables m) (df_cursor f)
      (filter (deliv_matches f) (range_values (ms_deliverables m) ks)))"
    by (rule deliv_order.scanned_rows [OF ok it same scan sel])
  have l: "nat ?l' = deliv_limit f"
    by (auto simp: deliv_limit_def DefaultDeliverableLimit_def MaxDeliverableLimit_def)
  have "(dp_items (Deliverable_List f ks m), dp_next (Deliverable_List f ks m)) = deliv_pg f m ks (df_cursor f)"
    by (simp add: deliv_pg_def Let_def)
  also have "\<dots> = page_at uuid_nil d_id (nat ?l') ?T 0"
    unfolding deliv_pg_sorted T l ..
  also have "\<dots> = (if int (length ?i) > ?l' then (take (nat ?l') ?i, d_id (take (nat ?l') ?i ! nat (?l' - 1)))
      else (?i, uuid_nil))"
    by (rule fetched_page [OF deliv_limits])
  also have "\<dots> = (dp_items (PgDeliverable_List scan f db), dp_next (PgDeliverable_List scan f db))"
    by (simp only: PgDeliverable_List_def Let_def deliverable_page.simps if_split prod.inject) simp
  finally show ?thesis by simp
qed

section \<open>Writes of executions\<close>

definition same_executions :: "mem_store \<Rightarrow> pg_db \<Rightarrow> bool" where
  "same_executions m db \<longleftrightarrow> same_rows ex_id (ms_executions m) (pg_executions db)"

lemma executions_set_status_eq: "executions_set_status now s msg r = set_status (pg_time now) s msg r"
  by (auto simp: executions_set_status_def set_status_def Let_def)

lemma set_status_id: "ex_id (set_status now s msg r) = ex_id r"
  by (simp add: set_status_def Let_def)

text \<open>What the INSERT stores, when it stores anything.\<close>

lemma PgExecution_Create_row:
  assumes "PgExecution_Create fresh now e db = Inr (e', db')"
  shows "db' = db\<lparr>pg_executions := pg_executions db @ [executions_row e']\<rparr>"
    "ex_id e' = fresh" "row_of ex_id fresh (pg_executions db) = None"
    "ex_task e' = ex_task e" "ex_agent e' = ex_agent e" "ex_status e' = ex_status e"
    "ex_started e' = ex_started e" "IsValidExecutionStatus (ex_status e)"
    "row_of t_id (ex_task e) (pg_tasks db) \<noteq> None" "row_of ag_id (ex_agent e) (pg_agents db) \<noteq> None"
  using assms
  by (auto simp: PgExecution_Create_def Let_def has_key_iff split: if_splits)

lemma executions_agree:
  assumes "same_executions m db" "exec_table_ok m"
    and "iterates (ms_executions m) ks" "permutes_rows scan"
  shows "PgExecution_List scan f db = Execution_List f ks m"
    and "PgExecution_GetByID k db = map_sum Sentinel id (Execution_GetByID k m)"
    and "IsValidExecutionStatus s \<Longrightarrow> \<not> bad_text (error_text msg) \<Longrightarrow>
      (case Execution_UpdateStatus (pg_time now) k s msg m of
         Inl e \<Rightarrow> PgExecution_UpdateStatus now k s msg db = Inl (Sentinel e)
       | Inr (e, m') \<Rightarrow> \<exists>db'. PgExecution_UpdateStatus now k s msg db = Inr (e, db') \<and> same_executions m' db')"
    and "PgExecution_Create fresh now e db = Inr (e', db') \<Longrightarrow>
      \<exists>m'. Execution_Create (executions_row e') m = Inr m' \<and> same_executions m' db'"
proof -
  have same: "same_rows ex_id (ms_executions m) (pg_executions db)"
    using assms(1) by (simp add: same_executions_def)
  show "PgExecution_List scan f db = Execution_List f ks m"
    by (rule PgExecution_List_agrees [OF same assms(2-4)])
  show "PgExecution_GetByID k db = map_sum Sentinel id (Execution_GetByID k m)"
    by (simp add: PgExecution_GetByID_def Execution_GetByID_def found_def same_rowsD [OF same]
        split: option.split)
  show "case Execution_UpdateStatus (pg_time now) k s msg m of
         Inl e \<Rightarrow> PgExecution_UpdateStatus now k s msg db = Inl (Sentinel e)
       | Inr (e, m') \<Rightarrow> \<exists>db'. PgExecution_UpdateStatus now k s msg db = Inr (e, db') \<and> same_executions m' db'"
    if s: "IsValidExecutionStatus s" "\<not> bad_text (error_text msg)"
  proof (cases "row_of ex_id k (pg_executions db)")
    case None
    with s same_rowsD [OF same, of k] show ?thesis
      by (simp add: Execution_UpdateStatus_def PgExecution_UpdateStatus_def)
  next
    case (Some r)
    have "same_rows ex_id ((ms_executions m)(k \<mapsto> set_status (pg_time now) s msg r))
        (set_row ex_id k (set_status (pg_time now) s msg) (pg_executions db))"
      using same_rows_set [OF same] same_rowsD [OF same, of k] Some by (simp add: set_status_id)
    with s same_rowsD [OF same, of k] Some show ?thesis
      by (simp add: Execution_UpdateStatus_def PgExecution_UpdateStatus_def as_failed_def Let_def
          executions_set_status_eq [abs_def] same_executions_def)
  qed
  show "\<exists>m'. Execution_Create (executions_row e') m = Inr m' \<and> same_executions m' db'"
    if c: "PgExecution_Create fresh now e db = Inr (e', db')"
  proof -
    note row = PgExecution_Create_row [OF c]
    have k: "ex_id (executions_row e') = fresh" by (simp add: executions_row_def row(2))
    have new: "ms_executions m (ex_id (executions_row e')) = None"
      using row(3) same_rowsD [OF same] k by simp
    show ?thesis
      using same_rows_insert [OF same new] new
      by (simp add: Execution_Create_def same_executions_def row(1))
  qed
qed

text \<open>
  C13: over the same rows the two execution stores cannot be told apart by reads, and a status
  change that PostgreSQL accepts is the one the in-memory store makes at the same microsecond,
  with the same answer and again the same rows. A row that PostgreSQL creates is one the
  in-memory store creates, under the id that the database drew.
\<close>

theorem pg_executions_refine:
  assumes "same_executions m db" "exec_table_ok m"
    and "iterates (ms_executions m) ks" "permutes_rows scan"
  shows "PgExecution_List scan f db = Execution_List f ks m
    \<and> PgExecution_GetByID k db = map_sum Sentinel id (Execution_GetByID k m)
    \<and> (IsValidExecutionStatus s \<and> \<not> bad_text (error_text msg) \<longrightarrow>
        (case Execution_UpdateStatus (pg_time now) k s msg m of
           Inl e \<Rightarrow> PgExecution_UpdateStatus now k s msg db = Inl (Sentinel e)
         | Inr (e, m') \<Rightarrow> \<exists>db'. PgExecution_UpdateStatus now k s msg db = Inr (e, db')
             \<and> same_executions m' db'))
    \<and> (\<forall>e' db'. PgExecution_Create fresh now e db = Inr (e', db') \<longrightarrow>
        (\<exists>m'. Execution_Create (executions_row e') m = Inr m' \<and> same_executions m' db'))"
  using executions_agree [OF assms] by blast

definition sample_pg :: pg_db where
  "sample_pg = (NewStore [])\<lparr>pg_executions := [sample_execution 2 20, sample_execution 1 10]\<rparr>"

definition sample_filter :: execution_filter where
  "sample_filter = \<lparr>ef_task = 5, ef_agent = 0, ef_status = ExOther '''', ef_cursor = 0, ef_limit = 1\<rparr>"

text \<open>Two rows, a page of one: the newer row and its id as the cursor.\<close>

theorem pg_executions_refine_witness:
  "PgExecution_List rev sample_filter sample_pg = Execution_List sample_filter [1, 2] sample_store
   \<and> PgExecution_GetByID 1 sample_pg = Inr (sample_execution 1 10)"
proof -
  have same: "same_executions sample_store sample_pg"
    by (auto simp: same_executions_def same_rows_def sample_store_def sample_pg_def NewStore_def
        sample_execution_def)
  have ok: "exec_table_ok sample_store"
    by (auto simp: sample_store_def sample_execution_def intro!: table_ok_upd table_ok_empty)
  have it: "iterates (ms_executions sample_store) [1, 2]"
    by (auto simp: sample_store_def iterates_def)
  have scan: "permutes_rows rev" by (simp add: permutes_rows_def)
  have "Execution_GetByID 1 sample_store = Inr (sample_execution 1 10)"
    by (simp add: Execution_GetByID_def sample_store_def)
  with pg_executions_refine [OF same ok it scan, of sample_filter 1] show ?thesis by simp
qed

section \<open>Assignments\<close>

text \<open>The row as PostgreSQL holds it: the instants in whole microseconds.\<close>

definition assignment_cut :: "assignment \<Rightarrow> assignment" where
  "assignment_cut a = a\<lparr>as_assigned := pg_time (as_assigned a),
     as_completed := map_option pg_time (as_completed a)\<rparr>"

definition cut_rows :: "mem_store \<Rightarrow> uuid \<rightharpoonup> assignment" where
  "cut_rows m = (\<lambda>k. map_option assignment_cut (ms_assignments m k))"

text \<open>Both stores hold the same assignments, up to that.\<close>

definition same_assignments :: "mem_store \<Rightarrow> pg_db \<Rightarrow> bool" where
  "same_assignments m db \<longleftrightarrow> same_rows as_id (cut_rows m) (pg_assignments db) \<and> assign_inv m"

lemma assignment_cut_simps [simp]:
  "as_id (assignment_cut a) = as_id a" "as_task (assignment_cut a) = as_task a"
  "as_agent (assignment_cut a) = as_agent a" "as_status (assignment_cut a) = as_status a"
  by (simp_all add: assignment_cut_def)

lemma cut_rows_simps:
  "ms_assignments m k = None \<Longrightarrow> cut_rows m k = None"
  "ms_assignments m k = Some a \<Longrightarrow> cut_rows m k = Some (assignment_cut a)"
  by (simp_all add: cut_rows_def)

lemma cut_rows_Some:
  "cut_rows m k = Some b \<longleftrightarrow> (\<exists>a. ms_assignments m k = Some a \<and> b = assignment_cut a)"
  by (auto simp: cut_rows_def)

lemma cut_rows_upd: "ms_assignments m' = (ms_assignments m)(k \<mapsto> a) \<Longrightarrow> cut_rows m' = (cut_rows m)(k \<mapsto> assignment_cut a)"
  by (auto simp: cut_rows_def fun_eq_iff)

lemma same_assignmentsD:
  assumes "same_assignments m db"
  shows "same_rows as_id (cut_rows m) (pg_assignments db)" "assign_inv m"
    "row_of as_id k (pg_assignments db) = map_option assignment_cut (ms_assignments m k)"
  using assms by (auto simp: same_assignments_def same_rows_def cut_rows_def)

lemma active_taken_iff:
  assumes "same_assignments m db"
  shows "active_taken t k (pg_assignments db) \<longleftrightarrow> (\<exists>j. ms_active m t = Some j \<and> j \<noteq> k)"
proof -
  note same = same_assignmentsD(1) [OF assms] and inv = same_assignmentsD(2) [OF assms]
  have "active_taken t k (pg_assignments db)
      \<longleftrightarrow> (\<exists>a \<in> ran (cut_rows m). as_task a = t \<and> as_status a = AsActive \<and> as_id a \<noteq> k)"
    by (simp add: active_taken_def list_ex_iff same_rows_ran [OF same])
  also have "\<dots> \<longleftrightarrow> (\<exists>j a. cut_rows m j = Some a \<and> as_task a = t \<and> as_status a = AsActive \<and> j \<noteq> k)"
    using same_rows_keyed [OF same] by (auto simp: ran_def dest: keyed_byD)
  also have "\<dots> \<longleftrightarrow> (\<exists>j a. ms_assignments m j = Some a \<and> as_task a = t \<and> as_status a = AsActive \<and> j \<noteq> k)"
    by (simp only: cut_rows_Some) (metis assignment_cut_simps(2,4))
  also have "\<dots> \<longleftrightarrow> (\<exists>j. ms_active m t = Some j \<and> j \<noteq> k)"
    using assign_inv_index [OF inv] by blast
  finally show ?thesis .
qed

lemma PgAssignment_GetActive_agrees:
  assumes "same_assignments m db"
  shows "PgAssignment_GetActiveByTask t db = map_sum Sentinel assignment_cut (Assignment_GetActiveByTask t m)"
proof (cases "List.find (\<lambda>a. as_task a = t \<and> as_status a = AsActive) (pg_assignments db)")
  case None
  then have "\<not> active_taken t k (pg_assignments db)" for k
    by (auto simp: find_None_iff active_taken_def list_ex_iff)
  then have "ms_active m t = None"
    unfolding active_taken_iff [OF assms] by (metis option.exhaust zero_neq_one)
  with None show ?thesis
    by (simp add: PgAssignment_GetActiveByTask_def Assignment_GetActiveByTask_def found_def)
next
  case (Some a)
  then have a: "a \<in> set (pg_assignments db)" "as_task a = t" "as_status a = AsActive"
    by (auto simp: find_Some_iff)
  then have "row_of as_id (as_id a) (pg_assignments db) = Some a"
    using same_assignmentsD(1) [OF assms] row_of_distinct [of as_id "pg_assignments db" a]
    by (simp add: same_rows_def)
  then obtain b where b: "ms_assignments m (as_id a) = Some b" "assignment_cut b = a"
    using same_assignmentsD(3) [OF assms, of "as_id a"] by auto
  then have "as_id b = as_id a" "as_task b = t" "as_status b = AsActive" using a by auto
  then have "Assignment_GetActiveByTask t m = Inr b"
    using GetActiveByTask_iff [OF same_assignmentsD(2) [OF assms]] b by simp
  with Some b show ?thesis by (simp add: PgAssignment_GetActiveByTask_def found_def)
qed

lemma fill_field:
  "(if P then a\<lparr>as_status := x\<rparr> else a) = a\<lparr>as_status := if P then x else as_status a\<rparr>"
  "(if P then a\<lparr>as_id := y\<rparr> else a) = a\<lparr>as_id := if P then y else as_id a\<rparr>"
  "(if P then a\<lparr>as_assigned := z\<rparr> else a) = a\<lparr>as_assigned := if P then z else as_assigned a\<rparr>"
  by simp_all

text \<open>
  A creation. PostgreSQL also refuses an id that is used, which the in-memory store overwrites, and
  a task or an agent that does not exist, and it stores no completion.
\<close>

definition refers :: "assignment \<Rightarrow> pg_db \<Rightarrow> bool" where
  "refers a db \<longleftrightarrow> has_key t_id (as_task a) (pg_tasks db) \<and> has_key ag_id (as_agent a) (pg_agents db)"

lemma assignments_row_cut:
  "assignments_row a = assignment_cut a \<longleftrightarrow> as_completed a = None"
  by (cases a) (auto simp: assignments_row_def assignment_cut_def)

lemma assignments_row_simps [simp]:
  "as_id (assignments_row a) = as_id a" "as_task (assignments_row a) = as_task a"
  by (simp_all add: assignments_row_def)

lemma PgAssignment_Create_agrees:
  assumes rel: "same_assignments m db"
  shows "case Assignment_Create fresh now a m of
      Inl ErrAlreadyExists \<Rightarrow> PgAssignment_Create fresh now a db = Inl (Sentinel ErrAlreadyExists)
    | Inl _ \<Rightarrow> \<exists>t. PgAssignment_Create fresh now a db = Inl (Refused t)
    | Inr (s, m') \<Rightarrow>
        if has_key as_id (as_id s) (pg_assignments db)
        then PgAssignment_Create fresh now a db = Inl (Sentinel ErrAlreadyExists)
        else if \<not> refers a db then PgAssignment_Create fresh now a db = Inl (Failed ForeignKeyViolation)
        else \<exists>db'. PgAssignment_Create fresh now a db = Inr (assignments_row s, db')
          \<and> (same_assignments m' db' \<longleftrightarrow> as_completed a = None)"
proof -
  note same = same_assignmentsD(1) [OF rel] and inv = same_assignmentsD(2) [OF rel]
  define s where "s = a\<lparr>as_status := AsActive, as_id := (if as_id a = uuid_nil then fresh else as_id a),
    as_assigned := (if as_assigned a = zero_time then now else as_assigned a)\<rparr>"
  show ?thesis
  proof (cases "as_task a = uuid_nil \<or> as_agent a = uuid_nil
      \<or> as_status a \<noteq> AsActive \<and> as_status a \<noteq> AsOther ''''")
    case True
    then show ?thesis
      by (elim disjE conjE) (simp_all add: Assignment_Create_def PgAssignment_Create_def)
  next
    case False
    then have st': "(if as_status a = AsOther '''' then AsActive else as_status a) = AsActive" by auto
    have sf: "as_task s = as_task a" "as_agent s = as_agent a" "as_completed s = as_completed a"
      by (simp_all add: s_def)
    define m' where "m' = m\<lparr>ms_assignments := (ms_assignments m)(as_id s \<mapsto> s),
                       ms_active := (ms_active m)(as_task s \<mapsto> as_id s)\<rparr>"
    have mem: "Assignment_Create fresh now a m = (if ms_active m (as_task a) \<noteq> None
        then Inl ErrAlreadyExists else Inr (s, m'))"
      using False st' by (simp add: Assignment_Create_def fill_field Let_def s_def m'_def)
    let ?used = "has_key as_id (as_id s) (pg_assignments db)"
    have pg: "PgAssignment_Create fresh now a db
        = (if ?used \<or> active_taken (as_task a) (as_id s) (pg_assignments db)
             then Inl (Sentinel ErrAlreadyExists)
           else if \<not> refers a db then Inl (Failed ForeignKeyViolation)
           else Inr (assignments_row s, db\<lparr>pg_assignments := pg_assignments db @ [assignments_row s]\<rparr>))"
      using False st'
      by (simp add: PgAssignment_Create_def fill_field s_def Let_def assignment_validators refers_def
          null_required_def assignments_schema_def as_dup_failed_def)
    show ?thesis
    proof (cases "ms_active m (as_task a)")
      case (Some j)
      then have "?used \<or> active_taken (as_task a) (as_id s) (pg_assignments db)"
        using assign_inv_index [OF inv, of "as_task a" j]
        by (auto simp: active_taken_iff [OF rel] has_key_iff same_assignmentsD(3) [OF rel])
      with Some show ?thesis by (simp add: mem pg)
    next
      case None
      then have nt: "\<not> active_taken (as_task a) (as_id s) (pg_assignments db)"
        by (simp add: active_taken_iff [OF rel])
      let ?db' = "db\<lparr>pg_assignments := pg_assignments db @ [assignments_row s]\<rparr>"
      have "same_assignments m' ?db' \<longleftrightarrow> as_completed a = None" if nk: "\<not> ?used"
      proof -
        have key: "ms_assignments m (as_id s) = None" "cut_rows m (as_id s) = None"
          using nk by (auto simp: has_key_iff same_assignmentsD(3) [OF rel] cut_rows_def)
        have rows: "cut_rows m' = (cut_rows m)(as_id s \<mapsto> assignment_cut s)"
          by (rule cut_rows_upd) (simp add: m'_def)
        have ins: "same_rows as_id ((cut_rows m)(as_id s \<mapsto> assignments_row s)) (pg_assignments ?db')"
          using same_rows_insert [OF same, of "assignments_row s"] key(2) by simp
        have inv': "assign_inv m'"
          by (rule assign_inv_Create [OF inv, of fresh now a s]) (simp_all add: mem None key(1))
        show ?thesis
        proof
          assume "same_assignments m' ?db'"
          from same_rowsD [OF same_assignmentsD(1) [OF this], of "as_id s"] same_rowsD [OF ins, of "as_id s"]
          have "cut_rows m' (as_id s) = Some (assignments_row s)" by simp
          then have "assignments_row s = assignment_cut s" by (simp add: rows)
          then show "as_completed a = None" by (simp add: assignments_row_cut sf)
        next
          assume "as_completed a = None"
          then have "assignments_row s = assignment_cut s" by (simp add: assignments_row_cut sf)
          with ins inv' rows show "same_assignments m' ?db'" by (simp add: same_assignments_def)
        qed
      qed
      then show ?thesis using None nt by (simp add: mem pg)
    qed
  qed
qed

text \<open>An update, which in PostgreSQL writes the status and the completion only.\<close>

lemma PgAssignment_Update_agrees:
  assumes rel: "same_assignments m db"
    and task: "\<And>r. ms_assignments m (as_id a) = Some r \<Longrightarrow> as_task r = as_task a"
  shows "case Assignment_Update a m of
      Inl ErrInvalidInput \<Rightarrow> \<exists>t. PgAssignment_Update a db = Inl (Refused t)
    | Inl e \<Rightarrow> PgAssignment_Update a db = Inl (Sentinel e)
    | Inr m' \<Rightarrow> \<exists>db'. PgAssignment_Update a db = Inr db'
        \<and> (same_assignments m' db' \<longleftrightarrow> (\<forall>r. ms_assignments m (as_id a) = Some r \<longrightarrow>
             as_agent r = as_agent a \<and> pg_time (as_assigned r) = pg_time (as_assigned a)))"
proof -
  note same = same_assignmentsD(1) [OF rel] and inv = same_assignmentsD(2) [OF rel]
  let ?k = "as_id a"
  show ?thesis
  proof (cases "ms_assignments m ?k")
    case None
    then show ?thesis
      by (cases "?k = uuid_nil"; cases "IsValidAssignmentStatus (as_status a)")
        (simp_all add: Assignment_Update_def PgAssignment_Update_def same_assignmentsD(3) [OF rel])
  next
    case r: (Some r)
    have k: "as_id r = ?k" "as_task r = as_task a"
      using inv r task by (auto simp: assign_inv_def dest: keyed_byD)
    have row: "row_of as_id ?k (pg_assignments db) = Some (assignment_cut r)"
      using r by (simp add: same_assignmentsD(3) [OF rel])
    have taken: "active_taken (as_task a) ?k (pg_assignments db)
        \<longleftrightarrow> (case ms_active m (as_task a) of None \<Rightarrow> False | Some j \<Rightarrow> j \<noteq> ?k)"
      by (auto simp: active_taken_iff [OF rel] split: option.split)
    show ?thesis
    proof (cases "?k = uuid_nil \<or> \<not> IsValidAssignmentStatus (as_status a)
        \<or> as_status a = AsActive \<and> active_taken (as_task a) ?k (pg_assignments db)")
      case True
      then consider "?k = uuid_nil" | "?k \<noteq> uuid_nil" "\<not> IsValidAssignmentStatus (as_status a)"
        | "?k \<noteq> uuid_nil" "IsValidAssignmentStatus (as_status a)" "as_status a = AsActive"
            "active_taken (as_task a) ?k (pg_assignments db)" by blast
      then show ?thesis
      proof cases
        case 3
        then obtain j where "ms_active m (as_task a) = Some j" "j \<noteq> ?k"
          unfolding active_taken_iff [OF rel] by blast
        with 3 show ?thesis
          by (simp add: Assignment_Update_def PgAssignment_Update_def as_dup_failed_def k row r)
      qed (simp_all add: Assignment_Update_def PgAssignment_Update_def)
    next
      case False
      then have ok: "?k \<noteq> uuid_nil" "\<not> \<not> IsValidAssignmentStatus (as_status a)"
          "ms_assignments m ?k \<noteq> None"
          "\<not> (as_status a = AsActive \<and>
              (case ms_active m (as_task a) of None \<Rightarrow> False | Some current \<Rightarrow> current \<noteq> ?k))"
        using r taken by auto
      have "\<exists>m'. Assignment_Update a m = Inr m'"
        unfolding Assignment_Update_def if_not_P [OF ok(1)] if_not_P [OF ok(2)] if_not_P [OF ok(3)]
          if_not_P [OF ok(4)] Let_def by blast
      then obtain m' where m': "Assignment_Update a m = Inr m'" by blast
      from assign_inv_Update [OF inv m' r k(2)]
      have post: "assign_inv m'" "cut_rows m' = (cut_rows m)(?k \<mapsto> assignment_cut a)"
        by (simp_all add: cut_rows_upd)
      let ?db' = "db\<lparr>pg_assignments := set_row as_id ?k (assignments_set a) (pg_assignments db)\<rparr>"
      have pg: "PgAssignment_Update a db = Inr ?db'"
        using False k row by (simp add: PgAssignment_Update_def as_dup_failed_def)
      have set: "same_rows as_id ((cut_rows m)(?k \<mapsto> assignments_set a (assignment_cut r))) (pg_assignments ?db')"
        using same_rows_set [OF same cut_rows_simps(2) [OF r], of "assignments_set a"]
        by (simp add: assignments_set_def)
      have "assignments_set a (assignment_cut r) = assignment_cut a
          \<longleftrightarrow> as_agent r = as_agent a \<and> pg_time (as_assigned r) = pg_time (as_assigned a)"
        using k by (cases a; cases r) (auto simp: assignments_set_def assignment_cut_def)
      moreover have "same_assignments m' ?db' \<longleftrightarrow> assignments_set a (assignment_cut r) = assignment_cut a"
      proof
        assume "same_assignments m' ?db'"
        from same_rowsD [OF same_assignmentsD(1) [OF this], of ?k] same_rowsD [OF set, of ?k]
        have "cut_rows m' ?k = Some (assignments_set a (assignment_cut r))" by simp
        then show "assignments_set a (assignment_cut r) = assignment_cut a" by (simp add: post)
      qed (use set post in \<open>simp add: same_assignments_def\<close>)
      ultimately show ?thesis by (simp add: m' pg r)
    qed
  qed
qed

text \<open>
  C29: over the same assignments, up to the microseconds PostgreSQL keeps, both stores name the same
  active assignment of a task. Every creation gets the same answer from both, except that PostgreSQL
  also takes a used id for a conflict and refuses a task or an agent that does not exist; where both
  create, they hold the same rows afterwards exactly if the row came without a completion, which
  PostgreSQL does not store. Every update that leaves its row with the task gets the same answer,
  and both hold the same rows afterwards exactly if it changes neither agent nor instant of the
  assignment, which PostgreSQL does not write.
\<close>

theorem pg_assignments_refine:
  assumes "same_assignments m db"
  shows "PgAssignment_GetActiveByTask t db = map_sum Sentinel assignment_cut (Assignment_GetActiveByTask t m)
    \<and> (case Assignment_Create fresh now a m of
         Inl ErrAlreadyExists \<Rightarrow> PgAssignment_Create fresh now a db = Inl (Sentinel ErrAlreadyExists)
       | Inl _ \<Rightarrow> \<exists>x. PgAssignment_Create fresh now a db = Inl (Refused x)
       | Inr (s, m') \<Rightarrow>
           if has_key as_id (as_id s) (pg_assignments db)
           then PgAssignment_Create fresh now a db = Inl (Sentinel ErrAlreadyExists)
           else if \<not> refers a db then PgAssignment_Create fresh now a db = Inl (Failed ForeignKeyViolation)
           else \<exists>db'. PgAssignment_Create fresh now a db = Inr (assignments_row s, db')
             \<and> (same_assignments m' db' \<longleftrightarrow> as_completed a = None))
    \<and> ((\<forall>r. ms_assignments m (as_id b) = Some r \<longrightarrow> as_task r = as_task b) \<longrightarrow>
        (case Assignment_Update b m of
           Inl ErrInvalidInput \<Rightarrow> \<exists>x. PgAssignment_Update b db = Inl (Refused x)
         | Inl e \<Rightarrow> PgAssignment_Update b db = Inl (Sentinel e)
         | Inr m' \<Rightarrow> \<exists>db'. PgAssignment_Update b db = Inr db'
             \<and> (same_assignments m' db' \<longleftrightarrow> (\<forall>r. ms_assignments m (as_id b) = Some r \<longrightarrow>
                  as_agent r = as_agent b \<and> pg_time (as_assigned r) = pg_time (as_assigned b)))))"
  by (intro conjI impI PgAssignment_GetActive_agrees [OF assms] PgAssignment_Create_agrees [OF assms]
      PgAssignment_Update_agrees [OF assms]) blast

definition stored_agent :: agent where
  "stored_agent = \<lparr>ag_id = 6, ag_project = 9, ag_name = ''dev'', ag_role = ''developer'',
     ag_status = AgentIdle, ag_capabilities = [], ag_last_active = None, ag_metadata = ''{}'',
     ag_runtime = '''', ag_version = 1, ag_retired_at = None, ag_created = 1000, ag_updated = 1000\<rparr>"

definition first_assignment :: assignment where
  "first_assignment = \<lparr>as_id = 1, as_task = 5, as_agent = 6, as_assigned = 2000,
     as_completed = None, as_status = AsActive\<rparr>"

definition one_assignment :: mem_store where
  "one_assignment = NewMemoryStore
     \<lparr>ms_assignments := [1 \<mapsto> first_assignment], ms_active := [5 \<mapsto> 1]\<rparr>"

definition one_pg_assignment :: pg_db where
  "one_pg_assignment = (NewStore [])\<lparr>pg_assignments := [first_assignment],
     pg_tasks := [sample_task 5 1000], pg_agents := [stored_agent]\<rparr>"

lemma one_related: "same_assignments one_assignment one_pg_assignment"
proof -
  have "assign_inv one_assignment"
    by (rule assign_invI) (auto simp: one_assignment_def first_assignment_def)
  then show ?thesis
    by (auto simp: same_assignments_def same_rows_def cut_rows_def assignment_cut_def pg_time_def
        one_assignment_def one_pg_assignment_def first_assignment_def)
qed

text \<open>
  The task of the one active assignment refuses a second; an assignment of an unknown task is stored
  in memory only; when the first is superseded both stores still agree.
\<close>

theorem pg_assignments_refine_witness:
  "PgAssignment_Create 2 3000 (first_assignment\<lparr>as_id := 0, as_assigned := 0\<rparr>) one_pg_assignment
     = Inl (Sentinel ErrAlreadyExists)
   \<and> PgAssignment_Create 2 3000 (first_assignment\<lparr>as_id := 0, as_task := 8\<rparr>) one_pg_assignment
        = Inl (Failed ForeignKeyViolation)
   \<and> (\<exists>m' db'. PgAssignment_Update (first_assignment\<lparr>as_status := AsSuperseded, as_completed := Some 3999\<rparr>)
        one_pg_assignment = Inr db' \<and> same_assignments m' db')"
proof -
  let ?a = "first_assignment\<lparr>as_id := 0, as_assigned := 0\<rparr>" and ?b = "first_assignment\<lparr>as_id := 0, as_task := 8\<rparr>"
  let ?u = "first_assignment\<lparr>as_status := AsSuperseded, as_completed := Some 3999\<rparr>"
  have c: "Assignment_Create 2 3000 ?a one_assignment = Inl ErrAlreadyExists"
    by (simp add: Assignment_Create_def one_assignment_def first_assignment_def)
  have d: "\<exists>m'. Assignment_Create 2 3000 ?b one_assignment = Inr (?b\<lparr>as_id := 2\<rparr>, m')"
    by (simp add: Assignment_Create_def one_assignment_def first_assignment_def Let_def)
  have n: "\<not> has_key as_id 2 (pg_assignments one_pg_assignment)" "\<not> refers ?b one_pg_assignment"
    by (simp_all add: has_key_def refers_def one_pg_assignment_def first_assignment_def sample_task_def)
  have u: "\<exists>m'. Assignment_Update ?u one_assignment = Inr m'"
    by (simp add: Assignment_Update_def one_assignment_def first_assignment_def assignment_validators)
  have r: "ms_assignments one_assignment (as_id ?u) = Some first_assignment"
    by (simp add: one_assignment_def first_assignment_def)
  note P = pg_assignments_refine [OF one_related, of 0 2 3000 _ ?u]
  from P [of ?a] c have "PgAssignment_Create 2 3000 ?a one_pg_assignment = Inl (Sentinel ErrAlreadyExists)"
    by simp
  moreover from P [of ?b] d n
  have "PgAssignment_Create 2 3000 ?b one_pg_assignment = Inl (Failed ForeignKeyViolation)"
    by auto
  moreover from P [of ?a] u r have "\<exists>m' db'. PgAssignment_Update ?u one_pg_assignment = Inr db' \<and> same_assignments m' db'"
    by auto
  ultimately show ?thesis by blast
qed

section \<open>Updates of agents\<close>

text \<open>
  C31: the optimistic lock of the agents does not hold. Of two updates made from the same row,
  each valid alone, both are accepted one after the other, and the row is left with the fields of
  the second and with its version as it was.
\<close>

theorem pg_lost_update:
  assumes "PgAgent_Update jb now1 a db = Inr (a1, db1)"
    and "PgAgent_Update jb now2 b db = Inr (b2, db2')"
    and "ag_id b = ag_id a"
  shows "\<exists>db2 r. PgAgent_Update jb now2 b db1 = Inr (b2, db2)
    \<and> row_of ag_id (ag_id a) (pg_agents db2) = Some r
    \<and> ag_name r = ag_name b \<and> ag_role r = ag_role b \<and> ag_status r = ag_status b
    \<and> ag_capabilities r = ag_capabilities b \<and> ag_version r = ag_version b"
proof -
  from assms(1) obtain r where r: "row_of ag_id (ag_id a) (pg_agents db) = Some r"
      "ag_version r = ag_version a" "ag_retired_at r = None"
      "db1 = db\<lparr>pg_agents := set_row ag_id (ag_id a) (agents_set jb now1 a1) (pg_agents db)\<rparr>"
      "row_of ag_id (ag_id a) (pg_agents db1) = Some (agents_set jb now1 a1 r)"
    by (rule PgAgent_Update_row) blast
  from assms(2) obtain r' where r': "row_of ag_id (ag_id b) (pg_agents db) = Some r'"
      "ag_version r' = ag_version b" "b2 = b\<lparr>ag_version := ag_version b + 1\<rparr>"
    by (rule PgAgent_Update_row) blast
  have rr: "r' = r" "ag_id r = ag_id a" using r(1) r'(1) assms(3) by (auto dest: row_of_SomeD)
  let ?q = "agents_set jb now1 a1 r"
  have q: "ag_id ?q = ag_id a" "ag_version ?q = ag_version b" "ag_retired_at ?q = None"
      "ag_project ?q = ag_project r"
    using r(3) r'(2) rr by (simp_all add: agents_set_def)
  let ?ok = "\<lambda>x. ag_project x = ag_project r \<and> ag_name x = ag_name b \<and> ag_id x \<noteq> ag_id r"
  have names: "list_ex ?ok (pg_agents db1) = list_ex ?ok (pg_agents db)"
    using rr(2) by (auto simp: r(4) list_ex_iff set_row_def agents_set_def)
  let ?db2 = "db1\<lparr>pg_agents := set_row ag_id (ag_id b) (agents_set jb now2 b2) (pg_agents db1)\<rparr>"
  have upd: "PgAgent_Update jb now2 b db1 = Inr (b2, ?db2)"
    using assms(2) r'(1) r(5) q names rr assms(3)
    by (auto simp: PgAgent_Update_def Let_def r'(3) split: option.splits if_splits)
  have "row_of ag_id (ag_id a) (pg_agents ?db2) = Some (agents_set jb now2 b2 ?q)"
    using row_of_set_row [of ag_id "ag_id b" "agents_set jb now2 b2" "ag_id a" "pg_agents db1"] r(5) assms(3)
    by (simp add: agents_set_def)
  with upd q show ?thesis by (auto simp: agents_set_def r'(3))
qed

text \<open>One writer sets the role, the other the status: the role is back at what it was.\<close>

theorem pg_lost_update_witness:
  "\<exists>a1 db1 b2 db2 r.
     PgAgent_Update Some 2000 (stored_agent\<lparr>ag_role := ''lead''\<rparr>) ((NewStore [])\<lparr>pg_agents := [stored_agent]\<rparr>)
       = Inr (a1, db1)
     \<and> PgAgent_Update Some 3000 (stored_agent\<lparr>ag_status := AgentBusy\<rparr>) db1 = Inr (b2, db2)
     \<and> row_of ag_id 6 (pg_agents db2) = Some r \<and> ag_role r = ''developer'' \<and> ag_version r = 1"
proof -
  let ?db = "(NewStore [])\<lparr>pg_agents := [stored_agent]\<rparr>"
  let ?a = "stored_agent\<lparr>ag_role := ''lead''\<rparr>" and ?b = "stored_agent\<lparr>ag_status := AgentBusy\<rparr>"
  note ev = PgAgent_Update_def Let_def stored_agent_def agents_errors_def bad_text_def too_long_def
    char_len_def bad_int4_def agent_validators as_failed_def
  obtain a1 db1 where a: "PgAgent_Update Some 2000 ?a ?db = Inr (a1, db1)"
    by (simp add: ev)
  obtain b2 db2 where b: "PgAgent_Update Some 3000 ?b ?db = Inr (b2, db2)"
    by (simp add: ev)
  have "ag_id ?b = ag_id ?a" by simp
  from pg_lost_update [OF a b this] a show ?thesis by (auto simp: stored_agent_def)
qed

end
