(* ===== verification/Pg_Code.thy ===== *)
theory Pg_Code
  imports Pg_Work
begin

text \<open>
  Code generation requests, project files, commits, reviews and the audit log in store/postgres.
  \<open>nil_files\<close> tells whether the file list of a request is the nil slice, which is sent as NULL.
\<close>

section \<open>Code generation (code\_store.go)\<close>

definition codegens_row :: "codegen_request \<Rightarrow> codegen_request" where
  "codegens_row r = r\<lparr>cg_created := pg_time (cg_created r), cg_updated := pg_time (cg_updated r)\<rparr>"

definition PgCodeGen_Create :: "bool \<Rightarrow> codegen_request \<Rightarrow> pg_db \<Rightarrow> pg_error + pg_db" where
  "PgCodeGen_Create nil_files r db =
     as_failed (violated
       [(bad_text (cg_specification r # cg_output r # cg_files r), ZeroByte),
        (bad_int4 (cg_estimated r), IntOutOfRange),
        (null_required code_generation_requests_schema
           [''id'', ''project_id'', ''task_id'', ''specification'', ''files'', ''status'', ''execution_id'',
            ''output'', ''estimated_time'', ''created_at'', ''updated_at'']
           (if nil_files then [''files''] else []), NotNullViolation),
        (has_key cg_id (cg_id r) (pg_codegens db), UniqueViolation),
        (\<not> has_key pr_id (cg_project r) (pg_projects db)
           \<or> \<not> has_key t_id (cg_task r) (pg_tasks db), ForeignKeyViolation)])
     (db\<lparr>pg_codegens := pg_codegens db @ [codegens_row r]\<rparr>)"

definition PgCodeGen_GetByID :: "uuid \<Rightarrow> pg_db \<Rightarrow> pg_error + codegen_request" where
  "PgCodeGen_GetByID k db = found (row_of cg_id k (pg_codegens db))"

definition PgCodeGen_ListByProject ::
  "(codegen_request list \<Rightarrow> codegen_request list) \<Rightarrow> uuid \<Rightarrow> pg_db \<Rightarrow> codegen_request list" where
  "PgCodeGen_ListByProject scan p db =
     sort_slice (\<lambda>a b. cg_created b < cg_created a)
       (filter (\<lambda>r. cg_project r = p) (scan (pg_codegens db)))"

definition codegens_set :: "codegen_request \<Rightarrow> codegen_request \<Rightarrow> codegen_request" where
  "codegens_set q r = r\<lparr>cg_status := cg_status q, cg_execution := cg_execution q,
     cg_output := cg_output q, cg_estimated := cg_estimated q, cg_updated := pg_time (cg_updated q)\<rparr>"

text \<open>The number of rows is not looked at: an update of a missing request succeeds.\<close>

definition PgCodeGen_Update :: "codegen_request \<Rightarrow> pg_db \<Rightarrow> pg_error + pg_db" where
  "PgCodeGen_Update r db =
     as_failed (violated [(bad_text [cg_output r], ZeroByte), (bad_int4 (cg_estimated r), IntOutOfRange)])
       (db\<lparr>pg_codegens := set_row cg_id (cg_id r) (codegens_set r) (pg_codegens db)\<rparr>)"

section \<open>Files and commits (code\_store.go)\<close>

definition files_row :: "project_file \<Rightarrow> project_file" where
  "files_row f = f\<lparr>pf_modified := pg_time (pf_modified f)\<rparr>"

text \<open>INSERT ... ON CONFLICT (project\_id, path) DO UPDATE.\<close>

definition file_key :: "project_file \<Rightarrow> uuid \<times> string" where
  "file_key f = (pf_project f, pf_path f)"

definition PgSaveFile :: "project_file \<Rightarrow> pg_db \<Rightarrow> pg_error + pg_db" where
  "PgSaveFile f db =
     as_failed (violated
       [(bad_text [pf_path f, pf_content f, pf_language f, pf_modified_by f], ZeroByte),
        (too_long [(50, pf_language f), (255, pf_modified_by f)], StringTooLong),
        (bad_int4 (pf_size f), IntOutOfRange),
        (null_required project_files_schema
           [''project_id'', ''path'', ''content'', ''language'', ''size'', ''last_modified'', ''modified_by''] [],
         NotNullViolation),
        (\<not> has_key pr_id (pf_project f) (pg_projects db), ForeignKeyViolation)])
     (if has_key file_key (file_key f) (pg_files db)
      then db\<lparr>pg_files := set_row file_key (file_key f)
             (\<lambda>r. r\<lparr>pf_content := pf_content f, pf_language := pf_language f, pf_size := pf_size f,
                    pf_modified := pg_time (pf_modified f), pf_modified_by := pf_modified_by f\<rparr>)
             (pg_files db)\<rparr>
      else db\<lparr>pg_files := pg_files db @ [files_row f]\<rparr>)"

definition PgGetFile :: "uuid \<Rightarrow> string \<Rightarrow> pg_db \<Rightarrow> pg_error + project_file" where
  "PgGetFile p path db =
     (if bad_text [path] then Inl (Failed ZeroByte) else found (row_of file_key (p, path) (pg_files db)))"

definition PgListFiles :: "uuid \<Rightarrow> pg_db \<Rightarrow> project_file list" where
  "PgListFiles p db =
     sort_slice (\<lambda>a b. pf_path a < pf_path b) (filter (\<lambda>f. pf_project f = p) (pg_files db))"

text \<open>The loop over the files of a commit, inside the transaction.\<close>

fun insert_commit_files :: "string \<Rightarrow> commit_file list \<Rightarrow> pg_db \<Rightarrow> sqlstate + pg_db" where
  "insert_commit_files sha [] db = Inr db"
| "insert_commit_files sha (f # fs) db =
     (case violated
        [(bad_text [cmf_path f, cmf_content f], ZeroByte),
         (null_required commit_files_schema [''commit_sha'', ''path'', ''content''] [], NotNullViolation),
         (list_ex (\<lambda>(s, g). s = sha \<and> cmf_path g = cmf_path f) (pg_commit_files db), UniqueViolation),
         (\<not> has_key cm_sha sha (pg_commits db), ForeignKeyViolation)] of
        Some e \<Rightarrow> Inl e
      | None \<Rightarrow> insert_commit_files sha fs (db\<lparr>pg_commit_files := pg_commit_files db @ [(sha, f)]\<rparr>))"

text \<open>The hash is the primary key, whatever the project.\<close>

definition PgCreateCommit :: "commit \<Rightarrow> pg_db \<Rightarrow> pg_error + pg_db" where
  "PgCreateCommit c db =
     (case violated
        [(bad_text [cm_sha c, cm_branch c, cm_message c, cm_author c], ZeroByte),
         (too_long [(40, cm_sha c), (255, cm_branch c), (255, cm_author c)], StringTooLong),
         (null_required commits_schema
            [''sha'', ''project_id'', ''branch'', ''message'', ''author'', ''created_at''] [], NotNullViolation),
         (has_key cm_sha (cm_sha c) (pg_commits db), UniqueViolation),
         (\<not> has_key pr_id (cm_project c) (pg_projects db), ForeignKeyViolation)] of
        Some e \<Rightarrow> Inl (Failed e)
      | None \<Rightarrow>
          map_sum Failed id (insert_commit_files (cm_sha c) (cm_files c)
            (db\<lparr>pg_commits := pg_commits db @ [c\<lparr>cm_files := [], cm_created := pg_time (cm_created c)\<rparr>]\<rparr>)))"

definition commit_files_of :: "string \<Rightarrow> pg_db \<Rightarrow> commit_file list" where
  "commit_files_of sha db = map snd (filter (\<lambda>p. fst p = sha) (pg_commit_files db))"

definition PgGetCommit ::
  "(commit_file list \<Rightarrow> commit_file list) \<Rightarrow> uuid \<Rightarrow> string \<Rightarrow> pg_db \<Rightarrow> pg_error + commit" where
  "PgGetCommit scan p sha db =
     (if bad_text [sha] then Inl (Failed ZeroByte)
      else map_sum id (\<lambda>c. c\<lparr>cm_files := scan (commit_files_of sha db)\<rparr>)
             (found (List.find (\<lambda>c. cm_project c = p \<and> cm_sha c = sha) (pg_commits db))))"

definition PgListCommits :: "(commit list \<Rightarrow> commit list) \<Rightarrow> uuid \<Rightarrow> pg_db \<Rightarrow> commit list" where
  "PgListCommits scan p db =
     sort_slice (\<lambda>a b. cm_created b < cm_created a)
       (filter (\<lambda>c. cm_project c = p) (scan (pg_commits db)))"

section \<open>Reviews (review\_store.go)\<close>

text \<open>
  The columns that are read back: reviewer\_type, the display name and the issues are not. The
  score is DECIMAL(5, 2), and \<open>round2\<close> its rounding.
\<close>

definition reviews_row :: "(rat \<Rightarrow> rat) \<Rightarrow> review \<Rightarrow> review" where
  "reviews_row round2 r = r\<lparr>rv_reviewer_type := '''', rv_reviewer := '''', rv_issues := [],
     rv_score := round2 (rv_score r), rv_created := pg_time (rv_created r),
     rv_updated := pg_time (rv_updated r)\<rparr>"

text \<open>Every issue gets an id of its own if it has none; \<open>ids\<close> are the drawn ones.\<close>

fun insert_issues ::
  "go_time \<Rightarrow> uuid \<Rightarrow> uuid list \<Rightarrow> review_issue list \<Rightarrow> pg_db \<Rightarrow> sqlstate + pg_db" where
  "insert_issues now k ids [] db = Inr db"
| "insert_issues now k ids (i # is) db =
     (let i' = (if ri_id i = uuid_nil then i\<lparr>ri_id := hd ids\<rparr> else i)\<lparr>ri_review := k\<rparr>
      in case violated
           [(bad_text [ri_severity i', ri_file i', ri_message i', ri_suggestion i'], ZeroByte),
            (too_long [(50, ri_severity i')], StringTooLong),
            (bad_int4 (ri_line i'), IntOutOfRange),
            (null_required review_issues_schema
               [''id'', ''review_id'', ''severity'', ''file'', ''line'', ''message'', ''suggestion'', ''created_at'']
               [], NotNullViolation),
            (has_key ri_id (ri_id i') (pg_review_issues db), UniqueViolation),
            (\<not> has_key rv_id k (pg_reviews db), ForeignKeyViolation)] of
           Some e \<Rightarrow> Inl e
         | None \<Rightarrow> insert_issues now k (if ri_id i = uuid_nil then tl ids else ids) is
                     (db\<lparr>pg_review_issues := pg_review_issues db @ [i']\<rparr>))"

text \<open>The columns of the INSERT. The table has a further column reviewer\_type.\<close>

definition reviews_inserted :: "string list" where
  "reviews_inserted = [''id'', ''project_id'', ''target_agent_id'', ''reviewer_id'', ''agent_id'',
     ''commit_sha'', ''status'', ''result'', ''score'', ''metrics'', ''created_at'', ''updated_at'']"

definition review_refs_missing :: "review \<Rightarrow> pg_db \<Rightarrow> bool" where
  "review_refs_missing r db \<longleftrightarrow>
     (\<exists>k \<in> set_option (rv_reviewer_id r). \<not> has_key u_id k (pg_users db))
     \<or> (\<exists>k \<in> set_option (rv_agent r). \<not> has_key ag_id k (pg_agents db))"

definition PgReview_Create ::
  "(rat \<Rightarrow> rat) \<Rightarrow> go_time \<Rightarrow> uuid \<Rightarrow> uuid list \<Rightarrow> review \<Rightarrow> pg_db \<Rightarrow> pg_error + pg_db" where
  "PgReview_Create round2 now fresh ids r db =
     (let r = (if rv_id r = uuid_nil then r\<lparr>rv_id := fresh\<rparr> else r)
      in case violated
           [(bad_text [rv_commit r], ZeroByte),
            (too_long [(40, rv_commit r)], StringTooLong),
            (1000 \<le> \<bar>round2 (rv_score r)\<bar>, IntOutOfRange),
            (null_required reviews_schema reviews_inserted [], NotNullViolation),
            (has_key rv_id (rv_id r) (pg_reviews db), UniqueViolation),
            (\<not> has_key pr_id (rv_project r) (pg_projects db)
               \<or> \<not> has_key cm_sha (rv_commit r) (pg_commits db) \<or> review_refs_missing r db,
             ForeignKeyViolation)] of
           Some e \<Rightarrow> Inl (Failed e)
         | None \<Rightarrow>
             map_sum Failed id (insert_issues now (rv_id r) ids (rv_issues r)
               (db\<lparr>pg_reviews := pg_reviews db @ [reviews_row round2 r]\<rparr>)))"

definition PgReview_GetByID :: "uuid \<Rightarrow> pg_db \<Rightarrow> pg_error + review" where
  "PgReview_GetByID k db = found (row_of rv_id k (pg_reviews db))"

definition PgReview_ListByProject :: "(review list \<Rightarrow> review list) \<Rightarrow> uuid \<Rightarrow> pg_db \<Rightarrow> review list" where
  "PgReview_ListByProject scan p db =
     sort_slice (\<lambda>a b. rv_created b < rv_created a) (filter (\<lambda>r. rv_project r = p) (scan (pg_reviews db)))"

definition reviews_set :: "(rat \<Rightarrow> rat) \<Rightarrow> review \<Rightarrow> review \<Rightarrow> review" where
  "reviews_set round2 q r = r\<lparr>rv_status := rv_status q, rv_result := rv_result q,
     rv_score := round2 (rv_score q), rv_metrics := rv_metrics q, rv_updated := pg_time (rv_updated q),
     rv_target_agent := rv_target_agent q, rv_reviewer_id := rv_reviewer_id q, rv_agent := rv_agent q\<rparr>"

text \<open>The number of rows is not looked at; the issues are replaced.\<close>

definition PgReview_Update ::
  "(rat \<Rightarrow> rat) \<Rightarrow> go_time \<Rightarrow> uuid list \<Rightarrow> review \<Rightarrow> pg_db \<Rightarrow> pg_error + pg_db" where
  "PgReview_Update round2 now ids r db =
     (case violated
        [(1000 \<le> \<bar>round2 (rv_score r)\<bar>, IntOutOfRange),
         (has_key rv_id (rv_id r) (pg_reviews db) \<and> review_refs_missing r db, ForeignKeyViolation)] of
        Some e \<Rightarrow> Inl (Failed e)
      | None \<Rightarrow>
          map_sum Failed id (insert_issues now (rv_id r) ids (rv_issues r)
            (db\<lparr>pg_reviews := set_row rv_id (rv_id r) (reviews_set round2 r) (pg_reviews db),
                pg_review_issues := filter (\<lambda>i. ri_review i \<noteq> rv_id r) (pg_review_issues db)\<rparr>)))"

definition PgReview_CreateComment :: "review_comment \<Rightarrow> pg_db \<Rightarrow> pg_error + pg_db" where
  "PgReview_CreateComment c db =
     as_failed (violated
       [(bad_text [rc_file c, rc_content c], ZeroByte),
        (bad_int4 (rc_line c), IntOutOfRange),
        (null_required review_comments_schema
           [''id'', ''review_id'', ''file'', ''line'', ''author_id'', ''content'', ''created_at''] [],
         NotNullViolation),
        (has_key rc_id (rc_id c) (pg_review_comments db), UniqueViolation),
        (\<not> has_key rv_id (rc_review c) (pg_reviews db)
           \<or> \<not> has_key u_id (rc_author c) (pg_users db), ForeignKeyViolation)])
     (db\<lparr>pg_review_comments := pg_review_comments db @ [c\<lparr>rc_created := pg_time (rc_created c)\<rparr>]\<rparr>)"

definition PgReview_ListComments ::
  "(review_comment list \<Rightarrow> review_comment list) \<Rightarrow> uuid \<Rightarrow> pg_db \<Rightarrow> review_comment list" where
  "PgReview_ListComments scan k db =
     sort_slice (\<lambda>a b. rc_created a < rc_created b)
       (filter (\<lambda>c. rc_review c = k) (scan (pg_review_comments db)))"

section \<open>The audit log (audit\_log\_store.go)\<close>

definition PgAuditLog_Create ::
  "(string \<Rightarrow> string option) \<Rightarrow> uuid \<Rightarrow> audit_log \<Rightarrow> pg_db \<Rightarrow> pg_error + pg_db" where
  "PgAuditLog_Create jb fresh l db =
     (let l = (if al_id l = uuid_nil then l\<lparr>al_id := fresh\<rparr> else l)
      in as_failed (violated
           [(bad_text [al_entity_type l, al_action l], ZeroByte),
            (too_long [(100, al_entity_type l), (50, al_action l)], StringTooLong),
            (al_changes l \<noteq> '''' \<and> jb (al_changes l) = None, InvalidJson),
            (null_required audit_log_schema
               [''id'', ''entity_type'', ''entity_id'', ''action'', ''user_id'', ''changes'', ''created_at''] [],
             NotNullViolation),
            (has_key al_id (al_id l) (pg_audit db), UniqueViolation),
            (\<exists>k \<in> set_option (al_user l). \<not> has_key u_id k (pg_users db), ForeignKeyViolation)])
          (db\<lparr>pg_audit := pg_audit db @ [l\<lparr>al_changes :=
                (if al_changes l = '''' then '''' else the (jb (al_changes l))),
                al_created := pg_time (al_created l)\<rparr>]\<rparr>))"

definition audit_col :: "audit_log \<Rightarrow> string \<Rightarrow> sql_val" where
  "audit_col l c =
     (if c = ''entity_type'' then VText (al_entity_type l)
      else if c = ''entity_id'' then VId (al_entity l)
      else if c = ''user_id'' then (case al_user l of None \<Rightarrow> VNull | Some k \<Rightarrow> VId k) else VNull)"

definition Audit_where :: "audit_filter \<Rightarrow> where_clause" where
  "Audit_where f =
     (let w = no_conds;
          w = add_eq_if (alf_entity_type f \<noteq> '''') ''entity_type'' (VText (alf_entity_type f)) w;
          w = add_eq_if (alf_entity f \<noteq> uuid_nil) ''entity_id'' (VId (alf_entity f)) w
      in add_eq_if (alf_user f \<noteq> uuid_nil) ''user_id'' (VId (alf_user f)) w)"

definition PgAuditLog_List ::
  "(audit_log list \<Rightarrow> audit_log list) \<Rightarrow> audit_filter \<Rightarrow> pg_db \<Rightarrow> pg_error + audit_log list \<times> int" where
  "PgAuditLog_List scan f db =
     (if bad_text [alf_entity_type f] then Inl (Failed ZeroByte)
      else limit_offset (alf_page f) (alf_limit f)
        (sort_slice (\<lambda>a b. al_created b < al_created a)
          (filter (\<lambda>l. selects id (Audit_where f) (audit_col l)) (scan (pg_audit db)))))"

interpretation audit_where: where_builder lc Audit_where audit_col audit_matches
  "\<lambda>f. (alf_entity_type f \<noteq> '''', alf_entity f \<noteq> uuid_nil, alf_user f \<noteq> uuid_nil)" for lc
  by unfold_locales
    (auto simp: Audit_where_def Let_def audit_matches_def audit_col_def sql_eq_def split: option.splits)

section \<open>What is stored\<close>

interpretation pg_codegens: row_table cg_id "\<lambda>db k. row_of cg_id k (pg_codegens db)" codegens_row
  "Sentinel ErrNotFound" "PgCodeGen_Create nil_files" PgCodeGen_GetByID for nil_files
proof unfold_locales
  fix r db db'
  assume "PgCodeGen_Create nil_files r db = Inr db'"
  then show "row_of cg_id (cg_id r) (pg_codegens db) = None
      \<and> (\<lambda>k. row_of cg_id k (pg_codegens db')) = (\<lambda>k. row_of cg_id k (pg_codegens db))(cg_id r \<mapsto> codegens_row r)"
    using row_of_insert [of cg_id "codegens_row r" "pg_codegens db"]
    by (auto simp: PgCodeGen_Create_def codegens_row_def has_key_row fun_eq_iff)
qed (auto simp: PgCodeGen_GetByID_def codegens_row_def found_view)

lemma PgCodeGen_Update_missing:
  assumes "PgCodeGen_GetByID (cg_id r) db = Inl (Sentinel ErrNotFound)"
    and "\<not> bad_text [cg_output r]" "\<not> bad_int4 (cg_estimated r)"
  shows "PgCodeGen_Update r db = Inr db"
proof -
  have "row_of cg_id (cg_id r) (pg_codegens db) = None"
    using assms(1) by (simp add: PgCodeGen_GetByID_def found_def split: option.splits)
  from set_row_absent [OF this] assms(2,3) show ?thesis by (simp add: PgCodeGen_Update_def as_failed_def)
qed

text \<open>A file is read back as it was last saved.\<close>

lemma PgSaveFile_read:
  assumes "PgSaveFile f db = Inr db'" "\<not> bad_text [q]"
  shows "PgGetFile p q db' = (if (p, q) = file_key f then Inr (files_row f) else PgGetFile p q db)"
proof -
  let ?g = "\<lambda>r. r\<lparr>pf_content := pf_content f, pf_language := pf_language f, pf_size := pf_size f,
    pf_modified := pg_time (pf_modified f), pf_modified_by := pf_modified_by f\<rparr>"
  have fk: "file_key (files_row f) = file_key f" by (simp add: file_key_def files_row_def)
  have files: "pg_files db' = (if has_key file_key (file_key f) (pg_files db)
      then set_row file_key (file_key f) ?g (pg_files db) else pg_files db @ [files_row f])"
    using assms(1) by (auto simp: PgSaveFile_def)
  have "row_of file_key (p, q) (pg_files db')
      = (if (p, q) = file_key f then Some (files_row f) else row_of file_key (p, q) (pg_files db))"
  proof (cases "row_of file_key (file_key f) (pg_files db)")
    case None
    with row_of_insert [of file_key "files_row f" "pg_files db"] fk show ?thesis
      by (simp add: files has_key_iff)
  next
    case (Some r)
    then have "pf_project r = pf_project f" "pf_path r = pf_path f"
      by (auto dest: row_of_SomeD simp: file_key_def)
    then have "?g r = files_row f" by (simp add: files_row_def)
    moreover have "file_key x = file_key f \<Longrightarrow> file_key (?g x) = file_key f" for x
      by (simp add: file_key_def)
    ultimately show ?thesis using Some by (simp add: files has_key_iff row_of_set_row)
  qed
  then show ?thesis using assms(2) by (simp add: PgGetFile_def found_def)
qed

text \<open>Every INSERT of a review is refused: reviewer\_type is required and never given.\<close>

lemma reviewer_type_missing: "null_required reviews_schema reviews_inserted []"
  by (simp add: null_required_def reviews_schema_def reviews_inserted_def)

lemma PgReview_Create_fails: "\<exists>e. PgReview_Create round2 now fresh ids r db = Inl e"
  by (auto simp: PgReview_Create_def Let_def reviewer_type_missing split: option.splits)

end
