(* ===== verification/Pg_Reach.thy ===== *)
theory Pg_Reach
  imports Pg_Code Project_Service
begin

text \<open>
  The databases that the store methods reach from a migrated one. A call that fails changes
  nothing, so the steps are the calls that succeed, a transaction being the sequence of its calls.
  The services give a user a drawn id and a new task no assignee; every other argument is
  arbitrary.
\<close>

section \<open>Steps\<close>

inductive pg_step :: "pg_db \<Rightarrow> pg_db \<Rightarrow> bool" where
  user_create: "u_id u \<noteq> uuid_nil \<Longrightarrow> PgUser_Create u db = Inr db' \<Longrightarrow> pg_step db db'"
| user_update: "PgUser_Update u db = Inr db' \<Longrightarrow> pg_step db db'"
| project_create: "PgProject_Create p db = Inr db' \<Longrightarrow> pg_step db db'"
| project_update: "PgProject_Update now p db = Inr db' \<Longrightarrow> pg_step db db'"
| project_delete: "PgProject_Delete k db = Inr db' \<Longrightarrow> pg_step db db'"
| task_create: "t_assignee t = uuid_nil \<Longrightarrow> PgTask_Create t db = Inr db' \<Longrightarrow> pg_step db db'"
| task_update: "PgTask_Update now t db = Inr db' \<Longrightarrow> pg_step db db'"
| task_delete: "PgTask_Delete k db = Inr db' \<Longrightarrow> pg_step db db'"
| agent_create: "PgAgent_Create jb fresh a db = Inr db' \<Longrightarrow> pg_step db db'"
| agent_update: "PgAgent_Update jb now a db = Inr (a', db') \<Longrightarrow> pg_step db db'"
| agent_retire: "PgAgent_SoftDelete now k db = Inr db' \<Longrightarrow> pg_step db db'"
| agent_capabilities: "PgAgent_SetCapabilities now k names db = Inr db' \<Longrightarrow> pg_step db db'"
| assignment_create: "PgAssignment_Create fresh now a db = Inr (a', db') \<Longrightarrow> pg_step db db'"
| assignment_update: "PgAssignment_Update a db = Inr db' \<Longrightarrow> pg_step db db'"
| event_append: "PgEvent_Append fresh now v db = Inr (v', db') \<Longrightarrow> pg_step db db'"
| execution_create: "PgExecution_Create fresh now e db = Inr (e', db') \<Longrightarrow> pg_step db db'"
| execution_status: "PgExecution_UpdateStatus now k s msg db = Inr (e', db') \<Longrightarrow> pg_step db db'"
| deliverable_create: "PgDeliverable_Create fresh now d db = Inr (d', db') \<Longrightarrow> pg_step db db'"
| deliverable_update: "PgDeliverable_Update now d db = Inr (d', db') \<Longrightarrow> pg_step db db'"
| version_insert: "PgDeliverableVersion_Insert fresh now v db = Inr (v', db') \<Longrightarrow> pg_step db db'"
| codegen_create: "PgCodeGen_Create nf r db = Inr db' \<Longrightarrow> pg_step db db'"
| codegen_update: "PgCodeGen_Update r db = Inr db' \<Longrightarrow> pg_step db db'"
| file_save: "PgSaveFile f db = Inr db' \<Longrightarrow> pg_step db db'"
| commit_create: "PgCreateCommit c db = Inr db' \<Longrightarrow> pg_step db db'"
| review_create: "PgReview_Create round2 now fresh ids r db = Inr db' \<Longrightarrow> pg_step db db'"
| review_update: "PgReview_Update round2 now ids r db = Inr db' \<Longrightarrow> pg_step db db'"
| review_comment: "PgReview_CreateComment c db = Inr db' \<Longrightarrow> pg_step db db'"
| audit_create: "PgAuditLog_Create jb fresh l db = Inr db' \<Longrightarrow> pg_step db db'"
| fallback: "on_fallback (f :: mem_store \<Rightarrow> store_error + mem_store) db = Inr db' \<Longrightarrow> pg_step db db'"

inductive pg_reach :: "pg_db \<Rightarrow> bool" where
  migrated: "pg_reach (NewStore ids)"
| step: "pg_reach db \<Longrightarrow> pg_step db db' \<Longrightarrow> pg_reach db'"

section \<open>The tables that stay empty\<close>

definition no_work :: "pg_db \<Rightarrow> bool" where
  "no_work db \<longleftrightarrow> (\<forall>u \<in> set (pg_users db). u_id u \<noteq> uuid_nil)
     \<and> pg_tasks db = [] \<and> pg_agents db = [] \<and> pg_executions db = [] \<and> pg_assignments db = []
     \<and> pg_events db = [] \<and> pg_deliverables db = [] \<and> pg_dversions db = []
     \<and> pg_codegens db = [] \<and> pg_reviews db = [] \<and> pg_review_comments db = []"

lemma no_key_empty [simp]: "\<not> has_key key k []"
  by (simp add: has_key_def)

lemma no_nil_user: "no_work db \<Longrightarrow> \<not> has_key u_id uuid_nil (pg_users db)"
  by (auto simp: no_work_def has_key_def list_ex_iff)

lemma set_row_Nil [simp]: "set_row key k f [] = []"
  by (simp add: set_row_def)

lemma no_work_frame:
  assumes "no_work db" "set (map u_id (pg_users db')) \<subseteq> set (map u_id (pg_users db))"
    and "pg_tasks db' = pg_tasks db" "pg_agents db' = pg_agents db" "pg_executions db' = pg_executions db"
    "pg_assignments db' = pg_assignments db" "pg_events db' = pg_events db"
    "pg_deliverables db' = pg_deliverables db" "pg_dversions db' = pg_dversions db"
    "pg_codegens db' = pg_codegens db" "pg_reviews db' = pg_reviews db"
    "pg_review_comments db' = pg_review_comments db"
  shows "no_work db'"
  using assms by (fastforce simp: no_work_def)

lemma PgUser_keeps: 
  "PgUser_Create u db = Inr db' \<Longrightarrow> u_id u \<noteq> uuid_nil \<Longrightarrow> no_work db \<Longrightarrow> no_work db'"
  "PgUser_Update u db = Inr db' \<Longrightarrow> no_work db \<Longrightarrow> no_work db'"
  by (auto simp: PgUser_Create_def PgUser_Update_def no_work_def users_row_def users_set_def
      set_row_def split: option.splits if_splits)

lemma PgProject_keeps:
  "PgProject_Create p db = Inr db' \<Longrightarrow> no_work db \<Longrightarrow> no_work db'"
  "PgProject_Update now p db = Inr db' \<Longrightarrow> no_work db \<Longrightarrow> no_work db'"
  by (auto simp: PgProject_Create_def PgProject_Update_def no_work_def
      split: option.splits if_splits)

lemma PgProject_Delete_keeps: "PgProject_Delete k db = Inr db' \<Longrightarrow> no_work db \<Longrightarrow> no_work db'"
  by (auto simp: PgProject_Delete_def drop_agents_def drop_tasks_def drop_deliverables_def
      drop_assignments_def drop_commits_def drop_reviews_def no_work_def Let_def
      split: if_splits)

lemma PgTask_Create_nil: "no_work db \<Longrightarrow> t_assignee t = uuid_nil \<Longrightarrow> \<exists>e. PgTask_Create t db = Inl e"
  using no_nil_user [of db] by (auto simp: PgTask_Create_def as_failed_def split: option.splits)

lemma PgTask_keeps:
  "PgTask_Update now t db = Inr db' \<Longrightarrow> no_work db \<Longrightarrow> no_work db'"
  "PgTask_Delete k db = Inr db' \<Longrightarrow> no_work db \<Longrightarrow> no_work db'"
  by (auto simp: PgTask_Update_def PgTask_Delete_def no_work_def split: option.splits if_splits)

lemma PgAgent_keeps:
  assumes "no_work db"
  shows "PgAgent_Update jb now a db = Inr (a', db') \<Longrightarrow> no_work db'"
    "PgAgent_SoftDelete now k db = Inr db' \<Longrightarrow> no_work db'"
  using assms by (auto simp: PgAgent_Update_def PgAgent_SoftDelete_def Let_def no_work_def split: option.splits)

lemma grant_all_keeps: "grant_all now k ns db = Inr db' \<Longrightarrow> pg_agents db = [] \<Longrightarrow> pg_agents db' = []"
  by (induction now k ns db rule: grant_all.induct) (auto split: if_splits option.splits)

lemma PgAgent_SetCapabilities_fails:
  assumes "no_work db" shows "PgAgent_SetCapabilities now k names db \<noteq> Inr db'"
proof
  assume "PgAgent_SetCapabilities now k names db = Inr db'"
  then obtain db2 where "has_key ag_id k (pg_agents db2)" and
    g: "grant_all now k names (db\<lparr>pg_agent_capabilities :=
          filter (\<lambda>g. ac_agent g \<noteq> k) (pg_agent_capabilities db)\<rparr>) = Inr db2"
    by (auto simp: PgAgent_SetCapabilities_def Let_def split: sum.splits if_splits)
  moreover have "pg_agents db2 = []" using grant_all_keeps [OF g] assms by (simp add: no_work_def)
  ultimately show False by simp
qed

lemma PgAssignment_fail:
  assumes "no_work db"
  shows "PgAssignment_Create fresh now a db \<noteq> Inr (a', db')" "PgAssignment_Update a db \<noteq> Inr db'"
  using assms by (auto simp: PgAssignment_Create_def PgAssignment_Update_def Let_def no_work_def)

lemma PgEvent_fail: "no_work db \<Longrightarrow> PgEvent_Append fresh now v db \<noteq> Inr (v', db')"
  by (auto simp: PgEvent_Append_def Let_def no_work_def)

lemma PgExecution_fail:
  assumes "no_work db"
  shows "PgExecution_Create fresh now e db \<noteq> Inr (e', db')"
    "PgExecution_UpdateStatus now k s msg db \<noteq> Inr (e', db')"
  using assms by (auto simp: PgExecution_Create_def PgExecution_UpdateStatus_def Let_def no_work_def)

lemma PgDeliverable_fail:
  assumes "no_work db"
  shows "PgDeliverable_Create fresh now d db \<noteq> Inr (d', db')"
    "PgDeliverable_Update now d db \<noteq> Inr (d', db')"
    "PgDeliverableVersion_Insert fresh now v db \<noteq> Inr (v', db')"
  using assms
  by (auto simp: PgDeliverable_Create_def PgDeliverable_Update_def PgDeliverableVersion_Insert_def
      Let_def no_work_def split: option.splits)

lemma PgCodeGen_keeps:
  assumes "no_work db"
  shows "PgCodeGen_Create nf r db \<noteq> Inr db'"
    "PgCodeGen_Update r db = Inr db' \<Longrightarrow> no_work db'"
  using assms by (auto simp: PgCodeGen_Create_def PgCodeGen_Update_def no_work_def)

lemma insert_commit_files_keeps:
  "insert_commit_files sha fs db = Inr db' \<Longrightarrow> no_work db \<Longrightarrow> no_work db'"
  by (induction sha fs db rule: insert_commit_files.induct)
    (auto simp: no_work_def split: option.splits)

lemma PgFiles_keep:
  assumes "no_work db"
  shows "PgSaveFile f db = Inr db' \<Longrightarrow> no_work db'" "PgCreateCommit c db = Inr db' \<Longrightarrow> no_work db'"
proof -
  show "PgSaveFile f db = Inr db' \<Longrightarrow> no_work db'"
    using assms by (auto simp: PgSaveFile_def no_work_def split: if_splits)
  assume "PgCreateCommit c db = Inr db'"
  then obtain d where d: "insert_commit_files (cm_sha c) (cm_files c) d = Inr db'"
      "d = db\<lparr>pg_commits := pg_commits db @ [c\<lparr>cm_files := [], cm_created := pg_time (cm_created c)\<rparr>]\<rparr>"
    by (auto simp: PgCreateCommit_def map_sum_def split: option.splits sum.splits)
  have "no_work d" using assms by (simp add: d(2) no_work_def)
  with d(1) show "no_work db'" by (rule insert_commit_files_keeps)
qed

lemma insert_issues_keeps:
  "insert_issues now k ids iss db = Inr db' \<Longrightarrow> no_work db \<Longrightarrow> no_work db'"
  by (induction now k ids iss db rule: insert_issues.induct)
    (auto simp: no_work_def Let_def split: option.splits)

lemma PgReview_keeps:
  assumes "no_work db"
  shows "PgReview_Update round2 now ids r db = Inr db' \<Longrightarrow> no_work db'"
    "PgReview_CreateComment c db \<noteq> Inr db'"
proof -
  assume "PgReview_Update round2 now ids r db = Inr db'"
  then obtain d where d: "insert_issues now (rv_id r) ids (rv_issues r) d = Inr db'"
      "d = db\<lparr>pg_reviews := set_row rv_id (rv_id r) (reviews_set round2 r) (pg_reviews db),
          pg_review_issues := filter (\<lambda>i. ri_review i \<noteq> rv_id r) (pg_review_issues db)\<rparr>"
    by (auto simp: PgReview_Update_def map_sum_def split: option.splits sum.splits)
  have "no_work d" using assms by (simp add: d(2) no_work_def)
  with d(1) show "no_work db'" by (rule insert_issues_keeps)
next
  show "PgReview_CreateComment c db \<noteq> Inr db'"
    using assms by (auto simp: PgReview_CreateComment_def no_work_def)
qed

lemmas step_keeps = PgUser_keeps(2) PgProject_keeps PgProject_Delete_keeps PgTask_keeps
  PgAgent_keeps [rotated] PgCodeGen_keeps(2) [rotated] PgFiles_keep [rotated] PgReview_keeps(1) [rotated]

lemmas step_fails = PgAgent_SetCapabilities_fails [THEN notE] PgAssignment_fail [THEN notE]
  PgEvent_fail [THEN notE] PgExecution_fail [THEN notE] PgDeliverable_fail [THEN notE]
  PgCodeGen_keeps(1) [THEN notE] PgReview_keeps(2) [THEN notE]

lemma pg_step_no_work: "pg_step db db' \<Longrightarrow> no_work db \<Longrightarrow> no_work db'"
proof (induction rule: pg_step.induct)
  case (task_create t db db')
  then show ?case using PgTask_Create_nil [of db t] by simp
next
  case (agent_create jb fresh a db db')
  then show ?case using PgAgent_Create_fails [of jb fresh a db] by simp
next
  case (review_create round2 now fresh ids r db db')
  then show ?case using PgReview_Create_fails [of round2 now fresh ids r db] by simp
next
  case (audit_create jb fresh l db db')
  then show ?case by (auto simp: PgAuditLog_Create_def Let_def no_work_def)
next
  case (fallback f db db')
  then show ?case by (auto simp: on_fallback_def no_work_def split: sum.splits)
next
  case (user_create u db db')
  then show ?case using PgUser_keeps(1) by blast
qed (erule (1) step_keeps | erule (1) step_fails)+

lemma pg_reach_no_work: "pg_reach db \<Longrightarrow> no_work db"
proof (induction rule: pg_reach.induct)
  case (migrated ids)
  then show ?case by (simp add: no_work_def NewStore_def)
next
  case (step db db')
  then show ?case using pg_step_no_work by blast
qed

section \<open>Properties\<close>

lemma as_failed_cases: "(\<exists>e. as_failed v r = Inl (Failed e)) \<or> as_failed v r = Inr r"
  by (auto simp: as_failed_def split: option.split)

text \<open>
  C6: on PostgreSQL no work can ever be stored. Whatever calls succeed on a migrated database, it
  holds no task, agent, assignment, execution, deliverable, code request or review, and every
  further creation of an agent, of a review, and of a task by the task service is an error:
  agent\_type and reviewer\_type are required columns that the INSERTs leave out, and the nil
  assignee of a new task is sent as an id that no user has.
\<close>

theorem pg_stores_no_work:
  assumes "pg_reach db"
  shows "pg_tasks db = [] \<and> pg_agents db = [] \<and> pg_assignments db = [] \<and> pg_executions db = []
    \<and> pg_deliverables db = [] \<and> pg_codegens db = [] \<and> pg_reviews db = []
    \<and> (\<exists>e. PgAgent_Create jb fresh a db = Inl e)
    \<and> (\<exists>e. PgTask_Create (new_task now k req) db = Inl (Failed e))
    \<and> (\<exists>e. PgReview_Create round2 now fresh ids r db = Inl e)"
proof -
  note nw = pg_reach_no_work [OF assms]
  have "t_assignee (new_task now k req) = uuid_nil" by (simp add: new_task_def)
  then have "PgTask_Create (new_task now k req) db \<noteq> Inr db'" for db'
    using PgTask_Create_nil [OF nw, of "new_task now k req"] by auto
  then have "\<exists>e. PgTask_Create (new_task now k req) db = Inl (Failed e)"
    unfolding PgTask_Create_def by (metis as_failed_cases)
  then show ?thesis
    using nw PgAgent_Create_fails [of jb fresh a db] PgReview_Create_fails [of round2 now fresh ids r db]
    by (simp add: no_work_def)
qed

definition pg_owner :: user where
  "pg_owner = \<lparr>u_id = 7, u_email = ''a@b'', u_password_hash = ''h'', u_name = ''Ann'', u_role = RoleAdmin,
     u_teams = [], u_projects = [], u_created = 1000, u_updated = 1000\<rparr>"

definition pg_project :: project where
  "pg_project = \<lparr>pr_id = 9, pr_name = ''p'', pr_description = '''', pr_owner = 7,
     pr_status = ProjectInitializing, pr_template = '''', pr_progress = 0, pr_active_agents = 0,
     pr_created = 1000, pr_updated = 1000\<rparr>"

text \<open>A user and a project can be stored; a first task of the project cannot.\<close>

theorem pg_stores_no_work_witness:
  "\<exists>db1 db2 e. PgUser_Create pg_owner (NewStore [1, 2, 3, 4, 5, 6]) = Inr db1
     \<and> PgProject_Create pg_project db1 = Inr db2 \<and> pg_reach db2 \<and> pg_tasks db2 = []
     \<and> PgTask_Create (new_task 2000 3 \<lparr>ct_project = 9, ct_title = ''t'', ct_description = '''',
          ct_priority = PriorityHigh\<rparr>) db2 = Inl (Failed e)"
proof -
  note ev = bad_text_def too_long_def char_len_def bad_int4_def null_required_def as_failed_def
    has_key_def pg_owner_def pg_project_def
  obtain db1 where u: "PgUser_Create pg_owner (NewStore [1, 2, 3, 4, 5, 6]) = Inr db1"
      "pg_users db1 = [pg_owner]" "pg_projects db1 = []"
    by (simp add: PgUser_Create_def users_text_error_def users_schema_def NewStore_def users_row_def
        pg_time_def ev)
  obtain db2 where p: "PgProject_Create pg_project db1 = Inr db2"
    using u(2,3) by (simp add: PgProject_Create_def projects_errors_def projects_schema_def ev)
  have "pg_reach db1"
    by (rule pg_reach.step [OF pg_reach.migrated pg_step.user_create [OF _ u(1)]])
      (simp add: pg_owner_def)
  then have r: "pg_reach db2" by (rule pg_reach.step) (rule pg_step.project_create [OF p])
  from pg_stores_no_work [OF r, where now = 2000 and k = 3 and req = "\<lparr>ct_project = 9, ct_title = ''t'',
      ct_description = '''', ct_priority = PriorityHigh\<rparr>"] u(1) p r
  show ?thesis by blast
qed

section \<open>Search texts are data\<close>

text \<open>
  C37: the text of the query for a list of projects depends only on which filters are given, never
  on what they hold; every placeholder in it has its argument; and a search without wildcards
  selects the rows that the in-memory store selects.
\<close>

theorem query_text_fixed:
  assumes "(pjf_status f \<noteq> ProjectOther '''') = (pjf_status g \<noteq> ProjectOther '''')"
    and "(pjf_owner f \<noteq> uuid_nil) = (pjf_owner g \<noteq> uuid_nil)"
    and "(pjf_search f \<noteq> '''') = (pjf_search g \<noteq> '''')"
    and "lc = map low" "low CHR ''%'' = CHR ''%''"
    and "\<forall>c \<in> set (pjf_search f). low c \<notin> {CHR ''%'', CHR ''_'', CHR 0x5C}"
  shows "where_text (Project_where f) = where_text (Project_where g)
    \<and> (\<forall>c \<in> set (wc_conds (Project_where f)). \<forall>n \<in> set (placeholders c).
         1 \<le> n \<and> n \<le> length (wc_args (Project_where f)))
    \<and> filter (\<lambda>p. selects lc (Project_where f) (project_col p)) rows = filter (project_matches lc f) rows"
proof -
  have "where_text (Project_where f) = where_text (Project_where g)"
    by (rule project_where.text_by_shape) (use assms(1-3) in simp)
  moreover have "project_matches lc f = pg_project_matches lc f"
    using pg_project_matches_plain [OF assms(4-6)] by (simp add: fun_eq_iff)
  ultimately show ?thesis
    using project_where.rows_selected [of lc f rows] project_where.all_bound [of _ f] by auto
qed

definition quoted_filter :: "string \<Rightarrow> project_filter" where
  "quoted_filter s = \<lparr>pjf_status = ProjectOther '''', pjf_owner = uuid_nil, pjf_search = s, pjf_page = 1,
     pjf_limit = 20\<rparr>"

text \<open>A search text that closes a quote is searched for like any other.\<close>

theorem query_text_fixed_witness:
  "where_text (Project_where (quoted_filter [CHR 0x27, CHR '';''])) = where_text (Project_where (quoted_filter ''p''))
     \<and> filter (\<lambda>p. selects (map id) (Project_where (quoted_filter [CHR 0x27, CHR '';''])) (project_col p)) [pg_project] = []"
proof -
  have "project_matches (map id) (quoted_filter [CHR 0x27, CHR '';'']) pg_project = False"
    by (simp add: project_matches_def quoted_filter_def pg_project_def strings_contains_def)
  moreover have "\<forall>c \<in> set (pjf_search (quoted_filter [CHR 0x27, CHR '';''])). id c \<notin> {CHR ''%'', CHR ''_'', CHR 0x5C}"
    by (simp add: quoted_filter_def)
  ultimately show ?thesis
    using query_text_fixed [of "quoted_filter [CHR 0x27, CHR '';'']" "quoted_filter ''p''" "map id" id "[pg_project]"]
    by (simp add: quoted_filter_def)
qed

end
