(* ===== verification/Migrate.thy ===== *)
theory Migrate
  imports Prelude
begin

text \<open>
  Package db: the connection settings and the migration runner (src/src/db/db.go, migrate.go).
  The effect of a SQL text on the database is the argument \<open>exec\<close>: an error text or none, with
  the data that is left when the transaction around it has ended.
\<close>

section \<open>Settings (db.go)\<close>

record db_config =
  dc_host :: string
  dc_port :: string
  dc_user :: string
  dc_password :: string
  dc_name :: string
  dc_sslmode :: string
  dc_max_conns :: int
  dc_min_conns :: int
  dc_max_lifetime :: int

text \<open>\<open>env\<close> is os.Getenv: the empty text for an unset variable. Durations are in nanoseconds.\<close>

definition getEnvOrDefault :: "(string \<Rightarrow> string) \<Rightarrow> string \<Rightarrow> string \<Rightarrow> string" where
  "getEnvOrDefault env key defaultVal = (if env key \<noteq> '''' then env key else defaultVal)"

definition DefaultConfig :: "(string \<Rightarrow> string) \<Rightarrow> db_config" where
  "DefaultConfig env = \<lparr>
     dc_host = getEnvOrDefault env ''DB_HOST'' ''localhost'',
     dc_port = getEnvOrDefault env ''DB_PORT'' ''5432'',
     dc_user = getEnvOrDefault env ''DB_USER'' ''postgres'',
     dc_password = getEnvOrDefault env ''DB_PASSWORD'' ''postgres'',
     dc_name = getEnvOrDefault env ''DB_NAME'' ''ai_factory'',
     dc_sslmode = getEnvOrDefault env ''DB_SSLMODE'' ''disable'',
     dc_max_conns = 25, dc_min_conns = 5, dc_max_lifetime = 30 * 60 * 10 ^ 9\<rparr>"

definition DSN :: "db_config \<Rightarrow> string" where
  "DSN c = ''postgres://'' @ dc_user c @ '':'' @ dc_password c @ ''@'' @ dc_host c @ '':'' @ dc_port c
     @ ''/'' @ dc_name c @ ''?sslmode='' @ dc_sslmode c"

text \<open>
  Connect: what pgxpool answers to the settings, as three predicates; a pool that does not
  answer the ping is closed.
\<close>

datatype connect_result = ParseError | CreatePoolError | PingError | Connected "int \<times> int \<times> int"

definition Connect ::
  "(string \<Rightarrow> bool) \<Rightarrow> (int \<times> int \<times> int \<Rightarrow> bool) \<Rightarrow> bool \<Rightarrow> db_config \<Rightarrow> connect_result" where
  "Connect parses creates answers c =
     (let pool = (dc_max_conns c, dc_min_conns c, dc_max_lifetime c)
      in if \<not> parses (DSN c) then ParseError
         else if \<not> creates pool then CreatePoolError
         else if \<not> answers then PingError else Connected pool)"

section \<open>The runner (migrate.go)\<close>

record migration =
  mg_version :: string
  mg_name :: string
  mg_sql :: string

text \<open>An entry of the directory; the content is None when the file cannot be read.\<close>

record dir_entry =
  de_name :: string
  de_is_dir :: bool
  de_content :: "string option"

datatype migrate_error =
    ReadDirError | ReadFileError string | EnsureTableError | ApplyError string string

text \<open>The rows of schema\_migrations, newest last, and the rest of the database.\<close>

record 'd mig_db =
  md_rows :: "(string \<times> string) list"
  md_data :: 'd

text \<open>A name with the extension has four characters at least, so the version is its first three.\<close>

fun read_migrations :: "dir_entry list \<Rightarrow> migrate_error + migration list" where
  "read_migrations [] = Inr []"
| "read_migrations (e # es) =
     (if de_is_dir e \<or> \<not> has_suffix (de_name e) ''.sql'' then read_migrations es
      else case de_content e of
             None \<Rightarrow> Inl (ReadFileError (de_name e))
           | Some sql \<Rightarrow>
               map_sum id ((#) \<lparr>mg_version = take 3 (de_name e), mg_name = de_name e, mg_sql = sql\<rparr>)
                 (read_migrations es))"

definition isMigrationApplied :: "string \<Rightarrow> 'd mig_db \<Rightarrow> bool" where
  "isMigrationApplied v db \<longleftrightarrow> v \<in> fst ` set (md_rows db)"

text \<open>The text and the row of schema\_migrations go into one transaction.\<close>

definition applyMigration ::
  "(string \<Rightarrow> 'd \<Rightarrow> string option \<times> 'd) \<Rightarrow> migration \<Rightarrow> 'd mig_db \<Rightarrow> string option \<times> 'd mig_db" where
  "applyMigration exec m db =
     (case exec (mg_sql m) (md_data db) of
        (Some e, d) \<Rightarrow> (Some e, db\<lparr>md_data := d\<rparr>)
      | (None, d) \<Rightarrow>
          if 255 < length (mg_name m) then (Some ''insert schema_migrations'', db)
          else (None, \<lparr>md_rows = md_rows db @ [(mg_version m, mg_name m)], md_data = d\<rparr>))"

fun apply_all ::
  "(string \<Rightarrow> 'd \<Rightarrow> string option \<times> 'd) \<Rightarrow> migration list \<Rightarrow> 'd mig_db
   \<Rightarrow> migrate_error option \<times> 'd mig_db" where
  "apply_all exec [] db = (None, db)"
| "apply_all exec (m # ms) db =
     (if isMigrationApplied (mg_version m) db then apply_all exec ms db
      else case applyMigration exec m db of
             (Some e, db') \<Rightarrow> (Some (ApplyError (mg_version m) e), db')
           | (None, db') \<Rightarrow> apply_all exec ms db')"

definition version_before :: "migration \<Rightarrow> migration \<Rightarrow> bool" where
  "version_before a b \<longleftrightarrow> mg_version a < mg_version b"

text \<open>
  The directory is None when it cannot be read; \<open>table_ok\<close> tells whether the table of versions
  could be made. The order of files with one version is that of the entries given.
\<close>

definition RunMigrations ::
  "(string \<Rightarrow> 'd \<Rightarrow> string option \<times> 'd) \<Rightarrow> bool \<Rightarrow> dir_entry list option \<Rightarrow> 'd mig_db
   \<Rightarrow> migrate_error option \<times> 'd mig_db" where
  "RunMigrations exec table_ok dir db =
     (case dir of
        None \<Rightarrow> (Some ReadDirError, db)
      | Some entries \<Rightarrow>
          (case read_migrations entries of
             Inl e \<Rightarrow> (Some e, db)
           | Inr ms \<Rightarrow>
               if \<not> table_ok then (Some EnsureTableError, db)
               else apply_all exec (sort_slice version_before ms) db))"

section \<open>What a run does\<close>

text \<open>The specification: the first file of every version that is not recorded, in order.\<close>

fun pending :: "string set \<Rightarrow> migration list \<Rightarrow> migration list" where
  "pending V [] = []"
| "pending V (m # ms) =
     (if mg_version m \<in> V then pending V ms else m # pending (insert (mg_version m) V) ms)"

definition versions :: "'d mig_db \<Rightarrow> string set" where
  "versions db = fst ` set (md_rows db)"

lemma applied_iff: "isMigrationApplied v db \<longleftrightarrow> v \<in> versions db"
  by (simp add: isMigrationApplied_def versions_def)

lemma applyMigration_ok:
  "applyMigration exec m db = (None, db') \<longleftrightarrow>
     fst (exec (mg_sql m) (md_data db)) = None \<and> length (mg_name m) \<le> 255
     \<and> db' = \<lparr>md_rows = md_rows db @ [(mg_version m, mg_name m)], md_data = snd (exec (mg_sql m) (md_data db))\<rparr>"
  by (auto simp: applyMigration_def split: prod.splits option.splits if_splits)

lemma versions_after: "applyMigration exec m db = (None, db') \<Longrightarrow> versions db' = insert (mg_version m) (versions db)"
  by (auto simp: applyMigration_ok versions_def)

lemma apply_all_ok:
  "apply_all exec ms db = (None, db') \<Longrightarrow>
     versions db' = versions db \<union> mg_version ` set ms
     \<and> md_rows db' = md_rows db @ map (\<lambda>m. (mg_version m, mg_name m)) (pending (versions db) ms)
     \<and> md_data db' = foldl (\<lambda>d m. snd (exec (mg_sql m) d)) (md_data db) (pending (versions db) ms)"
proof (induction exec ms db rule: apply_all.induct)
  case (1 exec db)
  then show ?case by simp
next
  case (2 exec m ms db)
  show ?case
  proof (cases "mg_version m \<in> versions db")
    case True
    with 2 show ?thesis by (auto simp: applied_iff)
  next
    case False
    with "2.prems" obtain db1 where a: "applyMigration exec m db = (None, db1)"
      and r: "apply_all exec ms db1 = (None, db')"
      by (auto simp: applied_iff split: prod.splits option.splits)
    with "2.IH"(2) [OF _ a [symmetric] refl r] False versions_after [OF a] show ?thesis
      by (auto simp: applied_iff applyMigration_ok)
  qed
qed

lemma apply_all_done: "mg_version ` set ms \<subseteq> versions db \<Longrightarrow> apply_all exec ms db = (None, db)"
  by (induction ms) (auto simp: applied_iff)

text \<open>What is recorded stays recorded.\<close>

lemma apply_all_grows: "apply_all exec ms db = (r, db') \<Longrightarrow> versions db \<subseteq> versions db'"
proof (induction exec ms db rule: apply_all.induct)
  case (2 exec m ms db)
  show ?case
  proof (cases "isMigrationApplied (mg_version m) db")
    case True
    with 2 show ?thesis by simp
  next
    case False
    show ?thesis
    proof (cases "applyMigration exec m db")
      case (Pair e db1)
      show ?thesis
      proof (cases e)
        case None
        with 2 False Pair versions_after [of exec m db db1] show ?thesis by auto
      next
        case (Some x)
        have "versions db1 = versions db"
          using Pair Some
          by (auto simp: applyMigration_def versions_def split: prod.splits option.splits if_splits)
        with 2 False Pair Some show ?thesis by auto
      qed
    qed
  qed
qed simp

section \<open>Properties\<close>

text \<open>A transaction of a text without a COMMIT of its own leaves nothing behind when it fails.\<close>

definition atomic_exec :: "(string \<Rightarrow> 'd \<Rightarrow> string option \<times> 'd) \<Rightarrow> bool" where
  "atomic_exec exec \<longleftrightarrow> (\<forall>sql d e d'. exec sql d = (Some e, d') \<longrightarrow> d' = d)"

text \<open>\<open>exec'\<close> repairs \<open>exec\<close>: it does the same wherever that succeeds.\<close>

definition repairs ::
  "(string \<Rightarrow> 'd \<Rightarrow> string option \<times> 'd) \<Rightarrow> (string \<Rightarrow> 'd \<Rightarrow> string option \<times> 'd) \<Rightarrow> bool" where
  "repairs exec' exec \<longleftrightarrow> (\<forall>sql d d'. exec sql d = (None, d') \<longrightarrow> exec' sql d = (None, d'))"

lemma applyMigration_repaired:
  assumes "repairs exec' exec" "applyMigration exec m db = (None, db1)"
  shows "applyMigration exec' m db = (None, db1)"
  using assms by (cases "exec (mg_sql m) (md_data db)") (auto simp: applyMigration_ok repairs_def)

lemma applyMigration_failed:
  assumes "atomic_exec exec" "applyMigration exec m db = (Some e, db1)"
  shows "db1 = db"
  using assms
  by (cases "exec (mg_sql m) (md_data db)")
    (auto simp: applyMigration_def atomic_exec_def split: option.splits if_splits)

lemma apply_all_resume:
  assumes "atomic_exec exec" "repairs exec' exec"
  shows "apply_all exec ms db = (Some e, db1) \<Longrightarrow> apply_all exec' ms db1 = apply_all exec' ms db"
proof (induction ms arbitrary: db)
  case Nil
  then show ?case by simp
next
  case (Cons m ms)
  show ?case
  proof (cases "mg_version m \<in> versions db")
    case True
    with Cons.prems have r: "apply_all exec ms db = (Some e, db1)" by (simp add: applied_iff)
    have "mg_version m \<in> versions db1" using True apply_all_grows [OF r] by blast
    with True Cons.IH [OF r] show ?thesis by (simp add: applied_iff)
  next
    case False
    show ?thesis
    proof (cases "applyMigration exec m db")
      case (Pair x db2)
      show ?thesis
      proof (cases x)
        case None
        note a = Pair [unfolded None]
        from Cons.prems False a have r: "apply_all exec ms db2 = (Some e, db1)"
          by (simp add: applied_iff)
        have "mg_version m \<in> versions db1"
          using versions_after [OF a] apply_all_grows [OF r] by blast
        with False Cons.IH [OF r] applyMigration_repaired [OF assms(2) a] show ?thesis
          by (simp add: applied_iff)
      next
        case (Some y)
        from Cons.prems False Pair Some have "db1 = db2" by (simp add: applied_iff)
        with applyMigration_failed [OF assms(1) Pair [unfolded Some]] show ?thesis by simp
      qed
    qed
  qed
qed

text \<open>
  C38: a migration run that ends without an error has applied the first file of every version not
  recorded before, in the order of the versions and each once, and recorded exactly these; a
  second run over the same files applies nothing. A run that fails leaves, as long as failed
  transactions leave nothing behind, a database from which a run with the cause repaired
  comes to the result of a run without the failure.
\<close>

theorem migrations_once:
  assumes "read_migrations entries = Inr ms"
  defines "S \<equiv> sort_slice version_before ms"
  shows "(\<forall>db'. RunMigrations exec True (Some entries) db = (None, db') \<longrightarrow>
        md_rows db' = md_rows db @ map (\<lambda>m. (mg_version m, mg_name m)) (pending (versions db) S)
        \<and> md_data db' = foldl (\<lambda>d m. snd (exec (mg_sql m) d)) (md_data db) (pending (versions db) S)
        \<and> RunMigrations exec' True (Some entries) db' = (None, db'))
    \<and> (\<forall>e db1. RunMigrations exec True (Some entries) db = (Some e, db1)
          \<and> atomic_exec exec \<and> repairs exec' exec \<longrightarrow>
        RunMigrations exec' True (Some entries) db1 = RunMigrations exec' True (Some entries) db)"
proof -
  have run: "RunMigrations ex True (Some entries) d = apply_all ex S d" for ex d
    by (simp add: RunMigrations_def assms(1) S_def)
  have ok: "md_rows db' = md_rows db @ map (\<lambda>m. (mg_version m, mg_name m)) (pending (versions db) S)
      \<and> md_data db' = foldl (\<lambda>d m. snd (exec (mg_sql m) d)) (md_data db) (pending (versions db) S)
      \<and> apply_all exec' S db' = (None, db')" if "apply_all exec S db = (None, db')" for db'
    using apply_all_ok [OF that] apply_all_done [of S db' exec'] by simp
  have resume: "apply_all exec' S db1 = apply_all exec' S db"
    if "apply_all exec S db = (Some e, db1) \<and> atomic_exec exec \<and> repairs exec' exec" for e db1
    using that by (intro apply_all_resume) auto
  show ?thesis
    unfolding run by (intro conjI allI impI) (use ok in blast, use ok in blast, use ok in blast, erule resume)
qed

text \<open>Three files, one of them a duplicate version, and a text that fails at first.\<close>

definition sample_entries :: "dir_entry list" where
  "sample_entries =
     [\<lparr>de_name = ''001_a.sql'', de_is_dir = False, de_content = Some ''A''\<rparr>,
      \<lparr>de_name = ''001_b.sql'', de_is_dir = False, de_content = Some ''B''\<rparr>,
      \<lparr>de_name = ''002_c.sql'', de_is_dir = False, de_content = Some ''C''\<rparr>]"

definition run_text :: "string list \<Rightarrow> string \<Rightarrow> string list \<Rightarrow> string option \<times> string list" where
  "run_text bad sql d = (if sql \<in> set bad then (Some ''syntax'', d) else (None, d @ [sql]))"

theorem migrations_once_witness:
  "RunMigrations (run_text [''C'']) True (Some sample_entries) \<lparr>md_rows = [], md_data = []\<rparr>
     = (Some (ApplyError ''002'' ''syntax''), \<lparr>md_rows = [(''001'', ''001_a.sql'')], md_data = [''A'']\<rparr>)
   \<and> RunMigrations (run_text []) True (Some sample_entries)
       \<lparr>md_rows = [(''001'', ''001_a.sql'')], md_data = [''A'']\<rparr>
     = RunMigrations (run_text []) True (Some sample_entries) \<lparr>md_rows = [], md_data = []\<rparr>"
proof -
  have read: "read_migrations sample_entries = Inr
      [\<lparr>mg_version = ''001'', mg_name = ''001_a.sql'', mg_sql = ''A''\<rparr>,
       \<lparr>mg_version = ''001'', mg_name = ''001_b.sql'', mg_sql = ''B''\<rparr>,
       \<lparr>mg_version = ''002'', mg_name = ''002_c.sql'', mg_sql = ''C''\<rparr>]"
    by (simp add: sample_entries_def has_suffix_def)
  have run: "RunMigrations (run_text [''C'']) True (Some sample_entries) \<lparr>md_rows = [], md_data = []\<rparr>
     = (Some (ApplyError ''002'' ''syntax''), \<lparr>md_rows = [(''001'', ''001_a.sql'')], md_data = [''A'']\<rparr>)"
    by (simp add: RunMigrations_def read version_before_def isMigrationApplied_def applyMigration_def
        run_text_def)
  have "atomic_exec (run_text [''C''])" "repairs (run_text []) (run_text [''C''])"
    by (auto simp: atomic_exec_def repairs_def run_text_def)
  with migrations_once [OF read, of "run_text [''C'']" "\<lparr>md_rows = [], md_data = []\<rparr>" "run_text []"] run
  show ?thesis by blast
qed

end
