(* ===== verification/Process_Runs.thy ===== *)
theory Process_Runs
  imports Aion_Runs
begin

text \<open>
  ProcessRuntime (aion/process.go), the runtime that production uses: its operations, and its runs
  with the child processes, their output and the contexts they are started under. The operating
  system is a set of steps: a live child writes lines and exits when it likes; it is killed by
  Cancel, by Close, and, some time after its context has ended, by exec.CommandContext. The contract that this
  runtime shares with the scripted one is the locale \<open>worker_runtime\<close>.
\<close>

section \<open>The contract of a runtime (aion/runtime.go)\<close>

locale worker_runtime =
  fixes refused :: "aion_error \<Rightarrow> 'e"
    and is_closed :: "'s \<Rightarrow> bool"
    and slot :: "'s \<Rightarrow> worker_handle \<Rightarrow> worker_result option"
    and spawn :: "'o \<Rightarrow> worker_spec \<Rightarrow> 's \<Rightarrow> ('e + worker_handle) \<times> 's"
    and take_res :: "worker_handle \<Rightarrow> 's \<Rightarrow> (worker_result \<times> 's) option"
    and shut :: "'s \<Rightarrow> 's"
  assumes spawn_closed: "is_closed s \<Longrightarrow> spawn o1 spec s = (Inl (refused ErrRuntimeClosed), s)"
    and spawn_invalid: "\<not> is_closed s \<Longrightarrow> spec_Validate spec = Inl e \<Longrightarrow>
          spawn o1 spec s = (Inl (refused e), s)"
    and spawn_slot: "spawn o1 spec s = (Inr h, s') \<Longrightarrow> slot s' = (slot s)(h := None)"
    and take_empty: "slot s h = None \<Longrightarrow> take_res h s = None"
    and take_ready: "slot s h = Some r \<Longrightarrow> \<exists>s'. take_res h s = Some (r, s')"
    and take_empties: "take_res h s = Some (r, s') \<Longrightarrow> slot s' = (slot s)(h := None)"
    and shut_closed: "is_closed (shut s)"
    and shut_twice: "is_closed s \<Longrightarrow> shut s = s"
begin

lemma taken_once: "take_res h s = Some (r, s') \<Longrightarrow> take_res h s' = None"
  using take_empties [of h s r s'] take_empty [of s' h] by simp

lemma spawned_no_result: "spawn o1 spec s = (Inr h, s') \<Longrightarrow> take_res h s' = None"
  using spawn_slot [of o1 spec s h s'] take_empty [of s' h] by simp

lemma taken_is_slot: "take_res h s = Some (r, s') \<Longrightarrow> slot s h = Some r"
  using take_empty [of s h] take_ready [of s h] by (cases "slot s h") auto

lemma shut_refuses: "spawn o1 spec (shut s) = (Inl (refused ErrRuntimeClosed), shut s)"
  by (simp add: shut_closed spawn_closed)

lemma shut_idem: "shut (shut s) = shut s"
  by (simp add: shut_closed shut_twice)

lemma spawn_success: "spawn o1 spec s = (Inr h, s') \<Longrightarrow> \<not> is_closed s \<and> spec_Validate spec = Inr ()"
  using spawn_closed [of s o1 spec] spawn_invalid [of s spec _ o1]
  by (cases "spec_Validate spec") auto

end

definition mock_slot :: "mock_runtime \<Rightarrow> worker_handle \<Rightarrow> worker_result option" where
  "mock_slot r h = Option.bind (mk_workers r h) mw_result"

interpretation mock_rt: worker_runtime id mk_closed mock_slot mock_Spawn take_result mock_Close
proof unfold_locales
  fix ustr spec s h s'
  assume "mock_Spawn ustr spec s = (Inr h, s')"
  then show "mock_slot s' = (mock_slot s)(h := None)"
    by (auto simp: mock_Spawn_def mock_slot_def Let_def fun_eq_iff split: if_splits sum.splits)
qed (auto simp: mock_Spawn_def take_result_def mock_Close_def mock_slot_def fun_eq_iff
    bind_eq_Some_conv split: option.splits)

section \<open>The state and the operations (aion/process.go)\<close>

text \<open>\<open>pw_reaping\<close> says that a Wait has started the goroutine that calls cmd.Wait.\<close>

record proc_worker =
  pw_spec :: worker_spec
  pw_ctx :: nat
  pw_alive :: bool
  pw_out :: "string list"
  pw_reaping :: bool
  pw_done :: bool
  pw_result :: "worker_result option"

record proc_runtime =
  pk_cfg :: process_config
  pk_workers :: "worker_handle \<rightharpoonup> proc_worker"
  pk_closed :: bool

definition NewProcessRuntime :: "process_config \<Rightarrow> proc_runtime" where
  "NewProcessRuntime cfg = \<lparr>pk_cfg = config_defaults cfg, pk_workers = Map.empty, pk_closed = False\<rparr>"

text \<open>exec.LookPath is the argument \<open>look\<close>.\<close>

definition proc_Available :: "(string \<Rightarrow> string option) \<Rightarrow> proc_runtime \<Rightarrow> string \<times> bool" where
  "proc_Available look r = (case look (pc_binary (pk_cfg r)) of None \<Rightarrow> ('''', False) | Some p \<Rightarrow> (p, True))"

datatype process_error =
  Contract aion_error | PipeFailed | BinaryNotOnPath string | StartFailed | KillFailed

text \<open>
  What the operating system answers to a start, and to a kill. A start needs the ids of the
  specification as text (\<open>ustr\<close>).
\<close>

datatype start_answer = NoPipe | NotFound | NotStarted | Started int
datatype kill_answer = Killed | AlreadyDone | CannotKill

definition proc_Spawn ::
  "(uuid \<Rightarrow> string) \<times> (string \<Rightarrow> string list \<Rightarrow> start_answer) \<times> nat \<Rightarrow> worker_spec \<Rightarrow> proc_runtime
   \<Rightarrow> (process_error + worker_handle) \<times> proc_runtime" where
  "proc_Spawn env spec r =
     (let (ustr, start, ctx) = env
      in if pk_closed r then (Inl (Contract ErrRuntimeClosed), r)
         else case spec_Validate spec of
                Inl e \<Rightarrow> (Inl (Contract e), r)
              | Inr _ \<Rightarrow>
                  (case start (pc_binary (pk_cfg r)) (spawn_args ustr (pk_cfg r) spec) of
                     NoPipe \<Rightarrow> (Inl PipeFailed, r)
                   | NotFound \<Rightarrow> (Inl (BinaryNotOnPath (pc_binary (pk_cfg r))), r)
                   | NotStarted \<Rightarrow> (Inl StartFailed, r)
                   | Started pid \<Rightarrow>
                       let handle = ''proc-'' @ intToString pid @ ''-'' @ ustr (ws_execution spec);
                           w = \<lparr>pw_spec = spec, pw_ctx = ctx, pw_alive = True, pw_out = [],
                                pw_reaping = False, pw_done = False, pw_result = None\<rparr>
                       in (Inr handle, r\<lparr>pk_workers := (pk_workers r)(handle \<mapsto> w)\<rparr>)))"

text \<open>
  The end of the goroutine that reads the output: it has seen \<open>seen\<close> lines. It ends at a line that
  does not fit the buffer, or at the end of the output, which comes when the child has exited.
  cmd.Wait closes the pipe then, whatever is still unread; without a Wait the reader sees all.
\<close>

definition proc_pump ::
  "(string \<Rightarrow> message option) \<Rightarrow> nat \<Rightarrow> go_time \<Rightarrow> worker_handle \<Rightarrow> proc_runtime \<Rightarrow> proc_worker
   \<Rightarrow> proc_worker option" where
  "proc_pump parse seen now handle r w =
     (if (\<forall>l \<in> set (take seen (pw_out w)). int (length l) < pc_stdout_buffer (pk_cfg r))
         \<and> (pw_alive w \<or> (\<not> pw_reaping w \<and> seen < length (pw_out w))) then None
      else let res = pumpStdout parse (pc_stdout_buffer (pk_cfg r)) now handle (pw_spec w)
                       (take seen (pw_out w))
           in Some (if pw_done w then w else w\<lparr>pw_done := True, pw_result := Some res\<rparr>))"

definition proc_Wait_enter ::
  "worker_handle \<Rightarrow> proc_runtime \<Rightarrow> aion_error + proc_runtime" where
  "proc_Wait_enter handle r =
     (if pk_closed r then Inl ErrRuntimeClosed
      else case pk_workers r handle of
             None \<Rightarrow> Inl ErrWorkerNotFound
           | Some w \<Rightarrow> Inr (r\<lparr>pk_workers := (pk_workers r)(handle \<mapsto> w\<lparr>pw_reaping := True\<rparr>)\<rparr>))"

definition proc_take ::
  "worker_handle \<Rightarrow> proc_runtime \<Rightarrow> (worker_result \<times> proc_runtime) option" where
  "proc_take handle r =
     (case pk_workers r handle of
        None \<Rightarrow> None
      | Some w \<Rightarrow>
          (case pw_result w of
             None \<Rightarrow> None
           | Some res \<Rightarrow>
               Some (res, r\<lparr>pk_workers := (pk_workers r)(handle \<mapsto> w\<lparr>pw_result := None\<rparr>)\<rparr>)))"

text \<open>The return of the select; the context ends with the caller's or after WaitTimeout.\<close>

definition proc_Wait_select ::
  "wait_event \<Rightarrow> worker_handle \<Rightarrow> proc_runtime
   \<Rightarrow> ((aion_error + worker_result) \<times> proc_runtime) option" where
  "proc_Wait_select e handle r =
     (case e of
        ResultReady \<Rightarrow> map_option (\<lambda>(res, r'). (Inr res, r')) (proc_take handle r)
      | ContextDone \<Rightarrow> Some (Inl ErrWorkerTimeout, r)
      | RuntimeClosed \<Rightarrow>
          if pk_closed r
          then Some (case proc_take handle r of
                       Some (res, r') \<Rightarrow> (Inr res, r') | None \<Rightarrow> (Inl ErrRuntimeClosed, r))
          else None)"

definition kill_worker :: "proc_worker \<Rightarrow> proc_worker" where
  "kill_worker w = w\<lparr>pw_alive := False\<rparr>"

definition proc_Cancel ::
  "kill_answer \<Rightarrow> worker_handle \<Rightarrow> proc_runtime \<Rightarrow> (process_error + unit) \<times> proc_runtime" where
  "proc_Cancel ans handle r =
     (case pk_workers r handle of
        None \<Rightarrow> (Inl (Contract ErrWorkerNotFound), r)
      | Some w \<Rightarrow>
          (case ans of
             CannotKill \<Rightarrow> (Inl KillFailed, r)
           | AlreadyDone \<Rightarrow> (Inr (), r)
           | Killed \<Rightarrow> (Inr (), r\<lparr>pk_workers := (pk_workers r)(handle \<mapsto> kill_worker w)\<rparr>)))"

text \<open>\<open>killed\<close> are the handles whose process could be killed.\<close>

definition proc_Close :: "(worker_handle \<Rightarrow> bool) \<Rightarrow> proc_runtime \<Rightarrow> proc_runtime" where
  "proc_Close killed r =
     (if pk_closed r then r
      else r\<lparr>pk_closed := True,
             pk_workers := (\<lambda>h. map_option (\<lambda>w. if killed h then kill_worker w else w) (pk_workers r h))\<rparr>)"

definition proc_ActiveWorkers :: "proc_runtime \<Rightarrow> nat" where
  "proc_ActiveWorkers r = card (dom (pk_workers r))"

definition proc_Forget :: "worker_handle \<Rightarrow> proc_runtime \<Rightarrow> proc_runtime" where
  "proc_Forget handle r = r\<lparr>pk_workers := (pk_workers r)(handle := None)\<rparr>"

definition proc_slot :: "proc_runtime \<Rightarrow> worker_handle \<Rightarrow> worker_result option" where
  "proc_slot r h = Option.bind (pk_workers r h) pw_result"

interpretation proc_rt: worker_runtime Contract pk_closed proc_slot proc_Spawn proc_take "proc_Close killed"
  for killed
proof unfold_locales
  fix env spec s h s'
  assume "proc_Spawn env spec s = (Inr h, s')"
  then show "proc_slot s' = (proc_slot s)(h := None)"
    by (auto simp: proc_Spawn_def proc_slot_def Let_def fun_eq_iff
        split: if_splits sum.splits prod.splits start_answer.splits)
qed (auto simp: proc_Spawn_def proc_take_def proc_Close_def proc_slot_def fun_eq_iff
    bind_eq_Some_conv split: option.splits)

section \<open>Runs\<close>

text \<open>
  The runtime, the contexts that have ended, the handles given out, and the results that Wait
  has returned, newest first. Handles are not reused: they hold the id of the process and of the
  execution.
\<close>

record proc_run =
  xr_runtime :: proc_runtime
  xr_ended :: "nat set"
  xr_issued :: "worker_handle set"
  xr_delivered :: "(worker_handle \<times> worker_result) list"

definition put_worker :: "worker_handle \<Rightarrow> proc_worker \<Rightarrow> proc_run \<Rightarrow> proc_run" where
  "put_worker h w s = s\<lparr>xr_runtime := (xr_runtime s)\<lparr>pk_workers := (pk_workers (xr_runtime s))(h \<mapsto> w)\<rparr>\<rparr>"

abbreviation worker_of :: "proc_run \<Rightarrow> worker_handle \<Rightarrow> proc_worker option" where
  "worker_of s \<equiv> pk_workers (xr_runtime s)"

definition proc_start :: "process_config \<Rightarrow> proc_run" where
  "proc_start cfg = \<lparr>xr_runtime = NewProcessRuntime cfg, xr_ended = {}, xr_issued = {}, xr_delivered = []\<rparr>"

text \<open>
  The end of a context. A goroutine of exec.CommandContext kills the child that was started under
  it, at some later point (the step \<open>killed\<close> below).
\<close>

definition end_context :: "nat \<Rightarrow> proc_run \<Rightarrow> proc_run" where
  "end_context c s = s\<lparr>xr_ended := insert c (xr_ended s)\<rparr>"

text \<open>
  Spawn reads the flag of Close, starts the child and puts it into the map. When it comes to that,
  the runtime may have been closed, and the child may have written lines, have exited or have been
  killed with its context.
\<close>

definition entered :: "bool \<Rightarrow> string list \<Rightarrow> worker_handle \<Rightarrow> proc_runtime \<Rightarrow> proc_run \<Rightarrow> proc_run" where
  "entered alive out h r s = s\<lparr>xr_issued := insert h (xr_issued s),
     xr_runtime := (xr_runtime s)\<lparr>pk_workers := (pk_workers r)(h :=
       map_option (\<lambda>w. w\<lparr>pw_alive := alive, pw_out := out\<rparr>) (pk_workers r h))\<rparr>\<rparr>"

text \<open>
  The steps of the children and of the goroutines beside them: the child itself writes and exits,
  the goroutine of exec.CommandContext kills it when its context has ended, the reader ends.
\<close>

datatype child_actor = ByChild | ByContext | ByReader

inductive child_step :: "(string \<Rightarrow> message option) \<Rightarrow> child_actor \<Rightarrow> proc_run \<Rightarrow> proc_run \<Rightarrow> bool" for parse where
  prints: "worker_of s h = Some w \<Longrightarrow> pw_alive w
    \<Longrightarrow> child_step parse ByChild s (put_worker h (w\<lparr>pw_out := pw_out w @ [l]\<rparr>) s)"
| exit: "worker_of s h = Some w \<Longrightarrow> child_step parse ByChild s (put_worker h (kill_worker w) s)"
| killed: "worker_of s h = Some w \<Longrightarrow> pw_ctx w \<in> xr_ended s
    \<Longrightarrow> child_step parse ByContext s (put_worker h (kill_worker w) s)"
| pump: "worker_of s h = Some w \<Longrightarrow> proc_pump parse seen now h (xr_runtime s) w = Some w'
    \<Longrightarrow> child_step parse ByReader s (put_worker h w' s)"

inductive proc_step :: "(string \<Rightarrow> message option) \<Rightarrow> proc_run \<Rightarrow> proc_run \<Rightarrow> bool" for parse where
  spawn: "proc_Spawn (ustr, start, c) spec ((xr_runtime s)\<lparr>pk_closed := False\<rparr>) = (Inr h, r)
    \<Longrightarrow> h \<notin> xr_issued s \<Longrightarrow> proc_step parse s (entered alive out h r s)"
| child: "child_step parse a s s' \<Longrightarrow> proc_step parse s s'"
| context_end: "proc_step parse s (end_context c s)"
| wait: "proc_Wait_enter h (xr_runtime s) = Inr r \<Longrightarrow> proc_step parse s (s\<lparr>xr_runtime := r\<rparr>)"
| deliver: "proc_Wait_select e h (xr_runtime s) = Some (Inr res, r)
    \<Longrightarrow> proc_step parse s (s\<lparr>xr_runtime := r, xr_delivered := (h, res) # xr_delivered s\<rparr>)"
| cancel: "proc_Cancel ans h (xr_runtime s) = (Inr (), r) \<Longrightarrow> proc_step parse s (s\<lparr>xr_runtime := r\<rparr>)"
| shut: "proc_step parse s (s\<lparr>xr_runtime := proc_Close killed (xr_runtime s)\<rparr>)"
| forget: "proc_step parse s (s\<lparr>xr_runtime := proc_Forget h (xr_runtime s)\<rparr>)"

inductive proc_steps :: "(string \<Rightarrow> message option) \<Rightarrow> proc_run \<Rightarrow> proc_run \<Rightarrow> bool" for parse where
  none: "proc_steps parse s s"
| more: "proc_steps parse s s' \<Longrightarrow> proc_step parse s' s'' \<Longrightarrow> proc_steps parse s s''"

section \<open>The invariant\<close>

definition worker_inv :: "proc_worker \<Rightarrow> bool" where
  "worker_inv w \<longleftrightarrow> (\<not> pw_done w \<longrightarrow> pw_result w = None)"

definition proc_inv :: "proc_run \<Rightarrow> bool" where
  "proc_inv s \<longleftrightarrow>
     (\<forall>h w. worker_of s h = Some w \<longrightarrow> h \<in> xr_issued s \<and> worker_inv w
        \<and> (h \<in> fst ` set (xr_delivered s) \<longrightarrow> pw_done w \<and> pw_result w = None))
     \<and> fst ` set (xr_delivered s) \<subseteq> xr_issued s \<and> distinct (map fst (xr_delivered s))"

lemma proc_invD:
  assumes "proc_inv s" "worker_of s h = Some w"
  shows "h \<in> xr_issued s" "worker_inv w"
    "h \<in> fst ` set (xr_delivered s) \<Longrightarrow> pw_done w \<and> pw_result w = None"
  using assms by (auto simp: proc_inv_def)

lemma proc_inv_start: "proc_inv (proc_start cfg)"
  by (simp add: proc_inv_def proc_start_def NewProcessRuntime_def)

text \<open>A change of one worker that keeps its flag set and its slot empty once the result is out.\<close>

lemma proc_inv_put:
  assumes inv: "proc_inv s" and w: "worker_of s h = Some w" and ok: "worker_inv w'"
    and keep: "pw_done w \<and> pw_result w = None \<Longrightarrow> pw_done w' \<and> pw_result w' = None"
  shows "proc_inv (put_worker h w' s)"
  using proc_invD [OF inv w] inv ok keep by (auto simp: proc_inv_def put_worker_def)

lemma proc_inv_map:
  assumes inv: "proc_inv s" and ws: "\<And>h. worker_of s' h = map_option (f h) (worker_of s h)"
    and same: "xr_issued s' = xr_issued s" "xr_delivered s' = xr_delivered s"
    and f: "\<And>h w. worker_of s h = Some w \<Longrightarrow> worker_inv (f h w)
       \<and> pw_done (f h w) = pw_done w \<and> pw_result (f h w) = pw_result w"
  shows "proc_inv s'"
  unfolding proc_inv_def same
proof (intro conjI allI impI)
  fix h w'
  assume "worker_of s' h = Some w'"
  then obtain w where w: "worker_of s h = Some w" "w' = f h w" by (auto simp: ws)
  from proc_invD [OF inv w(1)] f [OF w(1)] w(2)
  show "h \<in> xr_issued s" "worker_inv w'"
    "h \<in> fst ` set (xr_delivered s) \<Longrightarrow> pw_done w'" "h \<in> fst ` set (xr_delivered s) \<Longrightarrow> pw_result w' = None"
    by auto
qed (use inv in \<open>auto simp: proc_inv_def\<close>)

text \<open>What a successful return of Wait has done: the slot held the result and is empty.\<close>

lemma proc_select_result:
  assumes "proc_Wait_select e h r = Some (Inr res, r')"
  obtains w where "pk_workers r h = Some w" "pw_result w = Some res"
    "r' = r\<lparr>pk_workers := (pk_workers r)(h \<mapsto> w\<lparr>pw_result := None\<rparr>)\<rparr>"
proof -
  have "proc_take h r = Some (res, r')"
    using assms by (auto simp: proc_Wait_select_def split: wait_event.splits if_splits option.splits)
  then show ?thesis using that by (auto simp: proc_take_def split: option.splits)
qed

lemma proc_Spawn_entered:
  assumes "proc_Spawn (ustr, start, c) spec ((xr_runtime s)\<lparr>pk_closed := b\<rparr>) = (Inr h, r)"
  obtains w where "entered alive out h r s = (put_worker h w s)\<lparr>xr_issued := insert h (xr_issued s)\<rparr>"
    "pw_ctx w = c" "pw_alive w = alive" "pw_done w = False" "pw_result w = None"
proof
  show "entered alive out h r s = (put_worker h \<lparr>pw_spec = spec, pw_ctx = c, pw_alive = alive,
      pw_out = out, pw_reaping = False, pw_done = False, pw_result = None\<rparr> s)\<lparr>xr_issued := insert h (xr_issued s)\<rparr>"
    using assms by (auto simp: proc_Spawn_def Let_def entered_def put_worker_def
        split: if_splits sum.splits start_answer.splits)
qed simp_all

lemma proc_inv_child: "child_step parse a s s' \<Longrightarrow> proc_inv s \<Longrightarrow> proc_inv s'"
proof (induction rule: child_step.induct)
  case (pump s h w seen now w')
  from proc_invD(2) [OF pump(3,1)] pump(2) show ?case
    by (intro proc_inv_put [OF pump(3,1)])
      (auto simp: worker_inv_def proc_pump_def Let_def split: if_splits)
qed (auto intro!: proc_inv_put dest: proc_invD(2) simp: worker_inv_def kill_worker_def)

lemma proc_inv_step: "proc_step parse s s' \<Longrightarrow> proc_inv s \<Longrightarrow> proc_inv s'"
proof (induction rule: proc_step.induct)
  case (spawn ustr start c spec s h r alive out)
  obtain w where "entered alive out h r s = (put_worker h w s)\<lparr>xr_issued := insert h (xr_issued s)\<rparr>"
      "pw_ctx w = c" "pw_alive w = alive" "pw_result w = None"
    by (rule proc_Spawn_entered [OF spawn(1)]) blast
  with spawn(2,3) show ?case by (auto simp: proc_inv_def worker_inv_def put_worker_def)
next
  case (child a s s')
  then show ?case by (simp add: proc_inv_child)
next
  case (context_end s c)
  then show ?case by (simp add: proc_inv_def end_context_def)
next
  case (wait h s r)
  then obtain w where w: "worker_of s h = Some w"
      "r = (xr_runtime s)\<lparr>pk_workers := (worker_of s)(h \<mapsto> w\<lparr>pw_reaping := True\<rparr>)\<rparr>"
    by (auto simp: proc_Wait_enter_def split: if_splits option.splits)
  then have "s\<lparr>xr_runtime := r\<rparr> = put_worker h (w\<lparr>pw_reaping := True\<rparr>) s" by (simp add: put_worker_def)
  with proc_inv_put [OF wait(2) w(1)] proc_invD(2) [OF wait(2) w(1)] show ?case
    by (simp add: worker_inv_def)
next
  case (deliver e h s res r)
  from deliver(1) obtain w where w: "worker_of s h = Some w" "pw_result w = Some res"
      "r = (xr_runtime s)\<lparr>pk_workers := (worker_of s)(h \<mapsto> w\<lparr>pw_result := None\<rparr>)\<rparr>"
    by (rule proc_select_result) blast
  from proc_invD [OF deliver(2) w(1)] w(2) have "h \<notin> fst ` set (xr_delivered s)" "pw_done w"
    by (auto simp: worker_inv_def)
  with proc_invD [OF deliver(2) w(1)] deliver(2) w show ?case
    by (auto simp: proc_inv_def worker_inv_def)
next
  case (cancel ans h s r)
  then obtain w where w: "worker_of s h = Some w"
    by (auto simp: proc_Cancel_def split: option.splits)
  from cancel(1) w have "r = xr_runtime s \<or> s\<lparr>xr_runtime := r\<rparr> = put_worker h (kill_worker w) s"
    by (auto simp: proc_Cancel_def put_worker_def split: kill_answer.splits)
  with proc_inv_put [OF cancel(2) w] proc_invD(2) [OF cancel(2) w] cancel(2) show ?case
    by (auto simp: worker_inv_def kill_worker_def)
next
  case (shut s killed)
  show ?case
    by (rule proc_inv_map [OF shut, where
          f = "\<lambda>h w. if \<not> pk_closed (xr_runtime s) \<and> killed h then kill_worker w else w"])
      (use proc_invD(2) [OF shut] in
        \<open>auto simp: proc_Close_def worker_inv_def kill_worker_def option.map_ident\<close>)
next
  case (forget s h)
  then show ?case by (auto simp: proc_inv_def proc_Forget_def)
qed

lemma proc_inv_steps: "proc_steps parse s s' \<Longrightarrow> proc_inv s \<Longrightarrow> proc_inv s'"
  by (induction rule: proc_steps.induct) (auto intro: proc_inv_step)

section \<open>A dead process\<close>

text \<open>No line of the output is a result frame.\<close>

definition no_result_line :: "(string \<Rightarrow> message option) \<Rightarrow> string list \<Rightarrow> bool" where
  "no_result_line parse out \<longleftrightarrow>
     (\<forall>l \<in> set out. \<forall>msg. parse (drop_cr l) = Some msg \<longrightarrow> msg_type msg \<noteq> ''result'')"

lemma last_frame_from: "last_frame parse ls acc = Some m \<Longrightarrow> acc = Some m \<or> (\<exists>l \<in> set ls. parse l = Some m)"
  by (induction ls arbitrary: acc) (auto split: if_splits option.splits)

lemma pump_not_completed:
  assumes "no_result_line parse out"
  shows "wr_status (pumpStdout parse b now h spec (take n out)) \<noteq> WorkerCompleted"
proof -
  have "msg_type m \<noteq> ''result''" if m: "last_frame parse (scan_lines b (take n out)) None = Some m" for m
  proof -
    obtain l where "l \<in> set (takeWhile (\<lambda>l. int (length l) < b) (take n out))" "parse (drop_cr l) = Some m"
      using last_frame_from [OF m] by (auto simp: scan_lines_def)
    then show ?thesis using assms by (auto simp: no_result_line_def dest!: set_takeWhileD in_set_takeD)
  qed
  then show ?thesis
    by (auto simp: pumpStdout_def frame_result_def Let_def split: option.split)
qed

definition cannot_complete :: "(string \<Rightarrow> message option) \<Rightarrow> worker_handle \<Rightarrow> proc_run \<Rightarrow> bool" where
  "cannot_complete parse h s \<longleftrightarrow> h \<in> xr_issued s
     \<and> (\<forall>w. worker_of s h = Some w \<longrightarrow> \<not> pw_alive w \<and> no_result_line parse (pw_out w)
          \<and> (\<forall>r. pw_result w = Some r \<longrightarrow> wr_status r \<noteq> WorkerCompleted))
     \<and> (\<forall>r. (h, r) \<in> set (xr_delivered s) \<longrightarrow> wr_status r \<noteq> WorkerCompleted)"

lemma cannot_complete_child:
  "child_step parse a s s' \<Longrightarrow> cannot_complete parse h s \<Longrightarrow> cannot_complete parse h s'"
proof (induction rule: child_step.induct)
  case (pump s k w seen now w')
  then show ?case
    using pump_not_completed pump_not_completed [of parse "pw_out w" _ _ _ _ "length (pw_out w)", simplified]
    by (auto simp: cannot_complete_def put_worker_def proc_pump_def Let_def split: if_splits)
qed (auto simp: cannot_complete_def put_worker_def kill_worker_def split: if_splits)

lemma cannot_complete_step:
  "proc_step parse s s' \<Longrightarrow> cannot_complete parse h s \<Longrightarrow> cannot_complete parse h s'"
proof (induction rule: proc_step.induct)
  case (spawn ustr start c spec s k r alive out)
  then have "k \<noteq> h" by (auto simp: cannot_complete_def)
  moreover obtain w where
    "entered alive out k r s = (put_worker k w s)\<lparr>xr_issued := insert k (xr_issued s)\<rparr>"
    by (rule proc_Spawn_entered [OF spawn(1)]) blast
  ultimately show ?case using spawn(3) by (auto simp: cannot_complete_def put_worker_def)
next
  case (child a s s')
  then show ?case by (simp add: cannot_complete_child)
next
  case (wait k s r)
  then show ?case
    by (auto simp: cannot_complete_def proc_Wait_enter_def split: if_splits option.splits)
next
  case (deliver e k s res r)
  from deliver(1) obtain w where "worker_of s k = Some w" "pw_result w = Some res"
      "r = (xr_runtime s)\<lparr>pk_workers := (worker_of s)(k \<mapsto> w\<lparr>pw_result := None\<rparr>)\<rparr>"
    by (rule proc_select_result) blast
  with deliver(2) show ?case by (auto simp: cannot_complete_def)
next
  case (cancel ans k s r)
  then show ?case
    by (auto simp: cannot_complete_def proc_Cancel_def kill_worker_def
        split: option.splits kill_answer.splits if_splits)
qed (auto simp: cannot_complete_def put_worker_def kill_worker_def end_context_def proc_Close_def
    proc_Forget_def split: if_splits)

lemma cannot_complete_steps:
  "proc_steps parse s s' \<Longrightarrow> cannot_complete parse h s \<Longrightarrow> cannot_complete parse h s'"
  by (induction rule: proc_steps.induct) (auto intro: cannot_complete_step)

text \<open>A process that has ended stays so, and its context stays what it was.\<close>

definition dead :: "worker_handle \<Rightarrow> proc_run \<Rightarrow> bool" where
  "dead h s \<longleftrightarrow> h \<in> xr_issued s \<and> (\<forall>w. worker_of s h = Some w \<longrightarrow> \<not> pw_alive w)"

definition under :: "nat \<Rightarrow> worker_handle \<Rightarrow> proc_run \<Rightarrow> bool" where
  "under c h s \<longleftrightarrow> h \<in> xr_issued s \<and> (\<forall>w. worker_of s h = Some w \<longrightarrow> pw_ctx w = c)"

text \<open>What a step may do to the entry of a handle that has been given out.\<close>

lemma proc_step_entry:
  assumes "proc_step parse s s'" "h \<in> xr_issued s"
  shows "h \<in> xr_issued s' \<and> (\<forall>w'. worker_of s' h = Some w' \<longrightarrow>
    (\<exists>w. worker_of s h = Some w \<and> pw_ctx w' = pw_ctx w \<and> (pw_alive w' \<longrightarrow> pw_alive w)))"
  using assms
proof (induction rule: proc_step.induct)
  case (spawn ustr start c spec s k r alive out)
  then have "k \<noteq> h" by auto
  moreover obtain w where
    "entered alive out k r s = (put_worker k w s)\<lparr>xr_issued := insert k (xr_issued s)\<rparr>"
    by (rule proc_Spawn_entered [OF spawn(1)]) blast
  ultimately show ?case using spawn(3) by (simp add: put_worker_def)
next
  case (child a s s')
  then show ?case
    by (cases rule: child_step.cases)
      (auto simp: put_worker_def kill_worker_def proc_pump_def Let_def split: if_splits)
next
  case (deliver e k s res r)
  from deliver(1) obtain w where "worker_of s k = Some w"
      "r = (xr_runtime s)\<lparr>pk_workers := (worker_of s)(k \<mapsto> w\<lparr>pw_result := None\<rparr>)\<rparr>"
    by (rule proc_select_result) blast
  with deliver(2) show ?case by simp
qed (auto simp: end_context_def proc_Wait_enter_def proc_Cancel_def proc_Close_def proc_Forget_def
    kill_worker_def split: if_splits option.splits kill_answer.splits)

lemma dead_step: "proc_step parse s s' \<Longrightarrow> dead h s \<Longrightarrow> dead h s'"
  using proc_step_entry [of parse s s' h] by (fastforce simp: dead_def)

lemma under_step: "proc_step parse s s' \<Longrightarrow> under c h s \<Longrightarrow> under c h s'"
  using proc_step_entry [of parse s s' h] by (fastforce simp: under_def)

lemma dead_steps: "proc_steps parse s s' \<Longrightarrow> dead h s \<Longrightarrow> dead h s'"
  by (induction rule: proc_steps.induct) (auto intro: dead_step)

lemma under_steps: "proc_steps parse s s' \<Longrightarrow> under c h s \<Longrightarrow> under c h s'"
  by (induction rule: proc_steps.induct) (auto intro: under_step)

lemma cannot_complete_dead: "cannot_complete parse h s \<Longrightarrow> dead h s"
  by (simp add: cannot_complete_def dead_def)

lemma proc_steps_trans: "proc_steps parse s2 s3 \<Longrightarrow> proc_steps parse s1 s2 \<Longrightarrow> proc_steps parse s1 s3"
  by (induction rule: proc_steps.induct) (auto intro: proc_steps.more)

section \<open>Properties\<close>

definition one_spec :: worker_spec where
  "one_spec = \<lparr>ws_execution = 1, ws_task = 2, ws_agent = 3, ws_project = 4, ws_model = ''m'',
     ws_provider = ''anthropic'', ws_permission = ''default'', ws_input = '''', ws_attempt = 1\<rparr>"

definition read_line :: "string \<Rightarrow> message option" where
  "read_line l = (if l = ''r'' then Some (NewMessage 1 ''result'' 1 ''x'' '''') else None)"

definition no_config :: process_config where
  "no_config = \<lparr>pc_binary = '''', pc_extra = [], pc_wait_timeout = 0, pc_env = [],
     pc_stdout_buffer = 0, pc_stderr_buffer = 0\<rparr>"

definition spawned_worker :: proc_worker where
  "spawned_worker = \<lparr>pw_spec = one_spec, pw_ctx = 5, pw_alive = True, pw_out = [],
     pw_reaping = False, pw_done = False, pw_result = None\<rparr>"

definition after_spawn :: proc_run where
  "after_spawn = \<lparr>xr_runtime = (NewProcessRuntime no_config)\<lparr>pk_workers := [''proc-7-e'' \<mapsto> spawned_worker]\<rparr>,
     xr_ended = {}, xr_issued = {''proc-7-e''}, xr_delivered = []\<rparr>"

lemma one_spawned:
  "proc_Spawn (\<lambda>_. ''e'', \<lambda>_ _. Started 7, 5) one_spec (NewProcessRuntime no_config)
     = (Inr ''proc-7-e'', (NewProcessRuntime no_config)\<lparr>pk_workers := [''proc-7-e'' \<mapsto> spawned_worker]\<rparr>)"
proof -
  have "digits_loop 7 [] = ''7''" by (simp add: digits_loop.simps char_of_def bit_0)
  then show ?thesis
    by (simp add: proc_Spawn_def NewProcessRuntime_def spec_Validate_def one_spec_def spawned_worker_def
        intToString_def Let_def)
qed

lemma not_closed: "(NewProcessRuntime cfg)\<lparr>pk_closed := False\<rparr> = NewProcessRuntime cfg"
  by (simp add: NewProcessRuntime_def)

lemma after_spawn_step: "proc_step parse (proc_start no_config) after_spawn"
proof -
  have "proc_step parse (proc_start no_config) (entered True [] ''proc-7-e''
      ((NewProcessRuntime no_config)\<lparr>pk_workers := [''proc-7-e'' \<mapsto> spawned_worker]\<rparr>) (proc_start no_config))"
  proof (rule proc_step.spawn)
    show "proc_Spawn (\<lambda>_. ''e'', \<lambda>_ _. Started 7, 5) one_spec
        ((xr_runtime (proc_start no_config))\<lparr>pk_closed := False\<rparr>) = (Inr ''proc-7-e'',
          (NewProcessRuntime no_config)\<lparr>pk_workers := [''proc-7-e'' \<mapsto> spawned_worker]\<rparr>)"
      by (simp add: proc_start_def not_closed one_spawned)
  qed (simp_all add: proc_start_def)
  then show ?thesis
    by (simp add: after_spawn_def proc_start_def entered_def spawned_worker_def)
qed

text \<open>
  Close may run between the check of a Spawn and its entry in the map. It kills the workers in the
  map; the one that comes after stays alive, and a further Close does nothing.
\<close>

theorem close_misses_spawn:
  "\<exists>s w. proc_steps parse (proc_start no_config) s \<and> pk_closed (xr_runtime s)
     \<and> worker_of s ''proc-7-e'' = Some w \<and> pw_alive w \<and> proc_Close killed (xr_runtime s) = xr_runtime s"
proof -
  let ?s = "proc_start no_config"
  define s1 where "s1 = ?s\<lparr>xr_runtime := proc_Close (\<lambda>_. True) (xr_runtime ?s)\<rparr>"
  let ?s2 = "entered True [] ''proc-7-e''
      ((NewProcessRuntime no_config)\<lparr>pk_workers := [''proc-7-e'' \<mapsto> spawned_worker]\<rparr>) s1"
  have r: "(xr_runtime s1)\<lparr>pk_closed := False\<rparr> = NewProcessRuntime no_config"
    by (simp add: s1_def proc_start_def proc_Close_def NewProcessRuntime_def)
  have "proc_step parse ?s s1" unfolding s1_def by (rule proc_step.shut)
  moreover have "proc_step parse s1 ?s2"
    by (rule proc_step.spawn, unfold r, rule one_spawned) (simp_all add: s1_def proc_start_def)
  ultimately have "proc_steps parse ?s ?s2"
    by (blast intro: proc_steps.none proc_steps.more)
  moreover have c: "pk_closed (xr_runtime ?s2)" and "worker_of ?s2 ''proc-7-e'' = Some spawned_worker"
    by (simp_all add: entered_def s1_def proc_start_def proc_Close_def NewProcessRuntime_def
        spawned_worker_def)
  moreover have "pw_alive spawned_worker" by (simp add: spawned_worker_def)
  moreover have "proc_Close killed (xr_runtime ?s2) = xr_runtime ?s2"
    using c by (simp only: proc_Close_def if_True)
  ultimately show ?thesis by blast
qed

text \<open>
  A worker that writes its result line and exits by itself can be reported as failed without
  output: Wait has cmd.Wait called at once, which closes the pipe when the child exits, and the
  reader may not have got to the line.
\<close>

theorem result_line_lost:
  "\<exists>s r. proc_steps read_line (proc_start no_config) s \<and> xr_delivered s = [(''proc-7-e'', r)]
     \<and> (\<exists>w. worker_of s ''proc-7-e'' = Some w \<and> pw_out w = [''r''])
     \<and> xr_ended s = {} \<and> wr_status r = WorkerFailed
     \<and> wr_error r = ''aion worker produced no output before exit''"
proof -
  let ?h = "''proc-7-e''"
  define w1 where "w1 = spawned_worker\<lparr>pw_reaping := True\<rparr>"
  define w2 where "w2 = w1\<lparr>pw_out := [''r'']\<rparr>"
  define w3 where "w3 = kill_worker w2"
  define res where "res = frame_result 9 ?h one_spec None"
  define w4 where "w4 = w3\<lparr>pw_done := True, pw_result := Some res\<rparr>"
  define w5 where "w5 = w4\<lparr>pw_result := None\<rparr>"
  define s1 where "s1 = put_worker ?h w1 after_spawn"
  define s2 where "s2 = put_worker ?h w2 s1"
  define s3 where "s3 = put_worker ?h w3 s2"
  define s4 where "s4 = put_worker ?h w4 s3"
  define s5 where "s5 = (put_worker ?h w5 s4)\<lparr>xr_delivered := [(?h, res)]\<rparr>"
  have ws: "worker_of s1 ?h = Some w1" "worker_of s2 ?h = Some w2" "worker_of s3 ?h = Some w3"
    "worker_of s4 ?h = Some w4" "worker_of s5 ?h = Some w5"
    by (simp_all add: s1_def s2_def s3_def s4_def s5_def put_worker_def)
  have "proc_Wait_enter ?h (xr_runtime after_spawn) = Inr (xr_runtime s1)"
    by (simp add: proc_Wait_enter_def after_spawn_def s1_def put_worker_def w1_def NewProcessRuntime_def)
  then have "proc_step read_line after_spawn (after_spawn\<lparr>xr_runtime := xr_runtime s1\<rparr>)"
    by (rule proc_step.wait)
  then have t1: "proc_step read_line after_spawn s1" by (simp add: s1_def put_worker_def)
  have t2: "proc_step read_line s1 s2"
    using proc_step.child [OF child_step.prints [OF ws(1), of read_line "''r''"]]
    by (simp add: s2_def w2_def w1_def spawned_worker_def)
  have t3: "proc_step read_line s2 s3" unfolding s3_def w3_def by (rule proc_step.child [OF child_step.exit [OF ws(2)]])
  have "proc_pump read_line 0 9 ?h (xr_runtime s3) w3 = Some w4"
    by (simp add: proc_pump_def w4_def w3_def w2_def w1_def kill_worker_def spawned_worker_def
        pumpStdout_def scan_lines_def res_def)
  then have t4: "proc_step read_line s3 s4" unfolding s4_def by (rule proc_step.child [OF child_step.pump [OF ws(3)]])
  have "proc_Wait_select ResultReady ?h (xr_runtime s4) = Some (Inr res, xr_runtime s5)"
    using ws(4) by (simp add: proc_Wait_select_def proc_take_def w4_def s5_def w5_def put_worker_def)
  then have "proc_step read_line s4 (s4\<lparr>xr_runtime := xr_runtime s5, xr_delivered := (?h, res) # xr_delivered s4\<rparr>)"
    by (rule proc_step.deliver)
  moreover have "s4\<lparr>xr_runtime := xr_runtime s5, xr_delivered := (?h, res) # xr_delivered s4\<rparr> = s5"
    by (simp add: s5_def s4_def s3_def s2_def s1_def put_worker_def after_spawn_def)
  ultimately have t5: "proc_step read_line s4 s5" by simp
  have "proc_steps read_line (proc_start no_config) s5"
    by (intro proc_steps.more [OF _ t5] proc_steps.more [OF _ t4] proc_steps.more [OF _ t3]
        proc_steps.more [OF _ t2] proc_steps.more [OF _ t1] proc_steps.more [OF _ after_spawn_step]
        proc_steps.none)
  moreover have "xr_delivered s5 = [(?h, res)]" "xr_ended s5 = {}" "pw_out w5 = [''r'']"
    "wr_status res = WorkerFailed" "wr_error res = ''aion worker produced no output before exit''"
    by (simp_all add: s5_def s4_def s3_def s2_def s1_def put_worker_def after_spawn_def res_def
        frame_result_def w5_def w4_def w3_def w2_def kill_worker_def)
  ultimately show ?thesis using ws(5) by blast
qed

end
