(* ===== verification/Server.thy ===== *)
theory Server
  imports Config Migrate Http_Access Process_Runs
begin

text \<open>
  The start and the end of the server (src/src/cmd/main.go), with the settings and the shutdown of
  the execution service and the container of the services (service/execution.go, service.go).
\<close>

section \<open>Settings of the execution service (execution.go)\<close>

text \<open>A number of type float64; comparisons with one that is not a number are false.\<close>

datatype float64 = NotANumber | NegInf | PosInf | Num rat

fun float_less :: "float64 \<Rightarrow> float64 \<Rightarrow> bool" where
  "float_less (Num a) (Num b) = (a < b)"
| "float_less NegInf (Num _) = True"
| "float_less NegInf PosInf = True"
| "float_less (Num _) PosInf = True"
| "float_less _ _ = False"

text \<open>\<open>raw\<close> is the variable, None when it is not set; \<open>parse\<close> stands for strconv.ParseFloat.\<close>

definition envFloat :: "(string \<Rightarrow> float64 option) \<Rightarrow> string option \<Rightarrow> float64 \<Rightarrow> float64" where
  "envFloat parse raw fallback =
     (case raw of
        None \<Rightarrow> fallback
      | Some s \<Rightarrow>
          (case parse s of
             None \<Rightarrow> fallback
           | Some v \<Rightarrow> if float_less v (Num 0) then Num 0
                       else if float_less (Num 1) v then Num 1 else v))"

text \<open>The draw of the sleep is a number of nanoseconds from 0 up to one second.\<close>

definition defaultMockSleep :: "int \<Rightarrow> int" where
  "defaultMockSleep draw = 2 * 10 ^ 9 + draw"

record execution_config =
  xc_sleep :: "(int \<Rightarrow> int) option"
  xc_failure_rate :: float64

definition DefaultExecutionServiceConfig ::
  "(string \<Rightarrow> float64 option) \<Rightarrow> string option \<Rightarrow> execution_config" where
  "DefaultExecutionServiceConfig parse raw =
     \<lparr>xc_sleep = Some defaultMockSleep, xc_failure_rate = envFloat parse raw (Num 0)\<rparr>"

text \<open>The mock fails when the roll is below the rate: the choice of \<open>mockExecution\<close>.\<close>

definition mock_fails :: "execution_config \<Rightarrow> rat \<Rightarrow> bool" where
  "mock_fails c roll = float_less (Num roll) (xc_failure_rate c)"

text \<open>The service while it runs: its runtime and the executions whose drivers have not ended.\<close>

record execution_life =
  el_config :: execution_config
  el_runtime :: proc_runtime
  el_stopped :: bool
  el_drivers :: "uuid set"

definition NewExecutionService ::
  "execution_config \<Rightarrow> execution_config option \<Rightarrow> proc_runtime \<Rightarrow> execution_life" where
  "NewExecutionService defaults cfg rt =
     (let c = (case cfg of None \<Rightarrow> defaults | Some c \<Rightarrow> c);
          c = (if xc_sleep c = None then c\<lparr>xc_sleep := Some defaultMockSleep\<rparr> else c)
      in \<lparr>el_config = c, el_runtime = rt, el_stopped = False, el_drivers = {}\<rparr>)"

text \<open>
  Shutdown: the stop context is cancelled and the runtime closed; then the call waits for the
  drivers or the end of its context, whichever it sees. The answer is None for nil.
\<close>

definition Shutdown_begin :: "(worker_handle \<Rightarrow> bool) \<Rightarrow> execution_life \<Rightarrow> execution_life" where
  "Shutdown_begin killed l = l\<lparr>el_stopped := True, el_runtime := proc_Close killed (el_runtime l)\<rparr>"

datatype shutdown_event = AllDone | ShutdownContextDone string

definition Shutdown_select :: "shutdown_event \<Rightarrow> execution_life \<Rightarrow> string option option" where
  "Shutdown_select e l =
     (case e of
        AllDone \<Rightarrow> if el_drivers l = {} then Some None else None
      | ShutdownContextDone err \<Rightarrow> Some (Some err))"

section \<open>The services (service.go)\<close>

text \<open>
  What New decides: the execution service gets the default settings and a runtime with an empty
  configuration; the services that need Docker are left out when its client cannot be made.
\<close>

record services =
  sv_execution :: execution_life
  sv_has_orchestrator :: bool
  sv_has_sandbox :: bool

definition services_New ::
  "(string \<Rightarrow> float64 option) \<Rightarrow> string option \<Rightarrow> bool \<Rightarrow> services" where
  "services_New parse raw docker_ok =
     \<lparr>sv_execution = NewExecutionService (DefaultExecutionServiceConfig parse raw) None
        (NewProcessRuntime \<lparr>pc_binary = '''', pc_extra = [], pc_wait_timeout = 0, pc_env = [],
           pc_stdout_buffer = 0, pc_stderr_buffer = 0\<rparr>),
      sv_has_orchestrator = docker_ok, sv_has_sandbox = docker_ok\<rparr>"

section \<open>The start (main.go)\<close>

text \<open>What main finds around it: the environment, and the answers of the libraries.\<close>

record 'd surroundings =
  su_lower :: "string \<Rightarrow> string"
  su_chars :: "string \<Rightarrow> string list"
  su_env :: "string \<Rightarrow> string"
  su_logger_ok :: "string \<Rightarrow> bool"
  su_parses :: "string \<Rightarrow> bool"
  su_creates :: "int \<times> int \<times> int \<Rightarrow> bool"
  su_answers :: bool
  su_exec :: "string \<Rightarrow> 'd \<Rightarrow> string option \<times> 'd"
  su_table_ok :: bool
  su_dir :: "dir_entry list option"
  su_docker_ok :: bool
  su_float :: "string \<Rightarrow> float64 option"
  su_failure_rate :: "string option"

datatype 'd store_choice = PostgresStore "'d mig_db" | MemoryStore

record 'd server =
  se_addr :: string
  se_store :: "'d store_choice"
  se_services :: services
  se_cors :: cors_config
  se_rate :: rate_config

datatype 'd startup =
    LoadPanic load_panic | LoggerFailed | ConnectFailed connect_result
  | MigrationsFailed migrate_error | CorsPanic | Serving "'d server"

definition main_port :: "(string \<Rightarrow> string) \<Rightarrow> int \<Rightarrow> int" where
  "main_port env p =
     (if env ''PORT'' \<noteq> '''' then (case Atoi (env ''PORT'') of (i, None) \<Rightarrow> i | _ \<Rightarrow> p) else p)"

definition main_store :: "'d surroundings \<Rightarrow> 'd mig_db \<Rightarrow> 'd startup + 'd store_choice" where
  "main_store su db =
     (let dbHost = su_env su ''DB_HOST''
      in if dbHost \<noteq> ''''
         then let dbCfg = (DefaultConfig (su_env su))\<lparr>Migrate.dc_host := dbHost\<rparr>
              in case Connect (su_parses su) (su_creates su) (su_answers su) dbCfg of
                   Connected _ \<Rightarrow>
                     (case RunMigrations (su_exec su) (su_table_ok su) (su_dir su) db of
                        (Some e, _) \<Rightarrow> Inl (MigrationsFailed e)
                      | (None, db') \<Rightarrow> Inr (PostgresStore db'))
                 | failed \<Rightarrow> Inl (ConnectFailed failed)
         else Inr MemoryStore)"

definition main_cors :: "cors_settings \<Rightarrow> cors_config" where
  "main_cors c = \<lparr>cors_origins = co_origins c, cors_methods = co_methods c,
     cors_headers = co_headers c, cors_credentials = co_credentials c, cors_max_age = co_max_age c\<rparr>"

definition main_rate :: "rate_settings \<Rightarrow> rate_config" where
  "main_rate r = DefaultRateLimitConfig\<lparr>rl_rpm := rs_rpm r, rl_burst := rs_burst r\<rparr>"

definition main :: "'d surroundings \<Rightarrow> 'd mig_db \<Rightarrow> 'd startup" where
  "main su db =
     (case Load (su_lower su) (su_chars su) (su_env su) of
        Inl p \<Rightarrow> LoadPanic p
      | Inr cfg \<Rightarrow>
          let port = main_port (su_env su) (sc_port (cfg_server cfg))
          in if \<not> su_logger_ok su (su_env su ''LOG_LEVEL'') then LoggerFailed
             else case main_store su db of
                    Inl failed \<Rightarrow> failed
                  | Inr st \<Rightarrow>
                      let cors = main_cors (cfg_cors cfg)
                      in if CORS intToString cors = None then CorsPanic
                         else Serving \<lparr>se_addr = sc_host (cfg_server cfg) @ '':'' @ intToString port,
                                se_store = st,
                                se_services = services_New (su_float su) (su_failure_rate su) (su_docker_ok su),
                                se_cors = cors, se_rate = main_rate (cfg_rate cfg)\<rparr>)"

section \<open>The end (main.go)\<close>

text \<open>
  \<open>raw\<close> is SHUTDOWN\_GRACE, None when it is not set; \<open>parse\<close> stands for time.ParseDuration.
\<close>

definition parseGraceTimeout :: "(string \<Rightarrow> int option) \<Rightarrow> string option \<Rightarrow> int" where
  "parseGraceTimeout parse raw =
     (case raw of
        None \<Rightarrow> 10 * 10 ^ 9
      | Some s \<Rightarrow> (case parse s of
                     None \<Rightarrow> 10 * 10 ^ 9
                   | Some d \<Rightarrow> if d \<le> 0 then 10 * 10 ^ 9 else d))"

text \<open>
  A wait under a timeout, for something that takes \<open>need\<close> nanoseconds (None: for ever): how long it
  lasts and whether it was done. The two waits of the shutdown share one budget.
\<close>

definition bounded_wait :: "int \<Rightarrow> int option \<Rightarrow> int \<times> bool" where
  "bounded_wait budget need =
     (case need of None \<Rightarrow> (budget, False) | Some n \<Rightarrow> if n < budget then (n, True) else (budget, False))"

definition gracefulShutdown :: "int \<Rightarrow> int option \<Rightarrow> int option \<Rightarrow> (int \<times> bool) \<times> (int \<times> bool)" where
  "gracefulShutdown grace http drivers =
     (let (spent, http_ok) = bounded_wait grace http;
          remaining = grace - spent;
          remaining = (if remaining < 0 then 0 else remaining)
      in ((spent, http_ok), bounded_wait remaining drivers))"

text \<open>The server ends with the error of the listener, or with nil after a signal and a shutdown.\<close>

datatype server_event = ListenError string | ListenClosed | Signal

definition runServer :: "server_event \<Rightarrow> string option \<times> bool" where
  "runServer e = (case e of
       ListenError err \<Rightarrow> (Some err, False) | ListenClosed \<Rightarrow> (None, False) | Signal \<Rightarrow> (None, True))"

section \<open>Facts\<close>

lemma envFloat_range:
  "envFloat parse raw (Num 0) = NotANumber \<or> (\<exists>q. envFloat parse raw (Num 0) = Num q \<and> 0 \<le> q \<and> q \<le> 1)"
  by (auto simp: envFloat_def split: option.split)
    (metis float_less.simps float64.exhaust not_le)

lemma mock_never_fails: "xc_failure_rate c = NotANumber \<Longrightarrow> \<not> mock_fails c roll"
  by (simp add: mock_fails_def)

lemma parseGraceTimeout_pos: "0 < parseGraceTimeout parse raw"
  by (auto simp: parseGraceTimeout_def split: option.split)

lemma bounded_wait_le: "0 \<le> budget \<Longrightarrow> fst (bounded_wait budget need) \<le> budget"
  by (auto simp: bounded_wait_def split: option.split)

lemma shutdown_in_budget:
  assumes "gracefulShutdown (parseGraceTimeout parse raw) http drivers = ((t1, ok1), (t2, ok2))"
  shows "t1 + t2 \<le> parseGraceTimeout parse raw"
proof -
  let ?g = "parseGraceTimeout parse raw"
  note p = parseGraceTimeout_pos [of parse raw]
  have "t1 = fst (bounded_wait ?g http)" "t2 = fst (bounded_wait (if ?g - t1 < 0 then 0 else ?g - t1) drivers)"
    using assms by (auto simp: gracefulShutdown_def Let_def split: prod.splits)
  with bounded_wait_le [of ?g http] bounded_wait_le [of "?g - t1" drivers] p show ?thesis by auto
qed

lemma Load_host: "Load lower chars env = Inr cfg \<Longrightarrow> env ''DB_HOST'' \<noteq> ''''"
  by (auto simp: Load_def getEnvRequired_def split: if_splits)

lemma main_store_refuses: "main_store su db \<noteq> Inl (Serving sv)"
  by (auto simp: main_store_def Let_def split: connect_result.splits prod.splits option.splits)

section \<open>Properties\<close>

text \<open>
  C7: a server that comes up always stands on PostgreSQL, after a migration run without an error:
  the in-memory store that main has for a missing DB\_HOST is out of reach, since loading the
  configuration panics without it. Its runtime calls the binary aion whatever AION\_BINARY says.
\<close>

theorem server_on_postgres:
  assumes "main su db = Serving sv"
  shows "\<exists>db'. se_store sv = PostgresStore db'
    \<and> RunMigrations (su_exec su) (su_table_ok su) (su_dir su) db = (None, db')
    \<and> pc_binary (pk_cfg (el_runtime (sv_execution (se_services sv)))) = ''aion''
    \<and> \<not> (cors_credentials (se_cors sv) \<and> ''*'' \<in> set (cors_origins (se_cors sv)))"
proof -
  from assms obtain cfg st where l: "Load (su_lower su) (su_chars su) (su_env su) = Inr cfg"
      and m: "main_store su db = Inr st" and s: "se_store sv = st"
        "se_services sv = services_New (su_float su) (su_failure_rate su) (su_docker_ok su)"
        "CORS intToString (se_cors sv) \<noteq> None"
    by (auto simp: main_def Let_def main_store_refuses split: sum.splits if_splits)
  from m Load_host [OF l] obtain db' where "st = PostgresStore db'"
      "RunMigrations (su_exec su) (su_table_ok su) (su_dir su) db = (None, db')"
    by (auto simp: main_store_def Let_def
        split: connect_result.splits prod.splits option.splits if_splits)
  with s show ?thesis
    by (auto simp: services_New_def NewExecutionService_def NewProcessRuntime_def config_defaults_def
        CORS_def list_ex_iff Let_def split: if_splits)
qed

definition one_env :: "string \<Rightarrow> string" where
  "one_env k = (if k = ''DB_PORT'' then ''1'' else if k = ''PORT'' then '''' else ''db'')"

definition one_world :: "nat surroundings" where
  "one_world = \<lparr>su_lower = id, su_chars = map (\<lambda>c. [c]), su_env = one_env, su_logger_ok = (\<lambda>_. True),
     su_parses = (\<lambda>_. True), su_creates = (\<lambda>_. True), su_answers = True,
     su_exec = (\<lambda>_ d. (None, d)), su_table_ok = True, su_dir = Some [], su_docker_ok = False,
     su_float = (\<lambda>_. None), su_failure_rate = None\<rparr>"

text \<open>Such a server exists.\<close>

theorem server_on_postgres_witness:
  "\<exists>sv. main one_world \<lparr>md_rows = [], md_data = 0\<rparr> = Serving sv
     \<and> (\<exists>db'. se_store sv = PostgresStore db')"
proof -
  have "Atoi ''1'' = (1, None)"
    by (simp add: Atoi_def is_digit_def digit_value_def Let_def)
  then have l: "\<exists>cfg. Load (su_lower one_world) (su_chars one_world) (su_env one_world) = Inr cfg
      \<and> \<not> co_credentials (cfg_cors cfg)"
    by (simp add: Load_def one_world_def one_env_def getEnvRequired_def getEnvIntRequired_def
        getEnvBool_def)
  have "\<exists>sv. main one_world \<lparr>md_rows = [], md_data = 0\<rparr> = Serving sv"
    using l by (auto simp: main_def Let_def main_store_def one_world_def one_env_def Connect_def
        RunMigrations_def CORS_def main_cors_def)
  then obtain sv where sv: "main one_world \<lparr>md_rows = [], md_data = 0\<rparr> = Serving sv" ..
  with server_on_postgres [OF sv] show ?thesis by blast
qed

end
