(* ===== verification/Server_Runs.thy ===== *)
theory Server_Runs
  imports Server Execution_Races Project_Service
begin

text \<open>
  Runs of the server: the execution service (service/execution.go) on its store, the runtime of
  production with its processes (aion/process.go), the HTTP requests, whose contexts end when they
  are answered, the drivers of the workers, and the shutdown. An operation on the store is one step;
  a driver takes its steps one by one.
\<close>

section \<open>A create within its request\<close>





text \<open>CreateExecution asks the runtime for nothing but a worker of that specification.\<close>

lemma env_spawn [simp]:
  "start_worker (env\<lparr>ce_spawn := g\<rparr>) = start_worker env"
  "new_execution (env\<lparr>ce_spawn := g\<rparr>) = new_execution env"
  by (simp_all add: fun_eq_iff start_worker_def new_execution_def Let_def
      cong: sum.case_cong option.case_cong)






section \<open>The state\<close>

text \<open>
  A driver: the arguments of driveWorker, the request that created it, and how far it has come:
  started, about to call Wait, in the select of Wait, with the answer of Wait, at its end.
\<close>

datatype drive_phase =
    DriveStarted | DriveEntering | DriveWaiting
  | DriveAnswered "string + worker_result" | DriveEnded "string + worker_result"

record driver =
  dv_worker :: uuid
  dv_handle :: worker_handle
  dv_exec :: uuid
  dv_project :: uuid
  dv_req :: nat
  dv_phase :: drive_phase




text \<open>The requests that are open are those that are not answered and whose client is there.\<close>

record server_run =
  vr_store :: mem_store
  vr_config :: execution_config
  vr_proc :: proc_run
  vr_open :: "nat set"
  vr_stopped :: bool
  vr_drivers :: "driver list"



definition set_phase :: "nat \<Rightarrow> drive_phase \<Rightarrow> server_run \<Rightarrow> server_run" where
  "set_phase i ph s = s\<lparr>vr_drivers := (vr_drivers s)[i := (vr_drivers s ! i)\<lparr>dv_phase := ph\<rparr>]\<rparr>"

section \<open>The steps of a driver\<close>

text \<open>The texts of the errors of Wait; \<open>cause\<close> is that of its context.\<close>

definition wait_text :: "string \<Rightarrow> aion_error \<Rightarrow> string" where
  "wait_text cause e =
     (case e of
        ErrWorkerNotFound \<Rightarrow> ''aion: worker not found''
      | ErrWorkerTimeout \<Rightarrow> ''aion: worker wait timed out: '' @ cause
      | ErrRuntimeClosed \<Rightarrow> ''aion: runtime closed''
      | ErrInvalidSpec msg \<Rightarrow> ''aion: invalid worker spec: '' @ msg)"

definition wait_answer :: "string \<Rightarrow> aion_error + worker_result \<Rightarrow> string + worker_result" where
  "wait_answer cause ans = (case ans of Inl e \<Rightarrow> Inl (wait_text cause e) | Inr r \<Rightarrow> Inr r)"

definition delivered ::
  "worker_handle \<Rightarrow> aion_error + worker_result \<Rightarrow> proc_runtime \<Rightarrow> proc_run \<Rightarrow> proc_run" where
  "delivered h ans r x =
     (case ans of
        Inl _ \<Rightarrow> x\<lparr>xr_runtime := r\<rparr>
      | Inr res \<Rightarrow> x\<lparr>xr_runtime := r, xr_delivered := (h, res) # xr_delivered x\<rparr>)"

text \<open>
  What a driver does by itself. Its context ends with the stop of the service; the timeout of Wait
  is not here, since it takes the clock.
\<close>

inductive driver_step :: "server_run \<Rightarrow> server_run \<Rightarrow> bool" where
  drive_begin: "i < length (vr_drivers s) \<Longrightarrow> d = vr_drivers s ! i \<Longrightarrow> dv_phase d = DriveStarted
    \<Longrightarrow> driver_step s (set_phase i DriveEntering
          (s\<lparr>vr_store := driveWorker_begin (dv_worker d) (vr_store s)\<rparr>))"
| drive_refused: "i < length (vr_drivers s) \<Longrightarrow> d = vr_drivers s ! i \<Longrightarrow> dv_phase d = DriveEntering
    \<Longrightarrow> proc_Wait_enter (dv_handle d) (xr_runtime (vr_proc s)) = Inl e
    \<Longrightarrow> driver_step s (set_phase i (DriveAnswered (Inl (wait_text '''' e))) s)"
| drive_enter: "i < length (vr_drivers s) \<Longrightarrow> d = vr_drivers s ! i \<Longrightarrow> dv_phase d = DriveEntering
    \<Longrightarrow> proc_Wait_enter (dv_handle d) (xr_runtime (vr_proc s)) = Inr r
    \<Longrightarrow> driver_step s (set_phase i DriveWaiting (s\<lparr>vr_proc := (vr_proc s)\<lparr>xr_runtime := r\<rparr>\<rparr>))"
| drive_answer: "i < length (vr_drivers s) \<Longrightarrow> d = vr_drivers s ! i \<Longrightarrow> dv_phase d = DriveWaiting
    \<Longrightarrow> ev = ContextDone \<longrightarrow> vr_stopped s
    \<Longrightarrow> proc_Wait_select ev (dv_handle d) (xr_runtime (vr_proc s)) = Some (ans, r)
    \<Longrightarrow> driver_step s (set_phase i (DriveAnswered (wait_answer ''context canceled'' ans))
          (s\<lparr>vr_proc := delivered (dv_handle d) ans r (vr_proc s)\<rparr>))"
| drive_finish: "i < length (vr_drivers s) \<Longrightarrow> d = vr_drivers s ! i \<Longrightarrow> dv_phase d = DriveAnswered ans
    \<Longrightarrow> driver_step s (set_phase i (DriveEnded ans)
          (s\<lparr>vr_store := driveWorker_finish now (dv_worker d) (dv_exec d) (dv_project d) ans (vr_store s)\<rparr>))"

inductive_cases driver_stepE: "driver_step s s'"

section \<open>The steps of the server\<close>

text \<open>
  The other services leave the executions and workers alone, and the task of an execution keeps its
  project until it is deleted; ids are not reused.
\<close>

definition keeps_projects :: "mem_store \<Rightarrow> mem_store \<Rightarrow> bool" where
  "keeps_projects m m' \<longleftrightarrow>
     (\<forall>k e t'. ms_executions m k = Some e \<and> ms_tasks m' (ex_task e) = Some t'
        \<longrightarrow> (\<exists>t. ms_tasks m (ex_task e) = Some t \<and> t_project t = t_project t'))"

definition others_write :: "mem_store \<Rightarrow> mem_store \<Rightarrow> bool" where
  "others_write m m' \<longleftrightarrow> ms_executions m' = ms_executions m \<and> ms_workers m' = ms_workers m
     \<and> keeps_projects m m'"

text \<open>So do the task operations of the project service, an id of a new task being new.\<close>

lemma tasks_others:
  assumes "keyed_by t_id (ms_tasks m)"
  shows "others_write m (snd (UpdateTask now k ureq m))" "others_write m (snd (UpdateTaskStatus now k st m))"
    "others_write m (snd (DeleteTask k m))"
    "(\<And>j e. ms_executions m j = Some e \<Longrightarrow> ex_task e \<noteq> k) \<Longrightarrow> others_write m (snd (CreateTask now k creq m))"
  using assms
  by (auto simp: others_write_def keeps_projects_def UpdateTask_def UpdateTaskStatus_def DeleteTask_def
      CreateTask_def new_task_def Task_GetByID_def Task_Update_def Task_Delete_def Task_Create_def Let_def
      dest: keyed_byD split: option.split sum.split store_error.split if_splits)







section \<open>What the steps keep in the store\<close>







lemma Update_tasks [simp]: "ms_tasks (snd (UpdateExecutionStatus now k st msg caller m)) = ms_tasks m"
  by (rule UpdateExecutionStatus_cases [of now k st msg caller m]) auto





section \<open>What the steps do to the processes\<close>

lemma set_phase_simps [simp]:
  "vr_store (set_phase i ph s) = vr_store s" "vr_proc (set_phase i ph s) = vr_proc s"
  "vr_open (set_phase i ph s) = vr_open s" "vr_stopped (set_phase i ph s) = vr_stopped s"
  "vr_drivers (set_phase i ph s) = (vr_drivers s)[i := (vr_drivers s ! i)\<lparr>dv_phase := ph\<rparr>]"
  by (simp_all add: set_phase_def)










section \<open>The invariant\<close>
























section \<open>Drivers through a run\<close>











section \<open>The drivers after a shutdown\<close>















section \<open>Properties\<close>




section \<open>A run\<close>
















end
