(* ===== verification/Sandbox.thy ===== *)
theory Sandbox
  imports Config
begin

text \<open>
  The containers of service/sandbox.go and service/orchestrator.go. The Docker client is the record
  \<open>docker_client\<close> of its answers; an operation gives its result with the calls it has made, newest
  last. What the daemon does with a container while the sandbox waits for it is a \<open>container_end\<close>.
\<close>

section \<open>Calls of the Docker client\<close>

record container_config =
  cc_image :: string
  cc_cmd :: "string list"
  cc_env :: "string list"
  cc_tty :: bool

record host_config =
  hc_runtime :: string
  hc_memory :: int
  hc_cpu_quota :: int
  hc_auto_remove :: bool
  hc_readonly :: bool
  hc_cap_drop :: "string list"
  hc_security :: "string list"
  hc_network :: string

datatype docker_call =
    ContainerCreate container_config host_config string
  | ContainerStart string
  | ContainerLogs string
  | ContainerWait string
  | ContainerStop string int

text \<open>An answer is an error text on the left. The log is all that the copy read from the stream.\<close>

record docker_client =
  dk_create :: "container_config \<Rightarrow> host_config \<Rightarrow> string \<Rightarrow> string + string"
  dk_start :: "string \<Rightarrow> string option"
  dk_logs :: "string \<Rightarrow> string + string"

text \<open>The settings that both files give to every container.\<close>

definition hardened :: "agent_config \<Rightarrow> host_config" where
  "hardened c = \<lparr>hc_runtime = gc_runtime c, hc_memory = gc_memory c, hc_cpu_quota = gc_cpu c,
     hc_auto_remove = True, hc_readonly = True, hc_cap_drop = [''ALL''],
     hc_security = [''no-new-privileges''], hc_network = ''none''\<rparr>"

section \<open>The sandbox (sandbox.go)\<close>

record sandbox_request =
  sr_image :: string
  sr_command :: "string list"
  sr_env :: "string list"
  sr_timeout :: int

record sandbox_result =
  sx_stdout :: string
  sx_stderr :: string
  sx_exit :: int
  sx_timed_out :: bool

datatype context_error = DeadlineExceeded | Canceled

datatype sandbox_error =
    CreateContainer string | StartContainer string | GetLogs string | WaitContainer string
  | ContextErr context_error | UnexpectedEnd

text \<open>The case that the select takes: an error (nil is None), a status, the end of the context.\<close>

datatype wait_outcome = WaitError "string option" | WaitStatus int | ContextEnded context_error

text \<open>The deadline of the run, in nanoseconds after its start: five minutes if none is asked for.\<close>

definition run_timeout :: "sandbox_request \<Rightarrow> int" where
  "run_timeout req = (if sr_timeout req = 0 then 5 * 60 * 10 ^ 9 else sr_timeout req)"

definition wait_result ::
  "string \<Rightarrow> string \<Rightarrow> wait_outcome \<Rightarrow> (sandbox_error + sandbox_result) \<times> docker_call list" where
  "wait_result k out sel =
     (case sel of
        WaitError (Some e) \<Rightarrow> (Inl (WaitContainer e), [])
      | WaitError None \<Rightarrow> (Inl UnexpectedEnd, [])
      | WaitStatus code \<Rightarrow>
          (Inr \<lparr>sx_stdout = out, sx_stderr = '''', sx_exit = code, sx_timed_out = False\<rparr>, [])
      | ContextEnded DeadlineExceeded \<Rightarrow>
          (Inr \<lparr>sx_stdout = out, sx_stderr = '''', sx_exit = -1, sx_timed_out = True\<rparr>,
           [ContainerStop k 2])
      | ContextEnded e \<Rightarrow> (Inl (ContextErr e), []))"

definition Run ::
  "agent_config \<Rightarrow> docker_client \<Rightarrow> wait_outcome \<Rightarrow> sandbox_request
   \<Rightarrow> (sandbox_error + sandbox_result) \<times> docker_call list" where
  "Run c dk sel req =
     (let cc = \<lparr>cc_image = sr_image req, cc_cmd = sr_command req, cc_env = sr_env req, cc_tty = False\<rparr>;
          create = ContainerCreate cc (hardened c) ''''
      in case dk_create dk cc (hardened c) '''' of
           Inl e \<Rightarrow> (Inl (CreateContainer e), [create])
         | Inr k \<Rightarrow>
             (case dk_start dk k of
                Some e \<Rightarrow> (Inl (StartContainer e), [create, ContainerStart k])
              | None \<Rightarrow>
                  (case dk_logs dk k of
                     Inl e \<Rightarrow> (Inl (GetLogs e), [create, ContainerStart k, ContainerLogs k])
                   | Inr out \<Rightarrow>
                       let (res, calls) = wait_result k out sel
                       in (res, [create, ContainerStart k, ContainerLogs k, ContainerWait k] @ calls))))"

section \<open>The orchestrator (orchestrator.go)\<close>

text \<open>\<open>ustr\<close> is the text of an id. The answer is None for nil.\<close>

definition SpawnAgentProcess ::
  "(uuid \<Rightarrow> string) \<Rightarrow> agent_config \<Rightarrow> docker_client \<Rightarrow> uuid \<Rightarrow> sandbox_error option \<times> docker_call list" where
  "SpawnAgentProcess ustr c dk agent =
     (let cc = \<lparr>cc_image = ''ai-software-factory-agent:latest'', cc_cmd = [],
                cc_env = [''AGENT_ID='' @ ustr agent], cc_tty = False\<rparr>;
          nm = ''agent-'' @ ustr agent;
          create = ContainerCreate cc (hardened c) nm
      in case dk_create dk cc (hardened c) nm of
           Inl e \<Rightarrow> (Some (CreateContainer e), [create])
         | Inr k \<Rightarrow>
             (case dk_start dk k of
                Some e \<Rightarrow> (Some (StartContainer e), [create, ContainerStart k])
              | None \<Rightarrow> (None, [create, ContainerStart k])))"

definition HandleAgentFailure :: "string \<Rightarrow> string option" where
  "HandleAgentFailure agentID = Some ''not implemented''"

section \<open>How a container ends\<close>

text \<open>
  By the time the log has been copied the container has exited or the context is over. A container
  that has exited is removed by the daemon (AutoRemove), and a wait for one that is gone is an
  error; a request under a context that is over is an error too, and then the select finds two
  cases ready and takes either. The client sends no nil error.
\<close>

datatype container_end = Exited int | ExitedAndRemoved | ContextOver context_error | ConnectionLost string

definition context_text :: "context_error \<Rightarrow> string" where
  "context_text e = (case e of DeadlineExceeded \<Rightarrow> ''context deadline exceeded''
     | Canceled \<Rightarrow> ''context canceled'')"

fun select_ready :: "container_end \<Rightarrow> wait_outcome list" where
  "select_ready (Exited code) = [WaitStatus code]"
| "select_ready ExitedAndRemoved = [WaitError (Some ''No such container'')]"
| "select_ready (ContextOver e) = [WaitError (Some (context_text e)), ContextEnded e]"
| "select_ready (ConnectionLost e) = [WaitError (Some e)]"

text \<open>
  The stream of the log of a container without terminal: frames of a stream number (1 for output, 2
  for errors), three zeros, the length in four bytes, and the text.
\<close>

definition frame :: "bool \<times> string \<Rightarrow> string" where
  "frame f = (let n = length (snd f)
     in [char_of (if fst f then 1 else 2 :: nat), CHR 0x00, CHR 0x00, CHR 0x00,
         char_of (n div 2 ^ 24), char_of (n div 2 ^ 16), char_of (n div 2 ^ 8), char_of n] @ snd f)"

definition multiplexed :: "(bool \<times> string) list \<Rightarrow> string" where
  "multiplexed fs = concat (map frame fs)"

definition printed :: "(bool \<times> string) list \<Rightarrow> string" where
  "printed fs = concat (map snd (filter fst fs))"

lemma length_frame: "length (frame f) = 8 + length (snd f)"
  by (simp add: frame_def Let_def)

lemma multiplexed_longer: "length (printed fs) + 8 * length fs \<le> length (multiplexed fs)"
  by (induction fs) (auto simp: multiplexed_def printed_def length_frame)

lemma multiplexed_not_printed: "multiplexed fs = printed fs \<longleftrightarrow> fs = []"
proof
  assume "multiplexed fs = printed fs"
  with multiplexed_longer [of fs] show "fs = []" by simp
qed (simp add: multiplexed_def printed_def)

section \<open>Properties\<close>

lemma Run_started:
  assumes "dk_create dk \<lparr>cc_image = sr_image req, cc_cmd = sr_command req, cc_env = sr_env req,
      cc_tty = False\<rparr> (hardened c) '''' = Inr k" "dk_start dk k = None" "dk_logs dk k = Inr out"
  obtains pre where "\<And>sel. Run c dk sel req = (fst (wait_result k out sel), pre @ snd (wait_result k out sel))"
    "pre = [ContainerCreate \<lparr>cc_image = sr_image req, cc_cmd = sr_command req, cc_env = sr_env req,
      cc_tty = False\<rparr> (hardened c) '''', ContainerStart k, ContainerLogs k, ContainerWait k]"
  using assms that by (auto simp: Run_def Let_def split: prod.split)

text \<open>
  What a started sandbox run gives. The exit status of the command comes only while the
  container is not yet removed; the end of the deadline is either a result marked as timed out,
  after a stop of the container, or an error without one, and a cancelled run never stops it. The
  text given as standard output is the multiplexed stream, never what the command printed as soon
  as it printed anything, and standard error is empty.
\<close>

theorem sandbox_outcomes:
  assumes "dk_create dk \<lparr>cc_image = sr_image req, cc_cmd = sr_command req, cc_env = sr_env req,
      cc_tty = False\<rparr> (hardened c) '''' = Inr k" "dk_start dk k = None"
    and "dk_logs dk k = Inr (multiplexed fs)"
  shows "(\<lambda>sel. fst (Run c dk sel req)) ` set (select_ready ce) =
       (case ce of
          Exited code \<Rightarrow> {Inr \<lparr>sx_stdout = multiplexed fs, sx_stderr = '''', sx_exit = code, sx_timed_out = False\<rparr>}
        | ExitedAndRemoved \<Rightarrow> {Inl (WaitContainer ''No such container'')}
        | ContextOver DeadlineExceeded \<Rightarrow>
            {Inl (WaitContainer ''context deadline exceeded''),
             Inr \<lparr>sx_stdout = multiplexed fs, sx_stderr = '''', sx_exit = -1, sx_timed_out = True\<rparr>}
        | ContextOver Canceled \<Rightarrow> {Inl (WaitContainer ''context canceled''), Inl (ContextErr Canceled)}
        | ConnectionLost e \<Rightarrow> {Inl (WaitContainer e)})
    \<and> (\<forall>sel \<in> set (select_ready ce). (\<exists>s. ContainerStop k s \<in> set (snd (Run c dk sel req)))
         \<longleftrightarrow> sel = ContextEnded DeadlineExceeded)
    \<and> (multiplexed fs = printed fs \<longleftrightarrow> fs = [])"
proof -
  obtain pre where r: "\<And>sel. Run c dk sel req
      = (fst (wait_result k (multiplexed fs) sel), pre @ snd (wait_result k (multiplexed fs) sel))"
    and pre: "\<And>s. ContainerStop k s \<notin> set pre"
    by (rule Run_started [OF assms]) auto
  have "(\<exists>s. ContainerStop k s \<in> set (snd (Run c dk sel req))) \<longleftrightarrow> sel = ContextEnded DeadlineExceeded" for sel
    by (auto simp: r pre wait_result_def split: wait_outcome.split option.split context_error.split)
  then show ?thesis
    by (cases ce)
      (auto simp: r wait_result_def context_text_def multiplexed_not_printed split: context_error.split)
qed

definition one_request :: sandbox_request where
  "one_request = \<lparr>sr_image = ''go'', sr_command = [''test''], sr_env = [], sr_timeout = 0\<rparr>"

definition one_agent_config :: agent_config where
  "one_agent_config = \<lparr>gc_runtime = ''runc'', gc_memory = 536870912, gc_cpu = 50000, gc_binary = ''aion'',
     gc_model = ''sonnet'', gc_provider = ''anthropic'', gc_permission = ''default'',
     gc_max_concurrent = 8, gc_wait_timeout = 600\<rparr>"

definition one_docker :: docker_client where
  "one_docker = \<lparr>dk_create = (\<lambda>_ _ _. Inr ''c1''), dk_start = (\<lambda>_. None),
     dk_logs = (\<lambda>_. Inr (multiplexed [(True, ''ok'')]))\<rparr>"

text \<open>A run over its deadline can be an error, and the command keeps running.\<close>

theorem sandbox_outcomes_witness:
  "Inl (WaitContainer ''context deadline exceeded'')
     \<in> (\<lambda>sel. fst (Run one_agent_config one_docker sel one_request)) ` set (select_ready (ContextOver DeadlineExceeded))
   \<and> multiplexed [(True, ''ok'')] \<noteq> ''ok''"
proof -
  have "dk_create one_docker cc hc nm = Inr ''c1''" "dk_start one_docker ''c1'' = None"
    "dk_logs one_docker ''c1'' = Inr (multiplexed [(True, ''ok'')])" for cc hc nm
    by (simp_all add: one_docker_def)
  note this
  from sandbox_outcomes [OF this, of one_agent_config one_request "ContextOver DeadlineExceeded"]
  show ?thesis by (simp add: printed_def)
qed

text \<open>
  The calls before the select: every container of the two services is cut off from network, files
  and privileges, and none is stopped. A container that was created and not started, or whose log
  failed, is left as it is.
\<close>

lemma wait_calls: "wait_result k out sel = (res, calls) \<Longrightarrow> x \<in> set calls \<Longrightarrow> x = ContainerStop k 2"
  by (auto simp: wait_result_def split: wait_outcome.splits option.splits context_error.splits)

lemma Run_calls:
  "x \<in> set (snd (Run c dk sel req)) \<Longrightarrow>
     (\<exists>cc nm. x = ContainerCreate cc (hardened c) nm \<and> \<not> cc_tty cc) \<or> x \<in> range ContainerStart
     \<or> x \<in> range ContainerLogs \<or> x \<in> range ContainerWait \<or> x \<in> range (\<lambda>k. ContainerStop k 2)"
  by (auto simp: Run_def Let_def dest: wait_calls split: sum.splits option.splits prod.splits)

lemma SpawnAgentProcess_calls:
  "x \<in> set (snd (SpawnAgentProcess ustr c dk a)) \<Longrightarrow>
     (\<exists>cc nm. x = ContainerCreate cc (hardened c) nm \<and> \<not> cc_tty cc) \<or> x \<in> range ContainerStart"
  by (auto simp: SpawnAgentProcess_def Let_def split: sum.splits option.splits)

lemma containers_isolated:
  assumes "ContainerCreate cc hc nm \<in> set (snd (Run c dk sel req)) \<union> set (snd (SpawnAgentProcess ustr c dk a))"
  shows "hc_network hc = ''none'' \<and> hc_readonly hc \<and> hc_cap_drop hc = [''ALL'']
     \<and> hc_security hc = [''no-new-privileges''] \<and> hc_memory hc = gc_memory c \<and> \<not> cc_tty cc"
proof -
  from assms have "hc = hardened c" "\<not> cc_tty cc"
    using Run_calls [of "ContainerCreate cc hc nm" c dk sel req]
      SpawnAgentProcess_calls [of "ContainerCreate cc hc nm" ustr c dk a] by blast+
  then show ?thesis by (simp add: hardened_def)
qed

end
