(* ===== verification/Assignment_Races.thy ===== *)
theory Assignment_Races
  imports Assignment_Service
begin

text \<open>
  Assignment calls that overlap (service/assignment.go). Each call of the store takes its lock and
  releases it; WithTx of the in-memory store takes none over its closure, and the task row is
  written after it. So a call is a sequence of atomic parts, between which other calls run. The
  parts are put together again to AssignTaskToAgent, and run in every order.
\<close>

section \<open>The parts of a call\<close>

datatype assign_phase =
    Checked
  | Found assignment
  | Flipped
  | Created assignment
  | Logged assignment assignment_event

record assign_call =
  cl_env :: assign_env
  cl_task :: uuid
  cl_agent :: uuid
  cl_notes :: string
  cl_by :: "uuid option"
  cl_action :: assignment_action
  cl_phase :: assign_phase

type_synonym assign_answer = "service_error + assignment_result"

text \<open>The answer for an error of the transaction.\<close>

definition tx_refusal :: "store_error \<Rightarrow> assign_answer" where
  "tx_refusal e = Inl (if e = ErrAlreadyExists
     then conflict ''Assignment race: another request created an active row for this task concurrently''
     else internalError ''Failed to record assignment'')"

text \<open>Up to the transaction: the guards, the required capabilities, the repetition, the action.\<close>

definition assign_begin ::
  "(uuid \<Rightarrow> string) \<Rightarrow> assign_env \<Rightarrow> uuid \<Rightarrow> uuid \<Rightarrow> string \<Rightarrow> uuid option \<Rightarrow> string list \<Rightarrow> uuid
   \<Rightarrow> mem_store \<Rightarrow> (assign_answer + assign_call) \<times> mem_store" where
  "assign_begin ustr env taskID agentID notes assignedBy capsRequired caller m =
     (if caller = uuid_nil then (Inl (Inl missingProjectHeader), m)
      else case Task_GetByID taskID m of
             Inl _ \<Rightarrow> (Inl (Inl (notFound ''Task not found'')), m)
           | Inr task \<Rightarrow>
      if t_project task \<noteq> caller then (Inl (Inl crossTenantBlocked), m)
      else case Agent_GetByID agentID m of
             Inl _ \<Rightarrow> (Inl (Inl (notFound ''Agent not found'')), m)
           | Inr agent \<Rightarrow>
      if ag_project agent \<noteq> caller then (Inl (Inl crossTenantBlocked), m)
      else if t_project task \<noteq> ag_project agent then (Inl (Inl crossTenantBlocked), m)
      else if int (length notes) > MaxAssignmentNotesBytes
        then (Inl (Inl (validationSingle ''notes'' ''exceeds 1 KiB (1024 bytes)'')), m)
      else if ag_status agent \<noteq> AgentIdle then (Inl (Inl (conflict ''Agent is not idle'')), m)
      else
        let task1 = (if capsRequired \<noteq> [] then task\<lparr>t_required := capsRequired\<rparr> else task);
            m1 = put_task task1 m
        in case (if t_required task1 \<noteq> []
                 then ValidateAgentHasCapabilities ustr agentID (t_required task1) m1
                 else Inr ()) of
             Inl e \<Rightarrow> (Inl (Inl e), m1)
           | Inr _ \<Rightarrow>
               if t_assignee task1 = agentID
               then (Inl (Inr \<lparr>ar_task = task1, ar_event = None,
                       ar_assignment = (case Assignment_GetActiveByTask taskID m1 of
                                          Inr a \<Rightarrow> Some a | Inl _ \<Rightarrow> None),
                       ar_idempotent = True\<rparr>), m1)
               else (Inr \<lparr>cl_env = env, cl_task = taskID, cl_agent = agentID, cl_notes = notes,
                       cl_by = assignedBy,
                       cl_action = (if t_assignee task1 = uuid_nil then ActAssign else ActReassign),
                       cl_phase = Checked\<rparr>, m1))"

text \<open>
  One part of the rest: the read of the active row, its flip, the new row, the event, and the two
  fields of the task, which the call holds by its pointer, with the Update that follows.
\<close>

definition assign_part ::
  "assign_call \<Rightarrow> mem_store \<Rightarrow> (assign_answer + assign_call) \<times> mem_store" where
  "assign_part c m =
     (case cl_phase c of
        Checked \<Rightarrow>
          (case Assignment_GetActiveByTask (cl_task c) m of
             Inl e \<Rightarrow> if e = ErrNotFound then (Inr (c\<lparr>cl_phase := Flipped\<rparr>), m)
                      else (Inl (tx_refusal e), m)
           | Inr prev \<Rightarrow> (Inr (c\<lparr>cl_phase := Found prev\<rparr>), m))
      | Found prev \<Rightarrow>
          (case Assignment_Update
                  (prev\<lparr>as_status := AsSuperseded, as_completed := Some (ae_now (cl_env c))\<rparr>) m of
             Inl e \<Rightarrow> (Inl (tx_refusal e), m)
           | Inr m1 \<Rightarrow> (Inr (c\<lparr>cl_phase := Flipped\<rparr>), m1))
      | Flipped \<Rightarrow>
          (case Assignment_Create (ae_assignment (cl_env c)) (ae_now (cl_env c))
                  (new_assignment (cl_env c) (cl_task c) (cl_agent c)) m of
             Inl e \<Rightarrow> (Inl (tx_refusal e), m)
           | Inr (created, m1) \<Rightarrow> (Inr (c\<lparr>cl_phase := Created created\<rparr>), m1))
      | Created created \<Rightarrow>
          (case Event_Append (ae_event (cl_env c)) (ae_now (cl_env c))
                  \<lparr>ev_id = ae_event (cl_env c), ev_assignment = as_id created, ev_task = cl_task c,
                   ev_agent = Some (cl_agent c), ev_by = cl_by c, ev_at = ae_now (cl_env c),
                   ev_action = cl_action c, ev_notes = cl_notes c\<rparr> m of
             Inl e \<Rightarrow> (Inl (tx_refusal e), m)
           | Inr (ev, m1) \<Rightarrow> (Inr (c\<lparr>cl_phase := Logged created ev\<rparr>), m1))
      | Logged created ev \<Rightarrow>
          (case Task_GetByID (cl_task c) m of
             Inl _ \<Rightarrow> (Inl (Inl (internalError ''Failed to update task assignment'')), m)
           | Inr task \<Rightarrow>
               let task2 = task\<lparr>t_assignee := cl_agent c, t_updated := ae_now (cl_env c)\<rparr>
               in (Inl (Inr \<lparr>ar_task = task2, ar_event = Some ev, ar_assignment = Some created,
                          ar_idempotent = False\<rparr>), put_task task2 m)))"

fun run_parts :: "nat \<Rightarrow> (assign_answer + assign_call) \<times> mem_store \<Rightarrow> (assign_answer + assign_call) \<times> mem_store" where
  "run_parts 0 s = s"
| "run_parts (Suc n) (Inl r, m) = (Inl r, m)"
| "run_parts (Suc n) (Inr c, m) = run_parts n (assign_part c m)"

section \<open>The parts together are the call\<close>

lemma run_parts_ended [simp]: "run_parts n (Inl r, m) = (Inl r, m)"
  by (cases n) simp_all

lemma Assignment_Update_tasks: "Assignment_Update a m = Inr m' \<Longrightarrow> ms_tasks m' = ms_tasks m"
  by (auto simp: Assignment_Update_def Let_def split: if_splits)

lemma Assignment_Create_tasks:
  "Assignment_Create fresh now a m = Inr (s, m') \<Longrightarrow> ms_tasks m' = ms_tasks m"
  by (drule Assignment_Create_stored(1)) simp

lemma Event_Append_tasks: "Event_Append fresh now e m = Inr (s, m') \<Longrightarrow> ms_tasks m' = ms_tasks m"
  by (drule Event_Append_stored(1)) simp

lemma run_parts_4: "run_parts 4 (Inr c, m) = run_parts 3 (assign_part c m)"
  using run_parts.simps(3) [of 3 c m] by simp

lemma run_parts_5: "run_parts 5 (Inr c, m) = run_parts 4 (assign_part c m)"
  using run_parts.simps(3) [of 4 c m] by simp

text \<open>The last three parts, from a state in which the task has no active row of this call.\<close>

lemma run_parts_flipped:
  assumes t: "ms_tasks m taskID = Some task" "t_id task = taskID"
  shows "run_parts 3 (Inr \<lparr>cl_env = env, cl_task = taskID, cl_agent = agentID, cl_notes = notes,
      cl_by = assignedBy, cl_action = act, cl_phase = Flipped\<rparr>, m)
    = (case (case Assignment_Create (ae_assignment env) (ae_now env) (new_assignment env taskID agentID) m of
          Inl e \<Rightarrow> (Inl e, m)
        | Inr (created, m2) \<Rightarrow>
            (case Event_Append (ae_event env) (ae_now env)
                \<lparr>ev_id = ae_event env, ev_assignment = as_id created, ev_task = taskID,
                 ev_agent = Some agentID, ev_by = assignedBy, ev_at = ae_now env, ev_action = act,
                 ev_notes = notes\<rparr> m2 of
               Inl e \<Rightarrow> (Inl e, m2) | Inr (ev', m3) \<Rightarrow> (Inr (created, ev'), m3))) of
        (Inl e, m1) \<Rightarrow> (Inl (tx_refusal e), m1)
      | (Inr (newA, newE), m1) \<Rightarrow>
          let task2 = task\<lparr>t_assignee := agentID, t_updated := ae_now env\<rparr>
          in (Inl (Inr \<lparr>ar_task = task2, ar_event = Some newE, ar_assignment = Some newA,
                       ar_idempotent = False\<rparr>), put_task task2 m1))"
proof (cases "Assignment_Create (ae_assignment env) (ae_now env) (new_assignment env taskID agentID) m")
  case (Inl e)
  then show ?thesis by (simp add: eval_nat_numeral assign_part_def)
next
  case (Inr r)
  obtain created m2 where r: "r = (created, m2)" by (cases r)
  show ?thesis
  proof (cases "Event_Append (ae_event env) (ae_now env)
                \<lparr>ev_id = ae_event env, ev_assignment = as_id created, ev_task = taskID,
                 ev_agent = Some agentID, ev_by = assignedBy, ev_at = ae_now env, ev_action = act,
                 ev_notes = notes\<rparr> m2")
    case (Inl e)
    with Inr r show ?thesis by (simp add: eval_nat_numeral assign_part_def)
  next
    case e: (Inr s)
    obtain ev m3 where s: "s = (ev, m3)" by (cases s)
    have "ms_tasks m3 taskID = Some task"
      using Inr e r s t(1) by (simp add: Assignment_Create_tasks Event_Append_tasks)
    with Inr r e s show ?thesis
      by (simp add: eval_nat_numeral assign_part_def Task_GetByID_def Let_def)
  qed
qed

lemma run_parts_more: "run_parts n s = (Inl r, m) \<Longrightarrow> run_parts (n + k) s = (Inl r, m)"
  by (induction n s rule: run_parts.induct) auto

lemma run_parts_flipped_4:
  "run_parts 4 (Inr (c\<lparr>cl_phase := Flipped\<rparr>), m) = run_parts 3 (Inr (c\<lparr>cl_phase := Flipped\<rparr>), m)"
proof -
  have "\<exists>r m'. run_parts 3 (Inr (c\<lparr>cl_phase := Flipped\<rparr>), m) = (Inl r, m')"
    by (auto simp: eval_nat_numeral assign_part_def Let_def split: sum.split)
  then obtain r m' where "run_parts 3 (Inr (c\<lparr>cl_phase := Flipped\<rparr>), m) = (Inl r, m')" by blast
  with run_parts_more [OF this, of 1] show ?thesis by simp
qed

lemma record_answer:
  "map_prod Inl id (case x of
             (Inl ErrAlreadyExists, m1) \<Rightarrow> (Inl (conflict
                ''Assignment race: another request created an active row for this task concurrently''), m1)
           | (Inl _, m1) \<Rightarrow> (Inl (internalError ''Failed to record assignment''), m1)
           | (Inr (newA, newE), m1) \<Rightarrow>
               let task2 = f task; m2 = put_task task2 m1
               in case Task_Update task2 m2 of
                    Inl _ \<Rightarrow> (Inl (internalError ''Failed to update task assignment''), m2)
                  | Inr m3 \<Rightarrow>
                      (Inr \<lparr>ar_task = task2, ar_event = Some newE, ar_assignment = Some newA,
                             ar_idempotent = False\<rparr>, m3))
   = (case x of
        (Inl e, m1) \<Rightarrow> (Inl (tx_refusal e), m1)
      | (Inr (newA, newE), m1) \<Rightarrow>
          let task2 = f task
          in (Inl (Inr \<lparr>ar_task = task2, ar_event = Some newE, ar_assignment = Some newA,
                       ar_idempotent = False\<rparr>), put_task task2 m1))"
  by (auto simp: Task_Update_def tx_refusal_def Let_def split: prod.split sum.split store_error.split)

lemma run_parts_record:
  assumes t: "ms_tasks m taskID = Some task" "t_id task = taskID" "t_assignee task \<noteq> agentID"
  shows "run_parts 5 (Inr \<lparr>cl_env = env, cl_task = taskID, cl_agent = agentID, cl_notes = notes,
      cl_by = assignedBy, cl_action = (if t_assignee task = uuid_nil then ActAssign else ActReassign),
      cl_phase = Checked\<rparr>, m)
    = map_prod Inl id (assign_record env task taskID agentID notes assignedBy m)"
proof -
  define act where "act = (if t_assignee task = uuid_nil then ActAssign else ActReassign)"
  let ?c = "\<lambda>ph. \<lparr>cl_env = env, cl_task = taskID, cl_agent = agentID, cl_notes = notes,
      cl_by = assignedBy, cl_action = act, cl_phase = ph\<rparr>"
  have rec: "map_prod Inl id (assign_record env task taskID agentID notes assignedBy m)
    = (case assign_tx env taskID agentID notes assignedBy act m of
        (Inl e, m1) \<Rightarrow> (Inl (tx_refusal e), m1)
      | (Inr (newA, newE), m1) \<Rightarrow>
          let task2 = task\<lparr>t_assignee := agentID, t_updated := ae_now env\<rparr>
          in (Inl (Inr \<lparr>ar_task = task2, ar_event = Some newE, ar_assignment = Some newA,
                       ar_idempotent = False\<rparr>), put_task task2 m1))"
    using t(3) record_answer [where f = "\<lambda>t. t\<lparr>t_assignee := agentID, t_updated := ae_now env\<rparr>"]
    unfolding assign_record_def act_def [symmetric] Let_def by simp
  note flipped = run_parts_flipped [OF _ t(2), of _ env agentID "notes" assignedBy act,
      unfolded Let_def new_assignment_def]
  note four = run_parts_flipped_4 [of "?c Checked", simplified]
  show ?thesis unfolding rec act_def [symmetric]
  proof (cases "Assignment_GetActiveByTask taskID m")
    case (Inl e)
    then have e: "e = ErrNotFound" by (auto simp: Assignment_GetActiveByTask_def split: option.splits)
    have "run_parts 5 (Inr (?c Checked), m) = run_parts 4 (Inr (?c Flipped), m)"
      using Inl e by (simp add: run_parts_5 assign_part_def)
    then show "run_parts 5 (Inr (?c Checked), m) = (case assign_tx env taskID agentID notes assignedBy act m of
        (Inl e, m1) \<Rightarrow> (Inl (tx_refusal e), m1)
      | (Inr (newA, newE), m1) \<Rightarrow>
          let task2 = task\<lparr>t_assignee := agentID, t_updated := ae_now env\<rparr>
          in (Inl (Inr \<lparr>ar_task = task2, ar_event = Some newE, ar_assignment = Some newA,
                       ar_idempotent = False\<rparr>), put_task task2 m1))"
      using Inl e unfolding assign_tx_def Let_def by (simp add: four flipped [OF t(1)])
  next
    case (Inr prev)
    have f: "run_parts 5 (Inr (?c Checked), m) = run_parts 4 (Inr (?c (Found prev)), m)"
      using Inr by (simp add: run_parts_5 assign_part_def)
    show "run_parts 5 (Inr (?c Checked), m) = (case assign_tx env taskID agentID notes assignedBy act m of
        (Inl e, m1) \<Rightarrow> (Inl (tx_refusal e), m1)
      | (Inr (newA, newE), m1) \<Rightarrow>
          let task2 = task\<lparr>t_assignee := agentID, t_updated := ae_now env\<rparr>
          in (Inl (Inr \<lparr>ar_task = task2, ar_event = Some newE, ar_assignment = Some newA,
                       ar_idempotent = False\<rparr>), put_task task2 m1))"
    proof (cases "Assignment_Update
        (prev\<lparr>as_status := AsSuperseded, as_completed := Some (ae_now env)\<rparr>) m")
      case (Inl e)
      then have "run_parts 4 (Inr (?c (Found prev)), m) = (Inl (tx_refusal e), m)"
        by (simp add: run_parts_4 run_parts_5 assign_part_def)
      with f Inr Inl show ?thesis by (simp add: assign_tx_def)
    next
      case u: (Inr m1)
      then have "run_parts 4 (Inr (?c (Found prev)), m) = run_parts 3 (Inr (?c Flipped), m1)"
        by (simp add: run_parts_4 run_parts_5 assign_part_def)
      moreover have "ms_tasks m1 taskID = Some task" using t(1) u by (simp add: Assignment_Update_tasks)
      ultimately show ?thesis
        using f Inr u unfolding assign_tx_def Let_def by (simp add: flipped)
    qed
  qed
qed

text \<open>A call that no other overlaps is the five parts after its begin.\<close>

theorem parts_are_the_call:
  assumes "keyed_by t_id (ms_tasks m)"
  shows "run_parts 5 (assign_begin ustr env taskID agentID notes assignedBy caps caller m)
    = map_prod Inl id (AssignTaskToAgent ustr env taskID agentID notes assignedBy caps caller m)"
proof (cases "caller = uuid_nil \<or> ms_tasks m taskID = None \<or> ms_agents m agentID = None")
  case True
  then show ?thesis
    by (auto simp: assign_begin_def AssignTaskToAgent_def Task_GetByID_def Agent_GetByID_def
        split: option.split)
next
  case False
  then obtain task agent where t: "ms_tasks m taskID = Some task" "ms_agents m agentID = Some agent"
    by auto
  define task1 where "task1 = (if caps \<noteq> [] then task\<lparr>t_required := caps\<rparr> else task)"
  have k: "t_id task1 = taskID" using assms t(1) by (auto simp: task1_def dest: keyed_byD)
  have m1: "ms_tasks (put_task task1 m) taskID = Some task1" by (simp add: k)
  note unf = assign_begin_def AssignTaskToAgent_def Let_def Task_GetByID_def Agent_GetByID_def t
    option.case sum.case task1_def [symmetric]
  show ?thesis
  proof (cases "t_assignee task1 = agentID")
    case True
    then show ?thesis unfolding unf
      by (auto simp: assign_record_def split: sum.split)
  next
    case False
    note rec = run_parts_record [OF m1 k False, of env "notes" assignedBy]
    from False rec show ?thesis unfolding unf
      by (auto split: sum.split if_splits)
  qed
qed

section \<open>Overlapping calls\<close>

text \<open>
  The store, the calls under way, the ids drawn so far, the tasks for which a call has got past its
  checks, and the answers such calls have ended with.
\<close>

record assign_run =
  rn_store :: mem_store
  rn_calls :: "nat \<rightharpoonup> assign_call"
  rn_ids :: "uuid set"
  rn_begun :: "uuid set"
  rn_answers :: "assign_answer list"

definition idle_run :: "mem_store \<Rightarrow> assign_run" where
  "idle_run m = \<lparr>rn_store = m, rn_calls = Map.empty, rn_ids = {}, rn_begun = {}, rn_answers = []\<rparr>"

definition drawn :: "assign_env \<Rightarrow> assign_run \<Rightarrow> bool" where
  "drawn env s \<longleftrightarrow> fresh_env env (rn_store s) \<and> ae_assignment env \<notin> rn_ids s \<and> ae_event env \<notin> rn_ids s"

definition started :: "nat \<Rightarrow> assign_call \<Rightarrow> mem_store \<Rightarrow> assign_run \<Rightarrow> assign_run" where
  "started i c m s = s\<lparr>rn_store := m, rn_calls := (rn_calls s)(i \<mapsto> c),
     rn_ids := insert (ae_assignment (cl_env c)) (insert (ae_event (cl_env c)) (rn_ids s)),
     rn_begun := insert (cl_task c) (rn_begun s)\<rparr>"

inductive assign_race :: "(uuid \<Rightarrow> string) \<Rightarrow> assign_run \<Rightarrow> assign_run \<Rightarrow> bool" for ustr s0 where
  idle: "assign_race ustr s0 s0"
| begins: "assign_race ustr s0 s \<Longrightarrow> rn_calls s i = None \<Longrightarrow> drawn env s
    \<Longrightarrow> assign_begin ustr env taskID agentID msg assignedBy caps caller (rn_store s) = (Inr c, m')
    \<Longrightarrow> assign_race ustr s0 (started i c m' s)"
| refused: "assign_race ustr s0 s
    \<Longrightarrow> assign_begin ustr env taskID agentID msg assignedBy caps caller (rn_store s) = (Inl r, m')
    \<Longrightarrow> assign_race ustr s0 (s\<lparr>rn_store := m'\<rparr>)"
| part: "assign_race ustr s0 s \<Longrightarrow> rn_calls s i = Some c \<Longrightarrow> assign_part c (rn_store s) = (Inr c', m')
    \<Longrightarrow> assign_race ustr s0 (s\<lparr>rn_store := m', rn_calls := (rn_calls s)(i \<mapsto> c')\<rparr>)"
| ends: "assign_race ustr s0 s \<Longrightarrow> rn_calls s i = Some c \<Longrightarrow> assign_part c (rn_store s) = (Inl r, m')
    \<Longrightarrow> assign_race ustr s0 (s\<lparr>rn_store := m', rn_calls := (rn_calls s)(i := None),
          rn_answers := r # rn_answers s\<rparr>)"

section \<open>The invariant of the races\<close>

text \<open>A call that has not made its row yet.\<close>

definition unborn :: "assign_call \<Rightarrow> bool" where
  "unborn c \<longleftrightarrow> (case cl_phase c of Checked \<Rightarrow> True | Found _ \<Rightarrow> True | Flipped \<Rightarrow> True | _ \<Rightarrow> False)"

definition row_of_task :: "mem_store \<Rightarrow> uuid \<Rightarrow> uuid \<Rightarrow> bool" where
  "row_of_task m k t \<longleftrightarrow> (\<exists>a. ms_assignments m k = Some a \<and> as_task a = t)"

definition call_ok :: "mem_store \<Rightarrow> assign_call \<Rightarrow> bool" where
  "call_ok m c \<longleftrightarrow>
     ae_now (cl_env c) \<noteq> zero_time \<and> ae_assignment (cl_env c) \<noteq> uuid_nil \<and> ae_event (cl_env c) \<noteq> uuid_nil
     \<and> cl_task c \<noteq> uuid_nil \<and> cl_agent c \<noteq> uuid_nil \<and> cl_action c \<in> {ActAssign, ActReassign}
     \<and> ms_tasks m (cl_task c) \<noteq> None
     \<and> (unborn c \<longrightarrow> ms_assignments m (ae_assignment (cl_env c)) = None)
     \<and> ((\<forall>a ev. cl_phase c \<noteq> Logged a ev) \<longrightarrow> ms_events m (ae_event (cl_env c)) = None)
     \<and> (\<forall>p. cl_phase c = Found p \<longrightarrow> as_id p \<noteq> uuid_nil \<and> as_task p = cl_task c
           \<and> row_of_task m (as_id p) (cl_task c))
     \<and> (\<forall>a. cl_phase c = Created a \<longrightarrow> row_of_task m (as_id a) (cl_task c))"

definition has_event :: "mem_store \<Rightarrow> uuid \<Rightarrow> bool" where
  "has_event m k \<longleftrightarrow> (\<exists>j e. ms_events m j = Some e \<and> ev_assignment e = k)"

definition covered :: "assign_run \<Rightarrow> bool" where
  "covered s \<longleftrightarrow> (\<forall>t. t \<in> rn_begun s \<or> (\<exists>k. row_of_task (rn_store s) k t) \<longrightarrow>
     ms_active (rn_store s) t \<noteq> None \<or> (\<exists>i c. rn_calls s i = Some c \<and> cl_task c = t \<and> unborn c))"

definition trailed :: "assign_run \<Rightarrow> bool" where
  "trailed s \<longleftrightarrow> (\<forall>k. ms_assignments (rn_store s) k \<noteq> None \<longrightarrow> has_event (rn_store s) k
     \<or> (\<exists>i c a. rn_calls s i = Some c \<and> cl_phase c = Created a \<and> as_id a = k))"

definition apart :: "assign_run \<Rightarrow> bool" where
  "apart s \<longleftrightarrow> (\<forall>i c. rn_calls s i = Some c \<longrightarrow>
     ae_assignment (cl_env c) \<in> rn_ids s \<and> ae_event (cl_env c) \<in> rn_ids s \<and> cl_task c \<in> rn_begun s
     \<and> (\<forall>j d. rn_calls s j = Some d \<and> j \<noteq> i \<longrightarrow>
          ae_assignment (cl_env d) \<noteq> ae_assignment (cl_env c) \<and> ae_event (cl_env d) \<noteq> ae_event (cl_env c)))"

lemma apartI:
  assumes "\<And>i c. rn_calls s i = Some c \<Longrightarrow> ae_assignment (cl_env c) \<in> rn_ids s
      \<and> ae_event (cl_env c) \<in> rn_ids s \<and> cl_task c \<in> rn_begun s"
    and "\<And>i c j d. rn_calls s i = Some c \<Longrightarrow> rn_calls s j = Some d \<Longrightarrow> j \<noteq> i \<Longrightarrow>
      ae_assignment (cl_env d) \<noteq> ae_assignment (cl_env c) \<and> ae_event (cl_env d) \<noteq> ae_event (cl_env c)"
  shows "apart s"
  using assms unfolding apart_def by blast

lemma apartD:
  assumes "apart s" "rn_calls s i = Some c"
  shows "ae_assignment (cl_env c) \<in> rn_ids s" "ae_event (cl_env c) \<in> rn_ids s" "cl_task c \<in> rn_begun s"
    "\<And>j d. rn_calls s j = Some d \<Longrightarrow> j \<noteq> i \<Longrightarrow>
      ae_assignment (cl_env d) \<noteq> ae_assignment (cl_env c) \<and> ae_event (cl_env d) \<noteq> ae_event (cl_env c)"
  using assms unfolding apart_def by blast+

definition answered :: "assign_answer \<Rightarrow> bool" where
  "answered r \<longleftrightarrow> r = tx_refusal ErrAlreadyExists \<or> (\<exists>x. r = Inr x)"

definition race_inv :: "assign_run \<Rightarrow> bool" where
  "race_inv s \<longleftrightarrow> assign_ready (rn_store s) \<and> (\<forall>i c. rn_calls s i = Some c \<longrightarrow> call_ok (rn_store s) c)
     \<and> apart s \<and> covered s \<and> trailed s \<and> (\<forall>r \<in> set (rn_answers s). answered r)"

text \<open>What a part may do to the rows that other calls rely on; \<open>x\<close> and \<open>y\<close> are the new ids.\<close>

definition extends :: "uuid set \<Rightarrow> uuid set \<Rightarrow> mem_store \<Rightarrow> mem_store \<Rightarrow> bool" where
  "extends x y m m' \<longleftrightarrow>
     dom (ms_tasks m) \<subseteq> dom (ms_tasks m')
     \<and> (\<forall>k t. row_of_task m k t \<longrightarrow> row_of_task m' k t)
     \<and> dom (ms_assignments m') \<subseteq> dom (ms_assignments m) \<union> x
     \<and> (\<forall>k. has_event m k \<longrightarrow> has_event m' k)
     \<and> dom (ms_events m') \<subseteq> dom (ms_events m) \<union> y"

lemma extends_refl [simp]: "extends {} {} m m"
  by (simp add: extends_def)

lemma call_ok_extends:
  assumes "call_ok m c" "extends x y m m'" "ae_assignment (cl_env c) \<notin> x" "ae_event (cl_env c) \<notin> y"
  shows "call_ok m' c"
  using assms unfolding call_ok_def extends_def by (auto simp: subset_iff domIff)

text \<open>What one part of a call that is in order does.\<close>

lemma put_task_extends: "extends {} {} m (put_task t m)"
  by (auto simp: extends_def row_of_task_def has_event_def)

definition goes_on :: "assign_call \<Rightarrow> mem_store \<Rightarrow> assign_answer + assign_call \<Rightarrow> bool" where
  "goes_on c m' res \<longleftrightarrow> (case res of
       Inl r \<Rightarrow> answered r
     | Inr c' \<Rightarrow> cl_env c' = cl_env c \<and> cl_task c' = cl_task c \<and> call_ok m' c')"

definition still_unborn :: "assign_answer + assign_call \<Rightarrow> bool" where
  "still_unborn res \<longleftrightarrow> (case res of Inl _ \<Rightarrow> False | Inr c' \<Rightarrow> unborn c')"

definition part_effect ::
  "assign_call \<Rightarrow> mem_store \<Rightarrow> assign_answer + assign_call \<Rightarrow> mem_store \<Rightarrow> bool" where
  "part_effect c m res m' \<longleftrightarrow>
     assign_ready m' \<and> extends {ae_assignment (cl_env c)} {ae_event (cl_env c)} m m' \<and> goes_on c m' res
     \<and> (\<forall>t. ms_active m t \<noteq> None \<and> \<not> (t = cl_task c \<and> still_unborn res) \<longrightarrow> ms_active m' t \<noteq> None)
     \<and> (\<forall>t. (\<exists>k. row_of_task m' k t) \<longrightarrow> (\<exists>k. row_of_task m k t) \<or> t = cl_task c)
     \<and> (unborn c \<longrightarrow> still_unborn res \<or> ms_active m' (cl_task c) \<noteq> None)
     \<and> (\<forall>k. ms_assignments m' k \<noteq> None \<and> ms_assignments m k = None \<longrightarrow>
          (\<exists>c' a. res = Inr c' \<and> cl_phase c' = Created a \<and> as_id a = k))
     \<and> (\<forall>a. cl_phase c = Created a \<longrightarrow> has_event m' (as_id a))"

lemma extends_mono: "extends x y m m' \<Longrightarrow> x \<subseteq> x' \<Longrightarrow> y \<subseteq> y' \<Longrightarrow> extends x' y' m m'"
  by (auto simp: extends_def)

text \<open>A part that leaves the store as it is.\<close>

lemma part_effect_same:
  assumes "assign_ready m" "goes_on c m res" "\<forall>a. cl_phase c \<noteq> Created a"
    and "unborn c \<longrightarrow> still_unborn res \<or> ms_active m (cl_task c) \<noteq> None"
  shows "part_effect c m res m"
  using assms extends_mono [OF extends_refl [of m]] by (auto simp: part_effect_def)

lemma part_Checked:
  assumes "assign_ready m" "call_ok m c" "cl_phase c = Checked" "assign_part c m = (res, m')"
  shows "part_effect c m res m'"
proof -
  have ai: "assign_inv m" "ms_assignments m uuid_nil = None"
    using assms(1) by (simp_all add: assign_ready_def)
  show ?thesis
  proof (cases "Assignment_GetActiveByTask (cl_task c) m")
    case (Inl e)
    then have e: "e = ErrNotFound"
      by (auto simp: Assignment_GetActiveByTask_def split: option.splits)
    with assms(3,4) Inl have "res = Inr (c\<lparr>cl_phase := Flipped\<rparr>)" "m' = m"
      by (auto simp: assign_part_def)
    with assms(1-3) show ?thesis
      by (auto intro!: part_effect_same simp: goes_on_def still_unborn_def call_ok_def unborn_def)
  next
    case (Inr p)
    from GetActiveByTask_iff [OF ai(1), of "cl_task c" p] Inr
    have p: "ms_assignments m (as_id p) = Some p" "as_task p = cl_task c" by auto
    moreover from p(1) ai(2) have "as_id p \<noteq> uuid_nil" by auto
    moreover from assms(3,4) Inr have "res = Inr (c\<lparr>cl_phase := Found p\<rparr>)" "m' = m"
      by (auto simp: assign_part_def)
    ultimately show ?thesis using assms(1-3)
      by (auto intro!: part_effect_same simp: goes_on_def still_unborn_def call_ok_def unborn_def
          row_of_task_def)
  qed
qed

lemma part_Found:
  assumes "assign_ready m" "call_ok m c" "cl_phase c = Found p" "assign_part c m = (res, m')"
  shows "part_effect c m res m'"
proof -
  have ai: "assign_inv m" "ms_assignments m uuid_nil = None"
    using assms(1) by (simp_all add: assign_ready_def)
  let ?p = "p\<lparr>as_status := AsSuperseded, as_completed := Some (ae_now (cl_env c))\<rparr>"
  obtain q where q: "ms_assignments m (as_id p) = Some q" "as_task q = cl_task c"
      "as_task p = cl_task c" "as_id p \<noteq> uuid_nil"
    using assms(2,3) by (auto simp: call_ok_def row_of_task_def)
  obtain m1 where u: "Assignment_Update ?p m = Inr m1"
    using q by (auto simp: Assignment_Update_def Let_def assignment_validators)
  note inv = assign_inv_Update [OF ai(1) u, of q]
  have m1: "assign_inv m1" "ms_assignments m1 = (ms_assignments m)(as_id p \<mapsto> ?p)"
    using inv q by simp_all
  have same: "ms_tasks m1 = ms_tasks m" "ms_events m1 = ms_events m" "ms_event_ids m1 = ms_event_ids m"
    "ms_agents m1 = ms_agents m"
    using u by (auto simp: Assignment_Update_def Let_def split: if_splits)
  have r: "res = Inr (c\<lparr>cl_phase := Flipped\<rparr>)" "m' = m1"
    using assms(3,4) u by (auto simp: assign_part_def)
  have rows: "row_of_task m1 k t \<longleftrightarrow> row_of_task m k t" for k t
    using q by (auto simp: row_of_task_def m1(2))
  have act: "ms_active m1 t \<noteq> None" if "ms_active m t \<noteq> None" "t \<noteq> cl_task c" for t
  proof -
    from that(1) obtain k where "ms_active m t = Some k" by auto
    then obtain a where a: "ms_assignments m k = Some a" "as_task a = t" "as_status a = AsActive"
      using assign_inv_index [OF ai(1)] by auto
    with that(2) q have "ms_assignments m1 k = Some a" by (auto simp: m1(2))
    with a assign_inv_index [OF m1(1), of t k] show ?thesis by auto
  qed
  have "assign_ready m1"
    using assms(1) m1 same q(4) by (simp add: assign_ready_def events_inv_def)
  moreover have "extends {} {} m m1"
    using q(1) by (auto simp: extends_def rows same m1(2) has_event_def)
  moreover have "goes_on c m1 res"
    using assms(2,3) q(1) by (auto simp: r goes_on_def call_ok_def same m1(2) unborn_def)
  moreover have "still_unborn res" by (simp add: r still_unborn_def unborn_def)
  moreover have "ms_assignments m1 k = None \<longleftrightarrow> ms_assignments m k = None" for k
    using q(1) by (auto simp: m1(2))
  ultimately show ?thesis
    using act assms(3) extends_mono [of "{}" "{}" m m1]
    unfolding part_effect_def r(2) by (auto simp: rows)
qed

lemma part_Flipped:
  assumes "assign_ready m" "call_ok m c" "cl_phase c = Flipped" "assign_part c m = (res, m')"
  shows "part_effect c m res m'"
proof -
  have ai: "assign_inv m" "ms_assignments m uuid_nil = None"
    using assms(1) by (simp_all add: assign_ready_def)
  have ok: "ae_now (cl_env c) \<noteq> zero_time" "ae_assignment (cl_env c) \<noteq> uuid_nil"
    "cl_task c \<noteq> uuid_nil" "cl_agent c \<noteq> uuid_nil"
    "ms_assignments m (ae_assignment (cl_env c)) = None"
    using assms(2,3) by (auto simp: call_ok_def unborn_def)
  let ?a = "new_assignment (cl_env c) (cl_task c) (cl_agent c)"
  show ?thesis
  proof (cases "ms_active m (cl_task c)")
    case (Some k)
    then have "Assignment_Create (ae_assignment (cl_env c)) (ae_now (cl_env c)) ?a m = Inl ErrAlreadyExists"
      using ok by (simp add: Assignment_Create_def new_assignment_def Let_def)
    with assms(3,4) have "res = Inl (tx_refusal ErrAlreadyExists)" "m' = m"
      by (auto simp: assign_part_def)
    with assms(1-3) Some show ?thesis
      by (auto intro!: part_effect_same simp: goes_on_def answered_def)
  next
    case None
    define m1 where "m1 = m\<lparr>ms_assignments := (ms_assignments m)(ae_assignment (cl_env c) \<mapsto> ?a),
      ms_active := (ms_active m)(cl_task c \<mapsto> ae_assignment (cl_env c))\<rparr>"
    have cr: "Assignment_Create (ae_assignment (cl_env c)) (ae_now (cl_env c)) ?a m = Inr (?a, m1)"
      using Assignment_Create_active [of ?a m] ok None by (simp add: new_assignment_def m1_def)
    have r: "res = Inr (c\<lparr>cl_phase := Created ?a\<rparr>)" "m' = m1"
      using assms(3,4) cr by (auto simp: assign_part_def)
    have "assign_inv m1"
      by (rule assign_inv_Create [OF ai(1) cr]) (simp add: new_assignment_def ok(5))
    then have "assign_ready m1"
      using assms(1) ok(2) by (simp add: assign_ready_def events_inv_def m1_def)
    moreover have "extends {ae_assignment (cl_env c)} {ae_event (cl_env c)} m m1"
      using ok(5) by (auto simp: extends_def m1_def row_of_task_def has_event_def)
    moreover have "goes_on c m1 res"
      using assms(2,3) ok
      by (auto simp: r goes_on_def call_ok_def m1_def unborn_def row_of_task_def new_assignment_def)
    ultimately show ?thesis
      using assms(3) unfolding part_effect_def r
      by (auto simp: still_unborn_def unborn_def m1_def row_of_task_def new_assignment_def
          split: if_splits)
  qed
qed

lemma part_Created:
  assumes "assign_ready m" "call_ok m c" "cl_phase c = Created a" "assign_part c m = (res, m')"
  shows "part_effect c m res m'"
proof -
  have ok: "ae_now (cl_env c) \<noteq> zero_time" "ae_event (cl_env c) \<noteq> uuid_nil"
    "cl_task c \<noteq> uuid_nil" "cl_action c \<in> {ActAssign, ActReassign}"
    "ms_events m (ae_event (cl_env c)) = None"
    using assms(2,3) by (auto simp: call_ok_def)
  let ?ev = "\<lparr>ev_id = ae_event (cl_env c), ev_assignment = as_id a, ev_task = cl_task c,
     ev_agent = Some (cl_agent c), ev_by = cl_by c, ev_at = ae_now (cl_env c),
     ev_action = cl_action c, ev_notes = cl_notes c\<rparr>"
  define m1 where "m1 = m\<lparr>ms_events := (ms_events m)(ae_event (cl_env c) \<mapsto> ?ev),
    ms_event_ids := (ms_event_ids m)(cl_task c := ms_event_ids m (cl_task c) @ [ae_event (cl_env c)])\<rparr>"
  have ap: "Event_Append (ae_event (cl_env c)) (ae_now (cl_env c)) ?ev m = Inr (?ev, m1)"
    using ok by (auto simp: Event_Append_def Let_def m1_def IsValidAssignmentAction_def
        AllAssignmentActions_def)
  have r: "res = Inr (c\<lparr>cl_phase := Logged a ?ev\<rparr>)" "m' = m1"
    using assms(3,4) ap by (auto simp: assign_part_def)
  have "events_inv m1"
    by (rule events_inv_Append [OF _ ap]) (use assms(1) ok(5) in \<open>simp_all add: assign_ready_def\<close>)
  then have "assign_ready m1"
    using assms(1) by (simp add: assign_ready_def assign_inv_def m1_def)
  moreover have "has_event m1 k" if "has_event m k" for k
  proof -
    obtain j e where "ms_events m j = Some e" "ev_assignment e = k"
      using \<open>has_event m k\<close> by (auto simp: has_event_def)
    moreover from this ok(5) have "j \<noteq> ae_event (cl_env c)" by auto
    ultimately show ?thesis by (auto simp: has_event_def m1_def)
  qed
  then have "extends {ae_assignment (cl_env c)} {ae_event (cl_env c)} m m1"
    by (auto simp: extends_def m1_def row_of_task_def)
  moreover have "goes_on c m1 res"
    using assms(2,3) by (auto simp: r goes_on_def call_ok_def m1_def unborn_def)
  moreover have "has_event m1 (as_id a)" by (auto simp: has_event_def m1_def)
  ultimately show ?thesis
    using assms(3) unfolding part_effect_def r
    by (auto simp: still_unborn_def unborn_def m1_def row_of_task_def split: if_splits)
qed

lemma part_Logged:
  assumes "assign_ready m" "call_ok m c" "cl_phase c = Logged a ev" "assign_part c m = (res, m')"
  shows "part_effect c m res m'"
proof -
  obtain t where t: "ms_tasks m (cl_task c) = Some t" "cl_task c \<noteq> uuid_nil"
    using assms(2) by (auto simp: call_ok_def)
  have k: "t_id t = cl_task c" using assms(1) t by (auto simp: assign_ready_def dest: keyed_byD)
  let ?t = "t\<lparr>t_assignee := cl_agent c, t_updated := ae_now (cl_env c)\<rparr>"
  have r: "m' = put_task ?t m" "\<exists>x. res = Inl (Inr x)"
    using assms(3,4) t by (auto simp: assign_part_def Task_GetByID_def Let_def)
  have "assign_ready m'"
    using assms(1) k t(2) by (simp add: r assign_ready_def keyed_by_upd)
  moreover have "extends {} {} m m'" unfolding r(1) by (rule put_task_extends)
  ultimately show ?thesis
    using r(2) assms(3) extends_mono [of "{}" "{}" m m'] unfolding part_effect_def
    by (auto simp: r(1) still_unborn_def unborn_def goes_on_def answered_def row_of_task_def)
qed

lemma part_does:
  assumes "assign_ready m" "call_ok m c" "assign_part c m = (res, m')"
  shows "part_effect c m res m'"
  using assms part_Checked part_Found part_Flipped part_Created part_Logged
  by (cases "cl_phase c") blast+

text \<open>The begin of a call writes the required capabilities of the task at most.\<close>

lemma begin_store:
  assumes "assign_ready m" "assign_begin ustr env taskID agentID msg assignedBy caps caller m = (res, m')"
  shows "assign_ready m' \<and> extends {} {} m m' \<and> ms_active m' = ms_active m
    \<and> ms_assignments m' = ms_assignments m \<and> ms_events m' = ms_events m"
proof -
  have "m' = m \<or> (\<exists>t. ms_tasks m taskID = Some t \<and> m' = put_task (required_task caps t) m)"
    using assms(2) unfolding assign_begin_def Let_def required_task_def
    by (auto simp: Task_GetByID_def split: if_splits option.splits sum.splits)
  with assms(1) put_task_extends show ?thesis by (auto intro: assign_ready_put(1))
qed

lemma begin_call:
  assumes "assign_ready m" "assign_begin ustr env taskID agentID msg assignedBy caps caller m = (Inr c, m')"
    and "fresh_env env m"
  shows "call_ok m' c \<and> cl_env c = env \<and> unborn c"
proof -
  obtain t where t: "ms_tasks m taskID = Some t" "ms_agents m agentID \<noteq> None"
      "m' = put_task (required_task caps t) m" "cl_env c = env" "cl_task c = taskID"
      "cl_agent c = agentID" "cl_action c \<in> {ActAssign, ActReassign}" "cl_phase c = Checked"
    using assms(2) unfolding assign_begin_def Let_def required_task_def
    by (auto simp: Task_GetByID_def Agent_GetByID_def split: if_splits option.splits sum.splits)
  moreover have "t_id t = taskID" "taskID \<noteq> uuid_nil" "agentID \<noteq> uuid_nil"
    using assms(1) t(1,2) by (auto simp: assign_ready_def dest: keyed_byD)
  ultimately show ?thesis
    using assms(3) by (auto simp: call_ok_def unborn_def fresh_env_def)
qed

lemma coveredD:
  assumes "covered s" "t \<in> rn_begun s \<or> row_of_task (rn_store s) k t" "ms_active (rn_store s) t = None"
  obtains i c where "rn_calls s i = Some c" "cl_task c = t" "unborn c"
  using assms unfolding covered_def by blast

lemma race_inv_refused:
  assumes "race_inv s" "assign_ready m'" "extends {} {} (rn_store s) m'"
    and "ms_active m' = ms_active (rn_store s)" "ms_assignments m' = ms_assignments (rn_store s)"
    and "ms_events m' = ms_events (rn_store s)"
  shows "race_inv (s\<lparr>rn_store := m'\<rparr>)"
  using assms(1,2,4-6) call_ok_extends [OF _ assms(3)]
  by (auto simp: race_inv_def apart_def covered_def trailed_def row_of_task_def has_event_def)

lemma race_inv_begins:
  assumes inv: "race_inv s" and i: "rn_calls s i = None" and new: "drawn (cl_env c) s"
    and c: "call_ok (rn_store s) c" "unborn c"
  shows "race_inv (started i c (rn_store s) s)"
proof -
  have ap: "apart s" using inv by (simp add: race_inv_def)
  have f: "ae_assignment (cl_env d) \<noteq> ae_assignment (cl_env c) \<and> ae_event (cl_env d) \<noteq> ae_event (cl_env c)"
    if "rn_calls s j = Some d" for j d
    using apartD(1,2) [OF ap that] new by (auto simp: drawn_def)
  have "apart (started i c (rn_store s) s)"
  proof (rule apartI)
    fix j d
    assume "rn_calls (started i c (rn_store s) s) j = Some d"
    with apartD(1-3) [OF ap, of j d]
    show "ae_assignment (cl_env d) \<in> rn_ids (started i c (rn_store s) s)
      \<and> ae_event (cl_env d) \<in> rn_ids (started i c (rn_store s) s)
      \<and> cl_task d \<in> rn_begun (started i c (rn_store s) s)"
      by (auto simp: started_def split: if_splits)
  next
    fix j d k e
    assume "rn_calls (started i c (rn_store s) s) j = Some d"
      "rn_calls (started i c (rn_store s) s) k = Some e" "k \<noteq> j"
    with f [of j d] f [of k e] apartD(4) [OF ap, of j d k e]
    show "ae_assignment (cl_env e) \<noteq> ae_assignment (cl_env d) \<and> ae_event (cl_env e) \<noteq> ae_event (cl_env d)"
      by (cases "j = i"; cases "k = i") (auto simp: started_def)
  qed
  moreover have "covered (started i c (rn_store s) s)"
    unfolding covered_def
  proof (intro allI impI)
    fix t
    assume t: "t \<in> rn_begun (started i c (rn_store s) s)
      \<or> (\<exists>k. row_of_task (rn_store (started i c (rn_store s) s)) k t)"
    show "ms_active (rn_store (started i c (rn_store s) s)) t \<noteq> None
      \<or> (\<exists>j d. rn_calls (started i c (rn_store s) s) j = Some d \<and> cl_task d = t \<and> unborn d)"
    proof (cases "t = cl_task c")
      case True
      with c(2) show ?thesis by (auto simp: started_def)
    next
      case False
      with t have "t \<in> rn_begun s \<or> (\<exists>k. row_of_task (rn_store s) k t)" by (auto simp: started_def)
      then have "ms_active (rn_store s) t \<noteq> None \<or> (\<exists>j d. rn_calls s j = Some d \<and> cl_task d = t \<and> unborn d)"
        using inv unfolding race_inv_def covered_def by blast
      with i show ?thesis by (auto simp: started_def) (metis option.distinct(1))
    qed
  qed
  moreover have "trailed (started i c (rn_store s) s)"
    unfolding trailed_def
  proof (intro allI impI)
    fix k
    assume "ms_assignments (rn_store (started i c (rn_store s) s)) k \<noteq> None"
    then have "has_event (rn_store s) k
        \<or> (\<exists>j d a. rn_calls s j = Some d \<and> cl_phase d = Created a \<and> as_id a = k)"
      using inv unfolding race_inv_def trailed_def by (auto simp: started_def)
    with i show "has_event (rn_store (started i c (rn_store s) s)) k
        \<or> (\<exists>j d a. rn_calls (started i c (rn_store s) s) j = Some d \<and> cl_phase d = Created a \<and> as_id a = k)"
      by (auto simp: started_def) (metis option.distinct(1))
  qed
  ultimately show ?thesis
    using inv c(1) by (auto simp: race_inv_def started_def)
qed

text \<open>A part of a call: the map of calls afterwards is \<open>f\<close>.\<close>

definition after_part :: "nat \<Rightarrow> assign_answer + assign_call \<Rightarrow> mem_store \<Rightarrow> assign_run \<Rightarrow> assign_run" where
  "after_part i res m s = (case res of
       Inr c' \<Rightarrow> s\<lparr>rn_store := m, rn_calls := (rn_calls s)(i \<mapsto> c')\<rparr>
     | Inl r \<Rightarrow> s\<lparr>rn_store := m, rn_calls := (rn_calls s)(i := None), rn_answers := r # rn_answers s\<rparr>)"

lemma after_part_simps [simp]:
  "rn_store (after_part i res m s) = m" "rn_ids (after_part i res m s) = rn_ids s"
  "rn_begun (after_part i res m s) = rn_begun s"
  "rn_calls (after_part i res m s) = (rn_calls s)(i := (case res of Inl _ \<Rightarrow> None | Inr c' \<Rightarrow> Some c'))"
  by (auto simp: after_part_def fun_eq_iff split: sum.split)

lemma race_inv_part:
  assumes inv: "race_inv s" and i: "rn_calls s i = Some c" and p: "part_effect c (rn_store s) res m'"
  shows "race_inv (after_part i res m' s)"
proof -
  let ?m = "rn_store s" and ?s = "after_part i res m' s"
  note p' = p [unfolded part_effect_def]
  from p' have go: "goes_on c m' res" by blast
  from p' have rows: "\<forall>t. (\<exists>k. row_of_task m' k t) \<longrightarrow> (\<exists>k. row_of_task ?m k t) \<or> t = cl_task c" by (elim conjE)
  from p' have born: "\<forall>k. ms_assignments m' k \<noteq> None \<and> ms_assignments ?m k = None \<longrightarrow>
      (\<exists>c' a. res = Inr c' \<and> cl_phase c' = Created a \<and> as_id a = k)" by (elim conjE)
  have others: "call_ok m' d" if "rn_calls s j = Some d" "j \<noteq> i" for j d
  proof (rule call_ok_extends)
    show "call_ok ?m d" using inv that(1) unfolding race_inv_def by blast
    show "extends {ae_assignment (cl_env c)} {ae_event (cl_env c)} ?m m'" using p' by blast
    show "ae_assignment (cl_env d) \<notin> {ae_assignment (cl_env c)}"
      "ae_event (cl_env d) \<notin> {ae_event (cl_env c)}"
      using inv that i unfolding race_inv_def apart_def by blast+
  qed
  have "call_ok m' d" if "rn_calls ?s j = Some d" for j d
    using that others go by (auto simp: goes_on_def split: if_splits sum.splits)
  moreover have ap: "apart s" using inv by (simp add: race_inv_def)
  have "\<exists>d'. rn_calls s j = Some d' \<and> cl_env d = cl_env d' \<and> cl_task d = cl_task d'"
    if "rn_calls ?s j = Some d" for j d
    using that i go by (auto simp: goes_on_def split: if_splits sum.splits)
  then have "apart ?s"
    using apartD [OF ap] by (intro apartI) (metis after_part_simps(2,3))+
  moreover have "covered ?s"
    unfolding covered_def
  proof (intro allI impI)
    fix t
    assume t: "t \<in> rn_begun ?s \<or> (\<exists>k. row_of_task (rn_store ?s) k t)"
    show "ms_active (rn_store ?s) t \<noteq> None \<or> (\<exists>j d. rn_calls ?s j = Some d \<and> cl_task d = t \<and> unborn d)"
    proof (cases "t = cl_task c \<and> still_unborn res")
      case True
      then obtain c' where "res = Inr c'" "unborn c'" "cl_task c' = t"
        using go by (auto simp: still_unborn_def goes_on_def split: sum.splits)
      then show ?thesis by auto
    next
      case False
      show ?thesis
      proof (cases "ms_active ?m t = None")
        case True
        have "t \<in> rn_begun s \<or> (\<exists>k. row_of_task ?m k t) \<or> t = cl_task c"
          using t rows by auto
        then have "t \<in> rn_begun s \<or> (\<exists>k. row_of_task ?m k t)" using apartD(3) [OF ap i] by auto
        then obtain j d where d: "rn_calls s j = Some d" "cl_task d = t" "unborn d"
          using inv True unfolding race_inv_def covered_def by blast
        show ?thesis
        proof (cases "j = i")
          case True
          with d i False p' show ?thesis by auto
        next
          case False
          with d show ?thesis by auto
        qed
      next
        case act: False
        with False p' show ?thesis by auto
      qed
    qed
  qed
  moreover have "trailed ?s"
    unfolding trailed_def
  proof (intro allI impI)
    fix k
    assume k: "ms_assignments (rn_store ?s) k \<noteq> None"
    show "has_event (rn_store ?s) k
        \<or> (\<exists>j d a. rn_calls ?s j = Some d \<and> cl_phase d = Created a \<and> as_id a = k)"
    proof (cases "ms_assignments ?m k = None")
      case True
      with k born obtain c' a where "res = Inr c'" "cl_phase c' = Created a" "as_id a = k" by auto
      then show ?thesis by auto
    next
      case False
      then consider "has_event ?m k"
        | j d a where "rn_calls s j = Some d" "cl_phase d = Created a" "as_id a = k"
        using inv unfolding race_inv_def trailed_def by blast
      then show ?thesis
      proof cases
        case 1
        with p' show ?thesis by (simp add: extends_def)
      next
        case 2
        with i p' show ?thesis by (cases "j = i") auto
      qed
    qed
  qed
  moreover have "\<forall>r \<in> set (rn_answers ?s). answered r"
    using inv go unfolding race_inv_def by (auto simp: after_part_def goes_on_def split: sum.splits)
  ultimately show ?thesis using p' unfolding race_inv_def by simp
qed

definition assign_settled :: "mem_store \<Rightarrow> bool" where
  "assign_settled m \<longleftrightarrow> assign_ready m
     \<and> (\<forall>t. (\<exists>k. row_of_task m k t) \<longrightarrow> ms_active m t \<noteq> None)
     \<and> (\<forall>k. ms_assignments m k \<noteq> None \<longrightarrow> has_event m k)"

lemma race_inv_idle: "assign_settled m \<Longrightarrow> race_inv (idle_run m)"
  by (simp add: race_inv_def assign_settled_def idle_run_def apart_def covered_def trailed_def)

lemma race_inv_race: "assign_race ustr s0 s \<Longrightarrow> race_inv s0 \<Longrightarrow> race_inv s"
proof (induction rule: assign_race.induct)
  case idle
  then show ?case .
next
  case (begins s i env taskID agentID msg assignedBy caps caller c m')
  then have inv: "race_inv s" by simp
  then have r: "assign_ready (rn_store s)" by (simp add: race_inv_def)
  note st = begin_store [OF r begins(4)]
  note c = begin_call [OF r begins(4)]
  have inv': "race_inv (s\<lparr>rn_store := m'\<rparr>)"
    by (rule race_inv_refused [OF inv]) (use st in blast)+
  have "race_inv (started i c m' (s\<lparr>rn_store := m'\<rparr>))"
    using race_inv_begins [OF inv', of i c] begins(2,3) c st by (simp add: drawn_def fresh_env_def)
  then show ?case by (simp add: started_def)
next
  case (refused s env taskID agentID msg assignedBy caps caller r m')
  then have inv: "race_inv s" by simp
  then have "assign_ready (rn_store s)" by (simp add: race_inv_def)
  note st = begin_store [OF this refused(2)]
  show ?case by (rule race_inv_refused [OF inv]) (use st in blast)+
next
  case (part s i c c' m')
  then have inv: "race_inv s" by simp
  then have "assign_ready (rn_store s)" "call_ok (rn_store s) c"
    using part(2) by (auto simp: race_inv_def)
  from race_inv_part [OF inv part(2) part_does [OF this part(3)]]
  show ?case by (simp add: after_part_def)
next
  case (ends s i c r m')
  then have inv: "race_inv s" by simp
  then have "assign_ready (rn_store s)" "call_ok (rn_store s) c"
    using ends(2) by (auto simp: race_inv_def)
  from race_inv_part [OF inv ends(2) part_does [OF this ends(3)]]
  show ?case by (simp add: after_part_def)
qed

section \<open>Properties\<close>

text \<open>
  C22: assignment calls may overlap in any way. A task never has two active assignments. A call that
  has passed its checks ends with a success or with the race conflict, never with an internal
  error. When all calls have ended, every task that such a call was for has its one active
  assignment, even if calls were refused, and every assignment has its event.
\<close>

theorem overlapping_assignments_settle:
  assumes "assign_settled m" "assign_race ustr (idle_run m) s"
  shows "(\<forall>j k a b. ms_assignments (rn_store s) j = Some a \<longrightarrow> ms_assignments (rn_store s) k = Some b
            \<longrightarrow> as_status a = AsActive \<longrightarrow> as_status b = AsActive \<longrightarrow> as_task a = as_task b \<longrightarrow> j = k)
    \<and> (\<forall>r \<in> set (rn_answers s). r = tx_refusal ErrAlreadyExists \<or> (\<exists>x. r = Inr x))
    \<and> (rn_calls s = Map.empty \<longrightarrow> assign_settled (rn_store s)
         \<and> (\<forall>t \<in> rn_begun s. \<exists>a. Assignment_GetActiveByTask t (rn_store s) = Inr a))"
proof -
  have inv: "race_inv s" by (rule race_inv_race [OF assms(2) race_inv_idle [OF assms(1)]])
  then have ai: "assign_ready (rn_store s)" "assign_inv (rn_store s)"
    by (simp_all add: race_inv_def assign_ready_def)
  have "assign_settled (rn_store s) \<and> (\<forall>t \<in> rn_begun s. \<exists>a. Assignment_GetActiveByTask t (rn_store s) = Inr a)"
    if idle: "rn_calls s = Map.empty"
  proof
    have "covered s" "trailed s" using inv by (simp_all add: race_inv_def)
    then have act: "\<forall>t. t \<in> rn_begun s \<or> (\<exists>k. row_of_task (rn_store s) k t) \<longrightarrow> ms_active (rn_store s) t \<noteq> None"
      and ev: "\<forall>k. ms_assignments (rn_store s) k \<noteq> None \<longrightarrow> has_event (rn_store s) k"
      by (simp_all add: covered_def trailed_def idle)
    then show "assign_settled (rn_store s)" using ai(1) by (auto simp: assign_settled_def)
    show "\<forall>t \<in> rn_begun s. \<exists>a. Assignment_GetActiveByTask t (rn_store s) = Inr a"
    proof
      fix t assume "t \<in> rn_begun s"
      with act obtain k where k: "ms_active (rn_store s) t = Some k" by auto
      with assign_inv_index [OF ai(2)] obtain a where "ms_assignments (rn_store s) k = Some a" by auto
      with k show "\<exists>a. Assignment_GetActiveByTask t (rn_store s) = Inr a"
        by (simp add: Assignment_GetActiveByTask_def)
    qed
  qed
  moreover have "\<forall>r \<in> set (rn_answers s). r = tx_refusal ErrAlreadyExists \<or> (\<exists>x. r = Inr x)"
    using inv by (auto simp: race_inv_def answered_def)
  ultimately show ?thesis using one_active [OF ai(2)] by blast
qed

definition race_store :: mem_store where
  "race_store = sample_assign\<lparr>ms_agents := [6 \<mapsto> sample_agent 6 [''coding''], 7 \<mapsto> sample_agent 7 [''coding'']]\<rparr>"

definition second_env :: assign_env where
  "second_env = \<lparr>ae_now = 6, ae_assignment = 20, ae_event = 21\<rparr>"

lemma race_store_settled: "assign_settled race_store"
  by (simp add: assign_settled_def race_store_def assign_ready_def sample_assign_def assign_inv_def
      events_inv_def keyed_by_def NewMemoryStore_def row_of_task_def)

lemma race_parts:
  "run_parts n (Inr c, rn_store s) = (Inr c', m') \<Longrightarrow> assign_race ustr s0 s \<Longrightarrow> rn_calls s i = Some c
    \<Longrightarrow> assign_race ustr s0 (s\<lparr>rn_store := m', rn_calls := (rn_calls s)(i \<mapsto> c')\<rparr>)"
proof (induction n arbitrary: c s)
  case 0
  then have e: "s\<lparr>rn_store := m', rn_calls := (rn_calls s)(i \<mapsto> c')\<rparr> = s" by (auto simp: fun_upd_idem)
  show ?case unfolding e by (rule 0(2))
next
  case (Suc n)
  then obtain d m1 where d: "assign_part c (rn_store s) = (Inr d, m1)" "run_parts n (Inr d, m1) = (Inr c', m')"
    by (cases "assign_part c (rn_store s)"; cases "fst (assign_part c (rn_store s))") auto
  let ?s = "s\<lparr>rn_store := m1, rn_calls := (rn_calls s)(i \<mapsto> d)\<rparr>"
  from Suc.IH [of d ?s] d assign_race.part [OF Suc.prems(2,3) d(1)] show ?case
    by (simp del: fun_upd_apply add: fun_upd_same)
qed

lemma race_ends:
  "run_parts n (Inr c, rn_store s) = (Inl r, m') \<Longrightarrow> assign_race ustr s0 s \<Longrightarrow> rn_calls s i = Some c
    \<Longrightarrow> assign_race ustr s0 (s\<lparr>rn_store := m', rn_calls := (rn_calls s)(i := None),
          rn_answers := r # rn_answers s\<rparr>)"
proof (induction n arbitrary: c s)
  case (Suc n)
  show ?case
  proof (cases "assign_part c (rn_store s)")
    case (Pair res m1)
    show ?thesis
    proof (cases res)
      case (Inl q)
      with Suc.prems(1) Pair have e: "assign_part c (rn_store s) = (Inl r, m')" by auto
      show ?thesis by (rule assign_race.ends [OF Suc.prems(2,3) e])
    next
      case (Inr d)
      let ?s = "s\<lparr>rn_store := m1, rn_calls := (rn_calls s)(i \<mapsto> d)\<rparr>"
      from Suc.IH [of d ?s] Pair Inr Suc.prems(1) assign_race.part [OF Suc.prems(2,3), of d m1]
      show ?thesis by (simp del: fun_upd_apply add: fun_upd_same)
    qed
  qed
qed simp

text \<open>
  The first call is past its transaction when the second, for another agent, is made and ends; then
  the first writes the task row.
\<close>

lemma run_parts_3: "run_parts 3 (Inr c, m) = run_parts 2 (assign_part c m)"
  using run_parts.simps(3) [of 2 c m] by simp

lemma run_parts_2: "run_parts 2 (Inr c, m) = run_parts 1 (assign_part c m)"
  using run_parts.simps(3) [of 1 c m] by (simp add: numeral_2_eq_2)

lemmas run_parts_num = run_parts_5 run_parts_4 run_parts_3 run_parts_2

lemma race_of_two:
  "\<exists>s x y. assign_race (\<lambda>_. '''') (idle_run race_store) s \<and> rn_calls s = Map.empty
     \<and> rn_answers s = [Inr x, Inr y] \<and> rn_begun s = {1}
     \<and> (\<exists>t. ms_tasks (rn_store s) 1 = Some t \<and> t_assignee t = 6)
     \<and> Assignment_GetActiveByTask 1 (rn_store s) = Inr (new_assignment second_env 1 7)"
proof -
  note ev = assign_begin_def assign_part_def race_store_def assign_eval new_assignment_def second_env_def
    Assignment_Update_def fresh_env_def
  let ?u = "\<lambda>_. ''''"
  let ?b = "assign_begin ?u sample_assign_env 1 6 '''' None [] 3 race_store"
  let ?p = "run_parts 3 ?b"
  let ?b2 = "assign_begin ?u second_env 1 7 '''' None [] 3 (snd ?p)"
  let ?q = "run_parts 5 ?b2"
  let ?z = "run_parts 1 (fst ?p, snd ?q)"
  have "\<exists>c m1. ?b = (Inr c, m1) \<and> cl_env c = sample_assign_env \<and> cl_task c = 1" by (simp add: ev)
  moreover have "\<exists>d m2. ?p = (Inr d, m2) \<and> fresh_env second_env m2" by (simp add: ev run_parts_num)
  moreover have "\<exists>e m3. ?b2 = (Inr e, m3) \<and> cl_env e = second_env \<and> cl_task e = 1"
    by (simp add: ev run_parts_num)
  moreover have "\<exists>y m4. ?q = (Inl (Inr y), m4)" by (simp add: ev run_parts_num)
  moreover have "\<exists>x m5. ?z = (Inl (Inr x), m5) \<and> (\<exists>t. ms_tasks m5 1 = Some t \<and> t_assignee t = 6)
      \<and> Assignment_GetActiveByTask 1 m5 = Inr (new_assignment second_env 1 7)"
    by (simp add: ev run_parts_num)
  ultimately obtain c m1 d m2 e m3 y m4 x m5 where
      b: "?b = (Inr c, m1)" and p': "?p = (Inr d, m2)" and fr: "fresh_env second_env m2"
    and b2': "?b2 = (Inr e, m3)" and p2': "?q = (Inl (Inr y), m4)" and p3': "?z = (Inl (Inr x), m5)"
    and ids: "cl_env c = sample_assign_env" "cl_task c = 1" "cl_env e = second_env" "cl_task e = 1"
    and res: "\<exists>t. ms_tasks m5 1 = Some t \<and> t_assignee t = 6"
      "Assignment_GetActiveByTask 1 m5 = Inr (new_assignment second_env 1 7)"
    by blast
  have p: "run_parts 3 (Inr c, m1) = (Inr d, m2)" using p' b by simp
  have b2: "assign_begin ?u second_env 1 7 '''' None [] 3 m2 = (Inr e, m3)" using b2' p' by simp
  have p2: "run_parts 5 (Inr e, m3) = (Inl (Inr y), m4)" using p2' b2' by simp
  have p3: "run_parts 1 (Inr d, m4) = (Inl (Inr x), m5)" using p3' p' p2' by simp
  define s1 where "s1 = started 0 c m1 (idle_run race_store)"
  define s2 where "s2 = s1\<lparr>rn_store := m2, rn_calls := (rn_calls s1)(0 \<mapsto> d)\<rparr>"
  define s3 where "s3 = started 1 e m3 s2"
  define s4 where "s4 = s3\<lparr>rn_store := m4, rn_calls := (rn_calls s3)(1 := None),
    rn_answers := Inr y # rn_answers s3\<rparr>"
  define s5 where "s5 = s4\<lparr>rn_store := m5, rn_calls := (rn_calls s4)(0 := None),
    rn_answers := Inr x # rn_answers s4\<rparr>"
  have dr: "drawn sample_assign_env (idle_run race_store)" by (simp add: ev drawn_def idle_run_def)
  have bs: "assign_begin ?u sample_assign_env 1 6 '''' None [] 3 (rn_store (idle_run race_store)) = (Inr c, m1)"
    using b by (simp add: idle_run_def)
  have t1: "assign_race ?u (idle_run race_store) s1"
    unfolding s1_def by (rule assign_race.begins [OF assign_race.idle _ dr bs]) (simp add: idle_run_def)
  have t2: "assign_race ?u (idle_run race_store) s2"
    unfolding s2_def by (rule race_parts [OF _ t1]) (use p in \<open>simp_all add: s1_def started_def\<close>)
  have dr2: "drawn second_env s2"
    using fr ids by (simp add: drawn_def s2_def s1_def started_def idle_run_def sample_assign_env_def
        second_env_def)
  have b2s: "assign_begin ?u second_env 1 7 '''' None [] 3 (rn_store s2) = (Inr e, m3)"
    using b2 by (simp add: s2_def)
  have t3: "assign_race ?u (idle_run race_store) s3"
    unfolding s3_def
    by (rule assign_race.begins [OF t2 _ dr2 b2s]) (simp add: s2_def s1_def started_def idle_run_def)
  have t4: "assign_race ?u (idle_run race_store) s4"
    unfolding s4_def by (rule race_ends [where n = 5, OF _ t3]) (use p2 in \<open>simp_all add: s3_def started_def\<close>)
  have t5: "assign_race ?u (idle_run race_store) s5"
    unfolding s5_def
    by (rule race_ends [where n = 1, OF _ t4]) (use p3 in \<open>simp_all add: s4_def s3_def s2_def started_def\<close>)
  have "rn_calls s5 = Map.empty" "rn_answers s5 = [Inr x, Inr y]" "rn_begun s5 = {1}" "rn_store s5 = m5"
    using ids by (simp_all add: s5_def s4_def s3_def s2_def s1_def started_def idle_run_def fun_eq_iff)
  with t5 res show ?thesis by blast
qed

text \<open>Two overlapping calls settle on one active assignment, here that of the second.\<close>

theorem overlapping_assignments_settle_witness:
  "\<exists>s. assign_race (\<lambda>_. '''') (idle_run race_store) s \<and> length (rn_answers s) = 2
     \<and> assign_settled (rn_store s) \<and> (\<exists>a. Assignment_GetActiveByTask 1 (rn_store s) = Inr a)"
proof -
  obtain s x y where s: "assign_race (\<lambda>_. '''') (idle_run race_store) s" "rn_calls s = Map.empty"
      "rn_answers s = [Inr x, Inr y]" "rn_begun s = {1}"
    using race_of_two by blast
  with overlapping_assignments_settle [OF race_store_settled s(1)] show ?thesis by auto
qed

text \<open>
  C23: the task row is written after the transaction, so it can go wrong for good: two overlapping
  calls both succeed, none is under way any more, and the assignee of the task is the agent of the
  first while the one active assignment is to the agent of the second.
\<close>

theorem assignee_race:
  "\<exists>s x y. assign_race (\<lambda>_. '''') (idle_run race_store) s \<and> rn_calls s = Map.empty
     \<and> rn_answers s = [Inr x, Inr y] \<and> assign_settled (rn_store s) \<and> \<not> assignee_agrees (rn_store s)"
proof -
  obtain s x y t where s: "assign_race (\<lambda>_. '''') (idle_run race_store) s" "rn_calls s = Map.empty"
      "rn_answers s = [Inr x, Inr y]" "ms_tasks (rn_store s) 1 = Some t" "t_assignee t = 6"
      "Assignment_GetActiveByTask 1 (rn_store s) = Inr (new_assignment second_env 1 7)"
    using race_of_two by blast
  have "race_inv s" by (rule race_inv_race [OF s(1) race_inv_idle [OF race_store_settled]])
  with s(2) have "assign_settled (rn_store s)"
    by (auto simp: race_inv_def assign_settled_def covered_def trailed_def)
  moreover have "\<not> assignee_agrees (rn_store s)"
  proof
    assume "assignee_agrees (rn_store s)"
    with s(4) have "t_assignee t = (case Assignment_GetActiveByTask 1 (rn_store s) of
        Inl _ \<Rightarrow> uuid_nil | Inr a \<Rightarrow> as_agent a)"
      unfolding assignee_agrees_def by blast
    with s(5,6) show False by (simp add: new_assignment_def)
  qed
  ultimately show ?thesis using s(1-3) by blast
qed

end
