(* ===== verification/Packages.thy ===== *)
theory Packages
  imports Agent_Factory Execution_Api Dispatch
begin

text \<open>
  The small packages and remainders: pkg/errors, the level of internal/logger, the constructors of
  internal/integration, the signal of internal/agentfactory on each platform, the text and the
  length check of internal/validation, the run statuses of model/agent.go, and the options of the
  dispatch queue.
\<close>

section \<open>Wrapped errors (pkg/errors)\<close>

text \<open>An error value: the wrapper with its code, message and cause, or another error with its text.\<close>

datatype app_error =
    AppError string string "app_error option"
  | OtherError string

definition New_error :: "string \<Rightarrow> string \<Rightarrow> app_error" where
  "New_error code message = AppError code message None"

definition Wrap :: "app_error option \<Rightarrow> string \<Rightarrow> string \<Rightarrow> app_error" where
  "Wrap err code message = AppError code message err"

fun app_error_text :: "app_error \<Rightarrow> string" where
  "app_error_text (AppError _ message (Some err)) = message @ '': '' @ app_error_text err"
| "app_error_text (AppError _ message None) = message"
| "app_error_text (OtherError text) = text"

fun Unwrap :: "app_error \<Rightarrow> app_error option" where
  "Unwrap (AppError _ _ err) = err"
| "Unwrap (OtherError _) = None"

text \<open>The walk of errors.Is and errors.As, and the text of each error on it.\<close>

fun error_chain :: "app_error \<Rightarrow> app_error list" where
  "error_chain (AppError code message (Some err)) = AppError code message (Some err) # error_chain err"
| "error_chain e = [e]"

fun own_text :: "app_error \<Rightarrow> string" where
  "own_text (AppError _ message _) = message"
| "own_text (OtherError text) = text"

lemma error_chain_hd: "\<exists>es. error_chain e = e # es"
  by (cases e rule: error_chain.cases) auto

lemma error_chain_Unwrap: "Unwrap e = Some e' \<Longrightarrow> error_chain e = e # error_chain e'"
  by (cases e rule: error_chain.cases) auto

text \<open>The text of an error is the texts along the walk, so that no cause is lost.\<close>

lemma app_error_text_chain: "app_error_text e = strings_join (map own_text (error_chain e)) '': ''"
proof (induction e rule: app_error_text.induct)
  case (1 code message err)
  obtain es where "error_chain err = err # es" using error_chain_hd by blast
  with 1 show ?case by simp
qed auto

lemma Wrap_chain: "error_chain (Wrap (Some e) code message) = Wrap (Some e) code message # error_chain e"
  by (simp add: Wrap_def)

section \<open>The level of the logger (logger/logger.go)\<close>

datatype zap_level = DebugLevel | InfoLevel | WarnLevel | ErrorLevel

text \<open>\<open>production\<close> is the level of the production configuration of the logging library.\<close>

definition logger_level :: "zap_level \<Rightarrow> string \<Rightarrow> zap_level" where
  "logger_level production level =
     (if level = ''debug'' then DebugLevel
      else if level = ''info'' then InfoLevel
      else if level = ''warn'' then WarnLevel
      else if level = ''error'' then ErrorLevel
      else production)"

text \<open>Any other spelling, upper case included, is taken without an error and leaves the default.\<close>

lemma logger_level_other: "level \<notin> {''debug'', ''info'', ''warn'', ''error''} \<Longrightarrow> logger_level p level = p"
  by (simp add: logger_level_def)

section \<open>The stores of the integration tests (integration/store.go)\<close>

definition integration_NewPostgresStore :: "string \<Rightarrow> string + mem_store" where
  "integration_NewPostgresStore url =
     Inl ''Postgres-backed store not implemented for Sprint 4; see Sprint 5 plan''"

section \<open>The signal of a shutdown (agentfactory/signals\_linux.go, signals\_other.go)\<close>

datatype platform = Linux | OtherPlatform

text \<open>The error of the call, if any. \<open>kill\<close> is the answer of the system to the signal.\<close>

definition signalTerm :: "platform \<Rightarrow> (int \<Rightarrow> string option) \<Rightarrow> int \<Rightarrow> string option" where
  "signalTerm pl kill pid =
     (case pl of
        Linux \<Rightarrow> kill pid
      | OtherPlatform \<Rightarrow> Some (''agentfactory: signalTerm not implemented on this platform; ''
          @ ''use os.FindProcess + os.Process.Signal instead''))"

text \<open>The processes that a shutdown really signals: those whose call gives no error.\<close>

definition delivered :: "platform \<Rightarrow> (int \<Rightarrow> string option) \<Rightarrow> int list \<Rightarrow> int list" where
  "delivered pl kill pids = filter (\<lambda>p. signalTerm pl kill p = None) pids"

text \<open>
  Off Linux a shutdown signals no process, and its answer and the factory it leaves are the same:
  the handles are dropped with the processes running, until the runtime closes.
\<close>

lemma shutdown_off_linux:
  "delivered OtherPlatform kill (snd (snd (Shutdown ks close fa))) = []"
  "\<not> fa_stopped fa \<Longrightarrow> Shutdown ks close fa
     = (close, fa\<lparr>fa_stopped := True, fa_tracked := Map.empty\<rparr>, snd (snd (Shutdown ks close fa)))"
  by (simp_all add: delivered_def signalTerm_def Shutdown_def)

section \<open>Run statuses (model/agent.go)\<close>

datatype agent_run_status = RunPending | RunRunning | RunCompleted | RunFailed | RunCancelled | RunOther string

fun run_status_str :: "agent_run_status \<Rightarrow> string" where
  "run_status_str RunPending = ''pending''"
| "run_status_str RunRunning = ''running''"
| "run_status_str RunCompleted = ''completed''"
| "run_status_str RunFailed = ''failed''"
| "run_status_str RunCancelled = ''cancelled''"
| "run_status_str (RunOther s) = s"

definition AllAgentRunStatuses :: "agent_run_status list" where
  "AllAgentRunStatuses = [RunPending, RunRunning, RunCompleted, RunFailed, RunCancelled]"

definition IsValidAgentRunStatus :: "agent_run_status \<Rightarrow> bool" where
  "IsValidAgentRunStatus s \<longleftrightarrow> s \<in> set AllAgentRunStatuses"

text \<open>
  They are said to be the statuses of the executions table. Two of the five are no status of an
  execution, and three statuses of executions are none of them.
\<close>

lemma run_statuses_differ:
  "filter (\<lambda>s. \<not> IsValidExecutionStatus (exec_status_of (run_status_str s))) AllAgentRunStatuses
     = [RunPending, RunCancelled]"
  "filter (\<lambda>s. exec_status_str s \<notin> run_status_str ` set AllAgentRunStatuses) AllExecutionStatuses
     = [ExQueued, ExAssigned, ExReview]"
  by (simp_all add: AllAgentRunStatuses_def exec_status_of_def AllExecutionStatuses_def)

section \<open>The text of validation errors and the length check (validation/validate.go)\<close>

definition validation_text :: "field_errors \<Rightarrow> string" where
  "validation_text ve =
     (if ve = [] then ''validation: no errors''
      else ''validation: '' @ strings_join (map (\<lambda>e. fe_field e @ '': '' @ fe_message e) ve) ''; '')"

text \<open>
  utf8.RuneCountInString: the width of the first rune, which is one for a byte that does not start
  a well-formed sequence. \<open>follow n lo hi bs\<close>: n more bytes, the first from lo to hi, the others
  from 0x80 to 0xBF.
\<close>

definition follow :: "nat \<Rightarrow> nat \<Rightarrow> nat \<Rightarrow> nat list \<Rightarrow> bool" where
  "follow n lo hi bs \<longleftrightarrow> n \<le> length bs \<and> lo \<le> bs ! 0 \<and> bs ! 0 \<le> hi
     \<and> list_all (\<lambda>b. 128 \<le> b \<and> b \<le> 191) (drop 1 (take n bs))"

fun rune_width :: "nat list \<Rightarrow> nat" where
  "rune_width [] = 0"
| "rune_width (b # bs) =
     (if 194 \<le> b \<and> b \<le> 223 \<and> follow 1 128 191 bs then 2
      else if 224 \<le> b \<and> b \<le> 239
              \<and> follow 2 (if b = 224 then 160 else 128) (if b = 237 then 159 else 191) bs then 3
      else if 240 \<le> b \<and> b \<le> 244
              \<and> follow 3 (if b = 240 then 144 else 128) (if b = 244 then 143 else 191) bs then 4
      else 1)"

function RuneCount :: "nat list \<Rightarrow> nat" where
  "RuneCount [] = 0"
| "RuneCount (b # bs) = Suc (RuneCount (drop (rune_width (b # bs)) (b # bs)))"
  by pat_completeness auto
termination
  by (relation "measure length") (auto simp del: drop_Suc_Cons simp: Let_def)

declare RuneCount.simps(2) [simp del]

definition MaxLength :: "string \<Rightarrow> int \<Rightarrow> string \<Rightarrow> string \<Rightarrow> field_errors \<Rightarrow> field_errors" where
  "MaxLength value mx fld label errs =
     (if int (RuneCount (map of_char value)) > mx
      then add_field_error fld (label @ '' exceeds maximum length of '' @ Sprintf_d mx) errs
      else errs)"

text \<open>The encoding of code points, against which the count is checked.\<close>

definition utf8 :: "nat \<Rightarrow> nat list" where
  "utf8 c =
     (if c < 128 then [c]
      else if c < 2048 then [192 + c div 64, 128 + c mod 64]
      else if c < 65536 then [224 + c div 4096, 128 + c div 64 mod 64, 128 + c mod 64]
      else [240 + c div 262144, 128 + c div 4096 mod 64, 128 + c div 64 mod 64, 128 + c mod 64])"

definition scalar_value :: "nat \<Rightarrow> bool" where
  "scalar_value c \<longleftrightarrow> c < 1114112 \<and> \<not> (55296 \<le> c \<and> c < 57344)"

lemma RuneCount_drop: "bs \<noteq> [] \<Longrightarrow> RuneCount bs = Suc (RuneCount (drop (rune_width bs) bs))"
  by (cases bs) (simp_all add: RuneCount.simps(2))

lemma split64: "(c :: nat) div 64 = 64 * (c div 4096) + c div 64 mod 64"
  using mult_div_mod_eq [of 64 "c div 64"] by (simp add: div_mult2_eq [symmetric])

lemma split4096: "(c :: nat) div 4096 = 64 * (c div 262144) + c div 4096 mod 64"
  using mult_div_mod_eq [of 64 "c div 4096"] by (simp add: div_mult2_eq [symmetric])

lemma rune_width_utf8: "scalar_value c \<Longrightarrow> rune_width (utf8 c @ bs) = length (utf8 c)"
proof -
  assume c: "scalar_value c"
  have r: "c mod 64 < 64" "c div 64 mod 64 < 64" "c div 4096 mod 64 < 64" by simp_all
  consider "c < 128" | "128 \<le> c" "c < 2048" | "2048 \<le> c" "c < 65536" | "65536 \<le> c" by linarith
  then show ?thesis
  proof cases
    case 1
    then show ?thesis by (simp add: utf8_def)
  next
    case 2
    then have "2 \<le> c div 64" "c div 64 < 32" by (auto simp: less_mult_imp_div_less)
    with 2 r show ?thesis by (simp add: utf8_def follow_def)
  next
    case 3
    have d: "c div 4096 < 16" using 3 by (simp add: less_mult_imp_div_less)
    have e: "32 \<le> c div 64 mod 64" if "c div 4096 = 0"
      using that 3 div_le_mono [of 2048 c 64] split64 [of c] by simp
    have f: "c div 64 mod 64 < 32" if t: "c div 4096 = 13"
    proof -
      have "c < 57344" using t div_le_mono [of 57344 c 4096] by (simp add: not_less [symmetric])
      with c have "c < 55296" by (simp add: scalar_value_def)
      then have "c div 64 < 864" by (simp add: less_mult_imp_div_less)
      with t split64 [of c] show ?thesis by simp
    qed
    show ?thesis using 3 r d e f by (auto simp: utf8_def follow_def)
  next
    case 4
    have n: "c < 1114112" using c by (simp add: scalar_value_def)
    then have d: "c div 262144 < 5" by (simp add: less_mult_imp_div_less)
    have e: "16 \<le> c div 4096 mod 64" if "c div 262144 = 0"
      using that 4 div_le_mono [of 65536 c 4096] split4096 [of c] by simp
    have f: "c div 4096 mod 64 < 16" if t: "c div 262144 = 4"
    proof -
      have "c div 4096 < 272" using n by (simp add: less_mult_imp_div_less)
      with t split4096 [of c] show ?thesis by simp
    qed
    show ?thesis using 4 r d e f by (auto simp: utf8_def follow_def)
  qed
qed

text \<open>Of a text in UTF-8 the check counts the code points.\<close>

lemma RuneCount_utf8: "list_all scalar_value cs \<Longrightarrow> RuneCount (concat (map utf8 cs)) = length cs"
proof (induction cs)
  case (Cons c cs)
  have "utf8 c \<noteq> []" by (simp add: utf8_def)
  with Cons show ?case
    using RuneCount_drop [of "utf8 c @ concat (map utf8 cs)"] by (simp add: rune_width_utf8)
qed simp

lemma rune_width_pos: "bs \<noteq> [] \<Longrightarrow> 1 \<le> rune_width bs"
  by (cases bs) auto

lemma RuneCount_le: "RuneCount bs \<le> length bs"
proof (induction bs rule: RuneCount.induct)
  case (2 b bs)
  with rune_width_pos [of "b # bs"] show ?case by (simp add: RuneCount.simps(2))
qed simp

text \<open>A text of at most the maximal number of bytes passes.\<close>

lemma MaxLength_short: "int (length value) \<le> mx \<Longrightarrow> MaxLength value mx fld label errs = errs"
  using RuneCount_le [of "map of_char value"] by (simp add: MaxLength_def)

section \<open>The options of the dispatch queue (dispatch/queue.go)\<close>

datatype queue_option = WithBufferSize int | WithMaxAttempts int | WithNonBlocking

text \<open>The settings: buffer size, retry cap, and whether Enqueue refuses when the buffer is full.\<close>

fun set_option :: "queue_option \<Rightarrow> int \<times> int \<times> bool \<Rightarrow> int \<times> int \<times> bool" where
  "set_option (WithBufferSize n) (b, mx, nb) = (n, mx, nb)"
| "set_option (WithMaxAttempts n) (b, mx, nb) = (b, n, nb)"
| "set_option WithNonBlocking (b, mx, nb) = (b, mx, True)"

text \<open>A channel of negative size panics; one that is too large for the memory is left aside.\<close>

definition NewInMemoryQueue_with :: "queue_option list \<Rightarrow> dispatch_queue option" where
  "NewInMemoryQueue_with opts =
     (case fold set_option opts (1024, 3, False) of
        (b, mx, nb) \<Rightarrow> if b < 0 then None else Some (NewInMemoryQueue (Some (nat b)) (Some mx) nb))"

definition last_option :: "(queue_option \<Rightarrow> int option) \<Rightarrow> int \<Rightarrow> queue_option list \<Rightarrow> int" where
  "last_option f d opts = fold (\<lambda>op x. case f op of None \<Rightarrow> x | Some n \<Rightarrow> n) opts d"

text \<open>The last option of a kind counts; the rest of the queue is that of NewInMemoryQueue.\<close>

lemma fold_set_option:
  "fold set_option opts (b, mx, nb)
     = (last_option (\<lambda>op. case op of WithBufferSize n \<Rightarrow> Some n | _ \<Rightarrow> None) b opts,
        last_option (\<lambda>op. case op of WithMaxAttempts n \<Rightarrow> Some n | _ \<Rightarrow> None) mx opts,
        nb \<or> WithNonBlocking \<in> set opts)"
  by (induction opts arbitrary: b mx nb) (auto simp: last_option_def split: queue_option.splits)

lemma queue_without_options: "NewInMemoryQueue_with [] = Some (NewInMemoryQueue None None False)"
  by (simp add: NewInMemoryQueue_with_def NewInMemoryQueue_def)

lemma negative_buffer_panics:
  "NewInMemoryQueue_with opts = None
    \<longleftrightarrow> last_option (\<lambda>op. case op of WithBufferSize n \<Rightarrow> Some n | _ \<Rightarrow> None) 1024 opts < 0"
  by (simp add: NewInMemoryQueue_with_def fold_set_option split: prod.split)

section \<open>The wait of Stop (dispatch/dispatcher.go)\<close>

text \<open>
  What Stop sees first: all workers gone, or the end of its own context. It can take the first case
  only when every worker has left. The inner None is the answer nil; the outer None means that the
  case is not ready. A Stop of a dispatcher that does not run answers nil without waiting.
\<close>

datatype stop_event = WorkersGone | StopContextDone string

definition Stop_answer :: "stop_event \<Rightarrow> dispatcher \<Rightarrow> string option option" where
  "Stop_answer e d =
     (if \<not> ds_running d then Some None
      else case e of
             WorkersGone \<Rightarrow> if list_all (\<lambda>w. w = WGone) (ds_workers d) then Some None else None
           | StopContextDone err \<Rightarrow> Some (Some err))"

text \<open>
  A nil answer of the first Stop means that the workers are gone; that of a second one does not, also
  when the first has timed out and left them running.
\<close>

lemma first_Stop_waits:
  "ds_running d \<Longrightarrow> Stop_answer e d = Some None \<Longrightarrow> \<forall>w \<in> set (ds_workers d). w = WGone"
  by (auto simp: Stop_answer_def list_all_iff split: stop_event.splits if_splits)

lemma second_Stop_does_not_wait: "Stop_answer e (Stop d) = Some None"
  by (simp add: Stop_answer_def Stop_def)

end
