(* ===== verification/Spec2Isabelle.thy ===== *)
theory Spec2Isabelle
  imports Event_State Event_Bus Store_Paging Store_Assign Execution_Races Aion_Runs
    Assignment_Service Deliverable_Service Dispatch_Live Agent_Service Code_Api Agent_Factory Config
    Execution_Api Agent_Api Platform_Api Service_Api Pg_Refine Pg_Reach Server_Runs
    Sandbox Assignment_Races Packages
begin

text \<open>
  A model of the Go backend of AI Software Factory (src/src): an HTTP service through which
  projects are broken into tasks, tasks are assigned to agents, and executions of tasks are run by
  worker processes, reviewed, and answered by versioned deliverables. The theories follow the
  packages under src/src/internal; each definition keeps the name of the function or type it
  models, with the store in front where names would clash (Task Update is Task_Update).

  \<^bold>\<open>How the code is modelled.\<close> A struct is a record, a string enumeration a datatype with a
  constructor for other texts, a map a partial function. A slice that is filled from a Go map
  takes the order of the iteration as an argument, so that every statement holds for every order.
  An operation takes the store and gives its answer, an error on the left of a sum, with the store
  it leaves; a panic is the value None of an outer option. Ids and instants a call draws are
  arguments. Integers are mathematical where the code stays far from the bounds of 64 bits and
  wrapped by wrap64 where it does not: page offsets, deliverable versions, number formatting.
  Operations that other goroutines may interleave with are split at their atomic parts, and the
  runs are inductive relations over those parts.

  \<^bold>\<open>Theories.\<close>

  \<^item> Prelude: 64-bit arithmetic, slices, sorting by a less function, iteration orders of maps,
    maps keyed by an id of the row. Model: the records and enumerations of package model. Errors:
    service/errors.go and package validation.
  \<^item> Store, Store_Agents, Store_Keyset, Store_Paging, Store_Assign: store/memory.go, all of its
    tables. The locales crud_table, crud_update and crud_delete state the contract of a row table
    and are interpreted on seven of them; Paging holds the contract of a keyset list, interpreted
    on executions, deliverables, agents and the capability catalog.
  \<^item> Event_State and Event_Bus: package events, the state table and the bus with its ring buffers.
  \<^item> Aion and Aion_Runs: package aion, the worker contract, the scripted runtime with its
    goroutines as steps, and the reading of the output of a worker process.
  \<^item> Execution_Service, Execution_Lifecycle and Execution_Races: service/execution.go, its
    operations, the runs of calls and background jobs one after the other (a service without a
    runtime starts a mock job with every create, and runs of it have the writes of that job), and
    the races of overlapping calls.
  \<^item> Capability_Service, Assignment_Service, Deliverable_Service, Agent_Service and
    Project_Service (tasks and projects): the services of these names. Assignment_Races splits
    the assignment call at its accesses to the store, shows the parts to be the call, and lets
    calls overlap.
  \<^item> Dispatch, Dispatch_Runs and Dispatch_Live: package dispatch, the bounded queue with its
    retries and the pool of workers; its safety, its termination and its deadlock.
  \<^item> Auth_Service and Http_Access: users, sessions and API keys; the middleware, the rate limit
    and the route table.
  \<^item> Platform_Services: code generation, reviews, deployments, webhooks, the audit log.
  \<^item> Go_Text, Web: the text functions of the standard library that the handlers use, and the
    request, query and error answers of gin. Execution_Api, Agent_Api, Service_Api, Platform_Api
    and Code_Api: the handlers of package handler. Config: package config. Agent_Factory: package
    agentfactory with its race of spawns and shutdown.
  \<^item> Process_Runs: aion/process.go, the runtime of production, with its child processes as steps.
    A context that ends does not kill its process at once: the kill is a later step. The locale worker_runtime is the contract of aion/runtime.go; both runtimes interpret it.
  \<^item> Pg_Base, Pg_Query, Pg_Core, Pg_Agents, Pg_Work and Pg_Code: store/postgres, the store that
    cmd/main.go takes when DB_HOST is set, on the tables of db/migrations. The locales row_table
    and row_table_update derive the contract of the in-memory tables from that of a SQL table;
    where_builder is the contract of the functions that put a WHERE clause together. Pg_Refine
    compares the two stores, Pg_Reach gives the databases that calls can reach.
  \<^item> Migrate: package db, the connection settings and the migration runner. Server: cmd/main.go
    from the settings to the shutdown, with the part of service.go and of the execution service
    that it sets up. Server_Runs: the executions of a server that runs, in steps: creates within
    their requests, the end of a request with its context, the processes, the drivers and the
    Shutdown; a driver keeps the request it comes from. Sandbox: sandbox.go and orchestrator.go, over the answers of a Docker client.
    Packages: pkg/errors, logger, integration and the remainders of a few packages.

  \<^bold>\<open>What is shown.\<close> For the store: tables behave as maps, pages together give every row once.
  For executions: with a runtime terminal rows never change, and completion needs a review, as long
  as calls do not overlap; what happens when they do, or when a mock job is under way; projects are
  isolated; what the driver of a worker writes; that a worker does not outlive the request that
  made it. For assignments and deliverables: one active assignment per task that the task row
  agrees with, also what is left of that when calls overlap, a version history without gaps under every interleaving. For the queue: accepted
  work is in one place, spawned a bounded number of times for each spec, worked off while the buffer has room,
  and stuck when all workers retry into a full buffer. For access: the gates are the role matrix,
  what a refresh token is good for, and that a server without users stays read-only. For
  PostgreSQL: where its tables agree with those in memory, and that no work can be stored in them.
  For the server: that it only ever comes up on PostgreSQL, and that a shutdown ends its workers,
  their drivers and, through these, their executions.
  Where the code does otherwise than a comment or its purpose, the theorem states what it does.

  \<^bold>\<open>Assumptions and bounds.\<close> Drawn ids are new, and so are the handles of processes. In the
  runs of Server_Runs an operation on the store is one step, and the other services neither write
  executions nor move a task to another project. The dispatch statements take a positive buffer
  and fewer than 2^64 spawned workers, those on deliverables versions below the greatest 64-bit
  integer, those on pages distinct ids. The measure of Dispatch_Live bounds every run of the pool,
  so no fuel is used there; the walk over pages takes a list of orders that is longer than the
  number of rows, which is shown to be enough. Token, hash, mail and id libraries are the record
  auth_lib, with their documented laws jwt_ok and uuid_ok as hypotheses; the rounding of floating
  point numbers is a parameter that is monotone and exact on whole numbers. Of
  SQL the model has what the statements use: constraints in the order of their kinds, cascades,
  comparison of texts by bytes; the rows come in any order (scan) and the fold of ILIKE is a
  parameter. The database is taken to answer every statement, and timestamps are cut to
  microseconds. The operating system may answer a process start in any way.

  \<^bold>\<open>Not modelled.\<close> The effect of the SQL files of the migrations beyond the schemas; the
  system calls of signals and of the listener; path matching in gin, JSON decoding and logging;
  the orchestrator's ticker, which only logs; the web frontend and the scripts.
\<close>

end
